(* ===== verification/Prelude.thy ===== *)
theory Prelude
  imports Complex_Main "HOL-Library.List_Lexorder" "HOL-Library.Char_ord"
begin

text \<open>
  Shared vocabulary of the development: the Python string operations the sources use (strings are
  lists of characters; case mapping and white space are the ASCII ones), \<open>sorted(set(xs))\<close>,
  raising comprehensions, and the interfaces several components share, stated as locales:
  \<^item> \<open>append_log\<close>: a table that only grows (receipts, runtime events);
  \<^item> \<open>exclusive_slot\<close>: a key that at most one holder owns until it is released
    (intent lineages, issue claims);
  \<^item> \<open>one_shot\<close>: a token that is spent at most once (dispatch nonces);
  \<^item> \<open>kept_view\<close>: what a view shows stays, up to what may become of it (task rows, intents, claims on an attempt).
\<close>

named_theorems py_simps \<open>unfolding of the Python string operations\<close>

type_synonym time = real

section \<open>Python strings\<close>

definition is_space :: "char \<Rightarrow> bool" where
  "is_space c \<longleftrightarrow>
     c \<in> set [CHR 0x09, CHR 0x0A, CHR 0x0B, CHR 0x0C, CHR 0x0D, CHR 0x1C, CHR 0x1D, CHR 0x1E,
             CHR 0x1F, CHR 0x20]"

definition py_lstrip :: "string \<Rightarrow> string" where
  "py_lstrip s = dropWhile is_space s"

definition py_rstrip :: "string \<Rightarrow> string" where
  "py_rstrip s = rev (dropWhile is_space (rev s))"

definition py_strip :: "string \<Rightarrow> string" where
  "py_strip s = py_rstrip (py_lstrip s)"

definition lower_char :: "char \<Rightarrow> char" where
  "lower_char c = (let n = of_char c :: nat in if 65 \<le> n \<and> n \<le> 90 then char_of (n + 32) else c)"

definition upper_char :: "char \<Rightarrow> char" where
  "upper_char c = (let n = of_char c :: nat in if 97 \<le> n \<and> n \<le> 122 then char_of (n - 32) else c)"

definition py_lower :: "string \<Rightarrow> string" where
  "py_lower = map lower_char"

definition py_upper :: "string \<Rightarrow> string" where
  "py_upper = map upper_char"

definition is_alpha :: "char \<Rightarrow> bool" where
  "is_alpha c = (let n = of_char c :: nat in (65 \<le> n \<and> n \<le> 90) \<or> (97 \<le> n \<and> n \<le> 122))"

definition is_digit :: "char \<Rightarrow> bool" where
  "is_digit c = (let n = of_char c :: nat in 48 \<le> n \<and> n \<le> 57)"

fun startswith :: "string \<Rightarrow> string \<Rightarrow> bool" where
  "startswith s [] = True"
| "startswith [] (p # ps) = False"
| "startswith (c # cs) (p # ps) = (c = p \<and> startswith cs ps)"

definition endswith :: "string \<Rightarrow> string \<Rightarrow> bool" where
  "endswith s p = startswith (rev s) (rev p)"

definition removeprefix :: "string \<Rightarrow> string \<Rightarrow> string" where
  "removeprefix s p = (if startswith s p then drop (length p) s else s)"

definition removesuffix :: "string \<Rightarrow> string \<Rightarrow> string" where
  "removesuffix s p = (if p \<noteq> [] \<and> endswith s p then take (length s - length p) s else s)"

text \<open>\<open>str.split(c)\<close>: the segments between separators, never an empty list.\<close>

fun py_split :: "char \<Rightarrow> string \<Rightarrow> string list" where
  "py_split d [] = [[]]"
| "py_split d (c # cs) =
     (if c = d then [] # py_split d cs
      else case py_split d cs of [] \<Rightarrow> [[c]] | w # ws \<Rightarrow> (c # w) # ws)"

text \<open>\<open>d.join(ws)\<close> for a one-character separator.\<close>

fun py_join :: "char \<Rightarrow> string list \<Rightarrow> string" where
  "py_join d [] = []"
| "py_join d [w] = w"
| "py_join d (w # v # ws) = w @ d # py_join d (v # ws)"

text \<open>\<open>str.partition(c)\<close>: (before, found, after).\<close>

definition py_partition :: "char \<Rightarrow> string \<Rightarrow> string \<times> bool \<times> string" where
  "py_partition d s =
     (let a = takeWhile (\<lambda>c. c \<noteq> d) s; r = dropWhile (\<lambda>c. c \<noteq> d) s
      in case r of [] \<Rightarrow> (a, False, []) | _ # t \<Rightarrow> (a, True, t))"

lemma startswith_append [simp]: "startswith (p @ s) p"
  by (induction p) auto

lemma startswith_refl [simp]: "startswith p p"
  by (induction p) auto

lemma startswith_iff: "startswith s p \<longleftrightarrow> (\<exists>r. s = p @ r)"
  by (induction s p rule: startswith.induct) auto

lemma startswith_clash: "startswith s (c # p) \<Longrightarrow> startswith s (d # q) \<Longrightarrow> c = d"
  by (cases s) auto

lemma py_split_nonempty [simp]: "py_split d s \<noteq> []"
  by (induction s) (auto split: list.splits)

lemma py_split_no_sep: "d \<notin> set w \<Longrightarrow> py_split d w = [w]"
  by (induction w) auto

lemma py_split_append_sep:
  "d \<notin> set w \<Longrightarrow> py_split d (w @ d # s) = w # py_split d s"
  by (induction w) auto

lemma py_split_join:
  "ws \<noteq> [] \<Longrightarrow> \<forall>w\<in>set ws. d \<notin> set w \<Longrightarrow> py_split d (py_join d ws) = ws"
  by (induction d ws rule: py_join.induct) (auto simp: py_split_no_sep py_split_append_sep)

lemma py_split_segments: "w \<in> set (py_split d s) \<Longrightarrow> d \<notin> set w"
  by (induction s arbitrary: w) (auto split: list.splits if_splits)

lemma py_join_split: "py_join d (py_split d s) = s"
proof (induction s)
  case Nil
  then show ?case by simp
next
  case (Cons c s)
  obtain w ws where "py_split d s = w # ws"
    by (cases "py_split d s") auto
  with Cons show ?case by (cases ws) auto
qed

section \<open>Sorted sets\<close>

text \<open>Python's \<open>sorted(set(xs))\<close>.\<close>

definition sorted_set :: "'a::linorder list \<Rightarrow> 'a list" where
  "sorted_set xs = sort (remdups xs)"

lemma set_sorted_set [simp]: "set (sorted_set xs) = set xs"
  by (simp add: sorted_set_def)

lemma sorted_sorted_set [simp]: "sorted (sorted_set xs)"
  by (simp add: sorted_set_def)

lemma distinct_sorted_set [simp]: "distinct (sorted_set xs)"
  by (simp add: sorted_set_def)

lemma sorted_set_cong: "set xs = set ys \<Longrightarrow> sorted_set xs = sorted_set ys"
  by (rule sorted_distinct_set_unique) auto

lemma sorted_set_idem [simp]: "sorted_set (sorted_set xs) = sorted_set xs"
  by (rule sorted_set_cong) simp

section \<open>Comprehensions that may raise\<close>

text \<open>\<open>[f(x) for x in xs]\<close> where \<open>f\<close> may raise: the first error wins.\<close>

fun map_err :: "('a \<Rightarrow> 'e + 'b) \<Rightarrow> 'a list \<Rightarrow> 'e + 'b list" where
  "map_err f [] = Inr []"
| "map_err f (x # xs) =
     (case f x of Inl e \<Rightarrow> Inl e
      | Inr y \<Rightarrow> (case map_err f xs of Inl e \<Rightarrow> Inl e | Inr ys \<Rightarrow> Inr (y # ys)))"

lemma map_err_InrD: "map_err f xs = Inr ys \<Longrightarrow> list_all2 (\<lambda>x y. f x = Inr y) xs ys"
  by (induction xs arbitrary: ys) (auto split: sum.splits)

lemma map_err_Inr_iff: "map_err f xs = Inr ys \<longleftrightarrow> list_all2 (\<lambda>x y. f x = Inr y) xs ys"
proof
  show "list_all2 (\<lambda>x y. f x = Inr y) xs ys \<Longrightarrow> map_err f xs = Inr ys"
    by (induction rule: list_all2_induct) auto
qed (rule map_err_InrD)

lemma map_err_Inr_set:
  "map_err f xs = Inr ys \<Longrightarrow> set ys = {y. \<exists>x\<in>set xs. f x = Inr y}"
proof (induction xs arbitrary: ys)
  case Nil
  then show ?case by simp
next
  case (Cons x xs)
  then obtain y ys' where "f x = Inr y" "map_err f xs = Inr ys'" "ys = y # ys'"
    by (auto split: sum.splits)
  with Cons.IH show ?case by auto
qed

lemma map_err_Inl_iff: "(\<exists>e. map_err f xs = Inl e) \<longleftrightarrow> (\<exists>x\<in>set xs. \<exists>e. f x = Inl e)"
  by (induction xs) (auto split: sum.splits)

section \<open>Early returns\<close>

text \<open>
  A handler with early returns is a list of stages, each of which may answer; the first answer is
  the handler's.
\<close>

fun first_answer :: "'a option list \<Rightarrow> 'a \<Rightarrow> 'a" where
  "first_answer [] d = d"
| "first_answer (None # xs) d = first_answer xs d"
| "first_answer (Some a # xs) d = a"

lemma first_answer_Cons: "first_answer (x # xs) d = (case x of None \<Rightarrow> first_answer xs d | Some a \<Rightarrow> a)"
  by (cases x) auto

section \<open>Named checks\<close>

text \<open>The names of the checks that hold, in a list of named conditions.\<close>

lemma named_member: "f \<in> set (map fst (filter snd xs)) \<longleftrightarrow> (f, True) \<in> set xs"
  by (force simp: image_iff)

lemma named_Nil_iff: "map fst (filter snd xs) = [] \<longleftrightarrow> list_all (\<lambda>x. \<not> snd x) xs"
  by (simp add: filter_empty_conv list_all_iff)

section \<open>Association by key\<close>

text \<open>The first row of a table with a given key, and the rows changed under that key.\<close>

definition row_of :: "('r \<Rightarrow> 'k) \<Rightarrow> 'k \<Rightarrow> 'r list \<Rightarrow> 'r option" where
  "row_of key k t = find (\<lambda>r. key r = k) t"

lemma row_of_Nil [simp]: "row_of key k [] = None"
  by (simp add: row_of_def)

lemma row_of_Cons [simp]: "row_of key k (r # t) = (if key r = k then Some r else row_of key k t)"
  by (simp add: row_of_def)

lemma row_of_append:
  "row_of key k (s @ t) = (case row_of key k s of None \<Rightarrow> row_of key k t | Some r \<Rightarrow> Some r)"
  by (induction s) auto

lemma row_of_None_iff: "row_of key k t = None \<longleftrightarrow> k \<notin> key ` set t"
  by (induction t) auto

lemma row_of_SomeD: "row_of key k t = Some r \<Longrightarrow> r \<in> set t \<and> key r = k"
  by (induction t) (auto split: if_splits)

lemma row_of_distinct:
  "distinct (map key t) \<Longrightarrow> r \<in> set t \<Longrightarrow> row_of key (key r) t = Some r"
  by (induction t) auto

lemma row_of_filter_other:
  "(\<And>r. r \<in> set t \<Longrightarrow> key r = k \<Longrightarrow> p r) \<Longrightarrow> row_of key k (filter p t) = row_of key k t"
  by (induction t) auto

lemma row_of_map_upd:
  "(\<And>r. key (f r) = key r) \<Longrightarrow> row_of key k (map f t) = map_option f (row_of key k t)"
  by (induction t) auto

lemma row_of_update:
  assumes "\<And>r. key (f r) = key r"
  shows "row_of key j (map (\<lambda>r. if key r = i then f r else r) t) = (if i = j then map_option f (row_of key j t) else row_of key j t)"
  by (induction t) (auto simp: assms)

text \<open>A table whose rows may change only as \<open>kept\<close> allows, and to which rows may be added.\<close>

definition table_kept :: "('r \<Rightarrow> 'k) \<Rightarrow> ('r \<Rightarrow> 'r \<Rightarrow> bool) \<Rightarrow> 'r list \<Rightarrow> 'r list \<Rightarrow> bool" where
  "table_kept key kept vs ws \<longleftrightarrow>
     (\<forall>k v. row_of key k vs = Some v \<longrightarrow> (\<exists>w. row_of key k ws = Some w \<and> kept v w))"

lemma table_kept_refl [simp]: "(\<And>v. kept v v) \<Longrightarrow> table_kept key kept ws ws"
  by (simp add: table_kept_def)

lemma table_kept_trans:
  assumes "\<And>u v w. kept u v \<Longrightarrow> kept v w \<Longrightarrow> kept u w"
    and "table_kept key kept us vs" and "table_kept key kept vs ws"
  shows "table_kept key kept us ws"
  using assms(2,3) unfolding table_kept_def by (blast intro: assms(1))

lemma table_kept_append [simp]: "(\<And>v. kept v v) \<Longrightarrow> table_kept key kept ws (ws @ new)"
  by (simp add: table_kept_def row_of_append)

lemma table_kept_map:
  assumes "\<And>w. key (f w) = key w" and "\<And>k w. row_of key k ws = Some w \<Longrightarrow> kept w (f w)"
  shows "table_kept key kept ws (map f ws)"
  using assms by (simp add: table_kept_def row_of_map_upd)

section \<open>Interfaces shared by the components\<close>

text \<open>
  A log: every operation appends. What the client relies on: an entry once written keeps its
  place, whatever is appended after it.
\<close>

locale append_log =
  fixes entries :: "'s \<Rightarrow> 'e list"
    and step :: "'s \<Rightarrow> 's \<Rightarrow> bool"
  assumes appends: "step s t \<Longrightarrow> \<exists>es. entries t = entries s @ es"
begin

lemma run_appends: "step\<^sup>*\<^sup>* s t \<Longrightarrow> \<exists>es. entries t = entries s @ es"
proof (induction rule: rtranclp_induct)
  case base
  show ?case by simp
next
  case (step t u)
  then show ?case using appends by fastforce
qed

lemma run_keeps_entry: "step\<^sup>*\<^sup>* s t \<Longrightarrow> i < length (entries s) \<Longrightarrow> entries t ! i = entries s ! i"
  using run_appends by (fastforce simp: nth_append)

lemma run_length_mono: "step\<^sup>*\<^sup>* s t \<Longrightarrow> length (entries s) \<le> length (entries t)"
  using run_appends by fastforce

lemma run_entry_stays: "step\<^sup>*\<^sup>* s t \<Longrightarrow> e \<in> set (entries s) \<Longrightarrow> e \<in> set (entries t)"
  using run_appends by fastforce

end

text \<open>
  A slot per key with at most one holder: \<open>claim\<close> succeeds only on a free slot, and a
  slot that is held stays with its holder under every claim.
\<close>

locale exclusive_slot =
  fixes holder :: "'s \<Rightarrow> 'k \<Rightarrow> 'h option"
    and claim :: "'s \<Rightarrow> 'k \<Rightarrow> 'h \<Rightarrow> bool \<times> 's"
  assumes claim_won: "claim s k h = (True, t) \<Longrightarrow> holder s k = None \<and> holder t k = Some h"
    and claim_lost: "claim s k h = (False, t) \<Longrightarrow> holder t k = holder s k"
    and claim_held: "holder s k \<noteq> None \<Longrightarrow> \<not> fst (claim s k h)"
    and claim_frame: "claim s k h = (b, t) \<Longrightarrow> j \<noteq> k \<Longrightarrow> holder t j = holder s j"
begin

fun claims :: "'s \<Rightarrow> ('k \<times> 'h) list \<Rightarrow> bool list \<times> 's" where
  "claims s [] = ([], s)"
| "claims s ((k, h) # ks) =
     (let (b, t) = claim s k h; (bs, u) = claims t ks in (b # bs, u))"

lemma claims_cons:
  "claims s ((k, h) # ks) =
     (fst (claim s k h) # fst (claims (snd (claim s k h)) ks), snd (claims (snd (claim s k h)) ks))"
  by (simp add: case_prod_beta Let_def)

lemma claims_hold: "holder s k = Some h \<Longrightarrow> holder (snd (claims s ks)) k = Some h"
proof (induction ks arbitrary: s)
  case Nil
  then show ?case by simp
next
  case (Cons a ks)
  obtain j g where a: "a = (j, g)" by (cases a)
  have "holder (snd (claim s j g)) k = Some h"
  proof (cases "j = k")
    case True
    with Cons.prems claim_held [of s k g] have "\<not> fst (claim s k g)" by simp
    then have "claim s k g = (False, snd (claim s k g))" by (cases "claim s k g") auto
    with claim_lost Cons.prems True show ?thesis by metis
  next
    case False
    with claim_frame Cons.prems show ?thesis by (metis prod.collapse)
  qed
  with a Cons.IH show ?case by (simp only: claims_cons snd_conv)
qed

lemma claims_none_wins: "holder s k = Some h \<Longrightarrow> i < length ks \<Longrightarrow> fst (ks ! i) = k
  \<Longrightarrow> \<not> fst (claims s ks) ! i"
proof (induction ks arbitrary: s i)
  case Nil
  then show ?case by simp
next
  case (Cons a ks)
  obtain j g where a: "a = (j, g)" by (cases a)
  have held: "holder (snd (claim s j g)) k = Some h"
    using claims_hold [OF Cons.prems(1), of "[(j, g)]"] by (simp only: claims_cons claims.simps snd_conv)
  show ?case
  proof (cases i)
    case 0
    with Cons.prems a claim_held [of s k g] show ?thesis by (simp only: claims_cons) simp
  next
    case (Suc m)
    with Cons.prems a Cons.IH [OF held, of m] show ?thesis by (simp only: claims_cons) simp
  qed
qed

end

text \<open>A token spent at most once: spending reports success only on an unspent token.\<close>

locale one_shot =
  fixes spent :: "'s \<Rightarrow> 'k \<Rightarrow> bool"
    and spend :: "'s \<Rightarrow> 'k \<Rightarrow> bool \<times> 's"
    and other :: "'s \<Rightarrow> 's \<Rightarrow> bool"
  assumes spend_ok: "spend s k = (True, t) \<Longrightarrow> \<not> spent s k \<and> spent t k"
    and spend_mono: "spend s k = (b, t) \<Longrightarrow> spent s j \<Longrightarrow> spent t j"
    and other_mono: "other s t \<Longrightarrow> spent s j \<Longrightarrow> spent t j"
begin

inductive run :: "'s \<Rightarrow> 's \<Rightarrow> bool" where
  idle: "run s s"
| spends: "run s t \<Longrightarrow> spend t k = (b, u) \<Longrightarrow> run s u"
| others: "run s t \<Longrightarrow> other t u \<Longrightarrow> run s u"

lemma run_spent: "run s t \<Longrightarrow> spent s k \<Longrightarrow> spent t k"
  by (induction rule: run.induct) (auto intro: spend_mono other_mono)

lemma spent_refused: "spent s k \<Longrightarrow> \<not> fst (spend s k)"
  using spend_ok [of s k "snd (spend s k)"] by (cases "spend s k") auto

lemma spent_once:
  assumes "spend s k = (True, t)" and "run t u"
  shows "\<not> fst (spend u k)"
proof -
  from spend_ok [OF assms(1)] have "spent t k" by blast
  with assms(2) have "spent u k" by (rule run_spent)
  then show ?thesis by (rule spent_refused)
qed

end

text \<open>
  A table whose rows are never lost: in every state that is well formed a step keeps each row up to an
  order, and so does a run.
\<close>

locale kept_view =
  fixes view :: "'s \<Rightarrow> 'k \<Rightarrow> 'v option"
    and kept :: "'v \<Rightarrow> 'v \<Rightarrow> bool"
    and ok :: "'s \<Rightarrow> bool"
    and step :: "'s \<Rightarrow> 's \<Rightarrow> bool"
  assumes step_ok: "step s t \<Longrightarrow> ok s \<Longrightarrow> ok t"
    and step_kept: "step s t \<Longrightarrow> ok s \<Longrightarrow> view s k = Some v \<Longrightarrow> \<exists>w. view t k = Some w \<and> kept v w"
    and kept_refl: "kept v v"
    and kept_trans: "kept u v \<Longrightarrow> kept v w \<Longrightarrow> kept u w"
begin

lemma stays_ok: "step\<^sup>*\<^sup>* s t \<Longrightarrow> ok s \<Longrightarrow> ok t"
  by (induction rule: rtranclp_induct) (auto intro: step_ok)

lemma run_kept:
  assumes "step\<^sup>*\<^sup>* s t" and "ok s" and "view s k = Some v"
  shows "\<exists>w. view t k = Some w \<and> kept v w"
  using assms(1)
proof (induction rule: rtranclp_induct)
  case base
  show ?case using assms(3) kept_refl by blast
next
  case (step t u)
  with step_kept [OF step.hyps(2) stays_ok [OF step.hyps(1) assms(2)]] show ?case
    using kept_trans by blast
qed

end

end
