(* ===== verification/Json.thy ===== *)
theory Json
  imports Prelude "HOL-Library.Multiset"
begin

text \<open>
  \<open>src/agent_crew/cea/schema.py\<close>: JSON values and \<open>canonical_json\<close>, the text that is hashed and
  signed (\<open>json.dumps\<close> with sorted keys, the separators \<open>,\<close> and \<open>:\<close>, no ASCII escaping).
  Objects are association lists in the order they were built; the printer sorts them by key.
\<close>

datatype json =
    JNull
  | JBool bool
  | JInt int
  | JStr string
  | JArr "json list"
  | JObj "(string \<times> json) list"

definition hex_digit :: "nat \<Rightarrow> char" where
  "hex_digit n = char_of (if n < 10 then 48 + n else 87 + n)"

definition json_char :: "char \<Rightarrow> string" where
  "json_char c =
     (if c = CHR 0x22 then [CHR 0x5C, CHR 0x22]
      else if c = CHR 0x5C then [CHR 0x5C, CHR 0x5C]
      else if c = CHR 0x0A then [CHR 0x5C, CHR ''n'']
      else if c = CHR 0x0D then [CHR 0x5C, CHR ''r'']
      else if c = CHR 0x09 then [CHR 0x5C, CHR ''t'']
      else if c = CHR 0x08 then [CHR 0x5C, CHR ''b'']
      else if c = CHR 0x0C then [CHR 0x5C, CHR ''f'']
      else let n = of_char c :: nat in
        if n < 32 then CHR 0x5C # ''u00'' @ [hex_digit (n div 16), hex_digit (n mod 16)]
        else [c])"

definition json_string :: "string \<Rightarrow> string" where
  "json_string s = CHR 0x22 # concat (map json_char s) @ [CHR 0x22]"

fun show_nat :: "nat \<Rightarrow> string" where
  "show_nat n = (if n < 10 then [char_of (48 + n)] else show_nat (n div 10) @ [char_of (48 + n mod 10)])"

declare show_nat.simps [simp del]

definition show_int :: "int \<Rightarrow> string" where
  "show_int i = (if i < 0 then CHR ''-'' # show_nat (nat (- i)) else show_nat (nat i))"

fun canonical_json :: "json \<Rightarrow> string" where
  "canonical_json JNull = ''null''"
| "canonical_json (JBool b) = (if b then ''true'' else ''false'')"
| "canonical_json (JInt i) = show_int i"
| "canonical_json (JStr s) = json_string s"
| "canonical_json (JArr xs) = CHR ''['' # py_join CHR '','' (map canonical_json xs) @ '']''"
| "canonical_json (JObj kvs) =
     CHR ''{'' #
     py_join CHR '',''
       (map (\<lambda>(k, t). json_string k @ CHR '':'' # t)
         (sort_key fst (map (\<lambda>(k, v). (k, canonical_json v)) kvs))) @ ''}''"

text \<open>Keys are sorted: an object prints the same in whatever order it was built.\<close>

lemma canonical_json_obj_order:
  assumes "mset kvs = mset kvs'" and "distinct (map fst kvs)"
  shows "canonical_json (JObj kvs) = canonical_json (JObj kvs')"
proof -
  let ?p = "map (\<lambda>(k, v). (k, canonical_json v))"
  have "distinct (map fst (?p kvs))"
    using assms(2) by (simp add: comp_def case_prod_beta)
  then have inj: "inj_on fst (set (?p kvs))"
    using distinct_map by blast
  have "mset (?p kvs) = mset (?p kvs')"
    using assms(1) by (simp only: mset_map)
  then have "sort_key fst (?p kvs) = sort_key fst (?p kvs')"
    using inj by (intro sort_key_inj_key_eq) auto
  then show ?thesis by simp
qed

end
