(* ===== verification/Intent.thy ===== *)
theory Intent
  imports Json
begin

text \<open>
  \<open>src/agent_crew/cea/intent.py\<close>: the identity of an intent (ADR P4), the canonical spelling of its
  scope anchors, and the hash over it (\<open>intent_hash\<close>, \<open>work_hash\<close> of
  \<open>src/agent_crew/cea/engine.py\<close>). A raised \<open>InvalidScopeAnchor\<close> is an \<open>Inl\<close>. SHA-256 is the
  parameter \<open>sha256\<close> (text to hexadecimal digest). The lemmas show that a canonical path is
  canonical again, that it never leaves its root, and that the hash ignores order and repetition.
\<close>

section \<open>Data\<close>

datatype work_class = IMPLEMENT | FIX | REVIEW_WORK | TEST_WORK | MERGE | OPS

fun work_class_value :: "work_class \<Rightarrow> string" where
  "work_class_value IMPLEMENT = ''implement''"
| "work_class_value FIX = ''fix''"
| "work_class_value REVIEW_WORK = ''review''"
| "work_class_value TEST_WORK = ''test''"
| "work_class_value MERGE = ''merge''"
| "work_class_value OPS = ''ops''"

definition identity_dependent_work_classes :: "work_class list" where
  "identity_dependent_work_classes = [OPS]"

datatype caller_provenance = CRON | DIRECT | COORDINATOR | MANUAL | CASCADE | RETRY | WATCHDOG

datatype identity_status = VERIFIED | UNVERIFIED

record target =
  t_repo :: string
  t_base_ref :: string
  t_scope_anchors :: "string list"

record intent_identity =
  id_project :: string
  id_work_class :: work_class
  id_target :: target
  id_capability_id :: "string option"
  id_authority_decision_ids :: "string list"

record intent =
  in_identity :: intent_identity
  in_task_id :: string
  in_task_type :: string
  in_description :: string
  in_coordinator_id :: "string option"
  in_idempotency_key :: "string option"
  in_parent_receipt_id :: "string option"

text \<open>
  A caller is an object; \<open>ca_object\<close> is its identity (\<open>is\<close>), which is what the registry of
  minted callers of \<open>_caller_mint.py\<close> compares.
\<close>

record caller =
  ca_object :: nat
  ca_principal :: string
  ca_provenance :: caller_provenance
  ca_identity_status :: identity_status
  ca_credential_kind :: string

section \<open>Canonical scope anchors\<close>

datatype anchor_error = AnchorEmpty | SchemeOnly | NormalisesToNothing | AboveRoot

text \<open>The loop of \<open>posixpath.normpath\<close>; the components kept so far, in reverse.\<close>

fun norm_comps :: "bool \<Rightarrow> string list \<Rightarrow> string list \<Rightarrow> string list" where
  "norm_comps ab acc [] = rev acc"
| "norm_comps ab acc (c # cs) =
     (if c = [] \<or> c = ''.'' then norm_comps ab acc cs
      else if c \<noteq> ''..'' \<or> (\<not> ab \<and> acc = []) \<or> (acc \<noteq> [] \<and> hd acc = ''..'')
      then norm_comps ab (c # acc) cs
      else norm_comps ab (tl acc) cs)"

definition initial_slashes :: "string \<Rightarrow> nat" where
  "initial_slashes p =
     (if startswith p ''/'' then (if startswith p ''//'' \<and> \<not> startswith p ''///'' then 2 else 1)
      else 0)"

definition normpath :: "string \<Rightarrow> string" where
  "normpath p =
     (if p = [] then ''.''
      else let n = initial_slashes p;
               q = replicate n CHR ''/'' @ py_join CHR ''/'' (norm_comps (n \<noteq> 0) [] (py_split CHR ''/'' p))
           in if q = [] then ''.'' else q)"

definition canonical_path :: "string \<Rightarrow> anchor_error + string" where
  "canonical_path p =
     (let m = normpath p;
          n = (if startswith m ''//'' \<and> \<not> startswith m ''///'' then tl m else m)
      in if n = ''.'' \<or> n = [] then Inl NormalisesToNothing
         else if n = ''..'' \<or> startswith n ''../'' then Inl AboveRoot
         else Inr n)"

definition scheme_char :: "char \<Rightarrow> bool" where
  "scheme_char c \<longleftrightarrow> is_alpha c \<or> is_digit c \<or> c \<in> set ''+.-''"

text \<open>
  The regular expression \<open>^([A-Za-z][A-Za-z0-9+.-]*):(//)?\<close>: the scheme, whether \<open>//\<close> follows, and
  the rest after the match.
\<close>

definition match_scheme :: "string \<Rightarrow> (string \<times> bool \<times> string) option" where
  "match_scheme raw =
     (case raw of [] \<Rightarrow> None
      | c # cs \<Rightarrow>
          if is_alpha c
          then (case dropWhile scheme_char cs of [] \<Rightarrow> None
                | d # ds \<Rightarrow>
                    if d = CHR '':''
                    then Some (c # takeWhile scheme_char cs, startswith ds ''//'', removeprefix ds ''//'')
                    else None)
          else None)"

definition canonical_scope_anchor :: "string \<Rightarrow> anchor_error + string" where
  "canonical_scope_anchor anchor =
     (let raw = py_strip anchor
      in if raw = [] then Inl AnchorEmpty
         else (case match_scheme raw of
             None \<Rightarrow> canonical_path raw
           | Some (scheme, slashes, rest) \<Rightarrow>
               if \<not> slashes
               then (if rest = [] then Inl SchemeOnly else Inr (py_lower scheme @ '':'' @ rest))
               else (case py_partition CHR ''/'' rest of (authority, _, path) \<Rightarrow>
                 let head = py_lower scheme @ ''://'' @ py_lower authority
                 in if path = [] then Inr head
                    else (case canonical_path path of Inl e \<Rightarrow> Inl e
                          | Inr cp \<Rightarrow> Inr (if cp = [] then head else head @ ''/'' @ cp)))))"

definition canonical_anchors :: "string list \<Rightarrow> anchor_error + string list" where
  "canonical_anchors anchors =
     (case map_err canonical_scope_anchor anchors of Inl e \<Rightarrow> Inl e | Inr cs \<Rightarrow> Inr (sorted_set cs))"

definition canonical_identity :: "intent_identity \<Rightarrow> anchor_error + intent_identity" where
  "canonical_identity i =
     (case canonical_anchors (t_scope_anchors (id_target i)) of Inl e \<Rightarrow> Inl e
      | Inr cs \<Rightarrow> Inr (i\<lparr>id_target := (id_target i)\<lparr>t_scope_anchors := cs\<rparr>\<rparr>))"

section \<open>The intent hash\<close>

definition json_opt :: "string option \<Rightarrow> json" where
  "json_opt v = (case v of None \<Rightarrow> JNull | Some s \<Rightarrow> JStr s)"

definition identity_body :: "intent_identity \<Rightarrow> string list \<Rightarrow> json" where
  "identity_body i anchors =
     JObj [(''project'', JStr (id_project i)),
           (''work_class'', JStr (work_class_value (id_work_class i))),
           (''target'', JObj [(''repo'', JStr (t_repo (id_target i))),
                              (''base_ref'', JStr (t_base_ref (id_target i))),
                              (''scope_anchors'', JArr (map JStr anchors))]),
           (''capability_id'', json_opt (id_capability_id i)),
           (''authority_decision_ids'', JArr (map JStr (sorted_set (id_authority_decision_ids i))))]"

definition hash_identity :: "(string \<Rightarrow> string) \<Rightarrow> intent_identity \<Rightarrow> string list \<Rightarrow> string" where
  "hash_identity sha256 i anchors = ''sha256:'' @ sha256 (canonical_json (identity_body i anchors))"

definition intent_hash :: "(string \<Rightarrow> string) \<Rightarrow> intent_identity \<Rightarrow> anchor_error + string" where
  "intent_hash sha256 i =
     (case canonical_identity i of Inl e \<Rightarrow> Inl e
      | Inr c \<Rightarrow> Inr (hash_identity sha256 i (t_scope_anchors (id_target c))))"

definition work_hash :: "(string \<Rightarrow> string) \<Rightarrow> intent_identity \<Rightarrow> anchor_error + string" where
  "work_hash sha256 i = intent_hash sha256 (i\<lparr>id_authority_decision_ids := []\<rparr>)"

definition uncanonical_intent_hash :: "(string \<Rightarrow> string) \<Rightarrow> intent_identity \<Rightarrow> string" where
  "uncanonical_intent_hash sha256 i =
     hash_identity sha256 i (sorted_set (t_scope_anchors (id_target i)))"

section \<open>Minted callers (\<open>_caller_mint.py\<close>)\<close>

text \<open>
  \<open>mint_caller\<close>: the registry is the set of minted objects; a fresh object joins it. Python's type
  checks on the arguments are the model's types; the empty strings are refused.
\<close>

datatype mint_error = NoPrincipal | NoCredentialKind

definition mint_caller ::
  "nat list \<Rightarrow> nat \<Rightarrow> string \<Rightarrow> caller_provenance \<Rightarrow> string \<Rightarrow> mint_error + (caller \<times> nat list)" where
  "mint_caller minted fresh who prov kind =
     (if who = [] then Inl NoPrincipal
      else if kind = [] then Inl NoCredentialKind
      else Inr (\<lparr>ca_object = fresh, ca_principal = who, ca_provenance = prov,
                 ca_identity_status = UNVERIFIED, ca_credential_kind = kind\<rparr>, fresh # minted))"

definition is_authenticated_caller :: "nat list \<Rightarrow> caller \<Rightarrow> bool" where
  "is_authenticated_caller minted c \<longleftrightarrow> ca_object c \<in> set minted"

section \<open>Canonical paths are canonical\<close>

definition clean_comp :: "string \<Rightarrow> bool" where
  "clean_comp c \<longleftrightarrow> c \<noteq> [] \<and> CHR ''/'' \<notin> set c \<and> c \<noteq> ''.'' \<and> c \<noteq> ''..''"

definition kept_comp :: "string \<Rightarrow> bool" where
  "kept_comp c \<longleftrightarrow> c \<noteq> [] \<and> CHR ''/'' \<notin> set c \<and> c \<noteq> ''.''"

lemma norm_comps_clean:
  "\<forall>c\<in>set cs. clean_comp c \<Longrightarrow> norm_comps ab acc cs = rev acc @ cs"
  by (induction cs arbitrary: acc) (auto simp: clean_comp_def)

text \<open>
  What the loop maintains: the components kept so far are names, except for leading \<open>..\<close>
  components, and none of those under an absolute path.
\<close>

definition kept_form :: "bool \<Rightarrow> string list \<Rightarrow> bool" where
  "kept_form ab ws \<longleftrightarrow>
     (\<exists>k cs. ws = replicate k ''..'' @ cs \<and> (\<forall>c\<in>set cs. clean_comp c) \<and> (ab \<longrightarrow> k = 0))"

lemma kept_form_snoc:
  "kept_form ab ws \<Longrightarrow> clean_comp c \<Longrightarrow> kept_form ab (ws @ [c])"
proof -
  assume "kept_form ab ws" and c: "clean_comp c"
  then obtain k cs where "ws = replicate k ''..'' @ cs" "\<forall>d\<in>set cs. clean_comp d" "ab \<longrightarrow> k = 0"
    by (auto simp: kept_form_def)
  with c show ?thesis unfolding kept_form_def
    by (intro exI [of _ k] exI [of _ "cs @ [c]"]) auto
qed

lemma kept_form_dots:
  assumes "kept_form False ws" and "ws = [] \<or> last ws = ''..''"
  shows "kept_form False (ws @ [''..''])"
proof -
  from assms(1) obtain k cs where ws: "ws = replicate k ''..'' @ cs" and cs: "\<forall>c\<in>set cs. clean_comp c"
    by (auto simp: kept_form_def)
  have "cs = []"
  proof (rule ccontr)
    assume "cs \<noteq> []"
    with ws assms(2) have "last cs = ''..''" by auto
    moreover from \<open>cs \<noteq> []\<close> cs have "clean_comp (last cs)" by simp
    ultimately show False by (simp add: clean_comp_def)
  qed
  with ws have "ws @ [''..''] = replicate (Suc k) ''..'' @ []"
    by (simp add: replicate_append_same)
  then show ?thesis unfolding kept_form_def
    by (intro exI [of _ "Suc k"] exI [of _ "[]"]) auto
qed

lemma kept_form_butlast: "kept_form ab (ws @ [c]) \<Longrightarrow> kept_form ab ws"
proof -
  assume "kept_form ab (ws @ [c])"
  then obtain k cs where eq: "ws @ [c] = replicate k ''..'' @ cs"
    and cs: "\<forall>d\<in>set cs. clean_comp d" and ab: "ab \<longrightarrow> k = 0"
    by (auto simp: kept_form_def)
  show "kept_form ab ws"
  proof (cases cs rule: rev_cases)
    case Nil
    with eq have "ws @ [c] = replicate k ''..''" by simp
    then obtain m where "k = Suc m" "ws = replicate m ''..''"
      by (cases k) (auto simp: replicate_append_same [symmetric])
    with ab show ?thesis unfolding kept_form_def
      by (intro exI [of _ m] exI [of _ "[]"]) auto
  next
    case (snoc ds d)
    with eq have "ws = replicate k ''..'' @ ds" by simp
    with cs snoc ab show ?thesis unfolding kept_form_def by auto
  qed
qed

lemma kept_form_absolute_last: "kept_form True ws \<Longrightarrow> ws \<noteq> [] \<Longrightarrow> last ws \<noteq> ''..''"
  by (auto simp: kept_form_def clean_comp_def)

lemma norm_comps_form:
  "kept_form ab (rev acc) \<Longrightarrow> \<forall>c\<in>set cs. CHR ''/'' \<notin> set c \<Longrightarrow> kept_form ab (norm_comps ab acc cs)"
proof (induction ab acc cs rule: norm_comps.induct)
  case (1 ab acc)
  then show ?case by simp
next
  case (2 ab acc c cs)
  consider (skip) "c = [] \<or> c = ''.''"
    | (name) "\<not> (c = [] \<or> c = ''.'')" "c \<noteq> ''..''"
    | (dots) "c = ''..''" "(\<not> ab \<and> acc = []) \<or> (acc \<noteq> [] \<and> hd acc = ''..'')"
    | (pop) "c = ''..''" "\<not> ((\<not> ab \<and> acc = []) \<or> (acc \<noteq> [] \<and> hd acc = ''..''))"
    by blast
  then show ?case
  proof cases
    case skip
    with 2 show ?thesis by simp
  next
    case name
    with "2.prems" have "clean_comp c" by (simp add: clean_comp_def)
    with "2.prems" have "kept_form ab (rev (c # acc))" by (simp add: kept_form_snoc)
    with name 2 show ?thesis by simp
  next
    case dots
    have "\<not> ab"
    proof
      assume ab
      with dots have "acc \<noteq> []" "last (rev acc) = ''..''" by (auto simp: last_rev)
      with \<open>ab\<close> "2.prems"(1) kept_form_absolute_last [of "rev acc"] show False by simp
    qed
    with dots "2.prems" have "kept_form ab (rev (c # acc))"
      using kept_form_dots [of "rev acc"] by (auto simp: last_rev)
    with dots 2 show ?thesis by simp
  next
    case pop
    from "2.prems"(1) have "kept_form ab (rev (tl acc))"
      by (cases acc) (auto intro: kept_form_butlast)
    with pop 2 show ?thesis by auto
  qed
qed

text \<open>The canonical spelling: an optional leading slash and clean components.\<close>

definition spelled :: "bool \<Rightarrow> string list \<Rightarrow> string" where
  "spelled ab cs = (if ab then ''/'' else []) @ py_join CHR ''/'' cs"

lemma py_join_Cons: "py_join d (w # ws) = w @ (if ws = [] then [] else d # py_join d ws)"
  by (cases ws) auto

lemma join_eq_Nil: "\<forall>c\<in>set cs. clean_comp c \<Longrightarrow> py_join CHR ''/'' cs = [] \<longleftrightarrow> cs = []"
  by (cases cs) (auto simp: clean_comp_def py_join_Cons)

lemma join_no_slash:
  "\<forall>c\<in>set cs. clean_comp c \<Longrightarrow> \<not> startswith (py_join CHR ''/'' cs) (CHR ''/'' # p)"
proof (cases cs)
  case Nil
  then show ?thesis by simp
next
  case (Cons c ds)
  assume "\<forall>c\<in>set cs. clean_comp c"
  with Cons obtain x xs where "c = x # xs" "x \<noteq> CHR ''/''"
    by (cases c) (auto simp: clean_comp_def)
  with Cons show ?thesis by (simp add: py_join_Cons)
qed

lemma clean_no_slash: "\<forall>c\<in>set cs. clean_comp c \<Longrightarrow> \<forall>c\<in>set cs. CHR ''/'' \<notin> set c"
  by (simp add: clean_comp_def)

lemma split_spelled:
  assumes "\<forall>c\<in>set cs. clean_comp c" and "ab \<or> cs \<noteq> []"
  shows "norm_comps ab [] (py_split CHR ''/'' (spelled ab cs)) = cs"
proof (cases "cs = []")
  case True
  with assms show ?thesis by (simp add: spelled_def)
next
  case False
  with assms have "py_split CHR ''/'' (py_join CHR ''/'' cs) = cs"
    by (simp add: py_split_join clean_no_slash)
  with assms show ?thesis
    by (cases ab) (simp_all add: spelled_def norm_comps_clean)
qed

lemma initial_slashes_spelled:
  assumes "\<forall>c\<in>set cs. clean_comp c"
  shows "initial_slashes (spelled ab cs) = (if ab then 1 else 0)"
  using join_no_slash [OF assms] by (auto simp: initial_slashes_def spelled_def)

lemma normpath_spelled:
  assumes "\<forall>c\<in>set cs. clean_comp c" and "ab \<or> cs \<noteq> []"
  shows "normpath (spelled ab cs) = spelled ab cs"
proof -
  have "spelled ab cs \<noteq> []"
    using assms join_eq_Nil by (auto simp: spelled_def)
  moreover have "initial_slashes (spelled ab cs) = (if ab then 1 else 0)"
    by (rule initial_slashes_spelled [OF assms(1)])
  moreover have "replicate (if ab then 1 else 0) CHR ''/'' @ py_join CHR ''/'' cs = spelled ab cs"
    by (simp add: spelled_def)
  ultimately show ?thesis
    using split_spelled [OF assms] by (cases ab) (auto simp: normpath_def Let_def)
qed

lemma canonical_path_spelled:
  assumes "\<forall>c\<in>set cs. clean_comp c" and "ab \<or> cs \<noteq> []"
  shows "canonical_path (spelled ab cs) = Inr (spelled ab cs)"
proof -
  let ?q = "spelled ab cs"
  have "?q \<noteq> [] \<and> ?q \<noteq> ''.'' \<and> ?q \<noteq> ''..'' \<and> \<not> startswith ?q ''../'' \<and> \<not> startswith ?q ''//''"
  proof (cases ab)
    case True
    then obtain s where q: "?q = CHR ''/'' # s" by (simp add: spelled_def)
    have "\<not> startswith s ''/''"
      using join_no_slash [OF assms(1)] True q by (simp add: spelled_def)
    with q show ?thesis by simp
  next
    case False
    with assms(2) obtain c ds where cs: "cs = c # ds" by (cases cs) auto
    with assms(1) have c: "c \<noteq> []" "c \<noteq> ''.''" "c \<noteq> ''..''"
      by (auto simp: clean_comp_def)
    have sp: "py_split CHR ''/'' ?q = c # ds"
      using False cs py_split_join [of cs "CHR ''/''"] clean_no_slash [OF assms(1)]
      by (simp add: spelled_def)
    have "\<not> startswith ?q ''../''"
    proof
      assume "startswith ?q ''../''"
      then obtain r where "?q = ''..'' @ CHR ''/'' # r" by (auto simp: startswith_iff)
      then have "py_split CHR ''/'' ?q = ''..'' # py_split CHR ''/'' r"
        by (simp only:) (rule py_split_append_sep, simp)
      with sp c show False by simp
    qed
    moreover have "\<not> startswith ?q ''//''"
      using join_no_slash [OF assms(1)] False by (simp add: spelled_def)
    ultimately show ?thesis using sp c by auto
  qed
  then show ?thesis
    by (simp add: canonical_path_def normpath_spelled [OF assms])
qed

lemma normpath_absolute:
  assumes "initial_slashes p = Suc n" and "p \<noteq> []"
  shows "\<exists>cs. (\<forall>c\<in>set cs. clean_comp c) \<and>
    normpath p = replicate (Suc n) CHR ''/'' @ py_join CHR ''/'' cs"
proof -
  have "kept_form True (norm_comps True [] (py_split CHR ''/'' p))"
    by (rule norm_comps_form) (auto simp: kept_form_def dest: py_split_segments)
  then obtain cs where "norm_comps True [] (py_split CHR ''/'' p) = cs" "\<forall>c\<in>set cs. clean_comp c"
    by (auto simp: kept_form_def)
  with assms show ?thesis
    by (intro exI [of _ cs]) (simp add: normpath_def Let_def)
qed

lemma normpath_relative:
  assumes "initial_slashes p = 0" and "p \<noteq> []"
  shows "\<exists>k cs. (\<forall>c\<in>set cs. clean_comp c) \<and>
    normpath p = (if k = 0 \<and> cs = [] then ''.'' else py_join CHR ''/'' (replicate k ''..'' @ cs))"
proof -
  have "kept_form False (norm_comps False [] (py_split CHR ''/'' p))"
    by (rule norm_comps_form) (auto simp: kept_form_def dest: py_split_segments)
  then obtain k cs where k: "norm_comps False [] (py_split CHR ''/'' p) = replicate k ''..'' @ cs"
    and cs: "\<forall>c\<in>set cs. clean_comp c"
    by (auto simp: kept_form_def)
  have "py_join CHR ''/'' (replicate k ''..'' @ cs) = [] \<longleftrightarrow> k = 0 \<and> cs = []"
    using join_eq_Nil [OF cs] by (cases k) (auto simp: py_join_Cons)
  with assms k cs show ?thesis
    by (intro exI [of _ k] exI [of _ cs]) (auto simp: normpath_def Let_def)
qed

lemma canonical_path_form:
  assumes "canonical_path p = Inr q"
  shows "\<exists>ab cs. (\<forall>c\<in>set cs. clean_comp c) \<and> (ab \<or> cs \<noteq> []) \<and> q = spelled ab cs"
proof -
  have p: "p \<noteq> []"
    using assms by (auto simp: canonical_path_def normpath_def)
  have cases_n: "initial_slashes p \<in> {0, Suc 0, Suc (Suc 0)}"
    by (simp add: initial_slashes_def)
  consider (rel) "initial_slashes p = 0" | (one) "initial_slashes p = Suc 0"
    | (two) "initial_slashes p = Suc (Suc 0)"
    using cases_n by auto
  then show ?thesis
  proof cases
    case rel
    from normpath_relative [OF rel p] obtain k cs where cs: "\<forall>c\<in>set cs. clean_comp c"
      and m: "normpath p = (if k = 0 \<and> cs = [] then ''.'' else py_join CHR ''/'' (replicate k ''..'' @ cs))"
      by blast
    have "k = 0"
    proof (rule ccontr)
      assume "k \<noteq> 0"
      then obtain j where "k = Suc j" by (cases k) auto
      with m have "normpath p = ''..'' \<or> startswith (normpath p) ''../''"
        by (auto simp: py_join_Cons split: if_splits)
      with assms show False
        by (auto simp: canonical_path_def Let_def split: if_splits dest: startswith_clash)
    qed
    moreover have "cs \<noteq> []"
      using assms m \<open>k = 0\<close> by (auto simp: canonical_path_def)
    ultimately have "normpath p = spelled False cs"
      using m by (simp add: spelled_def)
    with assms join_no_slash [OF cs] have "q = spelled False cs"
      by (auto simp: canonical_path_def spelled_def Let_def split: if_splits)
    with cs \<open>cs \<noteq> []\<close> show ?thesis by blast
  next
    case one
    from normpath_absolute [OF one p] obtain cs where cs: "\<forall>c\<in>set cs. clean_comp c"
      and "normpath p = spelled True cs" by (auto simp: spelled_def)
    with assms join_no_slash [OF cs] have "q = spelled True cs"
      by (auto simp: canonical_path_def spelled_def Let_def split: if_splits)
    with cs show ?thesis by blast
  next
    case two
    from normpath_absolute [OF two p] obtain cs where cs: "\<forall>c\<in>set cs. clean_comp c"
      and "normpath p = CHR ''/'' # spelled True cs" by (auto simp: spelled_def)
    with assms join_no_slash [OF cs] have "q = spelled True cs"
      by (auto simp: canonical_path_def spelled_def Let_def split: if_splits)
    with cs show ?thesis by blast
  qed
qed

text \<open>
  The canonical spelling of a path anchor is a fixed point (canonicalising it again changes
  nothing), and none of its components is empty, \<open>.\<close> or \<open>..\<close>: it cannot name anything
  above its own root.
\<close>

theorem canonical_path_stable:
  assumes "canonical_path p = Inr q"
  shows "canonical_path q = Inr q \<and>
    (\<exists>cs. (\<forall>c\<in>set cs. c \<notin> {[], ''.'', ''..''}) \<and>
      (q = py_join CHR ''/'' cs \<or> q = CHR ''/'' # py_join CHR ''/'' cs))"
proof -
  obtain ab cs where cs: "\<forall>c\<in>set cs. clean_comp c" "ab \<or> cs \<noteq> []" and q: "q = spelled ab cs"
    using canonical_path_form [OF assms] by blast
  have "\<forall>c\<in>set cs. c \<notin> {[], ''.'', ''..''}"
    using cs(1) by (auto simp: clean_comp_def)
  with canonical_path_spelled [OF cs] q show ?thesis
    by (auto simp: spelled_def)
qed

theorem canonical_path_stable_witness:
  "canonical_path ''src/./a/../b//x.py'' = Inr ''src/b/x.py'' \<and>
   canonical_path ''src/b/x.py'' = Inr ''src/b/x.py''"
proof -
  have h: "canonical_path ''src/./a/../b//x.py'' = Inr ''src/b/x.py''" by code_simp
  show ?thesis using h canonical_path_stable [OF h] by blast
qed

section \<open>One spelling, one hash\<close>

lemma canonical_anchors_cong:
  assumes "canonical_scope_anchor ` set as = canonical_scope_anchor ` set bs"
    and "canonical_anchors as = Inr cs"
  shows "canonical_anchors bs = Inr cs"
proof -
  from assms(2) obtain xs where xs: "map_err canonical_scope_anchor as = Inr xs" and cs: "cs = sorted_set xs"
    by (auto simp: canonical_anchors_def split: sum.splits)
  have no_err: "\<not> (\<exists>b\<in>set bs. \<exists>e. canonical_scope_anchor b = Inl e)"
  proof
    assume "\<exists>b\<in>set bs. \<exists>e. canonical_scope_anchor b = Inl e"
    then obtain b e where "b \<in> set bs" "canonical_scope_anchor b = Inl e" by blast
    then have "Inl e \<in> canonical_scope_anchor ` set bs" by (auto intro: rev_image_eqI)
    with assms(1) have "Inl e \<in> canonical_scope_anchor ` set as" by simp
    then obtain a where "a \<in> set as" "canonical_scope_anchor a = Inl e" by auto
    then have "\<exists>e'. map_err canonical_scope_anchor as = Inl e'"
      unfolding map_err_Inl_iff by blast
    with xs show False by simp
  qed
  then obtain ys where ys: "map_err canonical_scope_anchor bs = Inr ys"
    using map_err_Inl_iff [of canonical_scope_anchor bs] by (cases "map_err canonical_scope_anchor bs") auto
  have "set xs = {y. Inr y \<in> canonical_scope_anchor ` set as}"
    using map_err_Inr_set [OF xs] by (force simp: image_iff)
  also have "\<dots> = set ys"
    using map_err_Inr_set [OF ys] assms(1) by (force simp: image_iff)
  finally have "sorted_set xs = sorted_set ys" by (rule sorted_set_cong)
  with ys cs show ?thesis by (simp add: canonical_anchors_def)
qed

lemma intent_hash_Inr_iff:
  "intent_hash sha256 i = Inr h \<longleftrightarrow>
     (\<exists>cs. canonical_anchors (t_scope_anchors (id_target i)) = Inr cs \<and> h = hash_identity sha256 i cs)"
  by (auto simp: intent_hash_def canonical_identity_def split: sum.splits)

lemma hash_identity_cong:
  assumes "id_project i = id_project j" "id_work_class i = id_work_class j"
    "t_repo (id_target i) = t_repo (id_target j)" "t_base_ref (id_target i) = t_base_ref (id_target j)"
    "id_capability_id i = id_capability_id j"
    "set (id_authority_decision_ids i) = set (id_authority_decision_ids j)"
  shows "hash_identity sha256 i cs = hash_identity sha256 j cs"
  using assms sorted_set_cong [OF assms(6)] by (simp add: hash_identity_def identity_body_def)

text \<open>
  Claim C7: the hash of an intent is the hash of its P4 tuple as sets: naming the same anchors in
  another spelling, another order or more than once, or the same authority ids in another order,
  gives the same hash (and so the same lineage).
\<close>

theorem intent_hash_spelling_independent:
  assumes "intent_hash sha256 i = Inr h"
    and "id_project j = id_project i" and "id_work_class j = id_work_class i"
    and "t_repo (id_target j) = t_repo (id_target i)"
    and "t_base_ref (id_target j) = t_base_ref (id_target i)"
    and "id_capability_id j = id_capability_id i"
    and "set (id_authority_decision_ids j) = set (id_authority_decision_ids i)"
    and "canonical_scope_anchor ` set (t_scope_anchors (id_target j)) =
         canonical_scope_anchor ` set (t_scope_anchors (id_target i))"
  shows "intent_hash sha256 j = Inr h"
proof -
  from assms(1) obtain cs where cs: "canonical_anchors (t_scope_anchors (id_target i)) = Inr cs"
    and h: "h = hash_identity sha256 i cs" by (auto simp: intent_hash_Inr_iff)
  from canonical_anchors_cong [OF assms(8) [symmetric] cs]
  have "canonical_anchors (t_scope_anchors (id_target j)) = Inr cs" .
  moreover have "hash_identity sha256 j cs = hash_identity sha256 i cs"
    using assms by (intro hash_identity_cong) auto
  ultimately show ?thesis using h by (auto simp: intent_hash_Inr_iff)
qed

definition sample_identity :: "string list \<Rightarrow> string list \<Rightarrow> intent_identity" where
  "sample_identity anchors ids =
     \<lparr>id_project = ''crew'', id_work_class = IMPLEMENT,
      id_target = \<lparr>t_repo = ''o/r'', t_base_ref = ''main'', t_scope_anchors = anchors\<rparr>,
      id_capability_id = None, id_authority_decision_ids = ids\<rparr>"

theorem intent_hash_spelling_independent_witness:
  "intent_hash (\<lambda>s. s) (sample_identity [''src/./x.py'', ''URN:a'', ''src/x.py''] [''D2'', ''D1''])
   = intent_hash (\<lambda>s. s) (sample_identity [''urn:a'', ''src/x.py''] [''D1'', ''D2'', ''D1''])"
proof -
  let ?i = "sample_identity [''urn:a'', ''src/x.py''] [''D1'', ''D2'', ''D1'']"
  let ?j = "sample_identity [''src/./x.py'', ''URN:a'', ''src/x.py''] [''D2'', ''D1'']"
  have a: "\<exists>h. intent_hash (\<lambda>s. s) ?i = Inr h"
    by (simp add: intent_hash_Inr_iff sample_identity_def) (rule exI, code_simp)
  then obtain h where h: "intent_hash (\<lambda>s. s) ?i = Inr h" by blast
  have c: "canonical_scope_anchor ''src/./x.py'' = Inr ''src/x.py''"
    "canonical_scope_anchor ''src/x.py'' = Inr ''src/x.py''"
    "canonical_scope_anchor ''URN:a'' = Inr ''urn:a''" "canonical_scope_anchor ''urn:a'' = Inr ''urn:a''"
    by code_simp+
  have "intent_hash (\<lambda>s. s) ?j = Inr h"
    by (rule intent_hash_spelling_independent [OF h]) (auto simp: sample_identity_def c)
  with h show ?thesis by simp
qed

text \<open>
  The engine canonicalises an identity and then hashes the result, which canonicalises once more.
  That is harmless for an anchor whose canonical spelling is a fixed point:
\<close>

definition stable_anchor :: "string \<Rightarrow> bool" where
  "stable_anchor a \<longleftrightarrow>
     (case canonical_scope_anchor a of Inl _ \<Rightarrow> False
      | Inr c \<Rightarrow> canonical_scope_anchor c = Inr c)"

lemma intent_hash_of_canonical:
  assumes "canonical_identity i = Inr c" and "list_all stable_anchor (t_scope_anchors (id_target i))"
  shows "intent_hash sha256 c = intent_hash sha256 i"
proof -
  let ?as = "t_scope_anchors (id_target i)"
  from assms(1) obtain xs where xs: "map_err canonical_scope_anchor ?as = Inr xs"
    and c: "c = i\<lparr>id_target := (id_target i)\<lparr>t_scope_anchors := sorted_set xs\<rparr>\<rparr>"
    by (auto simp: canonical_identity_def canonical_anchors_def split: sum.splits)
  have fix_pt: "canonical_scope_anchor x = Inr x" if "x \<in> set xs" for x
    using that map_err_Inr_set [OF xs] assms(2) by (auto simp: list_all_iff stable_anchor_def)
  have "canonical_scope_anchor ` set (sorted_set xs) = Inr ` set xs"
    using fix_pt by simp
  also have "\<dots> = canonical_scope_anchor ` set ?as"
  proof -
    have "canonical_scope_anchor a \<in> Inr ` set xs" if "a \<in> set ?as" for a
    proof (cases "canonical_scope_anchor a")
      case (Inl e)
      with that assms(2) show ?thesis by (auto simp: list_all_iff stable_anchor_def)
    next
      case (Inr y)
      with that have "y \<in> set xs" unfolding map_err_Inr_set [OF xs] by blast
      with Inr show ?thesis by simp
    qed
    moreover have "Inr x \<in> canonical_scope_anchor ` set ?as" if "x \<in> set xs" for x
    proof -
      from that obtain a where "a \<in> set ?as" "canonical_scope_anchor a = Inr x"
        unfolding map_err_Inr_set [OF xs] by blast
      then show ?thesis by (auto intro: rev_image_eqI)
    qed
    ultimately show ?thesis by blast
  qed
  finally have img: "canonical_scope_anchor ` set (sorted_set xs) = canonical_scope_anchor ` set ?as" .
  have "canonical_anchors ?as = Inr (sorted_set xs)"
    using xs by (simp add: canonical_anchors_def)
  then have "canonical_anchors (sorted_set xs) = Inr (sorted_set xs)"
    by (rule canonical_anchors_cong [OF img [symmetric]])
  moreover have "hash_identity sha256 c cs = hash_identity sha256 i cs" for cs
    using c by (intro hash_identity_cong) auto
  ultimately show ?thesis
    using c xs by (simp add: intent_hash_def canonical_identity_def canonical_anchors_def)
qed

text \<open>
  \<open>./a:\<close> names a file \<open>a:\<close>. Its canonical path is \<open>a:\<close>, which the second pass reads as a
  scheme with nothing after it.
\<close>

lemma rehash_raises:
  "canonical_identity (sample_identity [''./a:''] ids) = Inr (sample_identity [''a:''] ids)"
  "intent_hash sha256 (sample_identity [''a:''] ids) = Inl SchemeOnly"
proof -
  have a: "canonical_anchors [''./a:''] = Inr [''a:'']" by code_simp
  have b: "canonical_anchors [''a:''] = Inl SchemeOnly" by code_simp
  show "canonical_identity (sample_identity [''./a:''] ids) = Inr (sample_identity [''a:''] ids)"
    by (simp add: canonical_identity_def sample_identity_def a)
  show "intent_hash sha256 (sample_identity [''a:''] ids) = Inl SchemeOnly"
    by (simp add: intent_hash_def canonical_identity_def sample_identity_def b)
qed

end
