(* ===== verification/Timestamps.thy ===== *)
theory Timestamps
  imports Json
begin

text \<open>
  RFC 3339 times: \<open>_rfc3339\<close> of \<open>src/agent_crew/cea/engine.py\<close> (which prints the UTC second of a
  clock reading with \<open>time.gmtime\<close> and \<open>strftime\<close>) and \<open>_parse_rfc3339\<close> of
  \<open>src/agent_crew/cea/validator.py\<close> (\<open>datetime.fromisoformat\<close>). The parser is modelled on the shape
  the receipt schema admits, \<open>YYYY-MM-DDTHH:MM:SS\<close> with an optional fraction and \<open>Z\<close>; the
  validator parses a receipt only after the schema check. Seconds are counted from 1970.
\<close>

section \<open>The calendar\<close>

definition leap_year :: "nat \<Rightarrow> bool" where
  "leap_year y \<longleftrightarrow> y mod 4 = 0 \<and> (y mod 100 \<noteq> 0 \<or> y mod 400 = 0)"

definition year_days :: "nat \<Rightarrow> nat" where
  "year_days y = (if leap_year y then 366 else 365)"

definition month_days :: "nat \<Rightarrow> nat list" where
  "month_days y = [31, if leap_year y then 29 else 28, 31, 30, 31, 30, 31, 31, 30, 31, 30, 31]"

function split_year :: "nat \<Rightarrow> nat \<Rightarrow> nat \<times> nat" where
  "split_year y d = (if d < year_days y then (y, d) else split_year (Suc y) (d - year_days y))"
  by pat_completeness auto
termination
  by (relation "measure snd") (auto simp: year_days_def split: if_splits)

declare split_year.simps [simp del]

fun split_month :: "nat list \<Rightarrow> nat \<Rightarrow> nat \<Rightarrow> nat \<times> nat" where
  "split_month [] m d = (m, d)"
| "split_month (l # ls) m d = (if d < l then (m, d) else split_month ls (Suc m) (d - l))"

text \<open>Days from 1 January 1970 to 1 January of a year (negative before 1970).\<close>

definition days_before_year :: "nat \<Rightarrow> int" where
  "days_before_year y =
     (if 1970 \<le> y then int (sum_list (map year_days [1970..<y]))
      else - int (sum_list (map year_days [y..<1970])))"

definition days_before_month :: "nat \<Rightarrow> nat \<Rightarrow> nat" where
  "days_before_month y m = sum_list (take (m - 1) (month_days y))"

section \<open>Printing and parsing\<close>

definition digit_char :: "nat \<Rightarrow> char" where
  "digit_char n = char_of (48 + n)"

definition digit_value :: "char \<Rightarrow> nat" where
  "digit_value c = of_char c - 48"

definition two_digits :: "nat \<Rightarrow> string" where
  "two_digits n = [digit_char (n div 10), digit_char (n mod 10)]"

definition year_text :: "nat \<Rightarrow> string" where
  "year_text y = (if y < 10000 then two_digits (y div 100) @ two_digits (y mod 100) else show_nat y)"

definition rfc3339_secs :: "nat \<Rightarrow> string" where
  "rfc3339_secs t =
     (let s = t mod 86400;
          (y, yd) = split_year 1970 (t div 86400);
          (m, d) = split_month (month_days y) 1 yd
      in year_text y @ ''-'' @ two_digits m @ ''-'' @ two_digits (Suc d) @ ''T'' @
         two_digits (s div 3600) @ '':'' @ two_digits (s div 60 mod 60) @ '':'' @
         two_digits (s mod 60) @ ''Z'')"

definition rfc3339 :: "time \<Rightarrow> string" where
  "rfc3339 epoch = rfc3339_secs (nat \<lfloor>epoch\<rfloor>)"

definition number :: "char list \<Rightarrow> nat" where
  "number cs = foldl (\<lambda>n c. 10 * n + digit_value c) 0 cs"

text \<open>The fraction, to microseconds.\<close>

definition parse_fraction :: "string \<Rightarrow> time option" where
  "parse_fraction r =
     (if r = ''Z'' then Some 0
      else case r of [] \<Rightarrow> None
      | p # ds \<Rightarrow>
          if p = CHR ''.'' \<and> ds \<noteq> [] \<and> last ds = CHR ''Z'' \<and> butlast ds \<noteq> []
             \<and> list_all is_digit (butlast ds)
          then let fs = take 6 (butlast ds) in Some (real (number fs) / 10 ^ length fs)
          else None)"

definition parse_rfc3339 :: "string \<Rightarrow> time option" where
  "parse_rfc3339 s =
     (case s of
        y1 # y2 # y3 # y4 # a # m1 # m2 # b # d1 # d2 # t # h1 # h2 # c # i1 # i2 # e # s1 # s2 # rest \<Rightarrow>
          (let y = number [y1, y2, y3, y4]; m = number [m1, m2]; d = number [d1, d2];
               h = number [h1, h2]; i = number [i1, i2]; sec = number [s1, s2]
           in if list_all is_digit [y1, y2, y3, y4, m1, m2, d1, d2, h1, h2, i1, i2, s1, s2]
                 \<and> a = CHR ''-'' \<and> b = CHR ''-'' \<and> t = CHR ''T'' \<and> c = CHR '':'' \<and> e = CHR '':''
                 \<and> 1 \<le> y \<and> 1 \<le> m \<and> m \<le> 12 \<and> 1 \<le> d \<and> d \<le> month_days y ! (m - 1)
                 \<and> h < 24 \<and> i < 60 \<and> sec < 60
              then (case parse_fraction rest of None \<Rightarrow> None
                    | Some f \<Rightarrow>
                        Some (real_of_int ((days_before_year y + int (days_before_month y m) + int (d - 1)) * 86400
                                           + int (h * 3600 + i * 60 + sec)) + f))
              else None)
      | _ \<Rightarrow> None)"

section \<open>What is printed reads back\<close>

lemma split_year_bounds:
  "split_year y d = (y', d') \<Longrightarrow> y \<le> y' \<and> d' < year_days y' \<and> d = sum_list (map year_days [y..<y']) + d'"
proof (induction y d rule: split_year.induct)
  case (1 y d)
  show ?case
  proof (cases "d < year_days y")
    case True
    with "1.prems" show ?thesis by (simp add: split_year.simps [of y d])
  next
    case False
    with "1.prems" have "split_year (Suc y) (d - year_days y) = (y', d')"
      by (simp add: split_year.simps [of y d])
    with "1.IH" False have "Suc y \<le> y' \<and> d' < year_days y' \<and>
        d - year_days y = sum_list (map year_days [Suc y..<y']) + d'" by blast
    then have "Suc y \<le> y'" "d' < year_days y'"
      and "d = year_days y + sum_list (map year_days [Suc y..<y']) + d'"
      using False by linarith+
    then show ?thesis by (simp add: upt_conv_Cons)
  qed
qed

lemma split_month_bounds:
  "split_month ls m d = (m', d') \<Longrightarrow> d < sum_list ls \<Longrightarrow>
     m \<le> m' \<and> m' - m < length ls \<and> d' < ls ! (m' - m) \<and> d = sum_list (take (m' - m) ls) + d'"
proof (induction ls m d rule: split_month.induct)
  case (1 m d)
  then show ?case by simp
next
  case (2 l ls m d)
  show ?case
  proof (cases "d < l")
    case True
    with 2 show ?thesis by simp
  next
    case False
    with 2 have ih: "Suc m \<le> m'" "m' - Suc m < length ls" "d' < ls ! (m' - Suc m)"
      "d - l = sum_list (take (m' - Suc m) ls) + d'" by auto
    then have "m' - m = Suc (m' - Suc m)" by simp
    with ih False show ?thesis by simp
  qed
qed

lemma month_days_facts:
  "length (month_days y) = 12" "sum_list (month_days y) = year_days y"
  "k < 12 \<Longrightarrow> month_days y ! k \<le> 31"
  by (auto simp: month_days_def year_days_def nth_Cons' split: if_splits)

lemma digit_char_code [simp]: "n < 10 \<Longrightarrow> of_char (digit_char n) = 48 + n"
  by (simp add: digit_char_def)

lemma digit_char_facts:
  "n < 10 \<Longrightarrow> is_digit (digit_char n)" "n < 10 \<Longrightarrow> digit_value (digit_char n) = n"
  by (simp_all add: is_digit_def digit_value_def)

lemma number_two: "number [digit_char (n div 10), digit_char (n mod 10)] = n" if "n < 100"
  using that by (simp add: number_def digit_char_facts)

lemma number_append: "number (cs @ ds) = number cs * 10 ^ length ds + number ds"
proof (induction ds rule: rev_induct)
  case Nil
  then show ?case by (simp add: number_def)
next
  case (snoc d ds)
  then show ?case by (simp add: number_def algebra_simps)
qed

lemma two_digits_shape:
  assumes "n < 100"
  obtains a b where "two_digits n = [a, b]" "number [a, b] = n" "is_digit a" "is_digit b"
proof
  show "two_digits n = [digit_char (n div 10), digit_char (n mod 10)]" by (simp add: two_digits_def)
  show "number [digit_char (n div 10), digit_char (n mod 10)] = n" by (rule number_two [OF assms])
  show "is_digit (digit_char (n div 10))" "is_digit (digit_char (n mod 10))"
    using assms by (auto intro: digit_char_facts)
qed

lemma year_text_shape:
  assumes "y < 10000"
  obtains a b c d where "year_text y = [a, b, c, d]" "number [a, b, c, d] = y"
    "is_digit a" "is_digit b" "is_digit c" "is_digit d"
proof -
  have 100: "y div 100 < 100" "y mod 100 < 100" using assms by auto
  obtain a b where ab: "two_digits (y div 100) = [a, b]" "number [a, b] = y div 100" "is_digit a" "is_digit b"
    by (rule two_digits_shape [OF 100(1)])
  obtain c d where cd: "two_digits (y mod 100) = [c, d]" "number [c, d] = y mod 100" "is_digit c" "is_digit d"
    by (rule two_digits_shape [OF 100(2)])
  have "number ([a, b] @ [c, d]) = y div 100 * 10 ^ 2 + y mod 100"
    unfolding number_append ab(2) cd(2) by simp
  then have "number [a, b, c, d] = y" by simp
  moreover have "year_text y = [a, b, c, d]" using assms ab(1) cd(1) by (simp add: year_text_def)
  ultimately show ?thesis using that ab(3,4) cd(3,4) by blast
qed

lemma parse_fields:
  assumes "1 \<le> y" "y < 10000" "1 \<le> m" "m \<le> 12" "1 \<le> d" "d \<le> month_days y ! (m - 1)"
    "h < 24" "i < 60" "sec < 60"
  shows "parse_rfc3339 (year_text y @ ''-'' @ two_digits m @ ''-'' @ two_digits d @ ''T'' @
      two_digits h @ '':'' @ two_digits i @ '':'' @ two_digits sec @ ''Z'') =
    Some (real_of_int ((days_before_year y + int (days_before_month y m) + int (d - 1)) * 86400
                       + int (h * 3600 + i * 60 + sec)))"
proof -
  have "month_days y ! (m - 1) \<le> 31"
    by (rule month_days_facts(3)) (use assms in linarith)
  then have "m < 100" "d < 100" "h < 100" "i < 100" "sec < 100" using assms by auto
  note shapes = this [THEN two_digits_shape]
  obtain m1 m2 where m: "two_digits m = [m1, m2]" "number [m1, m2] = m" "is_digit m1" "is_digit m2"
    by (rule shapes(1))
  obtain d1 d2 where d: "two_digits d = [d1, d2]" "number [d1, d2] = d" "is_digit d1" "is_digit d2"
    by (rule shapes(2))
  obtain h1 h2 where h: "two_digits h = [h1, h2]" "number [h1, h2] = h" "is_digit h1" "is_digit h2"
    by (rule shapes(3))
  obtain i1 i2 where i: "two_digits i = [i1, i2]" "number [i1, i2] = i" "is_digit i1" "is_digit i2"
    by (rule shapes(4))
  obtain s1 s2 where s: "two_digits sec = [s1, s2]" "number [s1, s2] = sec" "is_digit s1" "is_digit s2"
    by (rule shapes(5))
  obtain y1 y2 y3 y4 where y: "year_text y = [y1, y2, y3, y4]" "number [y1, y2, y3, y4] = y"
    "is_digit y1" "is_digit y2" "is_digit y3" "is_digit y4"
    by (rule year_text_shape [OF assms(2)])
  show ?thesis
    using assms by (simp add: parse_rfc3339_def y m d h i s parse_fraction_def)
qed

lemma rfc3339_reads_back:
  assumes year: "fst (split_year 1970 (t div 86400)) < 10000"
  shows "parse_rfc3339 (rfc3339_secs t) = Some (real t)"
proof -
  obtain y yd where yd: "split_year 1970 (t div 86400) = (y, yd)" by (cases "split_year 1970 (t div 86400)")
  obtain m d where md: "split_month (month_days y) 1 yd = (m, d)" by (cases "split_month (month_days y) 1 yd")
  from split_year_bounds [OF yd] have y: "1970 \<le> y" "yd < year_days y"
    "t div 86400 = sum_list (map year_days [1970..<y]) + yd" by auto
  have "yd < sum_list (month_days y)" using y month_days_facts by simp
  from split_month_bounds [OF md this] have m: "1 \<le> m" "m \<le> 12" "d < month_days y ! (m - 1)"
    "yd = days_before_month y m + d" by (auto simp: month_days_facts days_before_month_def)
  have "month_days y ! (m - 1) \<le> 31"
    by (rule month_days_facts(3)) (use m in linarith)
  with m(3) have d: "d < 31" by linarith
  define s where "s = t mod 86400"
  have s: "s < 86400" "s div 3600 < 24" "s div 60 mod 60 < 60" "s mod 60 < 60"
    by (auto simp: s_def)
  have clock: "s div 3600 * 3600 + s div 60 mod 60 * 60 + s mod 60 = s"
  proof -
    have "s div 3600 = s div 60 div 60" by (simp add: div_mult2_eq [symmetric])
    then show ?thesis
      using div_mult_mod_eq [of "s div 60" 60] div_mult_mod_eq [of s 60] by linarith
  qed
  have day: "days_before_year y + int (days_before_month y m) + int d = int (t div 86400)"
    using y m by (simp add: days_before_year_def)
  have y4: "y < 10000" "1 \<le> y" using year yd y(1) by auto
  have printed: "rfc3339_secs t = year_text y @ ''-'' @ two_digits m @ ''-'' @ two_digits (Suc d) @ ''T'' @
      two_digits (s div 3600) @ '':'' @ two_digits (s div 60 mod 60) @ '':'' @ two_digits (s mod 60) @ ''Z''"
    by (simp only: rfc3339_secs_def yd md s_def [symmetric] Let_def prod.case)
  have "parse_rfc3339 (rfc3339_secs t) =
    Some (real_of_int ((days_before_year y + int (days_before_month y m) + int d) * 86400
      + int (s div 3600 * 3600 + s div 60 mod 60 * 60 + s mod 60)))"
    unfolding printed using parse_fields [OF y4(2,1) m(1,2), of "Suc d", OF _ _ s(2,3,4)] m(3) by simp
  also have "\<dots> = Some (real_of_int (int (t div 86400) * 86400 + int s))"
    by (simp only: day clock)
  also have "int (t div 86400) * 86400 + int s = int t"
    unfolding s_def using div_mult_mod_eq [of t 86400] by linarith
  finally show ?thesis by simp
qed

text \<open>
  The age check reads back the second at which the engine issued a receipt: parsing what
  \<open>_rfc3339\<close> prints gives that second (for every time whose year has four digits).
\<close>

theorem rfc3339_roundtrip:
  assumes "fst (split_year 1970 (t div 86400)) < 10000"
  shows "parse_rfc3339 (rfc3339_secs t) = Some (real t)"
  by (rule rfc3339_reads_back [OF assms])

theorem rfc3339_roundtrip_witness:
  "rfc3339_secs 68214896 = ''1972-02-29T12:34:56Z'' \<and>
   parse_rfc3339 ''1972-02-29T12:34:56Z'' = Some 68214896"
proof -
  have y: "split_year 1970 789 = (1972, 59)"
    by (simp add: split_year.simps year_days_def leap_year_def)
  have p: "rfc3339_secs 68214896 = ''1972-02-29T12:34:56Z''"
    by (simp add: rfc3339_secs_def y month_days_def leap_year_def year_text_def two_digits_def
        digit_char_def) code_simp
  have "fst (split_year 1970 (68214896 div 86400)) < 10000"
    by (simp add: y)
  from rfc3339_roundtrip [OF this] p show ?thesis by simp
qed

end
