(* ===== verification/Receipt.thy ===== *)
theory Receipt
  imports Intent Timestamps
begin

text \<open>
  The data the authorization engine reads and writes: \<open>src/agent_crew/cea/receipt.py\<close>,
  \<open>runtime_state.py\<close>, \<open>providers.py\<close>, and the receipt contract of
  \<open>src/agent_crew/cea/schema.py\<close>. A receipt is the record its JSON schema describes (the schema is
  closed, so a conforming object has exactly these fields); what the types do not already say
  (patterns, lengths, minima) is \<open>validate_receipt\<close>, which lists the paths that break it. A value
  of any other shape is refused whole (\<open>presented\<close>).
\<close>

section \<open>Enumerations\<close>

datatype decision = ALLOW | BLOCK | REVIEW | HUMAN_GATE

datatype receipt_state =
  ISSUED | QUEUED | CLAIMED | RUNNING | HELD | CONSUMED | SUPERSEDED | REVOKED

datatype runtime_state = ACTIVE | DRAINING | QUARANTINED | STOPPED

fun tightness :: "runtime_state \<Rightarrow> nat" where
  "tightness ACTIVE = 0"
| "tightness DRAINING = 1"
| "tightness QUARANTINED = 2"
| "tightness STOPPED = 3"

lemma tightness_inject [simp]: "tightness a = tightness b \<longleftrightarrow> a = b"
  by (cases a; cases b) auto

text \<open>The order of P6: a later state is tighter.\<close>

instantiation runtime_state :: linorder
begin

definition less_eq_runtime_state :: "runtime_state \<Rightarrow> runtime_state \<Rightarrow> bool" where
  "less_eq_runtime_state a b \<longleftrightarrow> tightness a \<le> tightness b"

definition less_runtime_state :: "runtime_state \<Rightarrow> runtime_state \<Rightarrow> bool" where
  "less_runtime_state a b \<longleftrightarrow> tightness a < tightness b"

instance
  by standard (auto simp: less_eq_runtime_state_def less_runtime_state_def)

end

lemmas runtime_order = less_eq_runtime_state_def less_runtime_state_def

lemma runtime_least [simp]: "ACTIVE \<le> a" and runtime_greatest [simp]: "a \<le> STOPPED"
  by (cases a; simp add: runtime_order)+

text \<open>The state of a human gate as a receipt carries it (a decision id only when granted).\<close>

datatype human_gate = NOT_REQUIRED | PENDING | DENIED | GRANTED "string option"

datatype budget_class = BUDGET_OK | CONSTRAINED | EXHAUSTED

text \<open>\<open>ProviderBudget.state\<close>: a budget class or \<open>UNVERIFIED\<close>.\<close>

datatype budget_state = Budget budget_class | Budget_Unverified

datatype reuse_decision = NEW | REUSE | EXTEND

datatype signature_status = VALID | INVALID | UNKEYED | UNSIGNED

section \<open>Records\<close>

record decision_rev =
  dr_decision_id :: string
  dr_body_hash :: string
  dr_supersedes :: "string list"
  dr_principals :: "string list"
  dr_build_commits :: "string list"
  dr_runtimes :: "string list"
  dr_project :: "string option"
  dr_expires_at :: "time option"
  dr_capabilities :: "string list"
  dr_projects :: "string list"
  dr_intent_hash :: "string option"
  dr_scope_capability_id :: "string option"
  dr_scope_work_class :: "string option"
  dr_scope_repo :: "string option"

text \<open>\<open>RegistryRef\<close> as a provider reports it: the generation is an integer or a text.\<close>

datatype generation = Gen_Int int | Gen_Text string

record registry_ref =
  rr_generation :: generation
  rr_hash :: string

record registry_json =
  rj_generation :: "int option"
  rj_hash :: "string option"

record matched_capability =
  mc_id :: string
  mc_owner :: string
  mc_repo :: string

record reuse =
  ru_decision :: reuse_decision
  ru_approved_by :: "string option"
  ru_approver_verified :: bool

record provider_budget =
  pb_provider :: "string option"
  pb_state :: budget_state
  pb_observed_at :: "time option"

record binding =
  b_policy_generation :: int
  b_policy_hash :: string
  b_source_decision_revs :: "(string \<times> string) list"
  b_capability_registry :: registry_json
  b_matched_capability :: "(string \<times> string option) option"
  b_runtime_state :: runtime_state
  b_runtime_state_epoch :: int
  b_human_gate :: human_gate
  b_budget_class :: budget_class

record signature =
  sg_alg :: "string option"
  sg_key_id :: "string option"
  sg_value :: "string option"
  sg_status :: identity_status

record dispatch_nonce =
  dn_nonce :: string
  dn_attempt :: int
  dn_issued_at :: string
  dn_used_at :: "string option"

record provenance =
  pv_snapshot_signature_status :: "signature_status option"
  pv_snapshot_rollback_status :: "string option"
  pv_coordinator :: "string option"
  pv_intent_identity :: "intent_identity option"
  pv_unavailable_inputs :: "string list option"
  pv_task_type :: "string option"

record receipt =
  rc_receipt_id :: string
  rc_issued_at :: string
  rc_issuer :: string
  rc_task_id :: string
  rc_intent_hash :: string
  rc_parent_receipt_id :: "string option"
  rc_project :: string
  rc_decision_ids :: "string list"
  rc_tier :: "string option"
  rc_policy_generation :: int
  rc_policy_hash :: string
  rc_source_decision_revs :: "(string \<times> string) list"
  rc_capability_registry :: registry_json
  rc_matched_capability :: "(string \<times> string option \<times> string option) option"
  rc_reuse :: "reuse option"
  rc_runtime_state :: runtime_state
  rc_provider_budget :: "string option \<times> budget_state \<times> string option"
  rc_required_reviewer :: "string option"
  rc_required_tester :: "string option"
  rc_human_gate :: human_gate
  rc_caller_identity :: "string option"
  rc_caller_provenance :: caller_provenance
  rc_executor_binding :: "string option"
  rc_executor_binding_status :: identity_status
  rc_caller_identity_status :: identity_status
  rc_downgrade_reason :: "string option"
  rc_decision :: decision
  rc_reason_code :: string
  rc_reason_text :: string
  rc_signature :: signature
  rc_state :: receipt_state
  rc_binding :: binding
  rc_idempotency_key :: string
  rc_attempt :: int
  rc_max_attempts :: int
  rc_dispatch_nonces :: "dispatch_nonce list"
  rc_supersedes :: "string list"
  rc_provenance :: "provenance option"

text \<open>
  What a caller may present: no object at all, an object of another shape (with the
  \<open>receipt_id\<close>, \<open>task_id\<close> and \<open>attempt\<close> it shows), or a receipt.
\<close>

datatype presented =
    Not_Object
  | Other_Shape string "string option" "int option"
  | Typed receipt

text \<open>\<open>providers.py\<close>: what the input providers answer.\<close>

record capability_lookup =
  cl_registry :: "registry_ref option"
  cl_matches :: "matched_capability list"
  cl_anchor_matches :: "matched_capability list"
  cl_available :: bool
  cl_stale :: bool

record gate_predicate =
  gp_project :: "string option"
  gp_work_class :: "string option"
  gp_capability_id :: "string option"
  gp_repo :: "string option"
  gp_state :: "string option"
  gp_decision_id :: "string option"

text \<open>A row of the review/test matrix: (work class, reviewer, tester).\<close>

type_synonym matrix = "(string \<times> bool \<times> bool) list"

record policy_snapshot =
  ps_generation :: int
  ps_hash :: string
  ps_decisions :: "decision_rev list"
  ps_in_scope :: "decision_rev list"
  ps_signature :: signature_status
  ps_available :: bool
  ps_tier :: "string option"
  ps_review_test_matrix :: matrix
  ps_human_gate_predicates :: "gate_predicate list"
  ps_rollback_status :: "string option"

record runtime_snapshot =
  rs_state :: runtime_state
  rs_epoch :: int
  rs_read_failed :: bool

text \<open>Python's truth value of an optional text.\<close>

definition truthy :: "string option \<Rightarrow> bool" where
  "truthy v \<longleftrightarrow> v \<noteq> None \<and> v \<noteq> Some []"

lemma truthy_simps [simp]: "\<not> truthy None" "truthy (Some s) \<longleftrightarrow> s \<noteq> []"
  by (simp_all add: truthy_def)

section \<open>The receipt contract (\<open>validate_receipt\<close>)\<close>

text \<open>A \<open>$\<close> in a Python pattern also matches before one final newline.\<close>

definition dollar :: "string \<Rightarrow> string" where
  "dollar s = (if s \<noteq> [] \<and> last s = CHR 0x0A then butlast s else s)"

definition is_lower_hex :: "char \<Rightarrow> bool" where
  "is_lower_hex c \<longleftrightarrow> is_digit c \<or> c \<in> set ''abcdef''"

definition is_upper :: "char \<Rightarrow> bool" where
  "is_upper c = (let n = of_char c :: nat in 65 \<le> n \<and> n \<le> 90)"

definition is_uuid :: "string \<Rightarrow> bool" where
  "is_uuid s =
     (let ps = py_split CHR ''-'' (dollar s)
      in map length ps = [8, 4, 4, 4, 12] \<and> list_all is_lower_hex (concat ps))"

definition is_sha256 :: "string \<Rightarrow> bool" where
  "is_sha256 s =
     (let d = dollar s in startswith d ''sha256:'' \<and> length d = 71 \<and> list_all is_lower_hex (drop 7 d))"

definition is_reason_code :: "string \<Rightarrow> bool" where
  "is_reason_code s =
     (case dollar s of [] \<Rightarrow> False
      | c # cs \<Rightarrow> is_upper c \<and> list_all (\<lambda>c. is_upper c \<or> is_digit c \<or> c = CHR ''_'') cs)"

definition is_rfc3339 :: "string \<Rightarrow> bool" where
  "is_rfc3339 s =
     (case dollar s of
        y1 # y2 # y3 # y4 # a # m1 # m2 # b # d1 # d2 # t # h1 # h2 # c # i1 # i2 # e # s1 # s2 # rest \<Rightarrow>
          list_all is_digit [y1, y2, y3, y4, m1, m2, d1, d2, h1, h2, i1, i2, s1, s2]
          \<and> [a, b, t, c, e] = ''--T::'' \<and> parse_fraction rest \<noteq> None
      | _ \<Rightarrow> False)"

definition opt_all :: "('a \<Rightarrow> bool) \<Rightarrow> 'a option \<Rightarrow> bool" where
  "opt_all p v = (case v of None \<Rightarrow> True | Some x \<Rightarrow> p x)"

definition revs_ok :: "(string \<times> string) list \<Rightarrow> bool" where
  "revs_ok = list_all (\<lambda>(i, h). i \<noteq> [] \<and> h \<noteq> [])"

definition gate_ok :: "human_gate \<Rightarrow> bool" where
  "gate_ok g = (case g of GRANTED v \<Rightarrow> truthy v | _ \<Rightarrow> True)"

definition binding_ok :: "binding \<Rightarrow> bool" where
  "binding_ok b \<longleftrightarrow>
     0 \<le> b_policy_generation b \<and> b_policy_hash b \<noteq> [] \<and> revs_ok (b_source_decision_revs b)
     \<and> opt_all (\<lambda>(i, _). i \<noteq> []) (b_matched_capability b)
     \<and> 0 \<le> b_runtime_state_epoch b \<and> gate_ok (b_human_gate b)"

definition nonce_ok :: "dispatch_nonce \<Rightarrow> bool" where
  "nonce_ok n \<longleftrightarrow>
     dn_nonce n \<noteq> [] \<and> 1 \<le> dn_attempt n \<and> is_rfc3339 (dn_issued_at n) \<and> opt_all is_rfc3339 (dn_used_at n)"

definition receipt_checks :: "receipt \<Rightarrow> (string \<times> bool) list" where
  "receipt_checks r =
     [(''$.attempt'', 1 \<le> rc_attempt r),
      (''$.authority_source.decision_ids'', list_all (\<lambda>i. i \<noteq> []) (rc_decision_ids r)),
      (''$.binding'', binding_ok (rc_binding r)),
      (''$.dispatch_nonces'', list_all nonce_ok (rc_dispatch_nonces r)),
      (''$.human_gate_state'', gate_ok (rc_human_gate r)),
      (''$.idempotency_key'', rc_idempotency_key r \<noteq> []),
      (''$.intent_hash'', is_sha256 (rc_intent_hash r)),
      (''$.issued_at'', is_rfc3339 (rc_issued_at r)),
      (''$.issuer'', rc_issuer r \<noteq> []),
      (''$.matched_capability'', opt_all (\<lambda>(i, _). i \<noteq> []) (rc_matched_capability r)),
      (''$.max_attempts'', 1 \<le> rc_max_attempts r),
      (''$.parent_receipt_id'', opt_all is_uuid (rc_parent_receipt_id r)),
      (''$.policy_generation'', 0 \<le> rc_policy_generation r),
      (''$.policy_hash'', rc_policy_hash r \<noteq> []),
      (''$.project'', rc_project r \<noteq> []),
      (''$.provider_budget.observed_at'',
         (case rc_provider_budget r of (_, _, t) \<Rightarrow> opt_all is_rfc3339 t)),
      (''$.reason.code'', is_reason_code (rc_reason_code r)),
      (''$.receipt_id'', is_uuid (rc_receipt_id r)),
      (''$.source_decision_revs'', revs_ok (rc_source_decision_revs r)),
      (''$.supersedes'', list_all is_uuid (rc_supersedes r)),
      (''$.task_id'', rc_task_id r \<noteq> [])]"

definition validate_receipt :: "receipt \<Rightarrow> string list" where
  "validate_receipt r = map fst (filter (\<lambda>(_, ok). \<not> ok) (receipt_checks r))"

lemma validate_receipt_Nil_iff: "validate_receipt r = [] \<longleftrightarrow> list_all snd (receipt_checks r)"
  by (auto simp: validate_receipt_def list_all_iff filter_empty_conv)

section \<open>Times print in the form the contract asks for\<close>

lemma rfc3339_secs_conforms:
  assumes year: "fst (split_year 1970 (t div 86400)) < 10000"
  shows "is_rfc3339 (rfc3339_secs t)"
proof -
  obtain y yd where yd: "split_year 1970 (t div 86400) = (y, yd)" by (cases "split_year 1970 (t div 86400)")
  obtain m d where md: "split_month (month_days y) 1 yd = (m, d)" by (cases "split_month (month_days y) 1 yd")
  define s where "s = t mod 86400"
  from split_year_bounds [OF yd] have "yd < sum_list (month_days y)"
    by (simp add: month_days_facts)
  from split_month_bounds [OF md this] have "m \<le> 12" "d < month_days y ! (m - 1)" "m - 1 < 12"
    by (auto simp: month_days_facts)
  with month_days_facts(3) [of "m - 1" y] have md100: "m < 100" "Suc d < 100" by auto
  have s: "s div 3600 < 100" "s div 60 mod 60 < 100" "s mod 60 < 100" by (auto simp: s_def)
  have "y < 10000" using year yd by simp
  then obtain y1 y2 y3 y4 where y: "year_text y = [y1, y2, y3, y4]"
    "is_digit y1" "is_digit y2" "is_digit y3" "is_digit y4" by (rule year_text_shape)
  obtain m1 m2 where m: "two_digits m = [m1, m2]" "is_digit m1" "is_digit m2"
    by (rule two_digits_shape [OF md100(1)])
  obtain d1 d2 where d: "two_digits (Suc d) = [d1, d2]" "is_digit d1" "is_digit d2"
    by (rule two_digits_shape [OF md100(2)])
  obtain h1 h2 where h: "two_digits (s div 3600) = [h1, h2]" "is_digit h1" "is_digit h2"
    by (rule two_digits_shape [OF s(1)])
  obtain i1 i2 where i: "two_digits (s div 60 mod 60) = [i1, i2]" "is_digit i1" "is_digit i2"
    by (rule two_digits_shape [OF s(2)])
  obtain s1 s2 where sec: "two_digits (s mod 60) = [s1, s2]" "is_digit s1" "is_digit s2"
    by (rule two_digits_shape [OF s(3)])
  have "rfc3339_secs t = year_text y @ ''-'' @ two_digits m @ ''-'' @ two_digits (Suc d) @ ''T'' @
      two_digits (s div 3600) @ '':'' @ two_digits (s div 60 mod 60) @ '':'' @ two_digits (s mod 60) @ ''Z''"
    by (simp only: rfc3339_secs_def yd md s_def [symmetric] Let_def prod.case)
  then show ?thesis
    by (simp add: is_rfc3339_def dollar_def parse_fraction_def y m d h i sec)
qed


section \<open>A sample receipt\<close>

text \<open>A conforming receipt of 2 January 1970, on which the witnesses evaluate the model.\<close>

definition sample_binding :: binding where
  "sample_binding =
     \<lparr>b_policy_generation = 7, b_policy_hash = ''ph'', b_source_decision_revs = [(''D-1'', ''h1'')],
      b_capability_registry = \<lparr>rj_generation = Some 3, rj_hash = Some ''rh''\<rparr>,
      b_matched_capability = None, b_runtime_state = ACTIVE, b_runtime_state_epoch = 4,
      b_human_gate = NOT_REQUIRED, b_budget_class = BUDGET_OK\<rparr>"

definition sample_nonce :: dispatch_nonce where
  "sample_nonce =
     \<lparr>dn_nonce = ''n1'', dn_attempt = 1, dn_issued_at = ''1970-01-02T00:00:00Z'', dn_used_at = None\<rparr>"

definition sample_receipt :: "receipt_state \<Rightarrow> decision \<Rightarrow> receipt" where
  "sample_receipt st d =
     \<lparr>rc_receipt_id = ''00000000-0000-0000-0000-000000000001'',
      rc_issued_at = ''1970-01-02T00:00:00Z'', rc_issuer = ''engine'', rc_task_id = ''t1'',
      rc_intent_hash = ''sha256:0123456789012345678901234567890123456789012345678901234567890123'',
      rc_parent_receipt_id = None, rc_project = ''crew'', rc_decision_ids = [''D-1''], rc_tier = None,
      rc_policy_generation = 7, rc_policy_hash = ''ph'', rc_source_decision_revs = [(''D-1'', ''h1'')],
      rc_capability_registry = \<lparr>rj_generation = Some 3, rj_hash = Some ''rh''\<rparr>,
      rc_matched_capability = None, rc_reuse = None, rc_runtime_state = ACTIVE,
      rc_provider_budget = (Some ''claude'', Budget BUDGET_OK, None),
      rc_required_reviewer = Some ''codex'', rc_required_tester = Some ''script'',
      rc_human_gate = NOT_REQUIRED, rc_caller_identity = Some ''cli'', rc_caller_provenance = MANUAL,
      rc_executor_binding = Some ''claude'', rc_executor_binding_status = UNVERIFIED,
      rc_caller_identity_status = UNVERIFIED,
      rc_downgrade_reason = Some ''SHARED_UID_NO_CREDENTIAL_BOUNDARY'', rc_decision = d,
      rc_reason_code = ''OK'', rc_reason_text = [],
      rc_signature = \<lparr>sg_alg = None, sg_key_id = None, sg_value = None, sg_status = UNVERIFIED\<rparr>,
      rc_state = st, rc_binding = sample_binding, rc_idempotency_key = ''k1'', rc_attempt = 1,
      rc_max_attempts = 2, rc_dispatch_nonces = [sample_nonce], rc_supersedes = [],
      rc_provenance = None\<rparr>"

lemma sample_time: "parse_rfc3339 ''1970-01-02T00:00:00Z'' = Some 86400"
  by (simp add: parse_rfc3339_def number_def digit_value_def is_digit_def month_days_def
      parse_fraction_def days_before_year_def days_before_month_def)

lemma sample_texts:
  "is_uuid ''00000000-0000-0000-0000-000000000001''"
  "is_sha256 ''sha256:0123456789012345678901234567890123456789012345678901234567890123''"
  "is_rfc3339 ''1970-01-02T00:00:00Z''" "is_reason_code ''OK''"
  by code_simp+

lemma sample_receipt_conforms: "validate_receipt (sample_receipt st d) = []"
  by (simp add: validate_receipt_Nil_iff receipt_checks_def sample_receipt_def sample_texts
      sample_binding_def sample_nonce_def binding_ok_def revs_ok_def gate_ok_def nonce_ok_def opt_all_def)

end
