(* ===== verification/Validator.thy ===== *)
theory Validator
  imports Receipt
begin

text \<open>
  \<open>src/agent_crew/cea/validator.py\<close>: the receipt validator. \<open>validate\<close> re-checks a receipt at one
  of the five points against the inputs computed there (\<open>current_inputs\<close>) and never re-decides policy.
  Each group of early returns of the source is a stage below, in the source's order. A result keeps
  the code, the binding and the changed fields; the sentence after the code is not modelled.
\<close>

section \<open>Points, outcomes and the P6 matrix\<close>

datatype validation_point = At_Enqueue | At_Claim | At_Dispatch | At_Execute_Start | At_Result

datatype validation_outcome = Proceed | Re_Admit | Blocked | Human_Gated | Held_Back

record validation_result =
  vr_point :: validation_point
  vr_outcome :: validation_outcome
  vr_code :: string
  vr_receipt_id :: string
  vr_binding_now :: "binding option"
  vr_changed :: "string list"

record current_inputs =
  ci_binding :: "binding option"
  ci_unavailable :: "string list"
  ci_now :: "time option"
  ci_snapshot_available :: bool
  ci_snapshot_age :: "time option"
  ci_epoch_passed_non_active :: bool
  ci_claimant :: "string option"
  ci_presenter :: "string option"
  ci_presented_nonce :: "string option"
  ci_nonce_unused :: "bool option"
  ci_nonce_consumed_by :: "string option"
  ci_nonce_attempt :: "int option"
  ci_already_claimed :: bool
  ci_already_dispatched :: bool
  ci_max_receipt_age :: time
  ci_snapshot_max_age :: time
  ci_signature_verification :: "bool option"
  ci_attested_identities :: "string list"

definition o18_max_receipt_age :: time where
  "o18_max_receipt_age = 24 * 60 * 60"

definition o20_snapshot_max_age :: time where
  "o20_snapshot_max_age = 15 * 60"

text \<open>\<open>CurrentInputs()\<close> with its defaults.\<close>

definition default_inputs :: current_inputs where
  "default_inputs =
     \<lparr>ci_binding = None, ci_unavailable = [], ci_now = None, ci_snapshot_available = True,
      ci_snapshot_age = None, ci_epoch_passed_non_active = False, ci_claimant = None,
      ci_presenter = None, ci_presented_nonce = None, ci_nonce_unused = None,
      ci_nonce_consumed_by = None, ci_nonce_attempt = None, ci_already_claimed = False,
      ci_already_dispatched = False, ci_max_receipt_age = o18_max_receipt_age,
      ci_snapshot_max_age = o20_snapshot_max_age, ci_signature_verification = None,
      ci_attested_identities = []\<rparr>"

datatype cell = Cell_Ok | Cell_Block | Cell_Held | Cell_Claimed | Cell_Dispatched | Cell_Flagged

fun p6_matrix :: "runtime_state \<Rightarrow> validation_point \<Rightarrow> cell" where
  "p6_matrix ACTIVE _ = Cell_Ok"
| "p6_matrix DRAINING At_Enqueue = Cell_Block"
| "p6_matrix DRAINING At_Claim = Cell_Held"
| "p6_matrix DRAINING At_Dispatch = Cell_Claimed"
| "p6_matrix DRAINING At_Execute_Start = Cell_Dispatched"
| "p6_matrix DRAINING At_Result = Cell_Ok"
| "p6_matrix QUARANTINED At_Result = Cell_Flagged"
| "p6_matrix QUARANTINED _ = Cell_Block"
| "p6_matrix STOPPED At_Result = Cell_Flagged"
| "p6_matrix STOPPED _ = Cell_Block"

fun point_states :: "validation_point \<Rightarrow> receipt_state list" where
  "point_states At_Enqueue = [ISSUED]"
| "point_states At_Claim = [QUEUED, HELD]"
| "point_states At_Dispatch = [CLAIMED]"
| "point_states At_Execute_Start = [CLAIMED, RUNNING]"
| "point_states At_Result = [RUNNING, CLAIMED]"

record runtime_verdict =
  rv_state :: runtime_state
  rv_point :: validation_point
  rv_cell :: cell
  rv_outcome :: validation_outcome
  rv_code :: string

definition permits :: "runtime_verdict \<Rightarrow> bool" where
  "permits v \<longleftrightarrow> rv_outcome v = Proceed"

definition runtime_state_verdict ::
  "runtime_state \<Rightarrow> validation_point \<Rightarrow> bool \<Rightarrow> bool \<Rightarrow> runtime_verdict" where
  "runtime_state_verdict rt p already_claimed already_dispatched =
     (let c = p6_matrix rt p;
          verdict = (\<lambda>out code. \<lparr>rv_state = rt, rv_point = p, rv_cell = c, rv_outcome = out, rv_code = code\<rparr>)
      in if c = Cell_Block then verdict Blocked ''RUNTIME_STATE_FORBIDS''
         else if c = Cell_Held then verdict Held_Back ''RUNTIME_DRAINING''
         else if c = Cell_Claimed \<and> \<not> already_claimed then verdict Held_Back ''RUNTIME_DRAINING''
         else if c = Cell_Dispatched \<and> \<not> already_dispatched then verdict Held_Back ''RUNTIME_DRAINING''
         else verdict Proceed ''OK'')"

section \<open>Helpers\<close>

definition nonce_started :: "current_inputs \<Rightarrow> bool" where
  "nonce_started cur \<longleftrightarrow>
     ci_nonce_unused cur = Some False
     \<and> (case ci_nonce_consumed_by cur of None \<Rightarrow> False | Some w \<Rightarrow> startswith w ''execute_start:'')"

definition answer ::
  "validation_point \<Rightarrow> validation_outcome \<Rightarrow> string \<Rightarrow> string \<Rightarrow> binding option \<Rightarrow> string list
   \<Rightarrow> validation_result" where
  "answer p out code rid b changed =
     \<lparr>vr_point = p, vr_outcome = out, vr_code = code, vr_receipt_id = rid,
      vr_binding_now = b, vr_changed = changed\<rparr>"

fun gate_state :: "human_gate \<Rightarrow> string" where
  "gate_state NOT_REQUIRED = ''NOT_REQUIRED''"
| "gate_state PENDING = ''PENDING''"
| "gate_state DENIED = ''DENIED''"
| "gate_state (GRANTED _) = ''GRANTED''"

definition unverified_reuse :: "reuse option \<Rightarrow> bool" where
  "unverified_reuse ru =
     (case ru of None \<Rightarrow> False
      | Some u \<Rightarrow> ru_decision u \<in> set [REUSE, EXTEND] \<and> \<not> ru_approver_verified u)"

definition identity_dependent :: "receipt \<Rightarrow> bool" where
  "identity_dependent r =
     ((case rc_provenance r of None \<Rightarrow> False
       | Some pv \<Rightarrow>
           (case pv_intent_identity pv of None \<Rightarrow> False
            | Some i \<Rightarrow> id_work_class i \<in> set identity_dependent_work_classes))
      \<or> truthy (rc_required_reviewer r) \<or> truthy (rc_required_tester r)
      \<or> gate_state (rc_human_gate r) \<noteq> ''NOT_REQUIRED''
      \<or> unverified_reuse (rc_reuse r))"

definition verified_signature :: "receipt \<Rightarrow> current_inputs \<Rightarrow> bool" where
  "verified_signature r cur \<longleftrightarrow>
     sg_status (rc_signature r) = VERIFIED \<and> ci_signature_verification cur = Some True"

definition verified_identity :: "receipt \<Rightarrow> current_inputs \<Rightarrow> string \<Rightarrow> bool" where
  "verified_identity r cur field \<longleftrightarrow>
     (if field = ''executor_binding'' then rc_executor_binding_status r = VERIFIED
      else if field = ''caller_identity'' then rc_caller_identity_status r = VERIFIED else False)
     \<and> field \<in> set (ci_attested_identities cur)"

section \<open>Binding drift (P3)\<close>

text \<open>\<open>_revs\<close> builds a dictionary: a later entry for the same decision id wins.\<close>

definition revs_lookup :: "(string \<times> string) list \<Rightarrow> string \<Rightarrow> string option" where
  "revs_lookup revs k = map_option snd (row_of fst k (rev revs))"

definition revs_equal :: "(string \<times> string) list \<Rightarrow> (string \<times> string) list \<Rightarrow> bool" where
  "revs_equal was now \<longleftrightarrow>
     list_all (\<lambda>k. revs_lookup was k = revs_lookup now k) (map fst was @ map fst now)"

definition capability_key :: "(string \<times> string option) option \<Rightarrow> string option \<times> string option" where
  "capability_key c = (case c of None \<Rightarrow> (None, None) | Some (i, owner) \<Rightarrow> (owner, Some i))"

definition drifted_fields :: "binding \<Rightarrow> binding \<Rightarrow> string list" where
  "drifted_fields was now =
     map fst (filter snd
       [(''policy_generation'', b_policy_generation was \<noteq> b_policy_generation now),
        (''policy_hash'', b_policy_hash was \<noteq> b_policy_hash now),
        (''source_decision_revs'',
           \<not> revs_equal (b_source_decision_revs was) (b_source_decision_revs now)),
        (''capability_registry'',
           rj_generation (b_capability_registry was) \<noteq> rj_generation (b_capability_registry now)
           \<or> rj_hash (b_capability_registry was) \<noteq> rj_hash (b_capability_registry now)),
        (''matched_capability'',
           capability_key (b_matched_capability was) \<noteq> capability_key (b_matched_capability now)),
        (''runtime_state'', b_runtime_state was \<noteq> b_runtime_state now),
        (''runtime_state_epoch'', b_runtime_state_epoch was \<noteq> b_runtime_state_epoch now),
        (''human_gate_state'', gate_state (b_human_gate was) \<noteq> gate_state (b_human_gate now)),
        (''budget_class'', b_budget_class was \<noteq> b_budget_class now)])"

section \<open>The stages of \<open>validate\<close>\<close>

fun terminal_code :: "receipt_state \<Rightarrow> string option" where
  "terminal_code CONSUMED = Some ''RECEIPT_CONSUMED''"
| "terminal_code SUPERSEDED = Some ''RECEIPT_SUPERSEDED''"
| "terminal_code REVOKED = Some ''RECEIPT_REVOKED''"
| "terminal_code _ = None"

definition check_state :: "receipt \<Rightarrow> validation_point \<Rightarrow> validation_result option" where
  "check_state r p =
     (let rid = rc_receipt_id r in
      case terminal_code (rc_state r) of
        Some code \<Rightarrow> Some (answer p Blocked code rid None [])
      | None \<Rightarrow>
          if rc_state r \<in> set (point_states p) then None
          else if rc_state r = HELD then Some (answer p Held_Back ''RECEIPT_HELD'' rid None [])
          else Some (answer p Blocked ''RECEIPT_STATE_INVALID'' rid None []))"

definition check_integrity ::
  "receipt \<Rightarrow> validation_point \<Rightarrow> current_inputs \<Rightarrow> validation_result option" where
  "check_integrity r p cur =
     (let rid = rc_receipt_id r;
          unverified_identity =
            \<not> (verified_identity r cur ''executor_binding'' \<and> verified_identity r cur ''caller_identity'')
      in if \<not> verified_signature r cur \<and> sg_status (rc_signature r) = VERIFIED
         then Some (answer p Blocked ''SIGNATURE_UNVERIFIED_AT_BOUNDARY'' rid None [])
         else if \<not> verified_signature r cur \<and> \<not> truthy (rc_downgrade_reason r)
         then Some (answer p Blocked ''RECEIPT_UNSIGNED'' rid None [])
         else if unverified_identity \<and> rc_decision r = ALLOW \<and> identity_dependent r
         then Some (answer p Blocked ''IDENTITY_DEPENDENT_ALLOW_UNVERIFIED'' rid None [])
         else None)"

definition check_decision :: "receipt \<Rightarrow> validation_point \<Rightarrow> validation_result option" where
  "check_decision r p =
     (let rid = rc_receipt_id r
      in if rc_decision r = BLOCK then Some (answer p Blocked ''DECISION_BLOCK'' rid None [])
         else if rc_decision r = HUMAN_GATE
         then Some (answer p Human_Gated ''DECISION_HUMAN_GATE'' rid None [])
         else if rc_decision r = REVIEW \<and> p = At_Enqueue \<and> \<not> truthy (rc_required_reviewer r)
         then Some (answer p Blocked ''REVIEW_WITHOUT_REVIEWER'' rid None [])
         else None)"

definition check_nonce ::
  "receipt \<Rightarrow> validation_point \<Rightarrow> current_inputs \<Rightarrow> validation_result option" where
  "check_nonce r p cur =
     (let rid = rc_receipt_id r; refuse = (\<lambda>code. Some (answer p Blocked code rid None []))
      in if p \<noteq> At_Execute_Start \<and> p \<noteq> At_Result then None
         else if \<not> truthy (ci_presented_nonce cur) then refuse ''NONCE_MISSING''
         else case row_of dn_nonce (the (ci_presented_nonce cur)) (rev (rc_dispatch_nonces r)) of
           None \<Rightarrow> refuse ''NONCE_UNKNOWN''
         | Some n \<Rightarrow>
             if dn_attempt n \<noteq> rc_attempt r then refuse ''NONCE_WRONG_ATTEMPT''
             else if p = At_Execute_Start \<and> ci_nonce_unused cur = Some False then refuse ''NONCE_REUSED''
             else if p = At_Result \<and> \<not> nonce_started cur then refuse ''NONCE_NOT_STARTED''
             else if p = At_Result \<and> ci_nonce_attempt cur \<noteq> None \<and> ci_nonce_attempt cur \<noteq> Some (rc_attempt r)
             then refuse ''NONCE_WRONG_ATTEMPT''
             else if p = At_Result \<and> rc_state r \<noteq> RUNNING then refuse ''RESULT_WITHOUT_EXECUTE_START''
             else None)"

definition check_executor ::
  "receipt \<Rightarrow> validation_point \<Rightarrow> current_inputs \<Rightarrow> validation_result option" where
  "check_executor r p cur =
     (let shown = (if p = At_Claim then ci_claimant cur else ci_presenter cur)
      in if shown \<noteq> None \<and> truthy (rc_executor_binding r) \<and> shown \<noteq> rc_executor_binding r
         then Some (answer p Blocked ''EXECUTOR_BINDING_MISMATCH'' (rc_receipt_id r) None [])
         else None)"

definition check_inputs ::
  "receipt \<Rightarrow> validation_point \<Rightarrow> current_inputs \<Rightarrow> validation_result option" where
  "check_inputs r p cur =
     (let rid = rc_receipt_id r; b = ci_binding cur;
          outcome = (if p = At_Enqueue then Blocked else Held_Back)
      in if b = None \<or> ci_unavailable cur \<noteq> []
         then (if p = At_Result
               then Some (answer p Proceed ''RESULT_ACCEPTED_INPUTS_UNAVAILABLE'' rid None [])
               else Some (answer p outcome ''INPUTS_UNAVAILABLE'' rid b []))
         else if \<not> ci_snapshot_available cur
                 \<and> (case ci_snapshot_age cur of None \<Rightarrow> True | Some age \<Rightarrow> ci_snapshot_max_age cur < age)
         then (if p = At_Result
               then Some (answer p Proceed ''RESULT_ACCEPTED_SNAPSHOT_STALE'' rid b [])
               else Some (answer p outcome ''SNAPSHOT_STALE'' rid b []))
         else None)"

definition check_runtime ::
  "receipt \<Rightarrow> validation_point \<Rightarrow> current_inputs \<Rightarrow> binding \<Rightarrow> validation_result option" where
  "check_runtime r p cur b =
     (let v = runtime_state_verdict (b_runtime_state b) p (ci_already_claimed cur) (ci_already_dispatched cur)
      in if rv_outcome v = Proceed then None
         else Some (answer p (rv_outcome v) (rv_code v) (rc_receipt_id r) (Some b) []))"

definition result_answer :: "receipt \<Rightarrow> binding \<Rightarrow> validation_result" where
  "result_answer r b =
     (let p = At_Result; rid = rc_receipt_id r; changed = drifted_fields (rc_binding r) b
      in if changed \<noteq> [] then answer p Proceed ''STALE_RECEIPT'' rid (Some b) changed
         else if p6_matrix (b_runtime_state b) p = Cell_Flagged
         then answer p Proceed ''RESULT_ACCEPTED_NO_SUCCESSORS'' rid (Some b) []
         else answer p Proceed ''OK'' rid (Some b) [])"

definition readmit_fields :: "string list" where
  "readmit_fields =
     [''policy_generation'', ''policy_hash'', ''source_decision_revs'', ''capability_registry'',
      ''matched_capability'']"

definition check_binding ::
  "time \<Rightarrow> receipt \<Rightarrow> validation_point \<Rightarrow> current_inputs \<Rightarrow> binding \<Rightarrow> validation_result option" where
  "check_binding clock r p cur b =
     (let rid = rc_receipt_id r;
          changed = drifted_fields (rc_binding r) b;
          now = (case ci_now cur of None \<Rightarrow> clock | Some t \<Rightarrow> t);
          gate_now = gate_state (b_human_gate b);
          gate_was = gate_state (b_human_gate (rc_binding r));
          say = (\<lambda>out code. Some (answer p out code rid (Some b) changed))
      in if ''runtime_state_epoch'' \<in> set changed \<or> ci_epoch_passed_non_active cur
         then say Blocked ''RUNTIME_EPOCH_ADVANCED''
         else if gate_was = ''GRANTED'' \<and> gate_now \<noteq> ''GRANTED'' then say Blocked ''HUMAN_GATE_REVOKED''
         else if gate_now = ''PENDING'' then say Human_Gated ''HUMAN_GATE_PENDING''
         else if gate_now = ''DENIED'' then say Blocked ''HUMAN_GATE_DENIED''
         else if filter (\<lambda>f. f \<in> set changed) readmit_fields \<noteq> [] then say Re_Admit ''BINDING_DRIFT''
         else if (case parse_rfc3339 (rc_issued_at r) of None \<Rightarrow> False
                  | Some issued \<Rightarrow> ci_max_receipt_age cur < now - issued)
         then say Re_Admit ''RECEIPT_TOO_OLD''
         else if b_budget_class b = EXHAUSTED then say Held_Back ''BUDGET''
         else None)"

definition validate ::
  "time \<Rightarrow> presented \<Rightarrow> validation_point \<Rightarrow> current_inputs \<Rightarrow> validation_result" where
  "validate clock pr p cur =
     (case pr of
        Not_Object \<Rightarrow> answer p Blocked ''RECEIPT_SCHEMA_INVALID'' [] None []
      | Other_Shape rid _ _ \<Rightarrow> answer p Blocked ''RECEIPT_SCHEMA_INVALID'' rid None []
      | Typed r \<Rightarrow>
          if validate_receipt r \<noteq> []
          then answer p Blocked ''RECEIPT_SCHEMA_INVALID'' (rc_receipt_id r) None []
          else first_answer
            [check_state r p, check_integrity r p cur, check_decision r p, check_nonce r p cur,
             check_executor r p cur, check_inputs r p cur]
            (let b = the (ci_binding cur) in
             first_answer [check_runtime r p cur b]
               (if p = At_Result then result_answer r b
                else first_answer [check_binding clock r p cur b]
                  (answer p Proceed ''OK'' (rc_receipt_id r) (Some b)
                     (drifted_fields (rc_binding r) b)))))"

section \<open>\<open>ContractReceiptValidator\<close>\<close>

definition validate_enqueue :: "time \<Rightarrow> presented \<Rightarrow> string \<Rightarrow> current_inputs \<Rightarrow> validation_result" where
  "validate_enqueue clock pr task_id cur =
     (let mismatch = (\<lambda>rid. answer At_Enqueue Blocked ''TASK_ID_MISMATCH'' rid None [])
      in case pr of
        Not_Object \<Rightarrow> validate clock pr At_Enqueue cur
      | Other_Shape rid t _ \<Rightarrow>
          if t \<noteq> Some task_id then mismatch rid else validate clock pr At_Enqueue cur
      | Typed r \<Rightarrow>
          if rc_task_id r \<noteq> task_id then mismatch (rc_receipt_id r)
          else validate clock pr At_Enqueue cur)"

definition validate_claim ::
  "time \<Rightarrow> presented \<Rightarrow> string option \<Rightarrow> current_inputs \<Rightarrow> validation_result" where
  "validate_claim clock pr claimant cur =
     validate clock pr At_Claim
       (case claimant of None \<Rightarrow> cur | Some c \<Rightarrow> cur\<lparr>ci_claimant := Some c\<rparr>)"

definition validate_dispatch ::
  "time \<Rightarrow> presented \<Rightarrow> int option \<Rightarrow> current_inputs \<Rightarrow> validation_result" where
  "validate_dispatch clock pr attempt cur =
     (let mismatch = (\<lambda>rid. answer At_Dispatch Blocked ''ATTEMPT_MISMATCH'' rid None [])
      in case (attempt, pr) of
        (Some a, Other_Shape rid _ n) \<Rightarrow>
          if n \<noteq> Some a then mismatch rid else validate clock pr At_Dispatch cur
      | (Some a, Typed r) \<Rightarrow>
          if rc_attempt r \<noteq> a then mismatch (rc_receipt_id r)
          else validate clock pr At_Dispatch cur
      | _ \<Rightarrow> validate clock pr At_Dispatch cur)"

definition validate_execute_start ::
  "time \<Rightarrow> presented \<Rightarrow> string option \<Rightarrow> current_inputs \<Rightarrow> validation_result" where
  "validate_execute_start clock pr nonce cur =
     validate clock pr At_Execute_Start
       (case nonce of None \<Rightarrow> cur | Some n \<Rightarrow> cur\<lparr>ci_presented_nonce := Some n\<rparr>)"

definition validate_result ::
  "time \<Rightarrow> presented \<Rightarrow> string option \<Rightarrow> string option \<Rightarrow> current_inputs \<Rightarrow> validation_result" where
  "validate_result clock pr nonce presenter cur =
     (let c1 = (case nonce of None \<Rightarrow> cur | Some n \<Rightarrow> cur\<lparr>ci_presented_nonce := Some n\<rparr>);
          c2 = (case presenter of None \<Rightarrow> c1 | Some w \<Rightarrow> c1\<lparr>ci_presenter := Some w\<rparr>)
      in validate clock pr At_Result c2)"

section \<open>Drift is a change of the bound values\<close>

lemma revs_lookup_map_of: "revs_lookup revs k = map_of (rev revs) k"
proof -
  have "map_option snd (row_of fst k xs) = map_of xs k" for xs :: "(string \<times> string) list"
    by (induction xs) auto
  then show ?thesis by (simp add: revs_lookup_def)
qed

lemma revs_equal_iff: "revs_equal was now \<longleftrightarrow> map_of (rev was) = map_of (rev now)"
proof
  assume eq: "revs_equal was now"
  show "map_of (rev was) = map_of (rev now)"
  proof
    fix k
    show "map_of (rev was) k = map_of (rev now) k"
    proof (cases "k \<in> fst ` set was \<union> fst ` set now")
      case True
      with eq show ?thesis by (auto simp: revs_equal_def list_all_iff revs_lookup_map_of)
    next
      case False
      then have "map_of (rev was) k = None" "map_of (rev now) k = None"
        by (auto simp: map_of_eq_None_iff)
      then show ?thesis by simp
    qed
  qed
qed (simp add: revs_equal_def list_all_iff revs_lookup_map_of)

text \<open>What the five fields that force a re-admission hold, and what else is bound.\<close>

definition admission_key ::
  "binding \<Rightarrow> int \<times> string \<times> (string \<rightharpoonup> string) \<times> registry_json \<times> string option \<times> string option" where
  "admission_key b =
     (b_policy_generation b, b_policy_hash b, map_of (rev (b_source_decision_revs b)),
      \<lparr>rj_generation = rj_generation (b_capability_registry b), rj_hash = rj_hash (b_capability_registry b)\<rparr>,
      capability_key (b_matched_capability b))"

definition runtime_key :: "binding \<Rightarrow> runtime_state \<times> int \<times> string \<times> budget_class" where
  "runtime_key b =
     (b_runtime_state b, b_runtime_state_epoch b, gate_state (b_human_gate b), b_budget_class b)"

lemma drifted_fields_member:
  "''policy_generation'' \<in> set (drifted_fields w n) \<longleftrightarrow> b_policy_generation w \<noteq> b_policy_generation n"
  "''policy_hash'' \<in> set (drifted_fields w n) \<longleftrightarrow> b_policy_hash w \<noteq> b_policy_hash n"
  "''source_decision_revs'' \<in> set (drifted_fields w n) \<longleftrightarrow>
     \<not> revs_equal (b_source_decision_revs w) (b_source_decision_revs n)"
  "''capability_registry'' \<in> set (drifted_fields w n) \<longleftrightarrow>
     rj_generation (b_capability_registry w) \<noteq> rj_generation (b_capability_registry n)
     \<or> rj_hash (b_capability_registry w) \<noteq> rj_hash (b_capability_registry n)"
  "''matched_capability'' \<in> set (drifted_fields w n) \<longleftrightarrow>
     capability_key (b_matched_capability w) \<noteq> capability_key (b_matched_capability n)"
  "''runtime_state_epoch'' \<in> set (drifted_fields w n) \<longleftrightarrow> b_runtime_state_epoch w \<noteq> b_runtime_state_epoch n"
  unfolding drifted_fields_def named_member by simp_all

lemma drifted_fields_Nil_iff:
  "drifted_fields w n = [] \<longleftrightarrow> admission_key w = admission_key n \<and> runtime_key w = runtime_key n"
  unfolding drifted_fields_def named_Nil_iff
  by (auto simp: admission_key_def runtime_key_def revs_equal_iff)

lemma readmit_fields_Nil_iff:
  "filter (\<lambda>f. f \<in> set (drifted_fields w n)) readmit_fields = [] \<longleftrightarrow> admission_key w = admission_key n"
  by (auto simp: readmit_fields_def drifted_fields_member admission_key_def revs_equal_iff)

section \<open>What each stage lets through\<close>

definition integrity_ok :: "receipt \<Rightarrow> current_inputs \<Rightarrow> bool" where
  "integrity_ok r cur \<longleftrightarrow>
     (sg_status (rc_signature r) = VERIFIED \<longrightarrow> ci_signature_verification cur = Some True)
     \<and> (sg_status (rc_signature r) = UNVERIFIED \<longrightarrow> truthy (rc_downgrade_reason r))
     \<and> (rc_decision r = ALLOW \<and> identity_dependent r \<longrightarrow>
          rc_executor_binding_status r = VERIFIED \<and> ''executor_binding'' \<in> set (ci_attested_identities cur)
          \<and> rc_caller_identity_status r = VERIFIED \<and> ''caller_identity'' \<in> set (ci_attested_identities cur))"

definition decision_ok :: "receipt \<Rightarrow> validation_point \<Rightarrow> bool" where
  "decision_ok r p \<longleftrightarrow>
     rc_decision r = ALLOW
     \<or> rc_decision r = REVIEW \<and> (p = At_Enqueue \<longrightarrow> truthy (rc_required_reviewer r))"

text \<open>The presented nonce is the receipt's own, minted for the attempt the receipt is at.\<close>

definition nonce_of_attempt :: "receipt \<Rightarrow> current_inputs \<Rightarrow> bool" where
  "nonce_of_attempt r cur \<longleftrightarrow>
     (\<exists>k n. ci_presented_nonce cur = Some k \<and> k \<noteq> []
        \<and> row_of dn_nonce k (rev (rc_dispatch_nonces r)) = Some n \<and> dn_attempt n = rc_attempt r)"

definition nonce_started_for :: "receipt \<Rightarrow> current_inputs \<Rightarrow> bool" where
  "nonce_started_for r cur \<longleftrightarrow>
     nonce_of_attempt r cur \<and> nonce_started cur
     \<and> (ci_nonce_attempt cur = None \<or> ci_nonce_attempt cur = Some (rc_attempt r)) \<and> rc_state r = RUNNING"

definition executor_ok :: "receipt \<Rightarrow> string option \<Rightarrow> bool" where
  "executor_ok r shown \<longleftrightarrow>
     shown = None \<or> \<not> truthy (rc_executor_binding r) \<or> shown = rc_executor_binding r"

definition inputs_fresh :: "current_inputs \<Rightarrow> bool" where
  "inputs_fresh cur \<longleftrightarrow>
     ci_unavailable cur = []
     \<and> (ci_snapshot_available cur
        \<or> (\<exists>age. ci_snapshot_age cur = Some age \<and> age \<le> ci_snapshot_max_age cur))"

definition binding_still_good :: "time \<Rightarrow> receipt \<Rightarrow> current_inputs \<Rightarrow> binding \<Rightarrow> bool" where
  "binding_still_good clock r cur b \<longleftrightarrow>
     b_runtime_state_epoch b = b_runtime_state_epoch (rc_binding r) \<and> \<not> ci_epoch_passed_non_active cur
     \<and> admission_key b = admission_key (rc_binding r)
     \<and> (b_human_gate b = NOT_REQUIRED \<and> gate_state (b_human_gate (rc_binding r)) \<noteq> ''GRANTED''
        \<or> gate_state (b_human_gate b) = ''GRANTED'')
     \<and> (\<forall>t. parse_rfc3339 (rc_issued_at r) = Some t \<longrightarrow>
           (case ci_now cur of None \<Rightarrow> clock | Some now \<Rightarrow> now) - t \<le> ci_max_receipt_age cur)
     \<and> b_budget_class b \<noteq> EXHAUSTED"

lemma check_state_None_iff: "check_state r p = None \<longleftrightarrow> rc_state r \<in> set (point_states p)"
  by (cases p; cases "rc_state r") (auto simp: check_state_def)

lemma check_integrity_None_iff: "check_integrity r p cur = None \<longleftrightarrow> integrity_ok r cur"
  by (cases "sg_status (rc_signature r)")
    (auto simp: check_integrity_def Let_def integrity_ok_def verified_signature_def verified_identity_def)

lemma check_decision_None_iff: "check_decision r p = None \<longleftrightarrow> decision_ok r p"
  by (cases "rc_decision r") (auto simp: check_decision_def decision_ok_def)

lemma check_nonce_None_iff:
  "check_nonce r p cur = None \<longleftrightarrow>
     (p = At_Execute_Start \<longrightarrow> nonce_of_attempt r cur \<and> ci_nonce_unused cur \<noteq> Some False)
     \<and> (p = At_Result \<longrightarrow> nonce_started_for r cur)"
  by (cases "ci_presented_nonce cur")
    (auto simp: check_nonce_def nonce_of_attempt_def nonce_started_for_def Let_def split: option.splits)

lemma check_executor_None_iff:
  "check_executor r p cur = None \<longleftrightarrow>
     executor_ok r (if p = At_Claim then ci_claimant cur else ci_presenter cur)"
  by (auto simp: check_executor_def executor_ok_def Let_def)

lemma check_inputs_None_iff: "check_inputs r p cur = None \<longleftrightarrow> ci_binding cur \<noteq> None \<and> inputs_fresh cur"
  by (auto simp: check_inputs_def inputs_fresh_def Let_def not_less split: option.splits)

lemma check_runtime_None_iff:
  "check_runtime r p cur b = None \<longleftrightarrow>
     permits (runtime_state_verdict (b_runtime_state b) p (ci_already_claimed cur) (ci_already_dispatched cur))"
  by (simp add: check_runtime_def permits_def Let_def)

lemma gate_state_eq_iff [simp]:
  "gate_state g = ''NOT_REQUIRED'' \<longleftrightarrow> g = NOT_REQUIRED"
  "gate_state g = ''PENDING'' \<longleftrightarrow> g = PENDING" "gate_state g = ''DENIED'' \<longleftrightarrow> g = DENIED"
  by (cases g; simp)+

lemma check_binding_None_iff:
  "check_binding clock r p cur b = None \<longleftrightarrow> binding_still_good clock r cur b"
proof (cases "b_human_gate b")
  case NOT_REQUIRED
  then show ?thesis
    by (auto simp: check_binding_def Let_def binding_still_good_def readmit_fields_Nil_iff
        drifted_fields_member not_less split: option.splits)
next
  case (GRANTED v)
  then show ?thesis
    by (auto simp: check_binding_def Let_def binding_still_good_def readmit_fields_Nil_iff
        drifted_fields_member not_less split: option.splits)
qed (simp_all add: check_binding_def Let_def binding_still_good_def)

lemmas stage_None_iff =
  check_state_None_iff check_integrity_None_iff check_decision_None_iff check_nonce_None_iff
  check_executor_None_iff check_inputs_None_iff check_runtime_None_iff check_binding_None_iff

lemma answer_outcome [simp]: "vr_outcome (answer p out code rid b changed) = out"
  by (simp add: answer_def)

lemma check_state_answers: "check_state r p = Some v \<Longrightarrow> vr_outcome v \<in> {Blocked, Held_Back}"
  by (auto simp: check_state_def Let_def split: option.splits if_splits)

lemma check_integrity_answers: "check_integrity r p cur = Some v \<Longrightarrow> vr_outcome v = Blocked"
  by (auto simp: check_integrity_def Let_def split: if_splits)

lemma check_decision_answers: "check_decision r p = Some v \<Longrightarrow> vr_outcome v \<in> {Blocked, Human_Gated}"
  by (auto simp: check_decision_def Let_def split: if_splits)

lemma check_nonce_answers: "check_nonce r p cur = Some v \<Longrightarrow> vr_outcome v = Blocked"
  by (auto simp: check_nonce_def Let_def split: option.splits if_splits)

lemma check_executor_answers: "check_executor r p cur = Some v \<Longrightarrow> vr_outcome v = Blocked"
  by (auto simp: check_executor_def Let_def split: if_splits)

lemma check_inputs_answers:
  "check_inputs r p cur = Some v \<Longrightarrow> p \<noteq> At_Result \<Longrightarrow> vr_outcome v \<in> {Blocked, Held_Back}"
  "check_inputs r At_Result cur = Some v \<Longrightarrow> vr_outcome v = Proceed"
  by (auto simp: check_inputs_def Let_def split: if_splits)

lemma check_binding_answers: "check_binding clock r p cur b = Some v \<Longrightarrow> vr_outcome v \<noteq> Proceed"
  unfolding check_binding_def Let_def by (auto split: if_splits)

lemmas stage_answers =
  check_state_answers check_integrity_answers check_decision_answers check_nonce_answers
  check_executor_answers check_inputs_answers check_binding_answers

lemma check_runtime_answers: "check_runtime r p cur b = Some v \<Longrightarrow> vr_outcome v \<noteq> Proceed"
  by (auto simp: check_runtime_def Let_def split: if_splits)

lemma result_answer_proceeds: "vr_outcome (result_answer r b) = Proceed"
  by (simp add: result_answer_def Let_def)

lemma result_never_stopped [simp]:
  "permits (runtime_state_verdict rt At_Result c d)"
  by (cases rt) (simp_all add: permits_def runtime_state_verdict_def Let_def)

lemma validate_proceeds:
  assumes "p \<noteq> At_Result"
  shows "vr_outcome (validate clock (Typed r) p cur) = Proceed \<longleftrightarrow>
    validate_receipt r = [] \<and> rc_state r \<in> set (point_states p) \<and> integrity_ok r cur \<and> decision_ok r p
    \<and> (p = At_Execute_Start \<longrightarrow> nonce_of_attempt r cur \<and> ci_nonce_unused cur \<noteq> Some False)
    \<and> executor_ok r (if p = At_Claim then ci_claimant cur else ci_presenter cur)
    \<and> inputs_fresh cur
    \<and> (\<exists>b. ci_binding cur = Some b
          \<and> permits (runtime_state_verdict (b_runtime_state b) p (ci_already_claimed cur) (ci_already_dispatched cur))
          \<and> binding_still_good clock r cur b)"
    (is "_ \<longleftrightarrow> ?go")
proof (cases "validate_receipt r = [] \<and> check_state r p = None \<and> check_integrity r p cur = None
    \<and> check_decision r p = None \<and> check_nonce r p cur = None \<and> check_executor r p cur = None
    \<and> check_inputs r p cur = None")
  case True
  then obtain b where b: "ci_binding cur = Some b" by (auto simp: check_inputs_None_iff)
  from True assms b have "vr_outcome (validate clock (Typed r) p cur) = Proceed \<longleftrightarrow>
      check_runtime r p cur b = None \<and> check_binding clock r p cur b = None"
    by (auto simp: validate_def first_answer_Cons split: option.splits dest: check_runtime_answers stage_answers)
  with True assms b show ?thesis by (simp add: stage_None_iff)
next
  case False
  then have "vr_outcome (validate clock (Typed r) p cur) \<noteq> Proceed"
    using assms by (auto simp: validate_def first_answer_Cons split: option.splits dest: stage_answers)
  moreover from False assms have "\<not> ?go" by (auto simp: stage_None_iff)
  ultimately show ?thesis by blast
qed

text \<open>
  Claim C1: before execution (enqueue, claim, dispatch, execute start) a receipt proceeds exactly
  when it conforms to the contract, is in a state of that point, its signature and identity claims
  are backed, its decision is ALLOW or a REVIEW that names its reviewer, its nonce is its own
  unspent one of this attempt, its executor is the bound one, the inputs could be computed and are
  fresh, P6 permits the point, and nothing it was bound to has changed since issue.
\<close>

theorem validate_proceeds_iff:
  assumes "p \<noteq> At_Result"
  shows "vr_outcome (validate clock (Typed r) p cur) = Proceed \<longleftrightarrow>
    validate_receipt r = [] \<and> rc_state r \<in> set (point_states p) \<and> integrity_ok r cur \<and> decision_ok r p
    \<and> (p = At_Execute_Start \<longrightarrow> nonce_of_attempt r cur \<and> ci_nonce_unused cur \<noteq> Some False)
    \<and> executor_ok r (if p = At_Claim then ci_claimant cur else ci_presenter cur)
    \<and> inputs_fresh cur
    \<and> (\<exists>b. ci_binding cur = Some b
          \<and> permits (runtime_state_verdict (b_runtime_state b) p (ci_already_claimed cur) (ci_already_dispatched cur))
          \<and> binding_still_good clock r cur b)"
  by (rule validate_proceeds [OF assms])

definition sample_inputs :: current_inputs where
  "sample_inputs =
     default_inputs\<lparr>ci_binding := Some sample_binding, ci_now := Some 90000, ci_claimant := Some ''claude'',
       ci_presenter := Some ''claude'', ci_presented_nonce := Some ''n1'', ci_nonce_unused := Some True\<rparr>"

lemma sample_inputs_ready:
  "integrity_ok (sample_receipt st REVIEW) sample_inputs" "decision_ok (sample_receipt st REVIEW) p"
  "nonce_of_attempt (sample_receipt st d) sample_inputs" "inputs_fresh sample_inputs"
  "executor_ok (sample_receipt st d) (Some ''claude'')"
  "binding_still_good c (sample_receipt st d) sample_inputs sample_binding"
  by (simp_all add: integrity_ok_def decision_ok_def nonce_of_attempt_def inputs_fresh_def executor_ok_def
      binding_still_good_def sample_inputs_def default_inputs_def sample_receipt_def sample_nonce_def
      sample_time o18_max_receipt_age_def) (simp_all add: sample_binding_def)

lemma sample_inputs_fields:
  "ci_binding sample_inputs = Some sample_binding" "ci_claimant sample_inputs = Some ''claude''"
  "ci_presenter sample_inputs = Some ''claude''" "ci_nonce_unused sample_inputs = Some True"
  "ci_already_claimed sample_inputs = False" "ci_already_dispatched sample_inputs = False"
  "rc_state (sample_receipt st d) = st" "b_runtime_state sample_binding = ACTIVE"
  "rc_receipt_id (sample_receipt st d) = ''00000000-0000-0000-0000-000000000001''"
  "rc_task_id (sample_receipt st d) = ''t1''" "rc_decision (sample_receipt st d) = d"
  by (simp_all add: sample_inputs_def default_inputs_def sample_receipt_def sample_binding_def)

lemma active_permits [simp]: "permits (runtime_state_verdict ACTIVE p c d)"
  by (simp add: permits_def runtime_state_verdict_def Let_def)

theorem validate_proceeds_iff_witness:
  "vr_outcome (validate 0 (Typed (sample_receipt CLAIMED REVIEW)) At_Execute_Start sample_inputs) = Proceed
   \<and> vr_outcome (validate 0 (Typed (sample_receipt CLAIMED REVIEW)) At_Claim sample_inputs) \<noteq> Proceed"
proof -
  have e: "At_Execute_Start \<noteq> At_Result" and c: "At_Claim \<noteq> At_Result" by simp_all
  show ?thesis
    unfolding validate_proceeds_iff [OF e] validate_proceeds_iff [OF c]
    by (simp add: sample_receipt_conforms sample_inputs_ready sample_inputs_fields)
qed

text \<open>
  A result is judged by the receipt and its nonce alone. It is accepted exactly when the
  receipt conforms, its claims are backed, its decision let it run, the nonce was consumed by
  execute start for this attempt while the receipt is RUNNING, and the presenter is the bound
  executor; no binding, input outage, stale snapshot, runtime state, budget or age can refuse it
  (work in flight is never killed), and it is never sent back for admission.
\<close>

theorem validate_result_iff:
  "(vr_outcome (validate clock (Typed r) At_Result cur) = Proceed \<longleftrightarrow>
      validate_receipt r = [] \<and> integrity_ok r cur \<and> decision_ok r At_Result
      \<and> nonce_started_for r cur \<and> executor_ok r (ci_presenter cur))
   \<and> vr_outcome (validate clock (Typed r) At_Result cur) \<noteq> Re_Admit"
proof (cases "validate_receipt r = [] \<and> check_state r At_Result = None \<and> check_integrity r At_Result cur = None
    \<and> check_decision r At_Result = None \<and> check_nonce r At_Result cur = None
    \<and> check_executor r At_Result cur = None")
  case True
  have "vr_outcome (validate clock (Typed r) At_Result cur) = Proceed"
  proof (cases "check_inputs r At_Result cur")
    case None
    with True have "check_runtime r At_Result cur (the (ci_binding cur)) = None"
      by (simp add: check_runtime_None_iff)
    with None True show ?thesis by (simp add: validate_def Let_def result_answer_proceeds)
  next
    case (Some v)
    with True show ?thesis by (simp add: validate_def check_inputs_answers)
  qed
  with True show ?thesis by (simp add: stage_None_iff)
next
  case False
  then have "vr_outcome (validate clock (Typed r) At_Result cur) \<in> {Blocked, Held_Back, Human_Gated}"
    by (auto simp: validate_def first_answer_Cons split: option.splits
        dest: check_state_answers check_integrity_answers check_decision_answers check_nonce_answers
          check_executor_answers)
  moreover from False have "\<not> (validate_receipt r = [] \<and> integrity_ok r cur \<and> decision_ok r At_Result
      \<and> nonce_started_for r cur \<and> executor_ok r (ci_presenter cur))"
    by (auto simp: stage_None_iff nonce_started_for_def)
  ultimately show ?thesis by auto
qed

text \<open>
  A decision of BLOCK or HUMAN_GATE, or a terminal receipt, never proceeds, at any point and
  whatever the inputs are.
\<close>

theorem refused_never_proceeds:
  assumes "rc_decision r \<in> {BLOCK, HUMAN_GATE} \<or> rc_state r \<in> {CONSUMED, SUPERSEDED, REVOKED}"
  shows "vr_outcome (validate clock (Typed r) p cur) \<noteq> Proceed"
proof -
  from assms have "check_state r p \<noteq> None \<or> check_decision r p \<noteq> None"
    unfolding check_state_None_iff check_decision_None_iff by (cases p) (auto simp: decision_ok_def)
  then show ?thesis
    by (auto simp: validate_def first_answer_Cons split: option.splits
        dest: check_state_answers check_integrity_answers check_decision_answers)
qed

theorem refused_never_proceeds_witness:
  "vr_outcome (validate 0 (Typed (sample_receipt RUNNING BLOCK)) At_Result sample_inputs) \<noteq> Proceed"
  by (rule refused_never_proceeds) (simp add: sample_inputs_fields)

text \<open>
  The P6 matrix is monotone: whatever a runtime state permits, every looser state permits.
\<close>

theorem p6_monotone:
  assumes "a \<le> b" and "permits (runtime_state_verdict b p claimed dispatched)"
  shows "permits (runtime_state_verdict a p claimed dispatched)"
  using assms
  by (cases a; cases b; cases p)
    (simp_all add: permits_def runtime_state_verdict_def Let_def runtime_order split: if_splits)

theorem p6_monotone_witness:
  "permits (runtime_state_verdict DRAINING At_Dispatch True False)
   \<and> permits (runtime_state_verdict ACTIVE At_Dispatch True False)"
proof -
  have h: "permits (runtime_state_verdict DRAINING At_Dispatch True False)" by code_simp
  have o: "ACTIVE \<le> DRAINING" by simp
  from h p6_monotone [OF o h] show ?thesis by blast
qed

text \<open>
  \<open>drifted_fields\<close> is an exact comparison of the bound values: it is empty if and only if the two
  bindings agree on the policy, the decision revisions as a set of ids with their hashes, the
  registry, the capability and its owner, the runtime state and epoch, the gate state and the
  budget class; and it does not depend on which of the two came first.
\<close>

theorem drifted_fields_exact:
  "(drifted_fields was now = [] \<longleftrightarrow> admission_key was = admission_key now \<and> runtime_key was = runtime_key now)
   \<and> drifted_fields was now = drifted_fields now was"
proof
  show "drifted_fields was now = [] \<longleftrightarrow> admission_key was = admission_key now \<and> runtime_key was = runtime_key now"
    by (rule drifted_fields_Nil_iff)
  have "revs_equal x y = revs_equal y x" for x y by (auto simp: revs_equal_iff)
  then show "drifted_fields was now = drifted_fields now was"
    unfolding drifted_fields_def by (simp only: eq_commute)
qed

end
