(* ===== verification/Store.thy ===== *)
theory Store
  imports Receipt
begin

text \<open>
  The receipt store (\<open>cea/store.py\<close>): the append-only receipt table, the single-use dispatch
  nonces and the intent lineages, as one state record. Every operation that can raise returns a sum; a raise leaves the
  state as it was (the transaction rolls back). A receipt's JSON columns are the receipt itself,
  the wall clock is an argument.
\<close>

section \<open>Tables\<close>

record receipt_row =
  row_receipt_id :: string
  row_seq :: int
  row_receipt :: receipt
  row_recorded_at :: time
  row_recorded_by :: "string option"
  row_note :: "string option"

record nonce_entry =
  nr_nonce :: string
  nr_receipt_id :: string
  nr_attempt :: int
  nr_issued_at :: string
  nr_used_at :: "string option"
  nr_used_by :: "string option"

record lineage =
  ln_intent_hash :: string
  ln_receipt_id :: string
  ln_project :: string
  ln_state :: receipt_state
  ln_claimed_at :: time
  ln_updated_at :: time
  ln_work_hash :: "string option"

text \<open>\<open>st_tasks\<close> is the part of the queue's table the store reads: task id and status; it is
  absent in a stand-alone receipt database.\<close>

record store =
  st_receipts :: "receipt_row list"
  st_nonces :: "nonce_entry list"
  st_lineages :: "lineage list"
  st_tasks :: "(string \<times> string) list option"

definition empty_store :: store where
  "empty_store = \<lparr>st_receipts = [], st_nonces = [], st_lineages = [], st_tasks = Some []\<rparr>"

datatype store_error =
    Contract_Violation "string list"
  | Unknown_Lifecycle_State string
  | Unknown_Receipt string
  | State_Is_Terminal receipt_state receipt_state
  | Not_A_Transition receipt_state receipt_state
  | Seq_Taken
  | Nonce_Taken

section \<open>The lifecycle graph\<close>

fun receipt_state_value :: "receipt_state \<Rightarrow> string" where
  "receipt_state_value ISSUED = ''ISSUED''"
| "receipt_state_value QUEUED = ''QUEUED''"
| "receipt_state_value CLAIMED = ''CLAIMED''"
| "receipt_state_value RUNNING = ''RUNNING''"
| "receipt_state_value HELD = ''HELD''"
| "receipt_state_value CONSUMED = ''CONSUMED''"
| "receipt_state_value SUPERSEDED = ''SUPERSEDED''"
| "receipt_state_value REVOKED = ''REVOKED''"

definition live_states :: "receipt_state list" where
  "live_states = [ISSUED, QUEUED, CLAIMED, RUNNING, HELD]"

definition terminal_states :: "receipt_state list" where
  "terminal_states = [CONSUMED, SUPERSEDED, REVOKED]"

fun lifecycle_graph :: "receipt_state \<Rightarrow> receipt_state list" where
  "lifecycle_graph ISSUED = [ISSUED, QUEUED, HELD, SUPERSEDED, REVOKED]"
| "lifecycle_graph QUEUED = [QUEUED, CLAIMED, HELD, SUPERSEDED, REVOKED]"
| "lifecycle_graph CLAIMED = [CLAIMED, RUNNING, CONSUMED, HELD, SUPERSEDED, REVOKED]"
| "lifecycle_graph RUNNING = [RUNNING, CONSUMED, SUPERSEDED, REVOKED]"
| "lifecycle_graph HELD = [HELD, QUEUED, CLAIMED, SUPERSEDED, REVOKED]"
| "lifecycle_graph CONSUMED = []"
| "lifecycle_graph SUPERSEDED = []"
| "lifecycle_graph REVOKED = []"

definition lifecycle_state :: "string \<Rightarrow> receipt_state option" where
  "lifecycle_state s = find (\<lambda>st. receipt_state_value st = s) (live_states @ terminal_states)"

section \<open>Receipts\<close>

definition rows_of :: "store \<Rightarrow> string \<Rightarrow> receipt_row list" where
  "rows_of s rid = filter (\<lambda>w. row_receipt_id w = rid) (st_receipts s)"

definition next_seq :: "store \<Rightarrow> string \<Rightarrow> int" where
  "next_seq s rid = fold max (map row_seq (rows_of s rid)) (- 1) + 1"

text \<open>\<open>seq\<close> may be given; \<open>UNIQUE (receipt_id, seq)\<close> refuses a second row with it.\<close>

definition record_receipt ::
  "time \<Rightarrow> store \<Rightarrow> receipt \<Rightarrow> string option \<Rightarrow> string option \<Rightarrow> int option \<Rightarrow> store_error + int \<times> store" where
  "record_receipt clock s r recorded_by note seq =
     (let errors = validate_receipt r; rid = rc_receipt_id r;
          q = (case seq of None \<Rightarrow> next_seq s rid | Some n \<Rightarrow> n)
      in if errors \<noteq> [] then Inl (Contract_Violation errors)
         else if list_ex (\<lambda>w. row_receipt_id w = rid \<and> row_seq w = q) (st_receipts s) then Inl Seq_Taken
         else Inr (q, s\<lparr>st_receipts := st_receipts s @
                [\<lparr>row_receipt_id = rid, row_seq = q, row_receipt = r, row_recorded_at = clock,
                  row_recorded_by = recorded_by, row_note = note\<rparr>]\<rparr>))"

text \<open>The row with the highest \<open>seq\<close>.\<close>

fun latest :: "receipt_row list \<Rightarrow> receipt_row option" where
  "latest [] = None"
| "latest (w # ws) =
     (case latest ws of None \<Rightarrow> Some w
      | Some v \<Rightarrow> Some (if row_seq v \<le> row_seq w then w else v))"

definition current_receipt :: "store \<Rightarrow> string \<Rightarrow> receipt option" where
  "current_receipt s rid = map_option row_receipt (latest (rows_of s rid))"

definition receipt_history :: "store \<Rightarrow> string \<Rightarrow> receipt_row list" where
  "receipt_history s rid = sort_key row_seq (rows_of s rid)"

definition append_lifecycle_in_txn ::
  "time \<Rightarrow> store \<Rightarrow> string \<Rightarrow> receipt_state \<Rightarrow> string option \<Rightarrow> string option \<Rightarrow>
     (receipt \<Rightarrow> receipt) \<Rightarrow> (receipt \<Rightarrow> receipt) \<Rightarrow> store_error + receipt \<times> store" where
  "append_lifecycle_in_txn clock s rid st recorded_by note mutate sign =
     (case current_receipt s rid of
        None \<Rightarrow> Inl (Unknown_Receipt rid)
      | Some current \<Rightarrow>
          let frm = rc_state current in
          if st \<notin> set (lifecycle_graph frm)
          then Inl (if frm \<in> set terminal_states then State_Is_Terminal frm st else Not_A_Transition frm st)
          else let updated = sign (mutate (current\<lparr>rc_state := st\<rparr>))
               in case record_receipt clock s updated recorded_by note None of
                    Inl e \<Rightarrow> Inl e
                  | Inr (_, t) \<Rightarrow> Inr (updated, t))"

definition append_lifecycle ::
  "time \<Rightarrow> store \<Rightarrow> string \<Rightarrow> string \<Rightarrow> string option \<Rightarrow> string option \<Rightarrow>
     (receipt \<Rightarrow> receipt) \<Rightarrow> (receipt \<Rightarrow> receipt) \<Rightarrow> store_error + receipt \<times> store" where
  "append_lifecycle clock s rid state recorded_by note mutate sign =
     (let name = py_upper (py_strip state)
      in case lifecycle_state name of
           None \<Rightarrow> Inl (Unknown_Lifecycle_State name)
         | Some st \<Rightarrow> append_lifecycle_in_txn clock s rid st recorded_by note mutate sign)"

section \<open>Dispatch nonces\<close>

definition mint_nonce :: "store \<Rightarrow> string \<Rightarrow> int \<Rightarrow> string \<Rightarrow> string \<Rightarrow> store_error + store" where
  "mint_nonce s rid attempt nonce issued_at =
     (if list_ex (\<lambda>n. nr_nonce n = nonce \<or> nr_receipt_id n = rid \<and> nr_attempt n = attempt) (st_nonces s)
      then Inl Nonce_Taken
      else Inr (s\<lparr>st_nonces := st_nonces s @
             [\<lparr>nr_nonce = nonce, nr_receipt_id = rid, nr_attempt = attempt, nr_issued_at = issued_at,
               nr_used_at = None, nr_used_by = None\<rparr>]\<rparr>))"

definition execute_start_consumer :: string where
  "execute_start_consumer = ''execute_start''"

definition consumer_tag :: "string option \<Rightarrow> string \<Rightarrow> string" where
  "consumer_tag who consumer = consumer @ '':'' @ (case who of None \<Rightarrow> [] | Some w \<Rightarrow> w)"

definition consumed_by_execute_start :: "nonce_entry option \<Rightarrow> bool" where
  "consumed_by_execute_start row =
     (case row of None \<Rightarrow> False
      | Some n \<Rightarrow> truthy (nr_used_at n)
          \<and> startswith (case nr_used_by n of None \<Rightarrow> [] | Some u \<Rightarrow> u) (execute_start_consumer @ '':''))"

text \<open>\<open>used_at or _now_rfc3339()\<close>.\<close>

definition used_stamp :: "time \<Rightarrow> string option \<Rightarrow> string" where
  "used_stamp clock used_at = (if truthy used_at then the used_at else rfc3339 clock)"

definition spend_rows ::
  "(nonce_entry \<Rightarrow> bool) \<Rightarrow> string \<Rightarrow> string option \<Rightarrow> nonce_entry list \<Rightarrow> nonce_entry list" where
  "spend_rows p stamp used_by =
     map (\<lambda>n. if p n \<and> nr_used_at n = None then n\<lparr>nr_used_at := Some stamp, nr_used_by := used_by\<rparr> else n)"

definition consume_nonce ::
  "time \<Rightarrow> store \<Rightarrow> string \<Rightarrow> string option \<Rightarrow> string option \<Rightarrow> bool \<times> store" where
  "consume_nonce clock s nonce used_by used_at =
     (list_ex (\<lambda>n. nr_nonce n = nonce \<and> nr_used_at n = None) (st_nonces s),
      s\<lparr>st_nonces := spend_rows (\<lambda>n. nr_nonce n = nonce) (used_stamp clock used_at) used_by (st_nonces s)\<rparr>)"

definition cancelled_attempt_consumer :: string where
  "cancelled_attempt_consumer = ''cancelled_attempt''"

definition revoke_nonces_for_receipt ::
  "time \<Rightarrow> store \<Rightarrow> string \<Rightarrow> string \<Rightarrow> string option \<Rightarrow> nat \<times> store" where
  "revoke_nonces_for_receipt clock s rid used_by used_at =
     (length (filter (\<lambda>n. nr_receipt_id n = rid \<and> nr_used_at n = None) (st_nonces s)),
      s\<lparr>st_nonces := spend_rows (\<lambda>n. nr_receipt_id n = rid) (used_stamp clock used_at) (Some used_by)
                        (st_nonces s)\<rparr>)"

definition nonce_row :: "store \<Rightarrow> string \<Rightarrow> nonce_entry option" where
  "nonce_row s nonce = row_of nr_nonce nonce (st_nonces s)"

section \<open>Intent lineages\<close>

definition lineage_for_intent :: "store \<Rightarrow> string \<Rightarrow> lineage option" where
  "lineage_for_intent s ih = row_of ln_intent_hash ih (st_lineages s)"

definition lineage_holder :: "store \<Rightarrow> string \<Rightarrow> string option" where
  "lineage_holder s ih = map_option ln_receipt_id (lineage_for_intent s ih)"

definition claim_lineage ::
  "time \<Rightarrow> store \<Rightarrow> string \<Rightarrow> string \<Rightarrow> string \<Rightarrow> receipt_state \<Rightarrow> string option \<Rightarrow>
     (bool \<times> string option) \<times> store" where
  "claim_lineage clock s ih rid project state wh =
     (case lineage_holder s ih of
        None \<Rightarrow> ((True, Some rid),
          s\<lparr>st_lineages := st_lineages s @
             [\<lparr>ln_intent_hash = ih, ln_receipt_id = rid, ln_project = project, ln_state = state,
               ln_claimed_at = clock, ln_updated_at = clock, ln_work_hash = wh\<rparr>]\<rparr>)
      | Some holder \<Rightarrow> ((False, Some holder), s))"

definition task_status :: "store \<Rightarrow> string \<Rightarrow> string option" where
  "task_status s task_id =
     (case st_tasks s of None \<Rightarrow> None | Some ts \<Rightarrow> map_option snd (row_of fst task_id ts))"

definition task_completed :: "store \<Rightarrow> string \<Rightarrow> bool" where
  "task_completed s rid =
     list_ex (\<lambda>w. row_receipt_id w = rid \<and> task_status s (rc_task_id (row_receipt w)) = Some ''completed'')
       (st_receipts s)"

fun newest :: "lineage list \<Rightarrow> lineage option" where
  "newest [] = None"
| "newest (l # ls) =
     (case newest ls of None \<Rightarrow> Some l
      | Some m \<Rightarrow> Some (if ln_updated_at m \<le> ln_updated_at l then l else m))"

definition completed_lineage_for_work :: "store \<Rightarrow> string \<Rightarrow> string option \<Rightarrow> lineage option" where
  "completed_lineage_for_work s wh exclude =
     (if wh = [] \<or> st_tasks s = None then None
      else newest (filter (\<lambda>l. ln_work_hash l = Some wh \<and> ln_state l = CONSUMED
                              \<and> Some (ln_intent_hash l) \<noteq> exclude \<and> task_completed s (ln_receipt_id l))
                    (st_lineages s)))"

definition release_lineage :: "store \<Rightarrow> string \<Rightarrow> string \<Rightarrow> bool \<times> store" where
  "release_lineage s ih rid =
     (list_ex (\<lambda>l. ln_intent_hash l = ih \<and> ln_receipt_id l = rid) (st_lineages s),
      s\<lparr>st_lineages := filter (\<lambda>l. \<not> (ln_intent_hash l = ih \<and> ln_receipt_id l = rid)) (st_lineages s)\<rparr>)"

definition set_lineage_state :: "time \<Rightarrow> store \<Rightarrow> string \<Rightarrow> string \<Rightarrow> receipt_state \<Rightarrow> store" where
  "set_lineage_state clock s ih rid state =
     (if state = SUPERSEDED \<or> state = REVOKED then snd (release_lineage s ih rid)
      else s\<lparr>st_lineages :=
             map (\<lambda>l. if ln_intent_hash l = ih \<and> ln_receipt_id l = rid
                      then l\<lparr>ln_state := state, ln_updated_at := clock\<rparr> else l) (st_lineages s)\<rparr>)"

section \<open>Steps of the store\<close>

text \<open>What any caller can do to the store: every write of the module, with any arguments, and the
queue's own writes of the task table.\<close>

inductive store_step :: "store \<Rightarrow> store \<Rightarrow> bool" where
  step_record: "record_receipt clock s r author memo seq = Inr (q, t) \<Longrightarrow> store_step s t"
| step_lifecycle:
    "append_lifecycle clock s rid state author memo mutate sign = Inr (r, t) \<Longrightarrow> store_step s t"
| step_mint: "mint_nonce s rid attempt nonce issued = Inr t \<Longrightarrow> store_step s t"
| step_consume: "consume_nonce clock s nonce author used = (b, t) \<Longrightarrow> store_step s t"
| step_revoke: "revoke_nonces_for_receipt clock s rid who used = (n, t) \<Longrightarrow> store_step s t"
| step_claim: "claim_lineage clock s ih rid project state wh = (a, t) \<Longrightarrow> store_step s t"
| step_state: "set_lineage_state clock s ih rid state = t \<Longrightarrow> store_step s t"
| step_release: "release_lineage s ih rid = (b, t) \<Longrightarrow> store_step s t"
| step_tasks: "store_step s (s\<lparr>st_tasks := ts\<rparr>)"

lemma record_receiptD:
  assumes "record_receipt clock s r author memo seq = Inr (q, t)"
  shows "validate_receipt r = []"
    and "\<not> list_ex (\<lambda>w. row_receipt_id w = rc_receipt_id r \<and> row_seq w = q) (st_receipts s)"
    and "q = (case seq of None \<Rightarrow> next_seq s (rc_receipt_id r) | Some n \<Rightarrow> n)"
    and "t = s\<lparr>st_receipts := st_receipts s @
           [\<lparr>row_receipt_id = rc_receipt_id r, row_seq = q, row_receipt = r, row_recorded_at = clock,
             row_recorded_by = author, row_note = memo\<rparr>]\<rparr>"
  using assms by (auto simp: record_receipt_def Let_def split: if_splits)

lemma append_lifecycleD:
  assumes "append_lifecycle clock s rid state author memo mutate sign = Inr (r, t)"
  obtains c st q where "current_receipt s rid = Some c"
    and "lifecycle_state (py_upper (py_strip state)) = Some st"
    and "st \<in> set (lifecycle_graph (rc_state c))"
    and "r = sign (mutate (c\<lparr>rc_state := st\<rparr>))"
    and "record_receipt clock s r author memo None = Inr (q, t)"
  using assms
  by (auto simp: append_lifecycle_def append_lifecycle_in_txn_def Let_def
           split: option.splits if_splits sum.splits)

lemma mint_nonceD:
  assumes "mint_nonce s rid attempt nonce issued = Inr t"
  shows "\<not> list_ex (\<lambda>n. nr_nonce n = nonce \<or> nr_receipt_id n = rid \<and> nr_attempt n = attempt) (st_nonces s)"
    and "t = s\<lparr>st_nonces := st_nonces s @
             [\<lparr>nr_nonce = nonce, nr_receipt_id = rid, nr_attempt = attempt, nr_issued_at = issued,
               nr_used_at = None, nr_used_by = None\<rparr>]\<rparr>"
  using assms by (auto simp: mint_nonce_def split: if_splits)

lemma set_lineage_state_frame [simp]:
  "st_receipts (set_lineage_state clock s ih rid state) = st_receipts s"
  "st_nonces (set_lineage_state clock s ih rid state) = st_nonces s"
  "st_tasks (set_lineage_state clock s ih rid state) = st_tasks s"
  by (simp_all add: set_lineage_state_def release_lineage_def)

lemma claim_lineage_frame [simp]:
  "st_receipts (snd (claim_lineage clock s ih rid project state wh)) = st_receipts s"
  "st_nonces (snd (claim_lineage clock s ih rid project state wh)) = st_nonces s"
  "st_tasks (snd (claim_lineage clock s ih rid project state wh)) = st_tasks s"
  by (simp_all add: claim_lineage_def split: option.splits)

lemmas nonce_updates = consume_nonce_def revoke_nonces_for_receipt_def

section \<open>Receipts are append-only\<close>

lemma store_step_receipts:
  "store_step s t \<Longrightarrow> \<exists>ws. st_receipts t = st_receipts s @ ws"
proof (induction rule: store_step.induct)
  case (step_record clock s r author memo seq q t)
  then show ?case by (simp add: record_receiptD(4) [OF step_record])
next
  case (step_lifecycle clock s rid state author memo mutate sign r t)
  then obtain q where "record_receipt clock s r author memo None = Inr (q, t)"
    by (rule append_lifecycleD)
  from record_receiptD(4) [OF this] show ?case by simp
next
  case (step_mint s rid attempt nonce issued t)
  from mint_nonceD(2) [OF this] show ?case by simp
next
  case (step_claim clock s ih rid project state wh a t)
  then have "t = snd (claim_lineage clock s ih rid project state wh)" by simp
  then show ?case by simp
qed (auto simp: nonce_updates release_lineage_def)

interpretation receipts: append_log st_receipts store_step
  by unfold_locales (rule store_step_receipts)

section \<open>A nonce is spent once\<close>

definition nonce_spent :: "store \<Rightarrow> string \<Rightarrow> bool" where
  "nonce_spent s k \<longleftrightarrow>
     (\<exists>n\<in>set (st_nonces s). nr_nonce n = k) \<and>
     (\<forall>n\<in>set (st_nonces s). nr_nonce n = k \<longrightarrow> nr_used_at n \<noteq> None)"

lemma store_step_nonces:
  "store_step s t \<Longrightarrow>
     (\<exists>n. st_nonces t = st_nonces s @ [n] \<and> nr_nonce n \<notin> nr_nonce ` set (st_nonces s)
          \<and> (nr_receipt_id n, nr_attempt n) \<notin> (\<lambda>m. (nr_receipt_id m, nr_attempt m)) ` set (st_nonces s))
     \<or> (\<exists>p stamp who. st_nonces t = spend_rows p stamp who (st_nonces s))"
proof (induction rule: store_step.induct)
  case (step_record clock s r author memo seq q t)
  then show ?case
    by (intro disjI2 exI [of _ "\<lambda>_. False"]) (simp add: record_receiptD(4) [OF step_record] spend_rows_def)
next
  case (step_lifecycle clock s rid state author memo mutate sign r t)
  then obtain q where "record_receipt clock s r author memo None = Inr (q, t)"
    by (rule append_lifecycleD)
  from record_receiptD(4) [OF this] show ?case
    by (intro disjI2 exI [of _ "\<lambda>_. False"]) (simp add: spend_rows_def)
next
  case (step_mint s rid attempt nonce issued t)
  from mint_nonceD [OF this] show ?case
    by (intro disjI1) (auto simp: list_ex_iff)
next
  case (step_consume clock s nonce author used b t)
  then have "st_nonces t = spend_rows (\<lambda>n. nr_nonce n = nonce) (used_stamp clock used) author (st_nonces s)"
    by (auto simp: consume_nonce_def)
  then show ?case by blast
next
  case (step_revoke clock s rid who used n t)
  then have "st_nonces t = spend_rows (\<lambda>n. nr_receipt_id n = rid) (used_stamp clock used) (Some who) (st_nonces s)"
    by (auto simp: revoke_nonces_for_receipt_def)
  then show ?case by blast
next
  case (step_claim clock s ih rid project state wh a t)
  then have "t = snd (claim_lineage clock s ih rid project state wh)" by simp
  then show ?case by (intro disjI2 exI [of _ "\<lambda>_. False"]) (simp add: spend_rows_def)
next
  case (step_state clock s ih rid state t)
  then show ?case by (intro disjI2 exI [of _ "\<lambda>_. False"]) (auto simp: spend_rows_def)
next
  case (step_release s ih rid b t)
  then show ?case
    by (intro disjI2 exI [of _ "\<lambda>_. False"]) (auto simp: spend_rows_def release_lineage_def)
next
  case (step_tasks s ts)
  show ?case by (intro disjI2 exI [of _ "\<lambda>_. False"]) (simp add: spend_rows_def)
qed

lemma spend_rows_nonces [simp]: "map nr_nonce (spend_rows p stamp who ns) = map nr_nonce ns"
  by (simp add: spend_rows_def)

lemma spend_rows_attempts [simp]:
  "map (\<lambda>m. (nr_receipt_id m, nr_attempt m)) (spend_rows p stamp who ns)
     = map (\<lambda>m. (nr_receipt_id m, nr_attempt m)) ns"
  by (simp add: spend_rows_def)

lemma spend_rows_image [simp]: "nr_nonce ` set (spend_rows p stamp who ns) = nr_nonce ` set ns"
  by (metis spend_rows_nonces image_set)

lemma spend_rows_none_left:
  "\<not> list_ex (\<lambda>n. nr_nonce n = k \<and> nr_used_at n = None)
        (spend_rows (\<lambda>n. nr_nonce n = k) stamp who ns)"
  by (induction ns) (auto simp: spend_rows_def)

lemma nonce_spent_alt:
  "nonce_spent s k \<longleftrightarrow> k \<in> nr_nonce ` set (st_nonces s)
     \<and> \<not> list_ex (\<lambda>n. nr_nonce n = k \<and> nr_used_at n = None) (st_nonces s)"
  by (auto simp: nonce_spent_def list_ex_iff)

lemma spend_rows_spent:
  "nonce_spent s k \<Longrightarrow> nonce_spent (s\<lparr>st_nonces := spend_rows p stamp who (st_nonces s)\<rparr>) k"
  by (auto simp: nonce_spent_def spend_rows_def)

lemma spent_by_nonces: "st_nonces s = st_nonces t \<Longrightarrow> nonce_spent s k = nonce_spent t k"
  by (simp add: nonce_spent_def)

lemma store_step_spent: "store_step s t \<Longrightarrow> nonce_spent s k \<Longrightarrow> nonce_spent t k"
proof -
  assume step: "store_step s t" and spent: "nonce_spent s k"
  from store_step_nonces [OF step] show "nonce_spent t k"
  proof (elim disjE exE conjE)
    fix n assume "st_nonces t = st_nonces s @ [n]" "nr_nonce n \<notin> nr_nonce ` set (st_nonces s)"
    with spent show ?thesis by (auto simp: nonce_spent_def)
  next
    fix p stamp who assume "st_nonces t = spend_rows p stamp who (st_nonces s)"
    then have "nonce_spent t k = nonce_spent (s\<lparr>st_nonces := spend_rows p stamp who (st_nonces s)\<rparr>) k"
      by (simp add: nonce_spent_def)
    with spend_rows_spent [OF spent] show ?thesis by simp
  qed
qed

interpretation nonce_use:
  one_shot nonce_spent "\<lambda>s k. consume_nonce clock s k author used" store_step for clock author used
proof unfold_locales
  show "\<not> nonce_spent s k \<and> nonce_spent t k" if "consume_nonce clock s k author used = (True, t)" for s k t
  proof -
    from that have ex: "list_ex (\<lambda>n. nr_nonce n = k \<and> nr_used_at n = None) (st_nonces s)"
      and t: "st_nonces t = spend_rows (\<lambda>n. nr_nonce n = k) (used_stamp clock used) author (st_nonces s)"
      by (auto simp: consume_nonce_def)
    have "k \<in> nr_nonce ` set (st_nonces s)" using ex by (auto simp: list_ex_iff)
    then have "k \<in> nr_nonce ` set (st_nonces t)" by (simp only: t spend_rows_image)
    moreover have "\<not> list_ex (\<lambda>n. nr_nonce n = k \<and> nr_used_at n = None) (st_nonces t)"
      unfolding t by (rule spend_rows_none_left)
    ultimately show ?thesis using ex unfolding nonce_spent_alt by blast
  qed
  show "nonce_spent t j" if "consume_nonce clock s k author used = (b, t)" "nonce_spent s j" for s k b t j
    using that by (meson step_consume store_step_spent)
  show "nonce_spent t j" if "store_step s t" "nonce_spent s j" for s t j
    using that by (rule store_step_spent)
qed

text \<open>Who spent a nonce, and when, is fixed from then on: the row \<open>consumed_by_execute_start\<close> reads.\<close>

lemma spend_rows_row:
  "row_of nr_nonce k ns = Some n \<Longrightarrow> nr_used_at n \<noteq> None
     \<Longrightarrow> row_of nr_nonce k (spend_rows p stamp who ns) = Some n"
  by (auto simp: spend_rows_def row_of_map_upd)

lemma store_step_spent_row:
  "store_step s t \<Longrightarrow> nonce_row s k = Some n \<Longrightarrow> nr_used_at n \<noteq> None \<Longrightarrow> nonce_row t k = Some n"
  by (drule store_step_nonces) (auto simp: nonce_row_def row_of_append spend_rows_row)

lemma run_spent_row:
  "store_step\<^sup>*\<^sup>* s t \<Longrightarrow> nonce_row s k = Some n \<Longrightarrow> nr_used_at n \<noteq> None \<Longrightarrow> nonce_row t k = Some n"
  by (induction rule: rtranclp_induct) (auto intro: store_step_spent_row)

lemma run_of_steps: "store_step\<^sup>*\<^sup>* s t \<Longrightarrow> nonce_use.run clock author used s t"
  by (induction rule: rtranclp_induct) (auto intro: nonce_use.run.intros)

lemma consume_nonce_row:
  assumes "consume_nonce clock s k author used = (True, t)" and "distinct (map nr_nonce (st_nonces s))"
  shows "\<exists>n. nonce_row s k = Some n \<and> nr_used_at n = None \<and>
           nonce_row t k = Some (n\<lparr>nr_used_at := Some (used_stamp clock used), nr_used_by := author\<rparr>)"
proof -
  from assms(1) obtain n where n: "n \<in> set (st_nonces s)" "nr_nonce n = k" "nr_used_at n = None"
    by (auto simp: consume_nonce_def list_ex_iff)
  then have row: "row_of nr_nonce k (st_nonces s) = Some n"
    using row_of_distinct [OF assms(2)] by blast
  from assms(1) have "st_nonces t = spend_rows (\<lambda>n. nr_nonce n = k) (used_stamp clock used) author (st_nonces s)"
    by (auto simp: consume_nonce_def)
  with row n show ?thesis by (simp add: nonce_row_def spend_rows_def row_of_map_upd)
qed

section \<open>One lineage per intent\<close>

text \<open>The claim as its callers see it: won or lost.\<close>

definition lineage_claim ::
  "time \<Rightarrow> string \<Rightarrow> receipt_state \<Rightarrow> string option \<Rightarrow> store \<Rightarrow> string \<Rightarrow> string \<Rightarrow> bool \<times> store" where
  "lineage_claim clock project state wh s ih rid =
     (let (a, t) = claim_lineage clock s ih rid project state wh in (fst a, t))"

lemma lineage_claim_holder:
  "lineage_claim clock project state wh s ih rid = (b, t) \<Longrightarrow>
     b = (lineage_holder s ih = None) \<and>
     lineage_holder t = (if b then (lineage_holder s)(ih := Some rid) else lineage_holder s)"
  by (auto simp: lineage_claim_def claim_lineage_def lineage_holder_def lineage_for_intent_def
      row_of_append fun_eq_iff split: option.splits prod.splits)

interpretation lineages: exclusive_slot lineage_holder "lineage_claim clock project state wh"
  for clock project state wh
proof unfold_locales
  show "lineage_holder s k = None \<and> lineage_holder t k = Some h"
    if "lineage_claim clock project state wh s k h = (True, t)" for s k h t
    using lineage_claim_holder [OF that] by auto
  show "lineage_holder t k = lineage_holder s k"
    if "lineage_claim clock project state wh s k h = (False, t)" for s k h t
    using lineage_claim_holder [OF that] by auto
  show "\<not> fst (lineage_claim clock project state wh s k h)" if "lineage_holder s k \<noteq> None" for s k h
    using that by (cases "lineage_claim clock project state wh s k h") (auto dest: lineage_claim_holder)
  show "lineage_holder t j = lineage_holder s j"
    if "lineage_claim clock project state wh s k h = (b, t)" "j \<noteq> k" for s k h b t j
    using lineage_claim_holder [OF that(1)] that(2) by (auto split: if_splits)
qed

text \<open>A lineage leaves its holder only by that holder's release.\<close>

lemma row_of_release:
  "distinct (map ln_intent_hash ls) \<Longrightarrow>
     map_option ln_receipt_id
       (row_of ln_intent_hash j (filter (\<lambda>l. \<not> (ln_intent_hash l = ih \<and> ln_receipt_id l = rid)) ls)) =
       (if j = ih \<and> map_option ln_receipt_id (row_of ln_intent_hash ih ls) = Some rid then None
        else map_option ln_receipt_id (row_of ln_intent_hash j ls))"
proof (induction ls)
  case Nil
  then show ?case by simp
next
  case (Cons l ls)
  then have "row_of ln_intent_hash (ln_intent_hash l) ls = None" by (auto simp: row_of_None_iff)
  with Cons show ?case by auto
qed

lemma release_lineage_holder:
  "distinct (map ln_intent_hash (st_lineages s)) \<Longrightarrow>
     lineage_holder (snd (release_lineage s ih rid)) j =
       (if j = ih \<and> lineage_holder s ih = Some rid then None else lineage_holder s j)"
  unfolding release_lineage_def lineage_holder_def lineage_for_intent_def
  using row_of_release [of "st_lineages s" j ih rid] by simp

section \<open>What every store satisfies\<close>

text \<open>The contract at the door of the receipt table, and the key constraints of the tables.\<close>

definition row_ok :: "receipt_row \<Rightarrow> bool" where
  "row_ok w \<longleftrightarrow> validate_receipt (row_receipt w) = [] \<and> rc_receipt_id (row_receipt w) = row_receipt_id w"

definition store_ok :: "store \<Rightarrow> bool" where
  "store_ok s \<longleftrightarrow>
     list_all row_ok (st_receipts s) \<and>
     distinct (map (\<lambda>w. (row_receipt_id w, row_seq w)) (st_receipts s)) \<and>
     distinct (map nr_nonce (st_nonces s)) \<and>
     distinct (map (\<lambda>n. (nr_receipt_id n, nr_attempt n)) (st_nonces s)) \<and>
     distinct (map ln_intent_hash (st_lineages s))"

lemma store_ok_empty: "store_ok empty_store"
  by (simp add: store_ok_def empty_store_def)

lemma record_keeps_rows:
  assumes "record_receipt clock s r author memo seq = Inr (q, t)"
    and "list_all row_ok (st_receipts s)"
    and "distinct (map (\<lambda>w. (row_receipt_id w, row_seq w)) (st_receipts s))"
  shows "list_all row_ok (st_receipts t)
     \<and> distinct (map (\<lambda>w. (row_receipt_id w, row_seq w)) (st_receipts t))"
  using assms record_receiptD [OF assms(1)] by (auto simp: row_ok_def list_ex_iff image_iff)

lemma store_step_rows:
  "store_step s t \<Longrightarrow> st_receipts t = st_receipts s \<or>
     (\<exists>clock r author memo seq q u. record_receipt clock s r author memo seq = Inr (q, u)
        \<and> st_receipts t = st_receipts u)"
proof (induction rule: store_step.induct)
  case (step_record clock s r author memo seq q t)
  then show ?case by blast
next
  case (step_lifecycle clock s rid state author memo mutate sign r t)
  then obtain q where "record_receipt clock s r author memo None = Inr (q, t)"
    by (rule append_lifecycleD)
  then show ?case by blast
next
  case (step_mint s rid attempt nonce issued t)
  from mint_nonceD(2) [OF this] show ?case by simp
next
  case (step_claim clock s ih rid project state wh a t)
  then have "t = snd (claim_lineage clock s ih rid project state wh)" by simp
  then show ?case by simp
qed (auto simp: nonce_updates release_lineage_def)

lemma claim_lineage_keys:
  "distinct (map ln_intent_hash (st_lineages s)) \<Longrightarrow>
     distinct (map ln_intent_hash (st_lineages (snd (claim_lineage clock s ih rid project state wh))))"
  by (auto simp: claim_lineage_def lineage_holder_def lineage_for_intent_def row_of_None_iff
      split: option.splits)

lemma set_lineage_state_keys:
  "distinct (map ln_intent_hash (st_lineages s)) \<Longrightarrow>
     distinct (map ln_intent_hash (st_lineages (set_lineage_state clock s ih rid state)))"
proof -
  have "ln_intent_hash \<circ> (\<lambda>l::lineage. if ln_intent_hash l = ih \<and> ln_receipt_id l = rid
      then l\<lparr>ln_state := state, ln_updated_at := clock\<rparr> else l) = ln_intent_hash" by auto
  then show "distinct (map ln_intent_hash (st_lineages s)) \<Longrightarrow> ?thesis"
    by (simp add: set_lineage_state_def release_lineage_def distinct_map_filter)
qed

lemma store_step_lineage_keys:
  "store_step s t \<Longrightarrow> distinct (map ln_intent_hash (st_lineages s))
     \<Longrightarrow> distinct (map ln_intent_hash (st_lineages t))"
proof (induction rule: store_step.induct)
  case (step_record clock s r author memo seq q t)
  then show ?case by (simp add: record_receiptD(4) [OF step_record(1)])
next
  case (step_lifecycle clock s rid state author memo mutate sign r t)
  then obtain q where "record_receipt clock s r author memo None = Inr (q, t)"
    by (meson append_lifecycleD)
  from record_receiptD(4) [OF this] step_lifecycle show ?case by simp
next
  case (step_mint s rid attempt nonce issued t)
  from mint_nonceD(2) [OF step_mint(1)] step_mint show ?case by simp
next
  case (step_claim clock s ih rid project state wh a t)
  then have "t = snd (claim_lineage clock s ih rid project state wh)" by simp
  with step_claim show ?case by (simp add: claim_lineage_keys)
next
  case (step_state clock s ih rid state t)
  then show ?case using set_lineage_state_keys by blast
qed (auto simp: nonce_updates release_lineage_def distinct_map_filter)

lemma store_step_nonce_keys:
  "store_step s t \<Longrightarrow>
     distinct (map nr_nonce (st_nonces s)) \<and> distinct (map (\<lambda>n. (nr_receipt_id n, nr_attempt n)) (st_nonces s)) \<Longrightarrow>
     distinct (map nr_nonce (st_nonces t)) \<and> distinct (map (\<lambda>n. (nr_receipt_id n, nr_attempt n)) (st_nonces t))"
  by (drule store_step_nonces) auto

lemma store_step_ok: "store_step s t \<Longrightarrow> store_ok s \<Longrightarrow> store_ok t"
proof -
  assume step: "store_step s t" and ok: "store_ok s"
  have "list_all row_ok (st_receipts t)
      \<and> distinct (map (\<lambda>w. (row_receipt_id w, row_seq w)) (st_receipts t))"
    using store_step_rows [OF step] ok record_keeps_rows by (auto simp: store_ok_def)
  with ok store_step_lineage_keys [OF step] store_step_nonce_keys [OF step] show "store_ok t"
    by (simp add: store_ok_def)
qed

lemma run_ok: "store_step\<^sup>*\<^sup>* s t \<Longrightarrow> store_ok s \<Longrightarrow> store_ok t"
  by (induction rule: rtranclp_induct) (auto intro: store_step_ok)

section \<open>Lifecycle\<close>

text \<open>
  The writes the queue and the engine make: every receipt recorded under an id that exists moves
  it along the graph, and every append goes through \<open>append_lifecycle\<close> with a change and a
  signature that leave the state and the id alone.
\<close>

definition continues :: "store \<Rightarrow> receipt \<Rightarrow> bool" where
  "continues s r =
     (case current_receipt s (rc_receipt_id r) of None \<Rightarrow> True
      | Some c \<Rightarrow> rc_state r \<in> set (lifecycle_graph (rc_state c)))"

definition keeps_identity :: "(receipt \<Rightarrow> receipt) \<Rightarrow> bool" where
  "keeps_identity f \<longleftrightarrow> (\<forall>c. rc_receipt_id (f c) = rc_receipt_id c \<and> rc_state (f c) = rc_state c)"

inductive lifecycle_step :: "store \<Rightarrow> store \<Rightarrow> bool" where
  step_beside: "store_step s t \<Longrightarrow> st_receipts t = st_receipts s \<Longrightarrow> lifecycle_step s t"
| step_recorded:
    "record_receipt clock s r author memo None = Inr (q, t) \<Longrightarrow> continues s r \<Longrightarrow> lifecycle_step s t"
| step_moved:
    "append_lifecycle clock s rid state author memo mutate sign = Inr (r, t)
       \<Longrightarrow> keeps_identity mutate \<Longrightarrow> keeps_identity sign \<Longrightarrow> lifecycle_step s t"

lemma lifecycle_step_is_store_step: "lifecycle_step s t \<Longrightarrow> store_step s t"
  by (induction rule: lifecycle_step.induct) (assumption, erule step_record, erule step_lifecycle)

lemma lifecycle_run_is_store_run: "lifecycle_step\<^sup>*\<^sup>* s t \<Longrightarrow> store_step\<^sup>*\<^sup>* s t"
  by (erule rtranclp_mono [THEN predicate2D, rotated]) (blast intro: lifecycle_step_is_store_step)

lemma le_fold_max: "(x::int) \<in> set xs \<or> x \<le> a \<Longrightarrow> x \<le> fold max xs a"
proof (induction xs arbitrary: a)
  case Nil
  then show ?case by simp
next
  case (Cons y ys)
  then have "x \<in> set ys \<or> x \<le> max y a" by (simp only: list.set insert_iff le_max_iff_disj) blast
  from Cons.IH [OF this] show ?case by simp
qed

lemma below_next_seq: "w \<in> set (rows_of s rid) \<Longrightarrow> row_seq w < next_seq s rid"
  unfolding next_seq_def using le_fold_max [of "row_seq w" "map row_seq (rows_of s rid)" "- 1"]
  by simp

lemma latest_None_iff [simp]: "latest ws = None \<longleftrightarrow> ws = []"
  by (cases ws) (auto split: option.splits)

lemma latest_mem: "latest ws = Some w \<Longrightarrow> w \<in> set ws"
  by (induction ws arbitrary: w) (auto split: option.splits if_splits)

lemma latest_append_above:
  "(\<And>v. v \<in> set ws \<Longrightarrow> row_seq v < row_seq w) \<Longrightarrow> latest (ws @ [w]) = Some w"
  by (induction ws) fastforce+

lemma record_rows:
  "record_receipt clock s r author memo None = Inr (q, t) \<Longrightarrow>
     rows_of t rid = rows_of s rid @
       (if rid = rc_receipt_id r
        then [\<lparr>row_receipt_id = rid, row_seq = next_seq s rid, row_receipt = r, row_recorded_at = clock,
               row_recorded_by = author, row_note = memo\<rparr>] else [])"
  by (frule record_receiptD(3), frule record_receiptD(4)) (auto simp: rows_of_def)

lemma record_current:
  "record_receipt clock s r author memo None = Inr (q, t) \<Longrightarrow>
     current_receipt t rid = (if rid = rc_receipt_id r then Some r else current_receipt s rid)"
  unfolding current_receipt_def
  by (simp add: record_rows latest_append_above below_next_seq)

lemma current_receipt_id:
  "list_all row_ok (st_receipts s) \<Longrightarrow> current_receipt s rid = Some c \<Longrightarrow> rc_receipt_id c = rid"
  by (auto simp: current_receipt_def rows_of_def row_ok_def list_all_iff dest: latest_mem)

text \<open>Every lifecycle step leaves the receipts alone or records one that continues its lineage.\<close>

lemma lifecycle_step_cases:
  assumes "lifecycle_step s t" and ok: "list_all row_ok (st_receipts s)"
  obtains "st_receipts t = st_receipts s"
  | clock r author memo q where "record_receipt clock s r author memo None = Inr (q, t)" "continues s r"
  using assms(1)
proof cases
  case (step_moved clock rid state author memo mutate sign r)
  from step_moved(1) obtain c st q where c: "current_receipt s rid = Some c"
    and st: "st \<in> set (lifecycle_graph (rc_state c))" and r: "r = sign (mutate (c\<lparr>rc_state := st\<rparr>))"
    and rec: "record_receipt clock s r author memo None = Inr (q, t)"
    by (rule append_lifecycleD)
  from step_moved(2,3) r have "rc_receipt_id r = rc_receipt_id c" "rc_state r = st"
    by (auto simp: keeps_identity_def)
  with c st current_receipt_id [OF ok c] have "continues s r" by (simp add: continues_def)
  with rec that(2) show thesis by blast
qed (use that in blast)+

lemma current_receipt_cong: "st_receipts t = st_receipts s \<Longrightarrow> current_receipt t = current_receipt s"
  by (simp add: current_receipt_def rows_of_def fun_eq_iff)

abbreviation lifecycle_reach :: "receipt_state \<Rightarrow> receipt_state \<Rightarrow> bool" where
  "lifecycle_reach \<equiv> (\<lambda>a b. b \<in> set (lifecycle_graph a))\<^sup>*\<^sup>*"

lemma lifecycle_step_current:
  assumes "lifecycle_step s t" and "list_all row_ok (st_receipts s)" and "current_receipt s rid = Some c"
  shows "current_receipt t rid = Some c \<or>
    (\<exists>r. current_receipt t rid = Some r \<and> rc_state r \<in> set (lifecycle_graph (rc_state c)))"
proof (rule lifecycle_step_cases [OF assms(1,2)])
  assume "st_receipts t = st_receipts s"
  from current_receipt_cong [OF this] assms(3) show ?thesis by simp
next
  fix clock r author memo q
  assume "record_receipt clock s r author memo None = Inr (q, t)" "continues s r"
  note r = this(2) and now = record_current [OF this(1), of rid]
  show ?thesis
  proof (cases "rid = rc_receipt_id r")
    case True
    with now r assms(3) show ?thesis by (simp add: continues_def)
  next
    case False
    with now assms(3) show ?thesis by simp
  qed
qed

lemma lifecycle_run_current:
  assumes "lifecycle_step\<^sup>*\<^sup>* s t" and "store_ok s" and "current_receipt s rid = Some c"
  shows "\<exists>r. current_receipt t rid = Some r \<and> lifecycle_reach (rc_state c) (rc_state r)
           \<and> (rc_state c \<in> set terminal_states \<longrightarrow> r = c)"
  using assms(1)
proof (induction rule: rtranclp_induct)
  case base
  from assms(3) show ?case by blast
next
  case (step t u)
  then obtain r where r: "current_receipt t rid = Some r" "lifecycle_reach (rc_state c) (rc_state r)"
      "rc_state c \<in> set terminal_states \<longrightarrow> r = c" by blast
  have "store_ok t" using step(1) assms(2) run_ok lifecycle_run_is_store_run by blast
  then have "list_all row_ok (st_receipts t)" by (simp add: store_ok_def)
  from lifecycle_step_current [OF step(2) this r(1)] show ?case
  proof (elim disjE exE conjE)
    assume "current_receipt u rid = Some r"
    with r show ?thesis by blast
  next
    fix v assume v: "current_receipt u rid = Some v" "rc_state v \<in> set (lifecycle_graph (rc_state r))"
    then have "rc_state r \<notin> set terminal_states" by (auto simp: terminal_states_def)
    with r v show ?thesis by (auto intro: rtranclp.rtrancl_into_rtrancl)
  qed
qed

section \<open>Histories\<close>

text \<open>The rows of one receipt are numbered from 0 in the order they were written, and each
continues the one before.\<close>

definition follows :: "receipt_row \<Rightarrow> receipt_row \<Rightarrow> bool" where
  "follows v w \<longleftrightarrow> rc_state (row_receipt w) \<in> set (lifecycle_graph (rc_state (row_receipt v)))"

definition history_ok :: "store \<Rightarrow> bool" where
  "history_ok s \<longleftrightarrow>
     (\<forall>rid. map row_seq (rows_of s rid) = map int [0..<length (rows_of s rid)]
          \<and> successively follows (rows_of s rid))"

lemma latest_dense:
  "map row_seq ws = map int [0..<length ws] \<Longrightarrow> ws \<noteq> [] \<Longrightarrow> latest ws = Some (last ws)"
proof (induction ws rule: rev_induct)
  case Nil
  then show ?case by simp
next
  case (snoc w ws)
  then have "map row_seq ws = map int [0..<length ws]" "row_seq w = int (length ws)" by simp_all
  then have "row_seq v < row_seq w" if "v \<in> set ws" for v
  proof -
    from that have "row_seq v \<in> set (map row_seq ws)" by simp
    with \<open>map row_seq ws = _\<close> \<open>row_seq w = _\<close> show ?thesis by (simp only: set_map set_upt) auto
  qed
  then show ?case by (simp add: latest_append_above)
qed

lemma next_seq_dense:
  assumes "map row_seq (rows_of s rid) = map int [0..<length (rows_of s rid)]"
  shows "next_seq s rid = int (length (rows_of s rid))"
proof -
  have "fold max (map int [0..<n]) (- 1) + 1 = int n" for n by (induction n) auto
  with assms show ?thesis by (simp only: next_seq_def)
qed

lemma history_current:
  "history_ok s \<Longrightarrow> current_receipt s rid =
     (if rows_of s rid = [] then None else Some (row_receipt (last (rows_of s rid))))"
  by (simp add: current_receipt_def history_ok_def latest_dense)

lemma history_sorted:
  assumes "history_ok s"
  shows "receipt_history s rid = rows_of s rid"
proof -
  have "map row_seq (rows_of s rid) = map int [0..<length (rows_of s rid)]"
    using assms by (simp add: history_ok_def)
  then have "sorted (map row_seq (rows_of s rid))" by (simp add: sorted_map)
  then show ?thesis by (simp add: receipt_history_def sort_key_id_if_sorted)
qed

lemma history_record:
  assumes ok: "history_ok s" and rec: "record_receipt clock s r author memo None = Inr (q, t)"
    and cont: "continues s r"
  shows "history_ok t"
  unfolding history_ok_def
proof (intro allI)
  fix rid
  have dense: "map row_seq (rows_of s rid) = map int [0..<length (rows_of s rid)]"
    and path: "successively follows (rows_of s rid)"
    using ok by (auto simp: history_ok_def)
  show "map row_seq (rows_of t rid) = map int [0..<length (rows_of t rid)]
      \<and> successively follows (rows_of t rid)"
  proof (cases "rid = rc_receipt_id r")
    case False
    with record_rows [OF rec, of rid] dense path show ?thesis by simp
  next
    case True
    have "rows_of s rid = [] \<or> rc_state r \<in> set (lifecycle_graph (rc_state (row_receipt (last (rows_of s rid)))))"
      using cont True history_current [OF ok, of rid] by (simp add: continues_def split: if_splits)
    with True record_rows [OF rec, of rid] dense path next_seq_dense [OF dense] show ?thesis
      by (auto simp: successively_append_iff follows_def)
  qed
qed

lemma history_run:
  "lifecycle_step\<^sup>*\<^sup>* empty_store s \<Longrightarrow> store_ok s \<and> history_ok s"
proof (induction rule: rtranclp_induct)
  case base
  then show ?case by (simp add: store_ok_empty) (simp add: history_ok_def rows_of_def empty_store_def)
next
  case (step s t)
  then have ok: "store_ok t" and rows: "list_all row_ok (st_receipts s)"
    using store_step_ok lifecycle_step_is_store_step by (blast, simp add: store_ok_def)
  moreover have "history_ok t"
  proof (rule lifecycle_step_cases [OF step(2) rows])
    assume "st_receipts t = st_receipts s"
    then have "rows_of t = rows_of s" by (simp add: rows_of_def fun_eq_iff)
    with step show ?thesis by (simp add: history_ok_def)
  qed (use step history_record in blast)
  ultimately show ?case by blast
qed

section \<open>Properties\<close>

definition sample_row :: "receipt_state \<Rightarrow> int \<Rightarrow> receipt_row" where
  "sample_row st q =
     \<lparr>row_receipt_id = ''00000000-0000-0000-0000-000000000001'', row_seq = q,
      row_receipt = sample_receipt st REVIEW, row_recorded_at = 0, row_recorded_by = None,
      row_note = None\<rparr>"

definition sample_store :: "receipt_state \<Rightarrow> store" where
  "sample_store st = empty_store\<lparr>st_receipts := [sample_row st 0]\<rparr>"

lemma sample_store_simps [simp]:
  "st_receipts (sample_store st) = [sample_row st 0]" "st_nonces (sample_store st) = []"
  "st_lineages (sample_store st) = []" "st_tasks (sample_store st) = Some []"
  by (simp_all add: sample_store_def empty_store_def)

lemma sample_row_simps [simp]:
  "row_receipt_id (sample_row st q) = ''00000000-0000-0000-0000-000000000001''"
  "row_seq (sample_row st q) = q" "row_receipt (sample_row st q) = sample_receipt st REVIEW"
  by (simp_all add: sample_row_def)

lemma sample_receipt_id [simp]:
  "rc_receipt_id (sample_receipt st d) = ''00000000-0000-0000-0000-000000000001''"
  "rc_state (sample_receipt st d) = st"
  "(sample_receipt st d)\<lparr>rc_state := st'\<rparr> = sample_receipt st' d"
  by (simp_all add: sample_receipt_def)

lemma sample_rows [simp]:
  "rows_of (sample_store st) ''00000000-0000-0000-0000-000000000001'' = [sample_row st 0]"
  by (simp add: rows_of_def)

lemma sample_current [simp]:
  "current_receipt (sample_store st) ''00000000-0000-0000-0000-000000000001'' = Some (sample_receipt st REVIEW)"
  by (simp add: current_receipt_def)

lemma sample_store_record:
  "record_receipt 0 empty_store (sample_receipt st REVIEW) None None None = Inr (0, sample_store st)"
  by (simp add: record_receipt_def sample_receipt_conforms next_seq_def rows_of_def)
     (simp add: sample_store_def sample_row_def empty_store_def)

lemma sample_store_append:
  assumes "lifecycle_state name = Some st'" and "st' \<in> set (lifecycle_graph st)"
    and "py_upper (py_strip name) = name"
  shows "append_lifecycle 0 (sample_store st) ''00000000-0000-0000-0000-000000000001'' name None None id id
     = Inr (sample_receipt st' REVIEW,
            (sample_store st)\<lparr>st_receipts := [sample_row st 0, sample_row st' 1]\<rparr>)"
  using assms
  by (simp add: append_lifecycle_def append_lifecycle_in_txn_def Let_def record_receipt_def
      sample_receipt_conforms next_seq_def)
     (simp add: sample_row_def)

lemma sample_names:
  "lifecycle_state ''QUEUED'' = Some QUEUED" "py_upper (py_strip ''QUEUED'') = ''QUEUED''"
  "lifecycle_state ''CONSUMED'' = Some CONSUMED" "py_upper (py_strip ''CONSUMED'') = ''CONSUMED''"
  by code_simp+

definition queued_store :: store where
  "queued_store = (sample_store ISSUED)\<lparr>st_receipts := [sample_row ISSUED 0, sample_row QUEUED 1]\<rparr>"

lemma queued_store_append:
  "append_lifecycle 0 (sample_store ISSUED) ''00000000-0000-0000-0000-000000000001''
        ''QUEUED'' None None id id = Inr (sample_receipt QUEUED REVIEW, queued_store)"
  unfolding queued_store_def by (rule sample_store_append) (simp_all add: sample_names)

lemma keeps_identity_id: "keeps_identity id"
  by (simp add: keeps_identity_def)

lemma sample_history: "lifecycle_step\<^sup>*\<^sup>* empty_store queued_store"
proof -
  have "continues empty_store (sample_receipt ISSUED REVIEW)"
    by (simp add: continues_def current_receipt_def rows_of_def empty_store_def)
  then have "lifecycle_step empty_store (sample_store ISSUED)"
    by (rule step_recorded [OF sample_store_record])
  moreover have "lifecycle_step (sample_store ISSUED) queued_store"
    by (rule step_moved [OF queued_store_append keeps_identity_id keeps_identity_id])
  ultimately show ?thesis
    by (rule rtranclp.rtrancl_into_rtrancl [OF r_into_rtranclp])
qed

text \<open>
  Receipts are append-only: whatever sequence of store operations runs, every receipt row
  written before it is still there, at the same place and unchanged, and every row of the table
  conforms to the contract with its key unique.
\<close>

theorem receipts_append_only:
  assumes "store_step\<^sup>*\<^sup>* s t" and "store_ok s"
  shows "store_ok t \<and> length (st_receipts s) \<le> length (st_receipts t) \<and>
    (\<forall>i < length (st_receipts s). st_receipts t ! i = st_receipts s ! i)"
  using receipts.run_length_mono [OF assms(1)] run_ok [OF assms] receipts.run_keeps_entry [OF assms(1)] by auto

theorem receipts_append_only_witness:
  "st_receipts queued_store ! 0 = st_receipts (sample_store ISSUED) ! 0"
proof -
  have step: "store_step\<^sup>*\<^sup>* (sample_store ISSUED) queued_store"
    by (rule r_into_rtranclp, rule step_lifecycle [OF queued_store_append])
  have "store_ok (sample_store ISSUED)"
    by (simp add: store_ok_def row_ok_def sample_receipt_conforms)
  from receipts_append_only [OF step this] show ?thesis by simp
qed

text \<open>
  Claim C6: the history of a receipt is a path in the lifecycle graph: in any store the program
  reaches, the rows of a receipt are numbered 0, 1, 2, ... in the order they were written, each state
  is a permitted successor of the one before it, and the current receipt is the last row.
\<close>

theorem history_is_lifecycle_path:
  assumes "lifecycle_step\<^sup>*\<^sup>* empty_store s"
  shows "map row_seq (receipt_history s rid) = map int [0..<length (receipt_history s rid)] \<and>
    successively (\<lambda>v w. rc_state (row_receipt w) \<in> set (lifecycle_graph (rc_state (row_receipt v))))
      (receipt_history s rid) \<and>
    current_receipt s rid =
      (if receipt_history s rid = [] then None else Some (row_receipt (last (receipt_history s rid))))"
  using history_run [OF assms] history_current [of s rid] history_sorted [of s rid]
  by (simp add: history_ok_def follows_def [abs_def])

theorem history_is_lifecycle_path_witness:
  "current_receipt queued_store ''00000000-0000-0000-0000-000000000001''
     = Some (sample_receipt QUEUED REVIEW)"
  using history_is_lifecycle_path [OF sample_history, of "''00000000-0000-0000-0000-000000000001''"]
  by (simp add: queued_store_def receipt_history_def rows_of_def)

text \<open>
  Terminal receipts are final: after a receipt is CONSUMED, SUPERSEDED or REVOKED, every
  later store has the same current receipt for it, whatever the queue and the engine do; a live
  receipt only ever moves along the lifecycle graph.
\<close>

theorem terminal_receipts_are_final:
  assumes "lifecycle_step\<^sup>*\<^sup>* s t" and "store_ok s" and "current_receipt s rid = Some c"
  shows "\<exists>r. current_receipt t rid = Some r \<and>
           (\<lambda>a b. b \<in> set (lifecycle_graph a))\<^sup>*\<^sup>* (rc_state c) (rc_state r) \<and>
           (rc_state c \<in> {CONSUMED, SUPERSEDED, REVOKED} \<longrightarrow> r = c)"
  using lifecycle_run_current [OF assms] by (simp add: terminal_states_def)

theorem terminal_receipts_are_final_witness:
  "current_receipt (set_lineage_state 0 (sample_store CONSUMED) ''ih'' ''r'' REVOKED)
     ''00000000-0000-0000-0000-000000000001'' = Some (sample_receipt CONSUMED REVIEW)
   \<and> append_lifecycle 0 (sample_store CONSUMED) ''00000000-0000-0000-0000-000000000001''
       ''QUEUED'' None None id id = Inl (State_Is_Terminal CONSUMED QUEUED)"
proof -
  have "lifecycle_step (sample_store CONSUMED) (set_lineage_state 0 (sample_store CONSUMED) ''ih'' ''r'' REVOKED)"
    by (rule step_beside [OF step_state]) simp_all
  then have run: "lifecycle_step\<^sup>*\<^sup>* (sample_store CONSUMED)
      (set_lineage_state 0 (sample_store CONSUMED) ''ih'' ''r'' REVOKED)"
    by (rule r_into_rtranclp)
  have "store_ok (sample_store CONSUMED)"
    by (simp add: store_ok_def row_ok_def sample_receipt_conforms)
  from terminal_receipts_are_final [OF run this sample_current] show ?thesis
    by (simp add: append_lifecycle_def sample_names append_lifecycle_in_txn_def terminal_states_def)
qed

lemma spent_stays_refused:
  assumes "nonce_spent s k" and "store_step\<^sup>*\<^sup>* s t"
  shows "\<not> fst (consume_nonce clock t k author used)"
  by (rule nonce_use.spent_refused [OF nonce_use.run_spent [OF run_of_steps [OF assms(2)] assms(1)]])

lemma consumed_stays_refused:
  "consume_nonce clock s k author used = (True, t) \<Longrightarrow> store_step\<^sup>*\<^sup>* t u
     \<Longrightarrow> \<not> fst (consume_nonce clock' u k author' used')"
  by (rule spent_stays_refused) (use nonce_use.spend_ok in blast)

text \<open>
  A dispatch nonce is spent at most once: after a consume that reported success, no later
  consume of that nonce succeeds in any store reached from there, and the row that says who spent
  it, which the result check reads, never changes.
\<close>

theorem nonce_single_use:
  assumes "store_ok s" and "consume_nonce clock s k author used = (True, t)" and "store_step\<^sup>*\<^sup>* t u"
  shows "\<not> fst (consume_nonce clock' u k author' used') \<and>
    (\<exists>n. nonce_row s k = Some n \<and> nr_used_at n = None \<and>
         nonce_row u k = Some (n\<lparr>nr_used_at := Some (used_stamp clock used), nr_used_by := author\<rparr>))"
proof
  show "\<not> fst (consume_nonce clock' u k author' used')" by (rule consumed_stays_refused [OF assms(2,3)])
  from consume_nonce_row [OF assms(2)] assms(1) run_spent_row [OF assms(3)]
  show "\<exists>n. nonce_row s k = Some n \<and> nr_used_at n = None \<and>
         nonce_row u k = Some (n\<lparr>nr_used_at := Some (used_stamp clock used), nr_used_by := author\<rparr>)"
    by (fastforce simp: store_ok_def)
qed

definition minted_store :: store where
  "minted_store = empty_store\<lparr>st_nonces :=
     [\<lparr>nr_nonce = ''n1'', nr_receipt_id = ''r1'', nr_attempt = 1, nr_issued_at = ''i'',
       nr_used_at = None, nr_used_by = None\<rparr>]\<rparr>"

theorem nonce_single_use_witness:
  "\<not> fst (consume_nonce 2
      (snd (revoke_nonces_for_receipt 1
         (snd (consume_nonce 0 minted_store ''n1'' (Some ''execute_start:claude'') (Some ''t'')))
         ''r1'' ''cancelled_attempt'' None))
      ''n1'' None None)"
proof -
  let ?s = "snd (consume_nonce 0 minted_store ''n1'' (Some ''execute_start:claude'') (Some ''t''))"
  let ?t = "snd (revoke_nonces_for_receipt 1 ?s ''r1'' ''cancelled_attempt'' None)"
  have ok: "store_ok minted_store"
    by (simp add: store_ok_def minted_store_def empty_store_def)
  have consume: "consume_nonce 0 minted_store ''n1'' (Some ''execute_start:claude'') (Some ''t'') = (True, ?s)"
    by (simp add: consume_nonce_def minted_store_def)
  have "store_step ?s ?t"
    by (rule step_revoke [OF prod.collapse [symmetric]])
  then have "store_step\<^sup>*\<^sup>* ?s ?t" by (rule r_into_rtranclp)
  from nonce_single_use [OF ok consume this] show ?thesis by blast
qed

text \<open>
  An intent has at most one lineage: while a receipt holds the lineage of an intent, every
  claim of that intent loses, in any sequence of claims, and only the holder's own release frees it.
\<close>

theorem lineage_has_one_holder:
  assumes "store_ok s" and "lineage_holder s ih = Some rid"
  shows "lineage_holder (snd (lineages.claims clock project state wh s ks)) ih = Some rid \<and>
    (\<forall>i < length ks. fst (ks ! i) = ih \<longrightarrow> \<not> fst (lineages.claims clock project state wh s ks) ! i) \<and>
    lineage_holder (snd (release_lineage s ih other)) ih = (if other = rid then None else Some rid)"
  using lineages.claims_hold [OF assms(2)] lineages.claims_none_wins [OF assms(2)]
    release_lineage_holder [of s ih other ih] assms by (auto simp: store_ok_def)

definition held_store :: store where
  "held_store = empty_store\<lparr>st_lineages :=
     [\<lparr>ln_intent_hash = ''ih'', ln_receipt_id = ''r1'', ln_project = ''crew'', ln_state = QUEUED,
       ln_claimed_at = 0, ln_updated_at = 0, ln_work_hash = None\<rparr>]\<rparr>"

theorem lineage_has_one_holder_witness:
  "lineage_holder (snd (lineages.claims 1 ''crew'' ISSUED None held_store
      [(''ih'', ''r2''), (''other'', ''r3'')])) ''ih'' = Some ''r1''
   \<and> lineage_holder (snd (release_lineage held_store ''ih'' ''r1'')) ''ih'' = None"
proof -
  have ok: "store_ok held_store"
    by (simp add: store_ok_def held_store_def empty_store_def)
  have held: "lineage_holder held_store ''ih'' = Some ''r1''"
    by (simp add: lineage_holder_def lineage_for_intent_def held_store_def)
  note both = lineage_has_one_holder [OF ok held, of 1 "''crew''" ISSUED None
    "[(''ih'', ''r2''), (''other'', ''r3'')]" "''r1''"]
  have "lineage_holder (snd (release_lineage held_store ''ih'' ''r1'')) ''ih'' = None"
    using conjunct2 [OF conjunct2 [OF both]] by simp
  with conjunct1 [OF both] show ?thesis by (rule conjI)
qed

end
