(* ===== verification/Engine.thy ===== *)
theory Engine
  imports Validator Store
begin

text \<open>
  The authorization engine (\<open>cea/engine.py\<close>): rollout modes, the review floor, the input providers
  with their fail-closed fallbacks, the decision, the receipt it builds, and admission of an
  intent against the lineages of the store. The engine object is a record: its configuration, its
  input providers (a provider that raises answers \<open>None\<close>) and its key. \<open>sha256\<close> and \<open>hmac\<close> are
  parameters (\<open>en_sha256\<close>, \<open>en_mac\<close>); the clock, the fresh \<open>uuid4\<close> and the fresh nonce are arguments.
  Within one call the providers and the clock answer the same question the same way. Reason texts,
  which nothing reads, are empty unless a caller supplies them.
\<close>

section \<open>Rollout modes\<close>

datatype mode = OFF | TEST | ENFORCE

definition is_alnum :: "char \<Rightarrow> bool" where
  "is_alnum c \<longleftrightarrow> is_alpha c \<or> is_digit c"

text \<open>\<open>re.sub("[^A-Za-z0-9]+", "_", s)\<close>.\<close>

fun squash :: "bool \<Rightarrow> string \<Rightarrow> string" where
  "squash inside [] = []"
| "squash inside (c # cs) =
     (if is_alnum c then c # squash False cs
      else if inside then squash True cs else CHR ''_'' # squash True cs)"

definition strip_char :: "char \<Rightarrow> string \<Rightarrow> string" where
  "strip_char c s = rev (dropWhile (\<lambda>x. x = c) (rev (dropWhile (\<lambda>x. x = c) s)))"

definition project_mode_env_var :: "string \<Rightarrow> string" where
  "project_mode_env_var project =
     (let key = py_upper (strip_char CHR ''_'' (squash False (py_strip project)))
      in if key \<noteq> [] then ''AGENT_CREW_CEA_MODE__'' @ key else ''AGENT_CREW_CEA_MODE'')"

text \<open>\<open>(env.get(name) or "").strip()\<close>.\<close>

definition env_text :: "(string \<Rightarrow> string option) \<Rightarrow> string \<Rightarrow> string" where
  "env_text env name = py_strip (case env name of None \<Rightarrow> [] | Some v \<Rightarrow> v)"

definition mode_of_text :: "bool \<Rightarrow> string \<Rightarrow> mode" where
  "mode_of_text harness raw =
     (if raw = ''shadow'' then OFF
      else if raw = ''test'' then (if harness then TEST else OFF)
      else if raw = ''enforce'' then ENFORCE else OFF)"

fun first_set_mode :: "bool \<Rightarrow> (string \<Rightarrow> string option) \<Rightarrow> string list \<Rightarrow> mode" where
  "first_set_mode harness env [] = OFF"
| "first_set_mode harness env (name # names) =
     (let raw = py_lower (env_text env name)
      in if raw = [] then first_set_mode harness env names else mode_of_text harness raw)"

definition resolve_mode :: "bool \<Rightarrow> (string \<Rightarrow> string option) \<Rightarrow> string option \<Rightarrow> mode" where
  "resolve_mode harness env project =
     first_set_mode harness env
       ((if truthy project then [project_mode_env_var (the project)] else []) @ [''AGENT_CREW_CEA_MODE''])"

text \<open>\<open>EngineConfig.__post_init__\<close>: whatever was passed as mode, \<open>shadow\<close>, an unknown mode, and \<open>test\<close>
outside a harness become \<open>off\<close>.\<close>

definition config_mode :: "bool \<Rightarrow> string \<Rightarrow> mode" where
  "config_mode harness m =
     (if m = ''shadow'' \<or> m \<notin> {''off'', ''test'', ''enforce''} then OFF
      else if m = ''test'' \<and> \<not> harness then OFF
      else if m = ''test'' then TEST else if m = ''enforce'' then ENFORCE else OFF)"

definition enforcing :: "mode \<Rightarrow> bool" where
  "enforcing m \<longleftrightarrow> m = ENFORCE \<or> m = TEST"

definition recording :: "mode \<Rightarrow> bool" where
  "recording m \<longleftrightarrow> m \<noteq> OFF"

definition embedded_authorization_permitted :: "mode \<Rightarrow> bool" where
  "embedded_authorization_permitted m \<longleftrightarrow> m = OFF \<or> m = TEST"

definition enforceable_reason_codes :: "string list" where
  "enforceable_reason_codes =
     [''ALREADY_COMPLETED'', ''ATTEMPT_MISMATCH'', ''AUTHORITY_NOT_IN_SNAPSHOT'',
      ''BINDING_DRIFT'', ''BUDGET'', ''BUDGET_EXHAUSTED'', ''BUDGET_UNVERIFIED'',
      ''CREDENTIAL_BOUNDARY_UNAVAILABLE'', ''DECISION_BLOCK'', ''DECISION_HUMAN_GATE'',
      ''DUPLICATE_INTENT'', ''EXECUTOR_BINDING_MISMATCH'', ''HUMAN_GATE_DENIED'',
      ''HUMAN_GATE_PENDING'', ''HUMAN_GATE_REVOKED'', ''IDENTITY_DEPENDENT_ALLOW_UNVERIFIED'',
      ''IDEMPOTENT_REPLAY'', ''IDENTITY_UNVERIFIED_NO_REVIEWER'', ''IMPLEMENT_SLOT_BUSY'',
      ''IDENTITY_UNVERIFIED_REVIEW_REQUIRED'', ''IDENTITY_UNVERIFIED_WHO_MAY_ACT'',
      ''INPUTS_UNAVAILABLE'', ''INVALID_SCOPE_ANCHOR'', ''NONCE_MISSING'', ''NONCE_NOT_STARTED'',
      ''NONCE_REUSED'', ''NONCE_UNKNOWN'', ''NONCE_WRONG_ATTEMPT'', ''NO_AUTHORITY'',
      ''OWNER_CONFLICT'', ''PROJECT_MISMATCH'', ''PROJECT_REQUIRED'', ''RECEIPT_CONSUMED'',
      ''RECEIPT_HELD'', ''RECEIPT_REVOKED'', ''RECEIPT_SCHEMA_INVALID'', ''RECEIPT_STATE_INVALID'',
      ''RECEIPT_SUPERSEDED'', ''RECEIPT_TOO_OLD'', ''RECEIPT_UNSIGNED'',
      ''RESULT_ACCEPTED_INPUTS_UNAVAILABLE'', ''RESULT_ACCEPTED_NO_SUCCESSORS'',
      ''RESULT_ACCEPTED_SNAPSHOT_STALE'', ''RESULT_WITHOUT_EXECUTE_START'',
      ''REVIEW_WITHOUT_REVIEWER'', ''RUNTIME_DRAINING'', ''RUNTIME_EPOCH_ADVANCED'',
      ''RUNTIME_STATE_FORBIDS'', ''SIGNATURE_UNVERIFIED_AT_BOUNDARY'', ''SNAPSHOT_STALE'',
      ''SNAPSHOT_ROLLBACK'', ''STALE_RECEIPT'', ''TASK_ID_MISMATCH'']"

fun first_set_codes :: "(string \<Rightarrow> string option) \<Rightarrow> string list \<Rightarrow> string list option" where
  "first_set_codes env [] = None"
| "first_set_codes env (name # names) =
     (if env_text env name = [] then first_set_codes env names
      else Some (sorted_set (filter (\<lambda>c. c \<in> set enforceable_reason_codes)
        (map (\<lambda>item. py_upper (py_strip item)) (py_split CHR '','' (the (env name)))))))"

text \<open>An empty allowlist (\<open>Some []\<close>) differs from an absent one (\<open>None\<close>).\<close>

definition resolve_enforce_codes :: "(string \<Rightarrow> string option) \<Rightarrow> string option \<Rightarrow> string list option" where
  "resolve_enforce_codes env project =
     first_set_codes env
       ((if truthy project
         then [''AGENT_CREW_CEA_ENFORCE_CODES_'' @
                 removeprefix (project_mode_env_var (the project)) ''AGENT_CREW_CEA_MODE__'']
         else []) @ [''AGENT_CREW_CEA_ENFORCE_CODES''])"

section \<open>The engine\<close>

record engine =
  en_mode :: mode
  en_fallback_reason :: "string option"
  en_out_of_process_broker :: bool
  en_issuer :: string
  en_role_agents :: "(string \<times> string) list"
  en_default_max_attempts :: int
  en_snapshots :: "intent \<Rightarrow> policy_snapshot option"
  en_capabilities :: "intent \<Rightarrow> capability_lookup option"
  en_runtime :: "runtime_snapshot option"
  en_budgets :: "string \<Rightarrow> provider_budget option"
  en_gates :: "intent \<Rightarrow> policy_snapshot \<Rightarrow> human_gate option"
  en_key :: "string option"
  en_sha256 :: "string \<Rightarrow> string"
  en_mac :: "string \<Rightarrow> receipt \<Rightarrow> string"
  en_minted :: "nat list"

record authorization =
  au_receipt :: receipt
  au_status :: nat
  au_code :: string
  au_reused :: bool
  au_existing :: "string option"

datatype engine_error =
    Unauthenticated_Caller
  | Invalid_Anchor anchor_error
  | Contract_Broken "string list"
  | Store_Refused store_error

definition au_decision :: "authorization \<Rightarrow> decision" where
  "au_decision a = rc_decision (au_receipt a)"

definition au_allowed :: "authorization \<Rightarrow> bool" where
  "au_allowed a \<longleftrightarrow> au_decision a = ALLOW"

section \<open>Default providers\<close>

definition unavailable_registry :: capability_lookup where
  "unavailable_registry =
     \<lparr>cl_registry = None, cl_matches = [], cl_anchor_matches = [], cl_available = False, cl_stale = False\<rparr>"

definition unavailable_snapshot :: policy_snapshot where
  "unavailable_snapshot =
     \<lparr>ps_generation = 0, ps_hash = [], ps_decisions = [], ps_in_scope = [], ps_signature = UNSIGNED,
      ps_available = False, ps_tier = None, ps_review_test_matrix = [], ps_human_gate_predicates = [],
      ps_rollback_status = None\<rparr>"

definition unavailable_runtime :: runtime_snapshot where
  "unavailable_runtime = \<lparr>rs_state = STOPPED, rs_epoch = 0, rs_read_failed = True\<rparr>"

definition unavailable_budget :: "string \<Rightarrow> provider_budget" where
  "unavailable_budget provider =
     \<lparr>pb_provider = Some provider, pb_state = Budget EXHAUSTED, pb_observed_at = None\<rparr>"

text \<open>A predicate's key that is absent, null or \<open>*\<close> constrains nothing.\<close>

definition unconstrained :: "string option \<Rightarrow> string option \<Rightarrow> bool" where
  "unconstrained key value \<longleftrightarrow> key = None \<or> key = Some ''*'' \<or> key = value"

definition predicate_matches :: "gate_predicate \<Rightarrow> intent \<Rightarrow> bool" where
  "predicate_matches p i =
     (let ident = in_identity i in
      unconstrained (gp_project p) (Some (id_project ident))
      \<and> unconstrained (gp_work_class p) (Some (work_class_value (id_work_class ident)))
      \<and> unconstrained (gp_capability_id p) (id_capability_id ident)
      \<and> unconstrained (gp_repo p) (Some (t_repo (id_target ident))))"

definition predicate_gate :: "gate_predicate \<Rightarrow> human_gate" where
  "predicate_gate p =
     (let state = (if truthy (gp_state p) then the (gp_state p) else ''PENDING'')
      in if state = ''GRANTED'' \<and> truthy (gp_decision_id p) then GRANTED (gp_decision_id p)
         else if state = ''DENIED'' then DENIED else PENDING)"

definition snapshot_human_gate :: "intent \<Rightarrow> policy_snapshot \<Rightarrow> human_gate" where
  "snapshot_human_gate i snap =
     (case find (\<lambda>p. predicate_matches p i) (ps_human_gate_predicates snap) of
        None \<Rightarrow> NOT_REQUIRED | Some p \<Rightarrow> predicate_gate p)"

section \<open>Review floor and executors\<close>

text \<open>\<open>REVIEW_FLOOR\<close>: (reviewer, tester).\<close>

fun review_floor :: "work_class \<Rightarrow> bool \<times> bool" where
  "review_floor IMPLEMENT = (True, True)"
| "review_floor FIX = (True, True)"
| "review_floor MERGE = (True, False)"
| "review_floor REVIEW_WORK = (False, False)"
| "review_floor TEST_WORK = (False, False)"
| "review_floor OPS = (False, False)"

definition default_role_agents :: "(string \<times> string) list" where
  "default_role_agents =
     [(''implementer'', ''claude''), (''reviewer'', ''codex''), (''tester'', ''script'')]"

fun work_class_role :: "work_class \<Rightarrow> string" where
  "work_class_role IMPLEMENT = ''implementer''"
| "work_class_role FIX = ''implementer''"
| "work_class_role MERGE = ''implementer''"
| "work_class_role OPS = ''implementer''"
| "work_class_role REVIEW_WORK = ''reviewer''"
| "work_class_role TEST_WORK = ''tester''"

definition role_agents :: "engine \<Rightarrow> (string \<times> string) list" where
  "role_agents e = (if en_role_agents e = [] then default_role_agents else en_role_agents e)"

definition executor_binding :: "engine \<Rightarrow> intent \<Rightarrow> string option" where
  "executor_binding e i = map_of (role_agents e) (work_class_role (id_work_class (in_identity i)))"

definition j7_contract ::
  "engine \<Rightarrow> intent \<Rightarrow> policy_snapshot \<Rightarrow> string option \<Rightarrow> string option \<times> string option" where
  "j7_contract e i snap executor =
     (let wc = id_work_class (in_identity i);
          (floor_r, floor_t) = review_floor wc;
          (row_r, row_t) = (case map_of (ps_review_test_matrix snap) (work_class_value wc) of
                              None \<Rightarrow> (False, False) | Some row \<Rightarrow> row);
          agents = role_agents e;
          reviewer = (if floor_r \<or> row_r then map_of agents ''reviewer'' else None);
          tester = (if floor_t \<or> row_t then map_of agents ''tester'' else None);
          other = map_option snd (find (\<lambda>(r, a). r \<noteq> ''implementer'' \<and> Some a \<noteq> executor) agents)
      in (if reviewer \<noteq> None \<and> reviewer = executor then other else reviewer, tester))"

section \<open>Capability ownership\<close>

definition rstrip_char :: "char \<Rightarrow> string \<Rightarrow> string" where
  "rstrip_char c s = rev (dropWhile (\<lambda>x. x = c) (rev s))"

text \<open>\<open>s.rsplit(c, 1)[-1]\<close>.\<close>

definition last_segment :: "char \<Rightarrow> string \<Rightarrow> string" where
  "last_segment c s = rev (takeWhile (\<lambda>x. x \<noteq> c) (rev s))"

definition repo_name :: "string \<Rightarrow> string" where
  "repo_name v =
     py_lower (removesuffix
       (last_segment CHR '':'' (last_segment CHR ''/'' (rstrip_char CHR ''/'' (py_strip v)))) ''.git'')"

definition first_match :: "capability_lookup \<Rightarrow> matched_capability option" where
  "first_match reg = (case cl_matches reg @ cl_anchor_matches reg of [] \<Rightarrow> None | m # _ \<Rightarrow> Some m)"

definition modifies_owner_capability :: "intent \<Rightarrow> matched_capability option \<Rightarrow> bool" where
  "modifies_owner_capability i matched =
     (case matched of None \<Rightarrow> False
      | Some m \<Rightarrow>
          let ident = in_identity i; target_repo = repo_name (t_repo (id_target ident));
              owner_repo = repo_name (if mc_repo m \<noteq> [] then mc_repo m else mc_owner m)
          in mc_owner m \<noteq> [] \<and> mc_owner m \<noteq> id_project ident
             \<and> (in_task_type i = ''implement'' \<and> id_capability_id ident = Some (mc_id m)
                \<or> target_repo \<noteq> [] \<and> target_repo = owner_repo))"

text \<open>Does a decision of the signed snapshot approve the reuse of capability \<open>cap\<close> for this intent?\<close>

definition reuse_approves :: "engine \<Rightarrow> time \<Rightarrow> intent \<Rightarrow> string \<Rightarrow> decision_rev \<Rightarrow> bool" where
  "reuse_approves e now i cap d =
     (let ident = in_identity i; tag = ''reuse:'' @ cap in
      tag \<in> set (dr_capabilities d)
      \<and> (dr_project d = None \<or> dr_project d = Some (id_project ident))
      \<and> id_project ident \<in> set (dr_projects d)
      \<and> (dr_scope_capability_id d = None \<or> dr_scope_capability_id d = Some tag)
      \<and> (dr_scope_work_class d = None \<or> dr_scope_work_class d = Some (work_class_value (id_work_class ident)))
      \<and> (dr_scope_repo d = None \<or> dr_scope_repo d = Some (t_repo (id_target ident)))
      \<and> (\<not> truthy (dr_intent_hash d) \<or> Inr (the (dr_intent_hash d)) = intent_hash (en_sha256 e) ident)
      \<and> (case dr_expires_at d of None \<Rightarrow> True | Some x \<Rightarrow> now < x))"

definition j5_reuse ::
  "engine \<Rightarrow> time \<Rightarrow> intent \<Rightarrow> capability_lookup \<Rightarrow> policy_snapshot \<Rightarrow> reuse option" where
  "j5_reuse e now i reg snap =
     (let unapproved = \<lparr>ru_decision = REUSE, ru_approved_by = None, ru_approver_verified = False\<rparr>
      in case first_match reg of
        None \<Rightarrow>
          if cl_available reg
          then Some \<lparr>ru_decision = NEW, ru_approved_by = None, ru_approver_verified = False\<rparr> else None
      | Some m \<Rightarrow>
          if mc_owner m \<noteq> [] \<and> mc_owner m \<noteq> id_project (in_identity i)
          then if \<not> modifies_owner_capability i (Some m) then Some unapproved
               else if ps_available snap \<and> ps_signature snap = VALID
               then (case find (reuse_approves e now i (mc_id m)) (ps_decisions snap) of
                       None \<Rightarrow> Some unapproved
                     | Some d \<Rightarrow> Some \<lparr>ru_decision = REUSE, ru_approved_by = Some (dr_decision_id d),
                                       ru_approver_verified = True\<rparr>)
               else Some unapproved
          else Some \<lparr>ru_decision = EXTEND, ru_approved_by = None, ru_approver_verified = False\<rparr>)"

section \<open>Reading the inputs\<close>

record inputs =
  ip_snapshot :: policy_snapshot
  ip_registry :: capability_lookup
  ip_runtime :: runtime_snapshot
  ip_budget :: provider_budget
  ip_gate :: human_gate
  ip_raised :: "string list"

text \<open>\<open>_read_inputs\<close>: a provider that raises is named, and its fallback fails closed.\<close>

definition read_inputs :: "engine \<Rightarrow> intent \<Rightarrow> string option \<Rightarrow> inputs" where
  "read_inputs e i executor =
     (let who = (if truthy executor then the executor else ''unknown'');
          snap = en_snapshots e i; reg = en_capabilities e i; run = en_runtime e;
          bud = en_budgets e who;
          snap' = (case snap of None \<Rightarrow> unavailable_snapshot | Some v \<Rightarrow> v);
          gate = en_gates e i snap'
      in \<lparr>ip_snapshot = snap',
          ip_registry = (case reg of None \<Rightarrow> unavailable_registry | Some v \<Rightarrow> v),
          ip_runtime = (case run of None \<Rightarrow> unavailable_runtime | Some v \<Rightarrow> v),
          ip_budget = (case bud of None \<Rightarrow> unavailable_budget who | Some v \<Rightarrow> v),
          ip_gate = (case gate of None \<Rightarrow> PENDING | Some v \<Rightarrow> v),
          ip_raised = map fst (filter snd
            [(''policy_snapshot'', snap = None), (''capability_registry'', reg = None),
             (''runtime_state'', run = None), (''provider_budget'', bud = None),
             (''human_gate'', gate = None)])\<rparr>)"

fun signature_name :: "signature_status \<Rightarrow> string" where
  "signature_name VALID = ''VALID''"
| "signature_name INVALID = ''INVALID''"
| "signature_name UNKEYED = ''UNKEYED''"
| "signature_name UNSIGNED = ''UNSIGNED''"

definition unavailable_inputs :: "policy_snapshot \<Rightarrow> capability_lookup \<Rightarrow> runtime_snapshot \<Rightarrow> string list" where
  "unavailable_inputs snap reg run =
     (if \<not> ps_available snap then [''policy_snapshot'']
      else if ps_signature snap \<noteq> VALID
      then [''policy_snapshot_signature:'' @ signature_name (ps_signature snap)] else [])
     @ (if \<not> cl_available reg then [''capability_registry'']
        else if cl_stale reg then [''capability_registry_stale''] else [])
     @ (if rs_read_failed run then [''runtime_state''] else [])"

section \<open>The binding\<close>

definition generation_text :: "generation \<Rightarrow> string" where
  "generation_text g = (case g of Gen_Int n \<Rightarrow> show_int n | Gen_Text t \<Rightarrow> t)"

definition registry_ref_json :: "(string \<Rightarrow> string) \<Rightarrow> capability_lookup \<Rightarrow> registry_json" where
  "registry_ref_json sha256 reg =
     (case cl_registry reg of None \<Rightarrow> \<lparr>rj_generation = None, rj_hash = None\<rparr>
      | Some ref \<Rightarrow>
          \<lparr>rj_generation = (case rr_generation ref of Gen_Int n \<Rightarrow> Some n | Gen_Text _ \<Rightarrow> None),
           rj_hash = Some (sha256 (generation_text (rr_generation ref) @ CHR 0x00 # rr_hash ref))\<rparr>)"

definition authority_revs :: "policy_snapshot \<Rightarrow> decision_rev list" where
  "authority_revs snap = (if ps_in_scope snap \<noteq> [] then ps_in_scope snap else ps_decisions snap)"

definition bound_budget :: "budget_state \<Rightarrow> budget_class" where
  "bound_budget b = (case b of Budget c \<Rightarrow> c | Budget_Unverified \<Rightarrow> EXHAUSTED)"

definition engine_binding :: "engine \<Rightarrow> inputs \<Rightarrow> binding" where
  "engine_binding e ip =
     (let snap = ip_snapshot ip in
      \<lparr>b_policy_generation = ps_generation snap,
       b_policy_hash = (if ps_hash snap \<noteq> [] then ps_hash snap else ''unavailable''),
       b_source_decision_revs = map (\<lambda>r. (dr_decision_id r, dr_body_hash r)) (authority_revs snap),
       b_capability_registry = registry_ref_json (en_sha256 e) (ip_registry ip),
       b_matched_capability = map_option (\<lambda>m. (mc_id m, Some (mc_owner m))) (first_match (ip_registry ip)),
       b_runtime_state = rs_state (ip_runtime ip),
       b_runtime_state_epoch = rs_epoch (ip_runtime ip),
       b_human_gate = ip_gate ip,
       b_budget_class = bound_budget (pb_state (ip_budget ip))\<rparr>)"

section \<open>The decision\<close>

text \<open>\<open>_is_identity_dependent\<close> of the engine.\<close>

definition engine_identity_dependent ::
  "work_class \<Rightarrow> string option \<Rightarrow> human_gate \<Rightarrow> reuse option \<Rightarrow> bool" where
  "engine_identity_dependent wc reviewer gate reuse \<longleftrightarrow>
     wc \<in> set identity_dependent_work_classes \<or> truthy reviewer \<or> gate \<noteq> NOT_REQUIRED
     \<or> (case reuse of None \<Rightarrow> False
        | Some u \<Rightarrow> ru_decision u \<in> {REUSE, EXTEND} \<and> \<not> ru_approver_verified u)"

definition owner_conflict :: "intent \<Rightarrow> capability_lookup \<Rightarrow> reuse option \<Rightarrow> bool" where
  "owner_conflict i reg reuse =
     (case reuse of None \<Rightarrow> False
      | Some u \<Rightarrow> ru_decision u = REUSE \<and> modifies_owner_capability i (first_match reg)
                  \<and> \<not> ru_approver_verified u)"

definition decide ::
  "intent \<Rightarrow> inputs \<Rightarrow> binding \<Rightarrow> string list \<Rightarrow> reuse option \<Rightarrow> string option \<Rightarrow> bool \<Rightarrow> decision \<times> string" where
  "decide i ip b unavailable reuse reviewer degraded =
     (let snap = ip_snapshot ip; gate = ip_gate ip; wc = id_work_class (in_identity i);
          authorised = map dr_decision_id (authority_revs snap)
      in if ps_rollback_status snap = Some ''SNAPSHOT_ROLLBACK'' then (BLOCK, ''SNAPSHOT_ROLLBACK'')
         else if unavailable \<noteq> [] then (BLOCK, ''INPUTS_UNAVAILABLE'')
         else if gate = DENIED then (BLOCK, ''HUMAN_GATE_DENIED'')
         else if gate = PENDING then (HUMAN_GATE, ''HUMAN_GATE_PENDING'')
         else if b_runtime_state b \<noteq> ACTIVE then (BLOCK, ''RUNTIME_STATE_FORBIDS'')
         else if authorised = [] then (BLOCK, ''NO_AUTHORITY'')
         else if \<not> set (id_authority_decision_ids (in_identity i)) \<subseteq> set authorised
         then (BLOCK, ''AUTHORITY_NOT_IN_SNAPSHOT'')
         else if b_budget_class b = EXHAUSTED
         then (if pb_state (ip_budget ip) = Budget_Unverified then (BLOCK, ''BUDGET_UNVERIFIED'')
               else (BLOCK, ''BUDGET_EXHAUSTED''))
         else if owner_conflict i (ip_registry ip) reuse then (HUMAN_GATE, ''OWNER_CONFLICT'')
         else if degraded \<and> engine_identity_dependent wc reviewer gate reuse
         then (if wc \<in> set identity_dependent_work_classes then (HUMAN_GATE, ''IDENTITY_UNVERIFIED_WHO_MAY_ACT'')
               else if truthy reviewer then (REVIEW, ''IDENTITY_UNVERIFIED_REVIEW_REQUIRED'')
               else (HUMAN_GATE, ''IDENTITY_UNVERIFIED_NO_REVIEWER''))
         else (ALLOW, ''OK''))"

section \<open>Signing\<close>

definition unsigned :: signature where
  "unsigned = \<lparr>sg_alg = None, sg_key_id = None, sg_value = None, sg_status = UNVERIFIED\<rparr>"

text \<open>The signed body is the receipt without its signature; the HMAC is a function of it.\<close>

definition body_of :: "receipt \<Rightarrow> receipt" where
  "body_of r = r\<lparr>rc_signature := unsigned\<rparr>"

definition resign :: "engine \<Rightarrow> receipt \<Rightarrow> receipt" where
  "resign e r =
     r\<lparr>rc_signature :=
        (case en_key e of None \<Rightarrow> unsigned
         | Some k \<Rightarrow> \<lparr>sg_alg = Some ''hmac-sha256'', sg_key_id = Some (take 16 (en_sha256 e k)),
                      sg_value = Some (en_mac e k (body_of r)), sg_status = VERIFIED\<rparr>)\<rparr>"

definition verify_receipt :: "engine \<Rightarrow> receipt \<Rightarrow> bool" where
  "verify_receipt e r =
     (case en_key e of None \<Rightarrow> False
      | Some k \<Rightarrow>
          sg_status (rc_signature r) = VERIFIED \<and> truthy (sg_value (rc_signature r))
          \<and> sg_value (rc_signature r) = Some (en_mac e k (body_of r)))"

section \<open>Building receipts\<close>

definition downgrade_reason :: "engine \<Rightarrow> string" where
  "downgrade_reason e =
     (if truthy (en_fallback_reason e) then the (en_fallback_reason e)
      else if en_out_of_process_broker e then ''DISPATCHER_REGISTRATION_UNAUTHENTICATED''
      else ''SHARED_UID_NO_CREDENTIAL_BOUNDARY'')"

definition unnamed_project :: string where
  "unnamed_project = ''cea/unnamed-project''"

definition provenance_of :: "intent \<Rightarrow> policy_snapshot option \<Rightarrow> string list \<Rightarrow> provenance" where
  "provenance_of i snap unavailable =
     \<lparr>pv_snapshot_signature_status = map_option ps_signature snap,
      pv_snapshot_rollback_status = (case snap of None \<Rightarrow> None | Some s \<Rightarrow> ps_rollback_status s),
      pv_coordinator = in_coordinator_id i,
      pv_intent_identity = Some (in_identity i),
      pv_unavailable_inputs = (if unavailable \<noteq> [] then Some unavailable else None),
      pv_task_type = (if in_task_type i \<noteq> [] then Some (in_task_type i) else None)\<rparr>"

definition idempotency_key_of :: "intent \<Rightarrow> string \<Rightarrow> string" where
  "idempotency_key_of i ih = (if truthy (in_idempotency_key i) then the (in_idempotency_key i) else ih)"

definition build_receipt ::
  "engine \<Rightarrow> time \<Rightarrow> string \<Rightarrow> intent \<Rightarrow> caller \<Rightarrow> string \<Rightarrow> inputs \<Rightarrow> string option \<Rightarrow>
     string option \<times> string option \<Rightarrow> reuse option \<Rightarrow> string list \<Rightarrow> receipt" where
  "build_receipt e now fresh i c ih ip executor contract reuse unavailable =
     (let snap = ip_snapshot ip; bud = ip_budget ip; b = engine_binding e ip; ident = in_identity i;
          (reviewer, tester) = contract; degraded = True;
          (d, code) = decide i ip b unavailable reuse reviewer degraded
      in resign e
        \<lparr>rc_receipt_id = fresh, rc_issued_at = rfc3339 now, rc_issuer = en_issuer e,
         rc_task_id = in_task_id i, rc_intent_hash = ih, rc_parent_receipt_id = in_parent_receipt_id i,
         rc_project = id_project ident, rc_decision_ids = sorted_set (id_authority_decision_ids ident),
         rc_tier = ps_tier snap, rc_policy_generation = b_policy_generation b,
         rc_policy_hash = b_policy_hash b, rc_source_decision_revs = b_source_decision_revs b,
         rc_capability_registry = b_capability_registry b,
         rc_matched_capability =
           map_option (\<lambda>m. (mc_id m, Some (mc_owner m), Some (mc_repo m))) (first_match (ip_registry ip)),
         rc_reuse = reuse, rc_runtime_state = b_runtime_state b,
         rc_provider_budget =
           (pb_provider bud, pb_state bud,
            (case pb_observed_at bud of None \<Rightarrow> None | Some t \<Rightarrow> if t = 0 then None else Some (rfc3339 t))),
         rc_required_reviewer = reviewer, rc_required_tester = tester, rc_human_gate = b_human_gate b,
         rc_caller_identity = Some (ca_principal c), rc_caller_provenance = ca_provenance c,
         rc_executor_binding = executor, rc_executor_binding_status = UNVERIFIED,
         rc_caller_identity_status = UNVERIFIED,
         rc_downgrade_reason = (if degraded then Some (downgrade_reason e) else None),
         rc_decision = d, rc_reason_code = code, rc_reason_text = [], rc_signature = unsigned,
         rc_state = ISSUED, rc_binding = b, rc_idempotency_key = idempotency_key_of i ih,
         rc_attempt = 1, rc_max_attempts = max 1 (en_default_max_attempts e), rc_dispatch_nonces = [],
         rc_supersedes = [], rc_provenance = Some (provenance_of i (Some snap) unavailable)\<rparr>)"

definition refusal_receipt ::
  "engine \<Rightarrow> time \<Rightarrow> string \<Rightarrow> intent \<Rightarrow> caller \<Rightarrow> string \<Rightarrow> string \<Rightarrow> string \<Rightarrow> string list \<Rightarrow>
     decision \<Rightarrow> receipt" where
  "refusal_receipt e now fresh i c ih code txt unavailable d =
     (let ident = in_identity i; gate = (if d = HUMAN_GATE then PENDING else NOT_REQUIRED);
          project = py_strip (id_project ident); nothing = \<lparr>rj_generation = None, rj_hash = None\<rparr>
      in resign e
        \<lparr>rc_receipt_id = fresh, rc_issued_at = rfc3339 now, rc_issuer = en_issuer e,
         rc_task_id = in_task_id i, rc_intent_hash = ih, rc_parent_receipt_id = in_parent_receipt_id i,
         rc_project = (if project \<noteq> [] then project else unnamed_project),
         rc_decision_ids = sorted_set (id_authority_decision_ids ident), rc_tier = None,
         rc_policy_generation = 0, rc_policy_hash = ''not-consulted'', rc_source_decision_revs = [],
         rc_capability_registry = nothing, rc_matched_capability = None, rc_reuse = None,
         rc_runtime_state = STOPPED, rc_provider_budget = (None, Budget_Unverified, None),
         rc_required_reviewer = None, rc_required_tester = None, rc_human_gate = gate,
         rc_caller_identity = Some (ca_principal c), rc_caller_provenance = ca_provenance c,
         rc_executor_binding = None, rc_executor_binding_status = UNVERIFIED,
         rc_caller_identity_status = UNVERIFIED, rc_downgrade_reason = Some (downgrade_reason e),
         rc_decision = d, rc_reason_code = code, rc_reason_text = txt, rc_signature = unsigned,
         rc_state = ISSUED,
         rc_binding =
           \<lparr>b_policy_generation = 0, b_policy_hash = ''not-consulted'', b_source_decision_revs = [],
            b_capability_registry = nothing, b_matched_capability = None, b_runtime_state = STOPPED,
            b_runtime_state_epoch = 0, b_human_gate = gate, b_budget_class = EXHAUSTED\<rparr>,
         rc_idempotency_key = idempotency_key_of i ih, rc_attempt = 1, rc_max_attempts = 1,
         rc_dispatch_nonces = [], rc_supersedes = [],
         rc_provenance = Some (provenance_of i None unavailable)\<rparr>)"

text \<open>\<open>_refusal\<close>: the refusal is recorded.\<close>

definition record_refusal ::
  "engine \<Rightarrow> time \<Rightarrow> string \<Rightarrow> store \<Rightarrow> intent \<Rightarrow> caller \<Rightarrow> string \<Rightarrow> string \<Rightarrow> string \<Rightarrow> string list \<Rightarrow>
     decision \<Rightarrow> engine_error + receipt \<times> store" where
  "record_refusal e now fresh s i c ih code txt unavailable d =
     (let r = refusal_receipt e now fresh i c ih code txt unavailable d
      in case record_receipt now s r (Some ''engine'') (Some code) None of
           Inl err \<Rightarrow> Inl (Store_Refused err)
         | Inr (_, t) \<Rightarrow> Inr (r, t))"

text \<open>An admission that ends in a recorded refusal (or in the stand-down's ALLOW).\<close>

definition refuse_with ::
  "engine \<Rightarrow> time \<Rightarrow> string \<Rightarrow> store \<Rightarrow> intent \<Rightarrow> caller \<Rightarrow> string \<Rightarrow> string \<Rightarrow> string \<Rightarrow> string list \<Rightarrow>
     decision \<Rightarrow> nat \<Rightarrow> string option \<Rightarrow> engine_error + authorization \<times> store" where
  "refuse_with e now fresh s i c ih code txt unavailable d status existing =
     (case record_refusal e now fresh s i c ih code txt unavailable d of
        Inl err \<Rightarrow> Inl err
      | Inr (r, t) \<Rightarrow>
          Inr (\<lparr>au_receipt = r, au_status = status, au_code = code, au_reused = False,
                au_existing = existing\<rparr>, t))"

section \<open>Entry points that compute no verdict\<close>

definition refuse_intent ::
  "engine \<Rightarrow> time \<Rightarrow> string \<Rightarrow> store \<Rightarrow> intent \<Rightarrow> caller \<Rightarrow> string \<Rightarrow> string \<Rightarrow>
     engine_error + authorization \<times> store" where
  "refuse_intent e now fresh s i c code txt =
     (if \<not> is_authenticated_caller (en_minted e) c then Inl Unauthenticated_Caller
      else refuse_with e now fresh s i c (uncanonical_intent_hash (en_sha256 e) (in_identity i)) code txt []
             BLOCK 403 None)"

definition hold_canary_fix ::
  "engine \<Rightarrow> time \<Rightarrow> string \<Rightarrow> store \<Rightarrow> intent \<Rightarrow> caller \<Rightarrow> engine_error + authorization \<times> store" where
  "hold_canary_fix e now fresh s i c =
     (if \<not> is_authenticated_caller (en_minted e) c then Inl Unauthenticated_Caller
      else refuse_with e now fresh s i c (uncanonical_intent_hash (en_sha256 e) (in_identity i))
             ''HUMAN_GATE_PENDING'' [] [] HUMAN_GATE 423 None)"

definition stand_down ::
  "engine \<Rightarrow> time \<Rightarrow> string \<Rightarrow> store \<Rightarrow> intent \<Rightarrow> caller \<Rightarrow> engine_error + authorization \<times> store" where
  "stand_down e now fresh s i c =
     (if \<not> is_authenticated_caller (en_minted e) c then Inl Unauthenticated_Caller
      else refuse_with e now fresh s i c (uncanonical_intent_hash (en_sha256 e) (in_identity i))
             ''CEA_MODE_OFF'' [] [] ALLOW 201 None)"

text \<open>\<open>_canonicalize\<close>: either the canonical intent and its hash, or an answer.\<close>

datatype prepared = Answered authorization store | Prepared intent string

definition canonicalize ::
  "engine \<Rightarrow> time \<Rightarrow> string \<Rightarrow> store \<Rightarrow> intent \<Rightarrow> caller \<Rightarrow> engine_error + prepared" where
  "canonicalize e now fresh s i c =
     (let answer_with = (\<lambda>i code.
            case refuse_with e now fresh s i c (uncanonical_intent_hash (en_sha256 e) (in_identity i)) code []
                   [] BLOCK 400 None of
              Inl err \<Rightarrow> Inl err | Inr (a, t) \<Rightarrow> Inr (Answered a t))
      in case canonical_identity (in_identity i) of
           Inl _ \<Rightarrow> answer_with i ''INVALID_SCOPE_ANCHOR''
         | Inr ident \<Rightarrow>
             let i' = i\<lparr>in_identity := ident\<rparr>
             in if py_strip (id_project ident) = [] then answer_with i' ''PROJECT_REQUIRED''
                else case intent_hash (en_sha256 e) ident of
                       Inl err \<Rightarrow> Inl (Invalid_Anchor err)
                     | Inr ih \<Rightarrow> Inr (Prepared i' ih))"

definition enforce_boundary_refusal ::
  "engine \<Rightarrow> time \<Rightarrow> string \<Rightarrow> store \<Rightarrow> intent \<Rightarrow> caller \<Rightarrow> engine_error + authorization \<times> store" where
  "enforce_boundary_refusal e now fresh s i c =
     (if \<not> is_authenticated_caller (en_minted e) c then Inl Unauthenticated_Caller
      else case canonicalize e now fresh s i c of
             Inl err \<Rightarrow> Inl err
           | Inr (Answered a t) \<Rightarrow> Inr (a, t)
           | Inr (Prepared i' ih) \<Rightarrow>
               refuse_with e now fresh s i' c ih ''CREDENTIAL_BOUNDARY_UNAVAILABLE'' []
                 [''caller_credential_boundary''] BLOCK 403 None)"

section \<open>An intent that already has a lineage\<close>

definition releasable_statuses :: "string list" where
  "releasable_statuses = [''failed'', ''needs_human'', ''cancelled'', ''timed_out'']"

definition binding_drifted :: "engine \<Rightarrow> intent \<Rightarrow> receipt \<Rightarrow> bool" where
  "binding_drifted e i prior =
     (let executor = (if truthy (rc_executor_binding prior) then rc_executor_binding prior
                      else executor_binding e i);
          ip = read_inputs e i executor
      in ip_raised ip \<noteq> [] \<or> drifted_fields (rc_binding prior) (engine_binding e ip) \<noteq> [])"

definition supersede :: "engine \<Rightarrow> time \<Rightarrow> store \<Rightarrow> receipt \<Rightarrow> engine_error + store" where
  "supersede e now s prior =
     (case record_receipt now s (resign e (prior\<lparr>rc_state := SUPERSEDED\<rparr>)) (Some ''engine'')
             (Some ''retry exhausted the attempt budget or B drifted (P4)'') None of
        Inl err \<Rightarrow> Inl (Store_Refused err)
      | Inr (_, t) \<Rightarrow> Inr (snd (release_lineage t (rc_intent_hash prior) (rc_receipt_id prior))))"

text \<open>\<open>_existing_lineage\<close>: an answer, or \<open>None\<close> (the admission goes on, in the store left behind).\<close>

definition retry_lineage ::
  "engine \<Rightarrow> time \<Rightarrow> store \<Rightarrow> intent \<Rightarrow> receipt \<Rightarrow> engine_error + authorization option \<times> store" where
  "retry_lineage e now s i prior =
     (if rc_attempt prior < rc_max_attempts prior \<and> \<not> binding_drifted e i prior
      then let bumped = resign e (prior\<lparr>rc_attempt := rc_attempt prior + 1\<rparr>)
           in case record_receipt now s bumped (Some ''engine'')
                     (Some ''retry: B unchanged, attempt incremented (P4)'') None of
                Inl err \<Rightarrow> Inl (Store_Refused err)
              | Inr (_, t) \<Rightarrow>
                  Inr (Some \<lparr>au_receipt = bumped, au_status = 200, au_code = ''RETRY_SAME_RECEIPT'',
                             au_reused = True, au_existing = Some (rc_receipt_id prior)\<rparr>, t)
      else case supersede e now s prior of
             Inl err \<Rightarrow> Inl err | Inr t \<Rightarrow> Inr (None, t))"

definition answered :: "engine_error + authorization \<times> store \<Rightarrow> engine_error + authorization option \<times> store" where
  "answered res = (case res of Inl err \<Rightarrow> Inl err | Inr (a, t) \<Rightarrow> Inr (Some a, t))"

definition existing_lineage ::
  "engine \<Rightarrow> time \<Rightarrow> string \<Rightarrow> store \<Rightarrow> intent \<Rightarrow> caller \<Rightarrow> string \<Rightarrow> lineage \<Rightarrow> bool \<Rightarrow>
     engine_error + authorization option \<times> store" where
  "existing_lineage e now fresh s i c ih l retry =
     (case current_receipt s (ln_receipt_id l) of
        None \<Rightarrow> Inr (None, s)
      | Some prior \<Rightarrow>
          if ln_state l \<in> {SUPERSEDED, REVOKED} then Inr (None, s)
          else if ln_state l = CONSUMED
          then (case task_status s (rc_task_id prior) of
                  Some st \<Rightarrow>
                    if st \<in> set releasable_statuses
                    then Inr (None, snd (release_lineage s ih (ln_receipt_id l)))
                    else answered (refuse_with e now fresh s i c ih ''ALREADY_COMPLETED'' [] [] BLOCK 409
                                     (Some (ln_receipt_id l)))
                | None \<Rightarrow> answered (refuse_with e now fresh s i c ih ''ALREADY_COMPLETED'' [] [] BLOCK 409
                                     (Some (ln_receipt_id l))))
          else if retry then retry_lineage e now s i prior
          else if in_idempotency_key i = Some (rc_idempotency_key prior)
          then Inr (Some \<lparr>au_receipt = prior, au_status = 200, au_code = ''IDEMPOTENT_REPLAY'',
                          au_reused = True, au_existing = Some (rc_receipt_id prior)\<rparr>, s)
          else answered (refuse_with e now fresh s i c ih ''DUPLICATE_INTENT'' [] [] BLOCK 409
                           (Some (ln_receipt_id l))))"

section \<open>Work that already completed\<close>

definition supersession_record :: "intent \<Rightarrow> policy_snapshot \<Rightarrow> string list \<Rightarrow> decision_rev option" where
  "supersession_record i snap prior_ids =
     (if prior_ids = [] \<or> \<not> ps_available snap \<or> ps_signature snap \<noteq> VALID then None
      else find (\<lambda>r. dr_decision_id r \<in> set (id_authority_decision_ids (in_identity i))
                     \<and> set prior_ids \<subseteq> set (dr_supersedes r)) (authority_revs snap))"

definition completed_work_refusal ::
  "engine \<Rightarrow> time \<Rightarrow> string \<Rightarrow> store \<Rightarrow> intent \<Rightarrow> caller \<Rightarrow> string \<Rightarrow> policy_snapshot \<Rightarrow> bool \<Rightarrow>
     engine_error + authorization option \<times> store" where
  "completed_work_refusal e now fresh s i c ih snap unavailable =
     (case work_hash (en_sha256 e) (in_identity i) of
        Inl err \<Rightarrow> Inl (Invalid_Anchor err)
      | Inr wh \<Rightarrow>
          case completed_lineage_for_work s wh (Some ih) of
            None \<Rightarrow> Inr (None, s)
          | Some l \<Rightarrow>
              let prior_ids = (case current_receipt s (ln_receipt_id l) of None \<Rightarrow> []
                               | Some r \<Rightarrow> rc_decision_ids r)
              in if \<not> unavailable \<and> supersession_record i snap prior_ids \<noteq> None then Inr (None, s)
                 else answered (refuse_with e now fresh s i c ih ''ALREADY_COMPLETED'' [] [] BLOCK 409
                                  (Some (ln_receipt_id l))))"

section \<open>Admission\<close>

text \<open>\<open>_record\<close>: record the receipt, and claim the lineage unless it is a BLOCK.\<close>

definition record_admission ::
  "time \<Rightarrow> store \<Rightarrow> receipt \<Rightarrow> string \<Rightarrow> string option \<Rightarrow> engine_error + authorization \<times> store" where
  "record_admission now s r ih wh =
     (if validate_receipt r \<noteq> [] then Inl (Contract_Broken (validate_receipt r))
      else case record_receipt now s r (Some ''engine'') None None of
        Inl err \<Rightarrow> Inl (Store_Refused err)
      | Inr (_, t) \<Rightarrow>
          let decided = \<lparr>au_receipt = r, au_status = (if rc_decision r = ALLOW then 201 else 403),
                         au_code = rc_reason_code r, au_reused = False, au_existing = None\<rparr>
          in if rc_decision r = BLOCK then Inr (decided, t)
             else case claim_lineage now t ih (rc_receipt_id r) (rc_project r) (rc_state r) wh of
               ((won, holder), u) \<Rightarrow>
                 if won then Inr (decided, u)
                 else Inr (\<lparr>au_receipt = r, au_status = 409, au_code = ''DUPLICATE_INTENT'',
                            au_reused = False, au_existing = holder\<rparr>, u))"

text \<open>The part of \<open>_authorize_authenticated\<close> after J1.\<close>

definition admit ::
  "engine \<Rightarrow> time \<Rightarrow> string \<Rightarrow> store \<Rightarrow> intent \<Rightarrow> caller \<Rightarrow> string \<Rightarrow> engine_error + authorization \<times> store" where
  "admit e now fresh s i c ih =
     (let executor = executor_binding e i; ip = read_inputs e i executor; snap = ip_snapshot ip
      in case completed_work_refusal e now fresh s i c ih snap (ip_raised ip \<noteq> []) of
           Inl err \<Rightarrow> Inl err
         | Inr (Some a, t) \<Rightarrow> Inr (a, t)
         | Inr (None, t) \<Rightarrow>
             let unavailable = unavailable_inputs snap (ip_registry ip) (ip_runtime ip) @ ip_raised ip;
                 r = build_receipt e now fresh i c ih ip executor (j7_contract e i snap executor)
                       (j5_reuse e now i (ip_registry ip) snap) unavailable
             in case work_hash (en_sha256 e) (in_identity i) of
                  Inl err \<Rightarrow> Inl (Invalid_Anchor err)
                | Inr wh \<Rightarrow> record_admission now t r ih (Some wh))"

definition authorize_authenticated ::
  "engine \<Rightarrow> time \<Rightarrow> string \<Rightarrow> store \<Rightarrow> intent \<Rightarrow> caller \<Rightarrow> bool \<Rightarrow> engine_error + authorization \<times> store" where
  "authorize_authenticated e now fresh s i c retry =
     (if \<not> is_authenticated_caller (en_minted e) c then Inl Unauthenticated_Caller
      else case canonicalize e now fresh s i c of
        Inl err \<Rightarrow> Inl err
      | Inr (Answered a t) \<Rightarrow> Inr (a, t)
      | Inr (Prepared i' ih) \<Rightarrow>
          case lineage_for_intent s ih of
            None \<Rightarrow> admit e now fresh s i' c ih
          | Some l \<Rightarrow>
              case existing_lineage e now fresh s i' c ih l retry of
                Inl err \<Rightarrow> Inl err
              | Inr (Some a, t) \<Rightarrow> Inr (a, t)
              | Inr (None, t) \<Rightarrow>
                  let parent = ln_state l = CONSUMED \<and> current_receipt t (ln_receipt_id l) \<noteq> None
                  in admit e now fresh t
                       (if parent then i'\<lparr>in_parent_receipt_id := Some (ln_receipt_id l)\<rparr> else i') c ih)"

definition authorize ::
  "engine \<Rightarrow> time \<Rightarrow> string \<Rightarrow> store \<Rightarrow> intent \<Rightarrow> caller \<Rightarrow> bool \<Rightarrow> engine_error + authorization \<times> store" where
  "authorize e now fresh s i c retry =
     (case en_mode e of
        ENFORCE \<Rightarrow> enforce_boundary_refusal e now fresh s i c
      | OFF \<Rightarrow> stand_down e now fresh s i c
      | TEST \<Rightarrow> authorize_authenticated e now fresh s i c retry)"

section \<open>After admission\<close>

definition mint_dispatch_nonce ::
  "engine \<Rightarrow> time \<Rightarrow> string \<Rightarrow> store \<Rightarrow> receipt \<Rightarrow> engine_error + (receipt \<times> string) \<times> store" where
  "mint_dispatch_nonce e now nonce s r =
     (let issued = rfc3339 now
      in case mint_nonce s (rc_receipt_id r) (rc_attempt r) nonce issued of
           Inl err \<Rightarrow> Inl (Store_Refused err)
         | Inr t \<Rightarrow>
             let updated = resign e (r\<lparr>rc_dispatch_nonces := rc_dispatch_nonces r @
                   [\<lparr>dn_nonce = nonce, dn_attempt = rc_attempt r, dn_issued_at = issued,
                     dn_used_at = None\<rparr>]\<rparr>)
             in case record_receipt now t updated (Some ''engine'') (Some ''dispatch nonce minted'') None of
                  Inl err \<Rightarrow> Inl (Store_Refused err)
                | Inr (_, u) \<Rightarrow> Inr ((updated, nonce), u))"

definition transition ::
  "engine \<Rightarrow> time \<Rightarrow> store \<Rightarrow> string \<Rightarrow> string \<Rightarrow> string option \<Rightarrow> (receipt \<Rightarrow> receipt) \<Rightarrow>
     engine_error + receipt \<times> store" where
  "transition e now s rid state memo mutate =
     (case append_lifecycle now s rid state (Some ''engine'') memo mutate (resign e) of
        Inl err \<Rightarrow> Inl (Store_Refused err)
      | Inr (r, t) \<Rightarrow> Inr (r, set_lineage_state now t (rc_intent_hash r) rid (rc_state r)))"

definition intent_from_receipt :: "receipt \<Rightarrow> intent option" where
  "intent_from_receipt r =
     (case rc_provenance r of None \<Rightarrow> None
      | Some pv \<Rightarrow>
          map_option (\<lambda>ident.
            \<lparr>in_identity = ident, in_task_id = rc_task_id r,
             in_task_type = (case pv_task_type pv of None \<Rightarrow> [] | Some t \<Rightarrow> t), in_description = [],
             in_coordinator_id = pv_coordinator pv, in_idempotency_key = None,
             in_parent_receipt_id = rc_parent_receipt_id r\<rparr>) (pv_intent_identity pv))"

definition current_binding :: "engine \<Rightarrow> receipt \<Rightarrow> binding option \<times> string list" where
  "current_binding e r =
     (case intent_from_receipt r of
        None \<Rightarrow> (None, [''intent_identity''])
      | Some i \<Rightarrow>
          let executor = (if truthy (rc_executor_binding r) then rc_executor_binding r
                          else executor_binding e i);
              ip = read_inputs e i executor;
              unavailable = unavailable_inputs (ip_snapshot ip) (ip_registry ip) (ip_runtime ip) @ ip_raised ip
          in if unavailable \<noteq> [] then (None, unavailable) else (Some (engine_binding e ip), []))"

section \<open>What the engine does to the store\<close>

lemma resign_frame [simp]:
  "rc_receipt_id (resign e r) = rc_receipt_id r" "rc_state (resign e r) = rc_state r"
  "rc_intent_hash (resign e r) = rc_intent_hash r" "rc_decision (resign e r) = rc_decision r"
  "rc_reason_code (resign e r) = rc_reason_code r" "rc_project (resign e r) = rc_project r"
  "rc_required_reviewer (resign e r) = rc_required_reviewer r"
  "rc_required_tester (resign e r) = rc_required_tester r"
  "rc_idempotency_key (resign e r) = rc_idempotency_key r" "rc_attempt (resign e r) = rc_attempt r"
  "rc_task_id (resign e r) = rc_task_id r"
  by (simp_all add: resign_def)

text \<open>
  A lineage mirrors its receipt: its holder exists, in the state and for the intent the lineage says.
\<close>

definition lineages_synced :: "store \<Rightarrow> bool" where
  "lineages_synced s \<longleftrightarrow>
     (\<forall>l\<in>set (st_lineages s). \<exists>c. current_receipt s (ln_receipt_id l) = Some c
        \<and> rc_state c = ln_state l \<and> rc_intent_hash c = ln_intent_hash l)"

definition admission_ok :: "store \<Rightarrow> bool" where
  "admission_ok s \<longleftrightarrow> store_ok s \<and> lineages_synced s"

lemma admission_okD:
  "admission_ok s \<Longrightarrow> store_ok s" "admission_ok s \<Longrightarrow> list_all row_ok (st_receipts s)"
  by (simp_all add: admission_ok_def store_ok_def)

lemma syncedD:
  "admission_ok s \<Longrightarrow> l \<in> set (st_lineages s) \<Longrightarrow> current_receipt s (ln_receipt_id l) = Some c
     \<Longrightarrow> rc_state c = ln_state l \<and> rc_intent_hash c = ln_intent_hash l"
  by (auto simp: admission_ok_def lineages_synced_def)

lemma lineage_for_intentD:
  "lineage_for_intent s ih = Some l \<Longrightarrow> l \<in> set (st_lineages s) \<and> ln_intent_hash l = ih"
  unfolding lineage_for_intent_def by (drule row_of_SomeD)

lemma synced_frame:
  "st_lineages t = st_lineages s \<Longrightarrow> st_receipts t = st_receipts s \<Longrightarrow> lineages_synced s \<Longrightarrow> lineages_synced t"
  using current_receipt_cong [of t s] by (simp add: lineages_synced_def)

lemma record_receipt_frame:
  "record_receipt clock s r author memo seq = Inr (q, t) \<Longrightarrow>
     st_lineages t = st_lineages s \<and> st_nonces t = st_nonces s \<and> st_tasks t = st_tasks s"
  by (drule record_receiptD(4)) simp

text \<open>Recording a receipt under a new id.\<close>

lemma record_new:
  assumes ok: "admission_ok s" and rec: "record_receipt clock s r author memo None = Inr (q, t)"
    and new: "current_receipt s (rc_receipt_id r) = None"
  shows "lifecycle_step s t" and "admission_ok t"
proof -
  have "continues s r" using new by (simp add: continues_def)
  with rec show step: "lifecycle_step s t" by (rule step_recorded)
  have "lineages_synced t"
    unfolding lineages_synced_def
  proof
    fix l assume "l \<in> set (st_lineages t)"
    with record_receipt_frame [OF rec] have l: "l \<in> set (st_lineages s)" by simp
    then obtain c where c: "current_receipt s (ln_receipt_id l) = Some c"
      "rc_state c = ln_state l" "rc_intent_hash c = ln_intent_hash l"
      using ok by (auto simp: admission_ok_def lineages_synced_def)
    with new have "ln_receipt_id l \<noteq> rc_receipt_id r" by auto
    with c record_current [OF rec] show "\<exists>c. current_receipt t (ln_receipt_id l) = Some c
        \<and> rc_state c = ln_state l \<and> rc_intent_hash c = ln_intent_hash l" by simp
  qed
  then show "admission_ok t"
    using ok step store_step_ok lifecycle_step_is_store_step by (auto simp: admission_ok_def)
qed

text \<open>Recording a revision of a live receipt in the state it is in.\<close>

lemma record_revision:
  assumes ok: "admission_ok s" and rec: "record_receipt clock s r author memo None = Inr (q, t)"
    and cur: "current_receipt s (rc_receipt_id r) = Some c"
    and same: "rc_state r = rc_state c" "rc_intent_hash r = rc_intent_hash c"
    and live: "rc_state c \<notin> set terminal_states"
  shows "lifecycle_step s t" and "admission_ok t"
proof -
  have "rc_state c \<in> set (lifecycle_graph (rc_state c))"
    using live by (cases "rc_state c") (auto simp: terminal_states_def)
  with cur same have "continues s r" by (simp add: continues_def)
  with rec show step: "lifecycle_step s t" by (rule step_recorded)
  have "lineages_synced t"
    unfolding lineages_synced_def
  proof
    fix l assume "l \<in> set (st_lineages t)"
    with record_receipt_frame [OF rec] have "l \<in> set (st_lineages s)" by simp
    then obtain d where d: "current_receipt s (ln_receipt_id l) = Some d"
      "rc_state d = ln_state l" "rc_intent_hash d = ln_intent_hash l"
      using ok by (auto simp: admission_ok_def lineages_synced_def)
    show "\<exists>c. current_receipt t (ln_receipt_id l) = Some c
        \<and> rc_state c = ln_state l \<and> rc_intent_hash c = ln_intent_hash l"
    proof (cases "ln_receipt_id l = rc_receipt_id r")
      case True
      with cur d have "d = c" by simp
      with d same True record_current [OF rec, of "ln_receipt_id l"] show ?thesis by simp
    next
      case False
      with d record_current [OF rec, of "ln_receipt_id l"] show ?thesis by simp
    qed
  qed
  then show "admission_ok t"
    using ok step store_step_ok lifecycle_step_is_store_step by (auto simp: admission_ok_def)
qed

lemma release_step: "lifecycle_step s (snd (release_lineage s ih rid))"
  by (rule step_beside [OF step_release [OF prod.collapse [symmetric]]]) (simp add: release_lineage_def)

lemma release_ok:
  assumes "admission_ok s"
  shows "admission_ok (snd (release_lineage s ih rid))"
proof -
  have "current_receipt (snd (release_lineage s ih rid)) = current_receipt s"
    by (rule current_receipt_cong) (simp add: release_lineage_def)
  with assms show ?thesis
    using store_step_ok [OF lifecycle_step_is_store_step [OF release_step]]
    by (auto simp: admission_ok_def lineages_synced_def release_lineage_def)
qed

lemma claim_step: "lifecycle_step s (snd (claim_lineage clock s ih rid project state wh))"
  by (rule step_beside [OF step_claim [OF prod.collapse [symmetric]]]) simp

lemma claim_ok:
  assumes ok: "admission_ok s" and cur: "current_receipt s rid = Some c"
    and c: "rc_state c = state" "rc_intent_hash c = ih"
  shows "admission_ok (snd (claim_lineage clock s ih rid project state wh))"
proof -
  have "current_receipt (snd (claim_lineage clock s ih rid project state wh)) = current_receipt s"
    by (rule current_receipt_cong) simp
  moreover have "set (st_lineages (snd (claim_lineage clock s ih rid project state wh))) \<subseteq>
      insert \<lparr>ln_intent_hash = ih, ln_receipt_id = rid, ln_project = project, ln_state = state,
          ln_claimed_at = clock, ln_updated_at = clock, ln_work_hash = wh\<rparr> (set (st_lineages s))"
    by (auto simp: claim_lineage_def split: option.splits)
  ultimately have "lineages_synced (snd (claim_lineage clock s ih rid project state wh))"
    using ok cur c by (fastforce simp: admission_ok_def lineages_synced_def)
  then show ?thesis
    using ok store_step_ok [OF lifecycle_step_is_store_step [OF claim_step]]
    by (simp add: admission_ok_def)
qed

lemma refusal_receipt_frame [simp]:
  "rc_receipt_id (refusal_receipt e now fresh i c ih code txt un d) = fresh"
  "rc_decision (refusal_receipt e now fresh i c ih code txt un d) = d"
  "rc_state (refusal_receipt e now fresh i c ih code txt un d) = ISSUED"
  "rc_intent_hash (refusal_receipt e now fresh i c ih code txt un d) = ih"
  "rc_reason_code (refusal_receipt e now fresh i c ih code txt un d) = code"
  by (simp_all add: refusal_receipt_def Let_def)

lemma build_receipt_frame [simp]:
  "rc_receipt_id (build_receipt e now fresh i c ih ip ex con reuse un) = fresh"
  "rc_state (build_receipt e now fresh i c ih ip ex con reuse un) = ISSUED"
  "rc_intent_hash (build_receipt e now fresh i c ih ip ex con reuse un) = ih"
  by (simp_all add: build_receipt_def Let_def case_prod_beta)

text \<open>\<open>moved s t\<close>: the engine went from \<open>s\<close> to \<open>t\<close> by lifecycle steps and left the store in order.\<close>

definition moved :: "store \<Rightarrow> store \<Rightarrow> bool" where
  "moved s t \<longleftrightarrow> lifecycle_step\<^sup>*\<^sup>* s t \<and> admission_ok t"

lemma moved_refl: "admission_ok s \<Longrightarrow> moved s s"
  by (simp add: moved_def)

lemma moved_step: "lifecycle_step s t \<Longrightarrow> admission_ok t \<Longrightarrow> moved s t"
  by (simp add: moved_def r_into_rtranclp)

lemma moved_trans: "moved s t \<Longrightarrow> moved t u \<Longrightarrow> moved s u"
  unfolding moved_def by (blast intro: rtranclp_trans)

lemma refuse_withD:
  assumes "refuse_with e now fresh s i c ih code txt un d status existing = Inr (a, t)"
  obtains q where "a = \<lparr>au_receipt = refusal_receipt e now fresh i c ih code txt un d, au_status = status,
      au_code = code, au_reused = False, au_existing = existing\<rparr>"
    and "record_receipt now s (refusal_receipt e now fresh i c ih code txt un d) (Some ''engine'')
           (Some code) None = Inr (q, t)"
  using assms by (auto simp: refuse_with_def record_refusal_def Let_def split: sum.splits)

lemma refuse_with_moved:
  assumes "admission_ok s" and "current_receipt s fresh = None"
    and "refuse_with e now fresh s i c ih code txt un d status existing = Inr (a, t)"
  shows "moved s t"
proof -
  obtain q where rec: "record_receipt now s (refusal_receipt e now fresh i c ih code txt un d)
      (Some ''engine'') (Some code) None = Inr (q, t)"
    using assms(3) by (rule refuse_withD)
  from record_new [OF assms(1) rec] assms(2) show ?thesis by (simp add: moved_step)
qed

lemma refuse_with_lineages:
  "refuse_with e now fresh s i c ih code txt un d status existing = Inr (a, t) \<Longrightarrow>
     st_lineages t = st_lineages s \<and> au_receipt a = refusal_receipt e now fresh i c ih code txt un d
     \<and> au_status a = status \<and> au_code a = code \<and> au_existing a = existing \<and> \<not> au_reused a
     \<and> current_receipt t fresh = Some (au_receipt a)"
  by (erule refuse_withD) (simp add: record_receipt_frame record_current)

lemma canonicalize_moved:
  assumes "admission_ok s" and "current_receipt s fresh = None"
    and "canonicalize e now fresh s i c = Inr (Answered a t)"
  shows "moved s t"
  using assms(3)
  by (auto simp: canonicalize_def Let_def split: sum.splits if_splits
      intro: refuse_with_moved [OF assms(1,2)])

lemma answered_iff: "answered res = Inr (x, t) \<longleftrightarrow> (\<exists>a. x = Some a \<and> res = Inr (a, t))"
  by (auto simp: answered_def split: sum.splits)

lemma supersede_moved:
  assumes ok: "admission_ok s" and cur: "current_receipt s (rc_receipt_id prior) = Some prior"
    and live: "rc_state prior \<notin> set terminal_states" and sup: "supersede e now s prior = Inr t"
  shows "moved s t \<and> (\<forall>rid. current_receipt t rid = None \<longleftrightarrow> current_receipt s rid = None)"
proof -
  let ?r = "resign e (prior\<lparr>rc_state := SUPERSEDED\<rparr>)"
  obtain q u where rec: "record_receipt now s ?r (Some ''engine'')
      (Some ''retry exhausted the attempt budget or B drifted (P4)'') None = Inr (q, u)"
    and t: "t = snd (release_lineage u (rc_intent_hash prior) (rc_receipt_id prior))"
    using sup by (auto simp: supersede_def split: sum.splits)
  have "continues s ?r" using cur live
    by (cases "rc_state prior") (simp_all add: continues_def terminal_states_def)
  with rec have step: "lifecycle_step s u" by (rule step_recorded)
  have store: "store_ok u" using ok step store_step_ok lifecycle_step_is_store_step
    by (auto simp: admission_ok_def)
  then have "store_ok t" using t store_step_ok [OF lifecycle_step_is_store_step [OF release_step]] by simp
  have now: "current_receipt t = current_receipt u"
    unfolding t by (rule current_receipt_cong) (simp add: release_lineage_def)
  have "lineages_synced t"
    unfolding lineages_synced_def
  proof
    fix l assume "l \<in> set (st_lineages t)"
    then have l: "l \<in> set (st_lineages s)"
      and other: "\<not> (ln_intent_hash l = rc_intent_hash prior \<and> ln_receipt_id l = rc_receipt_id prior)"
      using record_receipt_frame [OF rec] by (auto simp: t release_lineage_def)
    then obtain c where c: "current_receipt s (ln_receipt_id l) = Some c"
      "rc_state c = ln_state l" "rc_intent_hash c = ln_intent_hash l"
      using ok by (auto simp: admission_ok_def lineages_synced_def)
    with other cur have "ln_receipt_id l \<noteq> rc_receipt_id prior" by auto
    with c now record_current [OF rec, of "ln_receipt_id l"]
    show "\<exists>c. current_receipt t (ln_receipt_id l) = Some c
        \<and> rc_state c = ln_state l \<and> rc_intent_hash c = ln_intent_hash l" by simp
  qed
  with \<open>store_ok t\<close> have "admission_ok t" by (simp add: admission_ok_def)
  moreover have "lifecycle_step u t" unfolding t by (rule release_step)
  with step have "lifecycle_step\<^sup>*\<^sup>* s t"
    by (rule rtranclp.rtrancl_into_rtrancl [OF r_into_rtranclp])
  moreover have "current_receipt t rid = None \<longleftrightarrow> current_receipt s rid = None" for rid
    using cur now record_current [OF rec, of rid] by (cases "rid = rc_receipt_id prior") simp_all
  ultimately show ?thesis by (simp add: moved_def)
qed

lemma retry_lineage_moved:
  assumes ok: "admission_ok s" and cur: "current_receipt s (rc_receipt_id prior) = Some prior"
    and live: "rc_state prior \<notin> set terminal_states"
    and ret: "retry_lineage e now s i prior = Inr (x, t)"
  shows "moved s t \<and> (\<forall>rid. current_receipt t rid = None \<longleftrightarrow> current_receipt s rid = None)"
proof (cases "rc_attempt prior < rc_max_attempts prior \<and> \<not> binding_drifted e i prior")
  case True
  let ?r = "resign e (prior\<lparr>rc_attempt := rc_attempt prior + 1\<rparr>)"
  from True ret obtain q where rec: "record_receipt now s ?r (Some ''engine'')
      (Some ''retry: B unchanged, attempt incremented (P4)'') None = Inr (q, t)"
    by (auto simp: retry_lineage_def Let_def split: sum.splits)
  from record_revision [OF ok rec, of prior] cur live have "moved s t" by (simp add: moved_step)
  moreover have "current_receipt t rid = None \<longleftrightarrow> current_receipt s rid = None" for rid
    using cur record_current [OF rec, of rid] by (cases "rid = rc_receipt_id prior") simp_all
  ultimately show ?thesis by blast
next
  case False
  with ret have "supersede e now s prior = Inr t"
    by (simp add: retry_lineage_def split: sum.splits)
  from supersede_moved [OF ok cur live this] show ?thesis .
qed

lemma existing_lineage_moved:
  assumes ok: "admission_ok s" and new: "current_receipt s fresh = None"
    and l: "lineage_for_intent s ih = Some l"
    and ex: "existing_lineage e now fresh s i c ih l retry = Inr (x, t)"
  shows "moved s t \<and> (x = None \<longrightarrow> current_receipt t fresh = None)"
proof (cases "current_receipt s (ln_receipt_id l)")
  case None
  with ex new moved_refl [OF ok] show ?thesis by (auto simp: existing_lineage_def)
next
  case (Some prior)
  have mem: "l \<in> set (st_lineages s)" using l by (simp add: lineage_for_intentD)
  have id: "rc_receipt_id prior = ln_receipt_id l"
    using current_receipt_id [OF admission_okD(2) [OF ok] Some] .
  have st: "rc_state prior = ln_state l" using syncedD [OF ok mem Some] by simp
  note refused = refuse_with_moved [OF ok new]
  note unf = ex [unfolded existing_lineage_def, simplified Some option.case]
  consider "ln_state l \<in> {SUPERSEDED, REVOKED}" | "ln_state l = CONSUMED"
    | "ln_state l \<notin> {SUPERSEDED, REVOKED, CONSUMED}" "retry"
    | "ln_state l \<notin> {SUPERSEDED, REVOKED, CONSUMED}" "\<not> retry"
    by blast
  then show ?thesis
  proof cases
    case 1
    with unf new moved_refl [OF ok] show ?thesis by auto
  next
    case 2
    have "current_receipt (snd (release_lineage s ih (ln_receipt_id l))) = current_receipt s"
      by (rule current_receipt_cong) (simp add: release_lineage_def)
    with 2 unf new show ?thesis
      by (auto simp: answered_iff release_ok [OF ok] split: option.splits if_splits
          intro!: moved_step [OF release_step] intro: refused)
  next
    case 3
    then have "retry_lineage e now s i prior = Inr (x, t)" using unf by simp
    moreover have "rc_state prior \<notin> set terminal_states" using 3 st by (simp add: terminal_states_def)
    ultimately show ?thesis using retry_lineage_moved [OF ok, of prior e now i x t] Some id new by simp
  next
    case 4
    with unf new moved_refl [OF ok] show ?thesis
      by (auto simp: answered_iff split: if_splits intro: refused)
  qed
qed

lemma record_admission_moved:
  assumes ok: "admission_ok s" and new: "current_receipt s (rc_receipt_id r) = None"
    and ih: "rc_intent_hash r = ih" and adm: "record_admission now s r ih wh = Inr (a, t)"
  shows "moved s t"
proof -
  obtain q u where rec: "record_receipt now s r (Some ''engine'') None None = Inr (q, u)"
    and t: "t = u \<or> t = snd (claim_lineage now u ih (rc_receipt_id r) (rc_project r) (rc_state r) wh)"
    using adm by (auto simp: record_admission_def Let_def split: sum.splits if_splits prod.splits)
  have u: "moved s u" "admission_ok u"
    using record_new [OF ok rec new] by (simp_all add: moved_step)
  have "current_receipt u (rc_receipt_id r) = Some r" using record_current [OF rec] by simp
  from claim_ok [OF u(2) this refl ih] claim_step
  have "moved u (snd (claim_lineage now u ih (rc_receipt_id r) (rc_project r) (rc_state r) wh))"
    by (blast intro: moved_step)
  with u t show ?thesis by (blast intro: moved_trans)
qed

lemma admit_moved:
  assumes ok: "admission_ok s" and new: "current_receipt s fresh = None"
    and adm: "admit e now fresh s i c ih = Inr (a, t)"
  shows "moved s t"
proof -
  let ?ex = "executor_binding e i" let ?ip = "read_inputs e i ?ex" let ?snap = "ip_snapshot ?ip"
  let ?r = "build_receipt e now fresh i c ih ?ip ?ex (j7_contract e i ?snap ?ex)
      (j5_reuse e now i (ip_registry ?ip) ?snap)
      (unavailable_inputs ?snap (ip_registry ?ip) (ip_runtime ?ip) @ ip_raised ?ip)"
  have earlier: "completed_work_refusal e now fresh s i c ih ?snap (ip_raised ?ip \<noteq> []) = Inr (x, u) \<Longrightarrow>
      (x = None \<longrightarrow> u = s) \<and> (x \<noteq> None \<longrightarrow> moved s u)" for x u
    by (auto simp: completed_work_refusal_def answered_iff Let_def
        split: sum.splits option.splits if_splits intro: refuse_with_moved [OF ok new])
  from adm consider "completed_work_refusal e now fresh s i c ih ?snap (ip_raised ?ip \<noteq> []) = Inr (Some a, t)"
    | u wh where "completed_work_refusal e now fresh s i c ih ?snap (ip_raised ?ip \<noteq> []) = Inr (None, u)"
        "record_admission now u ?r ih (Some wh) = Inr (a, t)"
    unfolding admit_def Let_def by (force split: sum.splits option.splits prod.splits)
  then show ?thesis
  proof cases
    case 1
    with earlier show ?thesis by blast
  next
    case 2
    with earlier have "u = s" by blast
    with 2 record_admission_moved [OF ok _ _ , of ?r] new show ?thesis by simp
  qed
qed

lemma authorize_moved:
  assumes ok: "admission_ok s" and new: "current_receipt s fresh = None"
    and auth: "authorize e now fresh s i c retry = Inr (a, t)"
  shows "moved s t"
proof (cases "en_mode e")
  case OFF
  with auth show ?thesis
    by (auto simp: authorize_def stand_down_def split: if_splits intro: refuse_with_moved [OF ok new])
next
  case ENFORCE
  with auth show ?thesis
    by (auto simp: authorize_def enforce_boundary_refusal_def split: if_splits sum.splits prepared.splits
        intro: refuse_with_moved [OF ok new] canonicalize_moved [OF ok new])
next
  case TEST
  with auth have "authorize_authenticated e now fresh s i c retry = Inr (a, t)"
    by (simp add: authorize_def)
  then consider "canonicalize e now fresh s i c = Inr (Answered a t)"
    | i' ih where "lineage_for_intent s ih = None" "admit e now fresh s i' c ih = Inr (a, t)"
    | i' ih l where "lineage_for_intent s ih = Some l"
        "existing_lineage e now fresh s i' c ih l retry = Inr (Some a, t)"
    | i' ih l u i'' where "lineage_for_intent s ih = Some l"
        "existing_lineage e now fresh s i' c ih l retry = Inr (None, u)"
        "admit e now fresh u i'' c ih = Inr (a, t)"
    unfolding authorize_authenticated_def Let_def
    by (force split: if_splits sum.splits prepared.splits option.splits prod.splits)
  then show ?thesis
  proof cases
    case 1
    then show ?thesis by (rule canonicalize_moved [OF ok new])
  next
    case 2
    then show ?thesis by (blast intro: admit_moved [OF ok new])
  next
    case 3
    from existing_lineage_moved [OF ok new 3] show ?thesis by blast
  next
    case 4
    from existing_lineage_moved [OF ok new 4(1,2)] have u: "moved s u" "current_receipt u fresh = None"
      by simp_all
    then have "admission_ok u" by (simp add: moved_def)
    from admit_moved [OF this u(2) 4(3)] u(1) show ?thesis by (blast intro: moved_trans)
  qed
qed

definition keeps_lineage :: "(receipt \<Rightarrow> receipt) \<Rightarrow> bool" where
  "keeps_lineage f \<longleftrightarrow> keeps_identity f \<and> (\<forall>c. rc_intent_hash (f c) = rc_intent_hash c)"

lemma set_lineage_state_rows:
  "l' \<in> set (st_lineages (set_lineage_state clock s ih rid state)) \<Longrightarrow>
     \<exists>l\<in>set (st_lineages s). ln_receipt_id l' = ln_receipt_id l \<and> ln_intent_hash l' = ln_intent_hash l
       \<and> ln_state l' = (if ln_intent_hash l = ih \<and> ln_receipt_id l = rid then state else ln_state l)"
  by (auto simp: set_lineage_state_def release_lineage_def split: if_splits)

lemma transition_moved:
  assumes ok: "admission_ok s" and keep: "keeps_lineage mutate"
    and tr: "transition e now s rid state memo mutate = Inr (r, t)"
  shows "moved s t"
proof -
  obtain u where app: "append_lifecycle now s rid state (Some ''engine'') memo mutate (resign e) = Inr (r, u)"
    and t: "t = set_lineage_state now u (rc_intent_hash r) rid (rc_state r)"
    using tr by (auto simp: transition_def split: sum.splits)
  from app obtain c st q where c: "current_receipt s rid = Some c"
    and r: "r = resign e (mutate (c\<lparr>rc_state := st\<rparr>))"
    and rec: "record_receipt now s r (Some ''engine'') memo None = Inr (q, u)"
    by (rule append_lifecycleD)
  have id: "rc_receipt_id r = rid"
    using r keep current_receipt_id [OF admission_okD(2) [OF ok] c]
    by (simp add: keeps_lineage_def keeps_identity_def)
  have hash: "rc_intent_hash r = rc_intent_hash c" using r keep by (simp add: keeps_lineage_def)
  have "keeps_identity (resign e)" by (simp add: keeps_identity_def)
  with app keep have one: "lifecycle_step s u"
    by (auto simp: keeps_lineage_def intro: step_moved)
  have two: "lifecycle_step u t" unfolding t by (rule step_beside [OF step_state]) simp_all
  have "store_ok t"
    using ok store_step_ok [OF lifecycle_step_is_store_step [OF one]]
      store_step_ok [OF lifecycle_step_is_store_step [OF two]] by (simp add: admission_ok_def)
  moreover have now: "current_receipt t = current_receipt u"
    unfolding t by (rule current_receipt_cong) simp
  have "lineages_synced t"
    unfolding lineages_synced_def
  proof
    fix l' assume "l' \<in> set (st_lineages t)"
    then obtain l where "l \<in> set (st_lineages u)" and l': "ln_receipt_id l' = ln_receipt_id l"
      "ln_intent_hash l' = ln_intent_hash l"
      "ln_state l' = (if ln_intent_hash l = rc_intent_hash r \<and> ln_receipt_id l = rid then rc_state r
                      else ln_state l)"
      unfolding t by (blast dest: set_lineage_state_rows)
    then have "l \<in> set (st_lineages s)" using record_receipt_frame [OF rec] by simp
    then obtain d where d: "current_receipt s (ln_receipt_id l) = Some d"
      "rc_state d = ln_state l" "rc_intent_hash d = ln_intent_hash l"
      using ok by (auto simp: admission_ok_def lineages_synced_def)
    show "\<exists>c. current_receipt t (ln_receipt_id l') = Some c
        \<and> rc_state c = ln_state l' \<and> rc_intent_hash c = ln_intent_hash l'"
    proof (cases "ln_receipt_id l = rid")
      case True
      with c d have "d = c" by simp
      with True d l' hash id now record_current [OF rec, of rid] show ?thesis by simp
    next
      case False
      with d l' id now record_current [OF rec, of "ln_receipt_id l"] show ?thesis by simp
    qed
  qed
  ultimately have "admission_ok t" by (simp add: admission_ok_def)
  with one two show ?thesis
    by (auto simp: moved_def intro: rtranclp.rtrancl_into_rtrancl [OF r_into_rtranclp])
qed

lemma mint_dispatch_nonce_moved:
  assumes ok: "admission_ok s" and cur: "current_receipt s (rc_receipt_id r) = Some r"
    and live: "rc_state r \<notin> set terminal_states"
    and mint: "mint_dispatch_nonce e now nonce s r = Inr (x, t)"
  shows "moved s t"
proof -
  define r' where "r' = resign e (r\<lparr>rc_dispatch_nonces := rc_dispatch_nonces r @
      [\<lparr>dn_nonce = nonce, dn_attempt = rc_attempt r, dn_issued_at = rfc3339 now, dn_used_at = None\<rparr>]\<rparr>)"
  then have r': "rc_receipt_id r' = rc_receipt_id r" "rc_state r' = rc_state r"
      "rc_intent_hash r' = rc_intent_hash r" by simp_all
  obtain u q where m: "mint_nonce s (rc_receipt_id r) (rc_attempt r) nonce (rfc3339 now) = Inr u"
    and rec: "record_receipt now u r' (Some ''engine'') (Some ''dispatch nonce minted'') None = Inr (q, t)"
    using mint unfolding mint_dispatch_nonce_def Let_def r'_def [symmetric] by (auto split: sum.splits)
  from mint_nonceD(2) [OF m] have frame: "st_receipts u = st_receipts s" "st_lineages u = st_lineages s"
    by simp_all
  have step: "lifecycle_step s u" by (rule step_beside [OF step_mint [OF m] frame(1)])
  have u: "admission_ok u"
    using ok store_step_ok [OF lifecycle_step_is_store_step [OF step]] synced_frame [OF frame(2,1)]
    by (simp add: admission_ok_def)
  have "current_receipt u (rc_receipt_id r') = Some r"
    using cur r' current_receipt_cong [OF frame(1)] by simp
  from record_revision [OF u rec this r'(2,3) live] step u show ?thesis
    by (blast intro: moved_trans moved_step)
qed

section \<open>Runs of the engine\<close>

text \<open>
  Everything that reaches the admission tables: admissions and refusals under a fresh \<open>uuid4\<close>,
  transitions whose change leaves id, state and intent alone, nonces minted for the current,
  live receipt, nonces spent or revoked, and the queue's writes of its task table.
\<close>

inductive engine_step :: "store \<Rightarrow> store \<Rightarrow> bool" where
  engine_authorize:
    "authorize e now fresh s i c retry = Inr (a, t) \<Longrightarrow> current_receipt s fresh = None \<Longrightarrow> engine_step s t"
| engine_refuse:
    "refuse_intent e now fresh s i c code txt = Inr (a, t) \<Longrightarrow> current_receipt s fresh = None
       \<Longrightarrow> engine_step s t"
| engine_hold:
    "hold_canary_fix e now fresh s i c = Inr (a, t) \<Longrightarrow> current_receipt s fresh = None \<Longrightarrow> engine_step s t"
| engine_transition:
    "transition e now s rid state memo mutate = Inr (r, t) \<Longrightarrow> keeps_lineage mutate \<Longrightarrow> engine_step s t"
| engine_mint:
    "mint_dispatch_nonce e now nonce s r = Inr (x, t) \<Longrightarrow> current_receipt s (rc_receipt_id r) = Some r
       \<Longrightarrow> rc_state r \<notin> set terminal_states \<Longrightarrow> engine_step s t"
| engine_consume: "consume_nonce clock s nonce who used = (b, t) \<Longrightarrow> engine_step s t"
| engine_revoke: "revoke_nonces_for_receipt clock s rid who used = (n, t) \<Longrightarrow> engine_step s t"
| engine_tasks: "engine_step s (s\<lparr>st_tasks := ts\<rparr>)"

lemma beside_moved:
  "store_step s t \<Longrightarrow> st_receipts t = st_receipts s \<Longrightarrow> st_lineages t = st_lineages s \<Longrightarrow> admission_ok s
     \<Longrightarrow> moved s t"
  using store_step_ok [of s t] synced_frame [of t s]
  by (auto simp: admission_ok_def intro!: moved_step step_beside)

lemma engine_step_moved: "engine_step s t \<Longrightarrow> admission_ok s \<Longrightarrow> moved s t"
proof (induction rule: engine_step.induct)
  case (engine_authorize e now fresh s i c retry a t)
  from authorize_moved [OF engine_authorize(3,2,1)] show ?case .
next
  case engine_refuse
  then show ?case
    by (auto simp: refuse_intent_def split: if_splits intro: refuse_with_moved)
next
  case engine_hold
  then show ?case
    by (auto simp: hold_canary_fix_def split: if_splits intro: refuse_with_moved)
next
  case (engine_transition e now s rid state memo mutate r t)
  from transition_moved [OF engine_transition(3,2,1)] show ?case .
next
  case (engine_mint e now nonce s r x t)
  from mint_dispatch_nonce_moved [OF engine_mint(4,2,3,1)] show ?case .
next
  case (engine_consume clock s nonce who used b t)
  then show ?case
    by (intro beside_moved [OF step_consume]) (auto simp: consume_nonce_def)
next
  case (engine_revoke clock s rid who used n t)
  then show ?case
    by (intro beside_moved [OF step_revoke]) (auto simp: revoke_nonces_for_receipt_def)
next
  case (engine_tasks s ts)
  then show ?case by (intro beside_moved [OF step_tasks]) simp_all
qed

lemma engine_run_moved: "engine_step\<^sup>*\<^sup>* s t \<Longrightarrow> admission_ok s \<Longrightarrow> moved s t"
proof (induction rule: rtranclp_induct)
  case base
  then show ?case by (rule moved_refl)
next
  case (step t u)
  then have "moved s t" by blast
  with engine_step_moved [OF step(2)] show ?case by (auto simp: moved_def)
qed

lemma admission_ok_empty: "admission_ok empty_store"
  by (simp add: admission_ok_def store_ok_empty lineages_synced_def) (simp add: empty_store_def)

end
