(* ===== verification/Admission.thy ===== *)
theory Admission
  imports Engine
begin

text \<open>
  What an admission by the engine amounts to: the decision on every branch, the receipts the engine
  writes conform to the contract the store enforces, each rollout mode's outcome, and the two ways
  an intent that was seen before is not admitted again.
\<close>

section \<open>The engine's receipts conform\<close>

definition hex_digest :: "string \<Rightarrow> bool" where
  "hex_digest d \<longleftrightarrow> length d = 64 \<and> list_all is_lower_hex d"

definition clock_ok :: "time \<Rightarrow> bool" where
  "clock_ok now \<longleftrightarrow> fst (split_year 1970 (nat \<lfloor>now\<rfloor> div 86400)) < 10000"

definition intent_ok :: "intent \<Rightarrow> bool" where
  "intent_ok i \<longleftrightarrow> in_task_id i \<noteq> [] \<and> opt_all is_uuid (in_parent_receipt_id i)
     \<and> list_all (\<lambda>d. d \<noteq> []) (id_authority_decision_ids (in_identity i))"

text \<open>An authenticated call with a fresh id, on a deployment whose digests are digests.\<close>

definition call_ok :: "engine \<Rightarrow> time \<Rightarrow> string \<Rightarrow> store \<Rightarrow> intent \<Rightarrow> caller \<Rightarrow> bool" where
  "call_ok e now fresh s i c \<longleftrightarrow>
     is_authenticated_caller (en_minted e) c \<and> en_issuer e \<noteq> [] \<and> (\<forall>x. hex_digest (en_sha256 e x))
     \<and> is_uuid fresh \<and> current_receipt s fresh = None \<and> intent_ok i \<and> clock_ok now"

definition inputs_ok :: "inputs \<Rightarrow> bool" where
  "inputs_ok ip \<longleftrightarrow>
     0 \<le> ps_generation (ip_snapshot ip)
     \<and> list_all (\<lambda>r. dr_decision_id r \<noteq> [] \<and> dr_body_hash r \<noteq> []) (authority_revs (ip_snapshot ip))
     \<and> opt_all (\<lambda>m. mc_id m \<noteq> []) (first_match (ip_registry ip))
     \<and> 0 \<le> rs_epoch (ip_runtime ip) \<and> gate_ok (ip_gate ip)
     \<and> opt_all clock_ok (pb_observed_at (ip_budget ip))"

lemma is_rfc3339_clock: "clock_ok now \<Longrightarrow> is_rfc3339 (rfc3339 now)"
  unfolding rfc3339_def clock_ok_def by (rule rfc3339_secs_conforms)

lemma hash_identity_sha256:
  assumes "\<And>x. hex_digest (sha256 x)"
  shows "is_sha256 (hash_identity sha256 i anchors)"
proof -
  obtain d where d: "hash_identity sha256 i anchors = ''sha256:'' @ d" "hex_digest d"
    using assms by (simp add: hash_identity_def)
  then have len: "length d = 64" and hex: "list_all is_lower_hex d" by (auto simp: hex_digest_def)
  then have "last d \<in> set d" by (intro last_in_set) auto
  with hex have "is_lower_hex (last d)" by (simp add: list_all_iff)
  moreover have "\<not> is_lower_hex (CHR 0x0A)" by code_simp
  ultimately have "last d \<noteq> CHR 0x0A" by metis
  moreover have "d \<noteq> []" using len by auto
  ultimately have "dollar (''sha256:'' @ d) = ''sha256:'' @ d" by (simp add: dollar_def)
  then show ?thesis using len hex by (simp add: is_sha256_def d(1))
qed

lemma sorted_set_nonempty_members:
  "list_all (\<lambda>d. d \<noteq> []) xs \<Longrightarrow> list_all (\<lambda>d. d \<noteq> []) (sorted_set xs)"
  by (simp add: list_all_iff)

lemma resign_checks [simp]: "receipt_checks (resign e r) = receipt_checks r"
  by (simp add: receipt_checks_def resign_def)

lemma downgrade_reason_truthy: "truthy (Some (downgrade_reason e))"
  by (auto simp: downgrade_reason_def truthy_def)

lemma opt_all_simps [simp]: "opt_all p None" "opt_all p (Some x) = p x"
  by (simp_all add: opt_all_def)

lemma opt_all_map [simp]: "opt_all p (map_option f v) = opt_all (\<lambda>x. p (f x)) v"
  by (cases v) simp_all

lemma revs_ok_Nil [simp]: "revs_ok []"
  by (simp add: revs_ok_def)

lemma call_okD:
  assumes "call_ok e now fresh s i c"
  shows "en_issuer e \<noteq> []" "is_uuid fresh" "in_task_id i \<noteq> []" "opt_all is_uuid (in_parent_receipt_id i)"
    "list_all (\<lambda>d. d \<noteq> []) (sorted_set (id_authority_decision_ids (in_identity i)))"
    "is_rfc3339 (rfc3339 now)" "is_authenticated_caller (en_minted e) c" "current_receipt s fresh = None"
    "is_sha256 (hash_identity (en_sha256 e) j anchors)"
  using assms by (simp_all add: call_ok_def intent_ok_def is_rfc3339_clock sorted_set_nonempty_members
      hash_identity_sha256)

lemma idempotency_key_nonempty: "is_sha256 ih \<Longrightarrow> idempotency_key_of i ih \<noteq> []"
  by (auto simp: is_sha256_def dollar_def idempotency_key_of_def truthy_def)

lemma refusal_conforms:
  assumes call: "call_ok e now fresh s i c" and ih: "is_sha256 ih" and code: "is_reason_code code"
  shows "validate_receipt (refusal_receipt e now fresh i c ih code txt un d) = []"
  unfolding validate_receipt_Nil_iff refusal_receipt_def Let_def resign_checks
  unfolding receipt_checks_def binding_ok_def list.pred_inject
  using call_okD [OF call] ih code idempotency_key_nonempty [OF ih, of i]
  by (cases "d = HUMAN_GATE"; cases "py_strip (id_project (in_identity i)) = []")
     (simp_all add: gate_ok_def unnamed_project_def)

lemma decide_codes:
  "is_reason_code (snd (decide i ip b un reuse reviewer degraded))"
proof -
  have "list_all is_reason_code
      [''SNAPSHOT_ROLLBACK'', ''INPUTS_UNAVAILABLE'', ''HUMAN_GATE_DENIED'', ''HUMAN_GATE_PENDING'',
       ''RUNTIME_STATE_FORBIDS'', ''NO_AUTHORITY'', ''AUTHORITY_NOT_IN_SNAPSHOT'', ''BUDGET_UNVERIFIED'',
       ''BUDGET_EXHAUSTED'', ''OWNER_CONFLICT'', ''IDENTITY_UNVERIFIED_WHO_MAY_ACT'',
       ''IDENTITY_UNVERIFIED_REVIEW_REQUIRED'', ''IDENTITY_UNVERIFIED_NO_REVIEWER'', ''OK'']"
    by code_simp
  then show ?thesis
    unfolding decide_def Let_def list.pred_inject by (simp split del: if_split) (simp split: if_split)
qed

lemma engine_binding_ok: "inputs_ok ip \<Longrightarrow> binding_ok (engine_binding e ip)"
  by (simp add: inputs_ok_def binding_ok_def engine_binding_def Let_def revs_ok_def list.pred_map comp_def
      split_beta)

lemma build_conforms:
  assumes call: "call_ok e now fresh s i c" and ih: "is_sha256 ih" and ip: "inputs_ok ip"
    and project: "id_project (in_identity i) \<noteq> []"
  shows "validate_receipt (build_receipt e now fresh i c ih ip ex con reuse un) = []"
proof -
  obtain reviewer tester where con: "con = (reviewer, tester)" by (cases con)
  let ?d = "decide i ip (engine_binding e ip) un reuse reviewer True"
  have b: "binding_ok (engine_binding e ip)" using ip by (rule engine_binding_ok)
  then have gen: "0 \<le> b_policy_generation (engine_binding e ip)" "b_policy_hash (engine_binding e ip) \<noteq> []"
    "revs_ok (b_source_decision_revs (engine_binding e ip))" "gate_ok (b_human_gate (engine_binding e ip))"
    by (simp_all add: binding_ok_def)
  have ip': "opt_all (\<lambda>m. mc_id m \<noteq> []) (first_match (ip_registry ip))"
    "opt_all clock_ok (pb_observed_at (ip_budget ip))"
    using ip by (simp_all add: inputs_ok_def)
  have obs: "opt_all is_rfc3339
      (case pb_observed_at (ip_budget ip) of None \<Rightarrow> None | Some t \<Rightarrow> if t = 0 then None else Some (rfc3339 t))"
    using ip'(2) by (cases "pb_observed_at (ip_budget ip)") (simp_all add: is_rfc3339_clock)
  have code: "is_reason_code (snd ?d)" by (rule decide_codes)
  show ?thesis
    unfolding validate_receipt_Nil_iff build_receipt_def Let_def con case_prod_conv case_prod_beta resign_checks
    unfolding receipt_checks_def list.pred_inject case_prod_beta
    using call_okD [OF call] ih code b gen ip' obs project idempotency_key_nonempty [OF ih, of i]
    by (simp split del: if_split)
qed

section \<open>Recording succeeds\<close>

lemma record_fresh:
  assumes "current_receipt s (rc_receipt_id r) = None" and "validate_receipt r = []"
  shows "\<exists>t. record_receipt clock s r author memo None = Inr (0, t) \<and>
    st_receipts t = st_receipts s @ [\<lparr>row_receipt_id = rc_receipt_id r, row_seq = 0, row_receipt = r,
      row_recorded_at = clock, row_recorded_by = author, row_note = memo\<rparr>] \<and>
    st_lineages t = st_lineages s"
proof -
  have rows: "rows_of s (rc_receipt_id r) = []"
    using assms(1) by (simp add: current_receipt_def)
  then have "\<not> list_ex (\<lambda>w. row_receipt_id w = rc_receipt_id r \<and> row_seq w = 0) (st_receipts s)"
    by (auto simp: rows_of_def list_ex_iff filter_empty_conv)
  with rows assms(2) show ?thesis by (simp add: record_receipt_def next_seq_def)
qed

text \<open>A recorded answer, the lineages untouched.\<close>

definition answers ::
  "engine_error + authorization \<times> store \<Rightarrow> store \<Rightarrow> nat \<Rightarrow> string \<Rightarrow> decision \<Rightarrow> string option \<Rightarrow> bool" where
  "answers res s status code d existing \<longleftrightarrow>
     (case res of Inl _ \<Rightarrow> False
      | Inr (a, t) \<Rightarrow>
          au_status a = status \<and> au_code a = code \<and> au_decision a = d \<and> au_existing a = existing
          \<and> rc_reason_code (au_receipt a) = code \<and> st_lineages t = st_lineages s
          \<and> current_receipt t (rc_receipt_id (au_receipt a)) = Some (au_receipt a)
          \<and> current_receipt s (rc_receipt_id (au_receipt a)) = None)"

lemma answers_Inr: "answers res s status code d existing \<Longrightarrow> \<exists>a t. res = Inr (a, t)"
  by (cases res) (auto simp: answers_def)

lemma refuse_with_answers:
  assumes call: "call_ok e now fresh s i c" and ih: "is_sha256 ih" and code: "is_reason_code code"
  shows "answers (refuse_with e now fresh s i c ih code txt un d status existing) s status code d existing"
proof -
  let ?r = "refusal_receipt e now fresh i c ih code txt un d"
  have new: "current_receipt s (rc_receipt_id ?r) = None" using call_okD(8) [OF call] by simp
  from record_fresh [OF new refusal_conforms [OF call ih code]]
  obtain t where rec: "record_receipt now s ?r (Some ''engine'') (Some code) None = Inr (0, t)"
    and lin: "st_lineages t = st_lineages s" by blast
  have res: "refuse_with e now fresh s i c ih code txt un d status existing =
      Inr (\<lparr>au_receipt = ?r, au_status = status, au_code = code, au_reused = False, au_existing = existing\<rparr>, t)"
    by (simp add: refuse_with_def record_refusal_def Let_def rec)
  show ?thesis
    unfolding res answers_def using lin record_current [OF rec, of fresh] new by (simp add: au_decision_def)
qed

section \<open>The decision\<close>

lemma decide_allow:
  "decide i ip b unavailable reuse reviewer degraded = (ALLOW, code) \<longleftrightarrow>
     code = ''OK''
     \<and> ps_rollback_status (ip_snapshot ip) \<noteq> Some ''SNAPSHOT_ROLLBACK'' \<and> unavailable = []
     \<and> ip_gate ip \<notin> {DENIED, PENDING} \<and> b_runtime_state b = ACTIVE
     \<and> authority_revs (ip_snapshot ip) \<noteq> []
     \<and> set (id_authority_decision_ids (in_identity i)) \<subseteq> dr_decision_id ` set (authority_revs (ip_snapshot ip))
     \<and> b_budget_class b \<noteq> EXHAUSTED \<and> \<not> owner_conflict i (ip_registry ip) reuse
     \<and> \<not> (degraded \<and> engine_identity_dependent (id_work_class (in_identity i)) reviewer (ip_gate ip) reuse)"
proof -
  have "(if c then (d, k) else p) = (ALLOW, code) \<longleftrightarrow> \<not> c \<and> p = (ALLOW, code)"
    if "d \<noteq> ALLOW" for c d k and p :: "decision \<times> string"
    using that by auto
  then show ?thesis
    unfolding decide_def Let_def by (simp split del: if_split) (auto split: if_split)
qed

text \<open>
  The engine allows work exactly when the policy snapshot is not rolled back, every input
  answered, the human gate does not stand in the way, the runtime is ACTIVE, the snapshot lists an
  authority and covers every decision id the intent names, the budget is not exhausted, no
  capability owner is bypassed, and, with unverified identities, nothing turns on an identity.
\<close>

theorem decide_allow_iff:
  "decide i ip b unavailable reuse reviewer degraded = (ALLOW, code) \<longleftrightarrow>
     code = ''OK''
     \<and> ps_rollback_status (ip_snapshot ip) \<noteq> Some ''SNAPSHOT_ROLLBACK'' \<and> unavailable = []
     \<and> ip_gate ip \<notin> {DENIED, PENDING} \<and> b_runtime_state b = ACTIVE
     \<and> authority_revs (ip_snapshot ip) \<noteq> []
     \<and> set (id_authority_decision_ids (in_identity i)) \<subseteq> dr_decision_id ` set (authority_revs (ip_snapshot ip))
     \<and> b_budget_class b \<noteq> EXHAUSTED \<and> \<not> owner_conflict i (ip_registry ip) reuse
     \<and> \<not> (degraded \<and> engine_identity_dependent (id_work_class (in_identity i)) reviewer (ip_gate ip) reuse)"
  by (rule decide_allow)

section \<open>Modes\<close>

text \<open>
  An engine that is OFF computes no verdict: every authenticated call is answered 201 with a
  recorded ALLOW receipt coded \<open>CEA_MODE_OFF\<close>, whatever the providers would say, and no lineage
  is claimed or changed.
\<close>

theorem off_stands_down:
  assumes "en_mode e = OFF" and "call_ok e now fresh s i c"
  shows "answers (authorize e now fresh s i c retry) s 201 ''CEA_MODE_OFF'' ALLOW None"
proof -
  have "is_reason_code ''CEA_MODE_OFF''" by code_simp
  from refuse_with_answers [OF assms(2) call_okD(9) [OF assms(2)] this] call_okD(7) [OF assms(2)] assms(1)
  show ?thesis by (simp add: authorize_def stand_down_def uncanonical_intent_hash_def)
qed

text \<open>An anchor that canonicalises, canonicalises to a fixed point.\<close>

definition rehashable :: "intent \<Rightarrow> bool" where
  "rehashable i \<longleftrightarrow>
     list_all (\<lambda>a. case canonical_scope_anchor a of Inl _ \<Rightarrow> True | Inr c \<Rightarrow> canonical_scope_anchor c = Inr c)
       (t_scope_anchors (id_target (in_identity i)))"

lemma rehashable_hash:
  assumes "rehashable i" and "canonical_identity (in_identity i) = Inr ident"
  shows "\<exists>cs. intent_hash sha256 ident = Inr (hash_identity sha256 (in_identity i) cs)"
proof -
  obtain xs where xs: "map_err canonical_scope_anchor (t_scope_anchors (id_target (in_identity i))) = Inr xs"
    using assms(2) by (auto simp: canonical_identity_def canonical_anchors_def split: sum.splits)
  have "list_all stable_anchor (t_scope_anchors (id_target (in_identity i)))"
    unfolding list_all_iff
  proof
    fix a assume a: "a \<in> set (t_scope_anchors (id_target (in_identity i)))"
    have "\<nexists>err. canonical_scope_anchor a = Inl err"
      using xs a map_err_Inl_iff [of canonical_scope_anchor "t_scope_anchors (id_target (in_identity i))"] by auto
    with a assms(1) show "stable_anchor a"
      by (auto simp: stable_anchor_def rehashable_def list_all_iff split: sum.splits)
  qed
  from intent_hash_of_canonical [OF assms(2) this] assms(2) show ?thesis
    by (auto simp: intent_hash_def split: sum.splits)
qed

lemma canonical_identity_frame:
  "canonical_identity i = Inr j \<Longrightarrow> id_project j = id_project i
     \<and> id_authority_decision_ids j = id_authority_decision_ids i \<and> id_work_class j = id_work_class i"
  by (auto simp: canonical_identity_def split: sum.splits)

lemma call_ok_canonical:
  "call_ok e now fresh s i c \<Longrightarrow> canonical_identity (in_identity i) = Inr ident
     \<Longrightarrow> call_ok e now fresh s (i\<lparr>in_identity := ident\<rparr>) c"
  by (simp add: call_ok_def intent_ok_def canonical_identity_frame)

text \<open>
  An engine that enforces never authorizes in process: every authenticated call whose
  anchors canonicalise stably is answered with a recorded BLOCK, 400 for an intent that names no
  proper anchors or project and 403 otherwise, and no lineage is claimed or changed.
\<close>

theorem enforce_refuses_in_process:
  assumes "en_mode e = ENFORCE" and call: "call_ok e now fresh s i c" and "rehashable i"
  shows "answers (authorize e now fresh s i c retry) s 400 ''INVALID_SCOPE_ANCHOR'' BLOCK None
    \<or> answers (authorize e now fresh s i c retry) s 400 ''PROJECT_REQUIRED'' BLOCK None
    \<or> answers (authorize e now fresh s i c retry) s 403 ''CREDENTIAL_BOUNDARY_UNAVAILABLE'' BLOCK None"
proof -
  have codes: "is_reason_code ''INVALID_SCOPE_ANCHOR''" "is_reason_code ''PROJECT_REQUIRED''"
    "is_reason_code ''CREDENTIAL_BOUNDARY_UNAVAILABLE''" by code_simp+
  have auth: "authorize e now fresh s i c retry = (case canonicalize e now fresh s i c of
             Inl err \<Rightarrow> Inl err
           | Inr (Answered a t) \<Rightarrow> Inr (a, t)
           | Inr (Prepared i' ih) \<Rightarrow>
               refuse_with e now fresh s i' c ih ''CREDENTIAL_BOUNDARY_UNAVAILABLE'' []
                 [''caller_credential_boundary''] BLOCK 403 None)"
    using assms(1) call_okD(7) [OF call] by (simp add: authorize_def enforce_boundary_refusal_def)
  have through: "(case (case res of Inl err \<Rightarrow> Inl err | Inr (a, t) \<Rightarrow> Inr (Answered a t)) of
      Inl err \<Rightarrow> Inl err | Inr (Answered a t) \<Rightarrow> Inr (a, t) | Inr (Prepared i' ih) \<Rightarrow> f i' ih) = res"
    for res :: "engine_error + authorization \<times> store" and f
    by (simp split: sum.splits prod.splits)
  show ?thesis
  proof (cases "canonical_identity (in_identity i)")
    case (Inl err)
    have "answers (authorize e now fresh s i c retry) s 400 ''INVALID_SCOPE_ANCHOR'' BLOCK None"
      unfolding auth canonicalize_def Let_def Inl sum.case through uncanonical_intent_hash_def
      by (rule refuse_with_answers [OF call call_okD(9) [OF call] codes(1)])
    then show ?thesis by blast
  next
    case (Inr ident)
    note call' = call_ok_canonical [OF call Inr]
    show ?thesis
    proof (cases "py_strip (id_project ident) = []")
      case True
      have "answers (authorize e now fresh s i c retry) s 400 ''PROJECT_REQUIRED'' BLOCK None"
        unfolding auth canonicalize_def Let_def Inr sum.case if_P [OF True] through
          uncanonical_intent_hash_def
        by (rule refuse_with_answers [OF call' call_okD(9) [OF call'] codes(2)])
      then show ?thesis by blast
    next
      case False
      obtain cs where hash: "intent_hash (en_sha256 e) ident = Inr (hash_identity (en_sha256 e) (in_identity i) cs)"
        using rehashable_hash [OF assms(3) Inr] by blast
      have "answers (authorize e now fresh s i c retry) s 403 ''CREDENTIAL_BOUNDARY_UNAVAILABLE'' BLOCK None"
        unfolding auth canonicalize_def Let_def Inr sum.case if_not_P [OF False] hash prepared.case
        by (rule refuse_with_answers [OF call' call_okD(9) [OF call'] codes(3)])
      then show ?thesis by blast
    qed
  qed
qed

section \<open>An intent that was seen before\<close>

text \<open>The intent canonicalises to \<open>i'\<close>, which hashes to \<open>ih\<close>.\<close>

definition prepares :: "engine \<Rightarrow> intent \<Rightarrow> intent \<Rightarrow> string \<Rightarrow> bool" where
  "prepares e i i' ih \<longleftrightarrow>
     canonical_identity (in_identity i) = Inr (in_identity i') \<and> i' = i\<lparr>in_identity := in_identity i'\<rparr>
     \<and> py_strip (id_project (in_identity i')) \<noteq> [] \<and> intent_hash (en_sha256 e) (in_identity i') = Inr ih"

lemma prepares_canonicalize:
  assumes "prepares e i i' ih"
  shows "canonicalize e now fresh s i c = Inr (Prepared i' ih)"
proof -
  from assms have "i\<lparr>in_identity := in_identity i'\<rparr> = i'" by (simp add: prepares_def)
  with assms show ?thesis by (simp add: canonicalize_def prepares_def)
qed

lemma prepares_call:
  assumes call: "call_ok e now fresh s i c" and prep: "prepares e i i' ih"
  shows "call_ok e now fresh s i' c" and "is_sha256 ih"
proof -
  have "i\<lparr>in_identity := in_identity i'\<rparr> = i'" using prep by (simp add: prepares_def)
  with call_ok_canonical [OF call, of "in_identity i'"] prep show "call_ok e now fresh s i' c"
    by (simp add: prepares_def)
  from prep obtain cs where "ih = hash_identity (en_sha256 e) (in_identity i') cs"
    by (auto simp: prepares_def intent_hash_def split: sum.splits)
  with call_okD(9) [OF call] show "is_sha256 ih" by simp
qed

lemma authorize_prepared:
  assumes "en_mode e = TEST" and "call_ok e now fresh s i c" and "prepares e i i' ih"
  shows "authorize e now fresh s i c retry =
     (case lineage_for_intent s ih of
        None \<Rightarrow> admit e now fresh s i' c ih
      | Some l \<Rightarrow>
          case existing_lineage e now fresh s i' c ih l retry of
            Inl err \<Rightarrow> Inl err
          | Inr (Some a, t) \<Rightarrow> Inr (a, t)
          | Inr (None, t) \<Rightarrow>
              admit e now fresh t
                (if ln_state l = CONSUMED \<and> current_receipt t (ln_receipt_id l) \<noteq> None
                 then i'\<lparr>in_parent_receipt_id := Some (ln_receipt_id l)\<rparr> else i') c ih)"
  unfolding authorize_def authorize_authenticated_def Let_def assms(1)
  using call_okD(7) [OF assms(2)] by (simp add: prepares_canonicalize [OF assms(3)])

lemma answered_result:
  "(case answered res of Inl err \<Rightarrow> Inl err | Inr (Some a, t) \<Rightarrow> Inr (a, t) | Inr (None, t) \<Rightarrow> g t) = res"
  by (simp add: answered_def split: sum.splits prod.splits)

text \<open>A retry on a live lineage keeps the receipt with one attempt more, or supersedes it before admission runs.\<close>

lemma superseded_state:
  assumes "supersede e now s prior = Inr u"
  shows "map_option rc_state (current_receipt u (rc_receipt_id prior)) = Some SUPERSEDED"
proof -
  obtain q t where rec: "record_receipt now s (resign e (prior\<lparr>rc_state := SUPERSEDED\<rparr>)) (Some ''engine'')
      (Some ''retry exhausted the attempt budget or B drifted (P4)'') None = Inr (q, t)"
    and u: "u = snd (release_lineage t (rc_intent_hash prior) (rc_receipt_id prior))"
    using assms by (auto simp: supersede_def split: sum.splits)
  have "current_receipt u = current_receipt t"
    unfolding u by (rule current_receipt_cong) (simp add: release_lineage_def)
  with record_current [OF rec, of "rc_receipt_id prior"] show ?thesis by simp
qed

definition retried_once :: "receipt \<Rightarrow> store \<Rightarrow> authorization \<Rightarrow> store \<Rightarrow> bool" where
  "retried_once prior s a t \<longleftrightarrow>
     au_code a = ''RETRY_SAME_RECEIPT'' \<and> au_reused a \<and> rc_receipt_id (au_receipt a) = rc_receipt_id prior
     \<and> rc_attempt (au_receipt a) = rc_attempt prior + 1 \<and> st_lineages t = st_lineages s"

lemma retry_outcomes:
  assumes mode: "en_mode e = TEST" and call: "call_ok e now fresh s i c" and prep: "prepares e i i' ih"
    and l: "lineage_for_intent s ih = Some l" and prior: "current_receipt s (ln_receipt_id l) = Some prior"
    and live: "ln_state l \<in> {ISSUED, QUEUED, CLAIMED, RUNNING, HELD}"
    and run: "authorize e now fresh s i c True = Inr (a, t)"
  shows "if rc_attempt prior < rc_max_attempts prior \<and> \<not> binding_drifted e i' prior then retried_once prior s a t
    else \<exists>u. supersede e now s prior = Inr u \<and> admit e now fresh u i' c ih = Inr (a, t)"
proof -
  have st: "ln_state l \<notin> {SUPERSEDED, REVOKED}" "ln_state l \<noteq> CONSUMED" using live by auto
  note auth = authorize_prepared [OF mode call prep, of True, unfolded l option.case existing_lineage_def prior
      if_not_P [OF st(1)] if_not_P [OF st(2)] if_True]
  show ?thesis
  proof (cases "rc_attempt prior < rc_max_attempts prior \<and> \<not> binding_drifted e i' prior")
    case True
    with run obtain q where rec: "record_receipt now s (resign e (prior\<lparr>rc_attempt := rc_attempt prior + 1\<rparr>)) (Some ''engine'')
        (Some ''retry: B unchanged, attempt incremented (P4)'') None = Inr (q, t)"
      and a: "au_receipt a = resign e (prior\<lparr>rc_attempt := rc_attempt prior + 1\<rparr>)" "au_code a = ''RETRY_SAME_RECEIPT''" "au_reused a"
      unfolding auth by (auto simp: retry_lineage_def Let_def split: sum.splits)
    from a record_receipt_frame [OF rec] True show ?thesis by (simp add: retried_once_def)
  next
    case False
    with run st show ?thesis unfolding auth by (auto simp: retry_lineage_def split: sum.splits)
  qed
qed

text \<open>
  Claim C3: an intent whose lineage was seen is never admitted beside it, in test mode. While the lineage is live, a
  plain call with the receipt's own idempotency key gets that receipt back and changes nothing, and any other plain
  call is refused with 409 \<open>DUPLICATE_INTENT\<close>; a call that asks for a retry gets the same receipt with its attempt
  counted while attempts are left and no input drifted, and otherwise is admitted only after the old receipt was
  recorded as superseded. Once the lineage was consumed, every call is refused with 409 \<open>ALREADY_COMPLETED\<close> unless
  its task is known to have failed, been cancelled, timed out or to need a human.
\<close>

theorem seen_intent_not_readmitted:
  assumes mode: "en_mode e = TEST" and call: "call_ok e now fresh s i c" and prep: "prepares e i i' ih"
    and l: "lineage_for_intent s ih = Some l" and prior: "current_receipt s (ln_receipt_id l) = Some prior"
  shows "(ln_state l \<in> {ISSUED, QUEUED, CLAIMED, RUNNING, HELD} \<longrightarrow>
      (if in_idempotency_key i' = Some (rc_idempotency_key prior)
       then authorize e now fresh s i c False =
              Inr (\<lparr>au_receipt = prior, au_status = 200, au_code = ''IDEMPOTENT_REPLAY'', au_reused = True,
                    au_existing = Some (rc_receipt_id prior)\<rparr>, s)
       else answers (authorize e now fresh s i c False) s 409 ''DUPLICATE_INTENT'' BLOCK
              (Some (ln_receipt_id l))))
    \<and> (ln_state l = CONSUMED
       \<and> task_status s (rc_task_id prior) \<notin> Some ` {''failed'', ''needs_human'', ''cancelled'', ''timed_out''} \<longrightarrow>
      answers (authorize e now fresh s i c retry) s 409 ''ALREADY_COMPLETED'' BLOCK (Some (ln_receipt_id l)))
    \<and> (ln_state l \<in> {ISSUED, QUEUED, CLAIMED, RUNNING, HELD} \<and> authorize e now fresh s i c True = Inr (a, t) \<longrightarrow>
      (if rc_attempt prior < rc_max_attempts prior \<and> \<not> binding_drifted e i' prior then retried_once prior s a t
       else \<exists>u. supersede e now s prior = Inr u \<and> admit e now fresh u i' c ih = Inr (a, t)
              \<and> map_option rc_state (current_receipt u (rc_receipt_id prior)) = Some SUPERSEDED))"
proof (intro conjI impI)
  have codes: "is_reason_code ''DUPLICATE_INTENT''" "is_reason_code ''ALREADY_COMPLETED''" by code_simp+
  note refused = refuse_with_answers [OF prepares_call [OF call prep]]
  note auth = authorize_prepared [OF mode call prep, unfolded l option.case existing_lineage_def prior]
  {
    assume live: "ln_state l \<in> {ISSUED, QUEUED, CLAIMED, RUNNING, HELD}"
    then have "ln_state l \<notin> {SUPERSEDED, REVOKED}" "ln_state l \<noteq> CONSUMED" by auto
    note auth' = auth [of False, unfolded if_not_P [OF this(1)] if_not_P [OF this(2)] if_False]
    show "if in_idempotency_key i' = Some (rc_idempotency_key prior)
       then authorize e now fresh s i c False =
              Inr (\<lparr>au_receipt = prior, au_status = 200, au_code = ''IDEMPOTENT_REPLAY'', au_reused = True,
                    au_existing = Some (rc_receipt_id prior)\<rparr>, s)
       else answers (authorize e now fresh s i c False) s 409 ''DUPLICATE_INTENT'' BLOCK
              (Some (ln_receipt_id l))"
    proof (cases "in_idempotency_key i' = Some (rc_idempotency_key prior)")
      case True
      then show ?thesis unfolding auth' by simp
    next
      case False
      show ?thesis
        unfolding if_not_P [OF False] auth' answered_result by (rule refused [OF codes(1)])
    qed
  }
  {
    assume retried: "ln_state l \<in> {ISSUED, QUEUED, CLAIMED, RUNNING, HELD} \<and> authorize e now fresh s i c True = Inr (a, t)"
    show "if rc_attempt prior < rc_max_attempts prior \<and> \<not> binding_drifted e i' prior then retried_once prior s a t
       else \<exists>u. supersede e now s prior = Inr u \<and> admit e now fresh u i' c ih = Inr (a, t)
              \<and> map_option rc_state (current_receipt u (rc_receipt_id prior)) = Some SUPERSEDED"
      using retry_outcomes [OF mode call prep l prior conjunct1 [OF retried] conjunct2 [OF retried]] superseded_state
      by (auto split: if_splits)
  }
  assume "ln_state l = CONSUMED
       \<and> task_status s (rc_task_id prior) \<notin> Some ` {''failed'', ''needs_human'', ''cancelled'', ''timed_out''}"
  then have consumed: "ln_state l = CONSUMED"
    and held: "task_status s (rc_task_id prior) \<notin> Some ` set releasable_statuses"
    by (simp_all add: releasable_statuses_def)
  then have "ln_state l \<notin> {SUPERSEDED, REVOKED}" by simp
  note auth' = auth [unfolded if_not_P [OF this] if_P [OF consumed]]
  show "answers (authorize e now fresh s i c retry) s 409 ''ALREADY_COMPLETED'' BLOCK (Some (ln_receipt_id l))"
  proof (cases "task_status s (rc_task_id prior)")
    case None
    show ?thesis unfolding auth' None option.case answered_result by (rule refused [OF codes(2)])
  next
    case (Some st)
    with held have "st \<notin> set releasable_statuses" by auto
    then show ?thesis
      unfolding auth' Some option.case if_not_P [OF \<open>st \<notin> set releasable_statuses\<close>] answered_result
      by (intro refused [OF codes(2)])
  qed
qed

section \<open>A new intent\<close>

text \<open>The receipt an admission builds from what the providers answer.\<close>

definition admission_receipt ::
  "engine \<Rightarrow> time \<Rightarrow> string \<Rightarrow> intent \<Rightarrow> caller \<Rightarrow> string \<Rightarrow> receipt" where
  "admission_receipt e now fresh i c ih =
     (let executor = executor_binding e i; ip = read_inputs e i executor; snap = ip_snapshot ip
      in build_receipt e now fresh i c ih ip executor (j7_contract e i snap executor)
           (j5_reuse e now i (ip_registry ip) snap)
           (unavailable_inputs snap (ip_registry ip) (ip_runtime ip) @ ip_raised ip))"

lemma admission_receipt_frame [simp]:
  "rc_receipt_id (admission_receipt e now fresh i c ih) = fresh"
  "rc_state (admission_receipt e now fresh i c ih) = ISSUED"
  "rc_intent_hash (admission_receipt e now fresh i c ih) = ih"
  by (simp_all add: admission_receipt_def Let_def)

lemma admit_new:
  assumes "completed_lineage_for_work s wh (Some ih) = None"
    and "work_hash (en_sha256 e) (in_identity i) = Inr wh"
  shows "admit e now fresh s i c ih =
    record_admission now s (admission_receipt e now fresh i c ih) ih (Some wh)"
  unfolding admit_def admission_receipt_def Let_def completed_work_refusal_def assms
  by (simp add: assms)

lemma strip_nonempty: "py_strip p \<noteq> [] \<Longrightarrow> p \<noteq> []"
  by (auto simp: py_strip_def py_rstrip_def py_lstrip_def)

text \<open>
  Claim C2: the admission of an intent that is new, and whose work has not completed before, always
  answers: it records exactly the receipt built from the inputs, answers 201 for ALLOW and 403
  otherwise with the receipt's own code, and makes that receipt the holder of the intent's lineage
  unless the decision is BLOCK, which claims nothing.
\<close>

theorem new_intent_admission:
  assumes mode: "en_mode e = TEST" and call: "call_ok e now fresh s i c" and prep: "prepares e i i' ih"
    and free: "lineage_holder s ih = None"
    and work: "work_hash (en_sha256 e) (in_identity i') = Inr wh" "completed_lineage_for_work s wh (Some ih) = None"
    and ip: "inputs_ok (read_inputs e i' (executor_binding e i'))"
  shows "\<exists>a t. authorize e now fresh s i c retry = Inr (a, t)
    \<and> au_receipt a = admission_receipt e now fresh i' c ih
    \<and> au_status a = (if au_allowed a then 201 else 403) \<and> au_code a = rc_reason_code (au_receipt a)
    \<and> st_receipts t = st_receipts s @
        [\<lparr>row_receipt_id = fresh, row_seq = 0, row_receipt = au_receipt a, row_recorded_at = now,
          row_recorded_by = Some ''engine'', row_note = None\<rparr>]
    \<and> lineage_holder t = (if au_decision a = BLOCK then lineage_holder s else (lineage_holder s)(ih := Some fresh))"
proof -
  let ?r = "admission_receipt e now fresh i' c ih"
  note call' = prepares_call [OF call prep]
  have "id_project (in_identity i') \<noteq> []" using prep strip_nonempty by (auto simp: prepares_def)
  then have conf: "validate_receipt ?r = []"
    unfolding admission_receipt_def Let_def using build_conforms [OF call' ip] by blast
  have new: "current_receipt s (rc_receipt_id ?r) = None" using call_okD(8) [OF call] by simp
  obtain t where rec: "record_receipt now s ?r (Some ''engine'') None None = Inr (0, t)"
    and rows: "st_receipts t = st_receipts s @ [\<lparr>row_receipt_id = fresh, row_seq = 0, row_receipt = ?r,
      row_recorded_at = now, row_recorded_by = Some ''engine'', row_note = None\<rparr>]"
    and lin: "st_lineages t = st_lineages s"
    using record_fresh [OF new conf] by (metis admission_receipt_frame(1))
  have holder: "lineage_holder t = lineage_holder s"
    by (simp add: lineage_holder_def lineage_for_intent_def lin fun_eq_iff)
  obtain won held u where claim: "claim_lineage now t ih fresh (rc_project ?r) ISSUED (Some wh) = ((won, held), u)"
    by (metis surj_pair)
  then have "lineage_claim now (rc_project ?r) ISSUED (Some wh) t ih fresh = (won, u)"
    by (simp add: lineage_claim_def)
  from lineage_claim_holder [OF this] free holder
  have won: "won" "lineage_holder u = (lineage_holder s)(ih := Some fresh)" by simp_all
  have rows': "st_receipts u = st_receipts t"
    using arg_cong [OF claim, of "\<lambda>p. st_receipts (snd p)"] by simp
  have "lineage_for_intent s ih = None" using free by (simp add: lineage_holder_def)
  then have "authorize e now fresh s i c retry = record_admission now s ?r ih (Some wh)"
    by (simp add: authorize_prepared [OF mode call prep] admit_new [OF work(2,1)])
  then show ?thesis
    using conf rec rows rows' claim won holder
    by (simp add: record_admission_def Let_def au_decision_def au_allowed_def)
qed

section \<open>The review floor\<close>

lemma decide_reviewer_not_allow:
  "truthy reviewer \<Longrightarrow> fst (decide i ip b un reuse reviewer True) \<noteq> ALLOW"
proof
  assume "truthy reviewer" "fst (decide i ip b un reuse reviewer True) = ALLOW"
  then have "decide i ip b un reuse reviewer True = (ALLOW, snd (decide i ip b un reuse reviewer True))"
    by (metis prod.collapse)
  with decide_allow [of i ip b un reuse reviewer True] \<open>truthy reviewer\<close> show False
    by (simp add: engine_identity_dependent_def)
qed

lemma build_receipt_decision:
  "rc_decision (build_receipt e now fresh i c ih ip ex con reuse un) =
     fst (decide i ip (engine_binding e ip) un reuse (fst con) True)"
  "rc_required_reviewer (build_receipt e now fresh i c ih ip ex con reuse un) = fst con"
  "rc_required_tester (build_receipt e now fresh i c ih ip ex con reuse un) = snd con"
  by (simp_all add: build_receipt_def Let_def case_prod_beta)

text \<open>Someone other than the executor can be named as reviewer.\<close>

definition reviewer_available :: "engine \<Rightarrow> intent \<Rightarrow> bool" where
  "reviewer_available e i \<longleftrightarrow>
     (case map_of (role_agents e) ''reviewer'' of None \<Rightarrow> False
      | Some v \<Rightarrow> v \<noteq> [] \<and>
          (Some v \<noteq> executor_binding e i
           \<or> list_ex (\<lambda>(r, a). r \<noteq> ''implementer'' \<and> Some a \<noteq> executor_binding e i) (role_agents e)))
     \<and> list_all (\<lambda>(r, a). a \<noteq> []) (role_agents e)"

lemma j7_reviewer:
  assumes "reviewer_available e i" and "id_work_class (in_identity i) \<in> {IMPLEMENT, FIX, MERGE}"
  shows "\<exists>v. fst (j7_contract e i snap (executor_binding e i)) = Some v \<and> v \<noteq> []
           \<and> Some v \<noteq> executor_binding e i"
proof -
  let ?ex = "executor_binding e i"
  let ?swap = "find (\<lambda>(r, a). r \<noteq> ''implementer'' \<and> Some a \<noteq> ?ex) (role_agents e)"
  obtain v where v: "map_of (role_agents e) ''reviewer'' = Some v" "v \<noteq> []"
    and other: "Some v \<noteq> ?ex \<or> list_ex (\<lambda>(r, a). r \<noteq> ''implementer'' \<and> Some a \<noteq> ?ex) (role_agents e)"
    and names: "list_all (\<lambda>(r, a). a \<noteq> []) (role_agents e)"
    using assms(1) by (auto simp: reviewer_available_def split: option.splits)
  obtain t where floor: "review_floor (id_work_class (in_identity i)) = (True, t)"
    using that [of "snd (review_floor (id_work_class (in_identity i)))"] assms(2) by auto
  have j7: "fst (j7_contract e i snap ?ex) = (if Some v = ?ex then map_option snd ?swap else Some v)"
    by (simp add: j7_contract_def Let_def floor v(1) split: prod.split)
  show ?thesis
  proof (cases "Some v = ?ex")
    case False
    with j7 v show ?thesis by auto
  next
    case True
    with other have "\<exists>x\<in>set (role_agents e). case x of (r, a) \<Rightarrow> r \<noteq> ''implementer'' \<and> Some a \<noteq> ?ex"
      by (simp add: list_ex_iff)
    then obtain r a where ra: "?swap = Some (r, a)"
      by (cases ?swap) (auto simp: find_None_iff)
    then have "(r, a) \<in> set (role_agents e)" "Some a \<noteq> ?ex"
      by (auto simp: find_Some_iff in_set_conv_nth)
    with names ra True j7 show ?thesis by (auto simp: list_all_iff)
  qed
qed

text \<open>
  Claim C5: the review floor holds: while someone other than the executor can be named, an
  implement, fix or merge intent is never admitted with ALLOW, and its receipt names a reviewer
  who is not the executor, whatever the snapshot's review matrix says.
\<close>

theorem change_work_is_reviewed:
  assumes "reviewer_available e i" and "id_work_class (in_identity i) \<in> {IMPLEMENT, FIX, MERGE}"
  shows "rc_decision (admission_receipt e now fresh i c ih) \<noteq> ALLOW
    \<and> (\<exists>v. rc_required_reviewer (admission_receipt e now fresh i c ih) = Some v \<and> v \<noteq> []
           \<and> Some v \<noteq> executor_binding e i)"
proof -
  let ?ip = "read_inputs e i (executor_binding e i)"
  obtain v where v: "fst (j7_contract e i (ip_snapshot ?ip) (executor_binding e i)) = Some v" "v \<noteq> []"
    "Some v \<noteq> executor_binding e i"
    using j7_reviewer [OF assms] by blast
  then have "truthy (fst (j7_contract e i (ip_snapshot ?ip) (executor_binding e i)))"
    by (simp add: truthy_def)
  with v show ?thesis
    by (simp add: admission_receipt_def Let_def build_receipt_decision decide_reviewer_not_allow)
qed

section \<open>A sample engine\<close>

definition sample_rev :: decision_rev where
  "sample_rev =
     \<lparr>dr_decision_id = ''D-1'', dr_body_hash = ''h1'', dr_supersedes = [], dr_principals = [],
      dr_build_commits = [], dr_runtimes = [], dr_project = None, dr_expires_at = None,
      dr_capabilities = [], dr_projects = [], dr_intent_hash = None, dr_scope_capability_id = None,
      dr_scope_work_class = None, dr_scope_repo = None\<rparr>"

definition sample_snapshot :: "matrix \<Rightarrow> policy_snapshot" where
  "sample_snapshot rows =
     \<lparr>ps_generation = 7, ps_hash = ''ph'', ps_decisions = [sample_rev], ps_in_scope = [],
      ps_signature = VALID, ps_available = True, ps_tier = None, ps_review_test_matrix = rows,
      ps_human_gate_predicates = [], ps_rollback_status = None\<rparr>"

definition sample_registry :: capability_lookup where
  "sample_registry =
     \<lparr>cl_registry = None, cl_matches = [], cl_anchor_matches = [], cl_available = True, cl_stale = False\<rparr>"

definition sample_engine :: "mode \<Rightarrow> (string \<times> string) list \<Rightarrow> matrix \<Rightarrow> engine" where
  "sample_engine m agents rows =
     \<lparr>en_mode = m, en_fallback_reason = None, en_out_of_process_broker = False, en_issuer = ''engine'',
      en_role_agents = agents, en_default_max_attempts = 1,
      en_snapshots = (\<lambda>_. Some (sample_snapshot rows)), en_capabilities = (\<lambda>_. Some sample_registry),
      en_runtime = Some \<lparr>rs_state = ACTIVE, rs_epoch = 4, rs_read_failed = False\<rparr>,
      en_budgets = (\<lambda>p. Some \<lparr>pb_provider = Some p, pb_state = Budget BUDGET_OK, pb_observed_at = None\<rparr>),
      en_gates = (\<lambda>i snap. Some (snapshot_human_gate i snap)), en_key = None,
      en_sha256 = (\<lambda>_. replicate 64 CHR ''0''), en_mac = (\<lambda>_ _. ''m''), en_minted = [1]\<rparr>"

definition sample_caller :: caller where
  "sample_caller =
     \<lparr>ca_object = 1, ca_principal = ''cli'', ca_provenance = MANUAL, ca_identity_status = UNVERIFIED,
      ca_credential_kind = ''adapter_token''\<rparr>"

definition sample_intent :: "work_class \<Rightarrow> intent" where
  "sample_intent wc =
     \<lparr>in_identity = (sample_identity [''src/x.py''] [''D-1''])\<lparr>id_work_class := wc\<rparr>, in_task_id = ''t1'',
      in_task_type = [], in_description = [], in_coordinator_id = None, in_idempotency_key = None,
      in_parent_receipt_id = None\<rparr>"

definition sample_id :: string where
  "sample_id = ''00000000-0000-0000-0000-000000000002''"

lemma sample_year: "split_year 1970 0 = (1970, 0)"
  by (simp add: split_year.simps [of 1970 0] year_days_def leap_year_def)

lemma sample_call:
  assumes "current_receipt s sample_id = None"
  shows "call_ok (sample_engine m agents rows) 0 sample_id s (sample_intent wc) sample_caller"
proof -
  have "is_uuid sample_id" by code_simp
  moreover have "is_lower_hex CHR ''0''" by code_simp
  ultimately show ?thesis
    using assms
    by (simp add: call_ok_def sample_engine_def sample_caller_def is_authenticated_caller_def
        hex_digest_def list_all_iff intent_ok_def sample_intent_def sample_identity_def clock_ok_def sample_year)
qed

lemma sample_path: "canonical_anchors [''src/x.py''] = Inr [''src/x.py'']"
  by code_simp

definition sample_hash :: "work_class \<Rightarrow> string" where
  "sample_hash wc = ''sha256:'' @ replicate 64 CHR ''0''"

lemma sample_prepares:
  "prepares (sample_engine m agents rows) (sample_intent wc) (sample_intent wc) (sample_hash wc)"
proof -
  have "py_strip ''crew'' = ''crew''" by code_simp
  then show ?thesis
    by (simp add: prepares_def sample_intent_def sample_identity_def canonical_identity_def sample_path
        intent_hash_def hash_identity_def sample_engine_def sample_hash_def)
qed

lemma sample_work:
  "work_hash (en_sha256 (sample_engine m agents rows)) (in_identity (sample_intent wc)) = Inr (sample_hash wc)"
  by (simp add: work_hash_def sample_intent_def sample_identity_def canonical_identity_def sample_path
      intent_hash_def hash_identity_def sample_engine_def sample_hash_def)

lemma sample_empty [simp]: "current_receipt empty_store rid = None" "lineage_holder empty_store ih = None"
  "lineage_for_intent empty_store ih = None" "completed_lineage_for_work empty_store wh ex = None"
  by (simp_all add: current_receipt_def rows_of_def empty_store_def lineage_holder_def
      lineage_for_intent_def completed_lineage_for_work_def)

lemma sample_inputs_ok:
  "inputs_ok (read_inputs (sample_engine m agents rows) i ex)"
  by (simp add: inputs_ok_def read_inputs_def Let_def sample_engine_def sample_snapshot_def
      authority_revs_def sample_rev_def sample_registry_def first_match_def snapshot_human_gate_def gate_ok_def)

theorem off_stands_down_witness:
  "answers (authorize (sample_engine OFF [] []) 0 sample_id empty_store (sample_intent OPS) sample_caller False)
     empty_store 201 ''CEA_MODE_OFF'' ALLOW None"
  by (rule off_stands_down [OF _ sample_call]) (simp_all add: sample_engine_def)

theorem enforce_refuses_in_process_witness:
  "\<exists>status code. answers (authorize (sample_engine ENFORCE [] []) 0 sample_id empty_store
      (sample_intent FIX) sample_caller False) empty_store status code BLOCK None"
proof -
  have mode: "en_mode (sample_engine ENFORCE [] []) = ENFORCE" by (simp add: sample_engine_def)
  have "canonical_scope_anchor ''src/x.py'' = Inr ''src/x.py''" by code_simp
  then have "rehashable (sample_intent FIX)"
    by (simp add: rehashable_def sample_intent_def sample_identity_def)
  from enforce_refuses_in_process [OF mode sample_call [OF sample_empty(1)] this] show ?thesis
    by blast
qed

theorem new_intent_admission_witness:
  "\<exists>a t. authorize (sample_engine TEST [] []) 0 sample_id empty_store (sample_intent FIX) sample_caller False
      = Inr (a, t) \<and> length (st_receipts t) = 1"
proof -
  have mode: "en_mode (sample_engine TEST [] []) = TEST" by (simp add: sample_engine_def)
  from new_intent_admission [OF mode sample_call [OF sample_empty(1)] sample_prepares sample_empty(2)
      sample_work sample_empty(4) sample_inputs_ok]
  obtain a t where "authorize (sample_engine TEST [] []) 0 sample_id empty_store (sample_intent FIX) sample_caller False
      = Inr (a, t)" "\<exists>w. st_receipts t = st_receipts empty_store @ [w]" by blast
  then show ?thesis by (auto simp: empty_store_def)
qed

theorem change_work_is_reviewed_witness:
  "rc_decision (admission_receipt (sample_engine TEST [] []) 0 sample_id (sample_intent MERGE) sample_caller ''h'')
     \<noteq> ALLOW"
proof -
  have "reviewer_available (sample_engine TEST [] []) (sample_intent MERGE)"
    by (simp add: reviewer_available_def sample_engine_def role_agents_def default_role_agents_def
        executor_binding_def sample_intent_def)
  from change_work_is_reviewed [OF this] show ?thesis by (simp add: sample_intent_def)
qed

definition seen_store :: store where
  "seen_store = (sample_store QUEUED)\<lparr>st_lineages :=
     [\<lparr>ln_intent_hash = sample_hash FIX, ln_receipt_id = ''00000000-0000-0000-0000-000000000001'',
       ln_project = ''crew'', ln_state = QUEUED, ln_claimed_at = 0, ln_updated_at = 0, ln_work_hash = None\<rparr>]\<rparr>"

theorem seen_intent_not_readmitted_witness:
  "answers (authorize (sample_engine TEST [] []) 0 sample_id seen_store (sample_intent FIX) sample_caller False)
     seen_store 409 ''DUPLICATE_INTENT'' BLOCK (Some ''00000000-0000-0000-0000-000000000001'')"
proof -
  have mode: "en_mode (sample_engine TEST [] []) = TEST" by (simp add: sample_engine_def)
  have cur: "current_receipt seen_store = current_receipt (sample_store QUEUED)"
    by (rule current_receipt_cong) (simp add: seen_store_def)
  have "current_receipt seen_store sample_id = None"
    by (simp add: cur current_receipt_def rows_of_def sample_id_def)
  note call = sample_call [OF this]
  obtain l where l: "lineage_for_intent seen_store (sample_hash FIX) = Some l" and live: "ln_state l = QUEUED"
    and holder: "ln_receipt_id l = ''00000000-0000-0000-0000-000000000001''"
    by (simp add: lineage_for_intent_def seen_store_def)
  have prior: "current_receipt seen_store (ln_receipt_id l) = Some (sample_receipt QUEUED REVIEW)"
    by (simp add: cur holder)
  have other: "in_idempotency_key (sample_intent FIX) \<noteq> Some (rc_idempotency_key (sample_receipt QUEUED REVIEW))"
    by (simp add: sample_intent_def)
  from conjunct1 [OF seen_intent_not_readmitted [OF mode call sample_prepares l prior]] other
  show ?thesis by (simp add: live holder)
qed

section \<open>Where engine and validator disagree\<close>

lemma sample_decide:
  "wc \<in> {REVIEW_WORK, TEST_WORK} \<Longrightarrow>
     rc_decision (admission_receipt (sample_engine m [] [(''test'', False, True)]) now fresh (sample_intent wc) c ih)
     = ALLOW"
  by (auto simp: admission_receipt_def Let_def build_receipt_decision j7_contract_def sample_intent_def
      sample_identity_def read_inputs_def sample_engine_def sample_snapshot_def sample_registry_def
      unavailable_inputs_def decide_def engine_binding_def bound_budget_def authority_revs_def
      sample_rev_def snapshot_human_gate_def j5_reuse_def first_match_def owner_conflict_def
      engine_identity_dependent_def identity_dependent_work_classes_def truthy_def)

lemma admission_tester:
  "rc_required_tester (admission_receipt e now fresh i c ih)
     = snd (j7_contract e i (ip_snapshot (read_inputs e i (executor_binding e i))) (executor_binding e i))"
  by (simp add: admission_receipt_def Let_def build_receipt_decision)

lemma unattested_allow_blocked:
  assumes "validate_receipt r = []" and "rc_state r = ISSUED" and "rc_decision r = ALLOW"
    and "rc_caller_identity_status r = UNVERIFIED" and "identity_dependent r"
  shows "vr_outcome (validate_enqueue clock (Typed r) (rc_task_id r) cur) = Blocked"
proof -
  have "check_state r At_Enqueue = None"
    using assms(2) by (simp add: check_state_def Let_def)
  moreover have "\<exists>code. check_integrity r At_Enqueue cur
      = Some (answer At_Enqueue Blocked code (rc_receipt_id r) None [])"
    using assms(3-5) by (auto simp: check_integrity_def Let_def verified_identity_def)
  ultimately show ?thesis
    using assms(1) by (auto simp: validate_enqueue_def Let_def validate_def first_answer_Cons answer_def)
qed

text \<open>
  The engine can allow what its own validator never admits: whenever the receipt of an
  admission is an ALLOW that requires a tester, the enqueue check blocks it, with whatever current
  inputs, because the validator counts a required tester as an identity claim and the engine does not.
\<close>

theorem allow_with_tester_is_blocked:
  assumes call: "call_ok e now fresh s i c" and ih: "is_sha256 ih"
    and ip: "inputs_ok (read_inputs e i (executor_binding e i))"
    and project: "id_project (in_identity i) \<noteq> []"
    and allow: "rc_decision (admission_receipt e now fresh i c ih) = ALLOW"
    and tester: "truthy (rc_required_tester (admission_receipt e now fresh i c ih))"
  shows "vr_outcome (validate_enqueue clock (Typed (admission_receipt e now fresh i c ih))
      (rc_task_id (admission_receipt e now fresh i c ih)) cur) = Blocked"
proof (rule unattested_allow_blocked [OF _ _ allow])
  show "validate_receipt (admission_receipt e now fresh i c ih) = []"
    unfolding admission_receipt_def Let_def by (rule build_conforms [OF call ih ip project])
  show "rc_caller_identity_status (admission_receipt e now fresh i c ih) = UNVERIFIED"
    by (simp add: admission_receipt_def Let_def build_receipt_def case_prod_beta resign_def)
  show "identity_dependent (admission_receipt e now fresh i c ih)"
    using tester by (simp add: identity_dependent_def)
qed simp

theorem allow_with_tester_is_blocked_witness:
  "rc_decision (admission_receipt (sample_engine TEST [] [(''test'', False, True)]) 0 sample_id
     (sample_intent TEST_WORK) sample_caller (sample_hash TEST_WORK)) = ALLOW
   \<and> vr_outcome (validate_enqueue 0
       (Typed (admission_receipt (sample_engine TEST [] [(''test'', False, True)]) 0 sample_id
          (sample_intent TEST_WORK) sample_caller (sample_hash TEST_WORK)))
       (rc_task_id (admission_receipt (sample_engine TEST [] [(''test'', False, True)]) 0 sample_id
          (sample_intent TEST_WORK) sample_caller (sample_hash TEST_WORK))) default_inputs) = Blocked"
proof
  let ?e = "sample_engine TEST [] [(''test'', False, True)]"
  let ?r = "admission_receipt ?e 0 sample_id (sample_intent TEST_WORK) sample_caller (sample_hash TEST_WORK)"
  show allow: "rc_decision ?r = ALLOW" by (rule sample_decide) simp
  have tester: "truthy (rc_required_tester ?r)"
    by (simp add: admission_tester j7_contract_def Let_def sample_intent_def sample_identity_def
        read_inputs_def sample_engine_def sample_snapshot_def role_agents_def default_role_agents_def truthy_def)
  have call: "call_ok ?e 0 sample_id empty_store (sample_intent TEST_WORK) sample_caller"
    by (rule sample_call) simp
  have ih: "is_sha256 (sample_hash TEST_WORK)" by (rule prepares_call(2) [OF call sample_prepares])
  have project: "id_project (in_identity (sample_intent TEST_WORK)) \<noteq> []"
    by (simp add: sample_intent_def sample_identity_def)
  show "vr_outcome (validate_enqueue 0 (Typed ?r) (rc_task_id ?r) default_inputs) = Blocked"
    by (rule allow_with_tester_is_blocked [OF call ih sample_inputs_ok project allow tester])
qed

text \<open>
  With one agent in both roles the floor is lost: the reviewer who is the executor is dropped,
  nobody else can be named, and the implement intent is allowed with no reviewer at all.
\<close>

theorem floor_lost_with_one_agent:
  "rc_decision (admission_receipt
       (sample_engine m [(''implementer'', ''claude''), (''reviewer'', ''claude'')] []) now fresh
       (sample_intent IMPLEMENT) c ih) = ALLOW
   \<and> rc_required_reviewer (admission_receipt
       (sample_engine m [(''implementer'', ''claude''), (''reviewer'', ''claude'')] []) now fresh
       (sample_intent IMPLEMENT) c ih) = None"
  by (simp add: admission_receipt_def Let_def build_receipt_decision j7_contract_def sample_intent_def
      sample_identity_def read_inputs_def sample_engine_def sample_snapshot_def sample_registry_def
      unavailable_inputs_def decide_def engine_binding_def bound_budget_def authority_revs_def
      sample_rev_def snapshot_human_gate_def j5_reuse_def first_match_def owner_conflict_def
      engine_identity_dependent_def identity_dependent_work_classes_def truthy_def role_agents_def
      executor_binding_def)

text \<open>
  The engine canonicalises twice and guards only the first pass: an intent anchored at
  \<open>./a:\<close> is not answered with a 400 but raises, in TEST and in ENFORCE mode, for every store.
\<close>

theorem second_canonicalisation_raises:
  "en_mode e \<noteq> OFF \<and> is_authenticated_caller (en_minted e) c \<and> in_identity i = sample_identity [''./a:''] ids
     \<longrightarrow> authorize e now fresh s i c retry = Inl (Invalid_Anchor SchemeOnly)"
proof
  assume a: "en_mode e \<noteq> OFF \<and> is_authenticated_caller (en_minted e) c \<and> in_identity i = sample_identity [''./a:''] ids"
  have "py_strip ''crew'' = ''crew''" by code_simp
  then have "canonicalize e now fresh s i c = Inl (Invalid_Anchor SchemeOnly)"
    using a by (simp add: canonicalize_def rehash_raises Let_def) (simp add: sample_identity_def)
  with a show "authorize e now fresh s i c retry = Inl (Invalid_Anchor SchemeOnly)"
    by (cases "en_mode e") (simp_all add: authorize_def enforce_boundary_refusal_def authorize_authenticated_def)
qed

theorem second_canonicalisation_raises_witness:
  "authorize (sample_engine TEST [] []) 0 sample_id empty_store
     ((sample_intent FIX)\<lparr>in_identity := sample_identity [''./a:''] []\<rparr>) sample_caller False
   = Inl (Invalid_Anchor SchemeOnly)"
  using second_canonicalisation_raises [of "sample_engine TEST [] []" sample_caller
      "(sample_intent FIX)\<lparr>in_identity := sample_identity [''./a:''] []\<rparr>" "[]" 0 sample_id empty_store False]
  by (simp add: sample_engine_def sample_caller_def is_authenticated_caller_def)

section \<open>Signatures\<close>

lemma body_of_resign [simp]: "body_of (resign e r) = body_of r"
  by (simp add: body_of_def resign_def)

text \<open>
  What the engine signs, it verifies, exactly when it has a key; and a receipt that carries
  a signature of the engine's verifies only if its body has the same MAC as the body that was signed.
\<close>

theorem sign_verify:
  assumes "\<forall>k b. en_mac e k b \<noteq> []"
  shows "(verify_receipt e (resign e r) \<longleftrightarrow> en_key e \<noteq> None) \<and>
    (\<forall>q k. en_key e = Some k \<and> rc_signature q = rc_signature (resign e r) \<longrightarrow>
       (verify_receipt e q \<longleftrightarrow> en_mac e k (body_of q) = en_mac e k (body_of r)))"
  using assms
  by (cases "en_key e") (auto simp: verify_receipt_def truthy_def, auto simp: resign_def)

theorem sign_verify_witness:
  "verify_receipt ((sample_engine OFF [] [])\<lparr>en_key := Some ''k''\<rparr>)
     (resign ((sample_engine OFF [] [])\<lparr>en_key := Some ''k''\<rparr>) (sample_receipt ISSUED ALLOW))"
proof -
  have "\<forall>k b. en_mac ((sample_engine OFF [] [])\<lparr>en_key := Some ''k''\<rparr>) k b \<noteq> []"
    by (simp add: sample_engine_def)
  from conjunct1 [OF sign_verify [OF this]] show ?thesis by simp
qed

section \<open>Runs\<close>

text \<open>
  Claim C4: the engine keeps the store in order: in every store it reaches, rows and keys are sound,
  the history of every receipt was written by lifecycle steps, and every lineage names an existing
  receipt for that very intent, in the state the lineage records.
\<close>

theorem engine_keeps_store_in_order:
  assumes "engine_step\<^sup>*\<^sup>* empty_store s"
  shows "store_ok s \<and> lifecycle_step\<^sup>*\<^sup>* empty_store s \<and>
    (\<forall>l\<in>set (st_lineages s). \<exists>c. current_receipt s (ln_receipt_id l) = Some c
        \<and> rc_state c = ln_state l \<and> rc_intent_hash c = ln_intent_hash l)"
  using engine_run_moved [OF assms admission_ok_empty]
  by (simp add: moved_def admission_ok_def lineages_synced_def)

theorem engine_keeps_store_in_order_witness:
  "\<exists>a t. authorize (sample_engine OFF [] []) 0 sample_id empty_store (sample_intent FIX) sample_caller False
      = Inr (a, t) \<and> store_ok t"
proof -
  let ?e = "sample_engine OFF [] []"
  have call: "call_ok ?e 0 sample_id empty_store (sample_intent FIX) sample_caller"
    by (rule sample_call) simp
  have "is_reason_code ''CEA_MODE_OFF''" by code_simp
  note answers_Inr [OF refuse_with_answers [OF call call_okD(9) [OF call] this]]
  then obtain a t where "refuse_with ?e 0 sample_id empty_store (sample_intent FIX) sample_caller
      (uncanonical_intent_hash (en_sha256 ?e) (in_identity (sample_intent FIX))) ''CEA_MODE_OFF'' [] [] ALLOW 201 None
      = Inr (a, t)"
    unfolding uncanonical_intent_hash_def by blast
  moreover have "en_mode ?e = OFF" by (simp add: sample_engine_def)
  ultimately have auth: "authorize ?e 0 sample_id empty_store (sample_intent FIX) sample_caller False = Inr (a, t)"
    using call_okD(7) [OF call] by (simp add: authorize_def stand_down_def)
  have "engine_step empty_store t" by (rule engine_authorize [OF auth]) simp
  from engine_keeps_store_in_order [OF r_into_rtranclp [of engine_step, OF this]] auth show ?thesis by blast
qed

end
