(* ===== verification/Callsites.thy ===== *)
theory Callsites
  imports Admission
begin

text \<open>
  The call sites of the validator (\<open>cea/callsites.py\<close>): what the queue does with a verdict under each
  rollout mode, the P6 gate of the runtime state, and the gate every requeue path goes through.
\<close>

section \<open>Enforcement\<close>

record gate_config =
  gc_mode :: mode
  gc_enforce_codes :: "string list option"

definition enforcing_code :: "gate_config \<Rightarrow> string option \<Rightarrow> bool" where
  "enforcing_code cfg code \<longleftrightarrow>
     gc_mode cfg \<in> {ENFORCE, TEST}
     \<and> (case (code, gc_enforce_codes cfg) of (Some k, Some codes) \<Rightarrow> k \<in> set codes | _ \<Rightarrow> True)"

record gate_outcome =
  go_point :: validation_point
  go_result :: validation_result
  go_proceed :: bool
  go_enforced :: bool
  go_review_required :: bool

text \<open>The code a verdict is enforced under: a decision's own reason code when the decision is the reason.\<close>

definition enforced_code :: "validation_result \<Rightarrow> presented \<Rightarrow> string" where
  "enforced_code v pr =
     (case pr of
        Typed r \<Rightarrow>
          if vr_code v \<in> {''DECISION_BLOCK'', ''DECISION_HUMAN_GATE''} \<and> rc_reason_code r \<noteq> []
          then rc_reason_code r else vr_code v
      | _ \<Rightarrow> vr_code v)"

definition gate :: "gate_config \<Rightarrow> validation_point \<Rightarrow> validation_result \<Rightarrow> presented \<Rightarrow> gate_outcome" where
  "gate cfg p v pr =
     (let ok = vr_outcome v = Proceed;
          enforce = enforcing_code cfg (if ok then None else Some (enforced_code v pr));
          proceed = ok \<or> \<not> enforce
      in \<lparr>go_point = p, go_result = v, go_proceed = proceed, go_enforced = enforce,
          go_review_required = gc_mode cfg \<in> {ENFORCE, TEST} \<and> proceed \<and> \<not> ok\<rparr>)"

definition gate_off :: "validation_point \<Rightarrow> receipt option \<Rightarrow> gate_outcome" where
  "gate_off p r =
     \<lparr>go_point = p,
      go_result = answer p Proceed ''CEA_MODE_OFF'' (case r of None \<Rightarrow> [] | Some q \<Rightarrow> rc_receipt_id q) None [],
      go_proceed = True, go_enforced = False, go_review_required = False\<rparr>"

text \<open>\<open>current_inputs\<close>: B' and the signature check, by the engine; the rest is the caller's.\<close>

definition engine_current_inputs :: "engine \<Rightarrow> receipt \<Rightarrow> current_inputs \<Rightarrow> current_inputs" where
  "engine_current_inputs e r overrides =
     (let (b, unavailable) = current_binding e r
      in overrides\<lparr>ci_binding := b, ci_unavailable := unavailable,
                   ci_signature_verification := Some (verify_receipt e r)\<rparr>)"

section \<open>The five points\<close>

definition gate_enqueue ::
  "gate_config \<Rightarrow> time \<Rightarrow> presented \<Rightarrow> string \<Rightarrow> current_inputs \<Rightarrow> gate_outcome" where
  "gate_enqueue cfg clock pr task_id cur = gate cfg At_Enqueue (validate_enqueue clock pr task_id cur) pr"

definition gate_claim ::
  "gate_config \<Rightarrow> time \<Rightarrow> presented \<Rightarrow> string option \<Rightarrow> current_inputs \<Rightarrow> gate_outcome" where
  "gate_claim cfg clock pr claimant cur = gate cfg At_Claim (validate_claim clock pr claimant cur) pr"

definition gate_dispatch ::
  "gate_config \<Rightarrow> time \<Rightarrow> presented \<Rightarrow> int option \<Rightarrow> current_inputs \<Rightarrow> gate_outcome" where
  "gate_dispatch cfg clock pr attempt cur = gate cfg At_Dispatch (validate_dispatch clock pr attempt cur) pr"

definition gate_execute_start ::
  "gate_config \<Rightarrow> time \<Rightarrow> presented \<Rightarrow> string option \<Rightarrow> current_inputs \<Rightarrow> gate_outcome" where
  "gate_execute_start cfg clock pr nonce cur =
     gate cfg At_Execute_Start (validate_execute_start clock pr nonce cur) pr"

definition gate_result ::
  "gate_config \<Rightarrow> time \<Rightarrow> presented \<Rightarrow> string option \<Rightarrow> string option \<Rightarrow> current_inputs \<Rightarrow> gate_outcome" where
  "gate_result cfg clock pr nonce presenter cur =
     gate cfg At_Result (validate_result clock pr nonce presenter cur) pr"

section \<open>The runtime state\<close>

definition gate_runtime_state ::
  "runtime_state \<Rightarrow> validation_point \<Rightarrow> bool \<Rightarrow> bool \<Rightarrow> runtime_verdict" where
  "gate_runtime_state st p claimed dispatched = runtime_state_verdict st p claimed dispatched"

section \<open>Requeue\<close>

definition requeue_call_sites :: "string list" where
  "requeue_call_sites =
     [''queue.requeue'', ''queue.requeue_dispatcher_claim'', ''queue.defer_push_delivery'',
      ''queue.defer_provider_capacity'', ''queue.defer_prep_retry'', ''queue.resume_codex_quota'',
      ''queue.reset_stale_to_pending'']"

record requeue_outcome =
  ro_path :: string
  ro_receipt_id :: string
  ro_outcome :: validation_outcome
  ro_code :: string
  ro_attempt :: "int option"
  ro_changed :: "string list"
  ro_proceed :: bool
  ro_enforced :: bool

text \<open>An attempt of zero counts as the first one (\<open>or 1\<close>); the receipt contract knows none below one.\<close>

definition counted :: "int \<Rightarrow> int" where
  "counted n = (if n = 0 then 1 else n)"

definition gate_requeue ::
  "gate_config \<Rightarrow> receipt option \<Rightarrow> string \<Rightarrow> current_inputs \<Rightarrow> requeue_outcome option" where
  "gate_requeue cfg receipt path cur =
     (if path \<notin> set requeue_call_sites then None
      else let enforce = enforcing_code cfg None;
               reply = (\<lambda>rid out code attempt changed.
                 Some \<lparr>ro_path = path, ro_receipt_id = rid, ro_outcome = out, ro_code = code,
                       ro_attempt = attempt, ro_changed = changed,
                       ro_proceed = out = Proceed \<or> \<not> enforce, ro_enforced = enforce\<rparr>)
           in case receipt of
             None \<Rightarrow> reply [] Blocked ''NO_RECEIPT'' None []
           | Some r \<Rightarrow>
               let rid = rc_receipt_id r in
               if rc_state r \<in> set terminal_states then reply rid Re_Admit ''RECEIPT_TERMINAL'' None []
               else case ci_binding cur of
                 None \<Rightarrow> reply rid Held_Back ''INPUTS_UNAVAILABLE'' None []
               | Some b \<Rightarrow>
                   if ci_unavailable cur \<noteq> [] then reply rid Held_Back ''INPUTS_UNAVAILABLE'' None []
                   else let changed = drifted_fields (rc_binding r) b in
                     if changed \<noteq> [] then reply rid Re_Admit ''BINDING_DRIFT'' None changed
                     else if counted (rc_max_attempts r) \<le> counted (rc_attempt r)
                     then reply rid Re_Admit ''ATTEMPTS_EXHAUSTED'' (Some (counted (rc_attempt r))) []
                     else reply rid Proceed ''RE-QUEUED'' (Some (counted (rc_attempt r) + 1)) [])"

text \<open>What the queue writes after a requeue that reuses the receipt: the attempt it was granted.\<close>

definition requeued :: "receipt \<Rightarrow> requeue_outcome \<Rightarrow> receipt" where
  "requeued r out = r\<lparr>rc_attempt := the (ro_attempt out)\<rparr>"

section \<open>Properties\<close>

text \<open>
  A gate lets work pass exactly when the validator says proceed or the verdict's code is not
  enforced: with the mode OFF nothing is ever stopped, with no allowlist every other verdict stops,
  and an allowlist stops exactly the codes it names, a BLOCK or HUMAN_GATE decision by the code the
  engine recorded on the receipt.
\<close>

theorem gate_stops_iff:
  "\<not> go_proceed (gate cfg p v (Typed r)) \<longleftrightarrow>
     gc_mode cfg \<noteq> OFF \<and> vr_outcome v \<noteq> Proceed
     \<and> (case gc_enforce_codes cfg of None \<Rightarrow> True
        | Some codes \<Rightarrow>
            (if vr_code v \<in> {''DECISION_BLOCK'', ''DECISION_HUMAN_GATE''} \<and> rc_reason_code r \<noteq> []
             then rc_reason_code r else vr_code v) \<in> set codes)"
  by (cases "gc_mode cfg"; cases "gc_enforce_codes cfg")
     (simp_all add: gate_def Let_def enforcing_code_def enforced_code_def)

lemma gate_requeue_cases:
  "path \<in> set requeue_call_sites \<Longrightarrow> \<exists>out. gate_requeue cfg (Some r) path cur = Some out
     \<and> ro_receipt_id out = rc_receipt_id r
     \<and> (ro_outcome out = Proceed \<longleftrightarrow>
          rc_state r \<notin> {CONSUMED, SUPERSEDED, REVOKED} \<and> ci_unavailable cur = []
          \<and> (\<exists>b. ci_binding cur = Some b \<and> drifted_fields (rc_binding r) b = [])
          \<and> counted (rc_attempt r) < counted (rc_max_attempts r))
     \<and> (ro_outcome out = Proceed \<longrightarrow> ro_attempt out = Some (counted (rc_attempt r) + 1))"
  by (auto simp: gate_requeue_def Let_def terminal_states_def not_le split: option.splits)

lemma gate_requeue_grants:
  "path \<in> set requeue_call_sites \<Longrightarrow> \<exists>out. gate_requeue cfg (Some r) path cur = Some out
     \<and> (ro_outcome out = Proceed \<longleftrightarrow>
          rc_state r \<notin> {CONSUMED, SUPERSEDED, REVOKED} \<and> ci_unavailable cur = []
          \<and> (\<exists>b. ci_binding cur = Some b \<and> drifted_fields (rc_binding r) b = [])
          \<and> counted (rc_attempt r) < counted (rc_max_attempts r))
     \<and> ((ro_attempt out = Some (counted (rc_attempt r) + 1)) = (ro_outcome out = Proceed))"
  by (auto simp: gate_requeue_def Let_def terminal_states_def not_le split: option.splits)

text \<open>
  A requeue reuses the receipt exactly when it is live, its inputs can be computed, nothing
  it is bound to changed and an attempt is left, and then grants exactly the next attempt; through a
  path that is not registered it raises.
\<close>

theorem requeue_reuses_iff:
  "(if path \<in> set requeue_call_sites
    then \<exists>out. gate_requeue cfg (Some r) path cur = Some out
     \<and> (ro_outcome out = Proceed \<longleftrightarrow>
          rc_state r \<notin> {CONSUMED, SUPERSEDED, REVOKED} \<and> ci_unavailable cur = []
          \<and> (\<exists>b. ci_binding cur = Some b \<and> drifted_fields (rc_binding r) b = [])
          \<and> counted (rc_attempt r) < counted (rc_max_attempts r))
     \<and> ((ro_attempt out = Some (counted (rc_attempt r) + 1)) = (ro_outcome out = Proceed))
    else gate_requeue cfg (Some r) path cur = None)"
  using gate_requeue_grants [of path cfg r cur] by (auto simp: gate_requeue_def)

text \<open>A run of requeues that each reuse the receipt, one answer of the providers per requeue.\<close>

fun requeue_run :: "gate_config \<Rightarrow> string \<Rightarrow> receipt \<Rightarrow> current_inputs list \<Rightarrow> receipt option" where
  "requeue_run cfg path r [] = Some r"
| "requeue_run cfg path r (cur # curs) =
     (case gate_requeue cfg (Some r) path cur of None \<Rightarrow> None
      | Some out \<Rightarrow> if ro_outcome out = Proceed then requeue_run cfg path (requeued r out) curs else None)"

lemma requeue_run_attempts:
  "path \<in> set requeue_call_sites \<Longrightarrow> requeue_run cfg path r curs = Some q \<Longrightarrow>
     rc_attempt r + int (length curs) \<le> rc_attempt q \<and> (1 \<le> rc_attempt r \<longrightarrow> rc_attempt q = rc_attempt r + int (length curs))
     \<and> rc_max_attempts q = rc_max_attempts r \<and> (curs \<noteq> [] \<longrightarrow> rc_attempt q \<le> rc_max_attempts r)"
proof (induction curs arbitrary: r)
  case Nil
  then show ?case by simp
next
  case (Cons cur curs)
  obtain out where out: "gate_requeue cfg (Some r) path cur = Some out"
    and go: "ro_outcome out = Proceed \<longrightarrow>
      counted (rc_attempt r) < counted (rc_max_attempts r) \<and> ro_attempt out = Some (counted (rc_attempt r) + 1)"
    using gate_requeue_cases [OF Cons.prems(1), of cfg r cur] by blast
  with Cons.prems(2) have ok: "ro_outcome out = Proceed" and run: "requeue_run cfg path (requeued r out) curs = Some q"
    by (auto split: if_splits)
  from go ok have "rc_attempt r + 1 \<le> rc_attempt (requeued r out)" "1 \<le> rc_attempt r \<longrightarrow> rc_attempt (requeued r out) = rc_attempt r + 1"
    "rc_attempt (requeued r out) \<le> rc_max_attempts r" "rc_max_attempts (requeued r out) = rc_max_attempts r"
    by (auto simp: requeued_def counted_def split: if_splits)
  with run Cons.IH [OF Cons.prems(1) run] show ?case by (cases curs) auto
qed

text \<open>
  Claim C18: requeues end: a receipt is reused by at most \<open>max_attempts - attempt\<close> requeues, whatever
  the inputs say in between, and each reuse costs an attempt, exactly one where attempts are counted from one, as
  the receipt contract has them.
\<close>

theorem requeues_are_bounded:
  assumes "path \<in> set requeue_call_sites" and "requeue_run cfg path r curs = Some q"
    and "rc_attempt r \<le> rc_max_attempts r"
  shows "int (length curs) \<le> rc_max_attempts r - rc_attempt r
    \<and> rc_attempt r + int (length curs) \<le> rc_attempt q
    \<and> (1 \<le> rc_attempt r \<longrightarrow> rc_attempt q = rc_attempt r + int (length curs))"
  using requeue_run_attempts [OF assms(1,2)] assms(3) by (cases curs) auto

theorem requeues_are_bounded_witness:
  "rc_attempt (sample_receipt CLAIMED REVIEW) + 1 = 2 \<and>
   requeue_run \<lparr>gc_mode = ENFORCE, gc_enforce_codes = None\<rparr> ''queue.requeue'' (sample_receipt CLAIMED REVIEW)
     [sample_inputs, sample_inputs] = None"
proof
  let ?cfg = "\<lparr>gc_mode = ENFORCE, gc_enforce_codes = None\<rparr>" let ?r = "sample_receipt CLAIMED REVIEW"
  have path: "''queue.requeue'' \<in> set requeue_call_sites" by (simp add: requeue_call_sites_def)
  have le: "rc_attempt ?r \<le> rc_max_attempts ?r" "rc_max_attempts ?r - rc_attempt ?r = 1"
    by (simp_all add: sample_receipt_def)
  show "rc_attempt ?r + 1 = 2" by (simp add: sample_receipt_def)
  show "requeue_run ?cfg ''queue.requeue'' ?r [sample_inputs, sample_inputs] = None"
  proof (rule ccontr)
    assume "requeue_run ?cfg ''queue.requeue'' ?r [sample_inputs, sample_inputs] \<noteq> None"
    then obtain q where "requeue_run ?cfg ''queue.requeue'' ?r [sample_inputs, sample_inputs] = Some q"
      by (cases "requeue_run ?cfg ''queue.requeue'' ?r [sample_inputs, sample_inputs]") auto
    from requeues_are_bounded [OF path this le(1)] le(2) show False by simp
  qed
qed

section \<open>What the engine admits, the enqueue gate accepts\<close>

lemma decide_admits:
  assumes "fst (decide i ip b un reuse reviewer True) = d" and "d \<in> {ALLOW, REVIEW}"
  shows "un = [] \<and> ip_gate ip \<notin> {DENIED, PENDING} \<and> b_runtime_state b = ACTIVE
    \<and> b_budget_class b \<noteq> EXHAUSTED \<and> (d = REVIEW \<longrightarrow> truthy reviewer)
    \<and> (d = ALLOW \<longrightarrow> \<not> engine_identity_dependent (id_work_class (in_identity i)) reviewer (ip_gate ip) reuse)"
  using assms unfolding decide_def Let_def by (auto split: if_splits)

lemma admission_receipt_fields:
  "rc_binding (admission_receipt e now fresh i c ih) = engine_binding e (read_inputs e i (executor_binding e i))"
  "rc_issued_at (admission_receipt e now fresh i c ih) = rfc3339 now"
  "rc_human_gate (admission_receipt e now fresh i c ih) = ip_gate (read_inputs e i (executor_binding e i))"
  "rc_executor_binding (admission_receipt e now fresh i c ih) = executor_binding e i"
  "rc_task_id (admission_receipt e now fresh i c ih) = in_task_id i"
  "rc_parent_receipt_id (admission_receipt e now fresh i c ih) = in_parent_receipt_id i"
  "\<exists>un. rc_provenance (admission_receipt e now fresh i c ih) =
      Some (provenance_of i (Some (ip_snapshot (read_inputs e i (executor_binding e i)))) un)"
  "rc_downgrade_reason (admission_receipt e now fresh i c ih) = Some (downgrade_reason e)"
  "rc_reuse (admission_receipt e now fresh i c ih) = j5_reuse e now i
      (ip_registry (read_inputs e i (executor_binding e i))) (ip_snapshot (read_inputs e i (executor_binding e i)))"
  by (simp_all add: admission_receipt_def Let_def build_receipt_def case_prod_beta resign_def
      engine_binding_def) (rule exI, rule refl)

lemma admission_receipt_decision:
  "rc_decision (admission_receipt e now fresh i c ih) =
     (let ip = read_inputs e i (executor_binding e i); snap = ip_snapshot ip in
      fst (decide i ip (engine_binding e ip)
        (unavailable_inputs snap (ip_registry ip) (ip_runtime ip) @ ip_raised ip)
        (j5_reuse e now i (ip_registry ip) snap) (fst (j7_contract e i snap (executor_binding e i))) True))"
  "rc_required_reviewer (admission_receipt e now fresh i c ih) =
     fst (j7_contract e i (ip_snapshot (read_inputs e i (executor_binding e i))) (executor_binding e i))"
  by (simp_all add: admission_receipt_def Let_def build_receipt_decision)

lemma admission_receipt_signed:
  assumes "\<forall>k b. en_mac e k b \<noteq> []"
  shows "sg_status (rc_signature (admission_receipt e now fresh i c ih)) = VERIFIED
     \<longrightarrow> verify_receipt e (admission_receipt e now fresh i c ih)"
proof -
  have "sg_status (rc_signature (resign e r)) = VERIFIED \<longrightarrow> verify_receipt e (resign e r)" for r
    using assms by (cases "en_key e") (auto simp: verify_receipt_def truthy_def, auto simp: resign_def unsigned_def)
  then show ?thesis by (simp add: admission_receipt_def Let_def build_receipt_def case_prod_beta)
qed

text \<open>The intent as it reads back from the receipt: without its description and idempotency key.\<close>

definition read_back :: "intent \<Rightarrow> intent" where
  "read_back i = i\<lparr>in_description := [], in_idempotency_key := None\<rparr>"

lemma admission_receipt_intent:
  "intent_from_receipt (admission_receipt e now fresh i c ih) = Some (read_back i)"
proof -
  obtain un where "rc_provenance (admission_receipt e now fresh i c ih) =
      Some (provenance_of i (Some (ip_snapshot (read_inputs e i (executor_binding e i)))) un)"
    using admission_receipt_fields(7) by blast
  then show ?thesis
    by (cases i) (simp add: intent_from_receipt_def admission_receipt_fields provenance_of_def read_back_def)
qed

lemma admission_current_binding:
  assumes stable: "\<forall>ex. read_inputs e (read_back i) ex = read_inputs e i ex"
    and here: "unavailable_inputs (ip_snapshot ip) (ip_registry ip) (ip_runtime ip) @ ip_raised ip = []"
    and ip: "ip = read_inputs e i (executor_binding e i)"
  shows "current_binding e (admission_receipt e now fresh i c ih) = (Some (engine_binding e ip), [])"
proof -
  have "executor_binding e (read_back i) = executor_binding e i"
    by (simp add: executor_binding_def read_back_def)
  with stable here ip show ?thesis
    by (simp add: current_binding_def admission_receipt_intent admission_receipt_fields Let_def)
qed

lemma unattested_identity_dependent:
  "identity_dependent (admission_receipt e now fresh i c ih) \<longleftrightarrow>
     truthy (rc_required_tester (admission_receipt e now fresh i c ih))
     \<or> engine_identity_dependent (id_work_class (in_identity i))
         (rc_required_reviewer (admission_receipt e now fresh i c ih))
         (rc_human_gate (admission_receipt e now fresh i c ih))
         (rc_reuse (admission_receipt e now fresh i c ih))"
proof -
  obtain un where "rc_provenance (admission_receipt e now fresh i c ih) =
      Some (provenance_of i (Some (ip_snapshot (read_inputs e i (executor_binding e i)))) un)"
    using admission_receipt_fields(7) by blast
  then show ?thesis
    by (auto simp: identity_dependent_def engine_identity_dependent_def provenance_of_def
        unverified_reuse_def split: option.splits)
qed

text \<open>
  Claim C19: engine and validator agree end to end: whatever the engine admits, with REVIEW or with an
  ALLOW that requires no tester, the enqueue check lets proceed within the receipt's maximal age, as long
  as the providers answer for the intent read back from the receipt what they answered at admission.
\<close>

theorem admitted_work_enqueues:
  assumes call: "call_ok e now fresh s i c" and ih: "is_sha256 ih"
    and inputs: "inputs_ok (read_inputs e i (executor_binding e i))"
    and project: "id_project (in_identity i) \<noteq> []"
    and mac: "\<forall>k b. en_mac e k b \<noteq> []"
    and admitted: "rc_decision (admission_receipt e now fresh i c ih) = REVIEW
      \<or> rc_decision (admission_receipt e now fresh i c ih) = ALLOW
        \<and> \<not> truthy (rc_required_tester (admission_receipt e now fresh i c ih))"
    and stable: "\<forall>ex. read_inputs e (read_back i) ex = read_inputs e i ex"
    and age: "later - real (nat \<lfloor>now\<rfloor>) \<le> o18_max_receipt_age"
  shows "vr_outcome (validate_enqueue later (Typed (admission_receipt e now fresh i c ih)) (in_task_id i)
      (engine_current_inputs e (admission_receipt e now fresh i c ih) (default_inputs\<lparr>ci_now := Some later\<rparr>)))
    = Proceed"
proof -
  define ip where "ip = read_inputs e i (executor_binding e i)"
  let ?r = "admission_receipt e now fresh i c ih" let ?b = "engine_binding e ip"
  let ?cur = "engine_current_inputs e ?r (default_inputs\<lparr>ci_now := Some later\<rparr>)"
  let ?reviewer = "fst (j7_contract e i (ip_snapshot ip) (executor_binding e i))"
  let ?un = "unavailable_inputs (ip_snapshot ip) (ip_registry ip) (ip_runtime ip) @ ip_raised ip"
  have d: "rc_decision ?r = fst (decide i ip ?b ?un (j5_reuse e now i (ip_registry ip) (ip_snapshot ip)) ?reviewer True)"
    by (simp add: admission_receipt_decision Let_def ip_def)
  have "rc_decision ?r \<in> {ALLOW, REVIEW}" using admitted by auto
  note adm = decide_admits [OF d [symmetric] this]
  have cur: "ci_binding ?cur = Some ?b" "ci_unavailable ?cur = []"
    "ci_signature_verification ?cur = Some (verify_receipt e ?r)" "ci_now ?cur = Some later"
    "ci_snapshot_available ?cur" "\<not> ci_epoch_passed_non_active ?cur" "ci_presenter ?cur = None"
    "ci_max_receipt_age ?cur = o18_max_receipt_age" "\<not> ci_already_claimed ?cur" "\<not> ci_already_dispatched ?cur"
    using admission_current_binding [OF stable _ ip_def, of now fresh c ih] adm
    by (simp_all add: engine_current_inputs_def default_inputs_def)
  have conf: "validate_receipt ?r = []"
    unfolding admission_receipt_def Let_def by (rule build_conforms [OF call ih inputs project])
  have sig: "sg_status (rc_signature ?r) = VERIFIED \<longrightarrow> verify_receipt e ?r"
    by (rule admission_receipt_signed [OF mac])
  have "\<not> (rc_decision ?r = ALLOW \<and> identity_dependent ?r)"
    using admitted adm
    by (auto simp: unattested_identity_dependent admission_receipt_fields admission_receipt_decision ip_def)
  moreover have "truthy (rc_downgrade_reason ?r)"
    by (simp only: admission_receipt_fields downgrade_reason_truthy)
  ultimately have integrity: "integrity_ok ?r ?cur"
    using sig by (auto simp: integrity_ok_def cur)
  have decision: "decision_ok ?r At_Enqueue"
    using admitted adm by (auto simp: decision_ok_def admission_receipt_decision ip_def)
  have clock: "parse_rfc3339 (rfc3339 now) = Some (real (nat \<lfloor>now\<rfloor>))"
    unfolding rfc3339_def by (rule rfc3339_reads_back) (use call in \<open>simp add: call_ok_def clock_ok_def\<close>)
  have "b_human_gate ?b = ip_gate ip" by (simp add: engine_binding_def Let_def)
  then have good: "binding_still_good later ?r ?cur ?b"
    using adm age clock
    by (cases "ip_gate ip")
       (simp_all add: binding_still_good_def cur admission_receipt_fields ip_def [symmetric])
  have "permits (runtime_state_verdict (b_runtime_state ?b) At_Enqueue False False)"
    using adm by simp
  then have "vr_outcome (validate later (Typed ?r) At_Enqueue ?cur) = Proceed"
    using conf integrity decision cur good
    by (subst validate_proceeds) (simp_all add: executor_ok_def inputs_fresh_def)
  then show ?thesis by (simp add: validate_enqueue_def admission_receipt_fields)
qed

theorem admitted_work_enqueues_witness:
  "vr_outcome (validate_enqueue 60
      (Typed (admission_receipt (sample_engine TEST [] []) 0 sample_id (sample_intent FIX) sample_caller (sample_hash FIX)))
      ''t1''
      (engine_current_inputs (sample_engine TEST [] [])
         (admission_receipt (sample_engine TEST [] []) 0 sample_id (sample_intent FIX) sample_caller (sample_hash FIX))
         (default_inputs\<lparr>ci_now := Some 60\<rparr>)))
    = Proceed"
proof -
  let ?e = "sample_engine TEST [] []" let ?i = "sample_intent FIX"
  have call: "call_ok ?e 0 sample_id empty_store ?i sample_caller" by (rule sample_call) simp
  have ih: "is_sha256 (sample_hash FIX)" by (rule prepares_call(2) [OF call sample_prepares])
  have project: "id_project (in_identity ?i) \<noteq> []" by (simp add: sample_intent_def sample_identity_def)
  have mac: "\<forall>k b. en_mac ?e k b \<noteq> []" by (simp add: sample_engine_def)
  have review: "rc_decision (admission_receipt ?e 0 sample_id ?i sample_caller (sample_hash FIX)) = REVIEW"
    by (simp add: admission_receipt_def Let_def build_receipt_decision j7_contract_def sample_intent_def
      sample_identity_def read_inputs_def sample_engine_def sample_snapshot_def sample_registry_def
      unavailable_inputs_def decide_def engine_binding_def bound_budget_def authority_revs_def
      sample_rev_def snapshot_human_gate_def j5_reuse_def first_match_def owner_conflict_def
      engine_identity_dependent_def identity_dependent_work_classes_def truthy_def role_agents_def
      default_role_agents_def executor_binding_def)
  have stable: "\<forall>ex. read_inputs ?e (read_back ?i) ex = read_inputs ?e ?i ex"
    by (simp add: read_inputs_def sample_engine_def Let_def snapshot_human_gate_def sample_snapshot_def)
  have age: "60 - real (nat \<lfloor>0::real\<rfloor>) \<le> o18_max_receipt_age" by (simp add: o18_max_receipt_age_def)
  have "in_task_id ?i = ''t1''" by (simp add: sample_intent_def)
  then show ?thesis
    using admitted_work_enqueues [OF call ih sample_inputs_ok project mac disjI1 [OF review] stable age] by simp
qed

end
