(* ===== verification/Pause.thy ===== *)
theory Pause
  imports Prelude Json
begin

text \<open>
  The pause switch of \<open>pause.py\<close>: a global and a project file, each absent, damaged or a record, and
  the ledger of results suppressed while a pause held. Damage counts as paused.
  Time stamps and free-text reasons of a record are not modelled. A line of the ledger that is not
  JSON is \<open>None\<close>; every other line holds an object.
\<close>

section \<open>Pause files (\<open>pause.py\<close>)\<close>

record pause_record =
  pr_paused :: bool
  pr_generation :: int
  pr_incident :: "string option"

datatype pause_file = No_File | Damaged | Paused_Record pause_record

type_synonym pauses = "(pause_file \<times> pause_file) option"

fun pause_active :: "pause_file \<Rightarrow> bool" where
  "pause_active No_File = False"
| "pause_active Damaged = True"
| "pause_active (Paused_Record r) = pr_paused r"

definition is_paused :: "pause_file \<times> pause_file \<Rightarrow> bool" where
  "is_paused p = (pause_active (fst p) \<or> pause_active (snd p))"

fun file_generation :: "pause_file \<Rightarrow> int" where
  "file_generation (Paused_Record r) = pr_generation r"
| "file_generation _ = 0"

fun file_incident :: "pause_file \<Rightarrow> string option" where
  "file_incident (Paused_Record r) = pr_incident r"
| "file_incident _ = None"

text \<open>\<open>set_pause\<close> on one file; the generation is given or the next one.\<close>

definition set_pause :: "pause_file \<Rightarrow> bool \<Rightarrow> string option \<Rightarrow> int option \<Rightarrow> pause_file" where
  "set_pause cur paused incident generation =
     Paused_Record \<lparr>pr_paused = paused,
       pr_generation = (case generation of None \<Rightarrow> file_generation cur + 1 | Some g \<Rightarrow> g),
       pr_incident = incident\<rparr>"

text \<open>\<open>resume\<close>: (resumed, the file afterwards). A damaged file and a stale generation stay as they are.\<close>

definition resume_pause :: "pause_file \<Rightarrow> int \<Rightarrow> bool \<times> pause_file" where
  "resume_pause cur generation =
     (case cur of
        Damaged \<Rightarrow> (False, cur)
      | No_File \<Rightarrow> (True, cur)
      | Paused_Record r \<Rightarrow>
          if \<not> pr_paused r then (True, cur)
          else if generation \<le> pr_generation r then (False, cur)
          else (True, Paused_Record \<lparr>pr_paused = False, pr_generation = generation,
                                     pr_incident = pr_incident r\<rparr>))"

section \<open>Suppressed results\<close>

record suppressed =
  sp_task_id :: string
  sp_task_type :: string
  sp_status :: "string option"
  sp_pr_number :: "int option"
  sp_generation :: "int option"
  sp_result :: "json option"
  sp_replayed :: bool

type_synonym ledger_file = "suppressed option list"

fun dedup :: "string list \<Rightarrow> suppressed list \<Rightarrow> suppressed list" where
  "dedup seen [] = []"
| "dedup seen (r # rs) =
     (if sp_task_id r \<in> set seen then dedup seen rs else r # dedup (sp_task_id r # seen) rs)"

definition list_suppressed :: "ledger_file \<Rightarrow> bool \<Rightarrow> suppressed list" where
  "list_suppressed f only_pending =
     rev (dedup [] (rev (filter (\<lambda>r. \<not> (only_pending \<and> sp_replayed r)) (List.map_filter id f))))"

definition record_suppressed ::
  "ledger_file \<Rightarrow> string \<Rightarrow> string \<Rightarrow> string option \<Rightarrow> int option \<Rightarrow> int option \<Rightarrow> json option \<Rightarrow> ledger_file" where
  "record_suppressed f tid kind status pr generation result =
     (if list_ex (\<lambda>r. sp_task_id r = tid) (list_suppressed f True) then f
      else f @ [Some \<lparr>sp_task_id = tid, sp_task_type = kind, sp_status = status, sp_pr_number = pr,
                      sp_generation = generation, sp_result = result, sp_replayed = False\<rparr>])"

definition mark_replayed :: "ledger_file \<Rightarrow> string list \<Rightarrow> ledger_file" where
  "mark_replayed f ids =
     map (\<lambda>r. Some (if sp_task_id r \<in> set ids then r\<lparr>sp_replayed := True\<rparr> else r))
       (List.map_filter id f)"

section \<open>Resuming\<close>

text \<open>
  A paused scope is unpaused by a resume exactly when its file is readable and the resume
  carries a newer generation than the pause; the answer tells whether the scope is paused afterwards, and no resume
  lowers the generation.
\<close>

theorem resume_needs_newer_generation:
  "pause_active (snd (resume_pause cur g))
     = (pause_active cur \<and> \<not> (\<exists>r. cur = Paused_Record r \<and> pr_generation r < g))
   \<and> fst (resume_pause cur g) = (\<not> pause_active (snd (resume_pause cur g)))
   \<and> file_generation cur \<le> file_generation (snd (resume_pause cur g))"
  by (cases cur) (auto simp: resume_pause_def)

section \<open>The ledger\<close>

lemma set_dedup: "sp_task_id ` set (dedup seen rs) = sp_task_id ` set rs - set seen"
  by (induction rs arbitrary: seen) auto

lemma distinct_dedup: "distinct (map sp_task_id (dedup seen rs))"
  using set_dedup by (induction rs arbitrary: seen) fastforce+

lemma dedup_subset: "set (dedup seen rs) \<subseteq> set rs"
  by (induction rs arbitrary: seen) auto

lemma dedup_cong: "set seen = set seen' \<Longrightarrow> dedup seen rs = dedup seen' rs"
proof (induction rs arbitrary: seen seen')
  case (Cons r rs)
  from Cons.IH [of "sp_task_id r # seen" "sp_task_id r # seen'"] Cons.IH [of seen seen'] Cons.prems
  show ?case by simp
qed simp

lemma dedup_skips:
  "t \<in> ids \<Longrightarrow> dedup (t # seen) (filter (\<lambda>r. sp_task_id r \<notin> ids) rs)
     = dedup seen (filter (\<lambda>r. sp_task_id r \<notin> ids) rs)"
proof (induction rs arbitrary: seen)
  case (Cons q rs)
  have "dedup (sp_task_id q # t # seen) xs = dedup (t # sp_task_id q # seen) xs" for xs
    by (rule dedup_cong) auto
  with Cons show ?case by auto
qed simp

lemma dedup_filter:
  "dedup seen (filter (\<lambda>r. sp_task_id r \<notin> ids) rs) = filter (\<lambda>r. sp_task_id r \<notin> ids) (dedup seen rs)"
proof (induction rs arbitrary: seen)
  case Nil
  then show ?case by simp
next
  case (Cons r rs)
  show ?case
  proof (cases "sp_task_id r \<in> ids")
    case True
    then have "dedup (sp_task_id r # seen) (filter (\<lambda>r. sp_task_id r \<notin> ids) rs)
        = dedup seen (filter (\<lambda>r. sp_task_id r \<notin> ids) rs)"
      by (rule dedup_skips)
    with True Cons.IH [of seen] Cons.IH [of "sp_task_id r # seen"] show ?thesis by auto
  next
    case False
    with Cons.IH show ?thesis by auto
  qed
qed

lemma readable_mark_replayed:
  "List.map_filter id (mark_replayed f ids)
     = map (\<lambda>r. if sp_task_id r \<in> set ids then r\<lparr>sp_replayed := True\<rparr> else r) (List.map_filter id f)"
  by (simp add: mark_replayed_def map_filter_def comp_def filter_True)

lemma pending_marked:
  "filter (\<lambda>r. \<not> sp_replayed r) (map (\<lambda>r. if sp_task_id r \<in> ids then r\<lparr>sp_replayed := True\<rparr> else r) rs)
     = filter (\<lambda>r. sp_task_id r \<notin> ids) (filter (\<lambda>r. \<not> sp_replayed r) rs)"
  by (induction rs) auto

lemma readable_lines: "r \<in> set (List.map_filter id f) \<longleftrightarrow> Some r \<in> set f"
proof (induction f)
  case (Cons a f)
  then show ?case by (cases a) auto
qed simp

lemma pending_tasks:
  "sp_task_id ` set (list_suppressed f True) = sp_task_id ` {r. Some r \<in> set f \<and> \<not> sp_replayed r}"
  by (simp add: list_suppressed_def set_dedup readable_lines)

lemma record_suppressed_tasks:
  "sp_task_id ` set (list_suppressed (record_suppressed f t k st pr g res) True)
     = insert t (sp_task_id ` set (list_suppressed f True))"
proof (cases "list_ex (\<lambda>r. sp_task_id r = t) (list_suppressed f True)")
  case True
  then have "t \<in> sp_task_id ` set (list_suppressed f True)" by (auto simp: list_ex_iff)
  with True show ?thesis by (simp add: record_suppressed_def insert_absorb)
next
  case False
  then show ?thesis by (simp add: record_suppressed_def pending_tasks) force
qed

text \<open>
  Each task has at most one pending suppressed result; recording one makes its task
  pending and no other, and recording it again leaves the ledger as it is; marking tasks replayed
  takes exactly those out of the pending list, in place.
\<close>

theorem suppressed_once:
  "distinct (map sp_task_id (list_suppressed f True))
   \<and> (let f' = record_suppressed f t k st pr g res
      in sp_task_id ` set (list_suppressed f' True) = insert t (sp_task_id ` set (list_suppressed f True))
         \<and> record_suppressed f' t k2 st2 pr2 g2 res2 = f')
   \<and> list_suppressed (mark_replayed f ids) True
       = filter (\<lambda>r. sp_task_id r \<notin> set ids) (list_suppressed f True)"
proof -
  let ?f = "record_suppressed f t k st pr g res"
  have once: "distinct (map sp_task_id (list_suppressed f True))"
    by (simp add: list_suppressed_def rev_map [symmetric] distinct_dedup)
  have "t \<in> sp_task_id ` set (list_suppressed ?f True)" by (simp add: record_suppressed_tasks)
  then have "list_ex (\<lambda>r. sp_task_id r = t) (list_suppressed ?f True)"
    by (force simp: list_ex_iff)
  then have again: "record_suppressed ?f t k2 st2 pr2 g2 res2 = ?f"
    by (simp only: record_suppressed_def [of ?f] if_True)
  have marked: "list_suppressed (mark_replayed f ids) True
      = filter (\<lambda>r. sp_task_id r \<notin> set ids) (list_suppressed f True)"
    by (simp only: list_suppressed_def readable_mark_replayed simp_thms pending_marked dedup_filter
      rev_filter)
  from once again marked show ?thesis by (simp add: Let_def record_suppressed_tasks)
qed

end
