(* ===== verification/Runtime_Switch.thy ===== *)
theory Runtime_Switch
  imports Callsites Pause
begin

text \<open>
  The runtime switch (P6): the single row \<open>runtime_stop\<close> and the append-only
  \<open>runtime_state_events\<close> of \<open>queue.py\<close>, the authority that may loosen it, and the reconciliation
  with the pause files, which may only tighten it. The pair of pause files (global, project) is an
  argument; \<open>None\<close> stands for a pause module that raised. The writes of events succeed.
\<close>

section \<open>The pause files as a signal\<close>

text \<open>\<open>_pausejson_signal\<close>: (armed, readable).\<close>

definition pausejson_signal :: "pauses \<Rightarrow> bool \<times> bool" where
  "pausejson_signal ps = (case ps of None \<Rightarrow> (True, False) | Some p \<Rightarrow> (is_paused p, True))"

section \<open>The authority to loosen\<close>

text \<open>An authority answers whether it grants; \<open>None\<close> is a verifier that failed.\<close>

type_synonym authority = "runtime_state \<Rightarrow> runtime_state \<Rightarrow> string \<Rightarrow> string option \<Rightarrow> bool option"

definition refuse_all_loosening :: authority where
  "refuse_all_loosening frm dest who decision = Some False"

text \<open>
  \<open>SnapshotLooseningAuthority.verify\<close>: \<open>snap\<close> is \<open>None\<close> when the provider raised or had nothing,
  \<open>build\<close> when the running commit is unknown.
\<close>

definition record_authority ::
  "decision_rev \<Rightarrow> string option \<times> string \<times> string list \<times> string list \<times> string list \<times> string list \<times> time option" where
  "record_authority r =
     (dr_project r, dr_body_hash r, dr_principals r, dr_build_commits r, dr_runtimes r, dr_supersedes r,
      dr_expires_at r)"

definition matching_records :: "policy_snapshot \<Rightarrow> string \<Rightarrow> string option \<Rightarrow> decision_rev list" where
  "matching_records snap did project =
     filter (\<lambda>r. dr_decision_id r = did
        \<and> (\<not> truthy project \<or> dr_project r = None \<or> dr_project r = project)) (authority_revs snap)"

definition snapshot_authority ::
  "policy_snapshot option \<Rightarrow> string option \<Rightarrow> string \<Rightarrow> string option \<Rightarrow> authority" where
  "snapshot_authority snapshot build runtime project frm dest who decision =
     (let did = py_strip (case decision of None \<Rightarrow> [] | Some d \<Rightarrow> d)
      in if did = [] then Some False
         else case snapshot of None \<Rightarrow> Some False
         | Some snap \<Rightarrow>
             if \<not> ps_available snap \<or> ps_signature snap \<noteq> VALID then Some False
             else case matching_records snap did project of
               [] \<Rightarrow> Some False
             | r # rs \<Rightarrow>
                 if list_ex (\<lambda>q. record_authority q \<noteq> record_authority r) rs then Some False
                 else if who \<notin> set (dr_principals r) then Some False
                 else if runtime \<noteq> [] \<and> runtime \<notin> set (dr_runtimes r) then Some False
                 else case build of None \<Rightarrow> Some False
                 | Some b \<Rightarrow> Some (b \<in> set (dr_build_commits r)))"

section \<open>The row and the events\<close>

record stop_row =
  sr_epoch :: int
  sr_paused :: bool
  sr_incident :: "string option"
  sr_note :: "string option"
  sr_updated_at :: time
  sr_state :: runtime_state
  sr_reason :: "string option"
  sr_decision :: "string option"

datatype direction = Same | Tighten | Loosen

record runtime_event =
  ev_epoch :: int
  ev_from :: runtime_state
  ev_to :: runtime_state
  ev_direction :: direction
  ev_who :: string
  ev_reason :: "string option"
  ev_trigger :: "string option"
  ev_decision :: "string option"
  ev_incident :: "string option"
  ev_note :: "string option"
  ev_evidence :: "string option"
  ev_created_at :: time

record switch =
  sw_row :: "stop_row option"
  sw_events :: "runtime_event list"

definition initial_row :: stop_row where
  "initial_row = \<lparr>sr_epoch = 0, sr_paused = False, sr_incident = None, sr_note = None, sr_updated_at = 0,
     sr_state = ACTIVE, sr_reason = None, sr_decision = None\<rparr>"

definition empty_switch :: switch where
  "empty_switch = \<lparr>sw_row = None, sw_events = []\<rparr>"

definition read_stop_row :: "switch \<Rightarrow> stop_row" where
  "read_stop_row s = (case sw_row s of None \<Rightarrow> initial_row | Some r \<Rightarrow> r)"

definition direction_of :: "runtime_state \<Rightarrow> runtime_state \<Rightarrow> direction" where
  "direction_of frm dest =
     (if frm = dest then Same else if tightness frm < tightness dest then Tighten else Loosen)"

definition tighten :: "runtime_state \<Rightarrow> runtime_state \<Rightarrow> runtime_state" where
  "tighten a b = (if tightness b \<le> tightness a then a else b)"

definition looks_like_owner :: "string \<Rightarrow> bool" where
  "looks_like_owner who =
     (let w = py_lower (py_strip who) in w = ''owner'' \<or> startswith w ''owner:'')"

text \<open>The last event into DRAINING: who made it, and whether a quarantine trigger did.\<close>

definition last_draining_entry :: "switch \<Rightarrow> string option \<times> bool" where
  "last_draining_entry s =
     (case find (\<lambda>ev. ev_to ev = DRAINING) (rev (sw_events s)) of
        None \<Rightarrow> (None, False)
      | Some ev \<Rightarrow> (Some (ev_who ev), ev_trigger ev \<noteq> Some ''manual''))"

text \<open>\<open>_transition_refusal\<close> as a predicate: may \<open>who\<close> make this transition?\<close>

definition transition_permitted ::
  "authority \<Rightarrow> runtime_state \<Rightarrow> runtime_state \<Rightarrow> string \<Rightarrow> string option \<Rightarrow> string option \<times> bool \<Rightarrow> bool" where
  "transition_permitted auth frm dest who decision entry =
     (if tightness frm \<le> tightness dest then True
      else if frm = QUARANTINED \<or> frm = STOPPED
      then looks_like_owner who \<and> auth frm dest who decision = Some True
      else if frm = DRAINING
      then (if snd entry then False
            else if truthy (fst entry) \<and> Some who = fst entry then True
            else looks_like_owner who \<and> auth frm dest who decision = Some True)
      else True)"

section \<open>Transitions\<close>

datatype switch_error = Unknown_Runtime_State | Bad_Trigger | Transition_Refused

definition runtime_states :: "(string \<times> runtime_state) list" where
  "runtime_states =
     [(''ACTIVE'', ACTIVE), (''DRAINING'', DRAINING), (''QUARANTINED'', QUARANTINED), (''STOPPED'', STOPPED)]"

definition move_to ::
  "time \<Rightarrow> switch \<Rightarrow> runtime_state \<Rightarrow> string \<Rightarrow> string option \<Rightarrow> string option \<Rightarrow> string option \<Rightarrow>
     string option \<Rightarrow> string option \<Rightarrow> string option \<Rightarrow> runtime_event \<times> switch" where
  "move_to clock s dest who reason decision incident memo evidence trigger =
     (let cur = read_stop_row s; frm = sr_state cur;
          epoch = (if frm = dest then sr_epoch cur else sr_epoch cur + 1);
          kept = (case incident of None \<Rightarrow> sr_incident cur | Some i \<Rightarrow> Some i);
          ev = \<lparr>ev_epoch = epoch, ev_from = frm, ev_to = dest, ev_direction = direction_of frm dest,
                ev_who = who, ev_reason = reason, ev_trigger = trigger, ev_decision = decision,
                ev_incident = kept, ev_note = memo, ev_evidence = evidence, ev_created_at = clock\<rparr>
      in (ev, \<lparr>sw_row = Some \<lparr>sr_epoch = epoch, sr_paused = dest = STOPPED, sr_incident = kept, sr_note = memo,
                 sr_updated_at = clock, sr_state = dest, sr_reason = reason, sr_decision = decision\<rparr>,
               sw_events = sw_events s @ [ev]\<rparr>))"

definition transition_runtime_state ::
  "authority \<Rightarrow> time \<Rightarrow> switch \<Rightarrow> string \<Rightarrow> string \<Rightarrow> string option \<Rightarrow> string option \<Rightarrow> string option \<Rightarrow>
     string option \<Rightarrow> string option \<Rightarrow> string option \<Rightarrow> switch_error + runtime_event \<times> switch" where
  "transition_runtime_state auth clock s to_state who reason decision incident memo evidence trigger =
     (case map_of runtime_states (py_upper (py_strip to_state)) of
        None \<Rightarrow> Inl Unknown_Runtime_State
      | Some dest \<Rightarrow>
          if trigger \<notin> {None, Some ''manual'', Some ''quarantine''} \<or> trigger \<noteq> None \<and> dest \<noteq> DRAINING
          then Inl Bad_Trigger
          else let kind = (if dest = DRAINING \<and> trigger = None
                           then Some (if who = ''runtime'' then ''quarantine'' else ''manual'') else trigger)
               in if \<not> transition_permitted auth (sr_state (read_stop_row s)) dest who decision
                        (last_draining_entry s)
                  then Inl Transition_Refused
                  else Inr (move_to clock s dest who reason decision incident memo evidence kind))"

text \<open>\<open>_record_runtime_event_on\<close>: no trigger, no evidence.\<close>

definition plain_event ::
  "time \<Rightarrow> runtime_state \<Rightarrow> runtime_state \<Rightarrow> int \<Rightarrow> string \<Rightarrow> string option \<Rightarrow> string option \<Rightarrow>
     string option \<Rightarrow> string option \<Rightarrow> runtime_event" where
  "plain_event clock frm dest epoch who reason decision incident memo =
     \<lparr>ev_epoch = epoch, ev_from = frm, ev_to = dest, ev_direction = direction_of frm dest, ev_who = who,
      ev_reason = reason, ev_trigger = None, ev_decision = decision, ev_incident = incident,
      ev_note = memo, ev_evidence = None, ev_created_at = clock\<rparr>"

definition runtime_state_events :: "switch \<Rightarrow> nat \<Rightarrow> runtime_event list" where
  "runtime_state_events s limit = take limit (rev (sw_events s))"

section \<open>The older interface\<close>

text \<open>\<open>set_stop_epoch\<close> and \<open>resume_stop\<close> leave the column \<open>reason\<close> of an existing row as it is.\<close>

definition write_stop ::
  "switch \<Rightarrow> int \<Rightarrow> bool \<Rightarrow> string option \<Rightarrow> string option \<Rightarrow> time \<Rightarrow> runtime_state \<Rightarrow> string option \<Rightarrow>
     string option \<Rightarrow> runtime_event list \<Rightarrow> switch" where
  "write_stop s epoch paused incident memo clock state reason decision evs =
     \<lparr>sw_row = Some \<lparr>sr_epoch = epoch, sr_paused = paused, sr_incident = incident, sr_note = memo,
        sr_updated_at = clock, sr_state = state, sr_reason = reason, sr_decision = decision\<rparr>,
      sw_events = sw_events s @ evs\<rparr>"

definition set_stop_epoch ::
  "authority \<Rightarrow> time \<Rightarrow> switch \<Rightarrow> bool \<Rightarrow> string option \<Rightarrow> string option \<Rightarrow> string \<Rightarrow> string option \<Rightarrow>
     switch_error + int \<times> switch" where
  "set_stop_epoch auth clock s paused incident memo who decision =
     (let cur = read_stop_row s; epoch = sr_epoch cur + 1; dest = (if paused then STOPPED else ACTIVE)
      in if \<not> transition_permitted auth (sr_state cur) dest who decision (last_draining_entry s)
         then Inl Transition_Refused
         else Inr (epoch, write_stop s epoch paused incident memo clock dest (sr_reason cur) decision
                [plain_event clock (sr_state cur) dest epoch who memo decision incident memo]))"

datatype resume_answer =
    Not_Paused int "string option"
  | Stale_Resume int "string option"
  | Resumed int "string option"

definition resume_stop ::
  "authority \<Rightarrow> time \<Rightarrow> switch \<Rightarrow> int \<Rightarrow> string option \<Rightarrow> string \<Rightarrow> string option \<Rightarrow>
     switch_error + resume_answer \<times> switch" where
  "resume_stop auth clock s generation incident who decision =
     (let cur = read_stop_row s; kept = (case incident of None \<Rightarrow> sr_incident cur | Some i \<Rightarrow> Some i)
      in if \<not> sr_paused cur then Inr (Not_Paused (sr_epoch cur) (sr_incident cur), s)
         else if generation \<le> sr_epoch cur then Inr (Stale_Resume (sr_epoch cur) (sr_incident cur), s)
         else if \<not> transition_permitted auth (sr_state cur) ACTIVE who decision (last_draining_entry s)
         then Inl Transition_Refused
         else Inr (Resumed generation kept,
                write_stop s generation False kept (Some ''resumed via cli'') clock ACTIVE (sr_reason cur) decision
                  [plain_event clock (sr_state cur) ACTIVE generation who (Some ''resumed via cli'') decision
                     kept None]))"

section \<open>Reading the switch with the pause files\<close>

text \<open>
  \<open>_reconcile_pause_signal_in_txn\<close>: an armed file stops the runtime and the row says so from then on;
  an unreadable one stops this reader only.
\<close>

definition reconcile_pause_signal :: "time \<Rightarrow> pauses \<Rightarrow> switch \<Rightarrow> runtime_state \<times> switch" where
  "reconcile_pause_signal clock ps s =
     (let cur = read_stop_row s; (armed, readable) = pausejson_signal ps
      in if \<not> armed then (sr_state cur, s)
         else if \<not> readable then (STOPPED, s)
         else if tightness STOPPED \<le> tightness (sr_state cur) then (sr_state cur, s)
         else (STOPPED,
               write_stop s (sr_epoch cur + 1) True (sr_incident cur) (sr_note cur) clock STOPPED
                 (Some ''pause.json armed externally'') None
                 [plain_event clock (sr_state cur) STOPPED (sr_epoch cur + 1) ''pause.json''
                    (Some ''pause.json armed externally'') None (sr_incident cur) (sr_note cur)]))"

definition stop_active :: "time \<Rightarrow> pauses \<Rightarrow> switch \<Rightarrow> validation_point \<Rightarrow> bool \<times> switch" where
  "stop_active clock ps s p =
     (let (st, t) = reconcile_pause_signal clock ps s
      in (rv_outcome (gate_runtime_state st p False False) \<noteq> Proceed, t))"

text \<open>\<open>get_runtime_state\<close>: the row, whether a file tightens it, and the state that holds.\<close>

definition get_runtime_state :: "time \<Rightarrow> pauses \<Rightarrow> switch \<Rightarrow> (stop_row \<times> bool \<times> runtime_state) \<times> switch" where
  "get_runtime_state clock ps s =
     (let (reconciled, t) = reconcile_pause_signal clock ps s; row = read_stop_row t
      in ((row, fst (pausejson_signal ps), tighten (sr_state row) reconciled), t))"

section \<open>Boot\<close>

definition pause_generations :: "pause_file \<times> pause_file \<Rightarrow> int list" where
  "pause_generations p = map file_generation (filter (\<lambda>f. f \<noteq> No_File) [fst p, snd p])"

text \<open>The incident of the active scope with the highest generation, the project's on a tie.\<close>

definition boot_incident :: "pause_file \<times> pause_file \<Rightarrow> string option" where
  "boot_incident p =
     snd (foldl (\<lambda>(best, inc) f. if best \<le> file_generation f then (file_generation f, file_incident f)
                                else (best, inc)) (- 1, None) (filter pause_active [fst p, snd p]))"

text \<open>(paused, generation, incident), or \<open>None\<close> when the files could not be judged.\<close>

definition boot_pause :: "pauses \<Rightarrow> (bool \<times> int \<times> string option) option" where
  "boot_pause ps =
     map_option (\<lambda>p. (is_paused p,
                     (case pause_generations p of [] \<Rightarrow> 0 | g # gs \<Rightarrow> fold max gs g),
                     boot_incident p)) ps"

definition either_text :: "string option \<Rightarrow> string option \<Rightarrow> string option" where
  "either_text a b = (if truthy a then a else b)"

text \<open>
  The winner: (paused, epoch, incident, note). The two conflict notes and the fail-closed note stand
  for the source's longer messages.
\<close>

definition boot_winner ::
  "(bool \<times> int \<times> string option) option \<Rightarrow> stop_row \<Rightarrow> bool \<times> int \<times> string option \<times> string option" where
  "boot_winner pj db =
     (case pj of
        None \<Rightarrow> (True, max (sr_epoch db) 0, sr_incident db, Some ''boot-reconcile: fail-closed paused'')
      | Some (paused, epoch, incident) \<Rightarrow>
          if sr_epoch db < epoch then (paused, epoch, incident, None)
          else if epoch < sr_epoch db then (sr_paused db, sr_epoch db, sr_incident db, None)
          else if paused \<noteq> sr_paused db
          then (True, sr_epoch db, either_text (sr_incident db) incident, Some ''boot-reconcile CONFLICT: paused'')
          else if sr_paused db \<and> incident \<noteq> sr_incident db
          then (True, sr_epoch db, either_text (sr_incident db) incident, Some ''boot-reconcile CONFLICT: incident'')
          else (sr_paused db, sr_epoch db, sr_incident db, None))"

definition boot_refused_note :: "string option \<Rightarrow> string option" where
  "boot_refused_note memo =
     Some (case memo of None \<Rightarrow> ''boot-reconcile REFUSED'' | Some m \<Rightarrow> m @ '' | boot-reconcile REFUSED'')"

definition boot_event_reason :: "string option \<Rightarrow> string option" where
  "boot_event_reason memo = either_text memo (Some ''pause.json reconciled into the row'')"

definition reconcile_stop_on_boot :: "time \<Rightarrow> pauses \<Rightarrow> switch \<Rightarrow> switch" where
  "reconcile_stop_on_boot clock ps s =
     (let db = read_stop_row s; (paused, epoch, incident, memo) = boot_winner (boot_pause ps) db;
          refused = (\<not> paused \<and> sr_state db = STOPPED);
          win_paused = (paused \<or> refused);
          win_state = (if win_paused then STOPPED else sr_state db);
          win_epoch = (if refused then sr_epoch db else epoch);
          win_incident = (if refused then sr_incident db else incident);
          win_note = (if refused then boot_refused_note memo else memo)
      in write_stop s win_epoch win_paused win_incident win_note clock win_state (sr_reason db) (sr_decision db)
           (if win_state \<noteq> sr_state db \<or> refused
            then [plain_event clock (sr_state db) win_state win_epoch ''boot-reconcile''
                    (boot_event_reason win_note)
                    None win_incident win_note]
            else []))"

text \<open>What boot writes when its transaction failed: only the column \<open>paused\<close> of an existing row.\<close>

definition boot_fallback :: "time \<Rightarrow> switch \<Rightarrow> switch" where
  "boot_fallback clock s =
     (let memo = Some ''boot-reconcile failed: fail-closed paused''
      in s\<lparr>sw_row := Some (case sw_row s of
             None \<Rightarrow> initial_row\<lparr>sr_paused := True, sr_note := memo, sr_updated_at := clock\<rparr>
           | Some r \<Rightarrow> r\<lparr>sr_paused := True, sr_note := memo, sr_updated_at := clock\<rparr>)\<rparr>)"

text \<open>\<open>_DDL_BACKFILL_RUNTIME_STOP_STATE\<close>, run whenever the database is opened.\<close>

definition backfill_stop_state :: "switch \<Rightarrow> switch" where
  "backfill_stop_state s =
     s\<lparr>sw_row := map_option (\<lambda>r. if sr_paused r \<and> sr_state r = ACTIVE then r\<lparr>sr_state := STOPPED\<rparr> else r) (sw_row s)\<rparr>"

section \<open>Steps\<close>

inductive switch_step :: "authority \<Rightarrow> switch \<Rightarrow> switch \<Rightarrow> bool" for auth where
  transitions: "transition_runtime_state auth clock s dest who reason decision incident memo evidence trigger = Inr (ev, t)
    \<Longrightarrow> switch_step auth s t"
| sets: "set_stop_epoch auth clock s paused incident memo who decision = Inr (e, t) \<Longrightarrow> switch_step auth s t"
| resumes: "resume_stop auth clock s generation incident who decision = Inr (a, t) \<Longrightarrow> switch_step auth s t"
| reconciles: "reconcile_pause_signal clock ps s = (st, t) \<Longrightarrow> switch_step auth s t"
| boots: "switch_step auth s (reconcile_stop_on_boot clock ps s)"
| boot_fails: "switch_step auth s (boot_fallback clock s)"
| opens: "switch_step auth s (backfill_stop_state s)"

end
