(* ===== verification/Switch_Safety.thy ===== *)
theory Switch_Safety
  imports Runtime_Switch
begin

text \<open>
  What the runtime switch guarantees over its steps: the event log only grows, the epoch never goes
  back, every loosening is authorised, newer than what it loosens and on record; boot and the pause
  files never loosen. The last section shows two ways round the rules.
\<close>

section \<open>Shape of a step\<close>

abbreviation now_state :: "switch \<Rightarrow> runtime_state" where
  "now_state s \<equiv> sr_state (read_stop_row s)"

abbreviation now_epoch :: "switch \<Rightarrow> int" where
  "now_epoch s \<equiv> sr_epoch (read_stop_row s)"

lemma read_write_stop [simp]:
  "read_stop_row (write_stop s epoch paused incident memo clock state reason decision evs)
     = \<lparr>sr_epoch = epoch, sr_paused = paused, sr_incident = incident, sr_note = memo,
        sr_updated_at = clock, sr_state = state, sr_reason = reason, sr_decision = decision\<rparr>"
  "sw_events (write_stop s epoch paused incident memo clock state reason decision evs) = sw_events s @ evs"
  by (simp_all add: write_stop_def read_stop_row_def)

lemma plain_event_fields [simp]:
  "ev_from (plain_event c f d e w r dec i m) = f" "ev_to (plain_event c f d e w r dec i m) = d"
  "ev_epoch (plain_event c f d e w r dec i m) = e" "ev_who (plain_event c f d e w r dec i m) = w"
  "ev_decision (plain_event c f d e w r dec i m) = dec"
  "ev_direction (plain_event c f d e w r dec i m) = direction_of f d"
  by (simp_all add: plain_event_def)

text \<open>An event that records the step from \<open>s\<close> to \<open>t\<close>.\<close>

definition records :: "runtime_event \<Rightarrow> switch \<Rightarrow> switch \<Rightarrow> bool" where
  "records ev s t \<longleftrightarrow>
     ev_from ev = now_state s \<and> ev_to ev = now_state t \<and> ev_epoch ev = now_epoch t
     \<and> ev_direction ev = direction_of (now_state s) (now_state t)"

text \<open>Authorised by \<open>auth\<close>, or the undoing of one's own manual drain.\<close>

definition loosening_ok :: "authority \<Rightarrow> switch \<Rightarrow> switch \<Rightarrow> runtime_event \<Rightarrow> bool" where
  "loosening_ok auth s t ev \<longleftrightarrow>
     (looks_like_owner (ev_who ev) \<and> auth (now_state s) (now_state t) (ev_who ev) (ev_decision ev) = Some True)
     \<or> (now_state s = DRAINING \<and> last_draining_entry s = (Some (ev_who ev), False))"

lemma permitted_loosening:
  assumes "transition_permitted auth frm dest who decision entry" and "tightness dest < tightness frm"
  shows "(looks_like_owner who \<and> auth frm dest who decision = Some True)
         \<or> (frm = DRAINING \<and> entry = (Some who, False))"
  using assms by (cases frm; cases entry) (auto simp: transition_permitted_def split: if_splits)

text \<open>A step that wrote an event with its authorisation, or one that wrote the row only and did not loosen.\<close>

definition noted :: "authority \<Rightarrow> switch \<Rightarrow> switch \<Rightarrow> bool" where
  "noted auth s t \<longleftrightarrow>
     (\<exists>ev. sw_events t = sw_events s @ [ev] \<and> records ev s t
        \<and> now_epoch s \<le> now_epoch t
        \<and> (tightness (now_state t) < tightness (now_state s)
             \<longrightarrow> now_epoch s < now_epoch t \<and> loosening_ok auth s t ev))"

definition quiet :: "switch \<Rightarrow> switch \<Rightarrow> bool" where
  "quiet s t \<longleftrightarrow>
     sw_events t = sw_events s \<and> now_epoch s \<le> now_epoch t
     \<and> tightness (now_state s) \<le> tightness (now_state t)"

lemma quiet_refl [simp]: "quiet s s"
  by (simp add: quiet_def)

lemma transition_noted:
  assumes "transition_runtime_state auth clock s dest who reason decision incident memo evidence trigger = Inr (ev, t)"
  shows "noted auth s t \<and> sr_paused (read_stop_row t) = (now_state t = STOPPED)"
proof -
  from assms obtain d k where perm: "transition_permitted auth (now_state s) d who decision (last_draining_entry s)"
    and mv: "move_to clock s d who reason decision incident memo evidence k = (ev, t)"
    by (auto simp: transition_runtime_state_def Let_def split: option.splits if_splits)
  from mv have ev: "sw_events t = sw_events s @ [ev]" "records ev s t" "ev_who ev = who" "ev_decision ev = decision"
    and t: "now_state t = d" "now_epoch t = (if now_state s = d then now_epoch s else now_epoch s + 1)"
      "sr_paused (read_stop_row t) = (d = STOPPED)"
    by (auto simp: move_to_def Let_def records_def read_stop_row_def)
  from permitted_loosening [OF perm] ev t show ?thesis
    unfolding noted_def loosening_ok_def by auto
qed

lemma set_stop_noted:
  assumes "set_stop_epoch auth clock s paused incident memo who decision = Inr (e, t)"
  shows "noted auth s t \<and> sr_paused (read_stop_row t) = (now_state t = STOPPED)"
proof -
  let ?d = "if paused then STOPPED else ACTIVE"
  from assms have perm: "transition_permitted auth (now_state s) ?d who decision (last_draining_entry s)"
    and t: "t = write_stop s (now_epoch s + 1) paused incident memo clock ?d (sr_reason (read_stop_row s)) decision
                [plain_event clock (now_state s) ?d (now_epoch s + 1) who memo decision incident memo]"
    by (auto simp: set_stop_epoch_def Let_def split: if_splits)
  from permitted_loosening [OF perm] show ?thesis
    unfolding t noted_def loosening_ok_def records_def by simp
qed

lemma resume_stop_noted:
  assumes "resume_stop auth clock s generation incident who decision = Inr (a, t)"
  shows "t = s \<or> noted auth s t \<and> \<not> sr_paused (read_stop_row t) \<and> now_state t = ACTIVE"
proof (cases "t = s")
  case False
  let ?cur = "read_stop_row s"
  from assms False
  have perm: "transition_permitted auth (now_state s) ACTIVE who decision (last_draining_entry s)"
    and gen: "now_epoch s < generation"
    and t: "t = write_stop s generation False (case incident of None \<Rightarrow> sr_incident ?cur | Some i \<Rightarrow> Some i)
                (Some ''resumed via cli'') clock ACTIVE (sr_reason ?cur) decision
                  [plain_event clock (sr_state ?cur) ACTIVE generation who (Some ''resumed via cli'') decision
                     (case incident of None \<Rightarrow> sr_incident ?cur | Some i \<Rightarrow> Some i) None]"
    by (auto simp: resume_stop_def Let_def split: if_splits)
  from permitted_loosening [OF perm] gen show ?thesis
    unfolding t noted_def loosening_ok_def records_def by simp
qed simp

lemma stopped_tightest [simp]: "\<not> 3 < tightness st" "tightness st \<le> 3" "3 \<le> tightness st \<longleftrightarrow> st = STOPPED"
  by (cases st; simp)+

lemma reconcile_pause_eq:
  "reconcile_pause_signal clock ps s =
     (if fst (pausejson_signal ps)
      then (STOPPED, if snd (pausejson_signal ps) \<and> now_state s \<noteq> STOPPED
                     then snd (reconcile_pause_signal clock ps s) else s)
      else (now_state s, s))"
  by (auto simp: reconcile_pause_signal_def Let_def split: prod.splits)

lemma reconcile_noted:
  assumes "reconcile_pause_signal clock ps s = (st, t)"
  shows "t = s \<or> noted auth s t \<and> sr_paused (read_stop_row t) \<and> now_state t = STOPPED"
proof (cases "t = s")
  case False
  from assms False have "now_state s \<noteq> STOPPED"
    and t: "t = write_stop s (now_epoch s + 1) True (sr_incident (read_stop_row s)) (sr_note (read_stop_row s)) clock STOPPED
                 (Some ''pause.json armed externally'') None
                 [plain_event clock (now_state s) STOPPED (now_epoch s + 1) ''pause.json''
                    (Some ''pause.json armed externally'') None (sr_incident (read_stop_row s)) (sr_note (read_stop_row s))]"
    by (auto simp: reconcile_pause_signal_def Let_def split: if_splits prod.splits)
  then show ?thesis
    unfolding noted_def records_def by simp
qed simp

lemma boot_winner_epoch: "boot_winner pj db = (p, e, i, m) \<Longrightarrow> sr_epoch db \<le> e"
  by (auto simp: boot_winner_def split: option.splits if_splits prod.splits)

lemma boot_winner_paused:
  "fst (boot_winner pj db) =
     (case pj of None \<Rightarrow> True
      | Some (p, g, i) \<Rightarrow> (p \<and> sr_epoch db \<le> g) \<or> (sr_paused db \<and> g \<le> sr_epoch db))"
  by (auto simp: boot_winner_def split: option.splits)

lemma boot_shape:
  obtains p e i m ep inc n why where
    "boot_winner (boot_pause ps) (read_stop_row s) = (p, e, i, m)"
    "reconcile_stop_on_boot clock ps s =
       write_stop s ep (p \<or> now_state s = STOPPED) inc n clock
         (if p \<or> now_state s = STOPPED then STOPPED else now_state s)
         (sr_reason (read_stop_row s)) (sr_decision (read_stop_row s))
         (if (p \<and> now_state s \<noteq> STOPPED) \<or> (\<not> p \<and> now_state s = STOPPED)
          then [plain_event clock (now_state s) STOPPED ep ''boot-reconcile'' why None inc n] else [])"
    "ep = (if \<not> p \<and> now_state s = STOPPED then now_epoch s else e)"
proof -
  obtain p e i m where w: "boot_winner (boot_pause ps) (read_stop_row s) = (p, e, i, m)"
    by (cases "boot_winner (boot_pause ps) (read_stop_row s)") auto
  let ?inc = "if \<not> p \<and> now_state s = STOPPED then sr_incident (read_stop_row s) else i"
  let ?n = "if \<not> p \<and> now_state s = STOPPED then boot_refused_note m else m"
  show thesis
    by (rule that [OF w _ refl, of ?inc ?n "boot_event_reason ?n"])
      (cases p; cases "now_state s = STOPPED"; simp add: reconcile_stop_on_boot_def w Let_def)
qed

lemma boot_noted: "quiet s (reconcile_stop_on_boot clock ps s) \<or> noted auth s (reconcile_stop_on_boot clock ps s)"
proof -
  obtain p e i m ep inc n why where w: "boot_winner (boot_pause ps) (read_stop_row s) = (p, e, i, m)"
    and b: "reconcile_stop_on_boot clock ps s =
       write_stop s ep (p \<or> now_state s = STOPPED) inc n clock
         (if p \<or> now_state s = STOPPED then STOPPED else now_state s)
         (sr_reason (read_stop_row s)) (sr_decision (read_stop_row s))
         (if (p \<and> now_state s \<noteq> STOPPED) \<or> (\<not> p \<and> now_state s = STOPPED)
          then [plain_event clock (now_state s) STOPPED ep ''boot-reconcile'' why None inc n] else [])"
    and ep: "ep = (if \<not> p \<and> now_state s = STOPPED then now_epoch s else e)"
    by (rule boot_shape)
  from boot_winner_epoch [OF w] ep have le: "now_epoch s \<le> ep" by simp
  show ?thesis
  proof (cases "(p \<and> now_state s \<noteq> STOPPED) \<or> (\<not> p \<and> now_state s = STOPPED)")
    case True
    then have "noted auth s (reconcile_stop_on_boot clock ps s)"
      using le unfolding b noted_def records_def by auto
    then show ?thesis ..
  next
    case False
    then have "quiet s (reconcile_stop_on_boot clock ps s)"
      using le unfolding b quiet_def by auto
    then show ?thesis ..
  qed
qed

lemma fallback_quiet: "quiet s (boot_fallback clock s)"
  by (auto simp: quiet_def boot_fallback_def read_stop_row_def initial_row_def split: option.splits)

lemma backfill_quiet: "quiet s (backfill_stop_state s)"
  by (auto simp: quiet_def backfill_stop_state_def read_stop_row_def split: option.splits)

lemma switch_step_shape: "switch_step auth s t \<Longrightarrow> quiet s t \<or> noted auth s t"
proof (induction rule: switch_step.induct)
  case (transitions clock s dest who reason decision incident memo evidence trigger ev t)
  from transition_noted [OF this] show ?case by blast
next
  case (sets clock s paused incident memo who decision e t)
  from set_stop_noted [OF this] show ?case by blast
next
  case (resumes clock s generation incident who decision a t)
  from resume_stop_noted [OF this] show ?case by auto
next
  case (reconciles clock ps s st t)
  from reconcile_noted [OF this, of auth] show ?case by auto
next
  case (boots s clock ps)
  show ?case by (rule boot_noted)
qed (simp_all add: fallback_quiet backfill_quiet)

section \<open>Runs\<close>

lemma switch_step_events: "switch_step auth s t \<Longrightarrow> \<exists>es. sw_events t = sw_events s @ es"
  using switch_step_shape by (fastforce simp: quiet_def noted_def)

interpretation switch_log: append_log sw_events "switch_step auth" for auth
  by unfold_locales (rule switch_step_events)

lemma switch_step_epoch:
  assumes "switch_step auth s t"
  shows "now_epoch s \<le> now_epoch t \<and> (now_epoch s = now_epoch t \<longrightarrow> tightness (now_state s) \<le> tightness (now_state t))"
  using switch_step_shape [OF assms]
proof
  assume "quiet s t"
  then show ?thesis by (simp add: quiet_def)
next
  assume "noted auth s t"
  then show ?thesis unfolding noted_def by force
qed

text \<open>
  Over any run of the switch the events already written stay in place, the epoch never goes
  back, and as long as the epoch is unchanged the state is at least as tight as it was: whoever
  checks the epoch cannot miss a loosening.
\<close>

theorem epoch_witnesses_loosening:
  assumes "(switch_step auth)\<^sup>*\<^sup>* s t"
  shows "(\<exists>es. sw_events t = sw_events s @ es) \<and> now_epoch s \<le> now_epoch t
    \<and> (now_epoch s = now_epoch t \<longrightarrow> tightness (now_state s) \<le> tightness (now_state t))"
proof -
  from assms have "now_epoch s \<le> now_epoch t
    \<and> (now_epoch s = now_epoch t \<longrightarrow> tightness (now_state s) \<le> tightness (now_state t))"
  proof (induction rule: rtranclp_induct)
    case (step t u)
    with switch_step_epoch [of auth t u] show ?case by force
  qed simp
  with switch_log.run_appends [OF assms] show ?thesis by blast
qed

text \<open>
  Claim C8: whenever a step leaves the runtime looser than it was, the step appended an event that
  names who did it, from which state to which and under which decision, in a later epoch; and either
  the principal has the owner shape and the configured authority granted exactly this move, or the
  runtime was draining and the last event into DRAINING is a manual one by the same principal.
\<close>

theorem loosening_needs_authority:
  assumes "switch_step auth s t" and "tightness (now_state t) < tightness (now_state s)"
  shows "\<exists>ev. sw_events t = sw_events s @ [ev] \<and> ev_from ev = now_state s \<and> ev_to ev = now_state t
    \<and> ev_direction ev = Loosen \<and> ev_epoch ev = now_epoch t \<and> now_epoch s < now_epoch t
    \<and> (looks_like_owner (ev_who ev) \<and> auth (now_state s) (now_state t) (ev_who ev) (ev_decision ev) = Some True
       \<or> now_state s = DRAINING \<and> last_draining_entry s = (Some (ev_who ev), False))"
proof -
  from switch_step_shape [OF assms(1)] assms(2) have "noted auth s t" by (auto simp: quiet_def)
  then obtain ev where ev: "sw_events t = sw_events s @ [ev]" "records ev s t"
    and more: "now_epoch s < now_epoch t" "loosening_ok auth s t ev"
    using assms(2) by (auto simp: noted_def)
  have "direction_of (now_state s) (now_state t) = Loosen"
    using assms(2) by (auto simp: direction_of_def)
  with ev more show ?thesis by (auto simp: records_def loosening_ok_def)
qed

lemma containment_step:
  assumes "switch_step refuse_all_loosening s t" and "QUARANTINED \<le> now_state s"
  shows "now_state s \<le> now_state t"
proof -
  have "now_state s \<noteq> DRAINING" using assms(2) by (cases "now_state s") (auto simp: less_eq_runtime_state_def)
  moreover have "quiet s t \<or> noted refuse_all_loosening s t" by (rule switch_step_shape [OF assms(1)])
  ultimately have "tightness (now_state s) \<le> tightness (now_state t)"
    by (auto simp: quiet_def noted_def loosening_ok_def refuse_all_loosening_def not_less [symmetric])
  then show ?thesis by (simp add: less_eq_runtime_state_def)
qed

text \<open>
  With no authority verifier configured, a runtime that is QUARANTINED or STOPPED is never
  loosened again by any sequence of operations, boots, failures and pause files.
\<close>

theorem containment_holds:
  assumes "(switch_step refuse_all_loosening)\<^sup>*\<^sup>* s t" and "QUARANTINED \<le> now_state s"
  shows "now_state s \<le> now_state t"
  using assms
proof (induction rule: rtranclp_induct)
  case (step t u)
  then have "now_state s \<le> now_state t" by blast
  moreover from this step.prems containment_step [OF step.hyps(2)] have "now_state t \<le> now_state u"
    by (meson order_trans)
  ultimately show ?case by (rule order_trans)
qed simp

section \<open>Boot and the pause files\<close>

text \<open>
  After boot the runtime is STOPPED exactly when it was, when the pause files could not be
  judged, or when the side with the newer generation (either one on a tie) is paused; otherwise its
  state is what it was. The column \<open>paused\<close> says STOPPED afterwards.
\<close>

theorem boot_state_exact:
  "now_state (reconcile_stop_on_boot clock ps s) =
     (if now_state s = STOPPED
         \<or> (case boot_pause ps of None \<Rightarrow> True
            | Some (p, g, i) \<Rightarrow> (p \<and> now_epoch s \<le> g) \<or> (sr_paused (read_stop_row s) \<and> g \<le> now_epoch s))
      then STOPPED else now_state s)
   \<and> sr_paused (read_stop_row (reconcile_stop_on_boot clock ps s))
       = (now_state (reconcile_stop_on_boot clock ps s) = STOPPED)"
proof -
  obtain p e i m ep inc n why where w: "boot_winner (boot_pause ps) (read_stop_row s) = (p, e, i, m)"
    and b: "reconcile_stop_on_boot clock ps s =
       write_stop s ep (p \<or> now_state s = STOPPED) inc n clock
         (if p \<or> now_state s = STOPPED then STOPPED else now_state s)
         (sr_reason (read_stop_row s)) (sr_decision (read_stop_row s))
         (if (p \<and> now_state s \<noteq> STOPPED) \<or> (\<not> p \<and> now_state s = STOPPED)
          then [plain_event clock (now_state s) STOPPED ep ''boot-reconcile'' why None inc n] else [])"
    by (rule boot_shape)
  have "p = (case boot_pause ps of None \<Rightarrow> True
            | Some (p, g, i) \<Rightarrow> (p \<and> now_epoch s \<le> g) \<or> (sr_paused (read_stop_row s) \<and> g \<le> now_epoch s))"
    using boot_winner_paused [of "boot_pause ps" "read_stop_row s"] w by simp
  with b show ?thesis by auto
qed

lemma stopped_row_reconciles:
  "now_state (snd (reconcile_pause_signal clock ps s)) =
     (if fst (pausejson_signal ps) \<and> snd (pausejson_signal ps) then STOPPED else now_state s)"
  by (simp add: reconcile_pause_signal_def Let_def split: prod.split)

lemma stop_active_claim:
  "fst (stop_active clock ps s At_Claim) = (fst (reconcile_pause_signal clock ps s) \<noteq> ACTIVE)"
proof -
  obtain st t where r: "reconcile_pause_signal clock ps s = (st, t)" by fastforce
  then show ?thesis
    by (cases st) (simp_all add: stop_active_def gate_runtime_state_def runtime_state_verdict_def)
qed

text \<open>
  Every reader of the switch sees the same state: STOPPED when a pause file is armed or the
  files cannot be read, the row's state otherwise. That state decides the claim gate (only ACTIVE
  claims), \<open>get_runtime_state\<close> reports it, and unless the files could not be read the row itself
  says so from then on.
\<close>

theorem readers_agree:
  "let st = (if fst (pausejson_signal ps) then STOPPED else now_state s)
   in fst (reconcile_pause_signal clock ps s) = st
      \<and> snd (snd (fst (get_runtime_state clock ps s))) = st
      \<and> fst (stop_active clock ps s At_Claim) = (st \<noteq> ACTIVE)
      \<and> now_state (snd (reconcile_pause_signal clock ps s)) = (if snd (pausejson_signal ps) then st else now_state s)"
proof -
  have r: "fst (reconcile_pause_signal clock ps s) = (if fst (pausejson_signal ps) then STOPPED else now_state s)"
    by (subst reconcile_pause_eq) simp
  have unread: "fst (pausejson_signal ps)" if "\<not> snd (pausejson_signal ps)"
    using that by (simp add: pausejson_signal_def split: option.splits)
  have "snd (snd (fst (get_runtime_state clock ps s)))
      = tighten (now_state (snd (reconcile_pause_signal clock ps s))) (fst (reconcile_pause_signal clock ps s))"
    by (simp add: get_runtime_state_def Let_def split: prod.splits)
  then have g: "snd (snd (fst (get_runtime_state clock ps s)))
      = (if fst (pausejson_signal ps) then STOPPED else now_state s)"
    by (simp add: r stopped_row_reconciles tighten_def)
  from r g unread show ?thesis
    by (simp add: Let_def stop_active_claim stopped_row_reconciles)
qed

section \<open>The snapshot authority\<close>

lemma snapshot_grants_matching:
  assumes "did = py_strip (case decision of None \<Rightarrow> [] | Some d \<Rightarrow> d)"
    and "matching_records snap did project = q # rs"
  shows "snapshot_authority (Some snap) build runtime project frm dest who decision = Some True
     \<longleftrightarrow> did \<noteq> [] \<and> ps_available snap \<and> ps_signature snap = VALID
       \<and> record_authority ` set rs \<subseteq> {record_authority q} \<and> who \<in> set (dr_principals q)
       \<and> runtime \<in> insert [] (set (dr_runtimes q)) \<and> (\<exists>b. build = Some b \<and> b \<in> set (dr_build_commits q))"
proof -
  have "record_authority ` set rs \<subseteq> {record_authority q} \<longleftrightarrow> \<not> list_ex (\<lambda>p. record_authority p \<noteq> record_authority q) rs"
    by (auto simp: list_ex_iff)
  then show ?thesis
    unfolding snapshot_authority_def Let_def assms(1) [symmetric] option.case assms(2) list.case
    by (cases build) auto
qed

lemma snapshot_grants_none:
  "matching_records snap (py_strip (case decision of None \<Rightarrow> [] | Some d \<Rightarrow> d)) project = []
    \<Longrightarrow> snapshot_authority (Some snap) build runtime project frm dest who decision = Some False"
  by (simp add: snapshot_authority_def Let_def)

lemma same_authority:
  "record_authority r = record_authority q \<Longrightarrow>
     dr_principals r = dr_principals q \<and> dr_runtimes r = dr_runtimes q \<and> dr_build_commits r = dr_build_commits q"
  by (simp add: record_authority_def)

text \<open>
  The snapshot authority grants exactly when the snapshot is available with a valid
  signature, the trimmed decision id is not empty, the records it names for this project agree on
  everything that matters to loosening, and they name the requester, this runtime (when it has a name)
  and the running build. It asks neither which move is made nor whether the record has expired.
\<close>

theorem snapshot_grants_iff:
  "snapshot_authority snapshot build runtime project frm dest who decision = Some True
   \<longleftrightarrow> (\<exists>snap b r. snapshot = Some snap \<and> ps_available snap \<and> ps_signature snap = VALID \<and> build = Some b
         \<and> py_strip (case decision of None \<Rightarrow> [] | Some d \<Rightarrow> d) \<noteq> []
         \<and> r \<in> set (matching_records snap (py_strip (case decision of None \<Rightarrow> [] | Some d \<Rightarrow> d)) project)
         \<and> record_authority ` set (matching_records snap (py_strip (case decision of None \<Rightarrow> [] | Some d \<Rightarrow> d)) project)
             = {record_authority r}
         \<and> who \<in> set (dr_principals r) \<and> runtime \<in> insert [] (set (dr_runtimes r))
         \<and> b \<in> set (dr_build_commits r))"
proof (cases snapshot)
  case None
  then show ?thesis by (simp add: snapshot_authority_def Let_def)
next
  case snap: (Some snap)
  define did where "did = py_strip (case decision of None \<Rightarrow> [] | Some d \<Rightarrow> d)"
  show ?thesis
  proof (cases "matching_records snap did project")
    case Nil
    with snap show ?thesis by (simp add: did_def [symmetric] snapshot_grants_none)
  next
    case (Cons q rs)
    have single: "record_authority ` set rs \<subseteq> {record_authority q}
        \<longleftrightarrow> record_authority ` set (q # rs) = {record_authority q}" by auto
    have any: "record_authority ` set (q # rs) = {record_authority r} \<longleftrightarrow>
        record_authority ` set (q # rs) = {record_authority q} \<and> record_authority r = record_authority q" for r
      by auto
    note grants = snapshot_grants_matching [OF did_def Cons, unfolded single]
    show ?thesis
    proof
      assume "snapshot_authority snapshot build runtime project frm dest who decision = Some True"
      with grants snap Cons show "\<exists>snap b r. snapshot = Some snap \<and> ps_available snap \<and> ps_signature snap = VALID
         \<and> build = Some b \<and> py_strip (case decision of None \<Rightarrow> [] | Some d \<Rightarrow> d) \<noteq> []
         \<and> r \<in> set (matching_records snap (py_strip (case decision of None \<Rightarrow> [] | Some d \<Rightarrow> d)) project)
         \<and> record_authority ` set (matching_records snap (py_strip (case decision of None \<Rightarrow> [] | Some d \<Rightarrow> d)) project)
             = {record_authority r}
         \<and> who \<in> set (dr_principals r) \<and> runtime \<in> insert [] (set (dr_runtimes r))
         \<and> b \<in> set (dr_build_commits r)"
        unfolding did_def [symmetric] by (intro exI [of _ snap] exI [of _ "the build"] exI [of _ q]) auto
    next
      assume "\<exists>snap b r. snapshot = Some snap \<and> ps_available snap \<and> ps_signature snap = VALID
         \<and> build = Some b \<and> py_strip (case decision of None \<Rightarrow> [] | Some d \<Rightarrow> d) \<noteq> []
         \<and> r \<in> set (matching_records snap (py_strip (case decision of None \<Rightarrow> [] | Some d \<Rightarrow> d)) project)
         \<and> record_authority ` set (matching_records snap (py_strip (case decision of None \<Rightarrow> [] | Some d \<Rightarrow> d)) project)
             = {record_authority r}
         \<and> who \<in> set (dr_principals r) \<and> runtime \<in> insert [] (set (dr_runtimes r))
         \<and> b \<in> set (dr_build_commits r)"
      then obtain b r where r: "ps_available snap" "ps_signature snap = VALID" "build = Some b" "did \<noteq> []"
          "record_authority ` set (q # rs) = {record_authority r}"
          "who \<in> set (dr_principals r)" "runtime \<in> insert [] (set (dr_runtimes r))" "b \<in> set (dr_build_commits r)"
        unfolding did_def [symmetric] using snap Cons by auto
      then have "record_authority ` set (q # rs) = {record_authority q}" "record_authority r = record_authority q"
        using any by blast+
      with r same_authority [of r q] grants snap
      show "snapshot_authority snapshot build runtime project frm dest who decision = Some True" by simp
    qed
  qed
qed

section \<open>Two ways round the rules\<close>

text \<open>
  Whatever opened a drain, a quarantine included, any principal with a name can undo it
  without any authority: it enters DRAINING again, which is no loosening and is recorded as a manual
  entry of its own, and then leaves DRAINING as the principal that set it.
\<close>

theorem drain_taken_over:
  assumes "now_state s = DRAINING" and "who \<noteq> []" and "who \<noteq> ''runtime''"
  shows "\<exists>ev t ev2 u.
     transition_runtime_state auth clock s ''DRAINING'' who None None None None None None = Inr (ev, t)
     \<and> transition_runtime_state auth clock2 t ''ACTIVE'' who None None None None None None = Inr (ev2, u)
     \<and> now_state u = ACTIVE"
proof -
  have names: "map_of runtime_states (py_upper (py_strip ''DRAINING'')) = Some DRAINING"
      "map_of runtime_states (py_upper (py_strip ''ACTIVE'')) = Some ACTIVE"
    by code_simp+
  obtain ev t where m: "move_to clock s DRAINING who None None None None None (Some ''manual'') = (ev, t)"
    by fastforce
  from assms have t: "transition_runtime_state auth clock s ''DRAINING'' who None None None None None None = Inr (ev, t)"
    by (simp add: transition_runtime_state_def names transition_permitted_def m)
  from m have drained: "now_state t = DRAINING" and "sw_events t = sw_events s @ [ev]"
      and "ev_to ev = DRAINING" "ev_who ev = who" "ev_trigger ev = Some ''manual''"
    by (auto simp: move_to_def Let_def read_stop_row_def)
  then have entry: "last_draining_entry t = (Some who, False)"
    by (simp add: last_draining_entry_def)
  obtain ev2 u where m2: "move_to clock2 t ACTIVE who None None None None None None = (ev2, u)"
    by fastforce
  from assms(2) have "transition_runtime_state auth clock2 t ''ACTIVE'' who None None None None None None = Inr (ev2, u)"
    by (simp add: transition_runtime_state_def names drained entry transition_permitted_def truthy_def m2)
  moreover from m2 have "now_state u = ACTIVE"
    by (auto simp: move_to_def Let_def read_stop_row_def)
  ultimately show ?thesis using t by blast
qed

text \<open>
  The row that a failed boot leaves behind says paused, but its state is the one it had
  before: with no pause file armed an ACTIVE runtime keeps claiming work. Only the next opening of the
  database stops it, in the epoch it had and without an event; a draining or quarantined runtime is
  not stopped even then.
\<close>

theorem failed_boot_stops_nothing:
  "let t = boot_fallback clock s
   in sr_paused (read_stop_row t) \<and> now_state t = now_state s
      \<and> fst (stop_active clock2 (Some (No_File, No_File)) t At_Claim) = (now_state s \<noteq> ACTIVE)
      \<and> now_state (backfill_stop_state t) = (if now_state s = ACTIVE then STOPPED else now_state s)
      \<and> now_epoch (backfill_stop_state t) = now_epoch s
      \<and> sw_events (backfill_stop_state t) = sw_events s"
proof -
  let ?t = "boot_fallback clock s"
  have row: "sw_row ?t \<noteq> None" "sw_events ?t = sw_events s"
    by (simp_all add: boot_fallback_def Let_def)
  have t: "sr_paused (read_stop_row ?t)" "now_state ?t = now_state s" "now_epoch ?t = now_epoch s"
    by (simp_all add: boot_fallback_def read_stop_row_def initial_row_def Let_def split: option.split)
  have "fst (stop_active clock2 (Some (No_File, No_File)) ?t At_Claim) = (now_state s \<noteq> ACTIVE)"
    by (simp add: stop_active_claim reconcile_pause_signal_def pausejson_signal_def is_paused_def Let_def t)
  moreover obtain r where r: "sw_row ?t = Some r" using row(1) by blast
  then have "read_stop_row ?t = r" and "now_state (backfill_stop_state ?t)
        = (if sr_paused r \<and> sr_state r = ACTIVE then STOPPED else sr_state r)"
      and "now_epoch (backfill_stop_state ?t) = sr_epoch r" and "sw_events (backfill_stop_state ?t) = sw_events ?t"
    by (simp_all add: backfill_stop_state_def read_stop_row_def)
  ultimately show ?thesis unfolding Let_def using t row(2) by presburger
qed

text \<open>Concrete runs: an owner's grant, a drain undone, and a stop that holds.\<close>

definition sample_switch :: "runtime_state \<Rightarrow> switch" where
  "sample_switch st = \<lparr>sw_row = Some (initial_row\<lparr>sr_state := st\<rparr>), sw_events = []\<rparr>"

lemma sample_now [simp]: "now_state (sample_switch st) = st" "now_epoch (sample_switch st) = 0"
  by (simp_all add: sample_switch_def read_stop_row_def initial_row_def)

definition grant_all :: authority where
  "grant_all frm dest who decision = Some True"

definition released :: switch where
  "released = snd (projr (set_stop_epoch grant_all 0 (sample_switch STOPPED) False None None ''owner'' None))"

lemma released_step: "switch_step grant_all (sample_switch STOPPED) released"
    and released_now: "now_state released = ACTIVE" "now_epoch released = 1"
proof -
  have "looks_like_owner ''owner''" by code_simp
  then have "set_stop_epoch grant_all 0 (sample_switch STOPPED) False None None ''owner'' None = Inr (1, released)"
    by (simp add: released_def set_stop_epoch_def Let_def transition_permitted_def grant_all_def)
  then show "switch_step grant_all (sample_switch STOPPED) released" by (rule switch_step.sets)
  show "now_state released = ACTIVE" "now_epoch released = 1"
    using \<open>looks_like_owner ''owner''\<close>
    by (simp_all add: released_def set_stop_epoch_def Let_def transition_permitted_def grant_all_def)
qed

theorem loosening_needs_authority_witness:
  "\<exists>ev. sw_events released = sw_events (sample_switch STOPPED) @ [ev] \<and> ev_direction ev = Loosen
      \<and> looks_like_owner (ev_who ev)"
  using loosening_needs_authority [OF released_step] by (simp add: released_now) blast

theorem epoch_witnesses_loosening_witness:
  "now_epoch (sample_switch STOPPED) \<le> now_epoch released \<and> now_state released = ACTIVE"
  using epoch_witnesses_loosening [OF r_into_rtranclp [where r = "switch_step grant_all", OF released_step]]
  by (simp add: released_now)

theorem containment_holds_witness:
  "QUARANTINED \<le> now_state (reconcile_stop_on_boot 5 (Some (No_File, No_File)) (sample_switch QUARANTINED))"
  using containment_holds [OF r_into_rtranclp [where r = "switch_step refuse_all_loosening", OF switch_step.boots],
      of "sample_switch QUARANTINED" 5 "Some (No_File, No_File)"]
  by simp

theorem drain_taken_over_witness:
  "\<exists>ev t ev2 u.
     transition_runtime_state refuse_all_loosening 1 (sample_switch DRAINING) ''DRAINING'' ''mallory'' None None None None None None
       = Inr (ev, t)
     \<and> transition_runtime_state refuse_all_loosening 2 t ''ACTIVE'' ''mallory'' None None None None None None = Inr (ev2, u)
     \<and> now_state u = ACTIVE"
  by (rule drain_taken_over) simp_all

end
