(* ===== verification/Roles.thy ===== *)
theory Roles
  imports Prelude Json
begin

text \<open>
  Role assignment (\<open>role_mapping.py\<close>): provider families, which family may hold which role, and the
  role map a project's \<open>state.json\<close> declares. Agent names are strings; the state is a JSON object or
  nothing.
\<close>

section \<open>Families and the role policy\<close>

definition role_order :: "string list" where
  "role_order = [''implementer'', ''reviewer'', ''tester'']"

definition default_role_mapping :: "(string \<times> string) list" where
  "default_role_mapping = [(''implementer'', ''codex''), (''reviewer'', ''claude''), (''tester'', ''script'')]"

definition known_role_agents :: "string list" where
  "known_role_agents = [''codex'', ''claude'', ''gemini'', ''claude_cloud'', ''script'', ''agy'']"

definition provider_family :: "string \<Rightarrow> string" where
  "provider_family agent =
     (let name = py_lower (py_strip agent)
      in if name = ''claude'' \<or> startswith name ''claude-'' \<or> startswith name ''claude_'' then ''claude''
         else if startswith name ''codex'' then ''codex''
         else if startswith name ''gemini'' then ''gemini''
         else if name = ''agy'' \<or> startswith name ''agy-'' \<or> startswith name ''agy_'' then ''gemini''
         else name)"

definition role_provider_policy :: "string \<Rightarrow> string list option" where
  "role_provider_policy role =
     (if role = ''implementer'' then Some [''claude'', ''codex'']
      else if role = ''tester'' then Some [''script''] else None)"

definition role_policy_refuses :: "string \<Rightarrow> string \<Rightarrow> bool" where
  "role_policy_refuses role agent =
     (case role_provider_policy role of None \<Rightarrow> False
      | Some allowed \<Rightarrow> py_strip agent \<noteq> [] \<and> provider_family agent \<notin> set allowed)"

text \<open>The pull routes know \<open>coder\<close> and \<open>panel\<close> too; \<open>None\<close> is an unknown role.\<close>

definition pull_role_policy :: "string \<Rightarrow> string list option option" where
  "pull_role_policy role =
     (if role = ''coder'' then Some (role_provider_policy ''implementer'')
      else if role = ''panel'' then Some None
      else if role \<in> set role_order then Some (role_provider_policy role) else None)"

definition anonymous_pull_refused :: "string \<Rightarrow> string \<Rightarrow> bool" where
  "anonymous_pull_refused role agent =
     (if py_strip agent \<noteq> [] then False
      else let r = py_strip role in \<not> (r \<noteq> [] \<and> pull_role_policy r = Some None))"

definition role_bound_providers :: "string list" where
  "role_bound_providers = [''claude_cloud'']"

definition task_type_to_role :: "(string \<times> string) list" where
  "task_type_to_role = [(''implement'', ''implementer''), (''review'', ''reviewer''), (''test'', ''tester'')]"

definition provider_task_types :: "string \<Rightarrow> (string \<times> string) list \<Rightarrow> string list" where
  "provider_task_types provider role_to_agent =
     map fst (filter (\<lambda>(t, role). map_of role_to_agent role = Some provider) task_type_to_role)"

section \<open>The effective role map\<close>

datatype role_error = Wrong_Roles | Blank_Agent string | Unknown_Agent string string | Tester_Policy string
  | Not_An_Object

fun explicit_agents :: "(string \<times> json) list \<Rightarrow> string list \<Rightarrow> role_error + (string \<times> string) list" where
  "explicit_agents mapping [] = Inr []"
| "explicit_agents mapping (role # roles) =
     (case map_of mapping role of
        Some (JStr agent) \<Rightarrow>
          if py_strip agent = [] then Inl (Blank_Agent role)
          else if py_strip agent \<notin> set known_role_agents then Inl (Unknown_Agent role agent)
          else if role = ''tester'' \<and> role_policy_refuses role agent then Inl (Tester_Policy agent)
          else (case explicit_agents mapping roles of Inl e \<Rightarrow> Inl e | Inr m \<Rightarrow> Inr ((role, py_strip agent) # m))
      | _ \<Rightarrow> Inl (Blank_Agent role))"

definition validate_explicit_role_agents :: "(string \<times> json) list \<Rightarrow> role_error + (string \<times> string) list" where
  "validate_explicit_role_agents mapping =
     (if set (map fst mapping) \<noteq> set role_order then Inl Wrong_Roles else explicit_agents mapping role_order)"

definition assign :: "string \<Rightarrow> string \<Rightarrow> (string \<times> string) list \<Rightarrow> (string \<times> string) list" where
  "assign role agent m = map (\<lambda>(r, a). if r = role then (r, agent) else (r, a)) m"

text \<open>The assignments of the older list \<open>roles\<close> that count; the others are passed over.\<close>

fun legacy_entry :: "json \<Rightarrow> (string \<times> string) option" where
  "legacy_entry (JObj entry) =
     (case (map_of entry ''role'', map_of entry ''agent'') of
        (Some (JStr role), Some (JStr agent)) \<Rightarrow>
          if role \<in> set role_order \<and> py_strip agent \<noteq> [] \<and> \<not> role_policy_refuses role agent
          then Some (role, py_strip agent) else None
      | _ \<Rightarrow> None)"
| "legacy_entry _ = None"

datatype role_source = Explicit_Source | Legacy_Source | Default_Source

definition effective_role_mapping ::
  "(string \<times> json) list option \<Rightarrow> role_error + (string \<times> string) list \<times> role_source" where
  "effective_role_mapping state =
     (case state of None \<Rightarrow> Inr (default_role_mapping, Default_Source)
      | Some st \<Rightarrow>
          (case map_of st ''role_agents'' of
             Some (JObj explicit) \<Rightarrow>
               (case validate_explicit_role_agents explicit of Inl e \<Rightarrow> Inl e | Inr m \<Rightarrow> Inr (m, Explicit_Source))
           | rest \<Rightarrow>
               if rest \<noteq> None \<and> rest \<noteq> Some JNull then Inl Not_An_Object
               else (case map_of st ''roles'' of
                  Some (JArr entries) \<Rightarrow>
                    let found = List.map_filter legacy_entry entries
                    in if found = [] then Inr (default_role_mapping, Default_Source)
                       else Inr (fold (\<lambda>(role, agent). assign role agent) found default_role_mapping, Legacy_Source)
                | _ \<Rightarrow> Inr (default_role_mapping, Default_Source))))"

text \<open>\<open>_holds_task_type\<close>: the caller's map may deny, \<open>state.json\<close> decides when there is one.\<close>

datatype state_file = No_State_File | Unreadable_State | State_Json "(string \<times> json) list option"

definition holds_task_type ::
  "state_file \<Rightarrow> string \<Rightarrow> string \<Rightarrow> (string \<times> string) list option \<Rightarrow> bool" where
  "holds_task_type file provider task_type role_to_agent =
     (if (case role_to_agent of None \<Rightarrow> False | Some m \<Rightarrow> task_type \<notin> set (provider_task_types provider m)) then False
      else case file of
        No_State_File \<Rightarrow> True
      | Unreadable_State \<Rightarrow> False
      | State_Json st \<Rightarrow>
          (case effective_role_mapping st of Inl e \<Rightarrow> False
           | Inr (current, _) \<Rightarrow> task_type \<in> set (provider_task_types provider current)))"

section \<open>Properties\<close>

definition holder_ok :: "string \<times> string \<Rightarrow> bool" where
  "holder_ok ra \<longleftrightarrow> snd ra \<noteq> [] \<and> (fst ra = ''tester'' \<longrightarrow> \<not> role_policy_refuses (fst ra) (snd ra))"

definition role_map_ok :: "(string \<times> string) list \<Rightarrow> bool" where
  "role_map_ok m \<longleftrightarrow> map fst m = role_order \<and> list_all holder_ok m"

lemma py_strip_idem [simp]: "py_strip (py_strip s) = py_strip s"
proof -
  have dw: "dropWhile P (dropWhile P xs) = dropWhile P xs" for P :: "char \<Rightarrow> bool" and xs
    by (induction xs) auto
  have fixed: "dropWhile P (rev (dropWhile P (rev (dropWhile P xs)))) = rev (dropWhile P (rev (dropWhile P xs)))"
    for P :: "char \<Rightarrow> bool" and xs
  proof (cases "dropWhile P xs")
    case Nil
    then show ?thesis by (simp only: rev.simps dropWhile.simps)
  next
    case (Cons y ys)
    then have "\<not> P y" by (metis hd_dropWhile list.discI list.sel(1))
    then have "dropWhile P (rev (y # ys)) = dropWhile P (rev ys) @ [y]" by (simp add: dropWhile_append3)
    with \<open>\<not> P y\<close> show ?thesis by (simp only: Cons) simp
  qed
  show ?thesis by (simp only: py_strip_def py_rstrip_def py_lstrip_def fixed rev_rev_ident dw)
qed

lemma policy_strip [simp]: "role_policy_refuses r (py_strip a) = role_policy_refuses r a"
  unfolding role_policy_refuses_def provider_family_def py_strip_idem ..

lemma default_map_ok: "role_map_ok default_role_mapping"
  by code_simp

lemma assign_roles: "map fst (assign r a m) = map fst m"
  by (induction m) (auto simp: assign_def)

lemma assign_holders: "holder_ok (r, a) \<Longrightarrow> list_all holder_ok m \<Longrightarrow> list_all holder_ok (assign r a m)"
  by (induction m) (auto simp: assign_def)

lemma assign_ok: "role_map_ok m \<Longrightarrow> holder_ok (r, a) \<Longrightarrow> role_map_ok (assign r a m)"
  by (simp add: role_map_ok_def assign_roles assign_holders)

lemma legacy_entry_ok: "legacy_entry j = Some ra \<Longrightarrow> holder_ok ra"
  by (cases j) (auto simp: holder_ok_def split: option.splits json.splits if_splits)

lemma fold_assign_ok:
  "list_all holder_ok found \<Longrightarrow> role_map_ok m \<Longrightarrow> role_map_ok (fold (\<lambda>(role, agent). assign role agent) found m)"
  by (induction found arbitrary: m) (auto intro: assign_ok)

lemma explicit_agents_ok:
  "explicit_agents mapping roles = Inr m \<Longrightarrow> map fst m = roles \<and> list_all holder_ok m"
proof (induction roles arbitrary: m)
  case (Cons role roles)
  from Cons.prems obtain agent m' where "py_strip agent \<noteq> []"
      "\<not> (role = ''tester'' \<and> role_policy_refuses role agent)"
      "explicit_agents mapping roles = Inr m'" "m = (role, py_strip agent) # m'"
    by (auto split: option.splits json.splits if_splits sum.splits)
  with Cons.IH show ?case by (auto simp: holder_ok_def)
qed simp

lemma legacy_found_ok: "list_all holder_ok (List.map_filter legacy_entry entries)"
proof (induction entries)
  case (Cons e entries)
  then show ?case by (cases "legacy_entry e") (auto dest: legacy_entry_ok)
qed simp

text \<open>
  Claim C28: whatever the project's state declares, the role map it yields names exactly the three
  roles, in order, each with an agent, and its tester is of a family the policy lets test; a malformed
  explicit declaration is refused rather than replaced by a default.
\<close>

theorem effective_map_ok:
  "case effective_role_mapping state of
     Inl e \<Rightarrow> (case state of None \<Rightarrow> False | Some st \<Rightarrow> map_of st ''role_agents'' \<notin> {None, Some JNull})
   | Inr (m, src) \<Rightarrow> role_map_ok m \<and> (src = Explicit_Source) = (case state of None \<Rightarrow> False | Some st \<Rightarrow> map_of st ''role_agents'' \<notin> {None, Some JNull})"
proof (cases state)
  case None
  then show ?thesis by (simp add: effective_role_mapping_def default_map_ok)
next
  case (Some st)
  show ?thesis
  proof (cases "map_of st ''role_agents'' \<in> {None, Some JNull}")
    case True
    have "role_map_ok (fold (\<lambda>(role, agent). assign role agent) (List.map_filter legacy_entry entries) default_role_mapping)" for entries
      by (rule fold_assign_ok [OF legacy_found_ok default_map_ok])
    with True Some show ?thesis
      by (auto simp: effective_role_mapping_def Let_def default_map_ok split: option.splits json.splits)
  next
    case False
    have "role_map_ok m" if "validate_explicit_role_agents ex = Inr m" for ex m
      using that explicit_agents_ok [of ex role_order m]
      by (simp add: validate_explicit_role_agents_def role_map_ok_def split: if_splits)
    with False Some show ?thesis
      by (auto simp: effective_role_mapping_def split: option.splits json.splits sum.splits)
  qed
qed

end
