(* ===== verification/Tasks.thy ===== *)
theory Tasks
  imports Callsites Runtime_Switch Roles
begin

text \<open>
  The task queue of \<open>queue.py\<close>: task rows, the log of execution events, the claim gate, \<open>dequeue\<close>
  and the re-admission gate with the operations that put a claimed row back.
  A context is the record of the keys the queue reads most, a key that is missing or of another type
  being \<open>None\<close>, and \<open>tc_more\<close>, its other keys as they are carried. An event keeps the one field that is read back. Writes of events and of exec-state columns
  succeed; time is an argument of every operation.
\<close>

section \<open>Rows\<close>

datatype task_status =
  Pending | In_Progress | Completed | Failed | Needs_Human | Timed_Out | Blocked_Task | Cancelled | Orphaned

fun status_text :: "task_status \<Rightarrow> string" where
  "status_text Pending = ''pending''"
| "status_text In_Progress = ''in_progress''"
| "status_text Completed = ''completed''"
| "status_text Failed = ''failed''"
| "status_text Needs_Human = ''needs_human''"
| "status_text Timed_Out = ''timed_out''"
| "status_text Blocked_Task = ''blocked''"
| "status_text Cancelled = ''cancelled''"
| "status_text Orphaned = ''orphaned''"

definition terminal_task_statuses :: "task_status list" where
  "terminal_task_statuses = [Completed, Failed, Cancelled, Timed_Out]"

record task_context =
  tc_agent :: "string option"
  tc_agent_override :: "string option"
  tc_implementer_agent :: "string option"
  tc_review_binding :: "string option"
  tc_prev_task_id :: "string option"
  tc_original_task_id :: "string option"
  tc_external_operation_id :: "string option"
  tc_push_not_before :: "time option"
  tc_push_refusal_reason :: "string option"
  tc_push_refusals :: "(string \<times> nat) list"
  tc_capacity_count :: nat
  tc_capacity_since :: "time option"
  tc_capacity_blocked_at :: "time option"
  tc_prep_retry_count :: nat
  tc_prep_retry_error :: "string option"
  tc_cea_enqueue :: "gate_outcome option"
  tc_cea_requeue :: "requeue_outcome option"
  tc_cea_result :: "gate_outcome option"
  tc_more :: "(string \<times> json) list"

record exec_state =
  xs_claimed_at :: "time option"
  xs_claimed_by_role :: "string option"
  xs_claimed_by_agent :: "string option"
  xs_claimed_via :: "string option"
  xs_claim_build :: "string option \<times> string option"
  xs_dispatched_at :: "time option"
  xs_dispatch_channel :: "string option"
  xs_dispatch_agent :: "string option"
  xs_dispatch_target :: "string option"
  xs_dispatch_attempt :: "nat option"
  xs_lease_owner :: "string option"
  xs_lease_expires_at :: "time option"
  xs_heartbeat_at :: "time option"
  xs_heartbeat_source :: "string option"
  xs_result_posted_at :: "time option"

record task_row =
  tk_id :: string
  tk_type :: string
  tk_description :: string
  tk_branch :: string
  tk_priority :: int
  tk_context :: task_context
  tk_status :: task_status
  tk_created_at :: time
  tk_project :: string
  tk_receipt_id :: "string option"
  tk_pr_number :: "int option"
  tk_summary :: "string option"
  tk_verdict :: "string option"
  tk_findings :: "string list"
  tk_error_info :: "json option"
  tk_last_activity_at :: time
  tk_status_changed_at :: time
  tk_claim_source :: string
  tk_exec :: exec_state

record exec_event =
  xe_task_id :: string
  xe_event :: string
  xe_at :: time
  xe_field :: "string option"

text \<open>
  The cascade outbox: the continuation a finished task owes, with the lease of the executor replaying it.
\<close>

datatype outbox_state = Owed | Replaying | Applied | Expired

record outbox_row =
  ob_task_id :: string
  ob_task_type :: string
  ob_result :: string
  ob_stop_epoch :: int
  ob_state :: outbox_state
  ob_attempt :: "string option"
  ob_lease_owner :: "string option"
  ob_lease_expires_at :: "time option"
  ob_created_at :: time

text \<open>
  The receipt of one mutation of a pull request outside the system. An error names the head it was met
  at when the merge procedure wrote it.
\<close>

datatype op_state = Op_Reserved | Op_Done | Op_Failed | Op_Skipped

datatype op_reason = Ci_Red | Ci_Pending time | Ci_Timed_Out | State_Unknown | Refused string

datatype op_error = Plain_Error string | Head_Error string op_reason

record external_op =
  eo_key :: string
  eo_state :: op_state
  eo_pr :: "int option"
  eo_attempt :: nat
  eo_error :: "op_error option"
  eo_admitted_epoch :: int
  eo_reserved_at :: time
  eo_done_at :: "time option"

text \<open>The right to post one kind of notice on a pull request.\<close>

record announcement =
  an_key :: "int \<times> string"
  an_claimed_at :: time
  an_claimed_by :: string
  an_token :: string
  an_posted_at :: "time option"

text \<open>An external operation and the tasks bound to it.\<close>

datatype intent_state =
  Admitted | Bound | Intent_Blocked | Execution_Stalled | Success | Rejected | Superseded_Intent

record intent_blocker =
  bl_type :: string
  bl_reason :: string
  bl_unblock_action :: string
  bl_owner :: string
  bl_next_check_at :: time

record work_intent =
  wi_id :: string
  wi_project :: string
  wi_repo :: string
  wi_issue :: "int option"
  wi_target :: "(string \<times> int) option"
  wi_received_at :: time
  wi_task_ids :: "string list"
  wi_coordinator :: string
  wi_priority :: int
  wi_risk_tier :: int
  wi_state :: intent_state
  wi_blocker :: "intent_blocker option"
  wi_last_progress_at :: time
  wi_slo :: time
  wi_next_check_at :: "time option"
  wi_reason :: "string option"
  wi_authority :: "string option"
  wi_escalated_at :: "time option"

record queue =
  q_tasks :: "task_row list"
  q_events :: "exec_event list"
  q_store :: store
  q_switch :: switch
  q_spent_grants :: "(string \<times> string) list"
  q_outbox :: "outbox_row list"
  q_ops :: "external_op list"
  q_announcements :: "announcement list"
  q_intents :: "work_intent list"
  q_treatments :: "(string \<times> string \<times> string) list"

text \<open>
  The signed dispatch grant in a receipt's provenance (\<open>cea/signed_receipt.py\<close>); a timestamp that does
  not parse is \<open>None\<close>.
\<close>

record dispatch_grant =
  dg_task_id :: string
  dg_receipt_id :: string
  dg_decision :: decision
  dg_payload_hash :: string
  dg_build_commit :: string
  dg_nonce :: string
  dg_issued_at :: "time option"
  dg_expires_at :: "time option"

text \<open>
  What the queue runs with: the configuration per project, the engine, the state file next to the
  database, the build, the grant a receipt carries, the broker's Ed25519 check of a receipt and the hash
  of a row's payload.
\<close>

record deployment =
  dp_config :: "string option \<Rightarrow> gate_config"
  dp_engine :: engine
  dp_state_file :: state_file
  dp_build :: "string option \<times> string option"
  dp_grant :: "receipt \<Rightarrow> dispatch_grant option"
  dp_broker_signed :: "receipt \<Rightarrow> bool"
  dp_payload_hash :: "task_row \<Rightarrow> string"

definition task_of :: "queue \<Rightarrow> string \<Rightarrow> task_row option" where
  "task_of q tid = row_of tk_id tid (q_tasks q)"

definition update_task :: "string \<Rightarrow> (task_row \<Rightarrow> task_row) \<Rightarrow> queue \<Rightarrow> queue" where
  "update_task tid f q = q\<lparr>q_tasks := map (\<lambda>t. if tk_id t = tid then f t else t) (q_tasks q)\<rparr>"

definition append_exec_event :: "string \<Rightarrow> string \<Rightarrow> time \<Rightarrow> string option \<Rightarrow> queue \<Rightarrow> queue" where
  "append_exec_event tid event clock field q =
     q\<lparr>q_events := q_events q @ [\<lparr>xe_task_id = tid, xe_event = event, xe_at = clock, xe_field = field\<rparr>]\<rparr>"

text \<open>\<open>_record_end_on\<close>: the lease ends; a posted result is stamped.\<close>

definition record_end :: "string \<Rightarrow> time \<Rightarrow> string \<Rightarrow> bool \<Rightarrow> string option \<Rightarrow> queue \<Rightarrow> queue" where
  "record_end tid clock event posted field q =
     append_exec_event tid event clock field
       (update_task tid (\<lambda>t. t\<lparr>tk_exec := (tk_exec t)\<lparr>xs_lease_owner := None, xs_lease_expires_at := None,
            xs_result_posted_at := (if posted then Some clock else xs_result_posted_at (tk_exec t))\<rparr>\<rparr>) q)"

section \<open>Receipts of a row\<close>

definition cea_config :: "deployment \<Rightarrow> string \<Rightarrow> gate_config" where
  "cea_config dp project = dp_config dp (let k = py_strip project in if k = [] then None else Some k)"

definition cea_config_for_receipt :: "deployment \<Rightarrow> receipt option \<Rightarrow> gate_config" where
  "cea_config_for_receipt dp r = cea_config dp (case r of None \<Rightarrow> [] | Some q \<Rightarrow> rc_project q)"

definition receipt_for_task :: "queue \<Rightarrow> string \<Rightarrow> string option \<times> receipt option" where
  "receipt_for_task q tid =
     (case task_of q tid of None \<Rightarrow> (None, None)
      | Some t \<Rightarrow> (case tk_receipt_id t of None \<Rightarrow> (None, None)
          | Some rid \<Rightarrow> if rid = [] then (None, None) else (Some rid, current_receipt (q_store q) rid)))"

fun outcome_text :: "validation_outcome \<Rightarrow> string" where
  "outcome_text Proceed = ''PROCEED''"
| "outcome_text Re_Admit = ''RE_ADMIT''"
| "outcome_text Blocked = ''BLOCK''"
| "outcome_text Human_Gated = ''HUMAN_GATE''"
| "outcome_text Held_Back = ''HELD''"

text \<open>The note a gate's answer leaves on the receipt.\<close>

definition gate_memo :: "string \<Rightarrow> gate_outcome \<Rightarrow> string" where
  "gate_memo point g = point @ '': '' @ outcome_text (vr_outcome (go_result g))"

text \<open>\<open>_cea_transition_in_txn\<close>: a move the engine refuses changes nothing.\<close>

definition move_receipt ::
  "deployment \<Rightarrow> time \<Rightarrow> string \<Rightarrow> string \<Rightarrow> string \<Rightarrow> (receipt \<Rightarrow> receipt) \<Rightarrow> queue \<Rightarrow> queue" where
  "move_receipt dp clock rid state memo mutate q =
     (if rid = [] then q
      else case transition (dp_engine dp) clock (q_store q) rid state (Some memo) mutate of
             Inl _ \<Rightarrow> q | Inr (_, s) \<Rightarrow> q\<lparr>q_store := s\<rparr>)"

section \<open>The signed grant\<close>

definition verify_grant ::
  "deployment \<Rightarrow> time \<Rightarrow> receipt \<Rightarrow> string \<Rightarrow> string \<Rightarrow> string \<Rightarrow> string list option \<Rightarrow> string option" where
  "verify_grant dp clock r tid rid payload codes =
     (if \<not> dp_broker_signed dp r then None
      else case dp_grant dp r of None \<Rightarrow> None
      | Some g \<Rightarrow>
          if rc_decision r \<noteq> ALLOW
             \<and> (case codes of None \<Rightarrow> True | Some cs \<Rightarrow> rc_reason_code r = [] \<or> rc_reason_code r \<in> set cs) then None
          else if rc_task_id r \<noteq> tid \<or> rc_receipt_id r \<noteq> rid \<or> dg_task_id g \<noteq> tid \<or> dg_receipt_id g \<noteq> rid
             \<or> dg_decision g \<noteq> rc_decision r \<or> dg_payload_hash g \<noteq> payload
             \<or> dg_build_commit g = [] \<or> dg_nonce g = [] then None
          else case (dg_issued_at g, dg_expires_at g) of
                 (Some i, Some e) \<Rightarrow> if i \<le> clock \<and> clock < e \<and> i < e then Some (dg_nonce g) else None
               | _ \<Rightarrow> None)"

definition signed_check :: "deployment \<Rightarrow> time \<Rightarrow> queue \<Rightarrow> string \<Rightarrow> gate_config \<Rightarrow> string option" where
  "signed_check dp clock q tid cfg =
     (case (task_of q tid, receipt_for_task q tid) of
        (Some t, (Some rid, Some r)) \<Rightarrow> verify_grant dp clock r tid rid (dp_payload_hash dp t) (gc_enforce_codes cfg)
      | _ \<Rightarrow> None)"

section \<open>The claim gate\<close>

definition report_legacy_row :: "string \<Rightarrow> string \<Rightarrow> time \<Rightarrow> queue \<Rightarrow> queue" where
  "report_legacy_row tid point clock q = append_exec_event tid ''cea_legacy_row'' clock (Some point) q"

definition claim_gate :: "deployment \<Rightarrow> time \<Rightarrow> queue \<Rightarrow> string \<Rightarrow> string \<Rightarrow> string \<Rightarrow> gate_outcome option" where
  "claim_gate dp clock q tid agent role =
     (case snd (receipt_for_task q tid) of None \<Rightarrow> None
      | Some r \<Rightarrow>
          let cfg = cea_config_for_receipt dp (Some r);
              claimant = (if agent \<noteq> [] then Some agent else if role \<noteq> [] then Some role else None)
          in if \<not> recording (gc_mode cfg) then Some (gate_off At_Claim (Some r))
             else Some (gate_claim cfg clock (Typed r) claimant
                    (engine_current_inputs (dp_engine dp) r (default_inputs\<lparr>ci_claimant := claimant\<rparr>))))"

text \<open>\<open>pending \<rightarrow> in_progress\<close>, with its exec-state columns and its event.\<close>

definition some_text :: "string \<Rightarrow> string option" where
  "some_text s = (if s = [] then None else Some s)"

definition take_row ::
  "deployment \<Rightarrow> time \<Rightarrow> string \<Rightarrow> string \<Rightarrow> string \<Rightarrow> string \<Rightarrow> queue \<Rightarrow> queue" where
  "take_row dp clock tid agent role via q =
     append_exec_event tid ''claimed'' clock (some_text agent)
       (update_task tid (\<lambda>t. t\<lparr>tk_status := In_Progress, tk_last_activity_at := clock, tk_claim_source := via,
            tk_exec := (tk_exec t)\<lparr>xs_claimed_at := Some clock, xs_claimed_by_role := some_text role,
              xs_claimed_by_agent := some_text agent, xs_claimed_via := some_text via,
              xs_claim_build := dp_build dp\<rparr>\<rparr>) q)"

text \<open>
  \<open>claim_through_gate\<close>: (claimed, the gate's answer) and the queue; when it is not claimed the caller
  rolls back, so the queue is the one before.
\<close>

definition claim_config :: "deployment \<Rightarrow> queue \<Rightarrow> string \<Rightarrow> gate_config" where
  "claim_config dp q tid =
     (case snd (receipt_for_task q tid) of
        Some r \<Rightarrow> cea_config_for_receipt dp (Some r)
      | None \<Rightarrow> cea_config dp (case task_of q tid of None \<Rightarrow> [] | Some t \<Rightarrow> tk_project t))"

definition spend_grant ::
  "deployment \<Rightarrow> time \<Rightarrow> queue \<Rightarrow> string \<Rightarrow> queue option" where
  "spend_grant dp clock q tid =
     (let cfg = claim_config dp q tid; signed = signed_check dp clock q tid cfg
      in if gc_mode cfg = ENFORCE
         then (case signed of None \<Rightarrow> None
               | Some nonce \<Rightarrow>
                   if nonce \<in> fst ` set (q_spent_grants q) then None
                   else Some (q\<lparr>q_spent_grants := q_spent_grants q
                          @ [(nonce, the (fst (receipt_for_task q tid)))]\<rparr>))
         else if gc_mode cfg = TEST
         then Some (append_exec_event tid ''signed_receipt_check'' clock
                (Some (if signed = None then ''REFUSED_UNSIGNED_RECEIPT'' else ''VALID'')) q)
         else Some q)"

definition claim_through_gate ::
  "deployment \<Rightarrow> time \<Rightarrow> queue \<Rightarrow> string \<Rightarrow> string \<Rightarrow> string \<Rightarrow> string \<Rightarrow> (bool \<times> gate_outcome option) \<times> queue" where
  "claim_through_gate dp clock q tid agent role via =
     (case spend_grant dp clock q tid of
        None \<Rightarrow> ((False, None), q)
      | Some q1 \<Rightarrow>
          (case claim_gate dp clock q1 tid agent role of
             None \<Rightarrow>
               if enforcing_code (cea_config dp []) None then ((False, None), q)
               else let q2 = (if recording (gc_mode (cea_config dp [])) then report_legacy_row tid ''claim'' clock q1 else q1)
                    in ((True, None), take_row dp clock tid agent role via q2)
           | Some g \<Rightarrow>
               if \<not> go_proceed g then ((False, Some g), q)
               else ((True, Some g),
                     move_receipt dp clock (vr_receipt_id (go_result g)) ''CLAIMED''
                       (gate_memo ''claim'' g) id
                       (take_row dp clock tid agent role via q1))))"

section \<open>Dequeue\<close>

definition role_to_type :: "string \<Rightarrow> string option" where
  "role_to_type = map_of [(''coder'', ''implement''), (''implementer'', ''implement''), (''reviewer'', ''review''),
     (''tester'', ''test''), (''panel'', ''discuss'')]"

text \<open>\<open>ORDER BY priority ASC, created_at ASC LIMIT 1\<close>; the earlier row on a tie.\<close>

definition before :: "task_row \<Rightarrow> task_row \<Rightarrow> bool" where
  "before a b \<longleftrightarrow> tk_priority a < tk_priority b \<or> (tk_priority a = tk_priority b \<and> tk_created_at a \<le> tk_created_at b)"

fun first_row :: "task_row list \<Rightarrow> task_row option" where
  "first_row [] = None"
| "first_row (r # rs) =
     (case first_row rs of None \<Rightarrow> Some r | Some b \<Rightarrow> Some (if before r b then r else b))"

definition deferred :: "time \<Rightarrow> bool \<Rightarrow> task_row \<Rightarrow> bool" where
  "deferred clock skip_deferred t =
     (let until = (case tc_push_not_before (tk_context t) of None \<Rightarrow> 0 | Some x \<Rightarrow> x)
      in if skip_deferred then clock < until
         else (case tc_push_refusal_reason (tk_context t) of None \<Rightarrow> False
               | Some r \<Rightarrow> r = ''codex_capacity'' \<or> r = ''prep_transient'') \<and> clock < until)"

text \<open>The pending reviews the agent's family implemented itself are skipped.\<close>

definition own_work :: "string \<Rightarrow> task_row \<Rightarrow> bool" where
  "own_work agent t \<longleftrightarrow>
     agent \<noteq> [] \<and> tk_status t = Pending \<and> tk_type t = ''review''
     \<and> (case tc_implementer_agent (tk_context t) of None \<Rightarrow> False
        | Some impl \<Rightarrow> impl \<noteq> [] \<and> provider_family impl = provider_family agent)"

record claim_request =
  cr_agent :: string
  cr_role :: string
  cr_via :: string
  cr_skip_task_ids :: "string list"
  cr_skip_deferred :: bool
  cr_role_to_agent :: "(string \<times> string) list option"
  cr_override_task_type :: "string option"
  cr_independent_review_only :: bool

definition claimable :: "time \<Rightarrow> claim_request \<Rightarrow> task_row \<Rightarrow> bool" where
  "claimable clock cr t \<longleftrightarrow>
     tk_status t = Pending \<and> \<not> deferred clock (cr_skip_deferred cr) t
     \<and> tk_id t \<notin> set (cr_skip_task_ids cr) \<and> \<not> own_work (cr_agent cr) t"

definition pick :: "time \<Rightarrow> claim_request \<Rightarrow> (task_row \<Rightarrow> bool) \<Rightarrow> queue \<Rightarrow> task_row option" where
  "pick clock cr p q = first_row (filter (\<lambda>t. claimable clock cr t \<and> p t) (q_tasks q))"

datatype no_row = Nothing_To_Claim | Unknown_Role

text \<open>The row \<open>dequeue\<close> chooses: the agent's own overrides first, then its role, then anything.\<close>

definition bound_type :: "claim_request \<Rightarrow> string option" where
  "bound_type cr = (if cr_agent cr \<in> set role_bound_providers then role_to_type (cr_role cr) else None)"

definition override_row :: "time \<Rightarrow> claim_request \<Rightarrow> queue \<Rightarrow> task_row option" where
  "override_row clock cr q =
     (if cr_agent cr = [] \<or> (cr_agent cr \<in> set role_bound_providers \<and> bound_type cr = None) then None
      else pick clock cr (\<lambda>t. tc_agent_override (tk_context t) = Some (cr_agent cr)
             \<and> (bound_type cr = None \<or> Some (tk_type t) = bound_type cr)
             \<and> (cr_override_task_type cr \<in> {None, Some []} \<or> Some (tk_type t) = cr_override_task_type cr)) q)"

definition role_row :: "time \<Rightarrow> claim_request \<Rightarrow> queue \<Rightarrow> no_row + task_row" where
  "role_row clock cr q =
     (case role_to_type (cr_role cr) of None \<Rightarrow> Inl Unknown_Role
      | Some ty \<Rightarrow>
          (case pick clock cr (\<lambda>t. tk_type t = ty
                  \<and> (cr_agent cr = [] \<or> tc_agent_override (tk_context t) \<in> {None, Some (cr_agent cr)})) q of
             None \<Rightarrow> Inl Nothing_To_Claim | Some t \<Rightarrow> Inr t))"

definition choose_row :: "deployment \<Rightarrow> time \<Rightarrow> claim_request \<Rightarrow> queue \<Rightarrow> no_row + task_row" where
  "choose_row dp clock cr q =
     (let found = (\<lambda>r. case r of None \<Rightarrow> Inl Nothing_To_Claim | Some t \<Rightarrow> Inr t)
      in if cr_agent cr \<noteq> [] \<and> cr_independent_review_only cr
         then (if cr_role cr \<noteq> ''reviewer'' then Inl Nothing_To_Claim
               else case pick clock cr (\<lambda>t. tk_type t = ''review'' \<and> tc_agent_override (tk_context t) = Some (cr_agent cr)
                         \<and> tc_review_binding (tk_context t) = Some (cr_agent cr)) q of
                      None \<Rightarrow> Inl Nothing_To_Claim | Some t \<Rightarrow> Inr t)
         else if (case bound_type cr of None \<Rightarrow> False
                  | Some ty \<Rightarrow> \<not> holds_task_type (dp_state_file dp) (cr_agent cr) ty (cr_role_to_agent cr))
         then Inl Nothing_To_Claim
         else case override_row clock cr q of Some t \<Rightarrow> Inr t
         | None \<Rightarrow>
             if cr_role cr \<noteq> [] then role_row clock cr q
             else if cr_agent cr = [] then found (pick clock cr (\<lambda>t. True) q)
             else Inl Nothing_To_Claim)"

datatype claim_result = Claimed task_row | No_Claim | Role_Unknown

text \<open>
  \<open>dequeue\<close>: the stop is read before and again inside the transaction (the pause files may have been
  armed in between); what the second reading writes is rolled back when it refuses.
\<close>

definition dequeue ::
  "deployment \<Rightarrow> time \<Rightarrow> pauses \<Rightarrow> pauses \<Rightarrow> claim_request \<Rightarrow> queue \<Rightarrow> claim_result \<times> queue" where
  "dequeue dp clock ps ps2 cr q =
     (let (stopped, sw) = stop_active clock ps (q_switch q) At_Claim; q1 = q\<lparr>q_switch := sw\<rparr>
      in if stopped then (No_Claim, q1)
         else let (stopped2, sw2) = stop_active clock ps2 sw At_Claim
              in if stopped2 then (No_Claim, q1)
                 else case choose_row dp clock cr q1 of
                        Inl Unknown_Role \<Rightarrow> (Role_Unknown, q1)
                      | Inl Nothing_To_Claim \<Rightarrow> (No_Claim, q1)
                      | Inr t \<Rightarrow>
                          let ((claimed, g), q2) = claim_through_gate dp clock (q1\<lparr>q_switch := sw2\<rparr>) (tk_id t)
                                (cr_agent cr) (cr_role cr) (cr_via cr)
                          in if claimed then (Claimed t, q2) else (No_Claim, q1))"

text \<open>\<open>dequeue_discuss_for_agent\<close>: the first discussion named to the agent.\<close>

definition discuss_row :: "time \<Rightarrow> bool \<Rightarrow> string \<Rightarrow> queue \<Rightarrow> task_row option" where
  "discuss_row clock skip_deferred agent q =
     first_row (filter (\<lambda>t. tk_status t = Pending \<and> tk_type t = ''discuss'' \<and> \<not> deferred clock skip_deferred t
                          \<and> tc_agent (tk_context t) = Some agent) (q_tasks q))"

definition dequeue_discuss_for_agent ::
  "deployment \<Rightarrow> time \<Rightarrow> pauses \<Rightarrow> pauses \<Rightarrow> string \<Rightarrow> string \<Rightarrow> bool \<Rightarrow> queue \<Rightarrow> claim_result \<times> queue" where
  "dequeue_discuss_for_agent dp clock ps ps2 agent via skip_deferred q =
     (let (stopped, sw) = stop_active clock ps (q_switch q) At_Claim; q1 = q\<lparr>q_switch := sw\<rparr>
      in if stopped then (No_Claim, q1)
         else let (stopped2, sw2) = stop_active clock ps2 sw At_Claim
              in if stopped2 then (No_Claim, q1)
                 else case discuss_row clock skip_deferred agent q1 of None \<Rightarrow> (No_Claim, q1)
                 | Some t \<Rightarrow>
                     let ((claimed, g), q2) = claim_through_gate dp clock (q1\<lparr>q_switch := sw2\<rparr>) (tk_id t)
                           agent ''discuss'' via
                     in if claimed then (Claimed t, q2) else (No_Claim, q1))"

end
