(* ===== verification/Work_Intents.thy ===== *)
theory Work_Intents
  imports Tasks
begin

text \<open>
  Work intents of \<open>queue.py\<close>: an external operation, the tasks bound to it, and the rule that closes it.
  A retry lifts the veto of a dead task only when the system constructed it; a fix lifts the veto of a
  review only when the re-review descends from it through a completed implement task.
  A lineage key whose value is neither a string nor a number is stood for by its JSON text.
\<close>

section \<open>Contexts\<close>

definition ctx_key :: "task_context \<Rightarrow> string \<Rightarrow> json" where
  "ctx_key ctx k = (case map_of (tc_more ctx) k of None \<Rightarrow> JNull | Some v \<Rightarrow> v)"

definition set_key :: "string \<Rightarrow> json \<Rightarrow> task_context \<Rightarrow> task_context" where
  "set_key k v ctx = ctx\<lparr>tc_more := (k, v) # filter (\<lambda>e. fst e \<noteq> k) (tc_more ctx)\<rparr>"

text \<open>\<open>str(value or "").strip()\<close>\<close>

fun key_text :: "json \<Rightarrow> string" where
  "key_text (JStr s) = py_strip s"
| "key_text (JInt i) = (if i = 0 then [] else show_int i)"
| "key_text (JBool b) = (if b then ''True'' else [])"
| "key_text JNull = []"
| "key_text (JArr xs) = (if xs = [] then [] else canonical_json (JArr xs))"
| "key_text (JObj kvs) = (if kvs = [] then [] else canonical_json (JObj kvs))"

definition lineage_parent_keys :: "string list" where
  "lineage_parent_keys = [''retry_of'', ''fallback_of'', ''fallback_from_task_id'']"

definition lineage_parent :: "task_context \<Rightarrow> string" where
  "lineage_parent ctx =
     (case filter (\<lambda>p. p \<noteq> []) (map (\<lambda>k. key_text (ctx_key ctx k)) lineage_parent_keys
             @ [case tc_original_task_id ctx of None \<Rightarrow> [] | Some s \<Rightarrow> py_strip s]) of
        [] \<Rightarrow> [] | p # _ \<Rightarrow> p)"

definition lineage_max_depth :: nat where
  "lineage_max_depth = 16"

fun first_text :: "json list \<Rightarrow> string" where
  "first_text [] = []"
| "first_text (v # vs) = (case v of JStr s \<Rightarrow> if s = [] then first_text vs else s | _ \<Rightarrow> first_text vs)"

definition work_revision :: "task_context \<Rightarrow> string" where
  "work_revision ctx = first_text [ctx_key ctx ''reviewed_sha'', ctx_key ctx ''expected_head_sha'']"

section \<open>Superseded rounds and resolved reviews\<close>

text \<open>\<open>_bound_ancestors\<close>: the chain of \<open>prev_task_id\<close> within the bound rows, stopping at a cycle.\<close>

function bound_ancestors :: "task_row list \<Rightarrow> string list \<Rightarrow> string option \<Rightarrow> task_row list" where
  "bound_ancestors rows seen current =
     (case current of None \<Rightarrow> []
      | Some i \<Rightarrow>
          (case row_of tk_id i rows of None \<Rightarrow> []
           | Some r \<Rightarrow> if i \<in> set seen then []
                       else r # bound_ancestors rows (i # seen) (tc_prev_task_id (tk_context r))))"
  by pat_completeness auto

termination
proof (relation "measure (\<lambda>(rows, seen, current). card (tk_id ` set rows - set seen))")
  fix rows :: "task_row list" and seen current i r
  assume "row_of tk_id i rows = Some r" "i \<notin> set seen"
  then have "i \<in> tk_id ` set rows - set seen" by (auto dest!: row_of_SomeD)
  then have "card (tk_id ` set rows - set seen - {i}) < card (tk_id ` set rows - set seen)"
    by (intro card_Diff1_less) auto
  then show "((rows, i # seen, tc_prev_task_id (tk_context r)), rows, seen, current)
      \<in> measure (\<lambda>(rows, seen, current). card (tk_id ` set rows - set seen))"
    by (simp add: Diff_insert [symmetric] Diff_insert2 [symmetric])
qed simp

declare bound_ancestors.simps [simp del]

text \<open>\<open>_SUPERSEDABLE_STATUSES\<close>: \<open>needs_human\<close> is not among them.\<close>

definition supersedable :: "task_status \<Rightarrow> bool" where
  "supersedable st \<longleftrightarrow> st \<in> {Failed, Timed_Out, Cancelled}"

definition treatment :: "(string \<times> string \<times> string) list \<Rightarrow> string \<Rightarrow> (string \<times> string) option" where
  "treatment tr i = (case map_of tr i of None \<Rightarrow> None
     | Some (scope, digest) \<Rightarrow> if scope = [] \<or> digest = [] then None else Some (scope, digest))"

text \<open>May the completed task stand in for the dead one?\<close>

definition covers :: "(string \<times> string \<times> string) list \<Rightarrow> task_row \<Rightarrow> task_row \<Rightarrow> bool" where
  "covers tr other dead \<longleftrightarrow>
     supersedable (tk_status dead) \<and> tk_type dead = tk_type other
     \<and> work_revision (tk_context dead) = work_revision (tk_context other)
     \<and> (treatment tr (tk_id dead) = None \<or> treatment tr (tk_id other) = None
        \<or> treatment tr (tk_id dead) = treatment tr (tk_id other))"

text \<open>The rows on the chain of declared parents, sixteen at most.\<close>

fun parents_walk :: "nat \<Rightarrow> task_row list \<Rightarrow> string list \<Rightarrow> string \<Rightarrow> task_row list" where
  "parents_walk 0 rows seen parent = []"
| "parents_walk (Suc n) rows seen parent =
     (if parent = [] \<or> parent \<in> set seen then []
      else case row_of tk_id parent rows of None \<Rightarrow> []
           | Some r \<Rightarrow> r # parents_walk n rows (parent # seen) (lineage_parent (tk_context r)))"

definition superseded_tasks :: "(string \<times> string \<times> string) list \<Rightarrow> task_row list \<Rightarrow> string list" where
  "superseded_tasks tr rows =
     concat (map (\<lambda>other. if tk_status other \<noteq> Completed then []
        else map tk_id (filter (covers tr other)
               (parents_walk lineage_max_depth rows [] (lineage_parent (tk_context other))))) rows)"

text \<open>The reviews behind a later review with a completed implement between.\<close>

fun corrected_reviews :: "bool \<Rightarrow> task_row list \<Rightarrow> string list" where
  "corrected_reviews corrected [] = []"
| "corrected_reviews corrected (r # rs) =
     (if tk_type r = ''implement'' \<and> tk_status r = Completed then corrected_reviews True rs
      else if tk_type r = ''review'' \<and> corrected then tk_id r # corrected_reviews corrected rs
      else corrected_reviews corrected rs)"

definition completed_reviews :: "task_row list \<Rightarrow> task_row list" where
  "completed_reviews rows = filter (\<lambda>r. tk_type r = ''review'' \<and> tk_status r = Completed) rows"

definition resolved_reviews :: "task_row list \<Rightarrow> string list" where
  "resolved_reviews rows =
     concat (map (\<lambda>r. corrected_reviews False (tl (bound_ancestors rows [] (Some (tk_id r))))) (completed_reviews rows))"

definition review_requires_fix :: "task_row list \<Rightarrow> bool" where
  "review_requires_fix rows \<longleftrightarrow>
     list_ex (\<lambda>r. tk_verdict r = Some ''request_changes'' \<and> tk_id r \<notin> set (resolved_reviews rows)) (completed_reviews rows)"

section \<open>Closing an intent\<close>

definition intent_of :: "queue \<Rightarrow> string \<Rightarrow> work_intent option" where
  "intent_of q op = row_of wi_id op (q_intents q)"

definition intent_state :: "queue \<Rightarrow> string \<Rightarrow> intent_state option" where
  "intent_state q op = map_option wi_state (intent_of q op)"

definition update_intent :: "string \<Rightarrow> (work_intent \<Rightarrow> work_intent) \<Rightarrow> queue \<Rightarrow> queue" where
  "update_intent op f q = q\<lparr>q_intents := map (\<lambda>w. if wi_id w = op then f w else w) (q_intents q)\<rparr>"

definition bound_rows :: "queue \<Rightarrow> work_intent \<Rightarrow> task_row list" where
  "bound_rows q w = filter (\<lambda>t. tk_id t \<in> set (wi_task_ids w)) (q_tasks q)"

definition all_completed :: "queue \<Rightarrow> work_intent \<Rightarrow> bool" where
  "all_completed q w \<longleftrightarrow>
     length (bound_rows q w) = length (wi_task_ids w)
     \<and> list_all (\<lambda>r. tk_status r = Completed \<or> tk_id r \<in> set (superseded_tasks (q_treatments q) (bound_rows q w)))
         (bound_rows q w)"

definition intent_succeeded :: "queue \<Rightarrow> work_intent \<Rightarrow> bool" where
  "intent_succeeded q w \<longleftrightarrow>
     all_completed q w
     \<and> list_ex (\<lambda>r. tk_type r = ''test'' \<and> tk_status r = Completed) (bound_rows q w)
     \<and> \<not> review_requires_fix (bound_rows q w)"

definition unsuccessful_rows :: "queue \<Rightarrow> work_intent \<Rightarrow> task_row list" where
  "unsuccessful_rows q w =
     filter (\<lambda>r. tk_id r \<notin> set (superseded_tasks (q_treatments q) (bound_rows q w))
        \<and> tk_status r \<in> {Failed, Timed_Out, Cancelled, Needs_Human, Blocked_Task}) (bound_rows q w)"

definition intent_failed :: "queue \<Rightarrow> work_intent \<Rightarrow> bool" where
  "intent_failed q w \<longleftrightarrow>
     unsuccessful_rows q w \<noteq> []
     \<and> \<not> list_ex (\<lambda>r. tk_status r \<in> {Pending, In_Progress}) (bound_rows q w)"

definition result_authority :: string where
  "result_authority = ''agent_crew:task_result''"

definition success_reason :: "string list \<Rightarrow> string" where
  "success_reason superseded =
     (if superseded = [] then ''all bound tasks completed; terminal test completed''
      else ''all bound tasks completed or superseded by a completed retry (''
           @ concat (map (\<lambda>i. i @ '', '') (butlast (sort (remdups superseded)))) @ last (sort (remdups superseded))
           @ ''); terminal test completed'')"

definition failed_blocker :: "time \<Rightarrow> queue \<Rightarrow> work_intent \<Rightarrow> intent_blocker" where
  "failed_blocker clock q w =
     \<lparr>bl_type = ''bound_tasks_unsuccessful'',
      bl_reason = ''all active bound work ended; ''
        @ (let es = map (\<lambda>r. tk_id r @ ''='' @ status_text (tk_status r)) (sort_key tk_id (unsuccessful_rows q w))
           in concat (map (\<lambda>e. e @ '', '') (butlast es)) @ last es),
      bl_unblock_action = ''retry/bind a successor task or reject the operation'',
      bl_owner = wi_coordinator w, bl_next_check_at = clock + wi_slo w\<rparr>"

definition close_intent :: "time \<Rightarrow> queue \<Rightarrow> work_intent \<Rightarrow> work_intent" where
  "close_intent clock q w =
     (if wi_state w \<noteq> Bound then w
      else if intent_succeeded q w
      then w\<lparr>wi_state := Success, wi_blocker := None,
             wi_reason := Some (success_reason (superseded_tasks (q_treatments q) (bound_rows q w))),
             wi_authority := Some result_authority, wi_last_progress_at := clock, wi_next_check_at := None\<rparr>
      else if intent_failed q w
      then w\<lparr>wi_state := Intent_Blocked, wi_blocker := Some (failed_blocker clock q w),
             wi_reason := Some (bl_reason (failed_blocker clock q w)), wi_authority := Some result_authority,
             wi_last_progress_at := clock, wi_next_check_at := Some (clock + wi_slo w)\<rparr>
      else w)"

text \<open>\<open>_terminalize_work_intent_on\<close>, run by every accepted result and every late bind.\<close>

definition terminalize_intent :: "string \<Rightarrow> time \<Rightarrow> queue \<Rightarrow> queue" where
  "terminalize_intent tid clock q =
     (case task_of q tid of None \<Rightarrow> q
      | Some t \<Rightarrow>
          (case tc_external_operation_id (tk_context t) of None \<Rightarrow> q
           | Some op \<Rightarrow>
               if op = [] then q
               else case intent_of q op of None \<Rightarrow> q
                    | Some w \<Rightarrow> if tid \<notin> set (wi_task_ids w) then q
                                else update_intent op (close_intent clock q) q))"

section \<open>Admission and binding\<close>

datatype intent_error =
    Invalid_Target | Target_Conflict | Target_Needs_Taskless | Intent_Missing | Project_Differs | Intent_Terminal
  | Bound_Elsewhere | Repo_Differs | Issue_Differs | Tier_Invalid | Task_Inactive task_status | Predates_Intent
  | Invalid_Decision | Blocker_Invalid | Reason_Required | Intent_Exists

definition intent_done :: "intent_state \<Rightarrow> bool" where
  "intent_done st \<longleftrightarrow> st \<in> {Rejected, Superseded_Intent, Success}"

record intent_request =
  ir_id :: string
  ir_project :: string
  ir_repo :: string
  ir_issue :: "int option"
  ir_target :: "(string \<times> int) option"
  ir_coordinator :: string
  ir_priority :: int
  ir_risk_tier :: int
  ir_slo :: time

definition owner_gate_blocker :: "time \<Rightarrow> intent_request \<Rightarrow> intent_blocker" where
  "owner_gate_blocker clock ir =
     \<lparr>bl_type = ''human_gate'', bl_reason = ''owner approval required'',
      bl_unblock_action = ''approve the task admission gate'', bl_owner = ir_coordinator ir,
      bl_next_check_at = clock + ir_slo ir\<rparr>"

definition new_intent :: "time \<Rightarrow> intent_request \<Rightarrow> string option \<Rightarrow> bool \<Rightarrow> work_intent" where
  "new_intent clock ir tid blocked =
     \<lparr>wi_id = ir_id ir, wi_project = ir_project ir, wi_repo = ir_repo ir, wi_issue = ir_issue ir,
      wi_target = ir_target ir, wi_received_at = clock,
      wi_task_ids = (case tid of None \<Rightarrow> [] | Some i \<Rightarrow> [i]), wi_coordinator = ir_coordinator ir,
      wi_priority = ir_priority ir, wi_risk_tier = ir_risk_tier ir,
      wi_state = (if blocked then Intent_Blocked else if tid \<noteq> None then Bound else Admitted),
      wi_blocker = (if blocked then Some (owner_gate_blocker clock ir) else None), wi_last_progress_at = clock,
      wi_slo = ir_slo ir,
      wi_next_check_at = (if blocked \<or> tid = None then Some (clock + ir_slo ir) else None),
      wi_reason = None, wi_authority = None, wi_escalated_at = None\<rparr>"

text \<open>\<open>_insert_work_intent_on\<close>; the identifier is the primary key.\<close>

definition insert_intent :: "time \<Rightarrow> intent_request \<Rightarrow> string option \<Rightarrow> bool \<Rightarrow> queue \<Rightarrow> intent_error + queue" where
  "insert_intent clock ir tid blocked q =
     (if intent_of q (ir_id ir) \<noteq> None then Inl Intent_Exists
      else Inr (q\<lparr>q_intents := q_intents q @ [new_intent clock ir tid blocked]\<rparr>))"

definition rebound :: "time \<Rightarrow> string \<Rightarrow> work_intent \<Rightarrow> work_intent" where
  "rebound clock tid w =
     w\<lparr>wi_task_ids := (if tid \<in> set (wi_task_ids w) then wi_task_ids w else wi_task_ids w @ [tid]),
       wi_state := Bound, wi_blocker := None, wi_last_progress_at := clock, wi_next_check_at := None\<rparr>"

text \<open>\<open>_bind_work_intent_on\<close>\<close>

definition bind_on :: "time \<Rightarrow> string \<Rightarrow> string \<Rightarrow> string option \<Rightarrow> queue \<Rightarrow> intent_error + queue" where
  "bind_on clock op tid project q =
     (case intent_of q op of None \<Rightarrow> Inl Intent_Missing
      | Some w \<Rightarrow>
          if project \<noteq> None \<and> Some (wi_project w) \<noteq> project then Inl Project_Differs
          else if intent_done (wi_state w) then Inl Intent_Terminal
          else Inr (update_intent op (rebound clock tid) q))"

definition set_target :: "time \<Rightarrow> string \<Rightarrow> (string \<times> int) \<Rightarrow> queue \<Rightarrow> queue" where
  "set_target clock op target q =
     append_exec_event (''work-intent:'' @ op) ''work_intent_target_set'' clock (Some (fst target))
       (update_intent op (\<lambda>w. w\<lparr>wi_target := Some target\<rparr>) q)"

text \<open>\<open>admit_work_intent\<close> without a first task: a replay returns the stored intent.\<close>

definition admit_intent :: "time \<Rightarrow> intent_request \<Rightarrow> queue \<Rightarrow> (intent_error + work_intent) \<times> queue" where
  "admit_intent clock ir q =
     (let answer = (\<lambda>q. (case intent_of q (ir_id ir) of None \<Rightarrow> Inl Intent_Missing | Some w \<Rightarrow> Inr w, q))
      in if (case ir_target ir of None \<Rightarrow> False | Some (repo, n) \<Rightarrow> py_strip repo = [] \<or> n \<le> 0) then (Inl Invalid_Target, q)
         else case intent_of q (ir_id ir) of
           None \<Rightarrow> (case insert_intent clock ir None False q of Inl e \<Rightarrow> (Inl e, q) | Inr q1 \<Rightarrow> answer q1)
         | Some w \<Rightarrow>
             (case ir_target ir of None \<Rightarrow> (Inr w, q)
              | Some target \<Rightarrow>
                  if wi_target w \<noteq> None
                  then (if wi_target w = Some target then answer q else (Inl Target_Conflict, q))
                  else if wi_task_ids w = [] \<and> \<not> intent_done (wi_state w) \<and> wi_project w = ir_project ir
                     \<and> wi_repo w = ir_repo ir \<and> wi_issue w = ir_issue ir \<and> wi_coordinator w = ir_coordinator ir
                  then answer (set_target clock (ir_id ir) target q)
                  else answer q))"

text \<open>Equality of Python: a bool is a number.\<close>

fun number_of :: "json \<Rightarrow> int option" where
  "number_of (JInt i) = Some i"
| "number_of (JBool b) = Some (if b then 1 else 0)"
| "number_of _ = None"

definition py_eq :: "json \<Rightarrow> json \<Rightarrow> bool" where
  "py_eq a b = (if number_of a \<noteq> None \<and> number_of b \<noteq> None then number_of a = number_of b else a = b)"

definition json_int_opt :: "int option \<Rightarrow> json" where
  "json_int_opt i = (case i of None \<Rightarrow> JNull | Some n \<Rightarrow> JInt n)"

text \<open>\<open>context.get(key, default)\<close>\<close>

definition ctx_or :: "task_context \<Rightarrow> string \<Rightarrow> json \<Rightarrow> json" where
  "ctx_or ctx k d = (case map_of (tc_more ctx) k of None \<Rightarrow> d | Some v \<Rightarrow> v)"

definition ctx_issue :: "work_intent \<Rightarrow> task_context \<Rightarrow> json" where
  "ctx_issue w ctx = ctx_or ctx ''issue'' (json_int_opt (wi_issue w))"

definition ctx_repo :: "work_intent \<Rightarrow> task_context \<Rightarrow> json" where
  "ctx_repo w ctx = ctx_or ctx ''repo'' (JStr (wi_repo w))"

definition ctx_tier :: "work_intent \<Rightarrow> task_context \<Rightarrow> json" where
  "ctx_tier w ctx = ctx_or ctx ''risk_tier'' (JInt (wi_risk_tier w))"

definition same_issue :: "work_intent \<Rightarrow> task_context \<Rightarrow> bool" where
  "same_issue w ctx \<longleftrightarrow> py_eq (ctx_issue w ctx) (json_int_opt (wi_issue w)) \<and> ctx_repo w ctx = JStr (wi_repo w)"

definition on_target :: "work_intent \<Rightarrow> task_context \<Rightarrow> bool" where
  "on_target w ctx \<longleftrightarrow>
     (case wi_target w of None \<Rightarrow> False
      | Some (repo, n) \<Rightarrow> ctx_key ctx ''repo'' = JStr repo \<and> ctx_key ctx ''issue'' = JInt n)"

definition tier_ok :: "work_intent \<Rightarrow> task_context \<Rightarrow> bool" where
  "tier_ok w ctx = (case ctx_tier w ctx of JInt i \<Rightarrow> 0 \<le> i \<and> i \<le> 3 \<and> i \<le> wi_risk_tier w | _ \<Rightarrow> False)"

definition unbound_or :: "string \<Rightarrow> task_context \<Rightarrow> bool" where
  "unbound_or op ctx \<longleftrightarrow> tc_external_operation_id ctx \<in> {None, Some op}"

definition bound_ctx :: "work_intent \<Rightarrow> task_context \<Rightarrow> task_context" where
  "bound_ctx w ctx =
     (set_key ''repo'' (ctx_repo w ctx) (set_key ''issue'' (ctx_issue w ctx)
        (set_key ''risk_tier'' (ctx_tier w ctx) ctx)))\<lparr>tc_external_operation_id := Some (wi_id w)\<rparr>"

definition bind_error :: "work_intent \<Rightarrow> task_row \<Rightarrow> intent_error option" where
  "bind_error w t =
     (let ctx = tk_context t in
      if tk_project t \<noteq> wi_project w then Some Project_Differs
      else if \<not> unbound_or (wi_id w) ctx then Some Bound_Elsewhere
      else if \<not> same_issue w ctx \<and> \<not> on_target w ctx
      then Some (if (case wi_target w of None \<Rightarrow> ctx_repo w ctx \<noteq> JStr (wi_repo w) \<and> ctx_repo w ctx \<noteq> JNull
                     | Some (repo, n) \<Rightarrow>
                         (py_eq (ctx_issue w ctx) (JInt n) \<and> ctx_repo w ctx \<noteq> JStr repo)
                         \<or> (ctx_repo w ctx \<noteq> JStr (wi_repo w) \<and> ctx_repo w ctx \<noteq> JStr repo))
                 then Repo_Differs else Issue_Differs)
      else if \<not> tier_ok w ctx then Some Tier_Invalid
      else if tk_status t \<notin> {Pending, In_Progress, Completed} then Some (Task_Inactive (tk_status t))
      else if tk_status t = Completed \<and> tk_created_at t < wi_received_at w
           \<and> tc_external_operation_id ctx \<noteq> Some (wi_id w) then Some Predates_Intent
      else None)"

definition bindable_child :: "work_intent \<Rightarrow> task_row \<Rightarrow> bool" where
  "bindable_child w u \<longleftrightarrow>
     unbound_or (wi_id w) (tk_context u) \<and> wi_received_at w \<le> tk_created_at u
     \<and> (same_issue w (tk_context u) \<or> on_target w (tk_context u)) \<and> tier_ok w (tk_context u)"

text \<open>The descendants through \<open>prev_task_id\<close>, breadth first; an ineligible one stops its branch.\<close>

definition children_of :: "task_row list \<Rightarrow> string \<Rightarrow> task_row list" where
  "children_of rows parent = filter (\<lambda>u. tc_prev_task_id (tk_context u) = Some parent \<and> parent \<noteq> []) rows"

lemma children_of_rows: "set (children_of rows p) \<subseteq> set rows"
  by (auto simp: children_of_def)

function descendants :: "(task_row \<Rightarrow> bool) \<Rightarrow> task_row list \<Rightarrow> string list \<Rightarrow> string list \<Rightarrow> task_row list" where
  "descendants ok rows seen [] = []"
| "descendants ok rows seen (p # ps) =
     (let fresh = filter (\<lambda>u. tk_id u \<notin> set seen) (children_of rows p); bound = filter ok fresh
      in bound @ descendants ok rows (map tk_id fresh @ seen) (ps @ map tk_id bound))"
  by pat_completeness auto

termination
proof (relation "measures [\<lambda>(ok, rows, seen, ps). card (tk_id ` set rows - set seen), \<lambda>(ok, rows, seen, ps). length ps]")
  fix ok :: "task_row \<Rightarrow> bool" and rows :: "task_row list" and seen p and ps :: "string list" and fresh bound
  assume fresh: "fresh = filter (\<lambda>u. tk_id u \<notin> set seen) (children_of rows p)" and bound: "bound = filter ok fresh"
  let ?left = "\<lambda>seen. tk_id ` set rows - set seen"
  show "((ok, rows, map tk_id fresh @ seen, ps @ map tk_id bound), ok, rows, seen, p # ps)
    \<in> measures [\<lambda>(ok, rows, seen, ps). card (tk_id ` set rows - set seen), \<lambda>(ok, rows, seen, ps). length ps]"
  proof (cases fresh)
    case Nil
    with bound show ?thesis by simp
  next
    case (Cons u us)
    then have "u \<in> set fresh" by simp
    with fresh have "tk_id u \<in> ?left seen" using children_of_rows [of rows p] by auto
    moreover have "tk_id u \<notin> ?left (map tk_id fresh @ seen)" using \<open>u \<in> set fresh\<close> by auto
    ultimately have "?left (map tk_id fresh @ seen) \<subset> ?left seen" by auto
    then have "card (?left (map tk_id fresh @ seen)) < card (?left seen)" by (intro psubset_card_mono) auto
    then show ?thesis by simp
  qed
qed simp

declare descendants.simps(2) [simp del]

definition project_rows :: "queue \<Rightarrow> string \<Rightarrow> task_row list" where
  "project_rows q project =
     sort_key tk_created_at (sort_key tk_id (filter (\<lambda>u. tk_project u = project) (q_tasks q)))"

definition bind_row :: "time \<Rightarrow> work_intent \<Rightarrow> task_row \<Rightarrow> intent_error + queue \<Rightarrow> intent_error + queue" where
  "bind_row clock w t r =
     (case r of Inl e \<Rightarrow> Inl e
      | Inr q \<Rightarrow> bind_on clock (wi_id w) (tk_id t) (Some (tk_project t))
                  (update_task (tk_id t) (\<lambda>u. u\<lparr>tk_context := bound_ctx w (tk_context u)\<rparr>) q))"

definition bind_work_intent :: "time \<Rightarrow> string \<Rightarrow> string \<Rightarrow> queue \<Rightarrow> intent_error + queue" where
  "bind_work_intent clock op tid q =
     (case (task_of q tid, intent_of q op) of
        (Some t, Some w) \<Rightarrow>
          (case bind_error w t of Some e \<Rightarrow> Inl e
           | None \<Rightarrow>
               map_sum id (terminalize_intent tid clock)
                 (fold (bind_row clock w)
                    (t # descendants (bindable_child w) (project_rows q (tk_project t)) [tid] [tid]) (Inr q)))
      | _ \<Rightarrow> Inl Intent_Missing)"

section \<open>Decisions and the watchdog\<close>

definition blocker_ok :: "intent_blocker \<Rightarrow> bool" where
  "blocker_ok b \<longleftrightarrow>
     py_strip (bl_type b) \<noteq> [] \<and> py_strip (bl_reason b) \<noteq> [] \<and> py_strip (bl_unblock_action b) \<noteq> []
     \<and> py_strip (bl_owner b) \<noteq> []"

definition decided :: "time \<Rightarrow> intent_state \<Rightarrow> intent_blocker option \<Rightarrow> string \<Rightarrow> string \<Rightarrow> work_intent \<Rightarrow> work_intent" where
  "decided clock st blocker reason authority w =
     w\<lparr>wi_state := st, wi_blocker := blocker, wi_reason := some_text reason, wi_authority := some_text authority,
       wi_next_check_at := map_option bl_next_check_at blocker, wi_last_progress_at := clock\<rparr>"

definition decide_work_intent ::
  "time \<Rightarrow> string \<Rightarrow> intent_state \<Rightarrow> intent_blocker option \<Rightarrow> string \<Rightarrow> string \<Rightarrow> queue \<Rightarrow> intent_error + queue" where
  "decide_work_intent clock op st blocker reason authority q =
     (if st \<notin> {Intent_Blocked, Superseded_Intent, Rejected} then Inl Invalid_Decision
      else if st = Intent_Blocked \<and> (case blocker of None \<Rightarrow> True | Some b \<Rightarrow> \<not> blocker_ok b) then Inl Blocker_Invalid
      else if st \<noteq> Intent_Blocked \<and> (reason = [] \<or> authority = []) then Inl Reason_Required
      else case intent_of q op of None \<Rightarrow> Inl Intent_Missing
      | Some w \<Rightarrow>
          if wi_state w = Success \<or> (wi_state w \<in> {Rejected, Superseded_Intent} \<and> wi_state w \<noteq> st) then Inl Intent_Terminal
          else Inr (update_intent op (decided clock st blocker reason authority) q))"

datatype intent_notice = Notice_Stalled string | Notice_Blocked_Due string time

definition due :: "time \<Rightarrow> work_intent \<Rightarrow> bool" where
  "due clock w = (case wi_next_check_at w of None \<Rightarrow> False | Some x \<Rightarrow> x \<le> clock)"

definition advance_intent :: "time \<Rightarrow> work_intent \<Rightarrow> work_intent" where
  "advance_intent clock w =
     (if \<not> due clock w then w
      else if wi_state w = Admitted
      then w\<lparr>wi_state := Execution_Stalled, wi_last_progress_at := clock, wi_next_check_at := Some (clock + wi_slo w)\<rparr>
      else if wi_state w = Intent_Blocked then w\<lparr>wi_next_check_at := None\<rparr>
      else if wi_state w = Execution_Stalled \<and> wi_escalated_at w = None
      then w\<lparr>wi_escalated_at := Some clock, wi_next_check_at := None\<rparr>
      else w)"

definition intent_notices :: "time \<Rightarrow> work_intent \<Rightarrow> intent_notice list" where
  "intent_notices clock w =
     (if wi_state w = Execution_Stalled \<or> (wi_state w = Admitted \<and> due clock w) then [Notice_Stalled (wi_id w)]
      else if wi_state w = Intent_Blocked \<and> due clock w
      then [Notice_Blocked_Due (wi_id w) (the (wi_next_check_at w))] else [])"

definition escalations :: "time \<Rightarrow> work_intent list \<Rightarrow> exec_event list" where
  "escalations clock ws =
     map (\<lambda>w. \<lparr>xe_task_id = ''work-intent:'' @ wi_id w, xe_event = ''work_intent_escalated'', xe_at = clock,
              xe_field = Some (wi_id w)\<rparr>)
       (filter (\<lambda>w. wi_state w = Execution_Stalled \<and> due clock w \<and> wi_escalated_at w = None) ws)"

definition advance_work_intents :: "time \<Rightarrow> queue \<Rightarrow> intent_notice list \<times> queue" where
  "advance_work_intents clock q =
     (concat (map (intent_notices clock) (q_intents q)),
      q\<lparr>q_intents := map (advance_intent clock) (q_intents q),
        q_events := q_events q @ escalations clock (q_intents q)\<rparr>)"

end
