(* ===== verification/Values.thy ===== *)
theory Values
  imports Json
begin

text \<open>JSON values as the program reads them: truth, look-up with a default, \<open>int\<close> and the text they print as.\<close>

section \<open>Values as Python reads them\<close>

text \<open>Truth, \<open>d.get(k)\<close> with a default, and \<open>int\<close> of a text: digits with single underscores between them.\<close>

fun json_truthy :: "json \<Rightarrow> bool" where
  "json_truthy JNull = False"
| "json_truthy (JBool b) = b"
| "json_truthy (JInt i) = (i \<noteq> 0)"
| "json_truthy (JStr s) = (s \<noteq> [])"
| "json_truthy (JArr xs) = (xs \<noteq> [])"
| "json_truthy (JObj kvs) = (kvs \<noteq> [])"

definition key_or :: "json \<Rightarrow> (string \<times> json) list \<Rightarrow> string \<Rightarrow> json" where
  "key_or d kvs k = (case map_of kvs k of None \<Rightarrow> d | Some v \<Rightarrow> v)"

fun int_digits :: "bool \<Rightarrow> int \<Rightarrow> string \<Rightarrow> int option" where
  "int_digits after acc [] = (if after then Some acc else None)"
| "int_digits after acc (c # cs) =
     (if is_digit c then int_digits True (acc * 10 + int (of_char c - 48)) cs
      else if c = CHR ''_'' \<and> after \<and> cs \<noteq> [] then int_digits False acc cs
      else None)"

definition int_of_text :: "string \<Rightarrow> int option" where
  "int_of_text s =
     (case s of [] \<Rightarrow> None
      | c # cs \<Rightarrow> if c = CHR ''-'' then map_option uminus (int_digits False 0 cs)
                 else if c = CHR ''+'' then int_digits False 0 cs
                 else int_digits False 0 s)"

text \<open>\<open>int(v)\<close> of a value, and the value in an f-string.\<close>

definition int_value :: "json \<Rightarrow> int option" where
  "int_value v = (case v of JInt i \<Rightarrow> Some i | JBool b \<Rightarrow> Some (if b then 1 else 0) | JStr s \<Rightarrow> int_of_text (py_strip s) | _ \<Rightarrow> None)"

definition shown :: "json \<Rightarrow> string" where
  "shown v = (case v of JStr s \<Rightarrow> s | JNull \<Rightarrow> ''None'' | JBool b \<Rightarrow> (if b then ''True'' else ''False'') | _ \<Rightarrow> canonical_json v)"

end
