(* ===== verification/Cascade.thy ===== *)
theory Cascade
  imports Work_Intents Values
begin

text \<open>
  \<open>risk_tier.py\<close> and \<open>cea/cascade_contract.py\<close>: the declared risk of a task and the review/test contract
  that admission decides from it, stores on the row as JSON and the cascade reads back. Whether the
  enforcement variable is set is an argument. The metadata of a stored record is an object or absent.
\<close>

section \<open>Declared risk\<close>

definition override_tier :: "task_context \<Rightarrow> int option" where
  "override_tier ctx =
     (case ctx_key ctx ''risk_tier'' of JInt i \<Rightarrow> if 0 \<le> i \<and> i \<le> 3 then Some i else None | _ \<Rightarrow> None)"

text \<open>\<open>classify_task\<close>: nothing when the declared tier is invalid; the description has no say.\<close>

definition classify_task :: "string \<Rightarrow> task_context \<Rightarrow> int option" where
  "classify_task description ctx = override_tier ctx"

definition risk_declaration_fields :: "string list" where
  "risk_declaration_fields =
     [''safety_or_live_change'', ''broad_architecture_change'', ''bounded_routine_fix'', ''human_gate_required'']"

record risk_facts =
  rd_facts :: "(string \<times> bool option) list"
  rd_source :: string
  rd_confidence :: "string option"
  rd_inherited_from :: "string option"

definition explicit_facts :: "(string \<times> bool option) list \<Rightarrow> string option \<Rightarrow> risk_facts" where
  "explicit_facts facts inherited =
     \<lparr>rd_facts = facts, rd_source = ''explicit'', rd_confidence = Some ''high'', rd_inherited_from = inherited\<rparr>"

definition empty_risk_declaration :: risk_facts where
  "empty_risk_declaration =
     \<lparr>rd_facts = map (\<lambda>k. (k, None)) risk_declaration_fields, rd_source = ''unknown'', rd_confidence = None,
      rd_inherited_from = None\<rparr>"

definition declared_facts :: "(string \<times> json) list \<Rightarrow> (string \<times> bool option) list" where
  "declared_facts kvs =
     map (\<lambda>k. (k, case map_of kvs k of Some (JBool b) \<Rightarrow> Some b | _ \<Rightarrow> None)) risk_declaration_fields"

definition flag :: "task_context \<Rightarrow> string \<Rightarrow> bool" where
  "flag ctx k \<longleftrightarrow> ctx_key ctx k = JBool True"

definition observed_facts :: "task_context \<Rightarrow> (string \<times> bool option) list" where
  "observed_facts ctx =
     [(''safety_or_live_change'', if flag ctx ''external_impact'' \<or> flag ctx ''irreversible'' then Some True else None),
      (''broad_architecture_change'', None), (''bounded_routine_fix'', None),
      (''human_gate_required'', if flag ctx ''requires_human_gate'' then Some True else None)]"

definition tier_facts :: "int \<Rightarrow> (string \<times> bool option) list" where
  "tier_facts tier =
     [(''safety_or_live_change'', Some (tier = 3)), (''broad_architecture_change'', Some (tier = 2)),
      (''bounded_routine_fix'', Some (tier = 1)), (''human_gate_required'', Some (tier = 3))]"

definition declared_raw :: "task_context \<Rightarrow> (string \<times> json) list" where
  "declared_raw ctx = (case ctx_key ctx ''risk_declaration'' of JObj kvs \<Rightarrow> kvs | _ \<Rightarrow> [])"

definition explicit_risk_declaration :: "task_context \<Rightarrow> risk_facts option" where
  "explicit_risk_declaration ctx =
     (let raw = declared_raw ctx in
      if list_ex (\<lambda>(k, v). v \<noteq> None) (declared_facts raw)
      then Some (explicit_facts (declared_facts raw)
             (case map_of raw ''inherited_from'' of Some (JStr s) \<Rightarrow> some_text s | _ \<Rightarrow> None))
      else if list_ex (\<lambda>(k, v). v = Some True) (observed_facts ctx) then Some (explicit_facts (observed_facts ctx) None)
      else map_option (\<lambda>tier. explicit_facts (tier_facts tier) None) (override_tier ctx))"

definition risk_declaration :: "string \<Rightarrow> task_context \<Rightarrow> risk_facts" where
  "risk_declaration description ctx =
     (case explicit_risk_declaration ctx of Some d \<Rightarrow> d | None \<Rightarrow> empty_risk_declaration)"

definition effective_fix_round_cap :: "int option \<Rightarrow> int" where
  "effective_fix_round_cap limit = (case limit of None \<Rightarrow> 3 | Some c \<Rightarrow> max 0 c)"

definition cascade_metadata :: "string \<Rightarrow> task_context \<Rightarrow> (string \<times> json) list option" where
  "cascade_metadata description ctx =
     map_option (\<lambda>tier. [(''risk_tier'', JInt tier), (''risk_tier_source'', JStr ''explicit'')])
       (classify_task description ctx)"

definition shadow_decision :: "string \<Rightarrow> task_context \<Rightarrow> string \<Rightarrow> string \<Rightarrow> json option" where
  "shadow_decision description ctx tid action =
     map_option (\<lambda>tier. JObj
        [(''task_id'', JStr tid), (''tier'', JInt tier), (''tier_source'', JStr ''explicit''),
         (''would_gate'', JBool (tier = 3)),
         (''would_test_scope'', JStr (if tier = 0 then ''skip'' else if tier = 1 then ''targeted'' else ''full'')),
         (''would_fix_cap'', JNull), (''actual_action'', JStr action)])
       (classify_task description ctx)"

section \<open>The contract\<close>

record cascade_contract =
  cc_enforced :: bool
  cc_tier :: "int option"
  cc_tier_source :: json
  cc_needs_reviewer :: bool
  cc_needs_tester :: bool
  cc_review_mode :: json
  cc_test_scope :: json
  cc_test_scope_source :: json
  cc_human_gate_required :: bool
  cc_metadata :: "(string \<times> json) list"
  cc_source :: string
  cc_j7_reviewer :: json
  cc_j7_tester :: json

definition floor_contract :: cascade_contract where
  "floor_contract =
     \<lparr>cc_enforced = False, cc_tier = None, cc_tier_source = JNull, cc_needs_reviewer = True, cc_needs_tester = True,
      cc_review_mode = JNull, cc_test_scope = JNull, cc_test_scope_source = JNull, cc_human_gate_required = False,
      cc_metadata = [], cc_source = ''floor'', cc_j7_reviewer = JNull, cc_j7_tester = JNull\<rparr>"

definition fix_round_cap :: "cascade_contract \<Rightarrow> int option \<Rightarrow> int" where
  "fix_round_cap c limit = (case limit of None \<Rightarrow> 3 | Some n \<Rightarrow> max 0 n)"

definition as_record :: "cascade_contract \<Rightarrow> json" where
  "as_record c = JObj
     [(''enforced'', JBool (cc_enforced c)), (''tier'', json_int_opt (cc_tier c)),
      (''tier_source'', cc_tier_source c), (''needs_reviewer'', JBool (cc_needs_reviewer c)),
      (''needs_tester'', JBool (cc_needs_tester c)), (''review_mode'', cc_review_mode c),
      (''test_scope'', cc_test_scope c), (''test_scope_source'', cc_test_scope_source c),
      (''human_gate_required'', JBool (cc_human_gate_required c)), (''metadata'', JObj (cc_metadata c)),
      (''source'', JStr ''admission''), (''j7_reviewer'', cc_j7_reviewer c), (''j7_tester'', cc_j7_tester c)]"

definition from_record :: "(string \<times> json) list \<Rightarrow> cascade_contract" where
  "from_record kvs =
     \<lparr>cc_enforced = json_truthy (key_or JNull kvs ''enforced''), cc_tier = number_of (key_or JNull kvs ''tier''),
      cc_tier_source = key_or JNull kvs ''tier_source'',
      cc_needs_reviewer = json_truthy (key_or (JBool True) kvs ''needs_reviewer''),
      cc_needs_tester = json_truthy (key_or (JBool True) kvs ''needs_tester''),
      cc_review_mode = key_or JNull kvs ''review_mode'', cc_test_scope = key_or JNull kvs ''test_scope'',
      cc_test_scope_source = key_or JNull kvs ''test_scope_source'',
      cc_human_gate_required = json_truthy (key_or JNull kvs ''human_gate_required''),
      cc_metadata = (case key_or JNull kvs ''metadata'' of JObj m \<Rightarrow> m | _ \<Rightarrow> []), cc_source = ''admission'',
      cc_j7_reviewer = key_or JNull kvs ''j7_reviewer'', cc_j7_tester = key_or JNull kvs ''j7_tester''\<rparr>"

definition json_text_opt :: "string option \<Rightarrow> json" where
  "json_text_opt s = (case s of None \<Rightarrow> JNull | Some t \<Rightarrow> JStr t)"

definition with_j7 :: "receipt option \<Rightarrow> cascade_contract \<Rightarrow> cascade_contract" where
  "with_j7 r c =
     (case r of None \<Rightarrow> c
      | Some q \<Rightarrow> c\<lparr>cc_j7_reviewer := json_text_opt (rc_required_reviewer q),
                   cc_j7_tester := json_text_opt (rc_required_tester q)\<rparr>)"

text \<open>\<open>decide\<close>: nothing when the tier is enforced and not declared.\<close>

definition decide_contract :: "bool \<Rightarrow> string \<Rightarrow> task_context \<Rightarrow> receipt option \<Rightarrow> cascade_contract option" where
  "decide_contract enforced description ctx r =
     (if \<not> enforced then Some (with_j7 r (floor_contract\<lparr>cc_source := ''admission''\<rparr>))
      else case (classify_task description ctx, cascade_metadata description ctx) of
        (Some tier, Some meta) \<Rightarrow>
          Some (with_j7 r (floor_contract\<lparr>cc_enforced := True, cc_tier := Some tier, cc_tier_source := JStr ''explicit'',
                  cc_review_mode := (if tier = 2 then JStr ''adversarial'' else JNull),
                  cc_human_gate_required := (tier = 3), cc_metadata := meta, cc_source := ''admission''\<rparr>))
      | _ \<Rightarrow> None)"

definition contract_key :: string where
  "contract_key = ''cea_cascade''"

definition stored_contract :: "task_context \<Rightarrow> cascade_contract" where
  "stored_contract ctx = (case ctx_key ctx contract_key of JObj kvs \<Rightarrow> from_record kvs | _ \<Rightarrow> floor_contract)"

section \<open>Properties\<close>

lemma number_of_opt [simp]: "number_of (json_int_opt i) = i"
  by (cases i) (simp_all add: json_int_opt_def)

lemma from_as_record: "as_record c = JObj kvs \<Longrightarrow> from_record kvs = c\<lparr>cc_source := ''admission''\<rparr>"
  by (cases c) (auto simp: as_record_def from_record_def key_or_def)

lemma ctx_key_set_key: "ctx_key (set_key k v ctx) j = (if j = k then v else ctx_key ctx j)"
proof -
  have "map_of (filter (\<lambda>e. fst e \<noteq> k) kvs) j = (if j = k then None else map_of kvs j)" for kvs :: "(string \<times> json) list"
    by (induction kvs) auto
  then show ?thesis by (simp add: ctx_key_def set_key_def)
qed

lemma ctx_key_empty: "ctx_key (ctx\<lparr>tc_more := []\<rparr>) k = JNull"
  by (simp add: ctx_key_def)

text \<open>
  The contract admission writes on a row is the contract the cascade reads back, whatever else
  the context holds, and a row admitted before contracts existed gets the floor, which reviews and
  tests everything and gates nothing.
\<close>

theorem contract_read_back:
  "stored_contract (set_key contract_key (as_record c) ctx) = c\<lparr>cc_source := ''admission''\<rparr>
   \<and> stored_contract (ctx\<lparr>tc_more := []\<rparr>) = floor_contract
   \<and> cc_needs_reviewer floor_contract \<and> cc_needs_tester floor_contract \<and> \<not> cc_human_gate_required floor_contract"
proof -
  obtain kvs where kvs: "as_record c = JObj kvs" by (simp add: as_record_def)
  then show ?thesis
    using from_as_record [OF kvs]
    by (simp add: stored_contract_def ctx_key_set_key ctx_key_empty floor_contract_def)
qed

text \<open>
  No decision drops the independent review or the test: every contract admission decides needs
  both, requires a human exactly at the enforced tier three, and depends on the declared tier and the
  receipt alone, never on the description; it fails to decide exactly when the tier is enforced and
  not declared as a number from zero to three.
\<close>

theorem contract_decided:
  "(case decide_contract enforced d ctx r of
      None \<Rightarrow> enforced \<and> override_tier ctx = None
    | Some c \<Rightarrow> cc_needs_reviewer c \<and> cc_needs_tester c \<and> cc_source c = ''admission''
        \<and> cc_enforced c = enforced \<and> cc_tier c = (if enforced then override_tier ctx else None)
        \<and> (cc_human_gate_required c \<longleftrightarrow> enforced \<and> override_tier ctx = Some 3))
   \<and> decide_contract enforced d ctx r = decide_contract enforced d' ctx r"
  by (auto simp: decide_contract_def with_j7_def floor_contract_def classify_task_def cascade_metadata_def
      split: option.splits)

end
