(* ===== verification/Task_Ops.thy ===== *)
theory Task_Ops
  imports Tasks
begin

text \<open>
  The rest of the life of a task in \<open>queue.py\<close>: the ways back to pending, dispatch and its nonce,
  execution start, heartbeats, results, cancellation, expiry and forced failure. Each operation is one
  transaction; where the source rolls back, the queue returned is the one before. Telemetry
  (\<open>task_attribution\<close>, tokenomics, review quality) is not modelled, and the work intents appear only as
  the operations already known to have succeeded.
\<close>

section \<open>Back to pending\<close>

text \<open>What the gate's answer does to the receipt: held for reuse, held as it is, or superseded.\<close>

definition requeue_memo :: "string \<Rightarrow> requeue_outcome \<Rightarrow> string" where
  "requeue_memo path g = ''RE-QUEUED via '' @ path @ '': '' @ ro_code g"

definition requeue_receipt :: "deployment \<Rightarrow> time \<Rightarrow> string \<Rightarrow> requeue_outcome \<Rightarrow> queue \<Rightarrow> queue" where
  "requeue_receipt dp clock path g q =
     (case ro_outcome g of
        Proceed \<Rightarrow> move_receipt dp clock (ro_receipt_id g) ''HELD'' (requeue_memo path g)
                     (\<lambda>c. c\<lparr>rc_attempt := the (ro_attempt g)\<rparr>) q
      | Held_Back \<Rightarrow> move_receipt dp clock (ro_receipt_id g) ''HELD'' (requeue_memo path g) id q
      | Re_Admit \<Rightarrow> move_receipt dp clock (ro_receipt_id g) ''SUPERSEDED'' (requeue_memo path g) id q
      | _ \<Rightarrow> q)"

text \<open>\<open>requeue_through_gate\<close>: (may go back, the gate's answer). An unregistered path raises.\<close>

definition requeue_through_gate ::
  "deployment \<Rightarrow> time \<Rightarrow> queue \<Rightarrow> string \<Rightarrow> string \<Rightarrow> (bool \<times> requeue_outcome option) \<times> queue" where
  "requeue_through_gate dp clock q tid path =
     (case receipt_for_task q tid of
        (_, None) \<Rightarrow> ((False, None), record_end tid clock ''requeue_refused_no_receipt'' False None q)
      | (_, Some r) \<Rightarrow>
          (case gate_requeue (cea_config_for_receipt dp (Some r)) (Some r) path
                  (engine_current_inputs (dp_engine dp) r default_inputs) of
             None \<Rightarrow> ((False, None), q)
           | Some g \<Rightarrow>
               ((True, Some g),
                update_task tid (\<lambda>t. t\<lparr>tk_context := (tk_context t)\<lparr>tc_cea_requeue := Some g\<rparr>\<rparr>)
                  (requeue_receipt dp clock path g q))))"

definition in_status :: "queue \<Rightarrow> string \<Rightarrow> task_status \<Rightarrow> bool" where
  "in_status q tid st = (case task_of q tid of None \<Rightarrow> False | Some t \<Rightarrow> tk_status t = st)"

definition back_to_pending :: "string \<Rightarrow> queue \<Rightarrow> queue" where
  "back_to_pending tid q = update_task tid (\<lambda>t. t\<lparr>tk_status := Pending, tk_claim_source := []\<rparr>) q"

definition requeue :: "deployment \<Rightarrow> time \<Rightarrow> queue \<Rightarrow> string \<Rightarrow> queue" where
  "requeue dp clock q tid =
     (if \<not> in_status q tid In_Progress then q
      else let ((ok, g), q1) = requeue_through_gate dp clock q tid ''queue.requeue''
           in if \<not> ok then q1
              else record_end tid clock ''requeued'' False None (back_to_pending tid q1))"

text \<open>\<open>requeue_dispatcher_claim\<close>: only the dispatcher's own claims, and never-started ones when asked.\<close>

definition unstarted :: "queue \<Rightarrow> task_row \<Rightarrow> time \<Rightarrow> bool" where
  "unstarted q t limit \<longleftrightarrow>
     (let at_claim = tk_last_activity_at t; x = tk_exec t in
      at_claim \<noteq> 0 \<and> at_claim \<le> limit
      \<and> (case xs_heartbeat_at x of None \<Rightarrow> 0 | Some h \<Rightarrow> h) \<le> limit
      \<and> xs_lease_owner x = None \<and> xs_lease_expires_at x = None
      \<and> (case xs_dispatched_at x of None \<Rightarrow> 0 | Some d \<Rightarrow> d) < at_claim
      \<and> \<not> list_ex (\<lambda>e. xe_task_id e = tk_id t \<and> xe_event e = ''dispatched'' \<and> at_claim \<le> xe_at e) (q_events q))"

definition requeue_dispatcher_claim :: "deployment \<Rightarrow> time \<Rightarrow> queue \<Rightarrow> string \<Rightarrow> time option \<Rightarrow> bool \<times> queue" where
  "requeue_dispatcher_claim dp clock q tid unstarted_before =
     (case task_of q tid of None \<Rightarrow> (False, q)
      | Some t \<Rightarrow>
          if tk_status t \<noteq> In_Progress \<or> tk_claim_source t \<noteq> ''dispatcher'' then (False, q)
          else if (case unstarted_before of None \<Rightarrow> False | Some u \<Rightarrow> \<not> unstarted q t u) then (False, q)
          else let ((ok, g), q1) = requeue_through_gate dp clock q tid ''queue.requeue_dispatcher_claim''
               in if \<not> ok then (False, q1)
                  else (True, record_end tid clock ''requeued'' False None (back_to_pending tid q1)))"

definition count_refusal :: "string \<Rightarrow> (string \<times> nat) list \<Rightarrow> nat \<times> (string \<times> nat) list" where
  "count_refusal pane refusals =
     (let n = (case map_of refusals pane of None \<Rightarrow> 0 | Some k \<Rightarrow> k) + 1
      in (n, (pane, n) # filter (\<lambda>r. fst r \<noteq> pane) refusals))"

text \<open>
  \<open>defer_push_delivery\<close>: the number of refusals, or nothing. It changes context and status only; the
  lease, the claim source and the event log stay as they are. The context read before the gate is merged
  over the one read after it, so an older answer of the gate (\<open>old\<close>) wins over the new one.
\<close>

definition refused_row ::
  "time \<Rightarrow> string \<Rightarrow> nat \<Rightarrow> (string \<times> nat) list \<Rightarrow> time \<Rightarrow> requeue_outcome option \<Rightarrow> task_status \<Rightarrow> task_row \<Rightarrow> task_row" where
  "refused_row clock reason n refusals backoff old st t =
     t\<lparr>tk_status := st, tk_context := (tk_context t)\<lparr>tc_push_refusals := refusals,
        tc_push_refusal_reason := Some reason, tc_push_not_before := Some (clock + backoff * 2 ^ (n - 1)),
        tc_cea_requeue := (case old of None \<Rightarrow> tc_cea_requeue (tk_context t) | Some g \<Rightarrow> Some g)\<rparr>\<rparr>"

definition defer_push_delivery ::
  "deployment \<Rightarrow> time \<Rightarrow> queue \<Rightarrow> string \<Rightarrow> string \<Rightarrow> string \<Rightarrow> nat \<Rightarrow> time \<Rightarrow> nat option \<times> queue" where
  "defer_push_delivery dp clock q tid pane reason max_refusals backoff =
     (case task_of q tid of None \<Rightarrow> (None, q)
      | Some t \<Rightarrow>
          if tk_status t \<noteq> In_Progress then (None, q)
          else let (n, refusals) = count_refusal pane (tc_push_refusals (tk_context t));
                   write = refused_row clock reason n refusals backoff (tc_cea_requeue (tk_context t))
               in if max_refusals \<le> n then (Some n, update_task tid (write In_Progress) q)
                  else let ((ok, g), q1) = requeue_through_gate dp clock q tid ''queue.defer_push_delivery''
                       in if \<not> ok then (None, q) else (Some n, update_task tid (write Pending) q1))"

definition enforced_readmission :: "requeue_outcome option \<Rightarrow> bool" where
  "enforced_readmission g = (case g of None \<Rightarrow> False | Some o1 \<Rightarrow> ro_outcome o1 = Re_Admit \<and> ro_enforced o1)"

definition defer_prep_retry ::
  "deployment \<Rightarrow> time \<Rightarrow> queue \<Rightarrow> string \<Rightarrow> time \<Rightarrow> string \<Rightarrow> bool \<times> queue" where
  "defer_prep_retry dp clock q tid delay prep_error =
     (if \<not> in_status q tid In_Progress then (False, q)
      else let ((ok, g), q1) = requeue_through_gate dp clock q tid ''queue.defer_prep_retry''
           in if \<not> ok then (False, q1)
              else if enforced_readmission g then (False, q)
              else (True, record_end tid clock ''requeued'' False (Some ''prep_transient'')
                     (update_task tid (\<lambda>t. t\<lparr>tk_status := Pending, tk_claim_source := [],
                        tk_context := (tk_context t)\<lparr>tc_prep_retry_count := tc_prep_retry_count (tk_context t) + 1,
                          tc_prep_retry_error := Some prep_error, tc_push_not_before := Some (clock + delay),
                          tc_push_refusal_reason := Some ''prep_transient''\<rparr>\<rparr>) q1)))"

record capacity_answer =
  ca_count :: nat
  ca_since :: time
  ca_not_before :: time
  ca_blocked :: bool
  ca_readmit :: bool

text \<open>A missing time and 0 both read as unset.\<close>

definition capacity_since :: "time \<Rightarrow> task_context \<Rightarrow> time" where
  "capacity_since clock ctx = (case tc_capacity_since ctx of None \<Rightarrow> clock | Some x \<Rightarrow> if x = 0 then clock else x)"

definition capacity_blocked :: "time \<Rightarrow> time \<Rightarrow> task_context \<Rightarrow> bool" where
  "capacity_blocked clock blocked_after ctx \<longleftrightarrow>
     blocked_after \<le> clock - capacity_since clock ctx \<and> tc_capacity_blocked_at ctx \<in> {None, Some 0}"

definition capacity_row :: "time \<Rightarrow> time \<Rightarrow> string \<Rightarrow> task_context \<Rightarrow> bool \<Rightarrow> bool \<Rightarrow> task_row \<Rightarrow> task_row" where
  "capacity_row clock delay tag ctx blocked readmit u =
     (if readmit then u else u\<lparr>tk_status := Pending, tk_claim_source := []\<rparr>)
       \<lparr>tk_context := (tk_context u)\<lparr>tc_push_not_before := Some (clock + delay), tc_push_refusal_reason := Some tag,
          tc_capacity_count := tc_capacity_count ctx + 1, tc_capacity_since := Some (capacity_since clock ctx),
          tc_capacity_blocked_at := (if blocked then Some clock else tc_capacity_blocked_at (tk_context u))\<rparr>\<rparr>"

definition capacity_log :: "time \<Rightarrow> string \<Rightarrow> string \<Rightarrow> bool \<Rightarrow> bool \<Rightarrow> queue \<Rightarrow> queue" where
  "capacity_log clock tid tag blocked readmit q =
     (let q1 = (if readmit then append_exec_event tid ''provider_capacity_readmit'' clock (Some tag) q
                else record_end tid clock ''requeued'' False (Some tag) q)
      in if blocked then append_exec_event tid ''provider_capacity_blocked'' clock (Some tag) q1 else q1)"

definition defer_provider_capacity ::
  "deployment \<Rightarrow> time \<Rightarrow> queue \<Rightarrow> string \<Rightarrow> time \<Rightarrow> time \<Rightarrow> string \<Rightarrow> capacity_answer option \<times> queue" where
  "defer_provider_capacity dp clock q tid delay blocked_after tag =
     (case task_of q tid of None \<Rightarrow> (None, q)
      | Some t \<Rightarrow>
          if tk_status t \<noteq> In_Progress then (None, q)
          else let ctx = tk_context t; blocked = capacity_blocked clock blocked_after ctx;
                   ((ok, g), q1) = requeue_through_gate dp clock q tid ''queue.defer_provider_capacity''
               in if \<not> ok then (None, q1)
                  else let readmit = enforced_readmission g
                       in (Some \<lparr>ca_count = tc_capacity_count ctx + 1, ca_since = capacity_since clock ctx,
                                 ca_not_before = clock + delay, ca_blocked = blocked, ca_readmit = readmit\<rparr>,
                           capacity_log clock tid tag blocked readmit
                             (update_task tid (capacity_row clock delay tag ctx blocked readmit) q1)))"

definition stale_ids :: "queue \<Rightarrow> time \<Rightarrow> string list" where
  "stale_ids q cutoff =
     map tk_id (filter (\<lambda>t. tk_status t = In_Progress \<and> tk_last_activity_at t < cutoff
        \<and> (case xs_heartbeat_at (tk_exec t) of None \<Rightarrow> 0 | Some h \<Rightarrow> h) < cutoff) (q_tasks q))"

fun gate_each :: "deployment \<Rightarrow> time \<Rightarrow> string list \<Rightarrow> queue \<Rightarrow> string list \<times> queue" where
  "gate_each dp clock [] q = ([], q)"
| "gate_each dp clock (tid # tids) q =
     (let ((ok, g), q1) = requeue_through_gate dp clock q tid ''queue.reset_stale_to_pending'';
          (done_ids, q2) = gate_each dp clock tids q1
      in (if ok then tid # done_ids else done_ids, q2))"

definition reset_row :: "time \<Rightarrow> string \<Rightarrow> queue \<Rightarrow> queue" where
  "reset_row clock tid q =
     record_end tid clock ''requeued'' False None
       (update_task tid (\<lambda>t. t\<lparr>tk_status := Pending, tk_claim_source := [], tk_last_activity_at := clock\<rparr>) q)"

definition reset_stale_to_pending :: "deployment \<Rightarrow> time \<Rightarrow> queue \<Rightarrow> time \<Rightarrow> string list \<times> queue" where
  "reset_stale_to_pending dp clock q older_than =
     (let (ids, q1) = gate_each dp clock (stale_ids q (clock - older_than)) q
      in (ids, fold (reset_row clock) ids q1))"

section \<open>Dispatch\<close>

text \<open>
  \<open>record_dispatch\<close>: the nonce minted for the attempt (its text is \<open>fresh\<close>), or the gate that refused.
  A refusal rolls back; a nonce that cannot be minted does not stop the dispatch.
\<close>

definition dispatch_gate :: "deployment \<Rightarrow> time \<Rightarrow> receipt \<Rightarrow> gate_outcome" where
  "dispatch_gate dp clock r =
     (let cfg = cea_config_for_receipt dp (Some r)
      in if \<not> recording (gc_mode cfg) then gate_off At_Dispatch (Some r)
         else gate_dispatch cfg clock (Typed r) (Some (rc_attempt r))
                (engine_current_inputs (dp_engine dp) r (default_inputs\<lparr>ci_already_claimed := True\<rparr>)))"

definition note_dispatch ::
  "time \<Rightarrow> string \<Rightarrow> string \<Rightarrow> string option \<Rightarrow> string option \<Rightarrow> string option \<Rightarrow> time option \<Rightarrow> queue \<Rightarrow> queue" where
  "note_dispatch clock tid channel agent target lease_owner lease_seconds q =
     (if task_of q tid = None then q
      else append_exec_event tid ''dispatched'' clock (Some channel)
        (update_task tid (\<lambda>t. t\<lparr>tk_exec := (tk_exec t)\<lparr>xs_dispatched_at := Some clock,
            xs_dispatch_channel := Some channel, xs_dispatch_agent := agent, xs_dispatch_target := target,
            xs_dispatch_attempt := Some (case xs_dispatch_attempt (tk_exec t) of None \<Rightarrow> 1 | Some n \<Rightarrow> n + 1),
            xs_lease_owner := lease_owner, xs_lease_expires_at := map_option (\<lambda>d. clock + d) lease_seconds\<rparr>\<rparr>) q))"

definition record_dispatch ::
  "deployment \<Rightarrow> time \<Rightarrow> string \<Rightarrow> queue \<Rightarrow> string \<Rightarrow> string \<Rightarrow> string option \<Rightarrow> string option \<Rightarrow> string option \<Rightarrow>
     time option \<Rightarrow> (gate_outcome + string option) \<times> queue" where
  "record_dispatch dp clock fresh q tid channel agent target lease_owner lease_seconds =
     (case snd (receipt_for_task q tid) of
        None \<Rightarrow>
          (Inr None, note_dispatch clock tid channel agent target lease_owner lease_seconds
             (if recording (gc_mode (cea_config dp [])) then report_legacy_row tid ''dispatch'' clock q else q))
      | Some r \<Rightarrow>
          let g = dispatch_gate dp clock r
          in if \<not> go_proceed g then (Inl g, q)
             else case mint_dispatch_nonce (dp_engine dp) clock fresh (q_store q) r of
                    Inl _ \<Rightarrow> (Inr None, note_dispatch clock tid channel agent target lease_owner lease_seconds q)
                  | Inr ((_, nonce), s) \<Rightarrow>
                      (Inr (Some nonce),
                       note_dispatch clock tid channel agent target lease_owner lease_seconds (q\<lparr>q_store := s\<rparr>)))"

definition bind_dispatch_target :: "queue \<Rightarrow> string \<Rightarrow> string \<Rightarrow> string option \<Rightarrow> queue" where
  "bind_dispatch_target q tid target lease_owner =
     update_task tid (\<lambda>t. t\<lparr>tk_exec := (tk_exec t)\<lparr>xs_dispatch_target := Some target,
       xs_lease_owner := (case lease_owner of None \<Rightarrow> xs_lease_owner (tk_exec t) | Some w \<Rightarrow> Some w)\<rparr>\<rparr>) q"

definition record_heartbeat :: "time \<Rightarrow> queue \<Rightarrow> string \<Rightarrow> string \<Rightarrow> queue" where
  "record_heartbeat clock q tid source =
     update_task tid (\<lambda>t. if tk_status t = In_Progress
       then t\<lparr>tk_exec := (tk_exec t)\<lparr>xs_heartbeat_at := Some clock, xs_heartbeat_source := Some source\<rparr>\<rparr>
       else t) q"

section \<open>Execution start\<close>

record start_answer =
  sa_go :: bool
  sa_receipt_id :: "string option"
  sa_code :: string
  sa_outcome :: "validation_outcome option"
  sa_enforced :: bool
  sa_nonce_spent :: bool
  sa_review_required :: bool

definition start_reply :: "bool \<Rightarrow> string option \<Rightarrow> string \<Rightarrow> validation_outcome option \<Rightarrow> bool \<Rightarrow> bool \<Rightarrow> bool \<Rightarrow> start_answer" where
  "start_reply go rid code out enforced spent review =
     \<lparr>sa_go = go, sa_receipt_id = rid, sa_code = code, sa_outcome = out, sa_enforced = enforced,
      sa_nonce_spent = spent, sa_review_required = review\<rparr>"

definition start_gate :: "deployment \<Rightarrow> time \<Rightarrow> queue \<Rightarrow> receipt \<Rightarrow> string option \<Rightarrow> string option \<Rightarrow> gate_outcome" where
  "start_gate dp clock q r nonce presenter =
     (let cfg = cea_config_for_receipt dp (Some r);
          row = (case nonce of None \<Rightarrow> None | Some k \<Rightarrow> if k = [] then None else nonce_row (q_store q) k)
      in if \<not> recording (gc_mode cfg) then gate_off At_Execute_Start (Some r)
         else gate_execute_start cfg clock (Typed r) nonce
                (engine_current_inputs (dp_engine dp) r
                   (default_inputs\<lparr>ci_presenter := presenter, ci_already_dispatched := True,
                      ci_nonce_unused := map_option (\<lambda>n. nr_used_at n = None) row\<rparr>)))"

definition start_execution ::
  "deployment \<Rightarrow> time \<Rightarrow> queue \<Rightarrow> string \<Rightarrow> string option \<Rightarrow> string option \<Rightarrow> start_answer \<times> queue" where
  "start_execution dp clock q tid nonce presenter =
     (if in_status q tid Cancelled
      then (start_reply False (tk_receipt_id (the (task_of q tid))) ''CANCELLED_ATTEMPT'' (Some Blocked) True False False, q)
      else case receipt_for_task q tid of
        (rid, None) \<Rightarrow>
          (let e = enforcing_code (cea_config dp []) None
           in (start_reply (\<not> e) rid ''NO_RECEIPT'' None e False False, q))
      | (rid, Some r) \<Rightarrow>
          let g = start_gate dp clock q r nonce presenter;
              who = (case presenter of None \<Rightarrow> tid | Some p \<Rightarrow> if p = [] then tid else p);
              (spent, s) = (case nonce of None \<Rightarrow> (False, q_store q)
                 | Some k \<Rightarrow> if go_proceed g \<and> k \<noteq> []
                             then consume_nonce clock (q_store q) k (Some (consumer_tag (Some who) execute_start_consumer)) None
                             else (False, q_store q))
          in if go_proceed g \<and> truthy nonce \<and> \<not> spent \<and> go_enforced g
             then (start_reply False rid ''NONCE_REUSED'' (Some Blocked) True False False, q)
             else (start_reply (go_proceed g) rid (vr_code (go_result g)) (Some (vr_outcome (go_result g)))
                     (go_enforced g) spent (go_review_required g),
                   if go_proceed g
                   then move_receipt dp clock (the rid) ''RUNNING''
                          (gate_memo ''execute_start'' g) id (q\<lparr>q_store := s\<rparr>)
                   else q\<lparr>q_store := s\<rparr>))"

section \<open>Cancellation, expiry, forced failure\<close>

definition cancel_memo :: "string \<Rightarrow> string" where
  "cancel_memo reason = ''cancel('' @ reason @ ''): active attempt authorization revoked''"

text \<open>The attempt's authorisation: its nonces are spent and a receipt still live is revoked.\<close>

definition revoke_attempt :: "deployment \<Rightarrow> time \<Rightarrow> string \<Rightarrow> string option \<Rightarrow> queue \<Rightarrow> queue" where
  "revoke_attempt dp clock reason receipt_id q =
     (let rid = (case receipt_id of None \<Rightarrow> [] | Some r \<Rightarrow> r)
      in if rid = [] then q
         else let q1 = q\<lparr>q_store := snd (revoke_nonces_for_receipt clock (q_store q) rid cancelled_attempt_consumer None)\<rparr>
              in case current_receipt (q_store q1) rid of None \<Rightarrow> q1
                 | Some r \<Rightarrow> if rc_state r \<in> set terminal_states then q1
                             else move_receipt dp clock rid ''REVOKED'' (cancel_memo reason) id q1)"

definition orphan_successors :: "string \<Rightarrow> queue \<Rightarrow> queue" where
  "orphan_successors tid q =
     q\<lparr>q_tasks := map (\<lambda>u. if tk_status u \<in> {Pending, In_Progress} \<and> tc_prev_task_id (tk_context u) = Some tid
                         then u\<lparr>tk_status := Orphaned\<rparr> else u) (q_tasks q)\<rparr>"

definition too_fresh :: "task_row \<Rightarrow> time option \<Rightarrow> bool" where
  "too_fresh t stale_before =
     (case stale_before of None \<Rightarrow> False
      | Some limit \<Rightarrow> limit \<le> tk_last_activity_at t
          \<or> limit \<le> (case xs_heartbeat_at (tk_exec t) of None \<Rightarrow> 0 | Some h \<Rightarrow> h))"

definition cancel ::
  "deployment \<Rightarrow> time \<Rightarrow> queue \<Rightarrow> string \<Rightarrow> string \<Rightarrow> task_status option \<Rightarrow> time option \<Rightarrow> bool \<times> queue" where
  "cancel dp clock q tid reason expected stale_before =
     (case task_of q tid of None \<Rightarrow> (False, q)
      | Some t \<Rightarrow>
          if expected \<noteq> None \<and> expected \<noteq> Some (tk_status t) then (False, q)
          else if too_fresh t stale_before then (False, q)
          else if tk_status t \<in> set terminal_task_statuses then (False, q)
          else (True, orphan_successors tid
                 (record_end tid clock ''cancelled'' False (Some (status_text (tk_status t)))
                    (revoke_attempt dp clock reason (tk_receipt_id t)
                       (update_task tid (\<lambda>t. t\<lparr>tk_status := Cancelled\<rparr>) q)))))"

fun cancel_stale :: "deployment \<Rightarrow> time \<Rightarrow> time \<Rightarrow> string list \<Rightarrow> queue \<Rightarrow> string list \<times> queue" where
  "cancel_stale dp clock cutoff [] q = ([], q)"
| "cancel_stale dp clock cutoff (tid # tids) q =
     (let (ok, q1) = cancel dp clock q tid ''STALE_LEASE'' (Some In_Progress) (Some cutoff);
          (ids, q2) = cancel_stale dp clock cutoff tids q1
      in (if ok then tid # ids else ids, q2))"

definition expire_stale :: "deployment \<Rightarrow> time \<Rightarrow> queue \<Rightarrow> time \<Rightarrow> bool \<Rightarrow> string list \<times> queue" where
  "expire_stale dp clock q older_than dry_run =
     (let cutoff = clock - older_than; ids = stale_ids q cutoff
      in if dry_run then (ids, q) else cancel_stale dp clock cutoff ids q)"

definition force_fail_from ::
  "task_status \<Rightarrow> time \<Rightarrow> queue \<Rightarrow> string \<Rightarrow> string \<Rightarrow> json option \<Rightarrow> string option \<times> queue" where
  "force_fail_from st clock q tid summary error_info =
     (case task_of q tid of None \<Rightarrow> (None, q)
      | Some t \<Rightarrow>
          if tk_status t \<noteq> st then (None, q)
          else (Some (tk_type t), record_end tid clock ''force_failed'' False (Some (status_text st))
                 (update_task tid (\<lambda>t. t\<lparr>tk_status := Failed, tk_summary := Some summary, tk_error_info := error_info\<rparr>) q)))"

definition force_fail :: "time \<Rightarrow> queue \<Rightarrow> string \<Rightarrow> string \<Rightarrow> json option \<Rightarrow> string option \<times> queue" where
  "force_fail = force_fail_from In_Progress"

definition force_fail_pending :: "time \<Rightarrow> queue \<Rightarrow> string \<Rightarrow> string \<Rightarrow> json option \<Rightarrow> string option \<times> queue" where
  "force_fail_pending = force_fail_from Pending"

end
