(* ===== verification/Results.thy ===== *)
theory Results
  imports Task_Ops Work_Intents
begin

text \<open>
  Results: the review contract of \<open>protocol.py\<close> and \<open>submit_result\<close> of \<open>queue.py\<close> with the outbox it
  fills. A result is the one left by the normalisation of its constructor (findings are strings, the PR
  number an integer); \<open>tr_json\<close> is the text the outbox stores for it.
\<close>

section \<open>The protocol\<close>

record task_result =
  tr_task_id :: string
  tr_status :: task_status
  tr_summary :: string
  tr_verdict :: "string option"
  tr_findings :: "string list"
  tr_pr_number :: "int option"
  tr_commit :: string
  tr_error_info :: "json option"
  tr_json :: string

definition valid_result_statuses :: "task_status list" where
  "valid_result_statuses = [Completed, Failed, Needs_Human, Timed_Out, Blocked_Task]"

definition is_hex :: "char \<Rightarrow> bool" where
  "is_hex c = (is_digit c \<or> c \<in> set ''abcdefABCDEF'')"

definition object_id :: "string \<Rightarrow> bool" where
  "object_id s \<longleftrightarrow> (length s = 40 \<or> length s = 64) \<and> list_all is_hex s"

definition result_wellformed :: "task_result \<Rightarrow> bool" where
  "result_wellformed r \<longleftrightarrow> tr_status r \<in> set valid_result_statuses
     \<and> (py_strip (tr_commit r) = [] \<or> object_id (py_strip (tr_commit r)))"

definition final_verdicts :: "string option list" where
  "final_verdicts = [Some ''approve'', Some ''request_changes'']"

text \<open>\<open>validate_review_result\<close>: is the review refused?\<close>

definition review_refused :: "task_result \<Rightarrow> bool \<Rightarrow> bool" where
  "review_refused r require_verdict =
     (if tr_status r \<noteq> Completed then False
      else if require_verdict \<and> (tr_verdict r \<notin> set final_verdicts
                \<or> (tr_verdict r = Some ''approve'' \<and> tr_findings r \<noteq> [])
                \<or> (tr_verdict r = Some ''request_changes'' \<and> tr_findings r = [])) then True
      else if tr_verdict r \<notin> set final_verdicts then False
      else if length (py_strip (tr_summary r)) < 40 then True
      else list_ex (\<lambda>f. length (py_strip f) < 10) (tr_findings r))"

section \<open>Submitting a result\<close>

datatype submit_error =
    Bad_Result | Task_Id_Mismatch | Task_Not_Found | Work_Intent_Terminal
  | Duplicate_Review | Completed_Review | Late_Result task_status "string option" | Invalid_Review
  | Unexpected_Status task_status | Result_Refused gate_outcome

record submit_options =
  so_nonce :: "string option"
  so_presenter :: "string option"
  so_consume_receipt :: bool
  so_expected_status :: "task_status option"
  so_dispatcher_failed :: bool
  so_allow_review_replay :: bool
  so_validate_review :: bool
  so_adopted_fallback :: "string option"

definition outbox_of :: "queue \<Rightarrow> string \<Rightarrow> outbox_row option" where
  "outbox_of q tid = row_of ob_task_id tid (q_outbox q)"

text \<open>Did the system, and not the worker, end the task last?\<close>

definition system_failed :: "queue \<Rightarrow> string \<Rightarrow> bool" where
  "system_failed q tid =
     (case find (\<lambda>e. xe_task_id e = tid \<and> xe_event e \<in> {''force_failed'', ''dispatcher_failed'', ''result''})
             (rev (q_events q)) of
        None \<Rightarrow> False | Some e \<Rightarrow> xe_event e \<noteq> ''result'')"

text \<open>The latest fallback task of a failed or timed-out implement task.\<close>

definition latest_row :: "task_row list \<Rightarrow> task_row option" where
  "latest_row rs = fold (\<lambda>r best. case best of None \<Rightarrow> Some r
      | Some b \<Rightarrow> if tk_created_at b < tk_created_at r then Some r else Some b) rs None"

definition fallback_of :: "queue \<Rightarrow> task_row \<Rightarrow> task_row option" where
  "fallback_of q t =
     (if tk_type t = ''implement'' \<and> tk_status t \<in> {Failed, Timed_Out}
      then latest_row (filter (\<lambda>u. startswith (py_lower (tk_id u)) ''fallback-''
                              \<and> tc_original_task_id (tk_context u) = Some (tk_id t)) (q_tasks q))
      else None)"

definition adopts :: "submit_options \<Rightarrow> task_row option \<Rightarrow> bool" where
  "adopts opts fb = (case fb of None \<Rightarrow> False
     | Some f \<Rightarrow> so_adopted_fallback opts = Some (tk_id f) \<and> tk_status f = Cancelled)"

text \<open>The result comes too late: the status and the fallback reported with the refusal.\<close>

definition late_result :: "queue \<Rightarrow> task_row \<Rightarrow> task_result \<Rightarrow> submit_options \<Rightarrow> (task_status \<times> string option) option" where
  "late_result q t r opts =
     (let fb = fallback_of q t; adopted = adopts opts fb; ignored = (fb \<noteq> None \<and> \<not> adopted)
      in if ((tk_status t \<in> {Cancelled, Timed_Out} \<or> (tk_status t = Failed \<and> system_failed q (tk_id t))
              \<or> (tk_status t = Completed \<and> tr_status r \<noteq> Completed)) \<and> \<not> adopted) \<or> ignored
         then Some (tk_status t, if ignored then map_option tk_id fb else None) else None)"

definition result_gate :: "deployment \<Rightarrow> time \<Rightarrow> queue \<Rightarrow> receipt \<Rightarrow> submit_options \<Rightarrow> gate_outcome" where
  "result_gate dp clock q r opts =
     (let cfg = cea_config_for_receipt dp (Some r);
          row = (case so_nonce opts of None \<Rightarrow> None | Some k \<Rightarrow> if k = [] then None else nonce_row (q_store q) k)
      in if \<not> recording (gc_mode cfg) then gate_off At_Result (Some r)
         else gate_result cfg clock (Typed r) (so_nonce opts) (so_presenter opts)
                (engine_current_inputs (dp_engine dp) r
                   (default_inputs\<lparr>ci_presenter := so_presenter opts,
                      ci_nonce_unused := map_option (\<lambda>n. nr_used_at n = None) row,
                      ci_nonce_consumed_by := (case row of None \<Rightarrow> None | Some n \<Rightarrow> nr_used_by n),
                      ci_nonce_attempt := map_option nr_attempt row\<rparr>)))"

definition refused_gate :: "gate_outcome option \<Rightarrow> gate_outcome option" where
  "refused_gate g = (case g of None \<Rightarrow> None | Some o1 \<Rightarrow> if go_proceed o1 then None else Some o1)"

definition write_result :: "time \<Rightarrow> task_result \<Rightarrow> queue \<Rightarrow> queue" where
  "write_result clock r q =
     update_task (tr_task_id r) (\<lambda>t. t\<lparr>tk_status := tr_status r, tk_summary := Some (tr_summary r),
       tk_verdict := tr_verdict r, tk_findings := tr_findings r, tk_pr_number := tr_pr_number r,
       tk_error_info := (if (tr_status r \<noteq> Completed \<or> tk_type t = ''test'') \<and> tr_error_info r \<noteq> Some (JObj [])
                         then tr_error_info r else None),
       tk_status_changed_at := (if tk_status t = tr_status r then tk_status_changed_at t else clock)\<rparr>) q"

text \<open>\<open>INSERT OR IGNORE INTO cascade_outbox\<close>, with the stop epoch and the state at commit.\<close>

definition fill_outbox :: "time \<Rightarrow> pauses \<Rightarrow> string \<Rightarrow> task_result \<Rightarrow> queue \<Rightarrow> queue" where
  "fill_outbox clock ps ty r q =
     (let (st, sw) = reconcile_pause_signal clock ps (q_switch q); epoch = sr_epoch (read_stop_row sw)
      in q\<lparr>q_switch := sw,
           q_outbox := (if outbox_of q (tr_task_id r) \<noteq> None then q_outbox q
             else q_outbox q @ [\<lparr>ob_task_id = tr_task_id r, ob_task_type = ty, ob_result = tr_json r,
                    ob_stop_epoch = epoch, ob_state = (if st \<noteq> ACTIVE then Owed else Applied),
                    ob_attempt = None, ob_lease_owner = None, ob_lease_expires_at = None, ob_created_at = clock\<rparr>])\<rparr>)"

definition settle_receipt :: "deployment \<Rightarrow> time \<Rightarrow> submit_options \<Rightarrow> string \<Rightarrow> gate_outcome option \<Rightarrow> queue \<Rightarrow> queue" where
  "settle_receipt dp clock opts tid g q =
     (case g of None \<Rightarrow> q
      | Some o1 \<Rightarrow>
          let q1 = update_task tid (\<lambda>t. t\<lparr>tk_context := (tk_context t)\<lparr>tc_cea_result := Some o1\<rparr>\<rparr>) q
          in if so_consume_receipt opts
             then move_receipt dp clock (vr_receipt_id (go_result o1)) ''CONSUMED''
                    (gate_memo ''result'' o1) id q1
             else q1)"

definition accept_result ::
  "deployment \<Rightarrow> time \<Rightarrow> pauses \<Rightarrow> task_row \<Rightarrow> task_result \<Rightarrow> submit_options \<Rightarrow> gate_outcome option \<Rightarrow> queue \<Rightarrow> queue" where
  "accept_result dp clock ps t r opts g q =
     settle_receipt dp clock opts (tk_id t) g
       (fill_outbox clock ps (tk_type t) r
          (terminalize_intent (tk_id t) clock
             (record_end (tk_id t) clock (if so_dispatcher_failed opts then ''dispatcher_failed'' else ''result'') True
                (Some (status_text (tr_status r))) (write_result clock r q))))"

definition submit_result ::
  "deployment \<Rightarrow> time \<Rightarrow> pauses \<Rightarrow> queue \<Rightarrow> string \<Rightarrow> task_result \<Rightarrow> submit_options \<Rightarrow> (submit_error + string) \<times> queue" where
  "submit_result dp clock ps q tid r opts =
     (if \<not> result_wellformed r then (Inl Bad_Result, q)
      else if tr_task_id r \<noteq> tid then (Inl Task_Id_Mismatch, q)
      else case task_of q tid of None \<Rightarrow> (Inl Task_Not_Found, q)
      | Some t \<Rightarrow>
          if (case tc_external_operation_id (tk_context t) of None \<Rightarrow> False
              | Some op \<Rightarrow> op \<noteq> [] \<and> intent_state q op = Some Success) then (Inl Work_Intent_Terminal, q)
          else if tk_type t = ''review'' \<and> tk_status t = Completed \<and> \<not> so_allow_review_replay opts
          then (Inl (if map_option ob_result (outbox_of q tid) = Some (tr_json r) then Duplicate_Review
                     else Completed_Review), q)
          else case late_result q t r opts of
            Some (st, fb) \<Rightarrow>
              (Inl (Late_Result st fb), append_exec_event tid ''late_result'' clock (Some (status_text (tr_status r))) q)
          | None \<Rightarrow>
              if tk_type t = ''review'' \<and> so_validate_review opts
                 \<and> review_refused r (tk_status t \<in> {Pending, In_Progress}) then (Inl Invalid_Review, q)
              else if (case so_expected_status opts of None \<Rightarrow> False | Some st \<Rightarrow> tk_status t \<noteq> st)
              then (Inl (Unexpected_Status (tk_status t)), q)
              else let g = map_option (\<lambda>rc. result_gate dp clock q rc opts) (snd (receipt_for_task q tid))
                   in case refused_gate g of Some o1 \<Rightarrow> (Inl (Result_Refused o1), q)
                      | None \<Rightarrow> (Inr (tk_type t), accept_result dp clock ps t r opts g q))"

end
