(* ===== verification/Enqueue.thy ===== *)
theory Enqueue
  imports Results Cascade
begin

text \<open>
  Admission into the queue: \<open>enqueue_with_receipt\<close>, the only writer of task rows, with the duplicate-review
  reservation it takes under the write lock, and the same check again when a claimed review pins its head.
  The head looked up on GitHub for an unpinned review is an argument; the cascade contract stored with
  the row is the one of \<open>Cascade\<close>; risk and token telemetry written after the commit is not modelled.
\<close>

section \<open>PR numbers and heads\<close>

definition positive :: "int option \<Rightarrow> int option" where
  "positive n = (case n of None \<Rightarrow> None | Some i \<Rightarrow> if 0 < i then Some i else None)"

fun normalize_pr_number :: "json \<Rightarrow> int option" where
  "normalize_pr_number (JInt i) = positive (Some i)"
| "normalize_pr_number (JStr s) = positive (int_of_text (py_strip (dropWhile (\<lambda>c. c = CHR ''#'') (py_strip s))))"
| "normalize_pr_number _ = None"

definition target_pr :: "task_context \<Rightarrow> int option \<Rightarrow> int option" where
  "target_pr ctx col = (case normalize_pr_number (ctx_key ctx ''pr_number'') of Some n \<Rightarrow> Some n | None \<Rightarrow> positive col)"

fun first_truthy :: "json list \<Rightarrow> json" where
  "first_truthy [] = JNull"
| "first_truthy (v # vs) = (if json_truthy v then v else first_truthy vs)"

definition commit_sha :: "json \<Rightarrow> string option" where
  "commit_sha v = (case v of JStr s \<Rightarrow> if object_id (py_strip s) then Some (py_lower (py_strip s)) else None | _ \<Rightarrow> None)"

definition head_keys :: "task_context \<Rightarrow> json list" where
  "head_keys ctx = [ctx_key ctx ''reviewed_sha'', ctx_key ctx ''expected_head_sha'', ctx_key ctx ''head_sha'']"

text \<open>At dispatch only the pinned head counts.\<close>

definition head_of :: "bool \<Rightarrow> string \<Rightarrow> task_context \<Rightarrow> string option" where
  "head_of dispatch resolved ctx =
     commit_sha (if dispatch then ctx_key ctx ''reviewed_sha'' else first_truthy (JStr resolved # head_keys ctx))"

section \<open>The duplicate review\<close>

record task_request =
  rq_id :: string
  rq_type :: string
  rq_description :: string
  rq_branch :: string
  rq_priority :: int
  rq_project :: string
  rq_pr_number :: "int option"
  rq_context :: task_context

definition sql_blank :: "string \<Rightarrow> bool" where
  "sql_blank s \<longleftrightarrow> list_all (\<lambda>c. c = CHR '' '') s"

definition standing :: "task_request \<Rightarrow> task_row \<Rightarrow> bool" where
  "standing rq u \<longleftrightarrow>
     tk_project u = rq_project rq \<and> tk_type u = rq_type rq \<and> tk_id u \<noteq> rq_id rq
     \<and> (tk_status u \<in> {Pending, In_Progress}
        \<or> (tk_status u = Completed
           \<and> (tk_type u = ''test'' \<or> (case tk_verdict u of None \<Rightarrow> False | Some v \<Rightarrow> \<not> sql_blank v))))"

definition same_target :: "task_request \<Rightarrow> task_row \<Rightarrow> bool" where
  "same_target rq u \<longleftrightarrow>
     (case target_pr (rq_context rq) (rq_pr_number rq) of
        Some n \<Rightarrow> target_pr (tk_context u) (tk_pr_number u) = Some n
      | None \<Rightarrow> target_pr (tk_context u) (tk_pr_number u) = None \<and> tk_branch u = rq_branch rq
                \<and> tc_prev_task_id (tk_context u) = tc_prev_task_id (rq_context rq))"

definition reserved_since :: "task_row \<Rightarrow> time" where
  "reserved_since u = max (tk_created_at u) (tk_last_activity_at u)"

text \<open>The first standing row that blocks, and the reservations that ran out before it.\<close>

fun find_duplicate ::
  "task_request \<Rightarrow> bool \<Rightarrow> (time \<times> time) option \<Rightarrow> string option \<Rightarrow> string \<Rightarrow> task_row list
     \<Rightarrow> string option \<times> (string \<times> time) list" where
  "find_duplicate rq dispatch limit sha ignored [] = (None, [])"
| "find_duplicate rq dispatch limit sha ignored (u # us) =
     (let rest = find_duplicate rq dispatch limit sha ignored us; old = head_of dispatch [] (tk_context u)
      in if tk_id u = ignored \<and> tk_status u = In_Progress then rest
         else if \<not> same_target rq u then rest
         else if tk_status u = Pending \<and> dispatch then rest
         else if tk_status u = Pending \<and> old = None
         then (if (case limit of None \<Rightarrow> False | Some (clock, ttl) \<Rightarrow> ttl \<le> clock - reserved_since u)
               then (fst rest, (tk_id u, reserved_since u) # snd rest)
               else (Some (tk_id u), []))
         else if sha \<noteq> None \<and> old = sha then (Some (tk_id u), [])
         else rest)"

definition duplicate_review ::
  "queue \<Rightarrow> task_request \<Rightarrow> bool \<Rightarrow> (time \<times> time) option \<Rightarrow> string \<Rightarrow> string \<Rightarrow> string option \<times> (string \<times> time) list" where
  "duplicate_review q rq dispatch limit resolved ignored =
     (if rq_type rq \<notin> {''review'', ''test''} then (None, [])
      else if target_pr (rq_context rq) (rq_pr_number rq) = None \<and> rq_branch rq = [] then (None, [])
      else find_duplicate rq dispatch limit (head_of dispatch resolved (rq_context rq)) ignored
             (sort_key tk_created_at (filter (standing rq) (q_tasks q))))"

section \<open>Adopting the lineage of a suppressed review\<close>

definition adopted_keys :: "string list" where
  "adopted_keys = [''fix_round'', ''issue'', ''issue_number'', ''issue_title'', ''issue_body'', ''issue_url'', ''repo'',
     ''reviewer_agent'', ''no_tester'', ''base_branch'', ''lineage_root_task_id'', ''coordinator_managed'',
     ''coordinator_generation'', ''risk_declaration'', ''risk_tier_source'']"

definition adopt_key :: "bool \<Rightarrow> task_context \<Rightarrow> string \<Rightarrow> task_context \<Rightarrow> task_context" where
  "adopt_key completed blocked k ctx =
     (if (k = ''no_tester'' \<and> completed) \<or> ctx_key ctx k \<noteq> JNull \<or> ctx_key blocked k = JNull then ctx
      else set_key k (ctx_key blocked k) ctx)"

definition adopt_max :: "string \<Rightarrow> (int \<Rightarrow> bool) \<Rightarrow> json \<Rightarrow> json \<Rightarrow> task_context \<Rightarrow> task_context" where
  "adopt_max k ok a b ctx =
     (case concat (map (\<lambda>v. case v of JInt i \<Rightarrow> if ok i then [i] else [] | _ \<Rightarrow> []) [a, b]) of
        [] \<Rightarrow> ctx | i # is \<Rightarrow> set_key k (JInt (fold max is i)) ctx)"

definition lineage_from :: string where
  "lineage_from = ''duplicate_review_lineage_from''"

text \<open>The survivor keeps its own route when it has one, and a completed one that was continued keeps it too.\<close>

definition adoptable :: "queue \<Rightarrow> task_row \<Rightarrow> task_request \<Rightarrow> task_context \<Rightarrow> bool" where
  "adoptable q t blocked bctx \<longleftrightarrow>
     (case tc_prev_task_id bctx of None \<Rightarrow> False
      | Some parent \<Rightarrow>
          parent \<noteq> [] \<and> tk_type t = ''review''
          \<and> (\<not> json_truthy (ctx_key (tk_context t) lineage_from) \<or> ctx_key (tk_context t) lineage_from = JStr (rq_id blocked))
          \<and> \<not> (tk_status t = Completed
                \<and> list_ex (\<lambda>u. tk_type u \<in> {''implement'', ''test''} \<and> tc_prev_task_id (tk_context u) = Some (tk_id t)) (q_tasks q))
          \<and> tc_prev_task_id (tk_context t) \<in> {None, Some [], Some parent}
          \<and> \<not> (json_truthy (ctx_key (tk_context t) ''repo'') \<and> json_truthy (ctx_key bctx ''repo'')
               \<and> ctx_key (tk_context t) ''repo'' \<noteq> ctx_key bctx ''repo''))"

definition inherit_text :: "string option \<Rightarrow> string option \<Rightarrow> string option" where
  "inherit_text old new = (case old of None \<Rightarrow> new | Some s \<Rightarrow> Some s)"

definition adopted_context :: "string \<Rightarrow> task_row \<Rightarrow> task_request \<Rightarrow> task_context \<Rightarrow> task_context" where
  "adopted_context main t blocked bctx =
     (let ctx0 = tk_context t;
          ctx1 = fold (adopt_key (tk_status t = Completed) bctx) adopted_keys
                   (ctx0\<lparr>tc_prev_task_id := inherit_text (tc_prev_task_id ctx0) (tc_prev_task_id bctx),
                         tc_implementer_agent := inherit_text (tc_implementer_agent ctx0) (tc_implementer_agent bctx)\<rparr>);
          ctx2 = adopt_max ''fix_round'' (\<lambda>i. 0 \<le> i) (ctx_key ctx1 ''fix_round'') (ctx_key bctx ''fix_round'') ctx1;
          ctx3 = adopt_max ''risk_tier'' (\<lambda>i. 0 \<le> i \<and> i \<le> 3) (ctx_key ctx2 ''risk_tier'') (ctx_key bctx ''risk_tier'') ctx2;
          ctx4 = set_key lineage_from (JStr (rq_id blocked)) ctx3;
          base = first_truthy [ctx_key ctx4 ''base_branch'', JStr main, JStr ''main'']
      in if rq_branch blocked \<noteq> [] \<and> (tk_branch t = [] \<or> JStr (tk_branch t) = base)
         then set_key ''cascade_branch'' (JStr (rq_branch blocked)) ctx4 else ctx4)"

definition adopt_lineage :: "string \<Rightarrow> string \<Rightarrow> task_request \<Rightarrow> task_context \<Rightarrow> queue \<Rightarrow> queue" where
  "adopt_lineage main survivor blocked bctx q =
     (case task_of q survivor of None \<Rightarrow> q
      | Some t \<Rightarrow>
          if adoptable q t blocked bctx
          then update_task survivor (\<lambda>u. u\<lparr>tk_context := adopted_context main t blocked bctx\<rparr>) q else q)"

section \<open>Admission\<close>

datatype enqueue_error =
    Admission_Refused gate_outcome | Paused_Runtime | Risk_Tier_Invalid | Duplicate_Of string
  | Already_Exists task_status | Intent_Refused intent_error

text \<open>
  What the queue is told of an admission: its own project, the cap on open implement tasks, the resolved
  head, the reservation's life, the capacity predecessor, whether an in-process successor constructor
  called, and the intent the task opens.
\<close>

record admission =
  ad_declared_project :: "string option"
  ad_enforced_tier :: bool
  ad_main_branch :: string
  ad_cap :: "nat option"
  ad_resolved_head :: string
  ad_ttl :: time
  ad_predecessor :: string
  ad_successor :: bool
  ad_intent :: "intent_request option"

definition admission_project :: "admission \<Rightarrow> task_request \<Rightarrow> string" where
  "admission_project ad rq =
     (case ad_declared_project ad of Some p \<Rightarrow> if p \<noteq> [] then p else rq_project rq | None \<Rightarrow> rq_project rq)"

definition enqueue_gate :: "deployment \<Rightarrow> time \<Rightarrow> admission \<Rightarrow> task_request \<Rightarrow> receipt \<Rightarrow> gate_outcome" where
  "enqueue_gate dp clock ad rq r =
     (let cfg = cea_config dp (admission_project ad rq)
      in if \<not> recording (gc_mode cfg) then gate_off At_Enqueue (Some r)
         else gate_enqueue cfg clock (Typed r) (rq_id rq) (engine_current_inputs (dp_engine dp) r default_inputs))"

text \<open>A human gate on a capability another owner holds is parked instead of refused.\<close>

definition owner_conflict :: "gate_outcome \<Rightarrow> receipt \<Rightarrow> bool" where
  "owner_conflict g r \<longleftrightarrow>
     \<not> go_proceed g \<and> vr_outcome (go_result g) = Human_Gated \<and> rc_reason_code r = ''OWNER_CONFLICT''
     \<and> rc_decision r = HUMAN_GATE \<and> rc_intent_hash r \<noteq> [] \<and> b_matched_capability (rc_binding r) \<noteq> None"

definition root_task :: "admission \<Rightarrow> task_context \<Rightarrow> bool" where
  "root_task ad ctx \<longleftrightarrow>
     \<not> (ad_successor ad \<and> (truthy (tc_prev_task_id ctx) \<or> lineage_parent ctx \<noteq> []))"

definition missing_root_risk :: "admission \<Rightarrow> task_context \<Rightarrow> bool" where
  "missing_root_risk ad ctx \<longleftrightarrow>
     root_task ad ctx \<and> map_of (tc_more ctx) ''risk_tier'' = None \<and> map_of (tc_more ctx) ''risk_declaration'' = None"

definition parked :: "receipt \<Rightarrow> json" where
  "parked r = (let g = JInt (b_policy_generation (rc_binding r))
     in JObj [(''intent_hash'', JStr (rc_intent_hash r)), (''generation'', g), (''last_attempt_generation'', g)])"

definition no_exec_state :: exec_state where
  "no_exec_state =
     \<lparr>xs_claimed_at = None, xs_claimed_by_role = None, xs_claimed_by_agent = None, xs_claimed_via = None,
      xs_claim_build = (None, None), xs_dispatched_at = None, xs_dispatch_channel = None, xs_dispatch_agent = None,
      xs_dispatch_target = None, xs_dispatch_attempt = None, xs_lease_owner = None, xs_lease_expires_at = None,
      xs_heartbeat_at = None, xs_heartbeat_source = None, xs_result_posted_at = None\<rparr>"

definition new_row :: "time \<Rightarrow> task_request \<Rightarrow> task_context \<Rightarrow> receipt \<Rightarrow> bool \<Rightarrow> task_row" where
  "new_row clock rq ctx r conflict =
     \<lparr>tk_id = rq_id rq, tk_type = rq_type rq, tk_description = rq_description rq, tk_branch = rq_branch rq,
      tk_priority = rq_priority rq, tk_context = ctx, tk_status = (if conflict then Needs_Human else Pending),
      tk_created_at = clock, tk_project = rq_project rq, tk_receipt_id = Some (rc_receipt_id r),
      tk_pr_number = (case positive (rq_pr_number rq) of Some n \<Rightarrow> Some n | None \<Rightarrow> normalize_pr_number (ctx_key ctx ''pr_number'')),
      tk_summary = None, tk_verdict = None, tk_findings = [], tk_error_info = None, tk_last_activity_at = 0,
      tk_status_changed_at = 0, tk_claim_source = [], tk_exec = no_exec_state\<rparr>"

definition admitted_context ::
  "admission \<Rightarrow> task_request \<Rightarrow> receipt \<Rightarrow> gate_outcome \<Rightarrow> cascade_contract \<Rightarrow> task_context" where
  "admitted_context ad rq r g c =
     (let ctx = set_key contract_key (as_record c) ((rq_context rq)\<lparr>tc_cea_enqueue := Some g\<rparr>)
      in if owner_conflict g r then set_key ''owner_conflict'' (parked r) ctx else ctx)"

definition unpinned :: "task_request \<Rightarrow> bool" where
  "unpinned rq \<longleftrightarrow>
     rq_type rq \<in> {''review'', ''test''} \<and> list_all (\<lambda>v. commit_sha v = None) (head_keys (rq_context rq))"

definition resolved_head :: "admission \<Rightarrow> task_request \<Rightarrow> string" where
  "resolved_head ad rq = (if unpinned rq then ad_resolved_head ad else [])"

definition open_implements :: "queue \<Rightarrow> string \<Rightarrow> task_row list" where
  "open_implements q project =
     filter (\<lambda>u. tk_type u = ''implement'' \<and> tk_status u \<in> {Pending, In_Progress}) (project_rows q project)"

definition event_if :: "bool \<Rightarrow> string \<Rightarrow> string \<Rightarrow> time \<Rightarrow> string option \<Rightarrow> queue \<Rightarrow> queue" where
  "event_if c tid event clock field q = (if c then append_exec_event tid event clock field q else q)"

text \<open>What the admission transaction logs before the row.\<close>

definition admission_log ::
  "time \<Rightarrow> admission \<Rightarrow> task_request \<Rightarrow> string option \<Rightarrow> (string \<times> time) list \<Rightarrow> queue \<Rightarrow> queue" where
  "admission_log clock ad rq dup expired q =
     (let opened = open_implements q (rq_project rq)
      in event_if (rq_type rq = ''implement'' \<and> flag (rq_context rq) ''allow_parallel_implement'' \<and> ad_cap ad \<noteq> None
             \<and> opened \<noteq> []) (rq_id rq) ''parallel_implement_override'' clock (Some (tk_id (hd opened)))
           (fold (\<lambda>e. append_exec_event (fst e) ''review_reservation_expired'' clock (Some (rq_id rq))) expired
             (event_if (unpinned rq \<and> ad_resolved_head ad = []) (rq_id rq) ''duplicate_check_skipped_unknown_head'' clock
                (Some (rq_branch rq))
               (event_if (dup \<noteq> None) (rq_id rq) ''duplicate_review_override'' clock dup q))))"

definition bind_new_task :: "time \<Rightarrow> admission \<Rightarrow> task_request \<Rightarrow> task_context \<Rightarrow> bool \<Rightarrow> queue \<Rightarrow> intent_error + queue" where
  "bind_new_task clock ad rq ctx conflict q =
     (case ad_intent ad of
        Some ir \<Rightarrow> insert_intent clock ir (Some (rq_id rq)) conflict q
      | None \<Rightarrow>
          (case tc_external_operation_id ctx of None \<Rightarrow> Inr q
           | Some op \<Rightarrow> if op = [] then Inr q else bind_on clock op (rq_id rq) (Some (rq_project rq)) q))"

definition enqueue_memo :: "gate_outcome \<Rightarrow> string" where
  "enqueue_memo g = ''enqueue: '' @ outcome_text (vr_outcome (go_result g))"

definition insert_row ::
  "deployment \<Rightarrow> time \<Rightarrow> admission \<Rightarrow> task_request \<Rightarrow> receipt \<Rightarrow> gate_outcome \<Rightarrow> task_context \<Rightarrow> queue
     \<Rightarrow> (enqueue_error + string) \<times> queue" where
  "insert_row dp clock ad rq r g ctx q =
     (case task_of q (rq_id rq) of
        Some t \<Rightarrow> (Inl (Already_Exists (tk_status t)), q)
      | None \<Rightarrow>
          (case bind_new_task clock ad rq ctx (owner_conflict g r)
                  (q\<lparr>q_tasks := q_tasks q @ [new_row clock rq ctx r (owner_conflict g r)]\<rparr>) of
             Inl e \<Rightarrow> (Inl (Intent_Refused e), q)
           | Inr q1 \<Rightarrow>
               (Inr (rq_id rq),
                move_receipt dp clock (rc_receipt_id r) (if owner_conflict g r then ''HELD'' else ''QUEUED'')
                  (enqueue_memo g) id
                  (event_if (missing_root_risk ad (rq_context rq)) (rq_id rq) ''missing_risk_metadata'' clock None q1))))"

definition refuse_duplicate :: "time \<Rightarrow> admission \<Rightarrow> task_request \<Rightarrow> task_context \<Rightarrow> string \<Rightarrow> queue \<Rightarrow> queue" where
  "refuse_duplicate clock ad rq ctx existing q =
     append_exec_event (rq_id rq) ''duplicate_review_refused'' clock (Some existing)
       (if rq_type rq = ''review'' then adopt_lineage (ad_main_branch ad) existing rq ctx q else q)"

text \<open>
  \<open>enqueue_with_receipt\<close>: the gate, the contract, the stop, the duplicate, the row. What fails before the
  commit leaves the queue as it was; a refused duplicate is audited in a transaction of its own.
\<close>

definition enqueue_with_receipt ::
  "deployment \<Rightarrow> time \<Rightarrow> pauses \<Rightarrow> admission \<Rightarrow> queue \<Rightarrow> task_request \<Rightarrow> receipt \<Rightarrow> (enqueue_error + string) \<times> queue" where
  "enqueue_with_receipt dp clock ps ad q rq r =
     (let g = enqueue_gate dp clock ad rq r in
      case decide_contract (ad_enforced_tier ad) (rq_description rq) (rq_context rq) (Some r) of
        None \<Rightarrow> (Inl Risk_Tier_Invalid, q)
      | Some c \<Rightarrow>
          if \<not> go_proceed g \<and> \<not> owner_conflict g r then (Inl (Admission_Refused g), q)
          else let ctx = admitted_context ad rq r g c; (stopped, w) = stop_active clock ps (q_switch q) At_Enqueue
               in if stopped then (Inl Paused_Runtime, q)
                  else let (dup, expired) = duplicate_review q (rq\<lparr>rq_context := ctx\<rparr>) False
                                              (Some (clock, ad_ttl ad)) (resolved_head ad rq) (ad_predecessor ad)
                       in if dup \<noteq> None \<and> \<not> flag ctx ''allow_duplicate_review''
                          then (Inl (Duplicate_Of (the dup)), refuse_duplicate clock ad rq ctx (the dup) q)
                          else case insert_row dp clock ad rq r g ctx
                                      (admission_log clock ad rq dup expired (q\<lparr>q_switch := w\<rparr>)) of
                                 (Inl e, _) \<Rightarrow> (Inl e, q) | (Inr i, q1) \<Rightarrow> (Inr i, q1))"

section \<open>Pinning a claimed review\<close>

definition request_of :: "task_row \<Rightarrow> task_context \<Rightarrow> task_request" where
  "request_of t ctx =
     \<lparr>rq_id = tk_id t, rq_type = tk_type t, rq_description = tk_description t, rq_branch = tk_branch t,
      rq_priority = 3, rq_project = tk_project t, rq_pr_number = tk_pr_number t, rq_context = ctx\<rparr>"

definition settle_unused :: "deployment \<Rightarrow> time \<Rightarrow> string \<Rightarrow> string \<Rightarrow> queue \<Rightarrow> queue" where
  "settle_unused dp clock tid memo q =
     (case receipt_for_task q tid of
        (Some rid, Some r) \<Rightarrow>
          if rc_state r \<in> set terminal_states then q else move_receipt dp clock rid ''REVOKED'' memo id q
      | _ \<Rightarrow> q)"

definition duplicate_summary :: "string \<Rightarrow> string" where
  "duplicate_summary existing = ''DUPLICATE_REVIEW: existing task '' @ existing @ '' reviews this head''"

definition suppress_review :: "deployment \<Rightarrow> time \<Rightarrow> string \<Rightarrow> task_row \<Rightarrow> task_context \<Rightarrow> string \<Rightarrow> queue \<Rightarrow> queue" where
  "suppress_review dp clock main t ctx existing q =
     settle_unused dp clock (tk_id t) (duplicate_summary existing)
       (record_end (tk_id t) clock ''duplicate_review_refused'' False (Some existing)
         (append_exec_event (tk_id t) ''duplicate_review_refused'' clock (Some existing)
           (update_task (tk_id t) (\<lambda>u. u\<lparr>tk_status := Blocked_Task, tk_summary := Some (duplicate_summary existing),
                tk_context := set_key ''duplicate_review_survivor'' (JStr existing) ctx\<rparr>)
             (if tk_type t = ''review'' then adopt_lineage main existing (request_of t ctx) ctx q else q))))"

text \<open>\<open>record_prepared_review_base\<close>: false when the task must not be pushed.\<close>

definition record_prepared_review_base ::
  "deployment \<Rightarrow> time \<Rightarrow> string \<Rightarrow> queue \<Rightarrow> string \<Rightarrow> (string \<times> json) list \<Rightarrow> bool \<times> queue" where
  "record_prepared_review_base dp clock main q tid base =
     (case task_of q tid of None \<Rightarrow> (False, q)
      | Some t \<Rightarrow>
          if tk_status t \<noteq> In_Progress then (False, q)
          else let ctx = fold (\<lambda>(k, v). set_key k v) base (tk_context t);
                   dup = fst (duplicate_review q (request_of t ctx) True None [] [])
               in if dup \<noteq> None \<and> \<not> flag ctx ''allow_duplicate_review''
                  then (False, suppress_review dp clock main t ctx (the dup) q)
                  else (True, update_task tid (\<lambda>u. u\<lparr>tk_context := ctx\<rparr>)
                         (event_if (dup \<noteq> None) tid ''duplicate_review_override'' clock dup q)))"

end
