(* ===== verification/Task_Safety.thy ===== *)
theory Task_Safety
  imports Enqueue
begin

text \<open>
  What every operation of the task queue keeps: rows keep their identity, cancelled and completed tasks
  stay so, events, outbox and spent grants only grow, and the receipt store moves by its own steps only.
  The relation \<open>evolves\<close> states it once; each operation is shown to evolve the queue.
\<close>

section \<open>Evolution\<close>

text \<open>Whom the decided statuses bind.\<close>

definition status_kept :: "task_status \<Rightarrow> task_status \<Rightarrow> bool" where
  "status_kept a b \<longleftrightarrow> (a = Cancelled \<longrightarrow> b = Cancelled) \<and> (a = Completed \<longrightarrow> b = Completed)"

definition row_kept :: "task_row \<Rightarrow> task_row \<Rightarrow> bool" where
  "row_kept a b \<longleftrightarrow>
     tk_id b = tk_id a \<and> tk_type b = tk_type a \<and> tk_description b = tk_description a \<and> tk_branch b = tk_branch a
     \<and> tk_priority b = tk_priority a \<and> tk_created_at b = tk_created_at a \<and> tk_project b = tk_project a
     \<and> tk_receipt_id b = tk_receipt_id a \<and> status_kept (tk_status a) (tk_status b)"

definition grows :: "'a list \<Rightarrow> 'a list \<Rightarrow> bool" where
  "grows xs ys \<longleftrightarrow> (\<exists>zs. ys = xs @ zs)"

text \<open>An intent keeps its identity and its tasks, and a closed one its state.\<close>

definition intent_kept :: "work_intent \<Rightarrow> work_intent \<Rightarrow> bool" where
  "intent_kept v w \<longleftrightarrow>
     wi_id w = wi_id v \<and> wi_project w = wi_project v \<and> wi_received_at w = wi_received_at v
     \<and> grows (wi_task_ids v) (wi_task_ids w) \<and> (intent_done (wi_state v) \<longrightarrow> wi_state w = wi_state v)"

abbreviation intents_kept :: "work_intent list \<Rightarrow> work_intent list \<Rightarrow> bool" where
  "intents_kept \<equiv> table_kept wi_id intent_kept"

text \<open>An outbox row keeps what it owes, and an expired one stays expired.\<close>

definition replay_kept :: "outbox_row \<Rightarrow> outbox_row \<Rightarrow> bool" where
  "replay_kept a b \<longleftrightarrow>
     ob_task_id b = ob_task_id a \<and> ob_task_type b = ob_task_type a \<and> ob_result b = ob_result a
     \<and> ob_stop_epoch b = ob_stop_epoch a \<and> ob_created_at b = ob_created_at a
     \<and> (ob_state a = Expired \<longrightarrow> ob_state b = Expired)"

abbreviation outbox_kept :: "outbox_row list \<Rightarrow> outbox_row list \<Rightarrow> bool" where
  "outbox_kept \<equiv> table_kept ob_task_id replay_kept"

text \<open>A merge that was done stays done; so does a notice that was posted.\<close>

definition op_kept :: "external_op \<Rightarrow> external_op \<Rightarrow> bool" where
  "op_kept a b \<longleftrightarrow> eo_key b = eo_key a
     \<and> (eo_state a = Op_Done \<and> startswith (eo_key a) ''merge:pr:'' \<longrightarrow> eo_state b = Op_Done)"

abbreviation ops_kept :: "external_op list \<Rightarrow> external_op list \<Rightarrow> bool" where
  "ops_kept \<equiv> table_kept eo_key op_kept"

definition posted_in :: "announcement list \<Rightarrow> int \<times> string \<Rightarrow> time option" where
  "posted_in xs k = (case row_of an_key k xs of None \<Rightarrow> None | Some a \<Rightarrow> an_posted_at a)"

definition notices_kept :: "announcement list \<Rightarrow> announcement list \<Rightarrow> bool" where
  "notices_kept xs ys \<longleftrightarrow> (\<forall>k t. posted_in xs k = Some t \<longrightarrow> posted_in ys k = Some t)"

definition evolves :: "queue \<Rightarrow> queue \<Rightarrow> bool" where
  "evolves q q' \<longleftrightarrow>
     list_all2 row_kept (q_tasks q) (q_tasks q')
     \<and> grows (q_events q) (q_events q')
     \<and> store_step\<^sup>*\<^sup>* (q_store q) (q_store q')
     \<and> grows (q_spent_grants q) (q_spent_grants q')
     \<and> (distinct (map fst (q_spent_grants q)) \<longrightarrow> distinct (map fst (q_spent_grants q')))
     \<and> outbox_kept (q_outbox q) (q_outbox q')
     \<and> (distinct (map ob_task_id (q_outbox q)) \<longrightarrow> distinct (map ob_task_id (q_outbox q')))
     \<and> (switch_step refuse_all_loosening)\<^sup>*\<^sup>* (q_switch q) (q_switch q')
     \<and> intents_kept (q_intents q) (q_intents q')
     \<and> ops_kept (q_ops q) (q_ops q')
     \<and> notices_kept (q_announcements q) (q_announcements q')"

lemma status_kept_refl [simp]: "status_kept a a"
  by (simp add: status_kept_def)

lemma row_kept_refl [simp]: "row_kept a a"
  by (simp add: row_kept_def)

lemma row_kept_trans: "row_kept a b \<Longrightarrow> row_kept b c \<Longrightarrow> row_kept a c"
  by (auto simp: row_kept_def status_kept_def)

lemma grows_refl [simp]: "grows xs xs"
  by (simp add: grows_def)

lemma grows_append [simp]: "grows xs (xs @ ys)"
  by (auto simp: grows_def)

lemma grows_trans: "grows xs ys \<Longrightarrow> grows ys zs \<Longrightarrow> grows xs zs"
  by (auto simp: grows_def)

lemma intent_kept_refl [simp]: "intent_kept w w"
  by (simp add: intent_kept_def)

lemma intent_kept_trans: "intent_kept u v \<Longrightarrow> intent_kept v w \<Longrightarrow> intent_kept u w"
  by (auto simp: intent_kept_def intro: grows_trans)

lemma replay_kept_refl [simp]: "replay_kept a a"
  by (simp add: replay_kept_def)

lemma replay_kept_trans: "replay_kept a b \<Longrightarrow> replay_kept b c \<Longrightarrow> replay_kept a c"
  by (simp add: replay_kept_def)

lemma op_kept_refl [simp]: "op_kept a a"
  by (simp add: op_kept_def)

lemma op_kept_trans: "op_kept a b \<Longrightarrow> op_kept b c \<Longrightarrow> op_kept a c"
  by (simp add: op_kept_def)

lemma notices_kept_refl [simp]: "notices_kept xs xs"
  by (simp add: notices_kept_def)

lemma notices_kept_trans: "notices_kept xs ys \<Longrightarrow> notices_kept ys zs \<Longrightarrow> notices_kept xs zs"
  by (simp add: notices_kept_def)

lemma evolves_refl [simp]: "evolves q q"
  by (simp add: evolves_def list_all2_same)

lemma evolvesD:
  assumes "evolves q q'"
  shows "list_all2 row_kept (q_tasks q) (q_tasks q')" and "grows (q_events q) (q_events q')"
    and "store_step\<^sup>*\<^sup>* (q_store q) (q_store q')" and "grows (q_spent_grants q) (q_spent_grants q')"
    and "distinct (map fst (q_spent_grants q)) \<Longrightarrow> distinct (map fst (q_spent_grants q'))"
    and "outbox_kept (q_outbox q) (q_outbox q')"
    and "distinct (map ob_task_id (q_outbox q)) \<Longrightarrow> distinct (map ob_task_id (q_outbox q'))"
    and "(switch_step refuse_all_loosening)\<^sup>*\<^sup>* (q_switch q) (q_switch q')"
    and "intents_kept (q_intents q) (q_intents q')" and "ops_kept (q_ops q) (q_ops q')"
    and "notices_kept (q_announcements q) (q_announcements q')"
  using assms by (simp_all add: evolves_def)

lemma evolves_trans:
  assumes "evolves p q" and "evolves q r"
  shows "evolves p r"
  unfolding evolves_def
  using list_all2_trans [OF row_kept_trans, OF _ _ evolvesD(1) [OF assms(1)] evolvesD(1) [OF assms(2)]]
    grows_trans [OF evolvesD(2) [OF assms(1)] evolvesD(2) [OF assms(2)]]
    rtranclp_trans [OF evolvesD(3) [OF assms(1)] evolvesD(3) [OF assms(2)]]
    grows_trans [OF evolvesD(4) [OF assms(1)] evolvesD(4) [OF assms(2)]]
    evolvesD(5) [OF assms(2) evolvesD(5) [OF assms(1)]]
    table_kept_trans [OF replay_kept_trans evolvesD(6) [OF assms(1)] evolvesD(6) [OF assms(2)]]
    evolvesD(7) [OF assms(2) evolvesD(7) [OF assms(1)]]
    rtranclp_trans [OF evolvesD(8) [OF assms(1)] evolvesD(8) [OF assms(2)]]
    table_kept_trans [OF intent_kept_trans evolvesD(9) [OF assms(1)] evolvesD(9) [OF assms(2)]]
    table_kept_trans [OF op_kept_trans evolvesD(10) [OF assms(1)] evolvesD(10) [OF assms(2)]]
    notices_kept_trans [OF evolvesD(11) [OF assms(1)] evolvesD(11) [OF assms(2)]]
  by simp

lemma append_exec_event_evolves: "evolves q (append_exec_event tid event clock field q)"
  by (simp add: evolves_def append_exec_event_def list_all2_same)

lemma update_task_evolves:
  assumes "\<And>t. t \<in> set (q_tasks q) \<Longrightarrow> tk_id t = tid \<Longrightarrow> row_kept t (f t)"
  shows "evolves q (update_task tid f q)"
proof -
  have "list_all2 row_kept ts (map (\<lambda>t. if tk_id t = tid then f t else t) ts)"
    if "\<And>t. t \<in> set ts \<Longrightarrow> tk_id t = tid \<Longrightarrow> row_kept t (f t)" for ts
    using that by (induction ts) auto
  with assms show ?thesis by (simp add: evolves_def update_task_def)
qed

lemma store_evolves: "store_step\<^sup>*\<^sup>* (q_store q) s \<Longrightarrow> evolves q (q\<lparr>q_store := s\<rparr>)"
  by (simp add: evolves_def list_all2_same)

lemma switch_evolves: "(switch_step refuse_all_loosening)\<^sup>*\<^sup>* (q_switch q) w \<Longrightarrow> evolves q (q\<lparr>q_switch := w\<rparr>)"
  by (simp add: evolves_def list_all2_same)

lemma record_end_evolves: "evolves q (record_end tid clock event posted field q)"
  unfolding record_end_def
  by (rule evolves_trans [OF update_task_evolves append_exec_event_evolves]) (simp add: row_kept_def)

lemma transition_steps:
  assumes "transition e now s rid state memo mutate = Inr (r, t)"
  shows "store_step\<^sup>*\<^sup>* s t"
proof -
  from assms obtain q u where l: "append_lifecycle now s rid state (Some ''engine'') memo mutate (resign e) = Inr (q, u)"
    and t: "t = set_lineage_state now u (rc_intent_hash q) rid (rc_state q)"
    by (auto simp: transition_def split: sum.splits)
  have "store_step s u" by (rule step_lifecycle [OF l])
  moreover have "store_step u t" by (rule step_state) (simp add: t)
  ultimately show ?thesis by (simp add: converse_rtranclp_into_rtranclp r_into_rtranclp)
qed

lemma move_receipt_evolves: "evolves q (move_receipt dp clock rid state memo mutate q)"
  by (auto simp: move_receipt_def split: sum.split intro!: store_evolves transition_steps)

lemma mint_steps:
  assumes "mint_dispatch_nonce e now nonce s r = Inr (x, t)"
  shows "store_step\<^sup>*\<^sup>* s t"
proof -
  from assms obtain u q k where "mint_nonce s (rc_receipt_id r) (rc_attempt r) nonce (rfc3339 now) = Inr u"
      and "record_receipt now u q (Some ''engine'') (Some ''dispatch nonce minted'') None = Inr (k, t)"
    by (auto simp: mint_dispatch_nonce_def Let_def split: sum.splits)
  then have "store_step s u" "store_step u t" by (blast intro: step_mint, blast intro: step_record)
  then show ?thesis by (simp add: converse_rtranclp_into_rtranclp r_into_rtranclp)
qed

section \<open>The operations evolve the queue\<close>

lemma consume_steps: "consume_nonce clock s k author memo = (b, t) \<Longrightarrow> store_step\<^sup>*\<^sup>* s t"
  by (blast intro: step_consume)

lemma revoke_steps: "store_step\<^sup>*\<^sup>* s (snd (revoke_nonces_for_receipt clock s rid who memo))"
  by (rule r_into_rtranclp, rule step_revoke [OF surjective_pairing])

lemma reconcile_steps: "reconcile_pause_signal clock ps w = (st, v) \<Longrightarrow> (switch_step auth)\<^sup>*\<^sup>* w v"
  by (blast intro: switch_step.reconciles)

lemma stop_active_steps: "stop_active clock ps w p = (b, v) \<Longrightarrow> (switch_step auth)\<^sup>*\<^sup>* w v"
  by (auto simp: stop_active_def Let_def split: prod.splits intro: reconcile_steps)

text \<open>Taking a row needs it pending, as every caller of the claim gate has it.\<close>

lemma in_progress_kept: "a \<noteq> Cancelled \<Longrightarrow> a \<noteq> Completed \<Longrightarrow> status_kept a b"
  by (simp add: status_kept_def)

lemma take_row_evolves:
  assumes "\<And>t. t \<in> set (q_tasks q) \<Longrightarrow> tk_id t = tid \<Longrightarrow> tk_status t = Pending"
  shows "evolves q (take_row dp clock tid agent role via q)"
  unfolding take_row_def
  by (rule evolves_trans [OF update_task_evolves append_exec_event_evolves])
    (simp add: row_kept_def assms status_kept_def)

lemma spend_grant_shape:
  assumes "spend_grant dp clock q tid = Some q1"
  shows "q_tasks q1 = q_tasks q \<and> q_store q1 = q_store q \<and> evolves q q1"
proof (cases "gc_mode (claim_config dp q tid) = ENFORCE")
  case True
  with assms obtain nonce rid where "nonce \<notin> fst ` set (q_spent_grants q)"
      and q1: "q1 = q\<lparr>q_spent_grants := q_spent_grants q @ [(nonce, rid)]\<rparr>"
    by (auto simp: spend_grant_def Let_def split: option.splits if_splits)
  then show ?thesis by (simp add: evolves_def list_all2_same)
next
  case False
  then have "q1 = q \<or> (\<exists>f. q1 = append_exec_event tid ''signed_receipt_check'' clock f q)"
    using assms by (auto simp: spend_grant_def Let_def split: if_splits)
  then show ?thesis by (auto simp: append_exec_event_evolves, auto simp: append_exec_event_def)
qed

definition only_status :: "queue \<Rightarrow> string \<Rightarrow> task_status \<Rightarrow> bool" where
  "only_status q tid st \<longleftrightarrow> (\<forall>t \<in> set (q_tasks q). tk_id t = tid \<longrightarrow> tk_status t = st)"

definition unique_tasks :: "queue \<Rightarrow> bool" where
  "unique_tasks q \<longleftrightarrow> distinct (map tk_id (q_tasks q))"

lemma only_statusD: "only_status q tid st \<Longrightarrow> t \<in> set (q_tasks q) \<Longrightarrow> tk_id t = tid \<Longrightarrow> tk_status t = st"
  by (simp add: only_status_def)

lemma task_of_unique: "unique_tasks q \<Longrightarrow> t \<in> set (q_tasks q) \<Longrightarrow> task_of q (tk_id t) = Some t"
  by (simp add: unique_tasks_def task_of_def row_of_distinct)

lemma task_of_only:
  assumes "unique_tasks q" and "task_of q tid = Some t"
  shows "only_status q tid (tk_status t)"
  using assms task_of_unique [OF assms(1)] by (auto simp: only_status_def)

lemma in_status_only: "unique_tasks q \<Longrightarrow> in_status q tid st \<Longrightarrow> only_status q tid st"
  by (auto simp: in_status_def split: option.splits dest: task_of_only)

lemma rows_kept_ids: "list_all2 row_kept xs ys \<Longrightarrow> map tk_id ys = map tk_id xs"
  by (induction rule: list_all2_induct) (auto simp: row_kept_def)

lemma evolves_unique: "evolves q q' \<Longrightarrow> unique_tasks q \<Longrightarrow> unique_tasks q'"
  by (simp add: unique_tasks_def rows_kept_ids [OF evolvesD(1)])

lemma claim_through_gate_cases:
  assumes "claim_through_gate dp clock q tid agent role via = ((ok, g), q')"
  obtains (refused) "\<not> ok" "q' = q"
  | (no_receipt) q1 q2 where "ok" "g = None" "spend_grant dp clock q tid = Some q1"
      "claim_gate dp clock q1 tid agent role = None" "\<not> enforcing_code (cea_config dp []) None"
      "q2 = q1 \<or> q2 = report_legacy_row tid ''claim'' clock q1" "q' = take_row dp clock tid agent role via q2"
  | (gated) q1 o1 where "ok" "g = Some o1" "spend_grant dp clock q tid = Some q1"
      "claim_gate dp clock q1 tid agent role = Some o1" "go_proceed o1"
      "q' = move_receipt dp clock (vr_receipt_id (go_result o1)) ''CLAIMED'' (gate_memo ''claim'' o1) id
              (take_row dp clock tid agent role via q1)"
proof (cases "spend_grant dp clock q tid")
  case None
  with assms show ?thesis by (intro refused) (simp_all add: claim_through_gate_def)
next
  case s: (Some q1)
  show ?thesis
  proof (cases "claim_gate dp clock q1 tid agent role")
    case None
    show ?thesis
    proof (cases "enforcing_code (cea_config dp []) None")
      case True
      with assms s None show ?thesis by (intro refused) (simp_all add: claim_through_gate_def)
    next
      case False
      with assms s None show ?thesis
        by (intro no_receipt [OF _ _ s None False,
            of "if recording (gc_mode (cea_config dp [])) then report_legacy_row tid ''claim'' clock q1 else q1"])
          (simp_all add: claim_through_gate_def)
    qed
  next
    case (Some o1)
    with assms s show ?thesis
      by (cases "go_proceed o1") (auto simp: claim_through_gate_def intro: refused gated [OF _ _ s Some])
  qed
qed

lemma legacy_evolves: "evolves q (report_legacy_row tid point clock q)"
  by (simp add: report_legacy_row_def append_exec_event_evolves)

lemma legacy_tasks [simp]: "q_tasks (report_legacy_row tid point clock q) = q_tasks q"
  by (simp add: report_legacy_row_def append_exec_event_def)

lemma take_pending_evolves:
  "only_status q tid Pending \<Longrightarrow> q_tasks q2 = q_tasks q \<Longrightarrow> evolves q2 (take_row dp clock tid agent role via q2)"
  by (rule take_row_evolves) (simp add: only_status_def)

lemma claim_evolves:
  assumes "claim_through_gate dp clock q tid agent role via = ((ok, g), q')" and "only_status q tid Pending"
  shows "evolves q q'"
  using assms(1)
proof (cases rule: claim_through_gate_cases)
  case refused
  then show ?thesis by simp
next
  case (no_receipt q1 q2)
  from spend_grant_shape [OF no_receipt(3)] no_receipt(6)
  have q2: "evolves q q2" "q_tasks q2 = q_tasks q"
    by (auto intro: evolves_trans [OF _ legacy_evolves])
  from evolves_trans [OF q2(1) take_pending_evolves [OF assms(2) q2(2)]] show ?thesis
    unfolding no_receipt(7) .
next
  case (gated q1 o1)
  from spend_grant_shape [OF gated(3)] have q1: "evolves q q1" "q_tasks q1 = q_tasks q" by auto
  from evolves_trans [OF evolves_trans [OF q1(1) take_pending_evolves [OF assms(2) q1(2)]] move_receipt_evolves]
  show ?thesis unfolding gated(6) .
qed

lemma first_row_mem: "first_row rs = Some t \<Longrightarrow> t \<in> set rs"
  by (induction rs arbitrary: t) (auto split: option.splits if_splits)

lemma pick_claimable: "pick clock cr p q = Some t \<Longrightarrow> t \<in> set (q_tasks q) \<and> claimable clock cr t \<and> p t"
  by (auto simp: pick_def dest: first_row_mem)

lemma choose_row_claimable:
  assumes "choose_row dp clock cr q = Inr t"
  shows "t \<in> set (q_tasks q) \<and> claimable clock cr t"
  using assms
  by (auto simp: choose_row_def Let_def override_row_def role_row_def
      dest: pick_claimable split: if_splits option.splits)

lemma dequeue_cases:
  assumes "dequeue dp clock ps ps2 cr q = (r, q')"
  obtains (unclaimed) b w where "stop_active clock ps (q_switch q) At_Claim = (b, w)" "q' = q\<lparr>q_switch := w\<rparr>"
      "\<forall>t. r \<noteq> Claimed t"
  | (claimed) w w2 t g where "r = Claimed t" "stop_active clock ps (q_switch q) At_Claim = (False, w)"
      "stop_active clock ps2 w At_Claim = (False, w2)" "choose_row dp clock cr (q\<lparr>q_switch := w\<rparr>) = Inr t"
      "claim_through_gate dp clock (q\<lparr>q_switch := w2\<rparr>) (tk_id t) (cr_agent cr) (cr_role cr) (cr_via cr)
         = ((True, g), q')"
proof -
  obtain b w where w: "stop_active clock ps (q_switch q) At_Claim = (b, w)" by fastforce
  obtain b2 w2 where w2: "stop_active clock ps2 w At_Claim = (b2, w2)" by fastforce
  let ?q = "q\<lparr>q_switch := w\<rparr>"
  show thesis
  proof (cases "b \<or> b2")
    case True
    then have "q' = ?q \<and> r = No_Claim"
      using assms w w2 by (cases b) (simp_all add: dequeue_def Let_def)
    then show ?thesis by (intro unclaimed [OF w]) simp_all
  next
    case False
    then have open': "stop_active clock ps (q_switch q) At_Claim = (False, w)"
        "stop_active clock ps2 w At_Claim = (False, w2)" using w w2 by auto
    show ?thesis
    proof (cases "choose_row dp clock cr ?q")
      case (Inl e)
      with assms open' show ?thesis by (intro unclaimed [OF w]) (cases e; simp add: dequeue_def Let_def)+
    next
      case (Inr t)
      obtain ok g q2 where c: "claim_through_gate dp clock (q\<lparr>q_switch := w2\<rparr>) (tk_id t) (cr_agent cr) (cr_role cr)
          (cr_via cr) = ((ok, g), q2)" by (metis prod.collapse)
      show ?thesis
      proof (cases ok)
        case True
        with assms open' Inr c show ?thesis by (intro claimed [OF _ open' Inr]) (simp_all add: dequeue_def Let_def)
      next
        case False
        with assms open' Inr c show ?thesis by (intro unclaimed [OF w]) (simp_all add: dequeue_def Let_def)
      qed
    qed
  qed
qed

lemma claimable_pending: "claimable clock cr t \<Longrightarrow> tk_status t = Pending"
  by (simp add: claimable_def)

lemma chosen_only_pending:
  assumes "unique_tasks q" and "t \<in> set (q_tasks q)" and "tk_status t = Pending"
  shows "only_status q (tk_id t) Pending"
  using task_of_only [OF assms(1) task_of_unique [OF assms(1,2)]] assms(3) by simp

lemma dequeue_evolves:
  assumes "dequeue dp clock ps ps2 cr q = (r, q')" and "unique_tasks q"
  shows "evolves q q'"
  using assms(1)
proof (cases rule: dequeue_cases)
  case (unclaimed b w)
  then show ?thesis by (simp add: switch_evolves [OF stop_active_steps])
next
  case (claimed w w2 t g)
  from choose_row_claimable [OF claimed(4)] have t: "t \<in> set (q_tasks q)" "tk_status t = Pending"
    by (auto dest: claimable_pending)
  have sw: "evolves q (q\<lparr>q_switch := w2\<rparr>)"
    by (rule switch_evolves, rule rtranclp_trans [OF stop_active_steps [OF claimed(2)] stop_active_steps [OF claimed(3)]])
  have "only_status (q\<lparr>q_switch := w2\<rparr>) (tk_id t) Pending"
    using chosen_only_pending [OF assms(2) t] by (simp add: only_status_def)
  with sw claim_evolves [OF claimed(5)] show ?thesis by (blast intro: evolves_trans)
qed

lemma discuss_evolves:
  assumes "dequeue_discuss_for_agent dp clock ps ps2 agent via skip q = (r, q')" and "unique_tasks q"
  shows "evolves q q'"
proof -
  obtain b w where w: "stop_active clock ps (q_switch q) At_Claim = (b, w)" by fastforce
  obtain b2 w2 where w2: "stop_active clock ps2 w At_Claim = (b2, w2)" by fastforce
  let ?q = "q\<lparr>q_switch := w\<rparr>"
  have w1: "evolves q ?q" by (rule switch_evolves [OF stop_active_steps [OF w]])
  show ?thesis
  proof (cases "discuss_row clock skip agent ?q")
    case None
    with assms(1) w w2 w1 show ?thesis by (auto simp: dequeue_discuss_for_agent_def Let_def split: if_splits)
  next
    case (Some t)
    then have t: "t \<in> set (q_tasks q)" "tk_status t = Pending"
      by (auto simp: discuss_row_def dest: first_row_mem)
    obtain ok g q2 where c: "claim_through_gate dp clock (q\<lparr>q_switch := w2\<rparr>) (tk_id t) agent ''discuss'' via
        = ((ok, g), q2)" by (metis prod.collapse)
    have "only_status (q\<lparr>q_switch := w2\<rparr>) (tk_id t) Pending"
      using chosen_only_pending [OF assms(2) t] by (simp add: only_status_def)
    then have "evolves q q2"
      using claim_evolves [OF c] switch_evolves [OF rtranclp_trans [OF stop_active_steps [OF w] stop_active_steps [OF w2]]]
      by (blast intro: evolves_trans)
    with assms(1) w w2 w1 Some c show ?thesis
      by (auto simp: dequeue_discuss_for_agent_def Let_def split: if_splits)
  qed
qed

text \<open>The statuses of all rows; the gates leave them alone.\<close>

definition statuses :: "queue \<Rightarrow> (string \<times> task_status) list" where
  "statuses q = map (\<lambda>t. (tk_id t, tk_status t)) (q_tasks q)"

lemma only_status_statuses: "only_status q tid st \<longleftrightarrow> (\<forall>(i, s) \<in> set (statuses q). i = tid \<longrightarrow> s = st)"
  by (auto simp: only_status_def statuses_def)

lemma only_status_cong: "statuses q = statuses q' \<Longrightarrow> only_status q tid st = only_status q' tid st"
  by (simp add: only_status_statuses)

lemma move_receipt_tasks [simp]: "q_tasks (move_receipt dp clock rid state memo mutate q) = q_tasks q"
  by (simp add: move_receipt_def split: sum.split)

lemma statuses_move [simp]: "statuses (move_receipt dp clock rid state memo mutate q) = statuses q"
  by (simp add: statuses_def)

lemma statuses_event [simp]: "statuses (append_exec_event tid event clock field q) = statuses q"
  by (simp add: statuses_def append_exec_event_def)

lemma statuses_update:
  "(\<And>t. tk_id (f t) = tk_id t \<and> tk_status (f t) = tk_status t) \<Longrightarrow> statuses (update_task tid f q) = statuses q"
  by (simp add: statuses_def update_task_def)

lemma statuses_record_end [simp]: "statuses (record_end tid clock event posted field q) = statuses q"
  by (simp add: record_end_def statuses_update)

lemma context_update_evolves:
  "(\<And>t. row_kept t (f t)) \<Longrightarrow> evolves q (update_task tid f q)"
  by (rule update_task_evolves) blast

lemma requeue_receipt_evolves:
  "evolves q (requeue_receipt dp clock path g q) \<and> statuses (requeue_receipt dp clock path g q) = statuses q"
  by (simp add: requeue_receipt_def move_receipt_evolves split: validation_outcome.split)

lemma requeue_gate_evolves:
  assumes "requeue_through_gate dp clock q tid path = ((ok, g), q')"
  shows "evolves q q' \<and> statuses q' = statuses q"
proof (cases "snd (receipt_for_task q tid)")
  case None
  then have "q' = record_end tid clock ''requeue_refused_no_receipt'' False None q"
    using assms by (cases "receipt_for_task q tid") (simp add: requeue_through_gate_def)
  then show ?thesis by (simp add: record_end_evolves)
next
  case r: (Some r)
  show ?thesis
  proof (cases "gate_requeue (cea_config_for_receipt dp (Some r)) (Some r) path
                  (engine_current_inputs (dp_engine dp) r default_inputs)")
    case None
    with assms r have "q' = q" by (cases "receipt_for_task q tid") (simp add: requeue_through_gate_def)
    then show ?thesis by simp
  next
    case (Some o1)
    let ?f = "\<lambda>t. t\<lparr>tk_context := (tk_context t)\<lparr>tc_cea_requeue := Some o1\<rparr>\<rparr>"
    from assms r Some have q': "q' = update_task tid ?f (requeue_receipt dp clock path o1 q)"
      by (cases "receipt_for_task q tid") (auto simp: requeue_through_gate_def)
    have "evolves (requeue_receipt dp clock path o1 q) q'"
      unfolding q' by (rule context_update_evolves) (simp add: row_kept_def)
    with requeue_receipt_evolves [of q dp clock path o1] show ?thesis
      unfolding q' by (auto intro: evolves_trans simp: statuses_update)
  qed
qed

lemma open_update_evolves:
  assumes "only_status q tid st" and "st \<noteq> Cancelled" and "st \<noteq> Completed"
    and "\<And>t. row_kept t ((f t)\<lparr>tk_status := tk_status t\<rparr>)"
  shows "evolves q (update_task tid f q)"
proof (rule update_task_evolves)
  fix t assume "t \<in> set (q_tasks q)" "tk_id t = tid"
  then have "tk_status t = st" by (rule only_statusD [OF assms(1)])
  with assms(2-3) assms(4) [of t] show "row_kept t (f t)"
    by (simp add: row_kept_def status_kept_def)
qed

lemma end_update_evolves:
  assumes "evolves q q1" and "only_status q1 tid st" and "st \<noteq> Cancelled" and "st \<noteq> Completed"
    and "\<And>t. row_kept t ((f t)\<lparr>tk_status := tk_status t\<rparr>)"
  shows "evolves q (record_end tid clock event posted field (update_task tid f q1))"
  using evolves_trans [OF evolves_trans [OF assms(1) open_update_evolves [OF assms(2-5)]] record_end_evolves] .

lemma gate_then_open:
  assumes "requeue_through_gate dp clock q tid path = ((ok, g), q1)" and "only_status q tid st"
  shows "evolves q q1" and "only_status q1 tid st"
  using requeue_gate_evolves [OF assms(1)] assms(2) only_status_cong [of q1 q] by auto

lemma requeue_evolves:
  assumes "unique_tasks q"
  shows "evolves q (requeue dp clock q tid)"
proof (cases "in_status q tid In_Progress")
  case True
  obtain ok g q1 where r: "requeue_through_gate dp clock q tid ''queue.requeue'' = ((ok, g), q1)"
    by (metis prod.collapse)
  note * = gate_then_open [OF r in_status_only [OF assms True]]
  have "evolves q (record_end tid clock ''requeued'' False None (back_to_pending tid q1))"
    unfolding back_to_pending_def by (rule end_update_evolves [OF *]) (simp_all add: row_kept_def)
  with r * True show ?thesis by (simp add: requeue_def)
qed (simp add: requeue_def)

lemma requeue_dispatcher_evolves:
  assumes "unique_tasks q" and "requeue_dispatcher_claim dp clock q tid unstarted_before = (b, q')"
  shows "evolves q q'"
proof (cases "task_of q tid")
  case None
  with assms(2) show ?thesis by (simp add: requeue_dispatcher_claim_def)
next
  case (Some t)
  obtain ok g q1 where r: "requeue_through_gate dp clock q tid ''queue.requeue_dispatcher_claim'' = ((ok, g), q1)"
    by (metis prod.collapse)
  note * = gate_then_open [OF r task_of_only [OF assms(1) Some]]
  show ?thesis
  proof (cases "tk_status t = In_Progress")
    case True
    have "evolves q (record_end tid clock ''requeued'' False None (back_to_pending tid q1))"
      unfolding back_to_pending_def by (rule end_update_evolves [OF *]) (simp_all add: row_kept_def True)
    with assms(2) Some r * show ?thesis
      by (auto simp: requeue_dispatcher_claim_def split: if_splits)
  next
    case False
    with assms(2) Some show ?thesis by (simp add: requeue_dispatcher_claim_def)
  qed
qed

lemma defer_push_evolves:
  assumes "unique_tasks q" and "defer_push_delivery dp clock q tid pane reason m backoff = (n, q')"
  shows "evolves q q'"
proof (cases "task_of q tid")
  case None
  with assms(2) show ?thesis by (simp add: defer_push_delivery_def)
next
  case (Some t)
  obtain k refusals where c: "count_refusal pane (tc_push_refusals (tk_context t)) = (k, refusals)" by fastforce
  obtain ok g q1 where r: "requeue_through_gate dp clock q tid ''queue.defer_push_delivery'' = ((ok, g), q1)"
    by (metis prod.collapse)
  note * = gate_then_open [OF r task_of_only [OF assms(1) Some]]
  show ?thesis
  proof (cases "tk_status t = In_Progress")
    case True
    let ?w = "refused_row clock reason k refusals backoff (tc_cea_requeue (tk_context t))"
    have "evolves q (update_task tid (?w st) q)" for st
      by (rule open_update_evolves [OF task_of_only [OF assms(1) Some]]) (simp_all add: row_kept_def refused_row_def True)
    moreover have "evolves q1 (update_task tid (?w st) q1)" for st
      by (rule open_update_evolves [OF *(2)]) (simp_all add: row_kept_def refused_row_def True)
    ultimately show ?thesis using assms(2) Some c r *(1) True
      by (auto simp: defer_push_delivery_def Let_def split: if_splits intro: evolves_trans)
  next
    case False
    with assms(2) Some show ?thesis by (simp add: defer_push_delivery_def)
  qed
qed

lemma defer_prep_evolves:
  assumes "unique_tasks q" and "defer_prep_retry dp clock q tid delay err = (b, q')"
  shows "evolves q q'"
proof (cases "in_status q tid In_Progress")
  case True
  obtain ok g q1 where r: "requeue_through_gate dp clock q tid ''queue.defer_prep_retry'' = ((ok, g), q1)"
    by (metis prod.collapse)
  note * = gate_then_open [OF r in_status_only [OF assms(1) True]]
  have "evolves q (record_end tid clock ''requeued'' False (Some ''prep_transient'')
     (update_task tid (\<lambda>t. t\<lparr>tk_status := Pending, tk_claim_source := [],
        tk_context := (tk_context t)\<lparr>tc_prep_retry_count := tc_prep_retry_count (tk_context t) + 1,
          tc_prep_retry_error := Some err, tc_push_not_before := Some (clock + delay),
          tc_push_refusal_reason := Some ''prep_transient''\<rparr>\<rparr>) q1))"
    by (rule end_update_evolves [OF *]) (simp_all add: row_kept_def)
  with assms(2) r * True show ?thesis
    unfolding defer_prep_retry_def by (simp split: if_splits)
next
  case False
  with assms(2) show ?thesis by (simp add: defer_prep_retry_def)
qed

lemma capacity_log_evolves: "evolves q (capacity_log clock tid tag blocked readmit q)"
proof -
  let ?q = "if readmit then append_exec_event tid ''provider_capacity_readmit'' clock (Some tag) q
            else record_end tid clock ''requeued'' False (Some tag) q"
  have "evolves q ?q" by (simp add: append_exec_event_evolves record_end_evolves)
  then show ?thesis
    using evolves_trans [OF _ append_exec_event_evolves] by (simp add: capacity_log_def Let_def)
qed

lemma capacity_evolves:
  assumes "unique_tasks q" and "defer_provider_capacity dp clock q tid delay after tag = (b, q')"
  shows "evolves q q'"
proof (cases "task_of q tid")
  case None
  with assms(2) show ?thesis by (simp add: defer_provider_capacity_def)
next
  case (Some t)
  obtain ok g q1 where r: "requeue_through_gate dp clock q tid ''queue.defer_provider_capacity'' = ((ok, g), q1)"
    by (metis prod.collapse)
  note * = gate_then_open [OF r task_of_only [OF assms(1) Some]]
  show ?thesis
  proof (cases "tk_status t = In_Progress \<and> ok")
    case True
    let ?b = "capacity_blocked clock after (tk_context t)" and ?r = "enforced_readmission g"
    let ?q2 = "update_task tid (capacity_row clock delay tag (tk_context t) ?b ?r) q1"
    have "evolves q1 ?q2"
      by (rule open_update_evolves [OF *(2)]) (simp_all add: row_kept_def capacity_row_def True)
    then have "evolves q (capacity_log clock tid tag ?b ?r ?q2)"
      by (rule evolves_trans [OF evolves_trans [OF *(1)] capacity_log_evolves])
    moreover have "q' = capacity_log clock tid tag ?b ?r ?q2"
      using assms(2) Some r True by (simp add: defer_provider_capacity_def Let_def)
    ultimately show ?thesis by simp
  next
    case False
    with assms(2) Some r *(1) show ?thesis
      by (cases ok) (auto simp: defer_provider_capacity_def Let_def split: if_splits)
  qed
qed

lemma only_status_record_end: "only_status (record_end i clock event posted field q) j st = only_status q j st"
  by (rule only_status_cong) simp

lemma only_status_update:
  assumes "\<And>t. tk_id (f t) = tk_id t"
  shows "only_status (update_task i f q) j st =
     (if j = i then (\<forall>t \<in> set (q_tasks q). tk_id t = i \<longrightarrow> tk_status (f t) = st) else only_status q j st)"
proof -
  have "list_all (\<lambda>t. tk_id t = j \<longrightarrow> tk_status t = st) (map (\<lambda>t. if tk_id t = i then f t else t) ts)
      = list_all (\<lambda>t. tk_id t = j \<longrightarrow> tk_status (if tk_id t = i then f t else t) = st) ts" for ts
    by (induction ts) (simp_all add: assms)
  from this [of "q_tasks q"] show ?thesis
    by (auto simp: only_status_def update_task_def list_all_iff)
qed

lemma reset_rows_evolves:
  "unique_tasks q \<Longrightarrow> (\<And>i. i \<in> set ids \<Longrightarrow> only_status q i In_Progress \<or> only_status q i Pending) \<Longrightarrow>
     evolves q (fold (reset_row clock) ids q)"
proof (induction ids arbitrary: q)
  case (Cons i ids)
  have "evolves q (reset_row clock i q)" if "only_status q i st" "st \<noteq> Cancelled" "st \<noteq> Completed" for st
    unfolding reset_row_def by (rule end_update_evolves [OF evolves_refl that]) (simp add: row_kept_def)
  then have "evolves q (reset_row clock i q)" using Cons.prems(2) [of i] by force
  moreover have "only_status (reset_row clock i q) j In_Progress \<or> only_status (reset_row clock i q) j Pending"
    if "j \<in> set ids" for j
    using Cons.prems(2) [of j] that
    unfolding reset_row_def only_status_record_end by (simp add: only_status_update)
  ultimately show ?case
    using Cons.IH [of "reset_row clock i q"] Cons.prems(1) by (auto intro: evolves_trans evolves_unique)
qed simp

lemma gate_each_evolves:
  "gate_each dp clock tids q = (ids, q') \<Longrightarrow> evolves q q' \<and> statuses q' = statuses q \<and> set ids \<subseteq> set tids"
proof (induction tids arbitrary: q ids q')
  case (Cons i tids)
  obtain ok g q1 where r: "requeue_through_gate dp clock q i ''queue.reset_stale_to_pending'' = ((ok, g), q1)"
    by (metis prod.collapse)
  obtain ds q2 where d: "gate_each dp clock tids q1 = (ds, q2)" by fastforce
  from Cons.prems r d have "q' = q2" "ids = (if ok then i # ds else ds)" by auto
  with Cons.IH [OF d] requeue_gate_evolves [OF r] show ?case by (auto intro: evolves_trans)
qed simp

lemma stale_in_progress:
  assumes "unique_tasks q" and "i \<in> set (stale_ids q cutoff)"
  shows "only_status q i In_Progress"
proof -
  from assms(2) obtain t where t: "t \<in> set (q_tasks q)" "tk_id t = i" "tk_status t = In_Progress"
    by (auto simp: stale_ids_def)
  with task_of_only [OF assms(1) task_of_unique [OF assms(1) t(1)]] show ?thesis by simp
qed

lemma reset_evolves:
  assumes "unique_tasks q" and "reset_stale_to_pending dp clock q older = (ids, q')"
  shows "evolves q q'"
proof -
  obtain ds q1 where g: "gate_each dp clock (stale_ids q (clock - older)) q = (ds, q1)" by fastforce
  from gate_each_evolves [OF g] have g': "evolves q q1" "statuses q1 = statuses q" "set ds \<subseteq> set (stale_ids q (clock - older))"
    by auto
  have "only_status q1 i In_Progress \<or> only_status q1 i Pending" if "i \<in> set ds" for i
    using stale_in_progress [OF assms(1)] g'(3) that only_status_cong [OF g'(2)] by blast
  then have "evolves q1 (fold (reset_row clock) ds q1)"
    by (rule reset_rows_evolves [OF evolves_unique [OF g'(1) assms(1)]])
  with g g'(1) assms(2) show ?thesis by (auto simp: reset_stale_to_pending_def intro: evolves_trans)
qed

lemma note_dispatch_evolves: "evolves q (note_dispatch clock tid channel agent target owner secs q)"
  unfolding note_dispatch_def
  by (auto intro!: evolves_trans [OF context_update_evolves append_exec_event_evolves] simp: row_kept_def)

lemma record_dispatch_evolves:
  assumes "record_dispatch dp clock fresh q tid channel agent target owner secs = (a, q')"
  shows "evolves q q'"
proof (cases "snd (receipt_for_task q tid)")
  case None
  with assms show ?thesis
    by (auto simp: record_dispatch_def split: if_splits intro: evolves_trans [OF legacy_evolves note_dispatch_evolves]
        note_dispatch_evolves)
next
  case (Some r)
  show ?thesis
  proof (cases "mint_dispatch_nonce (dp_engine dp) clock fresh (q_store q) r")
    case (Inl e)
    with assms Some show ?thesis
      by (auto simp: record_dispatch_def Let_def split: if_splits intro: note_dispatch_evolves)
  next
    case (Inr x)
    obtain y k s where x: "x = ((y, k), s)" by (metis prod.collapse)
    have "evolves q (q\<lparr>q_store := s\<rparr>)" using Inr x by (intro store_evolves mint_steps) simp
    then have "evolves q (note_dispatch clock tid channel agent target owner secs (q\<lparr>q_store := s\<rparr>))"
      by (rule evolves_trans [OF _ note_dispatch_evolves])
    with assms Some Inr x show ?thesis
      by (auto simp: record_dispatch_def Let_def split: if_splits)
  qed
qed

lemma bind_target_evolves: "evolves q (bind_dispatch_target q tid target owner)"
  unfolding bind_dispatch_target_def by (rule context_update_evolves) (simp add: row_kept_def)

lemma heartbeat_evolves: "evolves q (record_heartbeat clock q tid source)"
  unfolding record_heartbeat_def by (rule context_update_evolves) (simp add: row_kept_def)

lemma start_cases:
  assumes "start_execution dp clock q tid nonce presenter = (a, q')"
  obtains (stays) "q' = q" "sa_go a \<longrightarrow> \<not> sa_enforced a" "\<not> sa_nonce_spent a" "in_status q tid Cancelled \<longrightarrow> \<not> sa_go a"
  | (answered) r rid g spent s where
      "receipt_for_task q tid = (rid, Some r)" "g = start_gate dp clock q r nonce presenter"
      "\<not> in_status q tid Cancelled"
      "sa_go a = go_proceed g" "sa_enforced a = go_enforced g" "sa_nonce_spent a = spent"
      "(spent, s) = (if go_proceed g \<and> truthy nonce
         then consume_nonce clock (q_store q) (the nonce)
                (Some (consumer_tag (Some (case presenter of None \<Rightarrow> tid | Some p \<Rightarrow> if p = [] then tid else p)) execute_start_consumer)) None
         else (False, q_store q))"
      "go_proceed g \<and> truthy nonce \<and> go_enforced g \<longrightarrow> spent"
      "q' = (if go_proceed g then move_receipt dp clock (the rid) ''RUNNING'' (gate_memo ''execute_start'' g) id (q\<lparr>q_store := s\<rparr>)
             else q\<lparr>q_store := s\<rparr>)"
proof (cases "in_status q tid Cancelled")
  case True
  with assms show ?thesis by (intro stays) (auto simp: start_execution_def start_reply_def)
next
  case live: False
  obtain rid ro where rf: "receipt_for_task q tid = (rid, ro)" by fastforce
  show ?thesis
  proof (cases ro)
    case None
    with assms live rf show ?thesis
      by (intro stays) (auto simp: start_execution_def start_reply_def Let_def)
  next
    case (Some r)
    let ?g = "start_gate dp clock q r nonce presenter"
    let ?who = "case presenter of None \<Rightarrow> tid | Some p \<Rightarrow> if p = [] then tid else p"
    obtain spent s where sp: "(if go_proceed ?g \<and> truthy nonce
         then consume_nonce clock (q_store q) (the nonce) (Some (consumer_tag (Some ?who) execute_start_consumer)) None
         else (False, q_store q)) = (spent, s)" by fastforce
    then have sp': "(case nonce of None \<Rightarrow> (False, q_store q)
         | Some k \<Rightarrow> if go_proceed ?g \<and> k \<noteq> [] then consume_nonce clock (q_store q) k
              (Some (consumer_tag (Some ?who) execute_start_consumer)) None else (False, q_store q)) = (spent, s)"
      by (cases nonce) (auto simp: truthy_def split: if_splits)
    show ?thesis
    proof (cases "go_proceed ?g \<and> truthy nonce \<and> \<not> spent \<and> go_enforced ?g")
      case True
      with assms live rf Some sp' show ?thesis
        by (intro stays) (auto simp: start_execution_def Let_def start_reply_def)
    next
      case False
      have "a = start_reply (go_proceed ?g) rid (vr_code (go_result ?g)) (Some (vr_outcome (go_result ?g)))
                     (go_enforced ?g) spent (go_review_required ?g)
          \<and> q' = (if go_proceed ?g then move_receipt dp clock (the rid) ''RUNNING'' (gate_memo ''execute_start'' ?g) id (q\<lparr>q_store := s\<rparr>)
             else q\<lparr>q_store := s\<rparr>)"
        using assms live rf Some sp' False by (simp add: start_execution_def Let_def del: not_None_eq)
      with rf Some sp live False show ?thesis
        by (intro answered [OF _ refl, of rid r]) (auto simp: start_reply_def)
    qed
  qed
qed

lemma start_evolves:
  assumes "start_execution dp clock q tid nonce presenter = (a, q')"
  shows "evolves q q'"
  using assms
proof (cases rule: start_cases)
  case (answered r rid g spent s)
  have "store_step\<^sup>*\<^sup>* (q_store q) s"
    using answered(7) by (auto split: if_splits dest: consume_steps [OF sym])
  then have "evolves q (q\<lparr>q_store := s\<rparr>)" by (rule store_evolves)
  then show ?thesis unfolding answered(9) by (auto intro: evolves_trans move_receipt_evolves)
qed simp

lemma force_fail_evolves:
  assumes "unique_tasks q" and "force_fail_from st clock q tid summary err = (b, q')" and "st \<in> {Pending, In_Progress}"
  shows "evolves q q'"
proof (cases "task_of q tid")
  case None
  with assms(2) show ?thesis by (simp add: force_fail_from_def)
next
  case (Some t)
  show ?thesis
  proof (cases "tk_status t = st")
    case True
    have "evolves q (record_end tid clock ''force_failed'' False (Some (status_text st))
       (update_task tid (\<lambda>t. t\<lparr>tk_status := Failed, tk_summary := Some summary, tk_error_info := err\<rparr>) q))"
      by (rule end_update_evolves [OF evolves_refl task_of_only [OF assms(1) Some]])
        (use assms(3) True in \<open>auto simp: row_kept_def\<close>)
    with assms(2) Some True show ?thesis by (simp add: force_fail_from_def)
  next
    case False
    with assms(2) Some show ?thesis by (simp add: force_fail_from_def)
  qed
qed

lemma revoke_attempt_evolves: "evolves q (revoke_attempt dp clock reason rid q)"
proof -
  have "evolves q (q\<lparr>q_store := snd (revoke_nonces_for_receipt clock (q_store q) k cancelled_attempt_consumer None)\<rparr>)" for k
    by (rule store_evolves [OF revoke_steps])
  then show ?thesis
    unfolding revoke_attempt_def Let_def
    by (auto split: option.split intro: evolves_trans move_receipt_evolves)
qed

lemma revoke_attempt_tasks [simp]: "q_tasks (revoke_attempt dp clock reason rid q) = q_tasks q"
  by (simp add: revoke_attempt_def Let_def split: option.split)

lemma orphan_evolves: "evolves q (orphan_successors tid q)"
proof -
  have "list_all2 row_kept ts (map (\<lambda>u. if tk_status u \<in> {Pending, In_Progress}
      \<and> tc_prev_task_id (tk_context u) = Some tid then u\<lparr>tk_status := Orphaned\<rparr> else u) ts)" for ts
    by (induction ts) (auto simp: row_kept_def status_kept_def)
  then show ?thesis by (simp add: evolves_def orphan_successors_def)
qed

lemma cancel_cases:
  assumes "cancel dp clock q tid reason expected stale_before = (b, q')"
  obtains (kept) "\<not> b" "q' = q"
  | (cancelled) t where "b" "task_of q tid = Some t" "tk_status t \<notin> set terminal_task_statuses"
      "q' = orphan_successors tid
                 (record_end tid clock ''cancelled'' False (Some (status_text (tk_status t)))
                    (revoke_attempt dp clock reason (tk_receipt_id t)
                       (update_task tid (\<lambda>t. t\<lparr>tk_status := Cancelled\<rparr>) q)))"
  using assms unfolding cancel_def by (auto split: option.splits if_splits)

lemma cancel_evolves:
  assumes "unique_tasks q" and "cancel dp clock q tid reason expected stale_before = (b, q')"
  shows "evolves q q'"
  using assms(2)
proof (cases rule: cancel_cases)
  case (cancelled t)
  have "evolves q (update_task tid (\<lambda>t. t\<lparr>tk_status := Cancelled\<rparr>) q)"
    by (rule update_task_evolves)
      (use task_of_only [OF assms(1) cancelled(2)] cancelled(3) in
        \<open>auto simp: only_status_def row_kept_def status_kept_def terminal_task_statuses_def\<close>)
  then show ?thesis unfolding cancelled(4)
    by (rule evolves_trans [OF evolves_trans [OF evolves_trans [OF _ revoke_attempt_evolves] record_end_evolves] orphan_evolves])
qed simp

lemma cancel_stale_evolves:
  "unique_tasks q \<Longrightarrow> cancel_stale dp clock cutoff tids q = (ids, q') \<Longrightarrow> evolves q q'"
proof (induction tids arbitrary: q ids q')
  case (Cons i tids)
  obtain ok q1 where c: "cancel dp clock q i ''STALE_LEASE'' (Some In_Progress) (Some cutoff) = (ok, q1)" by fastforce
  obtain ds q2 where d: "cancel_stale dp clock cutoff tids q1 = (ds, q2)" by fastforce
  have q1: "evolves q q1" by (rule cancel_evolves [OF Cons.prems(1) c])
  from evolves_trans [OF q1 Cons.IH [OF evolves_unique [OF q1 Cons.prems(1)] d]] Cons.prems(2) c d
  show ?case by auto
qed simp

lemma expire_evolves:
  assumes "unique_tasks q" and "expire_stale dp clock q older dry = (ids, q')"
  shows "evolves q q'"
  using assms cancel_stale_evolves [OF assms(1)] by (auto simp: expire_stale_def Let_def split: if_splits)

text \<open>Results.\<close>

lemma fill_outbox_shape:
  "q_tasks (fill_outbox clock ps ty r q) = q_tasks q \<and> evolves q (fill_outbox clock ps ty r q)"
proof -
  obtain st w where w: "reconcile_pause_signal clock ps (q_switch q) = (st, w)" by fastforce
  have absent: "outbox_of q i = None \<Longrightarrow> i \<notin> ob_task_id ` set (q_outbox q)" for i
    by (simp add: outbox_of_def row_of_None_iff)
  show ?thesis
    using reconcile_steps [OF w, of refuse_all_loosening] w
    by (cases "outbox_of q (tr_task_id r)")
      (simp_all add: fill_outbox_def Let_def evolves_def list_all2_same absent)
qed

lemma update_intent_evolves:
  assumes "\<And>w. wi_id (f w) = wi_id w" and "\<And>w. intent_of q op = Some w \<Longrightarrow> intent_kept w (f w)"
  shows "evolves q (update_intent op f q)"
proof -
  have "intent_kept w (if wi_id w = op then f w else w)" if "row_of wi_id k (q_intents q) = Some w" for k w
    using assms(2) [of w] that row_of_SomeD [OF that] by (auto simp: intent_of_def)
  then have "intents_kept (q_intents q) (map (\<lambda>w. if wi_id w = op then f w else w) (q_intents q))"
    by (intro table_kept_map) (simp_all add: assms(1))
  then show ?thesis by (simp add: evolves_def update_intent_def list_all2_same)
qed

lemma close_intent_id: "wi_id (close_intent clock q w) = wi_id w"
  by (simp add: close_intent_def)

lemma close_intent_kept: "intent_kept w (close_intent clock q w)"
  by (simp add: close_intent_def intent_kept_def intent_done_def)

lemma terminalize_evolves: "evolves q (terminalize_intent tid clock q)"
  by (simp add: terminalize_intent_def update_intent_evolves close_intent_kept close_intent_id split: option.split)

lemma settle_evolves: "evolves q (settle_receipt dp clock opts tid g q)"
proof (cases g)
  case (Some o1)
  have "evolves q (update_task tid (\<lambda>t. t\<lparr>tk_context := (tk_context t)\<lparr>tc_cea_result := Some o1\<rparr>\<rparr>) q)"
    by (rule context_update_evolves) (simp add: row_kept_def)
  with Some show ?thesis by (auto simp: settle_receipt_def Let_def intro: evolves_trans move_receipt_evolves)
qed (simp add: settle_receipt_def)

lemma submit_cases:
  assumes "submit_result dp clock ps q tid r opts = (a, q')"
  obtains (refused) e where "a = Inl e" "q' = q"
  | (late) t st fb where "a = Inl (Late_Result st fb)" "task_of q tid = Some t" "late_result q t r opts = Some (st, fb)"
      "q' = append_exec_event tid ''late_result'' clock (Some (status_text (tr_status r))) q"
  | (accepted) t g where "a = Inr (tk_type t)" "task_of q tid = Some t" "late_result q t r opts = None"
      "tr_task_id r = tid" "result_wellformed r"
      "g = map_option (\<lambda>rc. result_gate dp clock q rc opts) (snd (receipt_for_task q tid))" "refused_gate g = None"
      "q' = accept_result dp clock ps t r opts g q"
proof (cases "result_wellformed r \<and> tr_task_id r = tid \<and> task_of q tid \<noteq> None")
  case False
  with assms have "q' = q \<and> (\<exists>e. a = Inl e)"
    by (auto simp: submit_result_def split: option.splits if_splits)
  then show ?thesis by (auto intro: refused)
next
  case True
  then obtain t where t: "result_wellformed r" "tr_task_id r = tid" "task_of q tid = Some t" by blast
  let ?g = "map_option (\<lambda>rc. result_gate dp clock q rc opts) (snd (receipt_for_task q tid))"
  show ?thesis
  proof (cases "late_result q t r opts")
    case None
    show ?thesis
    proof (cases "refused_gate ?g")
      case none: None
      show ?thesis
      proof (cases a)
        case (Inl e)
        with assms t None none have "q' = q" by (auto simp: submit_result_def Let_def split: if_splits)
        with Inl show ?thesis by (rule refused)
      next
        case (Inr ty)
        with assms t None none have "ty = tk_type t" "q' = accept_result dp clock ps t r opts ?g q"
          by (auto simp: submit_result_def Let_def split: if_splits)
        with Inr t None none show ?thesis by (intro accepted [OF _ t(3) None t(2,1) refl none]) simp_all
      qed
    next
      case (Some o1)
      with assms t None have "q' = q \<and> (\<exists>e. a = Inl e)"
        by (auto simp: submit_result_def Let_def split: if_splits)
      then show ?thesis by (auto intro: refused)
    qed
  next
    case (Some l)
    obtain st fb where l: "l = (st, fb)" by fastforce
    have "(q' = q \<and> (\<exists>e. a = Inl e)) \<or> (a = Inl (Late_Result st fb)
        \<and> q' = append_exec_event tid ''late_result'' clock (Some (status_text (tr_status r))) q)"
      using assms t Some l by (auto simp: submit_result_def Let_def split: if_splits)
    then show ?thesis using refused late [OF _ t(3) Some [unfolded l]] by blast
  qed
qed

lemma late_result_status:
  assumes "late_result q t r opts = None"
  shows "tk_status t \<noteq> Cancelled" and "tk_status t = Completed \<Longrightarrow> tr_status r = Completed"
proof -
  have "adopts opts (fallback_of q t) \<Longrightarrow> tk_status t \<in> {Failed, Timed_Out}"
    by (auto simp: adopts_def fallback_of_def split: if_splits)
  with assms show "tk_status t \<noteq> Cancelled" and "tk_status t = Completed \<Longrightarrow> tr_status r = Completed"
    by (auto simp: late_result_def Let_def split: if_splits)
qed

lemma accept_evolves:
  assumes "unique_tasks q" and "task_of q tid = Some t" and "tr_task_id r = tid" and "late_result q t r opts = None"
  shows "evolves q (accept_result dp clock ps t r opts g q)"
proof -
  have "evolves q (write_result clock r q)"
    unfolding write_result_def
    by (rule update_task_evolves)
      (use task_of_only [OF assms(1,2)] late_result_status [OF assms(4)] assms(3) in
        \<open>auto simp: only_status_def row_kept_def status_kept_def\<close>)
  then show ?thesis
    unfolding accept_result_def
    by (rule evolves_trans [OF evolves_trans [OF evolves_trans [OF evolves_trans [OF _ record_end_evolves]
          terminalize_evolves] fill_outbox_shape [THEN conjunct2]] settle_evolves])
qed

lemma submit_evolves:
  assumes "unique_tasks q" and "submit_result dp clock ps q tid r opts = (a, q')"
  shows "evolves q q'"
  using assms(2)
proof (cases rule: submit_cases)
  case (accepted t g)
  show ?thesis unfolding accepted(8) by (rule accept_evolves [OF assms(1) accepted(2,4,3)])
qed (simp_all add: append_exec_event_evolves)

text \<open>Work intents touch contexts and the event log only.\<close>

lemma bind_on_evolves: "bind_on clock op tid project q = Inr q' \<Longrightarrow> evolves q q'"
  by (auto simp: bind_on_def rebound_def intent_kept_def intro!: update_intent_evolves split: option.splits if_splits)

lemma insert_intent_evolves: "insert_intent clock ir tid blocked q = Inr q' \<Longrightarrow> evolves q q'"
  by (auto simp: insert_intent_def evolves_def list_all2_same split: if_splits)

lemma set_target_evolves: "evolves q (set_target clock op target q)"
  unfolding set_target_def
  by (rule evolves_trans [OF update_intent_evolves append_exec_event_evolves]) (simp_all add: intent_kept_def)

lemma admit_intent_evolves:
  assumes "admit_intent clock ir q = (a, q')"
  shows "evolves q q'"
proof -
  have "q' = q \<or> insert_intent clock ir None False q = Inr q' \<or> (\<exists>target. q' = set_target clock (ir_id ir) target q)"
    using assms by (auto simp: admit_intent_def Let_def split: option.splits if_splits sum.splits)
  then show ?thesis using insert_intent_evolves set_target_evolves by auto
qed

lemma bind_row_evolves:
  assumes "bind_row clock w t (Inr q) = Inr q'"
  shows "evolves q q'"
proof -
  have "evolves q (update_task (tk_id t) (\<lambda>u. u\<lparr>tk_context := bound_ctx w (tk_context u)\<rparr>) q)"
    by (rule context_update_evolves) (simp add: row_kept_def)
  with assms bind_on_evolves show ?thesis by (auto simp: bind_row_def intro: evolves_trans)
qed

lemma bind_rows_error: "fold (bind_row clock w) ts (Inl e) = Inl e"
  by (induction ts) (simp_all add: bind_row_def)

lemma bind_rows_evolves: "fold (bind_row clock w) ts (Inr q) = Inr q' \<Longrightarrow> evolves q q'"
proof (induction ts arbitrary: q)
  case (Cons t ts)
  then show ?case
  proof (cases "bind_row clock w t (Inr q)")
    case (Inr q1)
    with Cons.prems Cons.IH [of q1] bind_row_evolves [OF Inr] show ?thesis by (auto intro: evolves_trans)
  qed (simp add: bind_rows_error)
qed simp

lemma bind_intent_evolves:
  assumes "bind_work_intent clock op tid q = Inr q'"
  shows "evolves q q'"
proof -
  obtain t w where tw: "task_of q tid = Some t" "intent_of q op = Some w" "bind_error w t = None"
    using assms by (auto simp: bind_work_intent_def split: option.splits)
  have "map_sum id f x = Inr y \<Longrightarrow> \<exists>z. x = Inr z \<and> y = f z" for f :: "queue \<Rightarrow> queue" and x :: "intent_error + queue" and y
    by (cases x) auto
  from this [OF assms [unfolded bind_work_intent_def tw option.case prod.case]]
  obtain ts q1 where "fold (bind_row clock w) ts (Inr q) = Inr q1" "q' = terminalize_intent tid clock q1"
    by blast
  then show ?thesis by (simp add: evolves_trans [OF bind_rows_evolves terminalize_evolves])
qed

lemma decide_intent_evolves: "decide_work_intent clock op st b reason authority q = Inr q' \<Longrightarrow> evolves q q'"
  by (auto simp: decide_work_intent_def decided_def intent_kept_def intent_done_def intro!: update_intent_evolves
      split: option.splits if_splits)

lemma advance_intent_kept: "wi_id (advance_intent clock w) = wi_id w \<and> intent_kept w (advance_intent clock w)"
  by (simp add: advance_intent_def intent_kept_def intent_done_def)

lemma advance_intents_evolves: "advance_work_intents clock q = (ns, q') \<Longrightarrow> evolves q q'"
  by (auto simp: advance_work_intents_def evolves_def list_all2_same table_kept_map advance_intent_kept)

text \<open>
  A run also has new rows, and operators who arm and release the stop; \<open>extends\<close> allows both.
\<close>

definition widened :: "queue \<Rightarrow> task_row list \<Rightarrow> switch \<Rightarrow> queue" where
  "widened q new w = q\<lparr>q_tasks := q_tasks q @ new, q_switch := w\<rparr>"

definition extends :: "queue \<Rightarrow> queue \<Rightarrow> bool" where
  "extends q q' \<longleftrightarrow> (\<exists>new w. evolves (widened q new w) q' \<and> (unique_tasks q \<longrightarrow> unique_tasks (widened q new w)))"

lemma widened_simps [simp]:
  "q_tasks (widened q new w) = q_tasks q @ new" "q_switch (widened q new w) = w"
  "q_events (widened q new w) = q_events q" "q_store (widened q new w) = q_store q"
  "q_spent_grants (widened q new w) = q_spent_grants q" "q_outbox (widened q new w) = q_outbox q"
  "q_intents (widened q new w) = q_intents q" "q_ops (widened q new w) = q_ops q"
  "q_announcements (widened q new w) = q_announcements q" "widened (widened q a v) b w = widened q (a @ b) w"
  by (simp_all add: widened_def)

lemma evolves_extends: "evolves q q' \<Longrightarrow> extends q q'"
  unfolding extends_def by (rule exI [of _ "[]"], rule exI [of _ "q_switch q"]) (simp add: widened_def)

lemma evolves_widened: "evolves q q' \<Longrightarrow> evolves (widened q new w) (widened q' new w)"
  by (simp add: evolves_def list_all2_appendI list_all2_same)

lemma extends_unique: "extends q q' \<Longrightarrow> unique_tasks q \<Longrightarrow> unique_tasks q'"
  by (auto simp: extends_def dest: evolves_unique)

lemma unique_widened:
  assumes "evolves p q" and "unique_tasks (widened q new w)"
  shows "unique_tasks (widened p new w)"
  using assms(2) by (simp add: unique_tasks_def rows_kept_ids [OF evolvesD(1) [OF assms(1)]] flip: set_map)

lemma extends_trans:
  assumes "extends p q" and "extends q r"
  shows "extends p r"
proof -
  from assms obtain a v b w where a: "evolves (widened p a v) q" "unique_tasks p \<longrightarrow> unique_tasks (widened p a v)"
    and b: "evolves (widened q b w) r" "unique_tasks q \<longrightarrow> unique_tasks (widened q b w)"
    by (auto simp: extends_def)
  have "evolves (widened p (a @ b) w) r"
    using evolves_trans [OF evolves_widened [OF a(1), of b w] b(1)] by simp
  moreover have "unique_tasks (widened p (a @ b) w)" if "unique_tasks p"
    using unique_widened [OF a(1), of b w] b(2) evolves_unique [OF a(1)] a(2) that by simp
  ultimately show ?thesis unfolding extends_def by blast
qed

lemma extendsD:
  assumes "extends q q'"
  shows "\<exists>rows. list_all2 row_kept (q_tasks q) rows \<and> (\<exists>more. q_tasks q' = rows @ more)"
    and "grows (q_events q) (q_events q')" and "store_step\<^sup>*\<^sup>* (q_store q) (q_store q')"
    and "grows (q_spent_grants q) (q_spent_grants q')" and "outbox_kept (q_outbox q) (q_outbox q')"
    and "intents_kept (q_intents q) (q_intents q')" and "ops_kept (q_ops q) (q_ops q')"
    and "notices_kept (q_announcements q) (q_announcements q')"
proof -
  from assms obtain new w where ev: "evolves (widened q new w) q'" by (auto simp: extends_def)
  then show "grows (q_events q) (q_events q')" "store_step\<^sup>*\<^sup>* (q_store q) (q_store q')"
    "grows (q_spent_grants q) (q_spent_grants q')" "outbox_kept (q_outbox q) (q_outbox q')"
    "intents_kept (q_intents q) (q_intents q')" "ops_kept (q_ops q) (q_ops q')"
    "notices_kept (q_announcements q) (q_announcements q')"
    using evolvesD [OF ev] by simp_all
  from evolvesD(1) [OF ev] show "\<exists>rows. list_all2 row_kept (q_tasks q) rows \<and> (\<exists>more. q_tasks q' = rows @ more)"
    by (auto simp: list_all2_append1)
qed

lemma event_if_evolves: "evolves q (event_if c tid event clock field q)"
  by (simp add: event_if_def append_exec_event_evolves)

lemma events_evolve: "evolves q (fold (\<lambda>e. append_exec_event (f e) ev clock (g e)) es q)"
  by (induction es arbitrary: q) (auto intro: evolves_trans append_exec_event_evolves)

lemma admission_log_evolves: "evolves q (admission_log clock ad rq dup expired q)"
  unfolding admission_log_def Let_def
  by (rule evolves_trans [OF evolves_trans [OF evolves_trans [OF event_if_evolves event_if_evolves] events_evolve]
        event_if_evolves])

lemma adopt_evolves: "evolves q (adopt_lineage main survivor blocked bctx q)"
  unfolding adopt_lineage_def
  by (auto split: option.split intro: context_update_evolves simp: row_kept_def)

lemma refuse_duplicate_evolves: "evolves q (refuse_duplicate clock ad rq ctx existing q)"
  unfolding refuse_duplicate_def
  by (rule evolves_trans [OF _ append_exec_event_evolves]) (simp add: adopt_evolves)

lemma bind_new_evolves: "bind_new_task clock ad rq ctx conflict q = Inr q' \<Longrightarrow> evolves q q'"
  by (auto simp: bind_new_task_def intro: insert_intent_evolves bind_on_evolves split: option.splits if_splits)

lemma insert_row_extends:
  assumes "insert_row dp clock ad rq r g ctx q = (Inr i, q')"
  shows "extends q q'"
proof -
  let ?new = "[new_row clock rq ctx r (owner_conflict g r)]"
  let ?q = "q\<lparr>q_tasks := q_tasks q @ ?new\<rparr>"
  have wide: "?q = widened q ?new (q_switch q)" by (simp add: widened_def)
  obtain q1 where fresh: "task_of q (rq_id rq) = None" and b: "bind_new_task clock ad rq ctx (owner_conflict g r) ?q = Inr q1"
    and q': "q' = move_receipt dp clock (rc_receipt_id r) (if owner_conflict g r then ''HELD'' else ''QUEUED'')
         (enqueue_memo g) id (event_if (missing_root_risk ad (rq_context rq)) (rq_id rq) ''missing_risk_metadata'' clock None q1)"
    using assms by (auto simp: insert_row_def split: option.splits sum.splits)
  have "evolves ?q q'"
    unfolding q' by (rule evolves_trans [OF evolves_trans [OF bind_new_evolves [OF b] event_if_evolves] move_receipt_evolves])
  moreover have "tk_id (new_row clock rq ctx r (owner_conflict g r)) \<notin> tk_id ` set (q_tasks q)"
    using fresh by (simp add: task_of_def row_of_None_iff new_row_def)
  then have "unique_tasks q \<longrightarrow> unique_tasks ?q" by (simp add: unique_tasks_def)
  ultimately show ?thesis unfolding extends_def wide by blast
qed

lemma enqueue_cases:
  assumes "enqueue_with_receipt dp clock ps ad q rq r = (a, q')"
  obtains (refused) e where "a = Inl e" "q' = q" "\<forall>i. e \<noteq> Duplicate_Of i"
  | (duplicate) i ctx where "a = Inl (Duplicate_Of i)" "q' = refuse_duplicate clock ad rq ctx i q"
  | (admitted) g c ctx w dup expired where "a = Inr (rq_id rq)" "g = enqueue_gate dp clock ad rq r"
      "go_proceed g \<or> owner_conflict g r"
      "decide_contract (ad_enforced_tier ad) (rq_description rq) (rq_context rq) (Some r) = Some c"
      "ctx = admitted_context ad rq r g c" "stop_active clock ps (q_switch q) At_Enqueue = (False, w)"
      "duplicate_review q (rq\<lparr>rq_context := ctx\<rparr>) False (Some (clock, ad_ttl ad)) (resolved_head ad rq) (ad_predecessor ad)
         = (dup, expired)" "dup = None \<or> flag ctx ''allow_duplicate_review''"
      "insert_row dp clock ad rq r g ctx (admission_log clock ad rq dup expired (q\<lparr>q_switch := w\<rparr>)) = (Inr (rq_id rq), q')"
proof -
  let ?g = "enqueue_gate dp clock ad rq r"
  show thesis
  proof (cases "decide_contract (ad_enforced_tier ad) (rq_description rq) (rq_context rq) (Some r)")
    case None
    with assms show ?thesis by (intro refused [of Risk_Tier_Invalid]) (simp_all add: enqueue_with_receipt_def Let_def)
  next
    case c: (Some c)
    show ?thesis
    proof (cases "go_proceed ?g \<or> owner_conflict ?g r")
      case False
      with assms c show ?thesis
        by (intro refused [of "Admission_Refused ?g"]) (simp_all add: enqueue_with_receipt_def Let_def)
    next
      case go: True
      let ?ctx = "admitted_context ad rq r ?g c"
      obtain b w where w: "stop_active clock ps (q_switch q) At_Enqueue = (b, w)" by fastforce
      obtain dup expired where d: "duplicate_review q (rq\<lparr>rq_context := ?ctx\<rparr>) False (Some (clock, ad_ttl ad))
          (resolved_head ad rq) (ad_predecessor ad) = (dup, expired)" by fastforce
      show ?thesis
      proof (cases b)
        case True
        with assms c go w show ?thesis by (intro refused [of Paused_Runtime]) (auto simp: enqueue_with_receipt_def Let_def)
      next
        case open': False
        show ?thesis
        proof (cases "dup \<noteq> None \<and> \<not> flag ?ctx ''allow_duplicate_review''")
          case True
          with assms c go w d open' show ?thesis
            by (intro duplicate [of "the dup" ?ctx]) (auto simp: enqueue_with_receipt_def Let_def)
        next
          case False
          let ?ins = "insert_row dp clock ad rq r ?g ?ctx (admission_log clock ad rq dup expired (q\<lparr>q_switch := w\<rparr>))"
          have main: "(a, q') = (case ?ins of (Inl e, _) \<Rightarrow> (Inl e, q) | (Inr i, q1) \<Rightarrow> (Inr i, q1))"
            using assms c go w d open' False by (auto simp: enqueue_with_receipt_def Let_def)
          obtain x q1 where ins: "?ins = (x, q1)" by fastforce
          show ?thesis
          proof (cases x)
            case (Inl e)
            then have "\<forall>i. e \<noteq> Duplicate_Of i"
              using ins by (auto simp: insert_row_def split: option.splits sum.splits)
            with main ins Inl show ?thesis by (intro refused [of e]) auto
          next
            case (Inr i)
            then have "i = rq_id rq" using ins by (auto simp: insert_row_def split: option.splits sum.splits)
            with main ins Inr show ?thesis
              using go c w open' d False by (intro admitted [OF _ refl _ c refl _ d]) auto
          qed
        qed
      qed
    qed
  qed
qed

lemma enqueue_extends:
  assumes "enqueue_with_receipt dp clock ps ad q rq r = (a, q')"
  shows "extends q q'"
  using assms
proof (cases rule: enqueue_cases)
  case (duplicate i ctx)
  then show ?thesis by (simp add: evolves_extends refuse_duplicate_evolves)
next
  case (admitted g c ctx w dup expired)
  have "evolves q (admission_log clock ad rq dup expired (q\<lparr>q_switch := w\<rparr>))"
    by (rule evolves_trans [OF switch_evolves [OF stop_active_steps [OF admitted(6)]] admission_log_evolves])
  from extends_trans [OF evolves_extends [OF this] insert_row_extends [OF admitted(9)]] show ?thesis .
qed (simp add: evolves_extends)

lemma settle_unused_evolves: "evolves q (settle_unused dp clock tid memo q)"
  by (simp add: settle_unused_def move_receipt_evolves split: prod.split option.split)

lemma adopt_statuses: "statuses (adopt_lineage main survivor blocked bctx q) = statuses q"
  by (simp add: adopt_lineage_def statuses_update split: option.split)

lemma suppress_evolves:
  assumes "only_status q (tk_id t) In_Progress"
  shows "evolves q (suppress_review dp clock main t ctx existing q)"
proof -
  let ?q = "if tk_type t = ''review'' then adopt_lineage main existing (request_of t ctx) ctx q else q"
  let ?f = "\<lambda>u. u\<lparr>tk_status := Blocked_Task, tk_summary := Some (duplicate_summary existing),
                tk_context := set_key ''duplicate_review_survivor'' (JStr existing) ctx\<rparr>"
  have "only_status ?q (tk_id t) In_Progress"
    using assms only_status_cong [OF adopt_statuses] by auto
  then have "evolves ?q (update_task (tk_id t) ?f ?q)"
    by (rule open_update_evolves) (simp_all add: row_kept_def)
  moreover have "evolves q ?q" by (simp add: adopt_evolves)
  ultimately have "evolves q (update_task (tk_id t) ?f ?q)" by (rule evolves_trans [rotated])
  then show ?thesis unfolding suppress_review_def
    by (rule evolves_trans [OF evolves_trans [OF evolves_trans [OF _ append_exec_event_evolves] record_end_evolves]
          settle_unused_evolves])
qed

lemma prepared_base_evolves:
  assumes "unique_tasks q" and "record_prepared_review_base dp clock main q tid base = (b, q')"
  shows "evolves q q'"
proof (cases "task_of q tid")
  case None
  with assms(2) show ?thesis by (simp add: record_prepared_review_base_def)
next
  case (Some t)
  then have id: "tk_id t = tid" by (auto simp: task_of_def dest: row_of_SomeD)
  show ?thesis
  proof (cases "tk_status t = In_Progress")
    case True
    then have only: "only_status q (tk_id t) In_Progress" using task_of_only [OF assms(1) Some] id by simp
    have ctx: "evolves p (update_task tid (\<lambda>u. u\<lparr>tk_context := c\<rparr>) p)" for c p
      by (rule context_update_evolves) (simp add: row_kept_def)
    from assms(2) Some True show ?thesis
      by (auto simp: record_prepared_review_base_def Let_def suppress_evolves [OF only]
          intro: evolves_trans [OF event_if_evolves ctx] split: if_splits)
  next
    case False
    with assms(2) Some show ?thesis by (simp add: record_prepared_review_base_def)
  qed
qed

end
