(* ===== verification/Effects.thy ===== *)
theory Effects
  imports Enqueue
begin

text \<open>
  What the queue keeps of effects outside it: the leases on owed continuations, the receipts of GitHub
  mutations, the claims to post a notice on a pull request, and the bounded notices to the coordinator.
  Fresh tokens (\<open>uuid4\<close>) are arguments.
\<close>

section \<open>The outbox\<close>

definition cascade_lease_ttl :: time where
  "cascade_lease_ttl = 300"

definition update_outbox :: "string \<Rightarrow> (outbox_row \<Rightarrow> outbox_row) \<Rightarrow> queue \<Rightarrow> queue" where
  "update_outbox tid f q = q\<lparr>q_outbox := map (\<lambda>r. if ob_task_id r = tid then f r else r) (q_outbox q)\<rparr>"

definition outbox_claimable :: "time \<Rightarrow> outbox_row \<Rightarrow> bool" where
  "outbox_claimable clock r \<longleftrightarrow>
     ob_state r = Owed
     \<or> (ob_state r = Replaying \<and> (case ob_lease_expires_at r of None \<Rightarrow> True | Some e \<Rightarrow> e < clock))"

definition leased_row :: "time \<Rightarrow> string \<Rightarrow> string \<Rightarrow> time option \<Rightarrow> outbox_row \<Rightarrow> outbox_row" where
  "leased_row clock owner attempt ttl r =
     r\<lparr>ob_state := Replaying, ob_lease_owner := Some owner, ob_attempt := Some attempt,
       ob_lease_expires_at := Some (clock + (case ttl of None \<Rightarrow> cascade_lease_ttl | Some n \<Rightarrow> n))\<rparr>"

definition outbox_claim ::
  "time \<Rightarrow> queue \<Rightarrow> string \<Rightarrow> string \<Rightarrow> string \<Rightarrow> time option \<Rightarrow> outbox_row option \<times> queue" where
  "outbox_claim clock q tid owner attempt ttl =
     (case outbox_of q tid of None \<Rightarrow> (None, q)
      | Some r \<Rightarrow>
          if outbox_claimable clock r
          then let q' = update_outbox tid (leased_row clock owner attempt ttl) q in (outbox_of q' tid, q')
          else (None, q))"

definition replay_held :: "queue \<Rightarrow> string \<Rightarrow> string \<Rightarrow> bool" where
  "replay_held q tid owner =
     (case outbox_of q tid of None \<Rightarrow> False
      | Some r \<Rightarrow> ob_state r = Replaying \<and> ob_lease_owner r = Some owner)"

definition outbox_mark_applied :: "queue \<Rightarrow> string \<Rightarrow> string \<Rightarrow> bool \<times> queue" where
  "outbox_mark_applied q tid owner =
     (if replay_held q tid owner then (True, update_outbox tid (\<lambda>r. r\<lparr>ob_state := Applied\<rparr>) q) else (False, q))"

definition released_row :: "outbox_state \<Rightarrow> outbox_row \<Rightarrow> outbox_row" where
  "released_row st r = r\<lparr>ob_state := st, ob_lease_owner := None, ob_attempt := None, ob_lease_expires_at := None\<rparr>"

text \<open>A claim ends as expired or owed again; \<open>None\<close> is the \<open>ValueError\<close> for any other state.\<close>

definition outbox_finish_claim :: "queue \<Rightarrow> string \<Rightarrow> string \<Rightarrow> outbox_state \<Rightarrow> (bool \<times> queue) option" where
  "outbox_finish_claim q tid owner st =
     (if st \<notin> {Expired, Owed} then None
      else if replay_held q tid owner then Some (True, update_outbox tid (released_row st) q) else Some (False, q))"

definition outbox_counts :: "queue \<Rightarrow> nat \<times> nat" where
  "outbox_counts q =
     (length (filter (\<lambda>r. ob_state r = Owed) (q_outbox q)), length (filter (\<lambda>r. ob_state r = Expired) (q_outbox q)))"

definition outbox_pending :: "queue \<Rightarrow> bool \<Rightarrow> outbox_row list" where
  "outbox_pending q replaying =
     sort_key ob_created_at
       (filter (\<lambda>r. ob_state r = Owed \<or> (replaying \<and> ob_state r = Replaying)) (q_outbox q))"

definition reopenable :: "queue \<Rightarrow> string \<Rightarrow> bool" where
  "reopenable q tid = (case outbox_of q tid of None \<Rightarrow> False | Some r \<Rightarrow> ob_state r \<in> {Applied, Replaying})"

definition outbox_reopen :: "queue \<Rightarrow> string \<Rightarrow> bool \<times> queue" where
  "outbox_reopen q tid =
     (if reopenable q tid then (True, update_outbox tid (released_row Owed) q) else (False, q))"

definition superseding_review :: "queue \<Rightarrow> string \<Rightarrow> bool" where
  "superseding_review q tid \<longleftrightarrow>
     list_ex (\<lambda>t. tk_type t = ''review'' \<and> ctx_key (tk_context t) ''superseded_review'' = JStr tid) (q_tasks q)"

text \<open>A merge that could not start stays owed by its test task, or nothing is written.\<close>

definition defer_test_merge :: "queue \<Rightarrow> string \<Rightarrow> json \<Rightarrow> bool \<times> queue" where
  "defer_test_merge q tid merge =
     (case task_of q tid of None \<Rightarrow> (False, q)
      | Some t \<Rightarrow>
          if tk_type t \<noteq> ''test'' then (False, q)
          else if \<not> reopenable q tid then (False, q)
          else (True, update_outbox tid (released_row Owed)
                 (update_task tid (\<lambda>u. u\<lparr>tk_context := set_key ''suppressed_merge'' merge (tk_context u)\<rparr>) q)))"

section \<open>Receipts of mutations\<close>

definition op_of :: "queue \<Rightarrow> string \<Rightarrow> external_op option" where
  "op_of q k = row_of eo_key k (q_ops q)"

definition update_op :: "string \<Rightarrow> (external_op \<Rightarrow> external_op) \<Rightarrow> queue \<Rightarrow> queue" where
  "update_op k f q = q\<lparr>q_ops := map (\<lambda>r. if eo_key r = k then f r else r) (q_ops q)\<rparr>"

text \<open>A reservation is refused by a stop, or is the row and whether it is new.\<close>

datatype reservation = Stop_Refused int | Reserved bool external_op

definition new_op :: "time \<Rightarrow> string \<Rightarrow> int option \<Rightarrow> int \<Rightarrow> external_op" where
  "new_op clock k pr epoch =
     \<lparr>eo_key = k, eo_state = Op_Reserved, eo_pr = pr, eo_attempt = 0, eo_error = None, eo_admitted_epoch = epoch,
      eo_reserved_at = clock, eo_done_at = None\<rparr>"

definition external_op_reserve ::
  "time \<Rightarrow> pauses \<Rightarrow> queue \<Rightarrow> string \<Rightarrow> int option \<Rightarrow> reservation \<times> queue" where
  "external_op_reserve clock ps q k pr =
     (let (st, sw) = reconcile_pause_signal clock ps (q_switch q); epoch = sr_epoch (read_stop_row sw)
      in if st \<noteq> ACTIVE then (Stop_Refused epoch, q)
         else case op_of q k of
                Some o1 \<Rightarrow> (Reserved False o1, q\<lparr>q_switch := sw\<rparr>)
              | None \<Rightarrow> (Reserved True (new_op clock k pr epoch),
                         q\<lparr>q_switch := sw, q_ops := q_ops q @ [new_op clock k pr epoch]\<rparr>))"

definition marked_op :: "time \<Rightarrow> op_state \<Rightarrow> op_error option \<Rightarrow> bool \<Rightarrow> external_op \<Rightarrow> external_op" where
  "marked_op clock st err inc o1 =
     o1\<lparr>eo_state := st, eo_error := err, eo_attempt := (if inc then eo_attempt o1 + 1 else eo_attempt o1),
        eo_done_at := (if st = Op_Done then Some clock else None)\<rparr>"

definition external_op_mark :: "time \<Rightarrow> string \<Rightarrow> op_state \<Rightarrow> op_error option \<Rightarrow> bool \<Rightarrow> queue \<Rightarrow> queue" where
  "external_op_mark clock k st err inc q = update_op k (marked_op clock st err inc) q"

definition pending_ci_merge_ops :: "queue \<Rightarrow> external_op list" where
  "pending_ci_merge_ops q =
     filter (\<lambda>o1. eo_state o1 = Op_Reserved \<and> startswith (eo_key o1) ''merge:pr:''
               \<and> (case eo_error o1 of Some (Head_Error h (Ci_Pending s)) \<Rightarrow> True | _ \<Rightarrow> False)) (q_ops q)"

definition error_at_head :: "external_op \<Rightarrow> string \<Rightarrow> bool" where
  "error_at_head o1 head = (case eo_error o1 of Some (Head_Error h e) \<Rightarrow> h = head | _ \<Rightarrow> False)"

text \<open>A new head has its own budget of attempts.\<close>

definition external_op_reset_failed_head :: "queue \<Rightarrow> string \<Rightarrow> string \<Rightarrow> external_op option \<times> queue" where
  "external_op_reset_failed_head q k head =
     (case op_of q k of None \<Rightarrow> (None, q)
      | Some o1 \<Rightarrow>
          if eo_state o1 = Op_Failed \<and> head \<noteq> [] \<and> \<not> error_at_head o1 head
          then let q' = update_op k (\<lambda>r. r\<lparr>eo_state := Op_Reserved, eo_attempt := 0, eo_error := None\<rparr>) q in (op_of q' k, q')
          else (Some o1, q))"

section \<open>Announcements on a pull request\<close>

definition announcement_of :: "queue \<Rightarrow> int \<times> string \<Rightarrow> announcement option" where
  "announcement_of q k = row_of an_key k (q_announcements q)"

definition announcement_stale_after :: time where
  "announcement_stale_after = 300"

definition update_announcement :: "int \<times> string \<Rightarrow> (announcement \<Rightarrow> announcement) \<Rightarrow> queue \<Rightarrow> queue" where
  "update_announcement k f q = q\<lparr>q_announcements := map (\<lambda>a. if an_key a = k then f a else a) (q_announcements q)\<rparr>"

definition claim_pr_announcement ::
  "time \<Rightarrow> queue \<Rightarrow> int \<times> string \<Rightarrow> string \<Rightarrow> string \<Rightarrow> time \<Rightarrow> string option \<times> queue" where
  "claim_pr_announcement clock q k who token stale =
     (case announcement_of q k of
        Some a \<Rightarrow>
          if an_posted_at a \<noteq> None then (None, q)
          else if clock - an_claimed_at a < stale then (None, q)
          else (Some token,
                update_announcement k (\<lambda>b. b\<lparr>an_claimed_at := clock, an_claimed_by := who, an_token := token\<rparr>) q)
      | None \<Rightarrow>
          (Some token,
           q\<lparr>q_announcements := q_announcements q
               @ [\<lparr>an_key = k, an_claimed_at = clock, an_claimed_by = who, an_token = token, an_posted_at = None\<rparr>]\<rparr>))"

definition holds_announcement :: "queue \<Rightarrow> int \<times> string \<Rightarrow> string \<Rightarrow> bool" where
  "holds_announcement q k token =
     (case announcement_of q k of None \<Rightarrow> False | Some a \<Rightarrow> an_token a = token \<and> an_posted_at a = None)"

definition owns_pr_announcement :: "queue \<Rightarrow> int \<times> string \<Rightarrow> string \<Rightarrow> bool" where
  "owns_pr_announcement q k token = (if token = [] then False else holds_announcement q k token)"

definition mark_pr_announcement_posted :: "time \<Rightarrow> queue \<Rightarrow> int \<times> string \<Rightarrow> string \<Rightarrow> bool \<times> queue" where
  "mark_pr_announcement_posted clock q k token =
     (if holds_announcement q k token then (True, update_announcement k (\<lambda>a. a\<lparr>an_posted_at := Some clock\<rparr>) q)
      else (False, q))"

definition release_pr_announcement :: "queue \<Rightarrow> int \<times> string \<Rightarrow> string \<Rightarrow> bool \<times> queue" where
  "release_pr_announcement q k token =
     (if holds_announcement q k token
      then (True, q\<lparr>q_announcements := filter (\<lambda>a. an_key a \<noteq> k) (q_announcements q)\<rparr>)
      else (False, q))"

section \<open>Notices to the coordinator\<close>

definition notice_max_attempts :: nat where
  "notice_max_attempts = 3"

definition notice_events :: "string list" where
  "notice_events =
     [''coordinator_notice'', ''coordinator_notice_failed'', ''coordinator_notice_delivered'',
      ''coordinator_notice_gave_up'']"

definition about_notice :: "string \<Rightarrow> string \<Rightarrow> exec_event \<Rightarrow> bool" where
  "about_notice tid kind e \<longleftrightarrow> xe_task_id e = tid \<and> xe_event e \<in> set notice_events \<and> xe_field e = Some kind"

definition latest_notice :: "queue \<Rightarrow> string \<Rightarrow> string \<Rightarrow> exec_event option" where
  "latest_notice q tid kind = find (about_notice tid kind) (rev (q_events q))"

definition notice_attempts :: "queue \<Rightarrow> string \<Rightarrow> string \<Rightarrow> nat" where
  "notice_attempts q tid kind =
     length (filter (\<lambda>e. xe_task_id e = tid \<and> xe_event e = ''coordinator_notice'' \<and> xe_field e = Some kind) (q_events q))"

text \<open>A notice that was delivered, given up or is out under a live lease is not sent again.\<close>

definition notice_closed :: "time \<Rightarrow> exec_event \<Rightarrow> bool" where
  "notice_closed clock e \<longleftrightarrow>
     xe_event e \<in> {''coordinator_notice_delivered'', ''coordinator_notice_gave_up''}
     \<or> (xe_event e = ''coordinator_notice'' \<and> clock - xe_at e < 30)"

definition claim_coordinator_notice :: "time \<Rightarrow> queue \<Rightarrow> string \<Rightarrow> string \<Rightarrow> bool \<times> queue" where
  "claim_coordinator_notice clock q tid kind =
     (if (case latest_notice q tid kind of None \<Rightarrow> False | Some e \<Rightarrow> notice_closed clock e) then (False, q)
      else if notice_max_attempts \<le> notice_attempts q tid kind
      then (False, append_exec_event tid ''coordinator_notice_gave_up'' clock (Some kind) q)
      else (True, append_exec_event tid ''coordinator_notice'' clock (Some kind) q))"

text \<open>Is a notice that failed still to be retried?\<close>

definition finish_coordinator_notice :: "time \<Rightarrow> queue \<Rightarrow> string \<Rightarrow> string \<Rightarrow> bool \<Rightarrow> bool \<times> queue" where
  "finish_coordinator_notice clock q tid kind delivered =
     (let q1 = append_exec_event tid (if delivered then ''coordinator_notice_delivered'' else ''coordinator_notice_failed'')
                 clock (Some kind) q;
          retryable = (\<not> delivered \<and> notice_attempts q1 tid kind < notice_max_attempts)
      in (retryable,
          if \<not> delivered \<and> \<not> retryable then append_exec_event tid ''coordinator_notice_gave_up'' clock (Some kind) q1 else q1))"

definition noticed :: "queue \<Rightarrow> (string \<times> string) list" where
  "noticed q = remdups (List.map_filter
     (\<lambda>e. case xe_field e of None \<Rightarrow> None
        | Some kind \<Rightarrow> if xe_event e \<in> set notice_events then Some (xe_task_id e, kind) else None) (q_events q))"

definition retryable_coordinator_notices :: "time \<Rightarrow> queue \<Rightarrow> (string \<times> string) list" where
  "retryable_coordinator_notices clock q =
     filter (\<lambda>(tid, kind). case latest_notice q tid kind of None \<Rightarrow> False
        | Some e \<Rightarrow> xe_event e = ''coordinator_notice_failed''
                   \<or> (xe_event e = ''coordinator_notice'' \<and> 30 \<le> clock - xe_at e)) (noticed q)"

text \<open>\<open>coordinator_notice_once\<close>: claim, deliver, record; a task that does not exist has no notice.\<close>

definition coordinator_notice_once ::
  "time \<Rightarrow> time \<Rightarrow> queue \<Rightarrow> string \<Rightarrow> string \<Rightarrow> bool \<Rightarrow> bool \<times> queue" where
  "coordinator_notice_once clock later q tid kind delivered =
     (if task_of q tid = None \<and> \<not> (startswith tid ''work-intent:'' \<and> intent_of q (drop 12 tid) \<noteq> None) then (False, q)
      else let (claimed, q1) = claim_coordinator_notice clock q tid kind
           in if claimed then (delivered, snd (finish_coordinator_notice later q1 tid kind delivered)) else (False, q1))"

section \<open>Parking for a human\<close>

text \<open>No status is asked for: any row is parked, a cancelled or completed one too.\<close>

definition mark_needs_human :: "queue \<Rightarrow> string \<Rightarrow> string \<Rightarrow> (string \<times> json) list \<Rightarrow> bool \<times> queue" where
  "mark_needs_human q tid summary extra =
     (case task_of q tid of None \<Rightarrow> (False, q)
      | Some t \<Rightarrow> (True, update_task tid (\<lambda>u. u\<lparr>tk_status := Needs_Human, tk_summary := Some summary,
            tk_context := fold (\<lambda>(k, v). set_key k v) extra (tk_context u)\<rparr>) q))"

text \<open>\<open>patch_context\<close>; \<open>None\<close> is the \<open>ValueError\<close> for a fix round that is not a count.\<close>

definition patch_context :: "queue \<Rightarrow> string \<Rightarrow> (string \<times> json) list \<Rightarrow> queue option" where
  "patch_context q tid extra =
     (case task_of q tid of None \<Rightarrow> Some q
      | Some t \<Rightarrow>
          let ctx = fold (\<lambda>(k, v). set_key k v) extra (tk_context t)
          in if (''fix_round'' \<in> fst ` set (tc_more ctx))
                \<and> (case ctx_key ctx ''fix_round'' of JInt i \<Rightarrow> i < 0 | _ \<Rightarrow> True) then None
             else Some (update_task tid (\<lambda>u. u\<lparr>tk_context := ctx\<rparr>) q))"

end
