(* ===== verification/Merge.thy ===== *)
theory Merge
  imports Effects
begin

text \<open>
  Automatic merging (\<open>_auto_merge_pr\<close> of \<open>server.py\<close>) with the evidence it asks for: the conformance gate
  and the test pass of \<open>conformance_gate.py\<close>, the independent approval and the state of CI of
  \<open>github.py\<close>. What GitHub, the gate's command and the attribution table answer is a record of the model,
  one answer per call, since each may change between two calls. A lookup that fails is the answer the
  code gives for it. All calls of one attempt share one clock.
\<close>

section \<open>CI on a head\<close>

record check_run =
  cr_name :: string
  cr_run :: int
  cr_conclusion :: "string option"
  cr_run_status :: string
  cr_never_started :: bool

datatype ci_state = Ci_Is_Red | Ci_Error | Ci_Infra_Unavailable | Ci_Is_Pending | Ci_Green | Ci_None

text \<open>The newest run of each name, and the first status of each context.\<close>

fun newest_runs :: "check_run list \<Rightarrow> check_run list \<Rightarrow> check_run list" where
  "newest_runs acc [] = acc"
| "newest_runs acc (r # rs) =
     (case row_of cr_name (cr_name r) acc of
        None \<Rightarrow> newest_runs (acc @ [r]) rs
      | Some b \<Rightarrow> newest_runs (if cr_run b < cr_run r then map (\<lambda>a. if cr_name a = cr_name r then r else a) acc else acc) rs)"

fun first_statuses :: "(string \<times> string) list \<Rightarrow> (string \<times> string) list \<Rightarrow> (string \<times> string) list" where
  "first_statuses acc [] = acc"
| "first_statuses acc ((c, s) # xs) = first_statuses (if c \<in> fst ` set acc then acc else acc @ [(c, s)]) xs"

definition review_status_context :: string where
  "review_status_context = ''crew/independent-review''"

definition run_failed :: "check_run \<Rightarrow> bool" where
  "run_failed r \<longleftrightarrow> cr_conclusion r \<in> {Some ''failure'', Some ''cancelled'', Some ''timed_out''}"

definition run_unfinished :: "check_run \<Rightarrow> bool" where
  "run_unfinished r \<longleftrightarrow>
     \<not> run_failed r \<and> (cr_run_status r \<noteq> ''completed'' \<or> cr_conclusion r \<notin> {Some ''success'', Some ''neutral''})"

definition checks_verdict :: "check_run list \<Rightarrow> (string \<times> string) list \<Rightarrow> ci_state" where
  "checks_verdict all_runs all_statuses =
     (let runs = filter (\<lambda>r. cr_conclusion r \<noteq> Some ''skipped'') (newest_runs [] all_runs);
          statuses = filter (\<lambda>(c, s). c \<noteq> review_status_context) (first_statuses [] all_statuses)
      in if list_ex (\<lambda>r. run_failed r \<and> \<not> cr_never_started r) runs
            \<or> list_ex (\<lambda>(c, s). s = ''failure'' \<or> s = ''error'') statuses then Ci_Is_Red
         else if list_ex (\<lambda>r. run_failed r \<and> cr_never_started r) runs then Ci_Infra_Unavailable
         else if list_ex run_unfinished runs \<or> list_ex (\<lambda>(c, s). s = ''pending'') statuses then Ci_Is_Pending
         else if runs \<noteq> [] \<or> statuses \<noteq> [] then Ci_Green else Ci_None)"

text \<open>What the two GitHub calls returned; \<open>None\<close> when a call failed or was not understood.\<close>

definition head_checks_state :: "(check_run list \<times> (string \<times> string) list) option \<Rightarrow> ci_state" where
  "head_checks_state reply = (case reply of None \<Rightarrow> Ci_Error | Some (rs, ss) \<Rightarrow> checks_verdict rs ss)"

section \<open>The approval\<close>

definition same_int :: "json \<Rightarrow> int \<Rightarrow> bool" where
  "same_int v n = (case v of JInt i \<Rightarrow> i = n | JBool b \<Rightarrow> (if b then 1 else 0) = n | _ \<Rightarrow> False)"

definition same_number_text :: "json \<Rightarrow> int \<Rightarrow> bool" where
  "same_number_text v n = (case v of JStr s \<Rightarrow> s = show_int n | _ \<Rightarrow> same_int v n)"

definition verdict_at :: "task_row \<Rightarrow> time" where
  "verdict_at t = (if tk_status_changed_at t = 0 then tk_last_activity_at t else tk_status_changed_at t)"

definition latest_completed_review :: "queue \<Rightarrow> int \<Rightarrow> task_row option" where
  "latest_completed_review q pr =
     fold (\<lambda>t best. case best of None \<Rightarrow> Some t | Some b \<Rightarrow> if verdict_at b \<le> verdict_at t then Some t else Some b)
       (filter (\<lambda>t. tk_type t = ''review'' \<and> tk_status t = Completed
           \<and> (tk_pr_number t = Some pr \<or> same_number_text (ctx_key (tk_context t) ''pr_number'') pr)) (q_tasks q)) None"

definition lineage_parent_id :: "task_context \<Rightarrow> string option" where
  "lineage_parent_id ctx =
     find (\<lambda>p. p \<noteq> []) (List.map_filter id
        [tc_prev_task_id ctx, case ctx_key ctx ''retry_of'' of JStr s \<Rightarrow> Some s | _ \<Rightarrow> None, tc_original_task_id ctx])"

text \<open>The implement task the review descends from, at most ten parents away.\<close>

fun implement_above :: "nat \<Rightarrow> queue \<Rightarrow> string list \<Rightarrow> task_row \<Rightarrow> string option" where
  "implement_above 0 q seen t = None"
| "implement_above (Suc n) q seen t =
     (case lineage_parent_id (tk_context t) of None \<Rightarrow> None
      | Some p \<Rightarrow>
          if p \<in> set seen then None
          else case task_of q p of None \<Rightarrow> None
               | Some u \<Rightarrow> if tk_type u = ''implement'' then Some p else implement_above n q (p # seen) u)"

datatype approval_refusal =
    No_Pr_Head | No_Completed_Review | Newer_Review string | Verdict_Not_Approve | No_Reviewed_Sha | Head_Differs
  | No_Attribution | Same_Agent_Family

definition full_sha :: "json \<Rightarrow> string option" where
  "full_sha v = (case v of JStr s \<Rightarrow> if length s = 40 \<and> list_all is_hex s then Some (py_lower s) else None | _ \<Rightarrow> None)"

text \<open>\<open>independent_review_for_head\<close>: the reviewer and the review that approved this very head.\<close>

definition independent_review_for_head ::
  "(string \<Rightarrow> string option) \<Rightarrow> queue \<Rightarrow> int \<Rightarrow> string \<Rightarrow> string \<Rightarrow> approval_refusal + (string \<times> task_row)" where
  "independent_review_for_head agent_of q pr head review =
     (if head = [] then Inl No_Pr_Head
      else case latest_completed_review q pr of None \<Rightarrow> Inl No_Completed_Review
      | Some t \<Rightarrow>
          if review \<noteq> [] \<and> tk_id t \<noteq> review then Inl (Newer_Review (tk_id t))
          else if tk_verdict t \<noteq> Some ''approve'' then Inl Verdict_Not_Approve
          else case full_sha (ctx_key (tk_context t) ''reviewed_sha'') of None \<Rightarrow> Inl No_Reviewed_Sha
          | Some sha \<Rightarrow>
              if sha \<noteq> head then Inl Head_Differs
              else case (agent_of (tk_id t), Option.bind (implement_above 10 q [tk_id t] t) agent_of) of
                     (Some reviewer, Some author) \<Rightarrow>
                       if reviewer = [] \<or> author = [] then Inl No_Attribution
                       else if provider_family reviewer = provider_family author then Inl Same_Agent_Family
                       else Inr (reviewer, t)
                   | _ \<Rightarrow> Inl No_Attribution)"

section \<open>The test pass\<close>

definition context_head :: "task_context \<Rightarrow> json" where
  "context_head ctx =
     (let r = ctx_key ctx ''reviewed_sha'' in if json_truthy r then r else ctx_key ctx ''expected_head_sha'')"

definition script_record :: "task_row \<Rightarrow> (string \<times> json) list" where
  "script_record t =
     (case tk_error_info t of
        Some (JObj kvs) \<Rightarrow> (case map_of kvs ''script_test'' of Some (JObj r) \<Rightarrow> r | _ \<Rightarrow> [])
      | _ \<Rightarrow> [])"

definition passed_on :: "string \<Rightarrow> int \<Rightarrow> string \<Rightarrow> task_row \<Rightarrow> bool" where
  "passed_on review pr head t \<longleftrightarrow>
     tk_type t = ''test'' \<and> tc_prev_task_id (tk_context t) = Some review
     \<and> same_int (ctx_key (tk_context t) ''pr_number'') pr \<and> context_head (tk_context t) = JStr head
     \<and> tk_status t = Completed \<and> tk_pr_number t = Some pr
     \<and> map_of (script_record t) ''outcome'' = Some (JStr ''PASSED'')
     \<and> map_of (script_record t) ''head_sha'' = Some (JStr head)"

definition test_pass_for_head :: "queue \<Rightarrow> string \<Rightarrow> int \<Rightarrow> string \<Rightarrow> bool" where
  "test_pass_for_head q review pr head =
     (if review = [] \<or> head = [] then False
      else case task_of q review of None \<Rightarrow> False
      | Some r \<Rightarrow>
          if tk_type r \<noteq> ''review'' \<or> \<not> same_int (ctx_key (tk_context r) ''pr_number'') pr
             \<or> context_head (tk_context r) \<noteq> JStr head then False
          else list_ex (passed_on review pr head) (q_tasks q))"

section \<open>The root of a lineage\<close>

function lineage_root :: "queue \<Rightarrow> string list \<Rightarrow> task_row \<Rightarrow> task_row" where
  "lineage_root q seen t =
     (case tc_prev_task_id (tk_context t) of None \<Rightarrow> t
      | Some p \<Rightarrow>
          if p \<in> set seen then t
          else case task_of q p of None \<Rightarrow> t | Some u \<Rightarrow> lineage_root q (p # seen) u)"
  by pat_completeness auto

termination
proof (relation "measure (\<lambda>(q, seen, t). card (tk_id ` set (q_tasks q) - set seen))")
  fix q seen t p u
  assume "p \<notin> set seen" and "task_of q p = Some u"
  then have "p \<in> tk_id ` set (q_tasks q) - set seen"
    by (auto simp: task_of_def dest: row_of_SomeD)
  then have "card (tk_id ` set (q_tasks q) - set seen - {p}) < card (tk_id ` set (q_tasks q) - set seen)"
    by (rule card_Diff1_less [rotated]) simp
  then show "((q, p # seen, u), q, seen, t) \<in> measure (\<lambda>(q, seen, t). card (tk_id ` set (q_tasks q) - set seen))"
    by (simp add: Diff_insert [symmetric] insert_commute)
qed simp

declare lineage_root.simps [simp del]

section \<open>The conformance gate\<close>

text \<open>
  What the environment, GitHub and the gate's command gave: is a command configured, the head, whether the
  evidence could be read, whether the receipt file still matches the record it is named in, the command's
  exit (\<open>None\<close> for a timeout or an exception), the verdict and the error its receipt reports, and whether
  the receipt could be written. \<open>gate_path\<close> and \<open>gate_sha\<close> name the receipt.
\<close>

record gate_run =
  gr_configured :: bool
  gr_head :: string
  gr_evidence :: bool
  gr_receipt_matches :: bool
  gr_exit :: "int option"
  gr_reported :: string
  gr_receipt_error :: bool
  gr_receipt_written :: bool
  gr_path :: string
  gr_sha :: string

definition given :: "(string \<times> json) list \<Rightarrow> string \<Rightarrow> json" where
  "given kvs k = (case map_of kvs k of None \<Rightarrow> JNull | Some v \<Rightarrow> v)"

text \<open>The recorded verdict for this head, when its receipt is still the one recorded.\<close>

definition recorded_verdict :: "gate_run \<Rightarrow> int \<Rightarrow> task_context \<Rightarrow> bool option" where
  "recorded_verdict g pr ctx =
     (case ctx_key ctx ''conformance_gate'' of
        JObj kvs \<Rightarrow>
          if gr_head g \<noteq> [] \<and> same_int (given kvs ''pr_number'') pr
             \<and> given kvs ''head_sha'' = JStr (gr_head g)
             \<and> given kvs ''verdict'' \<in> {JStr ''ALLOW'', JStr ''REVIEW''}
             \<and> gr_receipt_matches g \<and> \<not> json_truthy (given kvs ''error'')
          then Some (given kvs ''merge_allowed'' = JBool True)
          else None
      | _ \<Rightarrow> None)"

definition gate_verdict :: "gate_run \<Rightarrow> string" where
  "gate_verdict g =
     (if gr_exit g = Some 10 then ''BLOCK''
      else if gr_exit g = Some 0 \<and> gr_reported g \<in> {''ALLOW'', ''REVIEW''} then gr_reported g else ''REVIEW'')"

definition gate_in_error :: "gate_run \<Rightarrow> bool" where
  "gate_in_error g \<longleftrightarrow>
     gr_head g = [] \<or> \<not> gr_evidence g \<or> \<not> gr_receipt_written g
     \<or> (gr_exit g \<noteq> Some 10
        \<and> (gr_exit g \<noteq> Some 0 \<or> gr_receipt_error g \<or> gr_reported g \<notin> {''ALLOW'', ''REVIEW''}))"

definition run_allows :: "gate_run \<Rightarrow> bool" where
  "run_allows g \<longleftrightarrow> gate_verdict g \<noteq> ''BLOCK'' \<and> \<not> gate_in_error g"

definition gate_record :: "gate_run \<Rightarrow> int \<Rightarrow> json" where
  "gate_record g pr =
     JObj ([(''verdict'', JStr (gate_verdict g)), (''receipt_path'', JStr (gr_path g)), (''receipt_sha256'', JStr (gr_sha g)),
            (''exit_code'', case gr_exit g of None \<Rightarrow> JNull | Some i \<Rightarrow> JInt i), (''pr_number'', JInt pr), (''merge_allowed'', JBool (run_allows g))]
           @ (if gr_head g = [] then [] else [(''head_sha'', JStr (gr_head g))])
           @ (if gate_in_error g then [(''error'', JStr ''gate error'')] else []))"

text \<open>\<open>_conformance_gate_allows_merge\<close>: a refusal parks the task for a human.\<close>

definition conformance_gate_allows_merge :: "gate_run \<Rightarrow> int \<Rightarrow> task_row \<Rightarrow> queue \<Rightarrow> bool \<times> queue" where
  "conformance_gate_allows_merge g pr t q =
     (if \<not> gr_configured g
      then (False, snd (mark_needs_human q (tk_id t) ''conformance gate not configured''
              [(''conformance_gate'', JObj [(''error'', JStr ''conformance gate not configured''),
                  (''merge_allowed'', JBool False), (''pr_number'', JInt pr)])]))
      else case recorded_verdict g pr (tk_context t) of
             Some b \<Rightarrow> (b, q)
           | None \<Rightarrow>
               if run_allows g
               then (case patch_context q (tk_id t) [(''conformance_gate'', gate_record g pr)] of
                       None \<Rightarrow> (False, q) | Some q' \<Rightarrow> (True, q'))
               else (False, snd (mark_needs_human q (tk_id t) ''conformance gate''
                       [(''conformance_gate'', gate_record g pr)])))"

section \<open>The merge\<close>

datatype pr_state = Pr_Open | Pr_Merged | Pr_Closed | Pr_Unknown

text \<open>
  GitHub during one attempt: the head at the start, the head when the approval is checked and the head
  when the merge runs are three answers, since anyone may push in between.
\<close>

record github =
  gh_repo :: string
  gh_head :: string
  gh_pr_state :: pr_state
  gh_gate :: gate_run
  gh_approval_head :: string
  gh_published :: bool
  gh_status_ok :: bool
  gh_checks :: "(check_run list \<times> (string \<times> string) list) option"
  gh_merge_ok :: bool
  gh_notice_delivered :: bool

record merge_request =
  mq_pr :: int
  mq_review :: string
  mq_test :: string
  mq_left_to_coordinator :: bool

datatype merge_outcome =
    Merge_Stopped bool | Merged_Before | Red_On_Head | Ci_Timed_Out_On_Head | Attempts_Spent
  | Merge_Refused string | Found_Merged | State_Unsure bool | Gate_Blocked | No_Test_Pass | No_Title
  | Left_To_Coordinator | Ci_Wait | Ci_Wait_Over | Merge_Ran bool

definition max_merge_attempts :: nat where
  "max_merge_attempts = 3"

definition merge_key :: "int \<Rightarrow> string" where
  "merge_key pr = ''merge:pr:'' @ show_int pr"

definition owed_merge :: "merge_request \<Rightarrow> string \<Rightarrow> string \<Rightarrow> json" where
  "owed_merge mq repo head =
     JObj [(''pr_number'', JInt (mq_pr mq)), (''head_sha'', JStr head), (''review_task_id'', JStr (mq_review mq)),
           (''repo'', JStr repo)]"

definition merge_fail :: "time \<Rightarrow> merge_request \<Rightarrow> string \<Rightarrow> op_reason \<Rightarrow> queue \<Rightarrow> queue" where
  "merge_fail clock mq head reason q =
     external_op_mark clock (merge_key (mq_pr mq)) Op_Failed
       (Some (Head_Error (if head = [] then ''unknown'' else head) reason)) True q"

definition owe_merge :: "github \<Rightarrow> merge_request \<Rightarrow> string \<Rightarrow> queue \<Rightarrow> bool \<times> queue" where
  "owe_merge gh mq head q =
     (if mq_test mq = [] then (False, q) else defer_test_merge q (mq_test mq) (owed_merge mq (gh_repo gh) head))"

definition state_unknown_error :: "external_op \<Rightarrow> bool" where
  "state_unknown_error o1 = (case eo_error o1 of Some (Head_Error h State_Unknown) \<Rightarrow> True | _ \<Rightarrow> False)"

definition known_head :: "github \<Rightarrow> string" where
  "known_head gh = (if gh_repo gh = [] then [] else gh_head gh)"

text \<open>The receipts that end the attempt at once.\<close>

definition merge_receipt ::
  "time \<Rightarrow> github \<Rightarrow> merge_request \<Rightarrow> external_op \<Rightarrow> queue \<Rightarrow> (merge_outcome + external_op) \<times> queue" where
  "merge_receipt clock gh mq o1 q =
     (if eo_state o1 = Op_Failed \<and> eo_error o1 = Some (Head_Error (known_head gh) Ci_Red) then (Inl Red_On_Head, q)
      else if eo_state o1 = Op_Skipped \<and> eo_error o1 = Some (Head_Error (known_head gh) Ci_Timed_Out)
      then (Inl Ci_Timed_Out_On_Head, q)
      else if eo_state o1 = Op_Failed \<and> max_merge_attempts \<le> eo_attempt o1
      then (Inl Attempts_Spent,
            if mq_test mq \<noteq> [] \<and> state_unknown_error o1
            then snd (coordinator_notice_once clock clock q (mq_test mq) ''merge_replay_refused'' (gh_notice_delivered gh))
            else q)
      else (Inr o1, q))"

text \<open>Admission: the reservation under the stop, the budget of a new head, and the receipt.\<close>

definition merge_entry ::
  "time \<Rightarrow> pauses \<Rightarrow> github \<Rightarrow> merge_request \<Rightarrow> queue \<Rightarrow> (merge_outcome + external_op) \<times> queue" where
  "merge_entry clock ps gh mq q =
     (case external_op_reserve clock ps q (merge_key (mq_pr mq)) (Some (mq_pr mq)) of
        (Stop_Refused e, q1) \<Rightarrow> (let (b, q2) = owe_merge gh mq (known_head gh) q1 in (Inl (Merge_Stopped b), q2))
      | (Reserved fresh o1, q1) \<Rightarrow>
          if eo_state o1 = Op_Done then (Inl Merged_Before, q1)
          else (case external_op_reset_failed_head q1 (merge_key (mq_pr mq)) (known_head gh) of
                  (None, q2) \<Rightarrow> merge_receipt clock gh mq o1 q2
                | (Some o2, q2) \<Rightarrow> merge_receipt clock gh mq o2 q2))"

definition implement_of :: "queue \<Rightarrow> string \<Rightarrow> task_row option" where
  "implement_of q review =
     (case task_of q review of None \<Rightarrow> None
      | Some r \<Rightarrow> let t = lineage_root q [tk_id r] r in if tk_type t = ''implement'' then Some t else None)"

fun refusal_text :: "approval_refusal \<Rightarrow> string" where
  "refusal_text No_Pr_Head = ''PR head unavailable''"
| "refusal_text No_Completed_Review = ''no completed review for PR''"
| "refusal_text (Newer_Review i) = ''latest completed review is '' @ i"
| "refusal_text Verdict_Not_Approve = ''latest review does not approve''"
| "refusal_text No_Reviewed_Sha = ''review lacks reviewed_sha''"
| "refusal_text Head_Differs = ''PR head differs from reviewed SHA''"
| "refusal_text No_Attribution = ''author or reviewer attribution unavailable''"
| "refusal_text Same_Agent_Family = ''reviewer agent equals implementer agent''"

definition refuse_merge :: "time \<Rightarrow> merge_request \<Rightarrow> string \<Rightarrow> string \<Rightarrow> queue \<Rightarrow> (merge_outcome + 'a) \<times> queue" where
  "refuse_merge clock mq head reason q = (Inl (Merge_Refused reason), merge_fail clock mq head (Refused reason) q)"

definition park_untested :: "time \<Rightarrow> github \<Rightarrow> merge_request \<Rightarrow> task_row \<Rightarrow> queue \<Rightarrow> queue" where
  "park_untested clock gh mq t q =
     snd (coordinator_notice_once clock clock
       (snd (mark_needs_human q (tk_id t) ''structured test PASS for reviewed head missing''
          [(''merge_test_gate'', JObj [(''error'', JStr ''structured test PASS for reviewed head missing''),
              (''pr_number'', JInt (mq_pr mq)), (''head_sha'', JStr (gh_approval_head gh))])]))
       (tk_id t) ''merge_test_pass_missing'' (gh_notice_delivered gh))"

text \<open>The evidence, in the order it is asked for; \<open>Inr\<close> is the head that was reviewed and tested.\<close>

definition merge_evidence ::
  "time \<Rightarrow> github \<Rightarrow> (string \<Rightarrow> string option) \<Rightarrow> merge_request \<Rightarrow> queue \<Rightarrow> (merge_outcome + string) \<times> queue" where
  "merge_evidence clock gh agent_of mq q =
     (let head = gh_head gh; pr = mq_pr mq; reviewed = gh_approval_head gh
      in if gh_repo gh = [] then refuse_merge clock mq [] ''repo identity unresolved'' q
         else case gh_pr_state gh of
           Pr_Merged \<Rightarrow> (Inl Found_Merged, external_op_mark clock (merge_key pr) Op_Done None False q)
         | Pr_Closed \<Rightarrow> refuse_merge clock mq head ''PR closed'' q
         | Pr_Unknown \<Rightarrow>
             (let (b, q1) = owe_merge gh mq head (merge_fail clock mq head State_Unknown q) in (Inl (State_Unsure b), q1))
         | Pr_Open \<Rightarrow>
             (case implement_of q (mq_review mq) of
                None \<Rightarrow> refuse_merge clock mq head ''conformance gate lineage unresolved'' q
              | Some t \<Rightarrow>
                  if tk_description t = [] then (Inl No_Title, q)
                  else let (allowed, q1) = conformance_gate_allows_merge (gh_gate gh) pr t q
                  in if \<not> allowed then (Inl Gate_Blocked, merge_fail clock mq head (Refused ''conformance gate BLOCK'') q1)
                     else case independent_review_for_head agent_of q1 pr reviewed (mq_review mq) of
                            Inl e \<Rightarrow> refuse_merge clock mq head (refusal_text e) q1
                          | Inr approval \<Rightarrow>
                              if \<not> test_pass_for_head q1 (mq_review mq) pr reviewed
                              then (Inl No_Test_Pass, park_untested clock gh mq t
                                      (merge_fail clock mq head (Refused ''structured test PASS missing'') q1))
                              else if \<not> gh_published gh then refuse_merge clock mq head ''review status publish failed'' q1
                              else if \<not> gh_status_ok gh
                              then refuse_merge clock mq head ''crew/independent-review success missing on PR head'' q1
                              else (Inr reviewed, q1)))"

definition pending_since :: "time \<Rightarrow> external_op \<Rightarrow> string \<Rightarrow> time" where
  "pending_since clock o1 head =
     (case eo_error o1 of Some (Head_Error h (Ci_Pending s)) \<Rightarrow> if h = head then s else clock | _ \<Rightarrow> clock)"

definition merge_finish ::
  "time \<Rightarrow> github \<Rightarrow> merge_request \<Rightarrow> external_op \<Rightarrow> string \<Rightarrow> queue \<Rightarrow> merge_outcome \<times> queue" where
  "merge_finish clock gh mq o1 reviewed q =
     (let key = merge_key (mq_pr mq); since = pending_since clock o1 reviewed
      in if mq_left_to_coordinator mq then (Left_To_Coordinator, external_op_mark clock key Op_Skipped None False q)
         else case head_checks_state (gh_checks gh) of
           Ci_Is_Red \<Rightarrow> (Merge_Refused ''CI red'', merge_fail clock mq (gh_head gh) Ci_Red q)
         | Ci_Error \<Rightarrow> (Merge_Refused ''CI error'', merge_fail clock mq (gh_head gh) (Refused ''CI error'') q)
         | Ci_Infra_Unavailable \<Rightarrow>
             (Merge_Refused ''CI infra_unavailable'', merge_fail clock mq (gh_head gh) (Refused ''CI infra_unavailable'') q)
         | Ci_Is_Pending \<Rightarrow>
             if 120 \<le> clock - since
             then (Ci_Wait_Over, external_op_mark clock key Op_Skipped (Some (Head_Error reviewed Ci_Timed_Out)) False q)
             else (Ci_Wait, external_op_mark clock key Op_Reserved (Some (Head_Error reviewed (Ci_Pending since))) False q)
         | _ \<Rightarrow>
             if gh_merge_ok gh
             then (Merge_Ran True, external_op_mark clock key Op_Done None False q)
             else (Merge_Ran False, merge_fail clock mq (gh_head gh) (Refused ''gh pr merge failed'') q))"

definition auto_merge_pr ::
  "time \<Rightarrow> pauses \<Rightarrow> github \<Rightarrow> (string \<Rightarrow> string option) \<Rightarrow> merge_request \<Rightarrow> queue \<Rightarrow> merge_outcome \<times> queue" where
  "auto_merge_pr clock ps gh agent_of mq q =
     (case merge_entry clock ps gh mq q of
        (Inl out, q1) \<Rightarrow> (out, q1)
      | (Inr o1, q1) \<Rightarrow>
          (case merge_evidence clock gh agent_of mq q1 of
             (Inl out, q2) \<Rightarrow> (out, q2)
           | (Inr reviewed, q2) \<Rightarrow> merge_finish clock gh mq o1 reviewed q2))"

section \<open>Replaying an owed continuation\<close>

datatype disposition = Replay | Merge_Done | Merge_Refused_As string | Settle outbox_state string

text \<open>The merge a test task owes.\<close>

definition owed_of :: "outbox_row \<Rightarrow> task_context \<Rightarrow> (string \<times> json) list option" where
  "owed_of r ctx =
     (if ob_task_type r = ''test''
      then (case ctx_key ctx ''suppressed_merge'' of JObj kvs \<Rightarrow> Some kvs | _ \<Rightarrow> None) else None)"

text \<open>\<open>int(value)\<close> of a context value; \<open>None\<close> raises.\<close>

fun int_of_json :: "json \<Rightarrow> int option" where
  "int_of_json (JInt i) = Some i"
| "int_of_json (JBool b) = Some (if b then 1 else 0)"
| "int_of_json (JStr s) = int_of_text (py_strip s)"
| "int_of_json _ = None"

definition json_of_int :: "int option \<Rightarrow> json" where
  "json_of_int n = (case n of None \<Rightarrow> JNull | Some i \<Rightarrow> JInt i)"

text \<open>The checks on the pull request; \<open>head\<close> is its head and empty when it is not known.\<close>

definition pr_disposition :: "pr_state \<Rightarrow> string \<Rightarrow> string \<Rightarrow> (string \<times> json) list option \<Rightarrow> disposition" where
  "pr_disposition st repo head owed =
     (if repo = [] then Settle Owed ''pr_repo_unavailable''
      else if st = Pr_Merged \<and> owed \<noteq> None then Merge_Done
      else if st = Pr_Closed \<and> owed \<noteq> None then Merge_Refused_As ''pr_closed''
      else if st = Pr_Closed \<or> st = Pr_Merged then Settle Expired ''pr_closed_or_merged''
      else if st \<noteq> Pr_Open \<and> owed = None then Settle Owed ''pr_state_unknown''
      else case owed of None \<Rightarrow> Replay
           | Some kvs \<Rightarrow>
               if \<not> json_truthy (given kvs ''head_sha'') then Replay
               else if head = [] then Settle Owed ''pr_head_unknown''
               else if JStr head \<noteq> given kvs ''head_sha'' then Merge_Refused_As ''head_changed''
               else Replay)"

definition replay_pr :: "int option \<Rightarrow> task_row \<Rightarrow> json" where
  "replay_pr result_pr t =
     first_truthy [json_of_int result_pr, json_of_int (tk_pr_number t), ctx_key (tk_context t) ''pr_number'']"

definition replay_disposition ::
  "time \<Rightarrow> time \<Rightarrow> queue \<Rightarrow> outbox_row \<Rightarrow> int option \<Rightarrow> pr_state \<Rightarrow> string \<Rightarrow> string \<Rightarrow> disposition" where
  "replay_disposition clock max_age q r result_pr st repo head =
     (let task = task_of q (ob_task_id r);
          owed = (case task of None \<Rightarrow> None | Some t \<Rightarrow> owed_of r (tk_context t))
      in if clock < ob_created_at r then Settle Owed ''invalid_created_at''
         else if max_age < clock - ob_created_at r \<and> owed = None then Settle Expired ''age_limit''
         else case task of None \<Rightarrow> Settle Owed ''parent_unavailable''
         | Some t \<Rightarrow>
             if tk_status t = Cancelled \<or> superseding_review q (ob_task_id r)
             then (if owed \<noteq> None then Merge_Refused_As ''parent_cancelled_or_superseded''
                   else Settle Expired ''parent_cancelled_or_superseded'')
             else if \<not> json_truthy (replay_pr result_pr t) then Replay
             else if int_of_json (replay_pr result_pr t) = None then Settle Owed ''safety_check_failed''
             else pr_disposition st repo head owed)"

text \<open>A disposition that starts no successor; \<open>None\<close> for \<open>Replay\<close>, whose cascade runs in between.\<close>

definition settle_replay ::
  "time \<Rightarrow> pauses \<Rightarrow> queue \<Rightarrow> string \<Rightarrow> string \<Rightarrow> int \<Rightarrow> bool \<Rightarrow> disposition \<Rightarrow> queue option" where
  "settle_replay clock ps q tid owner pr delivered d =
     (case d of Replay \<Rightarrow> None
      | Settle st reason \<Rightarrow> map_option snd (outbox_finish_claim q tid owner st)
      | Merge_Refused_As reason \<Rightarrow>
          Some (snd (outbox_mark_applied
             (snd (coordinator_notice_once clock clock q tid ''merge_replay_refused'' delivered)) tid owner))
      | Merge_Done \<Rightarrow>
          (case external_op_reserve clock ps q (merge_key pr) (Some pr) of
             (Stop_Refused e, q1) \<Rightarrow> map_option snd (outbox_finish_claim q1 tid owner Owed)
           | (Reserved fresh o1, q1) \<Rightarrow>
               Some (snd (outbox_mark_applied (external_op_mark clock (merge_key pr) Op_Done None False q1) tid owner))))"

text \<open>
  After the cascade of a replay: a stop or an exception leaves the continuation owed, and so does an owed
  merge whose receipt is still open.
\<close>

datatype replay_answer = Replay_Raised | Replay_Suppressed | Replay_Returned

definition finish_replay ::
  "time \<Rightarrow> queue \<Rightarrow> outbox_row \<Rightarrow> string \<Rightarrow> (string \<times> json) list option \<Rightarrow> int \<Rightarrow> bool \<Rightarrow> replay_answer \<Rightarrow> queue option" where
  "finish_replay clock q r owner owed pr delivered ans =
     (let tid = ob_task_id r; again = map_option snd (outbox_finish_claim q tid owner Owed)
      in case ans of
           Replay_Raised \<Rightarrow> again
         | Replay_Suppressed \<Rightarrow> again
         | Replay_Returned \<Rightarrow>
             if owed = None then Some (snd (outbox_mark_applied q tid owner))
             else if map_option ob_state (outbox_of q tid) = Some Owed then Some q
             else case op_of q (merge_key pr) of None \<Rightarrow> again
                  | Some o1 \<Rightarrow>
                      if eo_state o1 = Op_Reserved then again
                      else Some (snd (outbox_mark_applied
                             (if eo_state o1 = Op_Done then q
                              else snd (coordinator_notice_once clock clock q tid ''merge_replay_refused'' delivered)) tid owner)))"

end
