(* ===== verification/Effect_Safety.thy ===== *)
theory Effect_Safety
  imports Task_Safety Merge
begin

text \<open>
  What the operations of \<open>Effects\<close> and \<open>Merge\<close> keep of the queue, and the leases they hold: the lease of a
  replay and the claim of an announcement are instances of \<open>fenced_lease\<close>.
\<close>

section \<open>A lease with a fence\<close>

text \<open>
  A slot held by at most one token at a time: a claim that wins makes its token the holder, and only the
  holder settles. What the client relies on: once another token has won the slot, an older one never
  settles it, whatever claims and settlements lie in between, as long as no later claim reuses the token.
\<close>

locale fenced_lease =
  fixes holder :: "'s \<Rightarrow> 'k \<Rightarrow> 'h option"
    and claim :: "'c \<Rightarrow> 's \<Rightarrow> 'k \<Rightarrow> 'h \<Rightarrow> bool \<times> 's"
    and settle :: "'d \<Rightarrow> 's \<Rightarrow> 'k \<Rightarrow> 'h \<Rightarrow> bool \<times> 's"
    and other :: "'s \<Rightarrow> 's \<Rightarrow> bool"
  assumes claim_won: "claim c s k h = (True, t) \<Longrightarrow> holder t k = Some h"
    and claim_new: "claim c s k h = (b, t) \<Longrightarrow> holder t j = Some g \<Longrightarrow> g = h \<or> holder s j = Some g"
    and settle_held: "settle d s k h = (True, t) \<Longrightarrow> holder s k = Some h \<and> holder t k = None"
    and settle_new: "settle d s k h = (b, t) \<Longrightarrow> holder t j = Some g \<Longrightarrow> holder s j = Some g"
    and other_new: "other s t \<Longrightarrow> holder t j = Some g \<Longrightarrow> holder s j = Some g"
begin

inductive run :: "'h set \<Rightarrow> 's \<Rightarrow> 's \<Rightarrow> bool" where
  idle: "run H s s"
| claims: "run H s t \<Longrightarrow> claim c t k h = (b, u) \<Longrightarrow> h \<in> H \<Longrightarrow> run H s u"
| settles: "run H s t \<Longrightarrow> settle d t k h = (b, u) \<Longrightarrow> run H s u"
| others: "run H s t \<Longrightarrow> other t u \<Longrightarrow> run H s u"

lemma run_holder: "run H s t \<Longrightarrow> holder t k = Some g \<Longrightarrow> g \<in> H \<or> holder s k = Some g"
  by (induction rule: run.induct) (blast dest: claim_new settle_new other_new)+

lemma settled_holder: "fst (settle d s k h) \<Longrightarrow> holder s k = Some h"
  using settle_held [of d s k h "snd (settle d s k h)"] by (simp add: prod_eq_iff)

lemma superseded:
  assumes "claim c s k h = (True, t)" and "run H t u" and "g \<noteq> h" and "g \<notin> H"
  shows "\<not> fst (settle d u k g)"
  using run_holder [OF assms(2)] claim_won [OF assms(1)] assms(3,4) settled_holder by fastforce

lemma settles_once:
  assumes "settle d s k h = (True, t)" and "run H t u" and "h \<notin> H"
  shows "\<not> fst (settle e u k h)"
  using run_holder [OF assms(2)] settle_held [OF assms(1)] assms(3) settled_holder by fastforce

end

section \<open>The outbox\<close>

lemma outbox_of_update:
  "(\<And>r. ob_task_id (f r) = ob_task_id r) \<Longrightarrow>
     outbox_of (update_outbox i f q) j = (if i = j then map_option f (outbox_of q j) else outbox_of q j)"
  by (simp add: outbox_of_def update_outbox_def row_of_update)

lemma outbox_row_ids [simp]:
  "ob_task_id (leased_row clock owner attempt ttl r) = ob_task_id r" "ob_task_id (released_row st r) = ob_task_id r"
  by (simp_all add: leased_row_def released_row_def)

lemma update_outbox_evolves:
  assumes "\<And>r. ob_task_id (f r) = ob_task_id r" and "\<And>r. outbox_of q i = Some r \<Longrightarrow> replay_kept r (f r)"
  shows "evolves q (update_outbox i f q)"
proof -
  have "replay_kept w (if ob_task_id w = i then f w else w)" if "row_of ob_task_id k (q_outbox q) = Some w" for k w
    using that assms(2) by (auto simp: outbox_of_def dest: row_of_SomeD)
  then have "outbox_kept (q_outbox q) (q_outbox (update_outbox i f q))"
    unfolding update_outbox_def by (simp add: table_kept_map assms(1))
  moreover have "map ob_task_id (q_outbox (update_outbox i f q)) = map ob_task_id (q_outbox q)"
    by (simp add: update_outbox_def assms(1))
  ultimately show ?thesis by (simp add: evolves_def list_all2_same) (simp add: update_outbox_def list_all2_same)
qed

lemma outbox_claim_evolves: "outbox_claim clock q i owner attempt ttl = (r, q') \<Longrightarrow> evolves q q'"
  by (auto simp: outbox_claim_def Let_def outbox_claimable_def replay_kept_def leased_row_def split: option.splits if_splits
      intro!: update_outbox_evolves)

lemma outbox_applied_evolves: "outbox_mark_applied q i owner = (b, q') \<Longrightarrow> evolves q q'"
  by (auto simp: outbox_mark_applied_def replay_held_def replay_kept_def split: option.splits if_splits
      intro!: update_outbox_evolves)

lemma outbox_finish_evolves: "outbox_finish_claim q i owner st = Some (b, q') \<Longrightarrow> evolves q q'"
  by (auto simp: outbox_finish_claim_def replay_held_def replay_kept_def released_row_def split: option.splits if_splits
      intro!: update_outbox_evolves)

lemma released_evolves: "reopenable q i \<Longrightarrow> evolves q (update_outbox i (released_row Owed) q)"
  by (auto simp: reopenable_def replay_kept_def released_row_def split: option.splits intro!: update_outbox_evolves)

lemma outbox_reopen_evolves: "outbox_reopen q i = (b, q') \<Longrightarrow> evolves q q'"
  by (auto simp: outbox_reopen_def released_evolves split: if_splits)

lemma set_key_evolves: "evolves q (update_task i (\<lambda>u. u\<lparr>tk_context := g (tk_context u)\<rparr>) q)"
  by (rule context_update_evolves) (simp add: row_kept_def)

lemma defer_test_merge_evolves:
  assumes "defer_test_merge q i merge = (b, q')"
  shows "evolves q q'"
proof (cases "b")
  case True
  let ?q = "update_task i (\<lambda>u. u\<lparr>tk_context := set_key ''suppressed_merge'' merge (tk_context u)\<rparr>) q"
  from assms True have r: "reopenable q i" and q': "q' = update_outbox i (released_row Owed) ?q"
    by (auto simp: defer_test_merge_def split: option.splits if_splits)
  have "reopenable ?q i" using r by (simp add: reopenable_def outbox_of_def update_task_def)
  from evolves_trans [OF set_key_evolves released_evolves [OF this]] show ?thesis unfolding q' .
next
  case False
  with assms show ?thesis by (auto simp: defer_test_merge_def split: option.splits if_splits)
qed

section \<open>Receipts\<close>

definition op_open :: "queue \<Rightarrow> string \<Rightarrow> bool" where
  "op_open q k \<longleftrightarrow> (case op_of q k of None \<Rightarrow> True | Some o1 \<Rightarrow> eo_state o1 \<noteq> Op_Done)"

lemma op_of_update:
  "(\<And>r. eo_key (f r) = eo_key r) \<Longrightarrow> op_of (update_op i f q) j = (if i = j then map_option f (op_of q j) else op_of q j)"
  by (simp add: op_of_def update_op_def row_of_update)

lemma marked_key [simp]: "eo_key (marked_op clock st err inc r) = eo_key r"
  by (simp add: marked_op_def)

lemma update_op_evolves:
  assumes "\<And>r. eo_key (f r) = eo_key r" and "\<And>r. op_of q k = Some r \<Longrightarrow> op_kept r (f r)"
  shows "evolves q (update_op k f q)"
proof -
  have "op_kept w (if eo_key w = k then f w else w)" if "row_of eo_key j (q_ops q) = Some w" for j w
    using that assms(2) by (auto simp: op_of_def dest: row_of_SomeD)
  then have "ops_kept (q_ops q) (q_ops (update_op k f q))"
    unfolding update_op_def by (simp add: table_kept_map assms(1))
  then show ?thesis by (simp add: evolves_def update_op_def list_all2_same)
qed

lemma mark_evolves:
  assumes "op_open q k \<or> st = Op_Done \<or> \<not> startswith k ''merge:pr:''"
  shows "evolves q (external_op_mark clock k st err inc q)"
  unfolding external_op_mark_def
proof (rule update_op_evolves)
  fix r assume "op_of q k = Some r"
  moreover from this have "eo_key r = k" by (auto simp: op_of_def dest: row_of_SomeD)
  ultimately show "op_kept r (marked_op clock st err inc r)"
    using assms by (auto simp: op_kept_def marked_op_def op_open_def)
qed simp

lemma reserve_evolves:
  assumes "external_op_reserve clock ps q k pr = (r, q')"
  shows "evolves q q'"
proof -
  obtain st sw where w: "reconcile_pause_signal clock ps (q_switch q) = (st, sw)" by fastforce
  have "evolves (q\<lparr>q_switch := sw\<rparr>) (q\<lparr>q_switch := sw, q_ops := q_ops q @ [o1]\<rparr>)" for o1
    by (simp add: evolves_def list_all2_same)
  from evolves_trans [OF switch_evolves [OF reconcile_steps [OF w]] this] switch_evolves [OF reconcile_steps [OF w]] assms w
  show ?thesis by (auto simp: external_op_reserve_def Let_def split: if_splits option.splits)
qed

lemma reset_head_evolves: "external_op_reset_failed_head q k head = (r, q') \<Longrightarrow> evolves q q'"
  by (auto simp: external_op_reset_failed_head_def Let_def op_kept_def split: option.splits if_splits
      intro!: update_op_evolves)

section \<open>Announcements\<close>

lemma announcement_of_update:
  "(\<And>r. an_key (f r) = an_key r) \<Longrightarrow>
     announcement_of (update_announcement i f q) j = (if i = j then map_option f (announcement_of q j) else announcement_of q j)"
  by (simp add: announcement_of_def update_announcement_def row_of_update)

definition posted :: "queue \<Rightarrow> int \<times> string \<Rightarrow> time option" where
  "posted q k = (case announcement_of q k of None \<Rightarrow> None | Some a \<Rightarrow> an_posted_at a)"

lemma announcements_evolve:
  assumes "\<And>k t. posted q k = Some t \<Longrightarrow> posted (q\<lparr>q_announcements := xs\<rparr>) k = Some t"
  shows "evolves q (q\<lparr>q_announcements := xs\<rparr>)"
proof -
  have "notices_kept (q_announcements q) xs"
    using assms by (simp add: notices_kept_def posted_in_def posted_def announcement_of_def)
  then show ?thesis by (simp add: evolves_def list_all2_same)
qed

lemma update_announcement_evolves:
  assumes "\<And>r. an_key (f r) = an_key r" and "posted q k = None"
  shows "evolves q (update_announcement k f q)"
proof -
  have "posted (update_announcement k f q) j = Some t" if "posted q j = Some t" for j t
    using that assms(2) announcement_of_update [OF assms(1), of k q j] by (cases "k = j") (auto simp: posted_def)
  then show ?thesis unfolding update_announcement_def by (rule announcements_evolve) (simp add: update_announcement_def)
qed

lemma claim_announcement_evolves:
  assumes "claim_pr_announcement clock q k who token stale = (r, q')"
  shows "evolves q q'"
proof (cases "announcement_of q k")
  case None
  have "evolves q (q\<lparr>q_announcements := q_announcements q @ [a]\<rparr>)" for a
    by (rule announcements_evolve) (simp add: posted_def announcement_of_def row_of_append split: option.splits)
  with assms None show ?thesis by (auto simp: claim_pr_announcement_def)
next
  case (Some a)
  with assms show ?thesis
    by (auto simp: claim_pr_announcement_def posted_def split: if_splits intro!: update_announcement_evolves)
qed

lemma posted_announcement_evolves: "mark_pr_announcement_posted clock q k token = (b, q') \<Longrightarrow> evolves q q'"
  by (auto simp: mark_pr_announcement_posted_def holds_announcement_def posted_def split: if_splits option.splits
      intro!: update_announcement_evolves)

lemma row_of_filter_key: "row_of key k (filter (\<lambda>r. key r \<noteq> j) t) = (if k = j then None else row_of key k t)"
  by (induction t) auto

lemma release_announcement_evolves:
  assumes "release_pr_announcement q k token = (b, q')"
  shows "evolves q q'"
proof (cases "holds_announcement q k token")
  case True
  then have "posted q k = None" by (auto simp: holds_announcement_def posted_def split: option.splits)
  then have "evolves q (q\<lparr>q_announcements := filter (\<lambda>a. an_key a \<noteq> k) (q_announcements q)\<rparr>)"
    by (intro announcements_evolve) (auto simp: posted_def announcement_of_def row_of_filter_key split: if_splits)
  with assms True show ?thesis by (auto simp: release_pr_announcement_def)
next
  case False
  with assms show ?thesis by (simp add: release_pr_announcement_def)
qed

section \<open>Notices\<close>

lemma claim_notice_evolves: "claim_coordinator_notice clock q i kind = (b, q') \<Longrightarrow> evolves q q'"
  by (auto simp: claim_coordinator_notice_def append_exec_event_evolves split: if_splits option.splits)

lemma finish_notice_evolves: "evolves q (snd (finish_coordinator_notice clock q i kind d))"
  by (auto simp: finish_coordinator_notice_def Let_def append_exec_event_evolves
      intro: evolves_trans [OF append_exec_event_evolves append_exec_event_evolves])

lemma notice_once_evolves: "evolves q (snd (coordinator_notice_once clock later q i kind d))"
proof -
  obtain c q1 where c: "claim_coordinator_notice clock q i kind = (c, q1)" by fastforce
  have "evolves q q1" using c by (rule claim_notice_evolves)
  moreover from this have "evolves q (snd (finish_coordinator_notice later q1 i kind d))"
    by (rule evolves_trans [OF _ finish_notice_evolves])
  ultimately show ?thesis by (simp add: coordinator_notice_once_def c)
qed

lemma patch_context_evolves: "patch_context q i extra = Some q' \<Longrightarrow> evolves q q'"
  by (auto simp: patch_context_def Let_def row_kept_def split: option.splits if_splits intro!: context_update_evolves)

section \<open>The leases\<close>

definition replay_holder :: "queue \<Rightarrow> string \<Rightarrow> string option" where
  "replay_holder q tid =
     (case outbox_of q tid of None \<Rightarrow> None | Some r \<Rightarrow> if ob_state r = Replaying then ob_lease_owner r else None)"

definition take_replay :: "time \<times> string \<times> time option \<Rightarrow> queue \<Rightarrow> string \<Rightarrow> string \<Rightarrow> bool \<times> queue" where
  "take_replay c q tid owner =
     (let (clock, attempt, ttl) = c; (r, q') = outbox_claim clock q tid owner attempt ttl in (r \<noteq> None, q'))"

text \<open>The ways a replay ends: applied, or the claim is finished as expired or owed.\<close>

definition end_replay :: "outbox_state \<Rightarrow> queue \<Rightarrow> string \<Rightarrow> string \<Rightarrow> bool \<times> queue" where
  "end_replay st q tid owner =
     (if st = Applied then outbox_mark_applied q tid owner
      else case outbox_finish_claim q tid owner st of None \<Rightarrow> (False, q) | Some x \<Rightarrow> x)"

inductive reopens :: "queue \<Rightarrow> queue \<Rightarrow> bool" where
  reopen: "outbox_reopen q i = (b, q') \<Longrightarrow> reopens q q'"
| owe: "defer_test_merge q i merge = (b, q') \<Longrightarrow> reopens q q'"

lemma replay_holder_update:
  assumes "\<And>r. ob_task_id (f r) = ob_task_id r"
  shows "replay_holder (update_outbox i f q) j =
    (if i = j then (case outbox_of q j of None \<Rightarrow> None | Some r \<Rightarrow> if ob_state (f r) = Replaying then ob_lease_owner (f r) else None)
     else replay_holder q j)"
  by (simp add: replay_holder_def outbox_of_update [OF assms] split: option.split)

lemma replay_held_iff: "replay_held q i owner \<longleftrightarrow> replay_holder q i = Some owner"
  by (simp add: replay_held_def replay_holder_def split: option.split)

lemma released_holder: "replay_holder (update_outbox i (released_row Owed) q) j = Some g \<Longrightarrow> replay_holder q j = Some g"
  by (auto simp: replay_holder_update released_row_def split: if_splits option.splits)

interpretation replay_lease: fenced_lease replay_holder take_replay end_replay reopens
proof unfold_locales
  show "replay_holder t k = Some h" if "take_replay c s k h = (True, t)" for c s k h t
    using that by (auto simp: take_replay_def outbox_claim_def replay_holder_update leased_row_def Let_def
        split: prod.splits option.splits if_splits)
  show "g = h \<or> replay_holder s j = Some g" if "take_replay c s k h = (b, t)" "replay_holder t j = Some g" for c s k h b t j g
    using that by (auto simp: take_replay_def outbox_claim_def replay_holder_update leased_row_def Let_def
        split: prod.splits option.splits if_splits)
  show "replay_holder s k = Some h \<and> replay_holder t k = None" if "end_replay d s k h = (True, t)" for d s k h t
    using that by (auto simp: end_replay_def outbox_mark_applied_def outbox_finish_claim_def replay_held_iff
        replay_holder_update released_row_def split: if_splits option.splits)
  show "replay_holder s j = Some g" if "end_replay d s k h = (b, t)" "replay_holder t j = Some g" for d s k h b t j g
    using that by (auto simp: end_replay_def outbox_mark_applied_def outbox_finish_claim_def replay_holder_update
        released_row_def split: if_splits option.splits)
  show "replay_holder s j = Some g" if "reopens s t" "replay_holder t j = Some g" for s t j g
    using that
  proof cases
    case (reopen i b)
    then show ?thesis using that(2) by (auto simp: outbox_reopen_def dest: released_holder split: if_splits)
  next
    case (owe i merge b)
    have "replay_holder (update_task i f q) j = replay_holder q j" for f q
      by (simp add: replay_holder_def outbox_of_def update_task_def)
    then show ?thesis using owe that(2)
      by (auto simp: defer_test_merge_def dest: released_holder split: if_splits option.splits)
  qed
qed

definition announcement_holder :: "queue \<Rightarrow> int \<times> string \<Rightarrow> string option" where
  "announcement_holder q k =
     (case announcement_of q k of None \<Rightarrow> None | Some a \<Rightarrow> if an_posted_at a = None then Some (an_token a) else None)"

definition take_announcement :: "time \<times> string \<times> time \<Rightarrow> queue \<Rightarrow> int \<times> string \<Rightarrow> string \<Rightarrow> bool \<times> queue" where
  "take_announcement c q k token =
     (let (clock, who, stale) = c; (r, q') = claim_pr_announcement clock q k who token stale in (r \<noteq> None, q'))"

text \<open>A claim ends by the mark at a time, or by its release.\<close>

definition end_announcement :: "time option \<Rightarrow> queue \<Rightarrow> int \<times> string \<Rightarrow> string \<Rightarrow> bool \<times> queue" where
  "end_announcement d q k token =
     (case d of Some clock \<Rightarrow> mark_pr_announcement_posted clock q k token | None \<Rightarrow> release_pr_announcement q k token)"

lemma announcement_holder_update:
  assumes "\<And>r. an_key (f r) = an_key r"
  shows "announcement_holder (update_announcement i f q) j =
    (if i = j then (case announcement_of q j of None \<Rightarrow> None | Some a \<Rightarrow> if an_posted_at (f a) = None then Some (an_token (f a)) else None)
     else announcement_holder q j)"
  by (simp add: announcement_holder_def announcement_of_update [OF assms] split: option.split)

lemma announcement_held_iff: "holds_announcement q k token \<longleftrightarrow> announcement_holder q k = Some token"
  by (auto simp: holds_announcement_def announcement_holder_def split: option.split)

lemma announcement_holder_release:
  "announcement_holder (q\<lparr>q_announcements := filter (\<lambda>a. an_key a \<noteq> k) (q_announcements q)\<rparr>) j =
     (if j = k then None else announcement_holder q j)"
  by (simp add: announcement_holder_def announcement_of_def row_of_filter_key)

lemma announcement_holder_new:
  "announcement_of q k = None \<Longrightarrow> announcement_holder (q\<lparr>q_announcements := q_announcements q
       @ [\<lparr>an_key = k, an_claimed_at = c, an_claimed_by = who, an_token = token, an_posted_at = None\<rparr>]\<rparr>) j =
     (if j = k then Some token else announcement_holder q j)"
  by (auto simp: announcement_holder_def announcement_of_def row_of_append split: option.splits)

interpretation announcement_lease: fenced_lease announcement_holder take_announcement end_announcement "\<lambda>_ _. False"
proof unfold_locales
  show "announcement_holder t k = Some h" if "take_announcement c s k h = (True, t)" for c s k h t
    using that by (auto simp: take_announcement_def claim_pr_announcement_def announcement_holder_update
        announcement_holder_new split: prod.splits option.splits if_splits)
  show "g = h \<or> announcement_holder s j = Some g" if "take_announcement c s k h = (b, t)" "announcement_holder t j = Some g"
    for c s k h b t j g
    using that by (auto simp: take_announcement_def claim_pr_announcement_def announcement_holder_update
        announcement_holder_new split: prod.splits option.splits if_splits)
  show "announcement_holder s k = Some h \<and> announcement_holder t k = None" if "end_announcement d s k h = (True, t)" for d s k h t
    using that by (auto simp: end_announcement_def mark_pr_announcement_posted_def release_pr_announcement_def
        announcement_held_iff announcement_holder_update announcement_holder_release split: if_splits option.splits)
  show "announcement_holder s j = Some g" if "end_announcement d s k h = (b, t)" "announcement_holder t j = Some g"
    for d s k h b t j g
    using that by (auto simp: end_announcement_def mark_pr_announcement_posted_def release_pr_announcement_def
        announcement_holder_update announcement_holder_release split: if_splits option.splits)
qed simp

section \<open>Merging\<close>

lemma ops_frame [simp]:
  "q_ops (update_task i f q) = q_ops q" "q_ops (append_exec_event i e clock x q) = q_ops q"
  "q_ops (update_outbox i g q) = q_ops q"
  by (simp_all add: update_task_def append_exec_event_def update_outbox_def)

lemma ops_frame_calls [simp]:
  "q_ops (snd (mark_needs_human q i summary extra)) = q_ops q"
  "q_ops (snd (coordinator_notice_once clock later q i kind d)) = q_ops q"
  "q_ops (snd (owe_merge gh mq head q)) = q_ops q"
  "q_ops (snd (conformance_gate_allows_merge g pr t q)) = q_ops q"
  by (simp_all add: mark_needs_human_def coordinator_notice_once_def claim_coordinator_notice_def
      finish_coordinator_notice_def owe_merge_def defer_test_merge_def conformance_gate_allows_merge_def
      patch_context_def Let_def split: option.split prod.split)

lemma op_of_frame: "q_ops p = q_ops q \<Longrightarrow> op_of p k = op_of q k"
  by (simp add: op_of_def)

lemma op_open_frame: "q_ops p = q_ops q \<Longrightarrow> op_open p k = op_open q k"
  by (simp add: op_open_def op_of_def)

lemma op_of_mark: "op_of (external_op_mark clock k st err inc q) j =
    (if k = j then map_option (marked_op clock st err inc) (op_of q j) else op_of q j)"
  by (simp add: external_op_mark_def op_of_update)

lemma op_open_mark: "st \<noteq> Op_Done \<Longrightarrow> op_open (external_op_mark clock k st err inc q) k"
  by (simp add: op_open_def op_of_mark marked_op_def split: option.split)

lemma merge_fail_evolves:
  assumes "op_open q (merge_key (mq_pr mq))"
  shows "evolves q (merge_fail clock mq head reason q) \<and> op_open (merge_fail clock mq head reason q) (merge_key (mq_pr mq))"
  using assms by (simp add: merge_fail_def mark_evolves op_open_mark)

lemma owe_merge_evolves: "evolves q (snd (owe_merge gh mq head q))"
  by (simp add: owe_merge_def defer_test_merge_evolves [OF surjective_pairing])

lemma reserved_op: "external_op_reserve clock ps q k pr = (Reserved fresh o1, q1) \<Longrightarrow> op_of q1 k = Some o1"
  by (auto simp: external_op_reserve_def op_of_def new_op_def row_of_append Let_def split: prod.splits option.splits if_splits)

lemma reset_head_open:
  assumes "external_op_reset_failed_head q k head = (r, q')" and "op_open q k"
  shows "op_open q' k"
  using assms by (auto simp: external_op_reset_failed_head_def op_open_def op_of_update Let_def split: option.splits if_splits)

lemma reset_head_row:
  assumes "external_op_reset_failed_head q k head = (r, q')" and "op_of q k = Some o1"
  shows "\<exists>o2. r = Some o2 \<and> op_of q' k = Some o2 \<and> (head = [] \<longrightarrow> o2 = o1)"
proof (cases "eo_state o1 = Op_Failed \<and> head \<noteq> [] \<and> \<not> error_at_head o1 head")
  case True
  with assms show ?thesis by (auto simp: external_op_reset_failed_head_def op_of_update Let_def)
next
  case False
  with assms have "r = Some o1 \<and> q' = q" by (auto simp: external_op_reset_failed_head_def)
  with assms(2) show ?thesis by simp
qed

text \<open>How an attempt passes admission.\<close>

lemma merge_receipt_cases:
  assumes "merge_receipt clock gh mq o1 q = (x, q')"
  shows "(x = Inl Red_On_Head \<or> x = Inl Ci_Timed_Out_On_Head) \<and> q' = q
    \<or> x = Inl Attempts_Spent
      \<and> (q' = q \<or> q' = snd (coordinator_notice_once clock clock q (mq_test mq) ''merge_replay_refused'' (gh_notice_delivered gh)))
    \<or> x = Inr o1 \<and> q' = q \<and> (eo_state o1 = Op_Failed \<longrightarrow> eo_attempt o1 < max_merge_attempts)"
  using assms by (auto simp: merge_receipt_def split: if_splits)

lemma merge_entry_cases:
  assumes "merge_entry clock ps gh mq q = (x, q')"
  obtains (stopped) e q1 where "external_op_reserve clock ps q (merge_key (mq_pr mq)) (Some (mq_pr mq)) = (Stop_Refused e, q1)"
      "x = Inl (Merge_Stopped (fst (owe_merge gh mq (known_head gh) q1)))" "q' = snd (owe_merge gh mq (known_head gh) q1)"
  | (merged) fresh o1 where "external_op_reserve clock ps q (merge_key (mq_pr mq)) (Some (mq_pr mq)) = (Reserved fresh o1, q')"
      "eo_state o1 = Op_Done" "x = Inl Merged_Before"
  | (tried) fresh o1 q1 o2 q2 where
      "external_op_reserve clock ps q (merge_key (mq_pr mq)) (Some (mq_pr mq)) = (Reserved fresh o1, q1)"
      "eo_state o1 \<noteq> Op_Done" "op_of q1 (merge_key (mq_pr mq)) = Some o1"
      "external_op_reset_failed_head q1 (merge_key (mq_pr mq)) (known_head gh) = (Some o2, q2)"
      "op_of q2 (merge_key (mq_pr mq)) = Some o2" "merge_receipt clock gh mq o2 q2 = (x, q')"
proof -
  let ?k = "merge_key (mq_pr mq)"
  obtain r q1 where r: "external_op_reserve clock ps q ?k (Some (mq_pr mq)) = (r, q1)" by fastforce
  show thesis
  proof (cases r)
    case (Stop_Refused e)
    with assms r show ?thesis by (intro stopped [of e q1]) (auto simp: merge_entry_def split: prod.splits)
  next
    case (Reserved fresh o1)
    note r = r [unfolded Reserved]
    show ?thesis
    proof (cases "eo_state o1 = Op_Done")
      case True
      with assms r show ?thesis by (intro merged [of fresh o1]) (auto simp: merge_entry_def)
    next
      case False
      obtain o3 q2 where h: "external_op_reset_failed_head q1 ?k (known_head gh) = (o3, q2)" by fastforce
      from reset_head_row [OF h reserved_op [OF r]] obtain o2 where "o3 = Some o2" "op_of q2 ?k = Some o2" by blast
      with assms r False h show ?thesis
        by (intro tried [OF r False reserved_op [OF r], of o2 q2]) (simp_all add: merge_entry_def)
    qed
  qed
qed

lemma merge_entry_evolves:
  assumes "merge_entry clock ps gh mq q = (x, q')"
  shows "evolves q q' \<and> (\<forall>o2. x = Inr o2 \<longrightarrow> op_open q' (merge_key (mq_pr mq)))"
  using assms
proof (cases rule: merge_entry_cases)
  case (stopped e q1)
  then show ?thesis using evolves_trans [OF reserve_evolves [OF stopped(1)] owe_merge_evolves] by simp
next
  case (merged fresh o1)
  then show ?thesis using reserve_evolves by simp
next
  case (tried fresh o1 q1 o2 q2)
  have ev: "evolves q q2" by (rule evolves_trans [OF reserve_evolves [OF tried(1)] reset_head_evolves [OF tried(4)]])
  have "op_open q1 (merge_key (mq_pr mq))" using tried(2,3) by (simp add: op_open_def)
  from reset_head_open [OF tried(4) this] ev evolves_trans [OF ev notice_once_evolves] merge_receipt_cases [OF tried(6)]
  show ?thesis by blast
qed

text \<open>The evidence of an attempt that gets as far as the merge.\<close>

lemma merge_evidence_cases:
  assumes "merge_evidence clock gh agent_of mq q = (x, q')"
  obtains (found) "gh_pr_state gh = Pr_Merged" "x = Inl Found_Merged"
      "q' = external_op_mark clock (merge_key (mq_pr mq)) Op_Done None False q"
  | (unsure) "x = Inl (State_Unsure (fst (owe_merge gh mq (gh_head gh) (merge_fail clock mq (gh_head gh) State_Unknown q))))"
      "q' = snd (owe_merge gh mq (gh_head gh) (merge_fail clock mq (gh_head gh) State_Unknown q))"
  | (early) reason where "x = Inl (Merge_Refused reason)" "q' = merge_fail clock mq (known_head gh) (Refused reason) q"
  | (untitled) "x = Inl No_Title" "q' = q"
  | (parked) p reason where "x = Inl Gate_Blocked \<or> x = Inl No_Test_Pass" "q_ops p = q_ops q"
      "q_ops q' = q_ops (merge_fail clock mq (known_head gh) reason p)"
  | (refused) t q1 reason where "conformance_gate_allows_merge (gh_gate gh) (mq_pr mq) t q = (True, q1)"
      "x = Inl (Merge_Refused reason)" "q' = merge_fail clock mq (known_head gh) (Refused reason) q1"
  | (ready) t agent r where "gh_repo gh \<noteq> []" "gh_pr_state gh = Pr_Open" "implement_of q (mq_review mq) = Some t"
      "conformance_gate_allows_merge (gh_gate gh) (mq_pr mq) t q = (True, q')"
      "independent_review_for_head agent_of q' (mq_pr mq) (gh_approval_head gh) (mq_review mq) = Inr (agent, r)"
      "test_pass_for_head q' (mq_review mq) (mq_pr mq) (gh_approval_head gh)" "gh_published gh" "gh_status_ok gh"
      "x = Inr (gh_approval_head gh)"
proof (cases "gh_repo gh = [] \<or> gh_pr_state gh \<noteq> Pr_Open \<or> implement_of q (mq_review mq) = None")
  case True
  with assms show thesis
    by (cases "gh_pr_state gh")
      (auto simp: merge_evidence_def refuse_merge_def known_head_def Let_def split: if_splits prod.splits
        intro: early found unsure)
next
  case False
  then obtain t where t: "gh_repo gh \<noteq> []" "gh_pr_state gh = Pr_Open" "implement_of q (mq_review mq) = Some t" by auto
  then have head: "gh_head gh = known_head gh" by (simp add: known_head_def)
  obtain b q1 where c: "conformance_gate_allows_merge (gh_gate gh) (mq_pr mq) t q = (b, q1)" by fastforce
  have ops: "q_ops q1 = q_ops q" using ops_frame_calls(4) [of "gh_gate gh" "mq_pr mq" t q] c by simp
  show thesis
  proof (cases "tk_description t = [] \<or> \<not> b")
    case True
    with assms t c ops show ?thesis
      by (auto simp: merge_evidence_def head Let_def split: if_splits intro: untitled parked)
  next
    case False
    with c have c: "conformance_gate_allows_merge (gh_gate gh) (mq_pr mq) t q = (True, q1)" by simp
    show ?thesis
    proof (cases "independent_review_for_head agent_of q1 (mq_pr mq) (gh_approval_head gh) (mq_review mq)")
      case (Inl e)
      with assms t c False show ?thesis
        by (intro refused [OF c]) (auto simp: merge_evidence_def refuse_merge_def head Let_def)
    next
      case (Inr y)
      then obtain agent r where r: "independent_review_for_head agent_of q1 (mq_pr mq) (gh_approval_head gh) (mq_review mq) = Inr (agent, r)"
        by (cases y) auto
      show ?thesis
      proof (cases "test_pass_for_head q1 (mq_review mq) (mq_pr mq) (gh_approval_head gh)")
        case False
        let ?p = "merge_fail clock mq (known_head gh) (Refused ''structured test PASS missing'') q1"
        have "(x, q') = (Inl No_Test_Pass, park_untested clock gh mq t ?p)"
          using assms t c r False \<open>\<not> (tk_description t = [] \<or> \<not> b)\<close> by (simp add: merge_evidence_def head Let_def)
        then show ?thesis by (intro parked [OF _ ops]) (simp_all add: park_untested_def)
      next
        case True
        with assms t c r False show ?thesis
          by (auto simp: merge_evidence_def refuse_merge_def head Let_def split: if_splits intro: refused ready)
      qed
    qed
  qed
qed

lemma conformance_evolves:
  assumes "conformance_gate_allows_merge g pr t q = (True, q')"
  shows "evolves q q' \<and> q_ops q' = q_ops q"
proof -
  have "q_ops (snd (conformance_gate_allows_merge g pr t q)) = q_ops q" by (rule ops_frame_calls)
  moreover have "evolves q q'"
    using assms by (auto simp: conformance_gate_allows_merge_def patch_context_evolves split: option.splits if_splits)
  ultimately show ?thesis using assms by simp
qed

definition parks :: "merge_outcome \<Rightarrow> bool" where
  "parks out \<longleftrightarrow> out = Gate_Blocked \<or> out = No_Test_Pass"

lemma merge_evidence_evolves:
  assumes "merge_evidence clock gh agent_of mq q = (x, q')" and "op_open q (merge_key (mq_pr mq))"
    and "\<forall>out. x = Inl out \<longrightarrow> \<not> parks out"
  shows "evolves q q' \<and> (\<forall>h. x = Inr h \<longrightarrow> op_open q' (merge_key (mq_pr mq)))"
  using assms(1)
proof (cases rule: merge_evidence_cases)
  case unsure
  with merge_fail_evolves [OF assms(2)] owe_merge_evolves evolves_trans show ?thesis by blast
next
  case (refused t q1 reason)
  note c = conformance_evolves [OF refused(1)]
  then have "op_open q1 (merge_key (mq_pr mq))" using assms(2) op_open_frame by blast
  with refused c merge_fail_evolves evolves_trans show ?thesis by blast
next
  case (ready t agent r)
  note c = conformance_evolves [OF ready(4)]
  then have "op_open q' (merge_key (mq_pr mq))" using assms(2) op_open_frame by blast
  with c show ?thesis by blast
qed (use assms in \<open>auto simp: parks_def merge_fail_evolves mark_evolves\<close>)

lemma merge_finish_evolves:
  assumes "merge_finish clock gh mq o1 reviewed q = (out, q')" and "op_open q (merge_key (mq_pr mq))"
  shows "evolves q q'"
  using assms by (auto simp: merge_finish_def Let_def merge_fail_evolves mark_evolves split: if_splits ci_state.splits)

lemma auto_merge_evolves:
  assumes "auto_merge_pr clock ps gh agent_of mq q = (out, q')" and "\<not> parks out"
  shows "evolves q q'"
proof -
  obtain x q1 where e: "merge_entry clock ps gh mq q = (x, q1)" by fastforce
  show ?thesis
  proof (cases x)
    case (Inl y)
    with assms(1) e merge_entry_evolves [OF e] show ?thesis by (simp add: auto_merge_pr_def)
  next
    case (Inr o1)
    have q1: "evolves q q1" "op_open q1 (merge_key (mq_pr mq))" using merge_entry_evolves [OF e] Inr by auto
    obtain y q2 where v: "merge_evidence clock gh agent_of mq q1 = (y, q2)" by fastforce
    show ?thesis
    proof (cases y)
      case (Inl z)
      with assms e Inr v have "\<not> parks z" "q' = q2" by (simp_all add: auto_merge_pr_def)
      with merge_evidence_evolves [OF v q1(2)] Inl evolves_trans [OF q1(1)] show ?thesis by simp
    next
      case y: (Inr h)
      have q2: "evolves q1 q2" "op_open q2 (merge_key (mq_pr mq))" using merge_evidence_evolves [OF v q1(2)] y by auto
      have "merge_finish clock gh mq o1 h q2 = (out, q')"
        using assms(1) e Inr v y by (simp add: auto_merge_pr_def)
      from evolves_trans [OF evolves_trans [OF q1(1) q2(1)] merge_finish_evolves [OF this q2(2)]] show ?thesis .
    qed
  qed
qed

section \<open>Settling a replay\<close>

lemma settle_replay_evolves:
  assumes "settle_replay clock ps q i owner pr d x = Some q'"
  shows "evolves q q'"
proof (cases x)
  case (Merge_Refused_As reason)
  have "evolves p (snd (outbox_mark_applied p i owner))" for p by (rule outbox_applied_evolves [OF surjective_pairing])
  with Merge_Refused_As assms show ?thesis
    by (auto simp: settle_replay_def intro: evolves_trans [OF notice_once_evolves])
next
  case Merge_Done
  obtain r q1 where r: "external_op_reserve clock ps q (merge_key pr) (Some pr) = (r, q1)" by fastforce
  have "evolves p (snd (outbox_mark_applied p i owner))" for p by (rule outbox_applied_evolves [OF surjective_pairing])
  moreover have "evolves p (external_op_mark clock (merge_key pr) Op_Done None False p)" for p by (simp add: mark_evolves)
  ultimately have done_: "evolves p (snd (outbox_mark_applied (external_op_mark clock (merge_key pr) Op_Done None False p) i owner))" for p
    by (blast intro: evolves_trans)
  show ?thesis
    using Merge_Done assms r reserve_evolves [OF r] done_ [of q1]
    by (cases r) (auto simp: settle_replay_def intro: evolves_trans outbox_finish_evolves)
qed (use assms in \<open>auto simp: settle_replay_def dest: outbox_finish_evolves\<close>)

lemma finish_replay_evolves:
  assumes "finish_replay clock q r owner owed pr d ans = Some q'"
  shows "evolves q q'"
proof -
  have applied: "evolves p (snd (outbox_mark_applied p i owner))" for p i
    by (rule outbox_applied_evolves [OF surjective_pairing])
  from assms show ?thesis
    by (auto simp: finish_replay_def Let_def applied split: replay_answer.splits if_splits option.splits
        intro: evolves_trans [OF notice_once_evolves applied] dest: outbox_finish_evolves)
qed

end
