(* ===== verification/Artifacts.thy ===== *)
theory Artifacts
  imports Results Cascade
begin

text \<open>
  The proof of an artifact (\<open>pipeline.py\<close>): a completed task hands in a commit that git shows pushed and
  new, a rebase that carries the dispatched change, a report whose hash is right, or a review with a
  verdict. Git and \<open>gh\<close> are not part of the program: a \<open>checkout\<close> is what each call answers, an exit
  status with its output or an exception. The same call answers the same within one verification.
  The hash and the JSON syntax check of reports are arguments.
\<close>

section \<open>Calls of git\<close>

datatype proc = Raised string | Exited bool string

datatype pr_view = View_Raised string | View_Failed | View json

record checkout =
  g_repo :: string
  g_main_branch :: "string option"
  g_fetch :: "string \<Rightarrow> proc"
  g_resolve :: "string \<Rightarrow> proc"
  g_ancestor :: "string \<Rightarrow> string \<Rightarrow> proc"
  g_merge_base :: "string \<Rightarrow> string \<Rightarrow> proc"
  g_rev_list :: "string \<Rightarrow> string \<Rightarrow> proc"
  g_show_patch :: "string \<Rightarrow> proc"
  g_show_file :: "string \<Rightarrow> string \<Rightarrow> proc"
  g_diff :: "string \<Rightarrow> string \<Rightarrow> proc"
  g_patch_id :: "string \<Rightarrow> proc"
  g_pr_view :: "string \<Rightarrow> pr_view"

text \<open>\<open>git_fetch_origin\<close> answers a timeout with an exit status.\<close>

definition git_fetch_origin :: "checkout \<Rightarrow> string \<Rightarrow> proc" where
  "git_fetch_origin g b =
     (case g_fetch g b of Raised e \<Rightarrow> if e = ''TimeoutExpired'' then Exited False [] else Raised e | p \<Rightarrow> p)"

definition origin :: "string \<Rightarrow> string" where
  "origin b = ''origin/'' @ b"

section \<open>Answers\<close>

datatype artifact_detail = No_Ref_On_Base_Branch string | No_Ref_At_Base string | Detail string

text \<open>
  Is the detail a result that named nothing, which the worker may send again with its references
  (\<open>MISSING_IMPLEMENT_REF_DETAIL\<close>)?
\<close>

definition named_nothing :: "artifact_detail \<Rightarrow> bool" where
  "named_nothing d = (case d of Detail s \<Rightarrow> False | _ \<Rightarrow> True)"

definition show_quoted :: "string \<Rightarrow> string" where
  "show_quoted s = CHR 0x27 # s @ [CHR 0x27]"

definition missing_implement_ref_detail :: string where
  "missing_implement_ref_detail = ''result named no commit, branch or pr_number''"

text \<open>The texts, without the escapes of \<open>repr\<close>; the arrow of a squash is written in ASCII.\<close>

fun detail_text :: "artifact_detail \<Rightarrow> string" where
  "detail_text (No_Ref_On_Base_Branch b) =
     missing_implement_ref_detail @ ''; task branch '' @ show_quoted b @ '' is the dispatch base branch''"
| "detail_text (No_Ref_At_Base b) =
     missing_implement_ref_detail @ ''; task branch '' @ show_quoted b @ '' is still at the dispatch base''"
| "detail_text (Detail s) = s"

text \<open>The answer, its detail, and the commit the result names afterwards.\<close>

type_synonym verified = "bool \<times> artifact_detail \<times> string"

definition unavailable :: "string \<Rightarrow> artifact_detail" where
  "unavailable e = Detail (''artifact verification unavailable: '' @ e)"

definition refused :: "artifact_detail \<Rightarrow> string \<Rightarrow> verified" where
  "refused d c = (False, d, c)"

definition accepted :: "artifact_detail \<Rightarrow> string \<Rightarrow> verified" where
  "accepted d c = (True, d, c)"

definition call :: "string \<Rightarrow> proc \<Rightarrow> (bool \<Rightarrow> string \<Rightarrow> verified) \<Rightarrow> verified" where
  "call c p k =
     (case p of Raised e \<Rightarrow> refused (unavailable e) c | Exited succeeded out \<Rightarrow> k succeeded (py_strip out))"

section \<open>What a worker hands in\<close>

record work_result = task_result +
  tr_branch :: string
  tr_artifact :: "(string \<times> json) list option"

text \<open>\<open>context.get(a) or context.get(b)\<close>\<close>

definition or_key :: "task_context \<Rightarrow> string \<Rightarrow> string \<Rightarrow> json" where
  "or_key ctx a b = (if json_truthy (ctx_key ctx a) then ctx_key ctx a else ctx_key ctx b)"

definition has_key :: "task_context \<Rightarrow> string \<Rightarrow> bool" where
  "has_key ctx k \<longleftrightarrow> k \<in> fst ` set (tc_more ctx)"

definition dispatch_base :: "task_context \<Rightarrow> string" where
  "dispatch_base ctx = key_text (or_key ctx ''worktree_base_sha'' ''reviewed_sha'')"

definition work_branch :: "task_row \<Rightarrow> work_result \<Rightarrow> string" where
  "work_branch t r = py_strip (if tr_branch r \<noteq> [] then tr_branch r else tk_branch t)"

definition names_no_ref :: "work_result \<Rightarrow> bool" where
  "names_no_ref r \<longleftrightarrow> tr_commit r = [] \<and> tr_branch r = [] \<and> (tr_pr_number r = None \<or> tr_pr_number r = Some 0)"

definition base_branch :: "checkout \<Rightarrow> task_context \<Rightarrow> string" where
  "base_branch g ctx =
     (if json_truthy (ctx_key ctx ''base_branch'') then key_text (ctx_key ctx ''base_branch'')
      else case g_main_branch g of None \<Rightarrow> ''main'' | Some b \<Rightarrow> if b = [] then ''main'' else py_strip b)"

definition unnamed_base_branch :: "checkout \<Rightarrow> task_row \<Rightarrow> work_result \<Rightarrow> bool" where
  "unnamed_base_branch g t r \<longleftrightarrow>
     names_no_ref r \<and> \<not> json_truthy (ctx_key (tk_context t) ''crew_run_branch'')
     \<and> work_branch t r = base_branch g (tk_context t)"

section \<open>A commit\<close>

text \<open>The floor a commit must descend from, and the tip of the rebase target.\<close>

definition implement_floor :: "checkout \<Rightarrow> task_context \<Rightarrow> string \<Rightarrow> (string \<Rightarrow> string \<Rightarrow> verified) \<Rightarrow> verified" where
  "implement_floor g ctx c k =
     (let base = dispatch_base ctx; target = key_text (ctx_key ctx ''rebase_onto'')
      in if \<not> has_key ctx ''rebase_onto'' then k base []
         else call c (git_fetch_origin g target) (\<lambda>fetched _.
           if \<not> fetched then refused (Detail (''rebase_onto target '' @ show_quoted target @ '' is unavailable on origin'')) c
           else call c (g_resolve g (origin target)) (\<lambda>resolved tip.
             if \<not> resolved \<or> tip = [] then refused (Detail (''rebase_onto target origin/'' @ target @ '' is not resolvable'')) c
             else if base = [] \<or> base = tip then k tip tip
             else call c (g_ancestor g base tip) (\<lambda>below _. k (if below then base else tip) tip))))"

text \<open>The pull request that pins the commit, when origin does not hold it.\<close>

definition linked_pr :: "task_row \<Rightarrow> work_result \<Rightarrow> string option" where
  "linked_pr t r =
     (case tr_pr_number r of
        Some n \<Rightarrow> if n \<noteq> 0 then Some (show_int n) else None
      | None \<Rightarrow> None)"

definition context_pr :: "task_row \<Rightarrow> string option" where
  "context_pr t =
     (case ctx_key (tk_context t) ''pr_number'' of JNull \<Rightarrow> None | JBool _ \<Rightarrow> None | JStr s \<Rightarrow> Some s
      | v \<Rightarrow> Some (canonical_json v))"

definition not_reachable :: artifact_detail where
  "not_reachable = Detail ''reported commit is not reachable from origin or a linked open PR''"

definition pinned_by_pr :: "checkout \<Rightarrow> task_row \<Rightarrow> work_result \<Rightarrow> string \<Rightarrow> string \<Rightarrow> verified" where
  "pinned_by_pr g t r commit c =
     (case (case linked_pr t r of None \<Rightarrow> context_pr t | p \<Rightarrow> p) of
        None \<Rightarrow> refused not_reachable c
      | Some pr \<Rightarrow>
          (case g_pr_view g pr of
             View_Raised e \<Rightarrow> refused (unavailable e) c
           | View_Failed \<Rightarrow> refused not_reachable c
           | View (JObj kvs) \<Rightarrow>
               if map_of kvs ''state'' = Some (JStr ''OPEN'') \<and> map_of kvs ''headRefOid'' = Some (JStr commit)
               then accepted (Detail (''open PR #'' @ pr @ '' pins reported commit'')) c
               else refused not_reachable c
           | View _ \<Rightarrow> refused (unavailable ''AttributeError'') c))"

definition no_new_commit :: "task_context \<Rightarrow> work_result \<Rightarrow> bool \<Rightarrow> string \<Rightarrow> string \<Rightarrow> artifact_detail" where
  "no_new_commit ctx r derived commit branch =
     (if has_key ctx ''rebase_onto'' then Detail ''reported commit is the rebase_onto target (no new artifact)''
      else if names_no_ref r \<and> derived \<and> commit = dispatch_base ctx then No_Ref_At_Base branch
      else Detail ''reported commit is the dispatch base (no new artifact)'')"

definition implement_proof ::
  "checkout \<Rightarrow> task_row \<Rightarrow> work_result \<Rightarrow> bool \<Rightarrow> bool \<Rightarrow> string \<Rightarrow> string \<Rightarrow> string \<Rightarrow> string \<Rightarrow> verified" where
  "implement_proof g t r fetched derived commit low tip c =
     (let ctx = tk_context t; branch = work_branch t r
      in if commit = low \<or> (has_key ctx ''rebase_onto'' \<and> commit = tip)
         then refused (no_new_commit ctx r derived commit branch) c
         else call c (g_resolve g commit) (\<lambda>local _.
           if \<not> local then refused (Detail ''reported commit is not locally resolvable'') c
           else call c (g_ancestor g low commit) (\<lambda>below _.
             if \<not> below
             then refused (if has_key ctx ''rebase_onto'' then Detail ''reported commit does not descend from the rebase_onto target''
                           else Detail ''reported commit does not descend from the dispatch base'') c
             else if fetched
             then call c (g_ancestor g commit (origin branch)) (\<lambda>reachable _.
               if reachable
               then accepted (Detail (''origin branch contains '' @ (if derived then ''derived'' else ''reported'') @ '' commit'')) c
               else pinned_by_pr g t r commit c)
             else pinned_by_pr g t r commit c)))"

text \<open>The commit: the one reported, or else the head of the branch on origin.\<close>

definition implement_commit :: "checkout \<Rightarrow> task_row \<Rightarrow> work_result \<Rightarrow> string \<Rightarrow> string \<Rightarrow> verified" where
  "implement_commit g t r low tip =
     (let branch = work_branch t r; reported = tr_commit r; commit = py_strip reported; unnamed = unnamed_base_branch g t r
      in call reported (git_fetch_origin g branch) (\<lambda>fetched _.
           if commit \<noteq> [] then implement_proof g t r fetched False commit low tip reported
           else if \<not> fetched
           then refused (if unnamed then No_Ref_On_Base_Branch branch
                         else Detail ''origin branch unavailable for commit derivation'') reported
           else call reported (g_resolve g (origin branch)) (\<lambda>resolved head.
             if \<not> resolved \<or> head = []
             then refused (if unnamed then No_Ref_On_Base_Branch branch
                           else Detail ''origin branch head is not resolvable for commit derivation'') reported
             else if unnamed
             then refused (if head = dispatch_base (tk_context t) then No_Ref_At_Base branch
                           else No_Ref_On_Base_Branch branch) reported
             else implement_proof g t r fetched True head low tip head)))"

text \<open>\<open>verify_implement_artifact\<close>\<close>

definition verify_implement_artifact :: "checkout \<Rightarrow> task_row \<Rightarrow> work_result \<Rightarrow> verified" where
  "verify_implement_artifact g t r =
     (let ctx = tk_context t; reported = tr_commit r
      in if g_repo g = [] then refused (Detail ''artifact repository unavailable'') reported
         else if (dispatch_base ctx = [] \<and> \<not> has_key ctx ''rebase_onto'') \<or> work_branch t r = []
         then refused (Detail ''missing base or branch'') reported
         else if has_key ctx ''rebase_onto'' \<and> key_text (ctx_key ctx ''rebase_onto'') = []
         then refused (Detail ''rebase_onto target is empty or invalid'') reported
         else implement_floor g ctx reported (implement_commit g t r))"

section \<open>A rebase\<close>

definition is_ref_char :: "char \<Rightarrow> bool" where
  "is_ref_char c \<longleftrightarrow> is_alpha c \<or> is_digit c \<or> c \<in> set ''._/-''"

fun has_dots :: "string \<Rightarrow> bool" where
  "has_dots (a # b # s) = ((a = CHR ''.'' \<and> b = CHR ''.'') \<or> has_dots (b # s))"
| "has_dots s = False"

definition safe_ref :: "string \<Rightarrow> bool" where
  "safe_ref s \<longleftrightarrow> s \<noteq> [] \<and> hd s \<noteq> CHR ''-'' \<and> \<not> has_dots s \<and> list_all is_ref_char s"

text \<open>\<open>str.split()\<close>\<close>

function py_words :: "string \<Rightarrow> string list" where
  "py_words s =
     (let u = dropWhile is_space s
      in if u = [] then [] else takeWhile (\<lambda>c. \<not> is_space c) u # py_words (dropWhile (\<lambda>c. \<not> is_space c) u))"
  by pat_completeness auto
termination
proof (relation "measure length", simp)
  fix s u :: string
  assume u: "u = dropWhile is_space s" and "u \<noteq> []"
  then have "\<not> is_space (hd u)" using hd_dropWhile by blast
  with \<open>u \<noteq> []\<close> have "length (dropWhile (\<lambda>c. \<not> is_space c) u) < length u"
    by (cases u) (auto simp: length_dropWhile_le less_Suc_eq_le)
  also have "length u \<le> length s" using u by (simp add: length_dropWhile_le)
  finally show "(dropWhile (\<lambda>c. \<not> is_space c) u, s) \<in> measure length" by simp
qed

declare py_words.simps [simp del]

definition first_word :: "string \<Rightarrow> string option" where
  "first_word s = (case py_words s of [] \<Rightarrow> None | w # _ \<Rightarrow> Some w)"

text \<open>
  The patch ids of a list of commits: an exception, a failed call, or one id for each commit, \<open>None\<close>
  for one without a change.
\<close>

fun ids_of :: "checkout \<Rightarrow> string list \<Rightarrow> string option list \<Rightarrow> string + string option list option" where
  "ids_of g [] ids = Inr (Some ids)"
| "ids_of g (sha # shas) ids =
     (case g_show_patch g sha of
        Raised e \<Rightarrow> Inl e
      | Exited False _ \<Rightarrow> Inr None
      | Exited True diff_text \<Rightarrow>
          (case g_patch_id g diff_text of
             Raised e \<Rightarrow> Inl e
           | Exited False _ \<Rightarrow> Inr None
           | Exited True out \<Rightarrow> ids_of g shas (ids @ [first_word out])))"

definition patch_ids :: "checkout \<Rightarrow> string \<Rightarrow> string \<Rightarrow> string + string option list option" where
  "patch_ids g a b =
     (case g_rev_list g a b of
        Raised e \<Rightarrow> Inl e | Exited False _ \<Rightarrow> Inr None | Exited True out \<Rightarrow> ids_of g (py_words out) [])"

definition diff_patch_id :: "checkout \<Rightarrow> string \<Rightarrow> string \<Rightarrow> string + string option" where
  "diff_patch_id g a b =
     (case g_diff g a b of
        Raised e \<Rightarrow> Inl e
      | Exited succeeded out \<Rightarrow>
          if \<not> succeeded \<or> py_strip out = [] then Inr None
          else (case g_patch_id g out of
                  Raised e \<Rightarrow> Inl e | Exited ided pid \<Rightarrow> Inr (if ided then first_word pid else None)))"

definition known_ids :: "string option list \<Rightarrow> string option list" where
  "known_ids ids = filter (\<lambda>p. p \<noteq> None) ids"

text \<open>Do the submitted commits carry the dispatched change?\<close>

definition same_change ::
  "checkout \<Rightarrow> string \<Rightarrow> string \<Rightarrow> string \<Rightarrow> string \<Rightarrow> string \<Rightarrow> string \<Rightarrow> string \<Rightarrow> verified" where
  "same_change g target branch source fork onto commit c =
     (case patch_ids g fork source of
        Inl e \<Rightarrow> refused (unavailable e) c
      | Inr olds \<Rightarrow>
          (case patch_ids g onto commit of
             Inl e \<Rightarrow> refused (unavailable e) c
           | Inr news \<Rightarrow>
               (case (olds, news) of
                  (Some bs, Some af) \<Rightarrow>
                    if list_all (\<lambda>p. p = None) bs
                    then refused (Detail (''dispatched head has no changes beyond origin/'' @ target @ '' to rebase'')) c
                    else if af = [] \<or> None \<in> set af then refused (Detail ''rebased range is empty or contains an empty commit'') c
                    else if af = known_ids bs
                    then accepted (Detail (''rebased '' @ show_nat (length af) @ '' commit(s) onto origin/'' @ target @ '' (''
                           @ take 12 onto @ ''), patch-equivalent to dispatched '' @ take 12 source
                           @ ''; pushed to origin/'' @ branch)) c
                    else (case diff_patch_id g fork source of
                            Inl e \<Rightarrow> refused (unavailable e) c
                          | Inr whole \<Rightarrow>
                              (case diff_patch_id g onto commit of
                                 Inl e \<Rightarrow> refused (unavailable e) c
                               | Inr whole_after \<Rightarrow>
                                   if whole \<noteq> None \<and> whole = whole_after \<and> length af < length bs
                                   then accepted (Detail (''squashed '' @ show_nat (length bs) @ ''->'' @ show_nat (length af)
                                          @ '' commit(s) onto origin/'' @ target @ ''; same total change as dispatched ''
                                          @ take 12 source)) c
                                   else refused (Detail ''rebased commits are not patch-equivalent to the dispatched change'') c))
                | _ \<Rightarrow> refused (Detail ''patch-ids unavailable; cannot prove the same content'') c)))"

text \<open>The first recorded base that is on the target's history is the floor; else it is the tip.\<close>

fun rebase_floor :: "checkout \<Rightarrow> string list \<Rightarrow> string \<Rightarrow> string \<Rightarrow> (string \<Rightarrow> verified) \<Rightarrow> verified" where
  "rebase_floor g [] tip c k = k tip"
| "rebase_floor g (p # ps) tip c k =
     (if p = [] then rebase_floor g ps tip c k
      else call c (g_ancestor g p tip) (\<lambda>below _. if below then k p else rebase_floor g ps tip c k))"

definition rebase_content ::
  "checkout \<Rightarrow> string \<Rightarrow> string \<Rightarrow> string \<Rightarrow> string \<Rightarrow> string \<Rightarrow> string \<Rightarrow> verified" where
  "rebase_content g target branch source onto commit c =
     (if source = [] then refused (Detail ''rebase contract requires the dispatched head (worktree_base_sha)'') c
      else call c (g_resolve g source) (\<lambda>resolved _.
        if \<not> resolved then refused (Detail ''dispatched head is not resolvable; cannot prove the same content'') c
        else call c (g_merge_base g source onto) (\<lambda>shared fork.
          if \<not> shared \<or> fork = [] then refused (Detail (''dispatched head shares no history with origin/'' @ target)) c
          else same_change g target branch source fork onto commit c)))"

definition rebase_placed ::
  "checkout \<Rightarrow> task_context \<Rightarrow> string \<Rightarrow> string \<Rightarrow> string \<Rightarrow> string \<Rightarrow> string \<Rightarrow> string \<Rightarrow> verified" where
  "rebase_placed g ctx target branch source commit tip c =
     rebase_floor g (map (\<lambda>k. key_text (ctx_key ctx k)) [''rebase_onto_sha'', ''worktree_base_sha'']) tip c (\<lambda>low.
       call c (g_merge_base g commit tip) (\<lambda>shared out.
         let onto = (if shared then out else [])
         in if commit = tip then refused (Detail (''reported commit is the origin/'' @ target @ '' tip (no artifact)'')) c
            else if commit = low \<or> commit = onto then refused (Detail (''reported commit is on origin/'' @ target @ '' (no artifact)'')) c
            else if onto = [] then refused (Detail (''reported commit does not descend from origin/'' @ target)) c
            else call c (g_ancestor g low onto) (\<lambda>below _.
              if \<not> below then refused (Detail (''reported commit does not descend from origin/'' @ target)) c
              else rebase_content g target branch source onto commit c)))"

definition rebase_source :: "task_context \<Rightarrow> string" where
  "rebase_source ctx = key_text (or_key ctx ''rebase_source_sha'' ''worktree_base_sha'')"

definition rebase_submitted ::
  "checkout \<Rightarrow> task_row \<Rightarrow> work_result \<Rightarrow> string \<Rightarrow> string \<Rightarrow> string \<Rightarrow> string \<Rightarrow> string \<Rightarrow> string \<Rightarrow> verified" where
  "rebase_submitted g t r target branch head tip commit c =
     (let source = rebase_source (tk_context t)
      in call c (g_resolve g commit) (\<lambda>resolved _.
        if \<not> resolved then refused (Detail ''reported commit is not resolvable after fetching the pushed branch'') c
        else let placed = (if source \<noteq> [] \<and> commit = source
                           then refused (Detail ''reported commit is the dispatch base (nothing was rewritten)'') c
                           else rebase_placed g (tk_context t) target branch source commit tip c)
             in if commit = head then placed
                else call c (g_ancestor g commit head) (\<lambda>below _.
                  if \<not> below then refused (Detail (''reported commit is not on the pushed branch origin/'' @ branch)) c else placed)))"

text \<open>\<open>verify_rebase_artifact\<close>\<close>

definition verify_rebase_artifact :: "checkout \<Rightarrow> task_row \<Rightarrow> work_result \<Rightarrow> verified" where
  "verify_rebase_artifact g t r =
     (let target = key_text (ctx_key (tk_context t) ''rebase_onto''); branch = work_branch t r;
          c = tr_commit r; commit = py_strip c
      in if g_repo g = [] then refused (Detail ''artifact repository unavailable'') c
         else if target = [] then refused (Detail ''rebase contract requires context.rebase_onto'') c
         else if branch = [] then refused (Detail ''rebase contract requires the rebased branch'') c
         else if \<not> (safe_ref target \<and> safe_ref branch) then refused (Detail ''rebase target or branch is not a plain ref name'') c
         else if branch = target then refused (Detail ''rebased branch is the rebase target'') c
         else call c (g_fetch g target) (\<lambda>fetched _.
           if \<not> fetched then refused (Detail (''rebase target origin/'' @ target @ '' unavailable'')) c
           else call c (g_fetch g branch) (\<lambda>pushed _.
             if \<not> pushed then refused (Detail (''rebased branch origin/'' @ branch @ '' is not pushed'')) c
             else call c (g_resolve g (origin branch)) (\<lambda>head_known head.
               call c (g_resolve g (origin target)) (\<lambda>tip_known tip.
                 if \<not> head_known \<or> \<not> tip_known then refused (Detail ''rebase refs are not resolvable after fetch'') c
                 else if commit = [] then rebase_submitted g t r target branch head tip head head
                 else rebase_submitted g t r target branch head tip commit c)))))"

section \<open>A report\<close>

definition sha256_text :: "string \<Rightarrow> bool" where
  "sha256_text s \<longleftrightarrow> length s = 64 \<and> list_all (\<lambda>c. is_digit c \<or> c \<in> set ''abcdef'') s"

definition json_of :: "(string \<times> json) list \<Rightarrow> string \<Rightarrow> json" where
  "json_of kvs k = (case map_of kvs k of None \<Rightarrow> JNull | Some v \<Rightarrow> v)"

definition is_line_break :: "char \<Rightarrow> bool" where
  "is_line_break c \<longleftrightarrow> c \<in> set [CHR 0x0A, CHR 0x0B, CHR 0x0C, CHR 0x0D, CHR 0x1C, CHR 0x1D, CHR 0x1E]"

text \<open>Does some line of \<open>content.splitlines()\<close> begin, after its blanks, with a sharp?\<close>

fun line_has_sharp :: "bool \<Rightarrow> string \<Rightarrow> bool" where
  "line_has_sharp blank [] = False"
| "line_has_sharp blank (c # s) =
     (if is_line_break c then line_has_sharp True s
      else if blank \<and> c = CHR ''#'' then True
      else line_has_sharp (blank \<and> is_space c) s)"

definition report_format :: "task_context \<Rightarrow> string" where
  "report_format ctx =
     py_lower (let v = ctx_key ctx ''report_format'' in if json_truthy v then key_text v else ''text'')"

definition report_content_refused :: "(string \<Rightarrow> bool) \<Rightarrow> string \<Rightarrow> string \<Rightarrow> artifact_detail option" where
  "report_content_refused parses fmt content =
     (if py_strip content = [] then Some (Detail ''report is empty'')
      else if CHR 0x00 \<in> set content then Some (Detail ''report is not text'')
      else if fmt = ''markdown'' then (if line_has_sharp True content then None else Some (Detail ''markdown report has no heading''))
      else if fmt = ''json'' then (if parses content then None else Some (Detail ''json report does not parse''))
      else if fmt \<noteq> ''text'' then Some (Detail (''unsupported report_format '' @ show_quoted fmt)) else None)"

definition report_checked ::
  "(string \<Rightarrow> string) \<Rightarrow> (string \<Rightarrow> bool) \<Rightarrow> task_context \<Rightarrow> string \<Rightarrow> string \<Rightarrow> string \<Rightarrow> string \<Rightarrow> verified" where
  "report_checked sha256 parses ctx sha content source c =
     (case report_content_refused parses (report_format ctx) content of
        Some d \<Rightarrow> refused d c
      | None \<Rightarrow>
          if sha256 content \<noteq> sha then refused (Detail ''report sha256 does not match its content'') c
          else accepted (Detail (''report '' @ show_nat (length content) @ '' chars sha256='' @ sha @ '' ('' @ source @ '')'')) c)"

definition report_at_path ::
  "(string \<Rightarrow> string) \<Rightarrow> (string \<Rightarrow> bool) \<Rightarrow> checkout \<Rightarrow> task_row \<Rightarrow> work_result \<Rightarrow> string \<Rightarrow> string \<Rightarrow> verified" where
  "report_at_path sha256 parses g t r sha path =
     (let c = tr_commit r; commit = py_strip c; branch = work_branch t r;
          show_it = (case g_show_file g commit path of
             Raised e \<Rightarrow> refused (unavailable e) c
           | Exited False _ \<Rightarrow> refused (Detail (''report path '' @ show_quoted path @ '' is not present at the reported commit'')) c
           | Exited True content \<Rightarrow>
               report_checked sha256 parses (tk_context t) sha content (path @ ''@'' @ take 12 commit) c)
      in if commit = [] then refused (Detail ''report path requires the commit it was written at'') c
         else if startswith path ''/'' \<or> ''..'' \<in> set (py_split CHR ''/'' path) then refused (Detail ''report path must be repository-relative'') c
         else if g_repo g = [] then refused (Detail ''artifact repository unavailable'') c
         else if branch \<noteq> [] \<and> safe_ref branch then call c (g_fetch g branch) (\<lambda>_ _. show_it)
         else show_it)"

text \<open>\<open>verify_report_artifact\<close>\<close>

definition verify_report_artifact ::
  "(string \<Rightarrow> string) \<Rightarrow> (string \<Rightarrow> bool) \<Rightarrow> checkout \<Rightarrow> task_row \<Rightarrow> work_result \<Rightarrow> verified" where
  "verify_report_artifact sha256 parses g t r =
     (case tr_artifact r of
        None \<Rightarrow> refused (Detail ''report contract requires result.artifact {body|path, sha256}'') (tr_commit r)
      | Some artifact \<Rightarrow>
          let sha = py_lower (key_text (json_of artifact ''sha256'')); path = key_text (json_of artifact ''path'')
          in if \<not> sha256_text sha then refused (Detail ''report artifact requires a 64-hex sha256'') (tr_commit r)
             else (case json_of artifact ''body'' of
                    JStr (b # bs) \<Rightarrow> report_checked sha256 parses (tk_context t) sha (b # bs) ''inline body'' (tr_commit r)
                  | _ \<Rightarrow> if path \<noteq> [] then report_at_path sha256 parses g t r sha path
                         else refused (Detail ''report artifact requires a non-empty body or a path'') (tr_commit r)))"

section \<open>A review\<close>

text \<open>\<open>verify_review_artifact\<close>\<close>

definition verify_review_artifact :: "task_row \<Rightarrow> work_result \<Rightarrow> verified" where
  "verify_review_artifact t r =
     (if tr_verdict r \<notin> set final_verdicts then refused (Detail ''review contract requires verdict approve or request_changes'') (tr_commit r)
      else if tr_pr_number r = None
              \<and> ctx_key (tk_context t) ''pr_number'' \<in> set [JNull, JStr [], JBool False, JInt 0]
      then refused (Detail ''review contract requires the reviewed pr_number'') (tr_commit r)
      else if tr_verdict r = Some ''request_changes'' \<and> list_all (\<lambda>f. py_strip f = []) (tr_findings r)
      then refused (Detail ''request_changes review has no findings'') (tr_commit r)
      else accepted (Detail (''review verdict '' @ the (tr_verdict r))) (tr_commit r))"

section \<open>The contract a task declares\<close>

definition declared_artifact_kind :: "task_row option \<Rightarrow> string option" where
  "declared_artifact_kind task =
     (case task of None \<Rightarrow> None
      | Some t \<Rightarrow> if has_key (tk_context t) ''artifact_kind''
                  then Some (py_lower (key_text (ctx_key (tk_context t) ''artifact_kind''))) else None)"

definition artifact_gate_applies :: "task_row option \<Rightarrow> work_result \<Rightarrow> bool" where
  "artifact_gate_applies task r =
     (case task of None \<Rightarrow> False
      | Some t \<Rightarrow>
          tr_status r = Completed
          \<and> (declared_artifact_kind task \<noteq> None
             \<or> tk_type t = ''implement''
                \<and> (json_truthy (ctx_key (tk_context t) ''worktree_base_sha'')
                    \<or> json_truthy (ctx_key (tk_context t) ''reviewed_sha'') \<or> has_key (tk_context t) ''rebase_onto'')))"

definition verify_task_artifact ::
  "(string \<Rightarrow> string) \<Rightarrow> (string \<Rightarrow> bool) \<Rightarrow> checkout \<Rightarrow> task_row \<Rightarrow> work_result \<Rightarrow> verified" where
  "verify_task_artifact sha256 parses g t r =
     (let kind = (case declared_artifact_kind (Some t) of None \<Rightarrow> ''commit'' | Some k \<Rightarrow> k)
      in if kind = ''commit'' then verify_implement_artifact g t r
         else if kind = ''rebase'' then verify_rebase_artifact g t r
         else if kind = ''report'' then verify_report_artifact sha256 parses g t r
         else if kind = ''review'' then verify_review_artifact t r
         else refused (Detail (''unsupported artifact_kind '' @ show_quoted kind
                    @ ''; declare one of commit, rebase, report, review'')) (tr_commit r))"

end
