(* ===== verification/Intake.thy ===== *)
theory Intake
  imports Artifacts Enqueue
begin

text \<open>
  The two doors a result comes in by: \<open>POST /tasks/{id}/result\<close> of \<open>server.py\<close> and \<open>submit_result\<close> of
  \<open>mcp_server.py\<close>, with the verdicts of \<open>loop.py\<close>. Before a result is stored the artifact is proved, a
  completion without one is turned into a failure, and a result about another pull request is held.
  What happens after the answer \<open>Goes_On\<close> is the cascade. Attribution, events, notices, cost recording
  and the capture of results are outside, and no write of them fails the intake.
\<close>

section \<open>Verdicts\<close>

datatype resolved = Approve | Request_Changes | Review_Failed | Invalid_Review_Result

definition suppressed_reason :: string where
  "suppressed_reason = ''tokenomics_canary_suppressed_identical_sha_rereview''"

definition resolve_verdict :: "task_result \<Rightarrow> resolved" where
  "resolve_verdict r =
     (if tr_status r = Blocked_Task \<and> tr_summary r = suppressed_reason then Request_Changes
      else if tr_status r \<noteq> Completed then Review_Failed
      else if tr_verdict r \<notin> set final_verdicts then Invalid_Review_Result
      else if tr_verdict r = Some ''approve'' \<and> tr_findings r \<noteq> [] then Invalid_Review_Result
      else if tr_verdict r = Some ''request_changes'' \<and> tr_findings r = [] then Invalid_Review_Result
      else if tr_verdict r = Some ''approve'' then Approve else Request_Changes)"

datatype test_outcome = Test_Passed | Test_Not_Run | Test_Needs_Human | Test_Failed

definition error_field :: "task_result \<Rightarrow> string \<Rightarrow> json" where
  "error_field r k = (case tr_error_info r of Some (JObj kvs) \<Rightarrow> json_of kvs k | _ \<Rightarrow> JNull)"

definition handle_test_result :: "task_result \<Rightarrow> test_outcome" where
  "handle_test_result r =
     (if tr_status r = Completed then Test_Passed
      else if tr_status r = Needs_Human
      then (if error_field r ''kind'' = JStr ''timeout'' then Test_Not_Run else Test_Needs_Human)
      else if tr_status r = Failed \<and> error_field r ''kind'' = JStr ''test_failure'' then Test_Failed
      else Test_Not_Run)"

section \<open>Pull request numbers\<close>

text \<open>(requested, reported) when both are named and differ.\<close>

definition pr_number_mismatch :: "int option \<Rightarrow> json \<Rightarrow> (int \<times> int) option" where
  "pr_number_mismatch reported requested =
     (case (normalize_pr_number requested,
            normalize_pr_number (case reported of None \<Rightarrow> JNull | Some n \<Rightarrow> JInt n)) of
        (Some a, Some b) \<Rightarrow> if a = b then None else Some (a, b)
      | _ \<Rightarrow> None)"

definition pr_mismatch_marker :: string where
  "pr_mismatch_marker = ''[agent_crew] PR MISMATCH''"

definition mismatch_note :: "int \<Rightarrow> int \<Rightarrow> task_status \<Rightarrow> string" where
  "mismatch_note requested reported st =
     pr_mismatch_marker @ '': this task was dispatched for PR #'' @ show_int requested
       @ '', but the result reports PR #'' @ show_int reported @ ''. The reported status was '' @ [CHR 0x27]
       @ status_text st @ [CHR 0x27] @ ''; held for a human because the two disagree and the ''
       @ ''server cannot tell which PR the findings below are about (#268).''"

definition hold_mismatched_pr_result :: "work_result \<Rightarrow> task_context \<Rightarrow> work_result \<times> (int \<times> int) option" where
  "hold_mismatched_pr_result r ctx =
     (case pr_number_mismatch (tr_pr_number r) (ctx_key ctx ''pr_number'') of
        None \<Rightarrow> (r, None)
      | Some (a, b) \<Rightarrow>
          (r\<lparr>tr_status := Needs_Human,
             tr_summary := py_rstrip (mismatch_note a b (tr_status r) @ [CHR 0x0A, CHR 0x0A] @ tr_summary r)\<rparr>,
           Some (a, b)))"

section \<open>A completion without an artifact\<close>

datatype held = Base_Absent | Unproven artifact_detail

fun held_text :: "held \<Rightarrow> string" where
  "held_text Base_Absent =
     ''dispatch base absent: this implement task declares no artifact contract ''
       @ ''and carries no worktree_base_sha or reviewed_sha, so its completion '' @ ''cannot be verified''"
| "held_text (Unproven d) = detail_text d"

definition no_artifact_result :: "work_result \<Rightarrow> held \<Rightarrow> work_result" where
  "no_artifact_result r h =
     r\<lparr>tr_status := Failed, tr_summary := ''[no_artifact] '' @ held_text h @ ''; worker summary: '' @ tr_summary r,
       tr_error_info := Some (JObj [(''reason'', JStr ''no_artifact''), (''detail'', JStr (held_text h))])\<rparr>"

definition dispatch_base_absent_hold :: "deployment \<Rightarrow> task_row option \<Rightarrow> work_result \<Rightarrow> bool" where
  "dispatch_base_absent_hold dp task r =
     (case task of None \<Rightarrow> False
      | Some t \<Rightarrow>
          tk_type t = ''implement'' \<and> tr_status r = Completed \<and> declared_artifact_kind task = None
          \<and> \<not> json_truthy (ctx_key (tk_context t) ''worktree_base_sha'')
          \<and> \<not> json_truthy (ctx_key (tk_context t) ''reviewed_sha'') \<and> \<not> has_key (tk_context t) ''rebase_onto''
          \<and> enforcing_code (cea_config dp (tk_project t)) None)"

section \<open>The artifact gate\<close>

text \<open>The worktree recorded for the running dispatch, with the branch checked out there.\<close>

record worktree =
  wt_git :: checkout
  wt_branch :: proc

record door =
  dr_sha256 :: "string \<Rightarrow> string"
  dr_parses :: "string \<Rightarrow> bool"
  dr_checkout :: checkout
  dr_worktree :: "worktree option"
  dr_encode :: "work_result \<Rightarrow> string"

definition raw_base :: "task_context \<Rightarrow> string" where
  "raw_base ctx = (case ctx_key ctx ''worktree_base_sha'' of JStr s \<Rightarrow> s | v \<Rightarrow> key_text v)"

type_synonym judged = "work_result \<times> bool \<times> artifact_detail \<times> (string \<times> json) list"

definition judge :: "door \<Rightarrow> checkout \<Rightarrow> task_row \<Rightarrow> work_result \<Rightarrow> (string \<times> json) list \<Rightarrow> judged" where
  "judge d g t r source =
     (case verify_task_artifact (dr_sha256 d) (dr_parses d) g t r of
        (proved, detail, commit) \<Rightarrow> (r\<lparr>tr_commit := commit\<rparr>, proved, detail, if proved then source else []))"

text \<open>A result that named nothing is looked for at the head of the recorded worktree.\<close>

definition worktree_head :: "worktree \<Rightarrow> string \<Rightarrow> (string \<times> string) option" where
  "worktree_head w base =
     (case g_resolve (wt_git w) ''HEAD'' of
        Exited True out \<Rightarrow>
          let head = py_strip out
          in if head = [] \<or> head = base then None
             else (case (g_ancestor (wt_git w) base head, wt_branch w) of
                     (Exited True _, Exited named b) \<Rightarrow> Some (head, if named then py_strip b else [])
                   | _ \<Rightarrow> None)
      | _ \<Rightarrow> None)"

definition infer_artifact :: "door \<Rightarrow> task_row \<Rightarrow> work_result \<Rightarrow> judged \<Rightarrow> judged" where
  "infer_artifact d t r v =
     (case dr_worktree d of None \<Rightarrow> v
      | Some w \<Rightarrow>
          if g_repo (wt_git w) = [] \<or> raw_base (tk_context t) = [] then v
          else (case worktree_head w (raw_base (tk_context t)) of None \<Rightarrow> v
                | Some (head, branch) \<Rightarrow>
                    if \<not> object_id head then v
                    else judge d (wt_git w) t (r\<lparr>tr_commit := head, tr_branch := branch\<rparr>)
                           [(''source'', JStr ''worktree_head''), (''worktree_path'', JStr (g_repo (wt_git w))),
                            (''commit'', JStr head), (''branch'', JStr branch)]))"

definition proof_record :: "task_row \<Rightarrow> artifact_detail \<Rightarrow> (string \<times> json) list \<Rightarrow> (string \<times> json) list" where
  "proof_record t detail source =
     [(''kind'', JStr (case declared_artifact_kind (Some t) of None \<Rightarrow> ''commit'' | Some k \<Rightarrow> k)),
      (''detail'', JStr (detail_text detail))] @ source"

text \<open>The result after the gate, what it was held for, and the record of the proof.\<close>

type_synonym gated = "work_result \<times> held option \<times> (string \<times> json) list"

definition conclude :: "task_row \<Rightarrow> judged \<Rightarrow> gated" where
  "conclude t v =
     (case v of (r, proved, detail, source) \<Rightarrow>
        if proved then (r, None, proof_record t detail source)
        else (no_artifact_result r (Unproven detail), Some (Unproven detail), []))"

definition http_gate :: "deployment \<Rightarrow> door \<Rightarrow> task_row option \<Rightarrow> work_result \<Rightarrow> gated" where
  "http_gate dp d task r =
     (if dispatch_base_absent_hold dp task r then (no_artifact_result r Base_Absent, Some Base_Absent, [])
      else if \<not> artifact_gate_applies task r then (r, None, [])
      else let t = the task; v = judge d (dr_checkout d) t r []
           in conclude t
                (case v of (r1, proved, detail, _) \<Rightarrow>
                   if \<not> proved \<and> named_nothing detail \<and> tk_type t = ''implement'' \<and> tk_status t = In_Progress
                   then infer_artifact d t r1 v else v))"

definition mcp_gate :: "deployment \<Rightarrow> door \<Rightarrow> task_row option \<Rightarrow> work_result \<Rightarrow> gated" where
  "mcp_gate dp d task r =
     (if dispatch_base_absent_hold dp task r then (no_artifact_result r Base_Absent, Some Base_Absent, [])
      else if \<not> artifact_gate_applies task r then (r, None, [])
      else conclude (the task) (judge d (dr_checkout d) (the task) r []))"

section \<open>What is stored\<close>

text \<open>A test that the provider never ran is not a test that failed.\<close>

definition set_field :: "(string \<times> json) list \<Rightarrow> string \<Rightarrow> json \<Rightarrow> (string \<times> json) list" where
  "set_field kvs k v = (if k \<in> fst ` set kvs then map (\<lambda>e. if fst e = k then (k, v) else e) kvs else kvs @ [(k, v)])"

definition not_run_test :: "task_row option \<Rightarrow> work_result \<Rightarrow> work_result" where
  "not_run_test task r =
     (let info = (case tr_error_info r of Some (JObj kvs) \<Rightarrow> kvs | _ \<Rightarrow> []); f = json_of info
      in if (case task of None \<Rightarrow> False | Some t \<Rightarrow> tk_type t = ''test'') \<and> tr_status r = Failed
            \<and> (f ''reason'' \<in> {JStr ''config_error'', JStr ''provider_test_not_run''}
               \<or> f ''provider_status'' = JStr ''ERROR''
                  \<and> f ''provider_num_turns'' \<in> {JInt 0, JBool False, JStr ''0''})
         then r\<lparr>tr_status := Needs_Human,
                tr_error_info := Some (JObj (set_field (set_field (set_field info ''reason'' (JStr ''config_error''))
                     ''final'' (JBool False)) ''not_run'' (JBool True)))\<rparr>
         else r)"

definition verdict_required :: "bool \<Rightarrow> task_row option \<Rightarrow> work_result \<Rightarrow> bool" where
  "verdict_required replaying task r \<longleftrightarrow>
     \<not> replaying
     \<and> (case task of None \<Rightarrow> False
        | Some t \<Rightarrow> tk_type t = ''review'' \<and> tr_status r = Completed
            \<and> tk_status t \<in> {Pending, In_Progress, Failed})
     \<and> resolve_verdict (task_result.truncate r) \<notin> {Approve, Request_Changes}"

definition hold_for :: "task_row option \<Rightarrow> work_result \<Rightarrow> work_result \<times> (int \<times> int) option" where
  "hold_for task r = (case task of None \<Rightarrow> (r, None) | Some t \<Rightarrow> hold_mismatched_pr_result r (tk_context t))"

definition http_prepare ::
  "deployment \<Rightarrow> door \<Rightarrow> bool \<Rightarrow> task_row option \<Rightarrow> work_result \<Rightarrow> gated \<times> (int \<times> int) option" where
  "http_prepare dp d skip task r =
     (case (if skip then (r, None, []) else http_gate dp d task r) of
        (r1, h, proof) \<Rightarrow> (case hold_for task r1 of (r2, mismatch) \<Rightarrow> ((r2, h, proof), mismatch)))"

definition mcp_prepare ::
  "deployment \<Rightarrow> door \<Rightarrow> bool \<Rightarrow> task_row option \<Rightarrow> work_result \<Rightarrow> gated \<times> (int \<times> int) option" where
  "mcp_prepare dp d skip task r =
     (case hold_for task r of
        (r1, mismatch) \<Rightarrow> ((if skip then (r1, None, []) else mcp_gate dp d task r1), mismatch))"

section \<open>The late original\<close>

text \<open>
  A completed result of an implement task that has ended withdraws the one unfinished fallback of that
  task before it is submitted.
\<close>

definition fallback_tasks :: "queue \<Rightarrow> string \<Rightarrow> task_row list" where
  "fallback_tasks q tid =
     filter (\<lambda>u. startswith (py_lower (tk_id u)) ''fallback-'' \<and> tc_original_task_id (tk_context u) = Some tid) (q_tasks q)"

definition withdraw_fallback ::
  "deployment \<Rightarrow> time \<Rightarrow> queue \<Rightarrow> task_row option \<Rightarrow> work_result \<Rightarrow> string option \<times> queue" where
  "withdraw_fallback dp clock q task r =
     (case task of None \<Rightarrow> (None, q)
      | Some t \<Rightarrow>
          if tk_type t = ''implement'' \<and> tk_status t \<in> {Failed, Timed_Out} \<and> tr_status r = Completed
          then (case fallback_tasks q (tk_id t) of
                  [f] \<Rightarrow> if tk_status f \<in> {Pending, In_Progress}
                         then (case cancel dp clock q (tk_id f) ''cancelled_attempt'' None None of
                                 (ended, q1) \<Rightarrow> (if ended then Some (tk_id f) else None, q1))
                         else (None, q)
                | _ \<Rightarrow> (None, q))
          else (None, q))"

section \<open>The doors\<close>

datatype intake_reply =
    Verdict_Required | Submit_Refused submit_error | Pr_Mismatch int int | Suppressed_By_Pause
  | No_Artifact held | Goes_On string work_result

text \<open>\<open>merge_task_context\<close>: \<open>json_patch\<close> of the references of the result.\<close>

definition patch_object :: "json \<Rightarrow> (string \<times> json) list \<Rightarrow> json" where
  "patch_object old new =
     JObj (fold (\<lambda>(k, v) kvs. set_field kvs k v) new (case old of JObj kvs \<Rightarrow> kvs | _ \<Rightarrow> []))"

definition result_refs :: "work_result \<Rightarrow> (string \<times> json) list \<Rightarrow> task_context \<Rightarrow> task_context" where
  "result_refs r proof ctx =
     (let c1 = (if tr_branch r = [] then ctx else set_key ''result_branch'' (JStr (tr_branch r)) ctx);
          c2 = (if tr_commit r = [] then c1 else set_key ''result_commit'' (JStr (tr_commit r)) c1)
      in if proof = [] then c2
         else set_key ''result_artifact'' (patch_object (ctx_key ctx ''result_artifact'') proof) c2)"

definition merge_refs :: "string \<Rightarrow> work_result \<Rightarrow> (string \<times> json) list \<Rightarrow> queue \<Rightarrow> queue" where
  "merge_refs tid r proof = update_task tid (\<lambda>t. t\<lparr>tk_context := result_refs r proof (tk_context t)\<rparr>)"

definition stored :: "door \<Rightarrow> work_result \<Rightarrow> task_result" where
  "stored d r = (task_result.truncate r)\<lparr>tr_json := dr_encode d r\<rparr>"

definition runtime_paused :: "time \<Rightarrow> pauses \<Rightarrow> queue \<Rightarrow> bool \<times> queue" where
  "runtime_paused clock ps q =
     (case get_runtime_state clock ps (q_switch q) of ((_, _, st), sw) \<Rightarrow> (st \<noteq> ACTIVE, q\<lparr>q_switch := sw\<rparr>))"

definition resend_invited :: "held option \<Rightarrow> bool" where
  "resend_invited h = (case h of Some (Unproven d) \<Rightarrow> named_nothing d | _ \<Rightarrow> False)"

definition http_options :: "bool \<Rightarrow> held option \<Rightarrow> string option \<Rightarrow> string option \<Rightarrow> string option \<Rightarrow> submit_options" where
  "http_options replaying h adopted nonce presenter =
     \<lparr>so_nonce = nonce, so_presenter = presenter, so_consume_receipt = \<not> resend_invited h,
      so_expected_status = None, so_dispatcher_failed = False, so_allow_review_replay = replaying,
      so_validate_review = \<not> replaying, so_adopted_fallback = adopted\<rparr>"

definition outbox_suppressed :: "queue \<Rightarrow> string \<Rightarrow> bool" where
  "outbox_suppressed q tid = (case outbox_of q tid of None \<Rightarrow> True | Some o1 \<Rightarrow> ob_state o1 = Owed)"

definition http_reply ::
  "queue \<Rightarrow> string \<Rightarrow> string \<Rightarrow> work_result \<Rightarrow> held option \<Rightarrow> (int \<times> int) option \<Rightarrow> intake_reply" where
  "http_reply q tid ty r h mismatch =
     (case mismatch of Some (a, b) \<Rightarrow> Pr_Mismatch a b
      | None \<Rightarrow> if outbox_suppressed q tid then Suppressed_By_Pause
                else (case h of Some x \<Rightarrow> No_Artifact x | None \<Rightarrow> Goes_On ty r))"

definition http_submit ::
  "deployment \<Rightarrow> time \<Rightarrow> pauses \<Rightarrow> door \<Rightarrow> bool \<Rightarrow> queue \<Rightarrow> string \<Rightarrow> work_result \<Rightarrow> string option \<Rightarrow> string option
     \<Rightarrow> intake_reply \<times> queue" where
  "http_submit dp clock ps d replaying q tid r0 nonce presenter =
     (let task = task_of q tid; r = not_run_test task r0
      in if verdict_required replaying task r then (Verdict_Required, q)
         else case runtime_paused clock ps q of (paused, q1) \<Rightarrow>
           (case http_prepare dp d (paused \<or> replaying) task r of ((r1, h, proof), mismatch) \<Rightarrow>
             (case withdraw_fallback dp clock q1 task r1 of (adopted, q2) \<Rightarrow>
               (case submit_result dp clock ps q2 tid (stored d r1) (http_options replaying h adopted nonce presenter) of
                  (Inl e, q3) \<Rightarrow> (Submit_Refused e, q3)
                | (Inr ty, q3) \<Rightarrow>
                    let q4 = merge_refs tid r1 proof q3 in (http_reply q4 tid ty r1 h mismatch, q4)))))"

definition mcp_options :: "string option \<Rightarrow> string option \<Rightarrow> submit_options" where
  "mcp_options nonce presenter =
     \<lparr>so_nonce = nonce, so_presenter = presenter, so_consume_receipt = True, so_expected_status = None,
      so_dispatcher_failed = False, so_allow_review_replay = False, so_validate_review = True,
      so_adopted_fallback = None\<rparr>"

definition mcp_submit ::
  "deployment \<Rightarrow> time \<Rightarrow> pauses \<Rightarrow> door \<Rightarrow> queue \<Rightarrow> string \<Rightarrow> work_result \<Rightarrow> string option \<Rightarrow> string option
     \<Rightarrow> intake_reply \<times> queue" where
  "mcp_submit dp clock ps d q tid r0 nonce presenter =
     (let task = task_of q tid
      in case runtime_paused clock ps q of (paused, q1) \<Rightarrow>
           (case mcp_prepare dp d paused task r0 of ((r, h, proof), mismatch) \<Rightarrow>
             (case submit_result dp clock ps q1 tid (stored d r) (mcp_options nonce presenter) of
                (Inl e, q2) \<Rightarrow> (Submit_Refused e, q2)
              | (Inr ty, q2) \<Rightarrow>
                  let q3 = merge_refs tid r proof q2
                  in (case mismatch of Some (a, b) \<Rightarrow> Pr_Mismatch a b
                      | None \<Rightarrow> (case h of Some x \<Rightarrow> No_Artifact x | None \<Rightarrow> Goes_On ty r), q3))))"

end
