(* ===== verification/Queue_Run.thy ===== *)
theory Queue_Run
  imports Effect_Safety Intake
begin

text \<open>
  Runs of the task queue: every operation of \<open>Enqueue\<close>, \<open>Tasks\<close>, \<open>Task_Ops\<close>, \<open>Results\<close>,
  \<open>Work_Intents\<close>, \<open>Effects\<close>, \<open>Intake\<close> and \<open>Merge\<close> in any order, interleaved with admissions of the engine on the
  receipt store and with operators who set the stop as they like. Two things are left out: parking a task
  for a human (\<open>mark_needs_human\<close>), which asks for no status, and writing a merge receipt from outside
  the merge procedure. The tables of the queue are instances of \<open>kept_view\<close>; the
  properties are what any run keeps.
\<close>

section \<open>Steps\<close>

text \<open>A note on a row: context keys and the error record, no column the tables keep.\<close>

definition annotate :: "string \<Rightarrow> (task_context \<Rightarrow> task_context) \<Rightarrow> (json option \<Rightarrow> json option) \<Rightarrow> queue \<Rightarrow> queue" where
  "annotate tid f g = update_task tid (\<lambda>t. t\<lparr>tk_context := f (tk_context t), tk_error_info := g (tk_error_info t)\<rparr>)"

inductive queue_step :: "deployment \<Rightarrow> queue \<Rightarrow> queue \<Rightarrow> bool" for dp where
  admits: "enqueue_with_receipt dp clock ps ad q rq r = (a, q') \<Longrightarrow> queue_step dp q q'"
| claims: "dequeue dp clock ps ps2 cr q = (c, q') \<Longrightarrow> queue_step dp q q'"
| discusses: "dequeue_discuss_for_agent dp clock ps ps2 agent via skip q = (c, q') \<Longrightarrow> queue_step dp q q'"
| requeues: "queue_step dp q (requeue dp clock q tid)"
| returns_claim: "requeue_dispatcher_claim dp clock q tid limit = (b, q') \<Longrightarrow> queue_step dp q q'"
| defers_push: "defer_push_delivery dp clock q tid pane reason m backoff = (n, q') \<Longrightarrow> queue_step dp q q'"
| defers_prep: "defer_prep_retry dp clock q tid delay e = (b, q') \<Longrightarrow> queue_step dp q q'"
| defers_capacity: "defer_provider_capacity dp clock q tid delay since tag = (x, q') \<Longrightarrow> queue_step dp q q'"
| resets: "reset_stale_to_pending dp clock q older = (ids, q') \<Longrightarrow> queue_step dp q q'"
| pins: "record_prepared_review_base dp clock main q tid base = (b, q') \<Longrightarrow> queue_step dp q q'"
| dispatches:
    "record_dispatch dp clock fresh q tid channel agent target owner secs = (d, q') \<Longrightarrow> queue_step dp q q'"
| binds_target: "queue_step dp q (bind_dispatch_target q tid target owner)"
| beats: "queue_step dp q (record_heartbeat clock q tid source)"
| starts: "start_execution dp clock q tid nonce presenter = (s, q') \<Longrightarrow> queue_step dp q q'"
| submits: "submit_result dp clock ps q tid res opts = (y, q') \<Longrightarrow> queue_step dp q q'"
| cancels: "cancel dp clock q tid reason expected stale = (b, q') \<Longrightarrow> queue_step dp q q'"
| expires: "expire_stale dp clock q older dry = (ids, q') \<Longrightarrow> queue_step dp q q'"
| fails: "force_fail clock q tid summary err = (z, q') \<Longrightarrow> queue_step dp q q'"
| fails_pending: "force_fail_pending clock q tid summary err = (z, q') \<Longrightarrow> queue_step dp q q'"
| opens_intent: "admit_intent clock ir q = (i, q') \<Longrightarrow> queue_step dp q q'"
| binds_intent: "bind_work_intent clock op tid q = Inr q' \<Longrightarrow> queue_step dp q q'"
| decides_intent: "decide_work_intent clock op st blocker reason author q = Inr q' \<Longrightarrow> queue_step dp q q'"
| watches_intents: "advance_work_intents clock q = (ns, q') \<Longrightarrow> queue_step dp q q'"
| leases_replay: "outbox_claim clock q tid owner attempt ttl = (o1, q') \<Longrightarrow> queue_step dp q q'"
| applies_replay: "outbox_mark_applied q tid owner = (b, q') \<Longrightarrow> queue_step dp q q'"
| finishes_replay: "outbox_finish_claim q tid owner st = Some (b, q') \<Longrightarrow> queue_step dp q q'"
| reopens_replay: "outbox_reopen q tid = (b, q') \<Longrightarrow> queue_step dp q q'"
| owes_merge: "defer_test_merge q tid merge = (b, q') \<Longrightarrow> queue_step dp q q'"
| reserves: "external_op_reserve clock ps q k pr = (rv, q') \<Longrightarrow> queue_step dp q q'"
| marks: "\<not> startswith k ''merge:pr:'' \<Longrightarrow> queue_step dp q (external_op_mark clock k st err inc q)"
| merges: "auto_merge_pr clock ps gh agent_of mq q = (out, q') \<Longrightarrow> \<not> parks out \<Longrightarrow> queue_step dp q q'"
| settles_replay: "settle_replay clock ps q tid owner pr delivered d = Some q' \<Longrightarrow> queue_step dp q q'"
| ends_replay: "finish_replay clock q r owner owed pr delivered ans = Some q' \<Longrightarrow> queue_step dp q q'"
| claims_notice: "claim_coordinator_notice clock q tid kind = (b, q') \<Longrightarrow> queue_step dp q q'"
| finishes_notice: "queue_step dp q (snd (finish_coordinator_notice clock q tid kind delivered))"
| claims_announcement: "claim_pr_announcement clock q ak who token stale = (x, q') \<Longrightarrow> queue_step dp q q'"
| posts_announcement: "mark_pr_announcement_posted clock q ak token = (b, q') \<Longrightarrow> queue_step dp q q'"
| releases_announcement: "release_pr_announcement q ak token = (b, q') \<Longrightarrow> queue_step dp q q'"
| patches: "patch_context q tid extra = Some q' \<Longrightarrow> queue_step dp q q'"
| keeps_refs: "queue_step dp q (merge_refs tid r refs q)"
| annotates: "queue_step dp q (annotate tid f g q)"
| authorizes: "store_step (q_store q) s \<Longrightarrow> queue_step dp q (q\<lparr>q_store := s\<rparr>)"
| operates: "queue_step dp q (q\<lparr>q_switch := w\<rparr>)"

lemma operate_extends: "extends q (q\<lparr>q_switch := w\<rparr>)"
  unfolding extends_def by (rule exI [of _ "[]"], rule exI [of _ w]) (simp add: widened_def unique_tasks_def)

lemma merge_refs_evolves: "evolves q (merge_refs tid r refs q)"
  by (simp add: merge_refs_def row_kept_def context_update_evolves)

lemma annotate_evolves: "evolves q (annotate tid f g q)"
  by (simp add: annotate_def row_kept_def context_update_evolves)

lemma step_extends: "queue_step dp q q' \<Longrightarrow> unique_tasks q \<Longrightarrow> extends q q'"
proof (induction rule: queue_step.induct)
  case (fails clock q tid summary err z q')
  then show ?case by (intro evolves_extends) (auto simp: force_fail_def intro: force_fail_evolves)
next
  case (fails_pending clock q tid summary err z q')
  then show ?case by (intro evolves_extends) (auto simp: force_fail_pending_def intro: force_fail_evolves)
next
  case (marks k q clock st err inc)
  then show ?case by (simp add: evolves_extends mark_evolves)
qed (blast intro: enqueue_extends operate_extends evolves_extends dequeue_evolves discuss_evolves requeue_evolves
    requeue_dispatcher_evolves defer_push_evolves defer_prep_evolves capacity_evolves reset_evolves prepared_base_evolves
    record_dispatch_evolves bind_target_evolves heartbeat_evolves start_evolves submit_evolves cancel_evolves
    expire_evolves admit_intent_evolves bind_intent_evolves decide_intent_evolves advance_intents_evolves
    store_evolves r_into_rtranclp outbox_claim_evolves outbox_applied_evolves outbox_finish_evolves
    outbox_reopen_evolves defer_test_merge_evolves reserve_evolves auto_merge_evolves settle_replay_evolves
    finish_replay_evolves claim_notice_evolves finish_notice_evolves claim_announcement_evolves
    posted_announcement_evolves release_announcement_evolves patch_context_evolves merge_refs_evolves
    annotate_evolves)+

lemma run_extends: "(queue_step dp)\<^sup>*\<^sup>* q q' \<Longrightarrow> unique_tasks q \<Longrightarrow> extends q q'"
proof (induction rule: rtranclp_induct)
  case base
  show ?case by (simp add: evolves_extends)
next
  case (step q1 q2)
  then show ?case using extends_unique extends_trans step_extends by blast
qed

section \<open>The tables\<close>

lemma row_of_kept:
  "list_all2 row_kept xs ys \<Longrightarrow> row_of tk_id i xs = Some t \<Longrightarrow> \<exists>u. row_of tk_id i ys = Some u \<and> row_kept t u"
  by (induction rule: list_all2_induct) (auto simp: row_kept_def split: if_splits)

lemma extends_task:
  assumes "extends q q'" and "task_of q i = Some t"
  shows "\<exists>u. task_of q' i = Some u \<and> row_kept t u"
proof -
  from extendsD(1) [OF assms(1)] obtain rows more where r: "list_all2 row_kept (q_tasks q) rows" "q_tasks q' = rows @ more"
    by blast
  from row_of_kept [OF r(1)] assms(2) obtain u where "row_of tk_id i rows = Some u" "row_kept t u"
    by (auto simp: task_of_def)
  then show ?thesis by (simp add: task_of_def r(2) row_of_append)
qed

interpretation task_table: kept_view task_of row_kept unique_tasks "queue_step dp" for dp
proof unfold_locales
  show "unique_tasks t" if "queue_step dp s t" "unique_tasks s" for s t
    using step_extends [OF that] that(2) by (rule extends_unique)
  show "\<exists>u. task_of t k = Some u \<and> row_kept v u" if "queue_step dp s t" "unique_tasks s" "task_of s k = Some v" for s t k v
    using extends_task [OF step_extends [OF that(1,2)] that(3)] .
  show "row_kept u w" if "row_kept u v" "row_kept v w" for u v w
    using that by (rule row_kept_trans)
qed simp

interpretation intent_table: kept_view intent_of intent_kept unique_tasks "queue_step dp" for dp
proof unfold_locales
  show "unique_tasks t" if "queue_step dp s t" "unique_tasks s" for s t
    using step_extends [OF that] that(2) by (rule extends_unique)
  show "\<exists>u. intent_of t k = Some u \<and> intent_kept v u"
    if "queue_step dp s t" "unique_tasks s" "intent_of s k = Some v" for s t k v
    using extendsD(6) [OF step_extends [OF that(1,2)]] that(3) by (auto simp: intent_of_def table_kept_def)
  show "intent_kept u w" if "intent_kept u v" "intent_kept v w" for u v w
    using that by (rule intent_kept_trans)
qed simp

interpretation outbox_table: kept_view outbox_of replay_kept unique_tasks "queue_step dp" for dp
proof unfold_locales
  show "unique_tasks t" if "queue_step dp s t" "unique_tasks s" for s t
    using step_extends [OF that] that(2) by (rule extends_unique)
  show "\<exists>u. outbox_of t k = Some u \<and> replay_kept v u"
    if "queue_step dp s t" "unique_tasks s" "outbox_of s k = Some v" for s t k v
    using extendsD(5) [OF step_extends [OF that(1,2)]] that(3) by (auto simp: outbox_of_def table_kept_def)
  show "replay_kept u w" if "replay_kept u v" "replay_kept v w" for u v w
    using that by (rule replay_kept_trans)
qed simp

definition event_at :: "queue \<Rightarrow> nat \<Rightarrow> exec_event option" where
  "event_at q i = (if i < length (q_events q) then Some (q_events q ! i) else None)"

interpretation event_table: kept_view event_at "(=)" unique_tasks "queue_step dp" for dp
proof unfold_locales
  show "unique_tasks t" if "queue_step dp s t" "unique_tasks s" for s t
    using step_extends [OF that] that(2) by (rule extends_unique)
  show "\<exists>u. event_at t k = Some u \<and> v = u"
    if "queue_step dp s t" "unique_tasks s" "event_at s k = Some v" for s t k v
    using extendsD(2) [OF step_extends [OF that(1,2)]] that(3)
    by (auto simp: event_at_def grows_def nth_append split: if_splits)
qed simp_all

definition spent_by :: "queue \<Rightarrow> string \<Rightarrow> string option" where
  "spent_by q nonce = map_of (q_spent_grants q) nonce"

interpretation grant_table: kept_view spent_by "(=)" unique_tasks "queue_step dp" for dp
proof unfold_locales
  show "unique_tasks t" if "queue_step dp s t" "unique_tasks s" for s t
    using step_extends [OF that] that(2) by (rule extends_unique)
  show "\<exists>u. spent_by t k = Some u \<and> v = u"
    if "queue_step dp s t" "unique_tasks s" "spent_by s k = Some v" for s t k v
    using extendsD(4) [OF step_extends [OF that(1,2)]] that(3) by (auto simp: spent_by_def grows_def map_add_Some_iff)
qed simp_all

interpretation op_table: kept_view op_of op_kept unique_tasks "queue_step dp" for dp
proof unfold_locales
  show "unique_tasks t" if "queue_step dp s t" "unique_tasks s" for s t
    using step_extends [OF that] that(2) by (rule extends_unique)
  show "\<exists>u. op_of t k = Some u \<and> op_kept v u"
    if "queue_step dp s t" "unique_tasks s" "op_of s k = Some v" for s t k v
    using extendsD(7) [OF step_extends [OF that(1,2)]] that(3) by (auto simp: op_of_def table_kept_def)
  show "op_kept u w" if "op_kept u v" "op_kept v w" for u v w
    using that by (rule op_kept_trans)
qed simp

lemma posted_in_posted: "posted_in (q_announcements q) k = posted q k"
  by (simp add: posted_in_def posted_def announcement_of_def)

interpretation posted_table: kept_view posted "(=)" unique_tasks "queue_step dp" for dp
proof unfold_locales
  show "unique_tasks t" if "queue_step dp s t" "unique_tasks s" for s t
    using step_extends [OF that] that(2) by (rule extends_unique)
  show "\<exists>u. posted t k = Some u \<and> v = u"
    if "queue_step dp s t" "unique_tasks s" "posted s k = Some v" for s t k v
    using extendsD(8) [OF step_extends [OF that(1,2)], unfolded notices_kept_def posted_in_posted] that(3) by blast
qed simp_all

lemma run_store: "(queue_step dp)\<^sup>*\<^sup>* q q' \<Longrightarrow> unique_tasks q \<Longrightarrow> store_step\<^sup>*\<^sup>* (q_store q) (q_store q')"
  by (rule extendsD(3) [OF run_extends])

end
