(* ===== verification/Queue_Safety.thy ===== *)
theory Queue_Safety
  imports Queue_Run Switch_Safety
begin

text \<open>
  What holds of the task queue over any run: cancelled tasks stay cancelled and never start, an attempt
  starts once, a signed grant is used once, a claim is the right one, a late result changes nothing, and
  the store, the outbox and the closed intents keep what they hold.
\<close>

section \<open>A sample queue\<close>

definition sample_rid :: string where
  "sample_rid = ''00000000-0000-0000-0000-000000000001''"

definition blank_context :: task_context where
  "blank_context =
     \<lparr>tc_agent = None, tc_agent_override = None, tc_implementer_agent = None, tc_review_binding = None,
      tc_prev_task_id = None, tc_original_task_id = None, tc_external_operation_id = None, tc_push_not_before = None,
      tc_push_refusal_reason = None, tc_push_refusals = [], tc_capacity_count = 0, tc_capacity_since = None,
      tc_capacity_blocked_at = None, tc_prep_retry_count = 0, tc_prep_retry_error = None, tc_cea_enqueue = None,
      tc_cea_requeue = None, tc_cea_result = None, tc_more = []\<rparr>"

definition sample_task :: "string \<Rightarrow> string \<Rightarrow> task_status \<Rightarrow> task_row" where
  "sample_task tid ty st =
     \<lparr>tk_id = tid, tk_type = ty, tk_description = ''d'', tk_branch = ''b'', tk_priority = 3, tk_context = blank_context,
      tk_status = st, tk_created_at = 5, tk_project = ''crew'', tk_receipt_id = Some sample_rid, tk_pr_number = None,
      tk_summary = None, tk_verdict = None, tk_findings = [], tk_error_info = None, tk_last_activity_at = 6,
      tk_status_changed_at = 0, tk_claim_source = [], tk_exec = no_exec_state\<rparr>"

definition sample_nonces :: store where
  "sample_nonces = (sample_store QUEUED)\<lparr>st_nonces :=
     [\<lparr>nr_nonce = ''n1'', nr_receipt_id = sample_rid, nr_attempt = 1, nr_issued_at = ''i'', nr_used_at = None,
       nr_used_by = None\<rparr>]\<rparr>"

definition sample_queue :: "task_row list \<Rightarrow> queue" where
  "sample_queue ts =
     \<lparr>q_tasks = ts, q_events = [], q_store = sample_nonces, q_switch = sample_switch ACTIVE, q_spent_grants = [],
      q_outbox = [], q_ops = [], q_announcements = [], q_intents = [], q_treatments = []\<rparr>"

text \<open>A deployment in the mode given that enforces no reason code, with a broker's grant for \<open>t1\<close>.\<close>

definition sample_deployment :: "mode \<Rightarrow> deployment" where
  "sample_deployment m =
     \<lparr>dp_config = (\<lambda>_. \<lparr>gc_mode = m, gc_enforce_codes = Some []\<rparr>), dp_engine = sample_engine m [] [],
      dp_state_file = No_State_File, dp_build = (None, None),
      dp_grant = (\<lambda>r. Some \<lparr>dg_task_id = ''t1'', dg_receipt_id = sample_rid, dg_decision = REVIEW,
                    dg_payload_hash = ''p'', dg_build_commit = ''c'', dg_nonce = ''g1'', dg_issued_at = Some 0,
                    dg_expires_at = Some 100\<rparr>),
      dp_broker_signed = (\<lambda>_. True), dp_payload_hash = (\<lambda>_. ''p'')\<rparr>"

lemma sample_unique: "distinct (map tk_id ts) \<Longrightarrow> unique_tasks (sample_queue ts)"
  by (simp add: unique_tasks_def sample_queue_def)

lemma sample_receipt_of:
  "task_of q i = Some t \<Longrightarrow> tk_receipt_id t = Some sample_rid \<Longrightarrow> q_store q = sample_nonces
     \<Longrightarrow> receipt_for_task q i = (Some sample_rid, Some (sample_receipt QUEUED REVIEW))"
  by (simp add: receipt_for_task_def sample_rid_def sample_nonces_def current_receipt_def rows_of_def)

section \<open>A decided task stays decided\<close>

lemma start_refuses_cancelled: "in_status q tid Cancelled \<Longrightarrow> \<not> sa_go (fst (start_execution dp clock q tid nonce presenter))"
  by (simp add: start_execution_def start_reply_def)

lemma claimed_was_pending:
  assumes "dequeue dp clock ps ps2 cr q = (Claimed t, q')"
  shows "t \<in> set (q_tasks q) \<and> claimable clock cr t"
  using assms by (cases rule: dequeue_cases) (auto dest: choose_row_claimable)

text \<open>
  What may happen around a task: any operation of the queue, and the parking of other tasks for a human, which
  asks for no status.
\<close>

inductive worked_around :: "deployment \<Rightarrow> string \<Rightarrow> queue \<Rightarrow> queue \<Rightarrow> bool" for dp tid where
  works: "queue_step dp q q' \<Longrightarrow> worked_around dp tid q q'"
| parks_other: "other \<noteq> tid \<Longrightarrow> worked_around dp tid q (snd (mark_needs_human q other summary extra))"

lemma park_other:
  assumes "other \<noteq> tid"
  shows "task_of (snd (mark_needs_human q other summary extra)) tid = task_of q tid"
    and "unique_tasks q \<Longrightarrow> unique_tasks (snd (mark_needs_human q other summary extra))"
  using assms by (auto simp: mark_needs_human_def update_task_def task_of_def unique_tasks_def row_of_update comp_def
      if_distrib cong: if_cong split: option.split)

lemma worked_around_keeps:
  assumes "(worked_around dp tid)\<^sup>*\<^sup>* q q'" and "unique_tasks q" and "task_of q tid = Some t"
  shows "unique_tasks q' \<and> (\<exists>v. task_of q' tid = Some v \<and> row_kept t v)"
  using assms(1)
proof (induction rule: rtranclp_induct)
  case base
  show ?case using task_table.run_kept [OF rtranclp.rtrancl_refl assms(2,3)] assms(2) by blast
next
  case (step q1 q2)
  then obtain v where v: "unique_tasks q1" "task_of q1 tid = Some v" "row_kept t v" by blast
  from step(2) show ?case
  proof cases
    case works
    then have "(queue_step dp)\<^sup>*\<^sup>* q1 q2" by (rule r_into_rtranclp)
    from task_table.run_kept [OF this v(1,2)] task_table.stays_ok [OF this v(1)] v(3) row_kept_trans show ?thesis by blast
  next
    case (parks_other other summary extra)
    with v park_other show ?thesis by simp
  qed
qed


section \<open>An attempt starts once\<close>

lemma started_spends:
  assumes "start_execution dp clock q tid (Some k) presenter = (a, q1)" and "sa_nonce_spent a"
  shows "\<exists>who s. consume_nonce clock (q_store q) k who None = (True, s) \<and> store_step\<^sup>*\<^sup>* s (q_store q1)"
  using assms(1)
proof (cases rule: start_cases)
  case stays
  with assms(2) show ?thesis by simp
next
  case (answered r rid g spent s)
  with assms(2) have go: "go_proceed g" and c: "\<exists>who. consume_nonce clock (q_store q) k who None = (True, s)"
    by (auto split: if_splits dest: sym)
  have "store_step\<^sup>*\<^sup>* s (q_store q1)"
    using evolvesD(3) [OF move_receipt_evolves [of "q\<lparr>q_store := s\<rparr>"]] by (simp add: answered(9) go)
  with c show ?thesis by blast
qed

text \<open>
  Claim C21: a dispatch nonce is spent once, and under enforcement it starts an execution once: after a start that
  spent it, in whatever state the queue is brought to, no start spends it again, and no task is told to go under
  enforcement with it. Outside of enforcement a start with a spent nonce may still be told to go.
\<close>

theorem attempt_starts_once:
  assumes "unique_tasks q" and "start_execution dp clock q tid (Some k) presenter = (a, q1)" and "sa_nonce_spent a"
    and "(queue_step dp)\<^sup>*\<^sup>* q1 q2"
  shows "\<not> sa_nonce_spent (fst (start_execution dp clock2 q2 tid2 (Some k) presenter2))
    \<and> \<not> (sa_go (fst (start_execution dp clock2 q2 tid2 (Some k) presenter2))
         \<and> sa_enforced (fst (start_execution dp clock2 q2 tid2 (Some k) presenter2)))"
proof -
  obtain who s where c: "consume_nonce clock (q_store q) k who None = (True, s)" "store_step\<^sup>*\<^sup>* s (q_store q1)"
    using started_spends [OF assms(2,3)] by blast
  have "store_step\<^sup>*\<^sup>* (q_store q1) (q_store q2)"
    using run_store [OF assms(4)] evolves_unique [OF start_evolves [OF assms(2)] assms(1)] by blast
  with c(2) have "store_step\<^sup>*\<^sup>* s (q_store q2)" by (rule rtranclp_trans)
  then have spent: "\<not> fst (consume_nonce clock2 (q_store q2) k who2 None)" for who2
    by (rule consumed_stays_refused [OF c(1)])
  have k: "truthy (Some k)"
    using start_cases [OF assms(2)] assms(3) by (cases "truthy (Some k)") (auto split: if_splits)
  obtain b q3 where b: "start_execution dp clock2 q2 tid2 (Some k) presenter2 = (b, q3)" by fastforce
  from b have "\<not> sa_nonce_spent b \<and> \<not> (sa_go b \<and> sa_enforced b)"
  proof (cases rule: start_cases)
    case (answered r rid g sp s')
    have "\<not> sp"
    proof
      assume sp
      with answered(7) have "fst (consume_nonce clock2 (q_store q2) k
          (Some (consumer_tag (Some (case presenter2 of None \<Rightarrow> tid2 | Some p \<Rightarrow> if p = [] then tid2 else p))
             execute_start_consumer)) None)"
        by (auto split: if_splits dest: arg_cong [where f = fst])
      with spent show False by blast
    qed
    with answered(4-6,8) k show ?thesis by auto
  qed auto
  with b show ?thesis by simp
qed

section \<open>Cancelling revokes\<close>

lemma spend_rows_covers:
  "(\<And>m. m \<in> set ns \<Longrightarrow> nr_nonce m = k \<Longrightarrow> p m) \<Longrightarrow>
     \<not> list_ex (\<lambda>n. nr_nonce n = k \<and> nr_used_at n = None) (spend_rows p stamp who ns)"
  by (induction ns) (auto simp: spend_rows_def)

lemma revoked_spent:
  assumes "nonce_row s k = Some n" and "nr_receipt_id n = rid" and "store_ok s"
  shows "nonce_spent (snd (revoke_nonces_for_receipt clock s rid who used)) k"
proof -
  have d: "distinct (map nr_nonce (st_nonces s))" using assms(3) by (simp add: store_ok_def)
  have n: "n \<in> set (st_nonces s)" "nr_nonce n = k" using assms(1) by (auto simp: nonce_row_def dest: row_of_SomeD)
  have "nr_receipt_id m = rid" if "m \<in> set (st_nonces s)" "nr_nonce m = k" for m
    using row_of_distinct [OF d that(1)] assms(1,2) that(2) by (simp add: nonce_row_def)
  then have "\<not> list_ex (\<lambda>n. nr_nonce n = k \<and> nr_used_at n = None)
      (spend_rows (\<lambda>n. nr_receipt_id n = rid) (used_stamp clock used) (Some who) (st_nonces s))"
    by (rule spend_rows_covers)
  moreover have "k \<in> nr_nonce ` set (st_nonces s)" using n by blast
  ultimately show ?thesis by (simp add: nonce_spent_alt revoke_nonces_for_receipt_def)
qed

lemma revoke_attempt_store:
  "truthy (Some rid) \<Longrightarrow>
     store_step\<^sup>*\<^sup>* (snd (revoke_nonces_for_receipt clock (q_store q) rid cancelled_attempt_consumer None))
       (q_store (revoke_attempt dp clock reason (Some rid) q))"
  using evolvesD(3) [OF move_receipt_evolves [of "q\<lparr>q_store := snd (revoke_nonces_for_receipt clock (q_store q) rid
      cancelled_attempt_consumer None)\<rparr>"]]
  by (auto simp: revoke_attempt_def Let_def truthy_def split: option.split)

text \<open>
  A cancel that reports success leaves the task cancelled and logged, and every dispatch nonce
  ever minted for its receipt is dead: in no later state of the queue can it be consumed.
\<close>

theorem cancel_revokes:
  assumes "unique_tasks q" and "store_ok (q_store q)" and "cancel dp clock q tid reason expected stale = (True, q1)"
    and "task_of q tid = Some t" and "tk_receipt_id t = Some rid" and "rid \<noteq> []"
    and "nonce_row (q_store q) k = Some n" and "nr_receipt_id n = rid" and "(queue_step dp)\<^sup>*\<^sup>* q1 q2"
  shows "\<not> fst (consume_nonce clock2 (q_store q2) k who used)
    \<and> (\<exists>u. task_of q2 tid = Some u \<and> tk_status u = Cancelled)
    \<and> \<lparr>xe_task_id = tid, xe_event = ''cancelled'', xe_at = clock, xe_field = Some (status_text (tk_status t))\<rparr>
        \<in> set (q_events q2)"
  using assms(3)
proof (cases rule: cancel_cases)
  case (cancelled t')
  let ?c = "update_task tid (\<lambda>t. t\<lparr>tk_status := Cancelled\<rparr>) q"
  let ?r = "revoke_attempt dp clock reason (Some rid) ?c"
  let ?e = "record_end tid clock ''cancelled'' False (Some (status_text (tk_status t))) ?r"
  have t': "t' = t" using cancelled(2) assms(4) by simp
  then have q1: "q1 = orphan_successors tid ?e" using cancelled(4) assms(5) by simp
  have u1: "unique_tasks q1" using cancel_evolves [OF assms(1,3)] assms(1) by (rule evolves_unique)
  note ext = run_extends [OF assms(9) u1]
  have "store_step\<^sup>*\<^sup>* (snd (revoke_nonces_for_receipt clock (q_store q) rid cancelled_attempt_consumer None)) (q_store q1)"
    using revoke_attempt_store [of rid clock ?c dp reason] assms(6)
    by (simp add: q1 orphan_successors_def record_end_def append_exec_event_def update_task_def truthy_def)
  from rtranclp_trans [OF this extendsD(3) [OF ext]] have "\<not> fst (consume_nonce clock2 (q_store q2) k who used)"
    by (rule spent_stays_refused [OF revoked_spent [OF assms(7,8,2)]])
  moreover have "\<exists>u. task_of q2 tid = Some u \<and> tk_status u = Cancelled"
  proof -
    have c: "task_of ?c tid = Some (t\<lparr>tk_status := Cancelled\<rparr>)"
      using assms(4) row_of_SomeD [of tk_id tid "q_tasks q" t] by (simp add: task_of_def update_task_def row_of_map_upd)
    have "extends ?c q1" unfolding q1
      by (rule evolves_extends [OF evolves_trans [OF evolves_trans [OF revoke_attempt_evolves record_end_evolves] orphan_evolves]])
    from extends_task [OF extends_trans [OF this ext] c] show ?thesis by (auto simp: row_kept_def status_kept_def)
  qed
  moreover have "\<lparr>xe_task_id = tid, xe_event = ''cancelled'', xe_at = clock, xe_field = Some (status_text (tk_status t))\<rparr>
      \<in> set (q_events q1)"
    by (simp add: q1 orphan_successors_def record_end_def append_exec_event_def update_task_def)
  then have "\<lparr>xe_task_id = tid, xe_event = ''cancelled'', xe_at = clock, xe_field = Some (status_text (tk_status t))\<rparr>
      \<in> set (q_events q2)"
    using extendsD(2) [OF ext] by (auto simp: grows_def)
  ultimately show ?thesis by blast
qed simp

section \<open>A claim is the right one\<close>

text \<open>
  The row a claim takes first among its candidates is the earliest of the least by priority and
  time of admission: what precedes it is worse, what follows it is no better.
\<close>

theorem first_row_spec:
  "first_row rs = Some t \<longleftrightarrow>
     (\<exists>pre post. rs = pre @ t # post \<and> list_all (\<lambda>u. \<not> before u t) pre \<and> list_all (before t) post)"
proof -
  have tr: "before a b \<Longrightarrow> before b c \<Longrightarrow> before a c" and total: "before a b \<or> before b a" for a b c
    by (auto simp: before_def)
  have none: "first_row rs = None \<longleftrightarrow> rs = []" for rs by (cases rs) (simp_all split: option.split)
  show ?thesis
  proof (induction rs arbitrary: t)
    case (Cons r rs)
    show ?case
    proof (cases "first_row rs")
      case None
      then have "rs = []" using none by simp
      then show ?thesis by (auto simp: Cons_eq_append_conv)
    next
      case (Some b)
      from Cons.IH [of b] Some obtain pre post where rs: "rs = pre @ b # post"
        and pre: "list_all (\<lambda>u. \<not> before u b) pre" and post: "list_all (before b) post" by auto
      show ?thesis
      proof
        assume first: "first_row (r # rs) = Some t"
        show "\<exists>pre post. r # rs = pre @ t # post \<and> list_all (\<lambda>u. \<not> before u t) pre \<and> list_all (before t) post"
        proof (cases "before r b")
          case True
          with first Some have t: "t = r" by simp
          have "list_all (before r) rs" using True pre post total tr unfolding rs list_all_iff by fastforce
          with t show ?thesis by (intro exI [of _ "[]"] exI [of _ rs]) simp
        next
          case False
          with first Some have t: "t = b" by simp
          show ?thesis by (rule exI [of _ "r # pre"], rule exI [of _ post]) (use False t rs pre post in simp)
        qed
      next
        assume "\<exists>pre post. r # rs = pre @ t # post \<and> list_all (\<lambda>u. \<not> before u t) pre \<and> list_all (before t) post"
        then obtain p o1 where sp: "r # rs = p @ t # o1" "list_all (\<lambda>u. \<not> before u t) p" "list_all (before t) o1" by blast
        show "first_row (r # rs) = Some t"
        proof (cases p)
          case Nil
          then have "t = r" "before r b" using sp rs by (auto simp: list_all_iff)
          with Some show ?thesis by simp
        next
          case (Cons x p')
          with sp have rs': "rs = p' @ t # o1" "x = r" by auto
          then have "\<exists>pre post. rs = pre @ t # post \<and> list_all (\<lambda>u. \<not> before u t) pre \<and> list_all (before t) post"
            using sp(2,3) Cons by auto
          with Cons.IH [of t] Some have "b = t" by auto
          moreover have "\<not> before r t" using sp(2) Cons rs'(2) by simp
          ultimately show ?thesis using Some by simp
        qed
      qed
    qed
  qed simp
qed

lemma stop_open:
  assumes "stop_active clock ps w At_Claim = (False, v)"
  shows "v = w \<and> now_state w = ACTIVE \<and> fst (pausejson_signal ps) = False"
proof -
  obtain st u where r: "reconcile_pause_signal clock ps w = (st, u)" by fastforce
  have "st = ACTIVE" using stop_active_claim [of clock ps w] assms r by simp
  moreover have "v = u" using assms r by (simp add: stop_active_def)
  ultimately show ?thesis using r
    by (auto simp: reconcile_pause_signal_def Let_def split: prod.splits if_splits)
qed

lemma task_of_update:
  "(\<And>t. tk_id (f t) = tk_id t) \<Longrightarrow>
     task_of (update_task i f q) j = (if j = i then map_option f (task_of q j) else task_of q j)"
proof -
  assume "\<And>t. tk_id (f t) = tk_id t"
  then have "row_of tk_id j (map (\<lambda>t. if tk_id t = i then f t else t) ts)
      = (if j = i then map_option f (row_of tk_id j ts) else row_of tk_id j ts)" for ts
    by (induction ts) auto
  then show ?thesis by (simp add: task_of_def update_task_def)
qed

lemma task_of_simps [simp]:
  "task_of (append_exec_event i e clock f q) j = task_of q j"
  "task_of (move_receipt dp clock rid state memo mutate q) j = task_of q j"
  "task_of (report_legacy_row i point clock q) j = task_of q j"
  "task_of (q\<lparr>q_switch := w\<rparr>) j = task_of q j"
  by (simp_all add: task_of_def append_exec_event_def)

definition taken :: "deployment \<Rightarrow> time \<Rightarrow> string \<Rightarrow> string \<Rightarrow> string \<Rightarrow> task_row \<Rightarrow> task_row" where
  "taken dp clock agent role via t =
     t\<lparr>tk_status := In_Progress, tk_last_activity_at := clock, tk_claim_source := via,
       tk_exec := (tk_exec t)\<lparr>xs_claimed_at := Some clock, xs_claimed_by_role := some_text role,
          xs_claimed_by_agent := some_text agent, xs_claimed_via := some_text via, xs_claim_build := dp_build dp\<rparr>\<rparr>"

lemma take_row_tasks:
  "task_of (take_row dp clock i agent role via q) j =
     (if j = i then map_option (taken dp clock agent role via) (task_of q j) else task_of q j)"
  unfolding take_row_def task_of_simps by (subst task_of_update) (auto simp: taken_def [abs_def])

lemma claim_through_gate_takes:
  assumes "claim_through_gate dp clock q i agent role via = ((True, g), q')"
  shows "task_of q' j = (if j = i then map_option (taken dp clock agent role via) (task_of q j) else task_of q j)"
  using assms
proof (cases rule: claim_through_gate_cases)
  case (no_receipt q1 q2)
  with spend_grant_shape [OF no_receipt(3)] have "task_of q2 = task_of q"
    by (auto simp: fun_eq_iff task_of_def)
  then show ?thesis by (simp add: no_receipt(7) take_row_tasks)
next
  case (gated q1 o1)
  with spend_grant_shape [OF gated(3)] have "task_of q1 = task_of q" by (auto simp: fun_eq_iff task_of_def)
  then show ?thesis by (simp add: gated(6) take_row_tasks)
qed simp

lemma before_total: "before a b \<or> before b a"
  by (auto simp: before_def)

lemma before_trans: "before a b \<Longrightarrow> before b c \<Longrightarrow> before a c"
  by (auto simp: before_def)

lemma first_row_before: "first_row rs = Some t \<Longrightarrow> u \<in> set rs \<Longrightarrow> before t u"
proof (induction rs arbitrary: t u)
  case (Cons r rs)
  show ?case
  proof (cases "first_row rs")
    case None
    then have "rs = []" by (cases rs) (simp_all split: option.splits)
    with Cons.prems before_total [of r r] show ?thesis by auto
  next
    case (Some b)
    with Cons show ?thesis using before_total before_trans by (auto split: if_splits)
  qed
qed simp

lemma pick_before: "pick clock cr p q = Some t \<Longrightarrow> u \<in> set (q_tasks q) \<Longrightarrow> claimable clock cr u \<Longrightarrow> p u \<Longrightarrow> before t u"
  unfolding pick_def by (erule first_row_before) simp

text \<open>A row of the same kind: every condition a worker chooses by reads the same on it.\<close>

definition alike :: "task_row \<Rightarrow> task_row \<Rightarrow> bool" where
  "alike u t \<longleftrightarrow> tk_type u = tk_type t \<and> tc_agent_override (tk_context u) = tc_agent_override (tk_context t)
     \<and> tc_review_binding (tk_context u) = tc_review_binding (tk_context t)"

lemma pick_alike:
  assumes "pick clock cr p q = Some t" and "u \<in> set (q_tasks q)" and "claimable clock cr u" and "p t \<Longrightarrow> p u"
  shows "before t u"
  using pick_before [OF assms(1-3)] assms(1,4) pick_claimable by blast

lemma choose_row_before:
  assumes "choose_row dp clock cr q = Inr t" and "u \<in> set (q_tasks q)" and "claimable clock cr u" and "alike u t"
  shows "before t u"
  using assms(1)
  by (auto simp: choose_row_def Let_def override_row_def role_row_def split: if_splits option.splits
      elim!: pick_alike [OF _ assms(2,3)]) (use assms(4) in \<open>auto simp: alike_def\<close>)

text \<open>
  Claim C22: a claim hands out a row that was pending, due, not skipped and not a review of the agent's
  own family's work, only while the runtime is ACTIVE and no pause file is armed; no claimable row of the same
  type, override and binding comes before it by priority and age; the row and no other is then in progress, held
  by that agent under that role.
\<close>

theorem claim_is_right:
  assumes "unique_tasks q" and "dequeue dp clock ps ps2 cr q = (Claimed t, q')"
  shows "task_of q (tk_id t) = Some t \<and> tk_status t = Pending \<and> \<not> own_work (cr_agent cr) t
    \<and> \<not> deferred clock (cr_skip_deferred cr) t \<and> tk_id t \<notin> set (cr_skip_task_ids cr)
    \<and> now_state (q_switch q) = ACTIVE \<and> \<not> fst (pausejson_signal ps) \<and> \<not> fst (pausejson_signal ps2)
    \<and> task_of q' j = (if j = tk_id t then Some (taken dp clock (cr_agent cr) (cr_role cr) (cr_via cr) t)
                     else task_of q j)
    \<and> (\<forall>u\<in>set (q_tasks q). claimable clock cr u \<and> alike u t \<longrightarrow> before t u)"
  using assms(2)
proof (cases rule: dequeue_cases)
  case (claimed w w2 u g)
  then have u: "u = t" by simp
  have first: "\<forall>v\<in>set (q_tasks q). claimable clock cr v \<and> alike v t \<longrightarrow> before t v"
    using choose_row_before [OF claimed(4)] u by simp
  from claimed_was_pending [OF assms(2)] have t: "t \<in> set (q_tasks q)" "claimable clock cr t" by auto
  note here = task_of_unique [OF assms(1) t(1)]
  from stop_open [OF claimed(2)] stop_open [OF claimed(3)] claim_through_gate_takes [OF claimed(5)] here t(2)
  first show ?thesis by (auto simp: claimable_def u)
qed simp

lemma spent_grants_simps:
  "q_spent_grants (take_row dp clock i a r via q) = q_spent_grants q"
  "q_spent_grants (move_receipt dp clock rid st memo f q) = q_spent_grants q"
  "q_spent_grants (report_legacy_row i pt clock q) = q_spent_grants q"
  by (simp_all add: take_row_def append_exec_event_def update_task_def move_receipt_def report_legacy_row_def
      split: sum.split)

lemma claim_spends_only:
  assumes "claim_through_gate dp clock q i agent role via = ((True, g), q')" and "spend_grant dp clock q i = Some p"
  shows "q_spent_grants q' = q_spent_grants p"
  using assms(1) by (cases rule: claim_through_gate_cases) (auto simp: assms(2) spent_grants_simps)

text \<open>
  Under enforcement a claim spends the broker's grant for the row, one that verified against the
  row, the receipt and the clock, and from then on no claim in any later state can use that grant.
\<close>

theorem grant_spent_once:
  assumes "unique_tasks q" and "dequeue dp clock ps ps2 cr q = (Claimed t, q1)"
    and "gc_mode (claim_config dp q (tk_id t)) = ENFORCE" and "(queue_step dp)\<^sup>*\<^sup>* q1 q2"
  shows "\<exists>nonce rid. signed_check dp clock q (tk_id t) (claim_config dp q (tk_id t)) = Some nonce
      \<and> spent_by q nonce = None \<and> spent_by q2 nonce = Some rid
      \<and> (gc_mode (claim_config dp q2 i) = ENFORCE
          \<and> signed_check dp clock2 q2 i (claim_config dp q2 i) = Some nonce
         \<longrightarrow> \<not> fst (fst (claim_through_gate dp clock2 q2 i agent role via)))"
  using assms(2)
proof (cases rule: dequeue_cases)
  case (claimed v v2 u g)
  have sw: "q\<lparr>q_switch := v2\<rparr> = q" using stop_open [OF claimed(2)] stop_open [OF claimed(3)] by simp
  have u: "u = t" using claimed(1) by simp
  from claimed(5) obtain p where sp: "spend_grant dp clock q (tk_id t) = Some p"
    unfolding u sw by (cases rule: claim_through_gate_cases) auto
  note enf = assms(3)
  from sp obtain nonce where n: "signed_check dp clock q (tk_id t) (claim_config dp q (tk_id t)) = Some nonce"
      "nonce \<notin> fst ` set (q_spent_grants q)"
      and p: "p = q\<lparr>q_spent_grants := q_spent_grants q @ [(nonce, the (fst (receipt_for_task q (tk_id t))))]\<rparr>"
    by (auto simp: spend_grant_def Let_def enf split: option.splits if_splits)
  let ?rid = "the (fst (receipt_for_task q (tk_id t)))"
  have none: "spent_by q nonce = None" using n(2) by (simp add: spent_by_def map_of_eq_None_iff)
  then have "spent_by p nonce = Some ?rid" by (simp add: p spent_by_def map_add_def)
  moreover have "q_spent_grants q1 = q_spent_grants p"
    by (rule claim_spends_only [OF claimed(5) [unfolded u sw] sp])
  ultimately have "spent_by q1 nonce = Some ?rid" by (simp add: spent_by_def)
  then have later: "spent_by q2 nonce = Some ?rid"
    using grant_table.run_kept [OF assms(4) evolves_unique [OF dequeue_evolves [OF assms(2,1)] assms(1)]] by blast
  then have "nonce \<in> fst ` set (q_spent_grants q2)" by (force simp: spent_by_def dest: map_of_SomeD)
  then have "spend_grant dp clock2 q2 i = None"
    if "gc_mode (claim_config dp q2 i) = ENFORCE" "signed_check dp clock2 q2 i (claim_config dp q2 i) = Some nonce"
    using that by (simp add: spend_grant_def Let_def)
  then have "\<not> fst (fst (claim_through_gate dp clock2 q2 i agent role via))"
    if "gc_mode (claim_config dp q2 i) = ENFORCE" "signed_check dp clock2 q2 i (claim_config dp q2 i) = Some nonce"
    using that by (simp add: claim_through_gate_def)
  with n(1) none later show ?thesis by blast
qed simp

section \<open>Results\<close>

text \<open>
  Claim C23: a result for a cancelled or timed-out task, or one that would revise a completed task to
  another status, is refused unless it adopts the task's cancelled fallback; all it can leave is one line
  in the event log: the task, its receipt, the outbox and the intents stay as they are.
\<close>

theorem late_result_changes_nothing:
  assumes "task_of q tid = Some t" and "\<not> adopts opts (fallback_of q t)"
    and "tk_status t \<in> {Cancelled, Timed_Out} \<or> (tk_status t = Completed \<and> tr_status r \<noteq> Completed)"
  shows "\<exists>e. fst (submit_result dp clock ps q tid r opts) = Inl e
    \<and> snd (submit_result dp clock ps q tid r opts)
        = (case e of Late_Result st fb \<Rightarrow>
             append_exec_event tid ''late_result'' clock (Some (status_text (tr_status r))) q | _ \<Rightarrow> q)"
proof -
  have late: "late_result q t r opts \<noteq> None" using assms(2,3) by (auto simp: late_result_def Let_def)
  obtain a q' where s: "submit_result dp clock ps q tid r opts = (a, q')" by fastforce
  show ?thesis
  proof (cases "result_wellformed r \<and> tr_task_id r = tid")
    case False
    then show ?thesis by (auto simp: submit_result_def)
  next
    case True
    obtain st fb where l: "late_result q t r opts = Some (st, fb)" using late by auto
    show ?thesis
      using True assms(1) l by (simp add: submit_result_def)
  qed
qed

lemma before_outbox:
  "q_outbox (terminalize_intent i clock q) = q_outbox q" "q_switch (terminalize_intent i clock q) = q_switch q"
  "q_outbox (record_end i clock e p f q) = q_outbox q" "q_switch (record_end i clock e p f q) = q_switch q"
  "q_outbox (write_result clock r q) = q_outbox q" "q_switch (write_result clock r q) = q_switch q"
  by (simp_all add: terminalize_intent_def update_intent_def record_end_def append_exec_event_def update_task_def
      write_result_def split: option.split)

definition owed_row :: "time \<Rightarrow> pauses \<Rightarrow> string \<Rightarrow> string \<Rightarrow> task_result \<Rightarrow> int \<Rightarrow> switch \<Rightarrow> outbox_row" where
  "owed_row clock ps tid ty r epoch sw =
     \<lparr>ob_task_id = tid, ob_task_type = ty, ob_result = tr_json r, ob_stop_epoch = epoch,
      ob_state = (if fst (reconcile_pause_signal clock ps sw) = ACTIVE then Applied else Owed),
      ob_attempt = None, ob_lease_owner = None, ob_lease_expires_at = None, ob_created_at = clock\<rparr>"

text \<open>
  The outbox holds one row per finished task, the first: an accepted result leaves one for its
  task, owed when the runtime is not ACTIVE at the commit and applied otherwise; whatever is submitted or
  done later, what it owes never changes.
\<close>

theorem outbox_row_stands:
  assumes "unique_tasks q" and "submit_result dp clock ps q tid r opts = (Inr ty, q1)" and "(queue_step dp)\<^sup>*\<^sup>* q1 q2"
  shows "\<exists>owed row. outbox_of q1 tid = Some owed \<and> outbox_of q2 tid = Some row \<and> replay_kept owed row
    \<and> owed = (case outbox_of q tid of Some old \<Rightarrow> old
        | None \<Rightarrow> owed_row clock ps tid ty r (now_epoch (q_switch q1)) (q_switch q))"
  using assms(2)
proof (cases rule: submit_cases)
  case (accepted t g)
  have u: "unique_tasks q1" using submit_evolves [OF assms(1,2)] assms(1) by (rule evolves_unique)
  have same: "q_outbox (settle_receipt dp clock opts i g p) = q_outbox p"
      "q_switch (settle_receipt dp clock opts i g p) = q_switch p" for i p
    by (simp_all add: settle_receipt_def move_receipt_def Let_def update_task_def split: option.split sum.split)
  let ?p = "terminalize_intent (tk_id t) clock (record_end (tk_id t) clock
       (if so_dispatcher_failed opts then ''dispatcher_failed'' else ''result'') True
       (Some (status_text (tr_status r))) (write_result clock r q))"
  have p: "q_outbox ?p = q_outbox q" "q_switch ?p = q_switch q"
    by (simp_all only: before_outbox)
  obtain st w where w: "reconcile_pause_signal clock ps (q_switch q) = (st, w)" by fastforce
  let ?row = "owed_row clock ps tid ty r (now_epoch w) (q_switch q)"
  have q1: "q_switch q1 = w" "q_outbox q1 = (if outbox_of q tid \<noteq> None then q_outbox q else q_outbox q @ [?row])"
    using accepted(1,4) by (simp_all add: accepted(8) accept_result_def same fill_outbox_def Let_def p w outbox_of_def
        owed_row_def)
  then have first: "outbox_of q1 tid = Some (case outbox_of q tid of Some old \<Rightarrow> old | None \<Rightarrow> ?row)"
    by (simp add: outbox_of_def row_of_append owed_row_def split: option.split)
  from outbox_table.run_kept [OF assms(3) u first] obtain row where "outbox_of q2 tid = Some row"
    "replay_kept (case outbox_of q tid of Some old \<Rightarrow> old | None \<Rightarrow> ?row) row" by blast
  with first show ?thesis unfolding q1(1) by blast
qed simp_all

section \<open>The store, the log, the intents\<close>

text \<open>
  Claim C26: the task queue refines the receipt store: whatever its operations do, the store moves by its
  own steps only, so it stays well formed, and the log of execution events is append-only.
\<close>

theorem queue_refines_store:
  assumes "unique_tasks q" and "store_ok (q_store q)" and "(queue_step dp)\<^sup>*\<^sup>* q q'"
  shows "store_step\<^sup>*\<^sup>* (q_store q) (q_store q') \<and> store_ok (q_store q') \<and> unique_tasks q'
    \<and> (\<exists>es. q_events q' = q_events q @ es)"
  using run_store [OF assms(3,1)] run_ok [OF run_store [OF assms(3,1)] assms(2)]
    task_table.stays_ok [OF assms(3,1)] extendsD(2) [OF run_extends [OF assms(3,1)]]
  by (simp add: grows_def)

text \<open>
  A closed intent stays closed, in the same state, whatever is bound, decided or submitted
  afterwards, and no task once bound to an intent is ever unbound.
\<close>

theorem closed_intent_stays_closed:
  assumes "unique_tasks q" and "intent_of q op = Some w" and "(queue_step dp)\<^sup>*\<^sup>* q q'"
  shows "\<exists>v. intent_of q' op = Some v \<and> (\<exists>more. wi_task_ids v = wi_task_ids w @ more)
    \<and> (intent_done (wi_state w) \<longrightarrow> wi_state v = wi_state w)"
  using intent_table.run_kept [OF assms(3,1,2)] by (auto simp: intent_kept_def grows_def)

section \<open>Expiry\<close>

lemma task_of_revoke: "task_of (revoke_attempt dp clock reason rid q) j = task_of q j"
  by (simp add: task_of_def)

lemma cancel_leaves_running:
  assumes "unique_tasks q" and "cancel dp clock q i reason expected stale = (b, q')" and "j \<noteq> i"
    and "in_status q' j In_Progress"
  shows "task_of q' j = task_of q j"
  using assms(2)
proof (cases rule: cancel_cases)
  case (cancelled t)
  let ?p = "record_end i clock ''cancelled'' False (Some (status_text (tk_status t)))
        (revoke_attempt dp clock reason (tk_receipt_id t) (update_task i (\<lambda>t. t\<lparr>tk_status := Cancelled\<rparr>) q))"
  have p: "task_of ?p j = task_of q j"
    using assms(3) by (simp add: record_end_def task_of_update task_of_revoke)
  have "row_of tk_id j (map (\<lambda>u. if c u then u\<lparr>tk_status := Orphaned\<rparr> else u) ts)
     = map_option (\<lambda>u. if c u then u\<lparr>tk_status := Orphaned\<rparr> else u) (row_of tk_id j ts)" for c ts
    by (rule row_of_map_upd) simp
  then have "task_of q' j = map_option (\<lambda>u. if tk_status u \<in> {Pending, In_Progress}
      \<and> tc_prev_task_id (tk_context u) = Some i then u\<lparr>tk_status := Orphaned\<rparr> else u) (task_of ?p j)"
    by (simp add: cancelled(4) orphan_successors_def task_of_def)
  with assms(4) p show ?thesis by (cases "task_of q j") (auto simp: in_status_def split: if_splits)
qed simp

lemma cancel_stale_takes:
  assumes "unique_tasks q" and "task_of q i = Some t" and "tk_status t = In_Progress"
    and "\<not> too_fresh t (Some cutoff)"
  shows "\<exists>q'. cancel dp clock q i reason (Some In_Progress) (Some cutoff) = (True, q')"
  using assms by (simp add: cancel_def terminal_task_statuses_def)

lemma stale_iff:
  "unique_tasks q \<Longrightarrow>
     i \<in> set (stale_ids q cutoff) \<longleftrightarrow>
       (\<exists>t. task_of q i = Some t \<and> tk_status t = In_Progress \<and> \<not> too_fresh t (Some cutoff))"
proof -
  assume u: "unique_tasks q"
  have "task_of q i = Some t \<longleftrightarrow> t \<in> set (q_tasks q) \<and> tk_id t = i" for t
    using task_of_unique [OF u, of t] row_of_SomeD [of tk_id i "q_tasks q" t] by (auto simp: task_of_def)
  then show ?thesis by (auto simp: stale_ids_def too_fresh_def not_le)
qed

lemma cancel_ends:
  assumes "unique_tasks q" and "cancel dp clock q i reason expected stale = (True, q')"
  shows "\<exists>t. task_of q' i = Some t \<and> tk_status t \<noteq> In_Progress"
  using assms(2)
proof (cases rule: cancel_cases)
  case (cancelled t)
  let ?c = "update_task i (\<lambda>t. t\<lparr>tk_status := Cancelled\<rparr>) q"
  have c: "task_of ?c i = Some (t\<lparr>tk_status := Cancelled\<rparr>)" using cancelled(2) by (simp add: task_of_update)
  have "extends ?c q'" unfolding cancelled(4)
    by (rule evolves_extends [OF evolves_trans [OF evolves_trans [OF revoke_attempt_evolves record_end_evolves] orphan_evolves]])
  from extends_task [OF this c] show ?thesis by (auto simp: row_kept_def status_kept_def)
qed simp

lemma cancel_stale_clears:
  "unique_tasks q \<Longrightarrow> set (stale_ids q cutoff) \<subseteq> set ids \<Longrightarrow> cancel_stale dp clock cutoff ids q = (done_ids, q')
     \<Longrightarrow> stale_ids q' cutoff = []"
proof (induction ids arbitrary: q done_ids q')
  case (Cons i ids)
  obtain b q1 where c: "cancel dp clock q i ''STALE_LEASE'' (Some In_Progress) (Some cutoff) = (b, q1)" by fastforce
  obtain ds q2 where d: "cancel_stale dp clock cutoff ids q1 = (ds, q2)" by fastforce
  have q': "q' = q2" using Cons.prems(3) c d by simp
  have u1: "unique_tasks q1" using cancel_evolves [OF Cons.prems(1) c] Cons.prems(1) by (rule evolves_unique)
  have "set (stale_ids q1 cutoff) \<subseteq> set ids"
  proof
    fix j assume j: "j \<in> set (stale_ids q1 cutoff)"
    then obtain t where t: "task_of q1 j = Some t" "tk_status t = In_Progress" "\<not> too_fresh t (Some cutoff)"
      using stale_iff [OF u1] by blast
    show "j \<in> set ids"
    proof (cases "j = i")
      case False
      have "in_status q1 j In_Progress" using t by (simp add: in_status_def)
      from cancel_leaves_running [OF Cons.prems(1) c False this] t have "task_of q j = Some t" by simp
      with t stale_iff [OF Cons.prems(1)] Cons.prems(2) False show ?thesis by auto
    next
      case True
      show ?thesis
      proof (cases b)
        case True
        with cancel_ends [OF Cons.prems(1)] c t \<open>j = i\<close> show ?thesis by fastforce
      next
        case kept: False
        with c have "q1 = q" by (auto elim: cancel_cases)
        with t(1) True have "task_of q i = Some t" by simp
        from cancel_stale_takes [OF Cons.prems(1) this t(2,3), of dp clock "''STALE_LEASE''"] c kept
        show ?thesis by simp
      qed
    qed
  qed
  from Cons.IH [OF u1 this d] show ?case by (simp add: q')
qed simp

text \<open>
  Claim C27: expiring the stale leases clears them: afterwards no task is left in progress without a claim
  or a heartbeat since the cutoff, and a dry run names what would go and changes nothing.
\<close>

theorem expiry_clears:
  assumes "unique_tasks q"
  shows "stale_ids (snd (expire_stale dp clock q older False)) (clock - older) = []
    \<and> expire_stale dp clock q older True = (stale_ids q (clock - older), q)"
proof -
  obtain ids q' where c: "cancel_stale dp clock (clock - older) (stale_ids q (clock - older)) q = (ids, q')" by fastforce
  from cancel_stale_clears [OF assms _ c] c show ?thesis by (simp add: expire_stale_def Let_def)
qed

section \<open>Deferrals\<close>

lemma requeue_gate_row:
  assumes "receipt_for_task q tid = (rid, Some rc)" and "requeue_through_gate dp clock q tid path = ((ok, g), q1)"
  shows "q_events q1 = q_events q" and "task_of q tid = Some t \<Longrightarrow> \<exists>ctx. task_of q1 tid = Some (t\<lparr>tk_context := ctx\<rparr>)"
proof -
  have q1: "q1 = q \<or> (\<exists>o1. q1 = update_task tid (\<lambda>t. t\<lparr>tk_context := (tk_context t)\<lparr>tc_cea_requeue := Some o1\<rparr>\<rparr>)
      (requeue_receipt dp clock path o1 q))"
    using assms by (auto simp: requeue_through_gate_def split: option.splits)
  have mv: "q_events (move_receipt dp clock i st memo f p) = q_events p" for i st memo f p
    by (simp add: move_receipt_def split: sum.split)
  have rr: "q_events (requeue_receipt dp clock path o1 q) = q_events q"
      "task_of (requeue_receipt dp clock path o1 q) i = task_of q i" for o1 i
    by (simp_all add: requeue_receipt_def mv split: validation_outcome.split)
  show "q_events q1 = q_events q" using q1 by (auto simp: update_task_def rr)
  assume t: "task_of q tid = Some t"
  have "task_of q1 tid = Some t \<or> (\<exists>o1. task_of q1 tid = Some (t\<lparr>tk_context := (tk_context t)\<lparr>tc_cea_requeue := Some o1\<rparr>\<rparr>))"
    using q1 by (auto simp: task_of_update rr t)
  moreover have "t = t\<lparr>tk_context := tk_context t\<rparr>" by simp
  ultimately show "\<exists>ctx. task_of q1 tid = Some (t\<lparr>tk_context := ctx\<rparr>)" by metis
qed

text \<open>
  A delivery refused by a pane sends the task back only while the pane's count stays under the
  bound, and the next attempt waits the back-off doubled once per earlier refusal. It is the one way back
  that leaves no trace: no execution event is written, lease and claim source stay as they were, and a row
  that already carries an answer of the re-admission gate keeps that answer instead of the new one.
\<close>

theorem push_deferral_bounded:
  assumes "unique_tasks q" and "receipt_for_task q tid = (rid, Some rc)"
    and "defer_push_delivery dp clock q tid pane reason m backoff = (Some n, q')"
  shows "\<exists>t u. task_of q tid = Some t \<and> task_of q' tid = Some u
    \<and> n = (case map_of (tc_push_refusals (tk_context t)) pane of None \<Rightarrow> 1 | Some k \<Rightarrow> k + 1)
    \<and> tk_status u = (if n < m then Pending else In_Progress)
    \<and> tc_push_not_before (tk_context u) = Some (clock + backoff * 2 ^ (n - 1))
    \<and> q_events q' = q_events q \<and> tk_exec u = tk_exec t \<and> tk_claim_source u = tk_claim_source t
    \<and> (tc_cea_requeue (tk_context t) \<noteq> None \<longrightarrow> tc_cea_requeue (tk_context u) = tc_cea_requeue (tk_context t))"
proof -
  obtain t where t: "task_of q tid = Some t" "tk_status t = In_Progress"
    using assms(3) by (auto simp: defer_push_delivery_def split: option.splits if_splits)
  obtain k refusals where r: "count_refusal pane (tc_push_refusals (tk_context t)) = (k, refusals)" by fastforce
  have k: "k = (case map_of (tc_push_refusals (tk_context t)) pane of None \<Rightarrow> 1 | Some k \<Rightarrow> k + 1)"
    using r by (auto simp: count_refusal_def Let_def split: option.splits)
  obtain ok g q1 where g: "requeue_through_gate dp clock q tid ''queue.defer_push_delivery'' = ((ok, g), q1)"
    by (metis prod.collapse)
  note events = requeue_gate_row(1) [OF assms(2) g] and row = requeue_gate_row(2) [OF assms(2) g t(1)]
  from row obtain ctx where ctx: "task_of q1 tid = Some (t\<lparr>tk_context := ctx\<rparr>)" ..
  have id: "tk_id (refused_row clock reason k refusals backoff old st u) = tk_id u" for old st u
    by (simp add: refused_row_def)
  show ?thesis
  proof (cases "m \<le> k")
    case True
    with assms(3) t r have n: "n = k" and q': "q' = update_task tid (refused_row clock reason k refusals backoff (tc_cea_requeue (tk_context t)) In_Progress) q"
      by (auto simp: defer_push_delivery_def Let_def)
    have "task_of q' tid = Some (refused_row clock reason k refusals backoff (tc_cea_requeue (tk_context t)) In_Progress t)"
      by (simp add: q' task_of_update id t(1))
    moreover have "q_events q' = q_events q" by (simp add: q' update_task_def)
    ultimately show ?thesis using t(1) True n k by (auto simp: refused_row_def)
  next
    case False
    have ok: "ok" using assms(3) t r g False by (cases ok) (simp_all add: defer_push_delivery_def Let_def)
    with assms(3) t r g False have n: "n = k"
        and q': "q' = update_task tid (refused_row clock reason k refusals backoff (tc_cea_requeue (tk_context t)) Pending) q1"
      by (auto simp: defer_push_delivery_def Let_def)
    have "task_of q' tid = Some (refused_row clock reason k refusals backoff (tc_cea_requeue (tk_context t)) Pending (t\<lparr>tk_context := ctx\<rparr>))"
      by (simp add: q' task_of_update id ctx)
    moreover have "q_events q' = q_events q" by (simp add: q' update_task_def events)
    ultimately show ?thesis using t(1) False n k by (auto simp: refused_row_def)
  qed
qed

section \<open>The properties at a sample queue\<close>

lemma no_codes_proceed: "gc_enforce_codes cfg = Some [] \<Longrightarrow> go_proceed (gate cfg p v pr)"
  by (simp add: gate_def Let_def enforcing_code_def)

lemma one_step: "queue_step dp q q' \<Longrightarrow> (queue_step dp)\<^sup>*\<^sup>* q q'"
  by (rule r_into_rtranclp)

lemma sample_config [simp]:
  "cea_config (sample_deployment m) p = \<lparr>gc_mode = m, gc_enforce_codes = Some []\<rparr>"
  "cea_config_for_receipt (sample_deployment m) r = \<lparr>gc_mode = m, gc_enforce_codes = Some []\<rparr>"
  by (simp_all add: cea_config_def cea_config_for_receipt_def sample_deployment_def)

lemma sample_gates:
  "go_proceed (start_gate (sample_deployment m) clock q r nonce presenter)"
  "go_proceed (result_gate (sample_deployment m) clock q r opts)"
  by (simp_all add: start_gate_def result_gate_def gate_off_def gate_execute_start_def gate_result_def no_codes_proceed Let_def)

lemma sample_task_simps [simp]:
  "tk_id (sample_task i ty st) = i" "tk_status (sample_task i ty st) = st"
  "tk_receipt_id (sample_task i ty st) = Some sample_rid" "tk_type (sample_task i ty st) = ty"
  "tk_context (sample_task i ty st) = blank_context" "sample_rid \<noteq> []"
  by (simp_all add: sample_task_def sample_rid_def)

lemma sample_queue_simps [simp]:
  "q_store (sample_queue ts) = sample_nonces" "q_tasks (sample_queue ts) = ts"
  "task_of (sample_queue ts) i = row_of tk_id i ts" "q_switch (sample_queue ts) = sample_switch ACTIVE"
  "q_spent_grants (sample_queue ts) = []" "q_outbox (sample_queue ts) = []"
  by (simp_all add: sample_queue_def task_of_def)

lemma sample_nonce_row: "nonce_row sample_nonces ''n1'' =
    Some \<lparr>nr_nonce = ''n1'', nr_receipt_id = sample_rid, nr_attempt = 1, nr_issued_at = ''i'', nr_used_at = None,
       nr_used_by = None\<rparr>"
  by (simp add: nonce_row_def sample_nonces_def)

lemma sample_store_ok: "store_ok sample_nonces"
  by (simp add: store_ok_def row_ok_def sample_receipt_conforms sample_nonces_def)

definition one_task :: "task_status \<Rightarrow> queue" where
  "one_task st = sample_queue [sample_task ''t1'' ''implement'' st]"

lemma one_task_simps [simp]:
  "unique_tasks (one_task st)" "task_of (one_task st) ''t1'' = Some (sample_task ''t1'' ''implement'' st)"
  "q_store (one_task st) = sample_nonces"
  "receipt_for_task (one_task st) ''t1'' = (Some sample_rid, Some (sample_receipt QUEUED REVIEW))"
  using sample_receipt_of [of "one_task st" "''t1''"] by (simp_all add: one_task_def sample_unique)


definition started :: "start_answer \<times> queue" where
  "started = start_execution (sample_deployment ENFORCE) 8 (one_task In_Progress) ''t1'' (Some ''n1'') (Some ''w'')"

lemma started_spent: "sa_nonce_spent (fst started)"
  by (simp add: started_def start_execution_def in_status_def Let_def sample_gates consume_nonce_def sample_nonces_def
      start_reply_def)

theorem attempt_starts_once_witness:
  "\<not> sa_nonce_spent (fst (start_execution (sample_deployment ENFORCE) 9 (snd started) ''t1'' (Some ''n1'') (Some ''v'')))"
  using attempt_starts_once [of "one_task In_Progress" "sample_deployment ENFORCE" 8 "''t1''" "''n1''" "Some ''w''"
      "fst started" "snd started", OF _ _ started_spent rtranclp.rtrancl_refl]
  by (simp add: started_def)

definition cancelled_queue :: queue where
  "cancelled_queue = snd (cancel (sample_deployment ENFORCE) 8 (one_task In_Progress) ''t1'' ''late'' None None)"

theorem cancel_revokes_witness:
  "\<not> fst (consume_nonce 9 (q_store cancelled_queue) ''n1'' None None)"
proof -
  have "cancel (sample_deployment ENFORCE) 8 (one_task In_Progress) ''t1'' ''late'' None None = (True, cancelled_queue)"
    by (simp add: cancelled_queue_def cancel_def too_fresh_def terminal_task_statuses_def)
  from cancel_revokes [OF _ _ this _ _ _ _ _ rtranclp.rtrancl_refl, of _ sample_rid "''n1''"] show ?thesis
    by (simp add: sample_store_ok sample_nonce_row)
qed

definition sample_claim :: claim_request where
  "sample_claim =
     \<lparr>cr_agent = ''worker'', cr_role = ''coder'', cr_via = ''poll'', cr_skip_task_ids = [], cr_skip_deferred = True,
      cr_role_to_agent = None, cr_override_task_type = None, cr_independent_review_only = False\<rparr>"

abbreviation calm :: pauses where
  "calm \<equiv> Some (No_File, No_File)"

lemma calm_open: "stop_active clock calm (sample_switch ACTIVE) p = (False, sample_switch ACTIVE)"
proof -
  have "reconcile_pause_signal clock calm (sample_switch ACTIVE) = (ACTIVE, sample_switch ACTIVE)"
    by (simp add: reconcile_pause_signal_def pausejson_signal_def is_paused_def Let_def)
  then show ?thesis
    by (simp add: stop_active_def gate_runtime_state_def runtime_state_verdict_def)
qed

definition claimed_queue :: queue where
  "claimed_queue = snd (dequeue (sample_deployment ENFORCE) 50 calm calm sample_claim (one_task Pending))"

lemma sample_choice: "choose_row dp 50 sample_claim (one_task Pending) = Inr (sample_task ''t1'' ''implement'' Pending)"
  by (simp add: choose_row_def sample_claim_def bound_type_def role_bound_providers_def override_row_def pick_def
      claimable_def deferred_def own_work_def blank_context_def one_task_def role_row_def role_to_type_def Let_def)

lemma sample_mode: "gc_mode (claim_config (sample_deployment m) q i) = m"
  by (simp add: claim_config_def split: option.split)

lemma sample_signed:
  "signed_check (sample_deployment ENFORCE) 50 (one_task st) ''t1''
     (claim_config (sample_deployment ENFORCE) (one_task st) ''t1'') = Some ''g1''"
proof -
  have "verify_grant (sample_deployment ENFORCE) 50 (sample_receipt QUEUED REVIEW) ''t1'' sample_rid ''p'' (Some []) = Some ''g1''"
    by (simp add: verify_grant_def sample_deployment_def sample_receipt_def sample_rid_def)
  moreover have "gc_enforce_codes (claim_config (sample_deployment ENFORCE) (one_task st) ''t1'') = Some []"
    by (simp add: claim_config_def)
  ultimately show ?thesis by (simp add: signed_check_def) (simp add: sample_deployment_def)
qed

lemma sample_claims:
  "\<exists>g. fst (claim_through_gate (sample_deployment ENFORCE) 50 (one_task st) ''t1'' agent role via) = (True, Some g)"
proof -
  let ?q = "(one_task st)\<lparr>q_spent_grants := [(''g1'', sample_rid)]\<rparr>"
  have "q_spent_grants (one_task st) = []" by (simp add: one_task_def)
  then have s: "spend_grant (sample_deployment ENFORCE) 50 (one_task st) ''t1'' = Some ?q"
    by (simp add: spend_grant_def Let_def sample_mode sample_signed)
  have "receipt_for_task ?q ''t1'' = receipt_for_task (one_task st) ''t1''"
    by (auto simp: receipt_for_task_def task_of_def split: option.split)
  then obtain g where "claim_gate (sample_deployment ENFORCE) 50 ?q ''t1'' agent role = Some g" "go_proceed g"
    by (simp add: claim_gate_def Let_def recording_def gate_claim_def no_codes_proceed)
  with s show ?thesis by (simp add: claim_through_gate_def)
qed

lemma sample_claimed:
  "dequeue (sample_deployment ENFORCE) 50 calm calm sample_claim (one_task Pending)
     = (Claimed (sample_task ''t1'' ''implement'' Pending), claimed_queue)"
proof -
  have w: "q_switch (one_task Pending) = sample_switch ACTIVE" "(one_task Pending)\<lparr>q_switch := sample_switch ACTIVE\<rparr> = one_task Pending"
    by (simp_all add: one_task_def sample_queue_def)
  obtain g q' where "claim_through_gate (sample_deployment ENFORCE) 50 (one_task Pending) ''t1'' (cr_agent sample_claim)
      (cr_role sample_claim) (cr_via sample_claim) = ((True, Some g), q')"
    using sample_claims by (metis prod.collapse)
  then have "dequeue (sample_deployment ENFORCE) 50 calm calm sample_claim (one_task Pending)
     = (Claimed (sample_task ''t1'' ''implement'' Pending), q')"
    by (simp add: dequeue_def w calm_open sample_choice)
  then show ?thesis by (simp add: claimed_queue_def)
qed

theorem claim_is_right_witness:
  "now_state (q_switch (one_task Pending)) = ACTIVE
   \<and> task_of claimed_queue ''t1''
     = Some (taken (sample_deployment ENFORCE) 50 ''worker'' ''coder'' ''poll'' (sample_task ''t1'' ''implement'' Pending))"
  using claim_is_right [OF _ sample_claimed, of "''t1''"] by (simp add: sample_claim_def)

theorem grant_spent_once_witness:
  "\<exists>rid. spent_by claimed_queue ''g1'' = Some rid"
  using grant_spent_once [OF _ sample_claimed _ rtranclp.rtrancl_refl] sample_signed [of Pending]
  by (auto simp: sample_mode)

definition sample_result :: "task_status \<Rightarrow> task_result" where
  "sample_result st =
     \<lparr>tr_task_id = ''t1'', tr_status = st, tr_summary = ''s'', tr_verdict = None, tr_findings = [], tr_pr_number = None,
      tr_commit = [], tr_error_info = None, tr_json = ''j''\<rparr>"

definition plain_options :: submit_options where
  "plain_options =
     \<lparr>so_nonce = None, so_presenter = None, so_consume_receipt = True, so_expected_status = None,
      so_dispatcher_failed = False, so_allow_review_replay = False, so_validate_review = False,
      so_adopted_fallback = None\<rparr>"

theorem late_result_changes_nothing_witness:
  "q_outbox (snd (submit_result (sample_deployment ENFORCE) 9 calm (one_task Cancelled) ''t1'' (sample_result Completed) plain_options))
     = q_outbox (one_task Cancelled)"
proof -
  have "\<not> adopts plain_options fb" for fb by (simp add: adopts_def plain_options_def split: option.split)
  then obtain e where "snd (submit_result (sample_deployment ENFORCE) 9 calm (one_task Cancelled) ''t1'' (sample_result Completed) plain_options)
     = (case e of Late_Result st fb \<Rightarrow>
          append_exec_event ''t1'' ''late_result'' 9 (Some (status_text (tr_status (sample_result Completed)))) (one_task Cancelled)
        | _ \<Rightarrow> one_task Cancelled)"
    using late_result_changes_nothing [of "one_task Cancelled" "''t1''" _ plain_options "sample_result Completed"
        "sample_deployment ENFORCE" 9 calm] by auto
  then show ?thesis by (simp add: append_exec_event_def split: submit_error.split)
qed

definition answered_queue :: queue where
  "answered_queue = snd (submit_result (sample_deployment ENFORCE) 9 calm (one_task In_Progress) ''t1'' (sample_result Completed) plain_options)"

lemma sample_submitted:
  "submit_result (sample_deployment ENFORCE) 9 calm (one_task In_Progress) ''t1'' (sample_result Completed) plain_options
     = (Inr ''implement'', answered_queue)"
proof -
  have w: "result_wellformed (sample_result Completed)" "tr_task_id (sample_result Completed) = ''t1''"
    by (simp_all add: result_wellformed_def sample_result_def valid_result_statuses_def py_strip_def py_lstrip_def py_rstrip_def)
  have l: "late_result (one_task In_Progress) (sample_task ''t1'' ''implement'' In_Progress) (sample_result Completed) plain_options = None"
    by (simp add: late_result_def fallback_of_def)
  have "refused_gate (map_option (\<lambda>rc. result_gate (sample_deployment ENFORCE) 9 (one_task In_Progress) rc plain_options)
      (snd (receipt_for_task (one_task In_Progress) ''t1''))) = None"
    by (simp add: refused_gate_def sample_gates)
  with w l show ?thesis
    unfolding answered_queue_def
    by (simp add: submit_result_def Let_def blank_context_def plain_options_def)
qed

theorem outbox_row_stands_witness: "map_option ob_state (outbox_of answered_queue ''t1'') = Some Applied"
proof -
  have "fst (reconcile_pause_signal 9 calm (sample_switch ACTIVE)) = ACTIVE"
    by (simp add: reconcile_pause_signal_def pausejson_signal_def is_paused_def Let_def)
  moreover have "outbox_of (one_task In_Progress) ''t1'' = None" "q_switch (one_task In_Progress) = sample_switch ACTIVE"
    by (simp_all add: outbox_of_def one_task_def)
  ultimately show ?thesis
    using outbox_row_stands [OF one_task_simps(1) sample_submitted rtranclp.rtrancl_refl] by (auto simp: owed_row_def)
qed

theorem queue_refines_store_witness: "store_ok (q_store claimed_queue)"
  using queue_refines_store [OF _ _ one_step [OF queue_step.claims [OF sample_claimed]]]
  by (simp add: sample_store_ok)

definition sample_request :: intent_request where
  "sample_request =
     \<lparr>ir_id = ''op1'', ir_project = ''crew'', ir_repo = ''o/r'', ir_issue = Some 7, ir_target = None, ir_coordinator = ''lead'',
      ir_priority = 2, ir_risk_tier = 1, ir_slo = 60\<rparr>"

definition sample_intents :: "work_intent \<Rightarrow> queue" where
  "sample_intents w = (one_task Pending)\<lparr>q_intents := [w]\<rparr>"

definition rejected_intent :: work_intent where
  "rejected_intent = decided 6 Rejected None ''no'' ''owner'' (new_intent 5 sample_request None False)"

theorem closed_intent_stays_closed_witness:
  "intent_state (snd (advance_work_intents 99 (sample_intents rejected_intent))) ''op1'' = Some Rejected"
proof -
  have i: "intent_of (sample_intents rejected_intent) ''op1'' = Some rejected_intent" "intent_done (wi_state rejected_intent)"
      "wi_state rejected_intent = Rejected" "unique_tasks (sample_intents rejected_intent)"
    by (simp_all add: intent_of_def sample_intents_def rejected_intent_def decided_def new_intent_def sample_request_def
        intent_done_def unique_tasks_def one_task_def)
  from closed_intent_stays_closed [OF i(4,1) one_step [OF queue_step.watches_intents [OF surjective_pairing]], of 99] i(2,3)
  show ?thesis by (auto simp: intent_state_def)
qed

theorem expiry_clears_witness:
  "stale_ids (snd (expire_stale (sample_deployment ENFORCE) 50 (one_task In_Progress) 10 False)) 40 = []"
  using expiry_clears [of "one_task In_Progress" "sample_deployment ENFORCE" 50 10] by simp

definition deferred_queue :: queue where
  "deferred_queue = snd (defer_push_delivery (sample_deployment ENFORCE) 50 (one_task In_Progress) ''t1'' ''pane'' ''busy'' 3 30)"

lemma registered_requeue: "path \<in> set requeue_call_sites \<Longrightarrow> \<exists>g. gate_requeue cfg (Some r) path cur = Some g"
  by (simp add: gate_requeue_def Let_def split: option.split)

lemma sample_requeue:
  "\<exists>g q1. requeue_through_gate (sample_deployment m) 50 (one_task st) ''t1'' ''queue.defer_push_delivery'' = ((True, g), q1)"
proof -
  have "''queue.defer_push_delivery'' \<in> set requeue_call_sites" by (simp add: requeue_call_sites_def)
  from registered_requeue [OF this] obtain g where "gate_requeue (cea_config_for_receipt (sample_deployment m)
      (Some (sample_receipt QUEUED REVIEW))) (Some (sample_receipt QUEUED REVIEW)) ''queue.defer_push_delivery''
      (engine_current_inputs (dp_engine (sample_deployment m)) (sample_receipt QUEUED REVIEW) default_inputs) = Some g" by blast
  then show ?thesis unfolding requeue_through_gate_def one_task_simps(4) prod.case option.case by simp
qed

theorem push_deferral_bounded_witness:
  "\<exists>u. task_of deferred_queue ''t1'' = Some u \<and> tk_status u = Pending \<and> q_events deferred_queue = []"
proof -
  obtain g q1 where r: "requeue_through_gate (sample_deployment ENFORCE) 50 (one_task In_Progress) ''t1''
      ''queue.defer_push_delivery'' = ((True, g), q1)" using sample_requeue by blast
  have c: "count_refusal ''pane'' (tc_push_refusals blank_context) = (1, [(''pane'', 1)])"
    by (simp add: count_refusal_def blank_context_def)
  have "defer_push_delivery (sample_deployment ENFORCE) 50 (one_task In_Progress) ''t1'' ''pane'' ''busy'' 3 30
      = (Some 1, update_task ''t1'' (refused_row 50 ''busy'' 1 [(''pane'', 1)] 30 (tc_cea_requeue blank_context) Pending) q1)"
    by (simp add: defer_push_delivery_def r c Let_def)
  then have d: "defer_push_delivery (sample_deployment ENFORCE) 50 (one_task In_Progress) ''t1'' ''pane'' ''busy'' 3 30
      = (Some 1, deferred_queue)" by (simp add: deferred_queue_def)
  have "q_events (one_task In_Progress) = []" by (simp add: one_task_def sample_queue_def)
  with push_deferral_bounded [OF one_task_simps(1) one_task_simps(4) d] show ?thesis by auto
qed

end
