(* ===== verification/Enqueue_Safety.thy ===== *)
theory Enqueue_Safety
  imports Queue_Safety
begin

text \<open>
  Admission into the queue: what each answer of \<open>enqueue_with_receipt\<close> leaves behind, and that no review is
  admitted next to another that already stands for its target.
\<close>

section \<open>What an admission leaves\<close>

lemma new_row_simps [simp]:
  "tk_id (new_row clock rq ctx r conflict) = rq_id rq" "tk_context (new_row clock rq ctx r conflict) = ctx"
  "tk_status (new_row clock rq ctx r conflict) = (if conflict then Needs_Human else Pending)"
  "tk_receipt_id (new_row clock rq ctx r conflict) = Some (rc_receipt_id r)"
  by (simp_all add: new_row_def)

lemma bind_new_tasks: "bind_new_task clock ad rq ctx conflict q = Inr q' \<Longrightarrow> q_tasks q' = q_tasks q"
  by (auto simp: bind_new_task_def insert_intent_def bind_on_def update_intent_def split: option.splits if_splits)

lemma admission_log_tasks: "q_tasks (admission_log clock ad rq dup expired q) = q_tasks q"
proof -
  have f: "q_tasks (fold (\<lambda>e. append_exec_event (g e) ev clock (h e)) es p) = q_tasks p" for g ev h es p
    by (induction es arbitrary: p) (simp_all add: append_exec_event_def)
  have e: "q_tasks (event_if c i ev clock fl p) = q_tasks p" for c i ev fl p
    by (simp add: event_if_def append_exec_event_def)
  show ?thesis by (simp add: admission_log_def Let_def f e)
qed

lemma insert_row_tasks:
  assumes "insert_row dp clock ad rq r g ctx q = (Inr i, q')"
  shows "task_of q (rq_id rq) = None \<and> q_tasks q' = q_tasks q @ [new_row clock rq ctx r (owner_conflict g r)]"
  using assms
  by (auto simp: insert_row_def event_if_def append_exec_event_def dest: bind_new_tasks split: option.splits sum.splits)

lemma admitted_contract: "stored_contract (admitted_context ad rq r g c) = c\<lparr>cc_source := ''admission''\<rparr>"
proof -
  obtain kvs where kvs: "as_record c = JObj kvs" by (simp add: as_record_def)
  have "ctx_key (admitted_context ad rq r g c) contract_key = JObj kvs"
    by (simp add: admitted_context_def Let_def ctx_key_set_key kvs contract_key_def)
  with from_as_record [OF kvs] show ?thesis by (simp add: stored_contract_def)
qed

text \<open>
  An admission that succeeds adds exactly one row, under a fresh identifier, pending or parked for
  its owner, with the receipt that admitted it and the contract decided for it, and it succeeds only
  past the gate, or parked by it, while the runtime lets work enter; a refused duplicate changes no
  status, and every other failure leaves the queue as it was.
\<close>

theorem enqueue_outcomes:
  assumes "enqueue_with_receipt dp clock ps ad q rq r = (a, q')"
  shows "case a of
      Inr i \<Rightarrow> i = rq_id rq \<and> task_of q i = None
        \<and> (go_proceed (enqueue_gate dp clock ad rq r) \<or> owner_conflict (enqueue_gate dp clock ad rq r) r)
        \<and> \<not> fst (stop_active clock ps (q_switch q) At_Enqueue)
        \<and> (\<exists>t c. q_tasks q' = q_tasks q @ [t] \<and> tk_id t = i \<and> tk_receipt_id t = Some (rc_receipt_id r)
             \<and> tk_status t = (if owner_conflict (enqueue_gate dp clock ad rq r) r then Needs_Human else Pending)
             \<and> decide_contract (ad_enforced_tier ad) (rq_description rq) (rq_context rq) (Some r) = Some c
             \<and> stored_contract (tk_context t) = c\<lparr>cc_source := ''admission''\<rparr>)
    | Inl (Duplicate_Of i) \<Rightarrow> statuses q' = statuses q \<and> q_store q' = q_store q
    | Inl _ \<Rightarrow> q' = q"
  using assms
proof (cases rule: enqueue_cases)
  case (refused e)
  then show ?thesis by (cases e) auto
next
  case (duplicate i ctx)
  have "statuses (refuse_duplicate clock ad rq ctx i q) = statuses q"
    by (simp add: refuse_duplicate_def adopt_statuses)
  moreover have "q_store (refuse_duplicate clock ad rq ctx i q) = q_store q"
    by (simp add: refuse_duplicate_def adopt_lineage_def append_exec_event_def update_task_def split: option.split)
  ultimately show ?thesis by (simp add: duplicate)
next
  case (admitted g c ctx w dup expired)
  from insert_row_tasks [OF admitted(9)] have "task_of q (rq_id rq) = None"
      "q_tasks q' = q_tasks q @ [new_row clock rq ctx r (owner_conflict g r)]"
    by (simp_all add: task_of_def admission_log_tasks)
  with admitted show ?thesis by (auto simp: admitted_contract)
qed

section \<open>No duplicate review\<close>

text \<open>A standing row does not stand in the way: another target, another head, or a reservation that ran out.\<close>

definition harmless ::
  "task_request \<Rightarrow> (time \<times> time) option \<Rightarrow> string option \<Rightarrow> string \<Rightarrow> task_row \<Rightarrow> bool" where
  "harmless rq limit sha ignored u \<longleftrightarrow>
     (tk_id u = ignored \<and> tk_status u = In_Progress) \<or> \<not> same_target rq u
     \<or> (tk_status u = Pending \<and> head_of False [] (tk_context u) = None
        \<and> (case limit of None \<Rightarrow> False | Some (clock, ttl) \<Rightarrow> ttl \<le> clock - reserved_since u))
     \<or> (\<not> (tk_status u = Pending \<and> head_of False [] (tk_context u) = None)
        \<and> (sha = None \<or> head_of False [] (tk_context u) \<noteq> sha))"

lemma find_duplicate_none:
  "fst (find_duplicate rq False limit sha ignored us) = None \<longleftrightarrow> list_all (harmless rq limit sha ignored) us"
  by (induction us) (auto simp: harmless_def Let_def)

lemma find_duplicate_some:
  "fst (find_duplicate rq dispatch limit sha ignored us) = Some i \<Longrightarrow> \<exists>u \<in> set us. tk_id u = i \<and> same_target rq u"
  by (induction us) (auto simp: Let_def split: if_splits)

text \<open>
  Claim C24: a review or test is admitted without an explicit override only when every standing row of
  its project, kind and target is pinned to another head, is an unpinned reservation that has outlived its
  time, or is the in-progress predecessor a capacity retry replaces.
\<close>

theorem no_duplicate_review_admitted:
  assumes "enqueue_with_receipt dp clock ps ad q rq r = (Inr i, q')" and "rq_type rq \<in> {''review'', ''test''}"
    and "\<not> flag (rq_context rq) ''allow_duplicate_review''" and "u \<in> set (q_tasks q)" and "standing rq u"
    and "target_pr (rq_context rq) (rq_pr_number rq) \<noteq> None \<or> rq_branch rq \<noteq> []"
  shows "harmless rq (Some (clock, ad_ttl ad)) (head_of False (resolved_head ad rq) (rq_context rq)) (ad_predecessor ad) u"
  using assms(1)
proof (cases rule: enqueue_cases)
  case (admitted g c ctx w dup expired)
  have keys: "ctx_key ctx k = ctx_key (rq_context rq) k" if "k \<noteq> contract_key" "k \<noteq> ''owner_conflict''" for k
    using that by (simp add: admitted(5) admitted_context_def Let_def ctx_key_set_key) (simp add: ctx_key_def)
  have prev: "tc_prev_task_id ctx = tc_prev_task_id (rq_context rq)"
    by (simp add: admitted(5) admitted_context_def Let_def set_key_def)
  have pr: "target_pr ctx n = target_pr (rq_context rq) n" for n
    by (simp add: target_pr_def keys contract_key_def)
  have target: "same_target (rq\<lparr>rq_context := ctx\<rparr>) = same_target rq" "standing (rq\<lparr>rq_context := ctx\<rparr>) = standing rq"
    by (simp_all add: fun_eq_iff same_target_def standing_def pr prev split: option.split)
  have head: "head_of False x ctx = head_of False x (rq_context rq)" for x
    by (simp add: head_of_def head_keys_def keys contract_key_def)
  have "\<not> flag ctx ''allow_duplicate_review''" using assms(3) by (simp add: flag_def keys contract_key_def)
  with admitted(8) have "dup = None" by blast
  with admitted(7) assms(2,6) have "fst (find_duplicate (rq\<lparr>rq_context := ctx\<rparr>) False (Some (clock, ad_ttl ad))
      (head_of False (resolved_head ad rq) (rq_context rq)) (ad_predecessor ad)
      (sort_key tk_created_at (filter (standing rq) (q_tasks q)))) = None"
    by (auto simp: duplicate_review_def pr target head split: if_splits)
  then have "harmless (rq\<lparr>rq_context := ctx\<rparr>) (Some (clock, ad_ttl ad)) (head_of False (resolved_head ad rq) (rq_context rq))
      (ad_predecessor ad) u"
    using assms(4,5) unfolding find_duplicate_none by (simp add: list_all_iff)
  then show ?thesis by (simp add: harmless_def target)
qed simp_all

section \<open>A sample admission\<close>

definition sample_review :: task_request where
  "sample_review =
     \<lparr>rq_id = ''r1'', rq_type = ''review'', rq_description = ''d'', rq_branch = ''b'', rq_priority = 3, rq_project = ''crew'',
      rq_pr_number = None, rq_context = blank_context\<rparr>"

definition sample_admission :: admission where
  "sample_admission =
     \<lparr>ad_declared_project = None, ad_enforced_tier = False, ad_main_branch = ''main'', ad_cap = None, ad_resolved_head = [],
      ad_ttl = 3600, ad_predecessor = [], ad_successor = False, ad_intent = None\<rparr>"

lemma sample_review_simps [simp]:
  "rq_id sample_review = ''r1''" "rq_type sample_review = ''review''" "rq_description sample_review = ''d''"
  "rq_branch sample_review = ''b''" "rq_project sample_review = ''crew''" "rq_pr_number sample_review = None"
  "rq_context sample_review = blank_context"
  by (simp_all add: sample_review_def)

lemma sample_admission_simps [simp]:
  "ad_enforced_tier sample_admission = False" "ad_intent sample_admission = None" "ad_ttl sample_admission = 3600"
  "ad_predecessor sample_admission = []"
  by (simp_all add: sample_admission_def)

text \<open>One unpinned review of branch \<open>b\<close> has been waiting since 6.\<close>

definition waiting_review :: queue where
  "waiting_review = sample_queue [sample_task ''r0'' ''review'' Pending]"

lemma sample_enqueue_gate: "go_proceed (enqueue_gate (sample_deployment ENFORCE) clock ad rq r)"
  by (simp add: enqueue_gate_def recording_def gate_enqueue_def no_codes_proceed Let_def)

definition late_admission :: queue where
  "late_admission = snd (enqueue_with_receipt (sample_deployment ENFORCE) 5000 calm sample_admission waiting_review sample_review
     (sample_receipt ISSUED REVIEW))"

lemma sample_admitted:
  "enqueue_with_receipt (sample_deployment ENFORCE) 5000 calm sample_admission waiting_review sample_review
     (sample_receipt ISSUED REVIEW) = (Inr ''r1'', late_admission)"
proof -
  let ?g = "enqueue_gate (sample_deployment ENFORCE) 5000 sample_admission sample_review (sample_receipt ISSUED REVIEW)"
  have go: "go_proceed ?g" "\<not> owner_conflict ?g (sample_receipt ISSUED REVIEW)"
    using sample_enqueue_gate [of 5000 sample_admission] by (simp_all add: owner_conflict_def)
  obtain c where c: "decide_contract False ''d'' blank_context (Some (sample_receipt ISSUED REVIEW)) = Some c"
    by (simp add: decide_contract_def)
  let ?ctx = "admitted_context sample_admission sample_review (sample_receipt ISSUED REVIEW) ?g c"
  have more: "tc_more ?ctx = [(contract_key, as_record c)]" "tc_external_operation_id ?ctx = None" "tc_prev_task_id ?ctx = None"
    using go by (simp_all add: admitted_context_def Let_def set_key_def sample_review_def blank_context_def)
  have old: "head_of False [] blank_context = None" "target_pr blank_context None = None"
    by (simp_all add: head_of_def head_keys_def ctx_key_def blank_context_def commit_sha_def target_pr_def positive_def)
  obtain dup expired where d: "duplicate_review waiting_review (sample_review\<lparr>rq_context := ?ctx\<rparr>) False (Some (5000, 3600))
      (resolved_head sample_admission sample_review) [] = (dup, expired)" by fastforce
  have "harmless (sample_review\<lparr>rq_context := ?ctx\<rparr>) (Some (5000, 3600)) sha [] (sample_task ''r0'' ''review'' Pending)" for sha
    by (simp add: harmless_def old reserved_since_def sample_task_def)
  then have "fst (find_duplicate (sample_review\<lparr>rq_context := ?ctx\<rparr>) False (Some (5000, 3600)) sha []
      (sort_key tk_created_at (filter p (q_tasks waiting_review)))) = None" for sha p
    by (simp add: find_duplicate_none waiting_review_def)
  then have "fst (duplicate_review waiting_review (sample_review\<lparr>rq_context := ?ctx\<rparr>) False (Some (5000, 3600))
      (resolved_head sample_admission sample_review) []) = None"
    by (simp only: duplicate_review_def fst_conv split: if_split)  simp
  with d have dup: "dup = None" by simp
  have w: "q_switch waiting_review = sample_switch ACTIVE" by (simp add: waiting_review_def)
  have fresh: "task_of (admission_log 5000 sample_admission sample_review dup expired p) ''r1'' = None"
    if "q_tasks p = q_tasks waiting_review" for p
    using that by (simp add: task_of_def admission_log_tasks waiting_review_def)
  have ins: "\<exists>p'. insert_row (sample_deployment ENFORCE) 5000 sample_admission sample_review (sample_receipt ISSUED REVIEW) ?g ?ctx
      (admission_log 5000 sample_admission sample_review dup expired p) = (Inr ''r1'', p')"
    if "q_tasks p = q_tasks waiting_review" for p
    using fresh [OF that]
    by (simp add: insert_row_def bind_new_task_def more)
  have "\<exists>p'. enqueue_with_receipt (sample_deployment ENFORCE) 5000 calm sample_admission waiting_review sample_review
     (sample_receipt ISSUED REVIEW) = (Inr ''r1'', p')"
    using ins [of "waiting_review\<lparr>q_switch := sample_switch ACTIVE\<rparr>"] c d dup go
    by (auto simp: enqueue_with_receipt_def Let_def w calm_open)
  then show ?thesis by (auto simp: late_admission_def)
qed

theorem enqueue_outcomes_witness:
  "\<exists>t. q_tasks late_admission = q_tasks waiting_review @ [t] \<and> tk_id t = ''r1''"
  using enqueue_outcomes [OF sample_admitted] by auto

theorem no_duplicate_review_admitted_witness:
  "harmless sample_review (Some (5000, 3600)) (head_of False (resolved_head sample_admission sample_review) blank_context) []
     (sample_task ''r0'' ''review'' Pending)"
proof -
  have "standing sample_review (sample_task ''r0'' ''review'' Pending)"
    by (simp add: standing_def) (simp add: sample_task_def)
  from no_duplicate_review_admitted [OF sample_admitted _ _ _ this] show ?thesis
    by (simp add: waiting_review_def flag_def ctx_key_def blank_context_def)
qed

end
