(* ===== verification/Intent_Safety.thy ===== *)
theory Intent_Safety
  imports Queue_Safety
begin

text \<open>
  When a work intent closes. The rule of the code walks lists with a memory of what it has seen; the
  reference states the same rule over the two descent relations, and the two agree wherever no task
  descends from itself.
\<close>

section \<open>The reference rule\<close>

text \<open>\<open>a\<close> was made after \<open>b\<close> in the pipeline; \<open>a\<close> is the system's retry of \<open>b\<close>.\<close>

definition follows :: "task_row list \<Rightarrow> task_row \<Rightarrow> task_row \<Rightarrow> bool" where
  "follows rows a b \<longleftrightarrow> b \<in> set rows \<and> tc_prev_task_id (tk_context a) = Some (tk_id b)"

definition retries :: "task_row list \<Rightarrow> task_row \<Rightarrow> task_row \<Rightarrow> bool" where
  "retries rows a b \<longleftrightarrow> b \<in> set rows \<and> tk_id b \<noteq> [] \<and> lineage_parent (tk_context a) = tk_id b"

definition fix_of :: "task_row \<Rightarrow> bool" where
  "fix_of f \<longleftrightarrow> tk_type f = ''implement'' \<and> tk_status f = Completed"

text \<open>A later completed review that looked at a completed fix of what this one refused.\<close>

definition answered :: "task_row list \<Rightarrow> task_row \<Rightarrow> bool" where
  "answered rows v \<longleftrightarrow>
     (\<exists>r f. r \<in> set (completed_reviews rows) \<and> fix_of f \<and> (follows rows)\<^sup>+\<^sup>+ r f \<and> (follows rows)\<^sup>+\<^sup>+ f v)"

text \<open>A completed task the system built as a retry of this one, sixteen rounds back at most.\<close>

definition replaced :: "(string \<times> string \<times> string) list \<Rightarrow> task_row list \<Rightarrow> task_row \<Rightarrow> bool" where
  "replaced tr rows d \<longleftrightarrow>
     (\<exists>r n. r \<in> set rows \<and> tk_status r = Completed \<and> covers tr r d \<and> n < lineage_max_depth
        \<and> (retries rows ^^ Suc n) r d)"

definition fulfilled :: "(string \<times> string \<times> string) list \<Rightarrow> task_row list \<Rightarrow> string list \<Rightarrow> bool" where
  "fulfilled tr rows ids \<longleftrightarrow>
     (\<forall>i \<in> set ids. \<exists>r \<in> set rows. tk_id r = i \<and> (tk_status r = Completed \<or> replaced tr rows r))
     \<and> (\<exists>r \<in> set rows. tk_type r = ''test'' \<and> tk_status r = Completed)
     \<and> (\<forall>v \<in> set (completed_reviews rows). tk_verdict v = Some ''request_changes'' \<longrightarrow> answered rows v)"

definition abandoned :: "(string \<times> string \<times> string) list \<Rightarrow> task_row list \<Rightarrow> bool" where
  "abandoned tr rows \<longleftrightarrow>
     (\<exists>r \<in> set rows. tk_status r \<in> {Failed, Timed_Out, Cancelled, Needs_Human, Blocked_Task} \<and> \<not> replaced tr rows r)
     \<and> (\<forall>r \<in> set rows. tk_status r \<notin> {Pending, In_Progress})"

definition well_founded :: "task_row list \<Rightarrow> bool" where
  "well_founded rows \<longleftrightarrow>
     distinct (map tk_id rows) \<and> (\<forall>t. \<not> (follows rows)\<^sup>+\<^sup>+ t t) \<and> (\<forall>t. \<not> (retries rows)\<^sup>+\<^sup>+ t t)"

section \<open>The walk of the reviews\<close>

lemma same_row: "distinct (map tk_id rows) \<Longrightarrow> a \<in> set rows \<Longrightarrow> b \<in> set rows \<Longrightarrow> tk_id a = tk_id b \<Longrightarrow> a = b"
  by (metis row_of_distinct option.inject)

lemma follows_one: "distinct (map tk_id rows) \<Longrightarrow> follows rows a b \<Longrightarrow> follows rows a c \<Longrightarrow> b = c"
  by (auto simp: follows_def dest: same_row)

lemma retries_one: "distinct (map tk_id rows) \<Longrightarrow> retries rows a b \<Longrightarrow> retries rows a c \<Longrightarrow> b = c"
  by (auto simp: retries_def dest: same_row)

lemma functional_trancl:
  assumes "\<And>x y. R a x \<Longrightarrow> R a y \<Longrightarrow> x = y" and "R a b"
  shows "R\<^sup>+\<^sup>+ a v \<longleftrightarrow> v = b \<or> R\<^sup>+\<^sup>+ b v"
  using assms by (metis tranclp.r_into_trancl tranclpD rtranclpD tranclp_into_tranclp2)

text \<open>What the walk from \<open>a\<close> finds corrected, with the fix seen already when \<open>c\<close>.\<close>

definition corrects :: "task_row list \<Rightarrow> bool \<Rightarrow> task_row \<Rightarrow> task_row \<Rightarrow> bool" where
  "corrects rows c a v \<longleftrightarrow>
     (follows rows)\<^sup>+\<^sup>+ a v \<and> tk_type v = ''review''
     \<and> (c \<or> (\<exists>f. (follows rows)\<^sup>+\<^sup>+ a f \<and> fix_of f \<and> (follows rows)\<^sup>+\<^sup>+ f v))"

lemma corrects_step:
  assumes "distinct (map tk_id rows)" and "\<And>t. \<not> (follows rows)\<^sup>+\<^sup>+ t t" and "follows rows a r"
  shows "corrects rows c a v \<longleftrightarrow>
    (if fix_of r then corrects rows True r v
     else (v = r \<and> tk_type r = ''review'' \<and> c) \<or> corrects rows c r v)"
proof -
  have tr: "(follows rows)\<^sup>+\<^sup>+ a x \<longleftrightarrow> x = r \<or> (follows rows)\<^sup>+\<^sup>+ r x" for x
    by (rule functional_trancl [of "follows rows", OF follows_one [OF assms(1)] assms(3)])
  have no: "\<not> ((follows rows)\<^sup>+\<^sup>+ r f \<and> (follows rows)\<^sup>+\<^sup>+ f r)" for f
    using assms(2) by (meson tranclp_trans)
  have "\<not> (fix_of r \<and> tk_type r = ''review'')" by (simp add: fix_of_def)
  then show ?thesis using assms(2) no by (auto simp: corrects_def tr)
qed

lemma no_corrects: "(\<And>b. \<not> follows rows a b) \<Longrightarrow> \<not> corrects rows c a v"
  by (auto simp: corrects_def dest: tranclpD)

lemma walk_reviews:
  assumes "distinct (map tk_id rows)" and "\<And>t. \<not> (follows rows)\<^sup>+\<^sup>+ t t"
    and "\<And>s. s \<in> set seen \<Longrightarrow> \<exists>x \<in> set rows. tk_id x = s \<and> (follows rows)\<^sup>*\<^sup>* x a"
  shows "set (corrected_reviews c (bound_ancestors rows seen (tc_prev_task_id (tk_context a))))
    = tk_id ` {v. corrects rows c a v}"
  using assms
proof (induction rows seen "tc_prev_task_id (tk_context a)" arbitrary: a c rule: bound_ancestors.induct)
  case (1 rows seen)
  show ?case
  proof (cases "tc_prev_task_id (tk_context a)")
    case None
    then have "\<not> corrects rows c a v" for v by (intro no_corrects) (simp add: follows_def)
    with None show ?thesis by (simp add: bound_ancestors.simps)
  next
    case (Some i)
    show ?thesis
    proof (cases "row_of tk_id i rows")
      case None
      then have "\<not> corrects rows c a v" for v
        by (intro no_corrects) (auto simp: follows_def Some row_of_None_iff)
      with Some None show ?thesis by (simp add: bound_ancestors.simps)
    next
      case r: (Some r)
      then have row: "r \<in> set rows" "tk_id r = i" by (auto dest: row_of_SomeD)
      then have f: "follows rows a r" by (simp add: follows_def Some)
      have new: "i \<notin> set seen"
      proof
        assume "i \<in> set seen"
        from "1.prems"(3) [OF this] obtain x where "x \<in> set rows" "tk_id x = i" "(follows rows)\<^sup>*\<^sup>* x a" by blast
        then have "(follows rows)\<^sup>*\<^sup>* r a" using same_row [OF "1.prems"(1)] row by blast
        from this f have "(follows rows)\<^sup>+\<^sup>+ r r" by (rule rtranclp_into_tranclp1)
        with "1.prems"(2) show False by blast
      qed
      have seen: "\<exists>x \<in> set rows. tk_id x = s \<and> (follows rows)\<^sup>*\<^sup>* x r" if "s \<in> set (i # seen)" for s
      proof (cases "s = i")
        case True
        with row show ?thesis by blast
      next
        case False
        with that "1.prems"(3) [of s] f show ?thesis by (auto intro: rtranclp.rtrancl_into_rtrancl)
      qed
      note IH = "1.hyps" [OF Some [symmetric, THEN sym] r new refl "1.prems"(1,2) seen]
      have eq: "bound_ancestors rows seen (Some i) = r # bound_ancestors rows (i # seen) (tc_prev_task_id (tk_context r))"
        using r new by (simp add: bound_ancestors.simps [of rows seen "Some i"])
      have step: "{v. corrects rows c a v} = (if fix_of r then {v. corrects rows True r v}
          else (if tk_type r = ''review'' \<and> c then {r} else {}) \<union> {v. corrects rows c r v})"
        by (auto simp: corrects_step [OF "1.prems"(1,2) f])
      show ?thesis
        unfolding Some eq step using IH row(2) by (auto simp: fix_of_def)
    qed
  qed
qed

lemma follows_row: "(follows rows)\<^sup>+\<^sup>+ a v \<Longrightarrow> v \<in> set rows"
  by (induction rule: tranclp_induct) (auto simp: follows_def)

lemma resolved_iff:
  assumes "well_founded rows" and "v \<in> set (completed_reviews rows)"
  shows "tk_id v \<in> set (resolved_reviews rows) \<longleftrightarrow> answered rows v"
proof -
  have d: "distinct (map tk_id rows)" and acyclic: "\<And>t. \<not> (follows rows)\<^sup>+\<^sup>+ t t"
    using assms(1) by (auto simp: well_founded_def)
  have v: "v \<in> set rows" "tk_type v = ''review''" using assms(2) by (auto simp: completed_reviews_def)
  have walk: "set (corrected_reviews False (tl (bound_ancestors rows [] (Some (tk_id r))))) = tk_id ` {v. corrects rows False r v}"
    if "r \<in> set rows" for r
  proof -
    have "bound_ancestors rows [] (Some (tk_id r)) = r # bound_ancestors rows [tk_id r] (tc_prev_task_id (tk_context r))"
      using row_of_distinct [OF d that] by (simp add: bound_ancestors.simps [of rows "[]"])
    moreover have "\<exists>x \<in> set rows. tk_id x = s \<and> (follows rows)\<^sup>*\<^sup>* x r" if "s \<in> set [tk_id r]" for s
      using that \<open>r \<in> set rows\<close> by auto
    ultimately show ?thesis using walk_reviews [OF d acyclic, of "[tk_id r]" r False] by simp
  qed
  have "tk_id v \<in> set (resolved_reviews rows)
      \<longleftrightarrow> (\<exists>r \<in> set (completed_reviews rows). tk_id v \<in> tk_id ` {v. corrects rows False r v})"
    using walk by (fastforce simp: resolved_reviews_def completed_reviews_def)
  also have "\<dots> \<longleftrightarrow> (\<exists>r \<in> set (completed_reviews rows). corrects rows False r v)"
    using same_row [OF d v(1)] follows_row by (fastforce simp: corrects_def)
  also have "\<dots> \<longleftrightarrow> answered rows v"
    using v(2) by (auto simp: corrects_def answered_def intro: tranclp_trans)
  finally show ?thesis .
qed

section \<open>The walk of the retries\<close>

lemma walk_retries:
  assumes "distinct (map tk_id rows)" and "\<And>t. \<not> (retries rows)\<^sup>+\<^sup>+ t t"
    and "\<And>s. s \<in> set seen \<Longrightarrow> \<exists>x \<in> set rows. tk_id x = s \<and> (retries rows)\<^sup>*\<^sup>* x a"
  shows "set (parents_walk n rows seen (lineage_parent (tk_context a))) = {d. \<exists>k < n. (retries rows ^^ Suc k) a d}"
  using assms(3)
proof (induction n arbitrary: seen a)
  case (Suc n)
  let ?p = "lineage_parent (tk_context a)"
  show ?case
  proof (cases "?p = [] \<or> row_of tk_id ?p rows = None")
    case True
    then have "\<not> retries rows a b" for b by (auto simp: retries_def row_of_None_iff)
    then have "\<not> (retries rows ^^ Suc k) a b" for k b by (metis relpowp_Suc_D2)
    then have none: "{d. \<exists>k < Suc n. (retries rows ^^ Suc k) a d} = {}" by (simp del: relpowp.simps)
    have "parents_walk (Suc n) rows seen ?p = []" using True by auto
    then show ?thesis unfolding none by simp
  next
    case False
    then obtain r where r: "row_of tk_id ?p rows = Some r" "?p \<noteq> []" by auto
    then have row: "r \<in> set rows" "tk_id r = ?p" by (auto dest: row_of_SomeD)
    then have f: "retries rows a r" using r(2) by (simp add: retries_def)
    have new: "?p \<notin> set seen"
    proof
      assume "?p \<in> set seen"
      from Suc.prems [OF this] obtain x where "x \<in> set rows" "tk_id x = ?p" "(retries rows)\<^sup>*\<^sup>* x a" by blast
      then have "(retries rows)\<^sup>*\<^sup>* r a" using same_row [OF assms(1)] row by metis
      from this f have "(retries rows)\<^sup>+\<^sup>+ r r" by (rule rtranclp_into_tranclp1)
      with assms(2) show False by blast
    qed
    have seen: "\<exists>x \<in> set rows. tk_id x = s \<and> (retries rows)\<^sup>*\<^sup>* x r" if "s \<in> set (?p # seen)" for s
    proof (cases "s = ?p")
      case True
      with row show ?thesis by blast
    next
      case False
      with that Suc.prems [of s] f show ?thesis by (auto intro: rtranclp.rtrancl_into_rtrancl)
    qed
    have "(retries rows ^^ Suc k) a d \<longleftrightarrow> (retries rows ^^ k) r d" for k d
      using f retries_one [OF assms(1) f] by (metis relpowp_Suc_E2 relpowp_Suc_I2)
    then have "{d. \<exists>k < Suc n. (retries rows ^^ Suc k) a d} = {d. \<exists>k < Suc n. (retries rows ^^ k) r d}" by blast
    also have "\<dots> = insert r {d. \<exists>k < n. (retries rows ^^ Suc k) r d}"
      by (auto simp: less_Suc_eq_0_disj simp del: relpowp.simps(2))
    finally have all: "{d. \<exists>k < Suc n. (retries rows ^^ Suc k) a d} = insert r {d. \<exists>k < n. (retries rows ^^ Suc k) r d}" .
    have IH: "set (parents_walk n rows (?p # seen) (lineage_parent (tk_context r))) = {d. \<exists>k < n. (retries rows ^^ Suc k) r d}"
      by (rule Suc.IH [OF seen])
    have "parents_walk (Suc n) rows seen ?p = r # parents_walk n rows (?p # seen) (lineage_parent (tk_context r))"
      using r new by simp
    then show ?thesis unfolding all by (simp only: list.set IH)
  qed
qed simp

lemma retries_row: "(retries rows ^^ Suc k) a d \<Longrightarrow> d \<in> set rows"
  by (auto simp: retries_def)

lemma in_picked:
  "x \<in> (\<Union>r \<in> {r \<in> R. C r}. f ` {e \<in> W r. P r e}) \<longleftrightarrow> (\<exists>r \<in> R. C r \<and> (\<exists>e \<in> W r. P r e \<and> f e = x))"
  by blast

lemma image_covers: "f ` R \<subseteq> I \<Longrightarrow> f ` R = I \<longleftrightarrow> (\<forall>i \<in> I. \<exists>r \<in> R. f r = i)"
  by (auto simp: image_iff)

lemma superseded_iff:
  assumes "well_founded rows" and "d \<in> set rows"
  shows "tk_id d \<in> set (superseded_tasks tr rows) \<longleftrightarrow> replaced tr rows d"
proof -
  have dist: "distinct (map tk_id rows)" and acyclic: "\<And>t. \<not> (retries rows)\<^sup>+\<^sup>+ t t"
    using assms(1) by (auto simp: well_founded_def)
  have walk: "set (parents_walk m rows [] (lineage_parent (tk_context r))) = {d. \<exists>k < m. (retries rows ^^ Suc k) r d}" for r m
    by (rule walk_retries [OF dist acyclic]) simp
  have "set (superseded_tasks tr rows) = (\<Union>r \<in> {r \<in> set rows. tk_status r = Completed}.
      tk_id ` {e \<in> set (parents_walk lineage_max_depth rows [] (lineage_parent (tk_context r))). covers tr r e})"
    by (force simp: superseded_tasks_def split: if_splits)
  note eq = this
  have "tk_id d \<in> set (superseded_tasks tr rows) \<longleftrightarrow>
      (\<exists>r \<in> set rows. tk_status r = Completed
        \<and> (\<exists>e \<in> set (parents_walk lineage_max_depth rows [] (lineage_parent (tk_context r))). covers tr r e \<and> tk_id e = tk_id d))"
    unfolding eq by (rule in_picked)
  also have "\<dots> \<longleftrightarrow> (\<exists>r \<in> set rows. tk_status r = Completed
        \<and> (\<exists>e k. k < lineage_max_depth \<and> (retries rows ^^ Suc k) r e \<and> covers tr r e \<and> tk_id e = tk_id d))"
    unfolding walk by blast
  also have "\<dots> \<longleftrightarrow> replaced tr rows d"
  proof -
    have same: "e = d" if "(retries rows ^^ Suc k) r e" "tk_id e = tk_id d" for r e k
      using same_row [OF dist retries_row [OF that(1)] assms(2) that(2)] .
    show ?thesis
    proof
      assume "\<exists>r \<in> set rows. tk_status r = Completed
        \<and> (\<exists>e k. k < lineage_max_depth \<and> (retries rows ^^ Suc k) r e \<and> covers tr r e \<and> tk_id e = tk_id d)"
      then obtain r e k where r: "r \<in> set rows" "tk_status r = Completed" "k < lineage_max_depth"
          "(retries rows ^^ Suc k) r e" "covers tr r e" "tk_id e = tk_id d" by blast
      from same [OF r(4,6)] have "e = d" .
      with r show "replaced tr rows d" unfolding replaced_def by blast
    next
      assume "replaced tr rows d"
      then show "\<exists>r \<in> set rows. tk_status r = Completed
        \<and> (\<exists>e k. k < lineage_max_depth \<and> (retries rows ^^ Suc k) r e \<and> covers tr r e \<and> tk_id e = tk_id d)"
        unfolding replaced_def by blast
    qed
  qed
  finally show ?thesis .
qed

section \<open>The rule\<close>

lemma bound_rows_ids: "set (map tk_id (bound_rows q w)) \<subseteq> set (wi_task_ids w)"
  by (auto simp: bound_rows_def)

lemma rows_for_ids:
  assumes "distinct (map tk_id rows)" and "\<And>r. r \<in> set rows \<Longrightarrow> tk_id r \<in> I"
  shows "(\<forall>i \<in> I. \<exists>r \<in> set rows. tk_id r = i) \<and> (\<forall>r \<in> set rows. P r)
    \<longleftrightarrow> (\<forall>i \<in> I. \<exists>r \<in> set rows. tk_id r = i \<and> P r)"
proof (intro iffI conjI ballI)
  fix r assume all: "\<forall>i \<in> I. \<exists>r \<in> set rows. tk_id r = i \<and> P r" and r: "r \<in> set rows"
  with assms(2) obtain s where "s \<in> set rows" "tk_id s = tk_id r" "P s" by blast
  with same_row [OF assms(1) _ r] show "P r" by blast
qed blast+

lemma fulfilled_iff:
  assumes "well_founded (bound_rows q w)" and "distinct (wi_task_ids w)"
  shows "intent_succeeded q w \<longleftrightarrow> fulfilled (q_treatments q) (bound_rows q w) (wi_task_ids w)"
proof -
  let ?rows = "bound_rows q w"
  have dist: "distinct (map tk_id ?rows)" using assms(1) by (simp add: well_founded_def)
  have "length ?rows = length (wi_task_ids w) \<longleftrightarrow> set (map tk_id ?rows) = set (wi_task_ids w)"
    using card_subset_eq [OF finite_set bound_rows_ids [where q = q and w = w]] distinct_card [OF dist]
      distinct_card [OF assms(2)] by (metis length_map)
  also have "\<dots> \<longleftrightarrow> (\<forall>i \<in> set (wi_task_ids w). \<exists>r \<in> set ?rows. tk_id r = i)"
    using bound_rows_ids [where q = q and w = w] unfolding set_map by (rule image_covers)
  finally have len: "length ?rows = length (wi_task_ids w) \<longleftrightarrow> (\<forall>i \<in> set (wi_task_ids w). \<exists>r \<in> set ?rows. tk_id r = i)" .
  have ids: "r \<in> set ?rows \<Longrightarrow> tk_id r \<in> set (wi_task_ids w)" for r using bound_rows_ids [where q = q and w = w] by auto
  have all: "list_all (\<lambda>r. tk_status r = Completed \<or> tk_id r \<in> set (superseded_tasks (q_treatments q) ?rows)) ?rows
      \<longleftrightarrow> (\<forall>r \<in> set ?rows. tk_status r = Completed \<or> replaced (q_treatments q) ?rows r)"
    using superseded_iff [OF assms(1)] by (simp add: list_all_iff)
  have "all_completed q w \<longleftrightarrow> (\<forall>i \<in> set (wi_task_ids w). \<exists>r \<in> set ?rows. tk_id r = i
      \<and> (tk_status r = Completed \<or> replaced (q_treatments q) ?rows r))"
    unfolding all_completed_def len all by (rule rows_for_ids [OF dist ids])
  moreover have "\<not> review_requires_fix ?rows \<longleftrightarrow>
      (\<forall>v \<in> set (completed_reviews ?rows). tk_verdict v = Some ''request_changes'' \<longrightarrow> answered ?rows v)"
    using resolved_iff [OF assms(1)] by (auto simp: review_requires_fix_def list_ex_iff)
  ultimately show ?thesis by (auto simp: intent_succeeded_def fulfilled_def list_ex_iff)
qed

lemma abandoned_iff:
  assumes "well_founded (bound_rows q w)"
  shows "intent_failed q w \<longleftrightarrow> abandoned (q_treatments q) (bound_rows q w)"
  using superseded_iff [OF assms]
  by (auto simp: intent_failed_def unsuccessful_rows_def abandoned_def list_ex_iff filter_empty_conv)

text \<open>
  Claim C25: a bound intent closes as a success exactly when every bound task is completed or replaced by
  a completed retry the system itself built, some bound test is completed, and every completed review
  that asked for changes was followed by a completed fix and a completed review of it; it is blocked
  exactly when nothing is running any more and some dead task has no such retry.
\<close>

theorem intent_closes_exactly:
  assumes "task_of q tid = Some t" and "tc_external_operation_id (tk_context t) = Some op" and "op \<noteq> []"
    and "intent_of q op = Some w" and "tid \<in> set (wi_task_ids w)" and "wi_state w = Bound"
    and "distinct (wi_task_ids w)" and "well_founded (bound_rows q w)"
  shows "intent_state (terminalize_intent tid clock q) op =
    Some (if fulfilled (q_treatments q) (bound_rows q w) (wi_task_ids w) then Success
          else if abandoned (q_treatments q) (bound_rows q w) then Intent_Blocked else Bound)"
proof -
  have "terminalize_intent tid clock q = update_intent op (close_intent clock q) q"
    using assms(1-5) by (simp add: terminalize_intent_def)
  moreover have "intent_of (update_intent op (close_intent clock q) q) op = Some (close_intent clock q w)"
    using assms(4) row_of_SomeD [of wi_id op "q_intents q" w]
    by (simp add: intent_of_def update_intent_def row_of_map_upd close_intent_id)
  ultimately show ?thesis
    using fulfilled_iff [OF assms(8,7)] abandoned_iff [OF assms(8)] assms(6)
    by (simp add: intent_state_def close_intent_def)
qed

section \<open>A sample intent\<close>

lemma ordered_acyclic:
  assumes "\<And>a b. R a b \<Longrightarrow> b \<in> S" and "\<And>a b. a \<in> S \<Longrightarrow> R a b \<Longrightarrow> (m b :: int) < m a"
  shows "\<not> R\<^sup>+\<^sup>+ t t"
proof
  assume "R\<^sup>+\<^sup>+ t t"
  have "b \<in> S \<and> (a \<in> S \<longrightarrow> m b < m a)" if "R\<^sup>+\<^sup>+ a b" for a b
    using that by (induction rule: tranclp_induct) (use assms in fastforce)+
  from this [OF \<open>R\<^sup>+\<^sup>+ t t\<close>] show False by simp
qed

text \<open>A review that asked for changes, its fix, the review of the fix and the test.\<close>

definition round_row :: "string \<Rightarrow> string \<Rightarrow> string \<Rightarrow> string option \<Rightarrow> string \<Rightarrow> task_row" where
  "round_row i ty v prev retry =
     (sample_task i ty Completed)\<lparr>tk_verdict := some_text v,
        tk_context := blank_context\<lparr>tc_prev_task_id := prev, tc_external_operation_id := Some ''op1'',
          tc_more := (if retry = [] then [] else [(''retry_of'', JStr retry)])\<rparr>\<rparr>"

definition dead_fix :: task_row where
  "dead_fix = (round_row ''f0'' ''implement'' [] (Some ''v'') [])\<lparr>tk_status := Failed\<rparr>"

definition round_rows :: "task_row list" where
  "round_rows =
     [round_row ''v'' ''review'' ''request_changes'' None [], dead_fix,
      round_row ''f'' ''implement'' [] (Some ''v'') ''f0'', round_row ''w'' ''review'' ''approve'' (Some ''f'') [],
      round_row ''x'' ''test'' [] (Some ''w'') []]"

definition round_intent :: work_intent where
  "round_intent = (new_intent 5 sample_request (Some ''v'') False)\<lparr>wi_task_ids := [''v'', ''f0'', ''f'', ''w'', ''x'']\<rparr>"

definition round_queue :: queue where
  "round_queue = (sample_queue round_rows)\<lparr>q_intents := [round_intent]\<rparr>"

lemma round_row_simps [simp]:
  "tk_id (round_row i ty v prev retry) = i" "tk_type (round_row i ty v prev retry) = ty"
  "tk_status (round_row i ty v prev retry) = Completed" "tk_verdict (round_row i ty v prev retry) = some_text v"
  "tc_prev_task_id (tk_context (round_row i ty v prev retry)) = prev"
  "tk_id dead_fix = ''f0''" "tk_type dead_fix = ''implement''" "tk_status dead_fix = Failed"
  "tc_prev_task_id (tk_context dead_fix) = Some ''v''"
  by (simp_all add: round_row_def dead_fix_def)

lemma round_parents [simp]:
  "lineage_parent (tk_context (round_row i ty v prev retry)) = py_strip retry" "lineage_parent (tk_context dead_fix) = []"
  by (auto simp: round_row_def dead_fix_def lineage_parent_def lineage_parent_keys_def ctx_key_def blank_context_def
      py_strip_def py_lstrip_def py_rstrip_def)

lemma round_strip [simp]: "py_strip [] = []" "py_strip ''f0'' = ''f0''"
  by code_simp+

lemma round_elems:
  "set round_rows =
     {round_row ''v'' ''review'' ''request_changes'' None [], dead_fix,
      round_row ''f'' ''implement'' [] (Some ''v'') ''f0'', round_row ''w'' ''review'' ''approve'' (Some ''f'') [],
      round_row ''x'' ''test'' [] (Some ''w'') []}"
  by (simp add: round_rows_def)

lemma round_set:
  "t \<in> set round_rows \<longleftrightarrow>
     t = round_row ''v'' ''review'' ''request_changes'' None [] \<or> t = dead_fix
     \<or> t = round_row ''f'' ''implement'' [] (Some ''v'') ''f0'' \<or> t = round_row ''w'' ''review'' ''approve'' (Some ''f'') []
     \<or> t = round_row ''x'' ''test'' [] (Some ''w'') []"
  by (simp add: round_rows_def)

definition rank :: "task_row \<Rightarrow> int" where
  "rank t = (if tk_id t = ''v'' then 0 else if tk_id t = ''f0'' then 1 else if tk_id t = ''f'' then 2
     else if tk_id t = ''w'' then 3 else 4)"

lemma round_well_founded: "well_founded round_rows"
proof -
  have "\<not> (follows round_rows)\<^sup>+\<^sup>+ t t" for t
    by (rule ordered_acyclic [where S = "set round_rows" and m = rank]) (auto simp: follows_def round_elems rank_def)
  moreover have "\<not> (retries round_rows)\<^sup>+\<^sup>+ t t" for t
    by (rule ordered_acyclic [where S = "set round_rows" and m = rank]) (auto simp: retries_def round_elems rank_def)
  moreover have "distinct (map tk_id round_rows)" by (simp add: round_rows_def)
  ultimately show ?thesis by (simp add: well_founded_def)
qed

lemma round_bound: "bound_rows round_queue round_intent = round_rows"
  by (simp add: bound_rows_def round_queue_def round_intent_def round_rows_def)

lemma round_replaced: "replaced [] round_rows dead_fix"
proof -
  let ?f = "round_row ''f'' ''implement'' [] (Some ''v'') ''f0''"
  have "work_revision (tk_context dead_fix) = work_revision (tk_context ?f)"
    by (simp add: work_revision_def ctx_key_def dead_fix_def round_row_def blank_context_def)
  then have "covers [] ?f dead_fix" by (simp add: covers_def supersedable_def treatment_def)
  moreover have "(retries round_rows ^^ Suc 0) ?f dead_fix" by (simp add: retries_def round_set eq_OO)
  moreover have "?f \<in> set round_rows" by (simp add: round_set)
  ultimately show ?thesis
    unfolding replaced_def lineage_max_depth_def
    by (intro exI [of _ ?f] exI [of _ 0]) (simp del: relpowp.simps)
qed

lemma round_answered: "answered round_rows (round_row ''v'' ''review'' ''request_changes'' None [])"
proof -
  let ?f = "round_row ''f'' ''implement'' [] (Some ''v'') ''f0''" and ?w = "round_row ''w'' ''review'' ''approve'' (Some ''f'') []"
  have "follows round_rows ?w ?f" "follows round_rows ?f (round_row ''v'' ''review'' ''request_changes'' None [])"
    by (simp_all add: follows_def round_set)
  moreover have "?w \<in> set (completed_reviews round_rows)" "fix_of ?f"
    by (simp_all add: completed_reviews_def round_set fix_of_def)
  ultimately show ?thesis unfolding answered_def by blast
qed

theorem intent_closes_exactly_witness:
  "intent_state (terminalize_intent ''x'' 9 round_queue) ''op1'' = Some Success"
proof -
  have "fulfilled [] round_rows (wi_task_ids round_intent)"
    using round_replaced round_answered
    by (auto simp: fulfilled_def round_intent_def round_elems completed_reviews_def some_text_def)
  moreover have "task_of round_queue ''x'' = Some (round_row ''x'' ''test'' [] (Some ''w'') [])"
    by (simp add: task_of_def round_queue_def round_rows_def)
  moreover have "tc_external_operation_id (tk_context (round_row ''x'' ''test'' [] (Some ''w'') [])) = Some ''op1''"
    by (simp add: round_row_def)
  moreover have "intent_of round_queue ''op1'' = Some round_intent" "wi_state round_intent = Bound" "q_treatments round_queue = []"
    by (simp_all add: intent_of_def round_queue_def round_intent_def new_intent_def sample_request_def sample_queue_def)
  moreover have "''x'' \<in> set (wi_task_ids round_intent)" "distinct (wi_task_ids round_intent)"
    by (simp_all add: round_intent_def)
  ultimately show ?thesis
    using intent_closes_exactly [of round_queue "''x''" _ "''op1''" round_intent 9] round_well_founded
    by (simp add: round_bound)
qed

end
