(* ===== verification/Merge_Safety.thy ===== *)
theory Merge_Safety
  imports Queue_Safety
begin

text \<open>
  What holds of the effects outside the queue: a merge has every piece of evidence, is done once and is
  tried a bounded number of times; leases are fenced; notices are bounded.
\<close>

section \<open>The evidence of a merge\<close>

lemma reserve_active:
  "external_op_reserve clock ps q k pr = (Reserved fresh o1, q1) \<Longrightarrow>
     fst (reconcile_pause_signal clock ps (q_switch q)) = ACTIVE \<and> q_tasks q1 = q_tasks q"
  by (auto simp: external_op_reserve_def Let_def split: prod.splits option.splits if_splits)

lemma auto_merge_tried:
  assumes "auto_merge_pr clock ps gh agent_of mq q = (Merge_Ran ok, q')"
  obtains o1 q1 reviewed q2 where "merge_entry clock ps gh mq q = (Inr o1, q1)"
    "merge_evidence clock gh agent_of mq q1 = (Inr reviewed, q2)"
    "merge_finish clock gh mq o1 reviewed q2 = (Merge_Ran ok, q')"
proof -
  obtain x q1 where e: "merge_entry clock ps gh mq q = (x, q1)" by fastforce
  obtain y q2 where v: "merge_evidence clock gh agent_of mq q1 = (y, q2)" by fastforce
  show thesis
  proof (cases x)
    case (Inl out)
    with e assms have "x = Inl (Merge_Ran ok)" by (simp add: auto_merge_pr_def)
    with e show ?thesis by (cases rule: merge_entry_cases) (auto dest: merge_receipt_cases)
  next
    case (Inr o1)
    show ?thesis
    proof (cases y)
      case (Inl out)
      with e v Inr assms have "y = Inl (Merge_Ran ok)" by (simp add: auto_merge_pr_def)
      with v show ?thesis by (cases rule: merge_evidence_cases) auto
    next
      case y: (Inr reviewed)
      with e v Inr assms show ?thesis by (intro that) (auto simp: auto_merge_pr_def)
    qed
  qed
qed

lemma merge_finish_ran:
  assumes "merge_finish clock gh mq o1 reviewed q = (Merge_Ran ok, q')"
  shows "\<not> mq_left_to_coordinator mq \<and> head_checks_state (gh_checks gh) \<in> {Ci_Green, Ci_None} \<and> ok = gh_merge_ok gh
    \<and> q_tasks q' = q_tasks q
    \<and> q' = (if ok then external_op_mark clock (merge_key (mq_pr mq)) Op_Done None False q
            else merge_fail clock mq (gh_head gh) (Refused ''gh pr merge failed'') q)"
  using assms by (auto simp: merge_finish_def Let_def merge_fail_def external_op_mark_def update_op_def
      split: if_splits ci_state.splits)

lemma approval_cases:
  assumes "independent_review_for_head agent_of q pr head review = Inr (reviewer, r)"
  shows "latest_completed_review q pr = Some r \<and> (review = [] \<or> tk_id r = review) \<and> tk_verdict r = Some ''approve''
    \<and> full_sha (ctx_key (tk_context r) ''reviewed_sha'') = Some head \<and> agent_of (tk_id r) = Some reviewer
    \<and> (\<exists>i author. implement_above 10 q [tk_id r] r = Some i \<and> agent_of i = Some author
         \<and> provider_family author \<noteq> provider_family reviewer)"
  using assms by (auto simp: independent_review_for_head_def split: if_splits option.splits bind_splits)

text \<open>What a pull request has when its reviewed head may be merged.\<close>

definition approved_at :: "(string \<Rightarrow> string option) \<Rightarrow> queue \<Rightarrow> int \<Rightarrow> string \<Rightarrow> string \<Rightarrow> bool" where
  "approved_at agent_of q pr head review \<longleftrightarrow>
     (\<exists>r reviewer i author. latest_completed_review q pr = Some r \<and> tk_id r = review \<and> tk_verdict r = Some ''approve''
        \<and> full_sha (ctx_key (tk_context r) ''reviewed_sha'') = Some head
        \<and> agent_of review = Some reviewer \<and> implement_above 10 q [review] r = Some i \<and> agent_of i = Some author
        \<and> provider_family author \<noteq> provider_family reviewer)"

text \<open>
  Claim C29: \<open>gh pr merge\<close> runs only with the runtime ACTIVE, the pull request open, the merge not left to
  the coordinator, the conformance gate passed, the latest review of the pull request an approval of the
  head that was checked by another provider family than the author's, a structured test pass on that head,
  the review status published and read back, and no check red, broken or pending.
\<close>

theorem merge_needs_every_gate:
  assumes "auto_merge_pr clock ps gh agent_of mq q = (Merge_Ran ok, q')"
  shows "fst (reconcile_pause_signal clock ps (q_switch q)) = ACTIVE \<and> gh_pr_state gh = Pr_Open
    \<and> \<not> mq_left_to_coordinator mq \<and> gh_published gh \<and> gh_status_ok gh
    \<and> head_checks_state (gh_checks gh) \<in> {Ci_Green, Ci_None}
    \<and> approved_at agent_of q' (mq_pr mq) (gh_approval_head gh) (mq_review mq)
    \<and> list_ex (passed_on (mq_review mq) (mq_pr mq) (gh_approval_head gh)) (q_tasks q')
    \<and> (\<exists>t p p2. implement_of p (mq_review mq) = Some t
        \<and> conformance_gate_allows_merge (gh_gate gh) (mq_pr mq) t p = (True, p2))"
proof -
  obtain o1 q1 reviewed q2 where e: "merge_entry clock ps gh mq q = (Inr o1, q1)"
    and v: "merge_evidence clock gh agent_of mq q1 = (Inr reviewed, q2)"
    and f: "merge_finish clock gh mq o1 reviewed q2 = (Merge_Ran ok, q')"
    using assms by (rule auto_merge_tried)
  have active: "fst (reconcile_pause_signal clock ps (q_switch q)) = ACTIVE"
    using e by (cases rule: merge_entry_cases) (auto dest: reserve_active)
  note fin = merge_finish_ran [OF f]
  from v show ?thesis
  proof (cases rule: merge_evidence_cases)
    case (ready t agent r)
    have same: "q_tasks q' = q_tasks q2" using fin by blast
    then have lookup: "latest_completed_review q' = latest_completed_review q2" "task_of q' = task_of q2"
      by (simp_all add: latest_completed_review_def task_of_def fun_eq_iff)
    have above: "implement_above n q' seen u = implement_above n q2 seen u" for n seen u
      by (induction n arbitrary: seen u) (simp_all add: lookup split: option.split)
    have t: "mq_review mq \<noteq> []" "list_ex (passed_on (mq_review mq) (mq_pr mq) (gh_approval_head gh)) (q_tasks q2)"
      using ready(6) by (auto simp: test_pass_for_head_def split: if_splits option.splits)
    have "approved_at agent_of q' (mq_pr mq) (gh_approval_head gh) (mq_review mq)"
      using approval_cases [OF ready(5)] t(1) by (auto simp: approved_at_def lookup above)
    with active fin ready t same show ?thesis by auto
  qed auto
qed

section \<open>Once\<close>

lemma merge_key_prefix: "startswith (merge_key pr) ''merge:pr:''"
  unfolding merge_key_def by (rule startswith_append)

text \<open>
  Claim C30: once a merge has succeeded, no later attempt on that pull request runs \<open>gh pr merge\<close> again,
  whatever is done to the queue in between.
\<close>

theorem merged_once:
  assumes "unique_tasks q1" and "auto_merge_pr clock ps gh agent_of mq q = (Merge_Ran True, q1)"
    and "(queue_step dp)\<^sup>*\<^sup>* q1 q2" and "mq_pr mq2 = mq_pr mq"
  shows "(\<exists>b. fst (auto_merge_pr clock2 ps2 gh2 agent_of2 mq2 q2) = Merge_Stopped b)
    \<or> fst (auto_merge_pr clock2 ps2 gh2 agent_of2 mq2 q2) = Merged_Before"
proof -
  let ?k = "merge_key (mq_pr mq)"
  obtain o1 p1 reviewed p2 where e: "merge_entry clock ps gh mq q = (Inr o1, p1)"
    and v: "merge_evidence clock gh agent_of mq p1 = (Inr reviewed, p2)"
    and f: "merge_finish clock gh mq o1 reviewed p2 = (Merge_Ran True, q1)"
    using assms(2) by (rule auto_merge_tried)
  have "op_of p1 ?k = Some o1" using e by (cases rule: merge_entry_cases) (auto dest: merge_receipt_cases)
  moreover have "q_ops p2 = q_ops p1" using v by (cases rule: merge_evidence_cases) (auto dest: conformance_evolves)
  ultimately have "op_of q1 ?k = Some (marked_op clock Op_Done None False o1)"
    using merge_finish_ran [OF f] by (simp add: op_of_mark op_of_frame [of p2 p1])
  from op_table.run_kept [OF assms(3,1) this] obtain o2 where o2: "op_of q2 ?k = Some o2"
    "op_kept (marked_op clock Op_Done None False o1) o2" by blast
  from o2(1) have "eo_key o2 = ?k" by (auto simp: op_of_def dest: row_of_SomeD)
  with o2(2) have done_: "eo_state o2 = Op_Done"
    using merge_key_prefix [of "mq_pr mq"] by (simp add: op_kept_def marked_op_def)
  obtain x q3 where m: "merge_entry clock2 ps2 gh2 mq2 q2 = (x, q3)" by fastforce
  then show ?thesis
  proof (cases rule: merge_entry_cases)
    case (tried fresh o3 q4 o4 q5)
    have "op_of q4 ?k = op_of q2 ?k"
      using tried(1) o2(1) assms(4)
      by (auto simp: external_op_reserve_def Let_def op_of_def split: prod.splits if_splits)
    with tried(2,3) o2(1) done_ assms(4) show ?thesis by simp
  qed (use m in \<open>simp_all add: auto_merge_pr_def\<close>)
qed

section \<open>A bounded number of times\<close>

lemma op_of_reserve:
  "external_op_reserve clock ps q k pr = (Reserved fresh o1, q1) \<Longrightarrow>
     op_of q1 k = Some o1 \<and> (op_of q k = Some o1 \<or> op_of q k = None \<and> eo_attempt o1 = 0 \<and> eo_state o1 = Op_Reserved)"
  by (auto simp: external_op_reserve_def op_of_def new_op_def row_of_append Let_def split: prod.splits option.splits if_splits)

lemma reserve_refused:
  assumes "external_op_reserve clock ps q k pr = (Stop_Refused e, q1)"
  shows "q1 = q"
  using assms by (auto simp: external_op_reserve_def Let_def split: prod.splits option.splits if_splits)

lemma reserve_stopped:
  assumes "fst (reconcile_pause_signal clock ps (q_switch q)) \<noteq> ACTIVE"
  shows "\<exists>e. external_op_reserve clock ps q k pr = (Stop_Refused e, q)"
  using assms by (cases "reconcile_pause_signal clock ps (q_switch q)") (simp add: external_op_reserve_def)

text \<open>What is left of the attempts at one head.\<close>

definition merge_budget :: "string \<Rightarrow> string \<Rightarrow> queue \<Rightarrow> nat \<Rightarrow> bool" where
  "merge_budget k head q n \<longleftrightarrow>
     (case op_of q k of None \<Rightarrow> n = 0
      | Some o1 \<Rightarrow> eo_attempt o1 = n \<and> n \<le> max_merge_attempts
          \<and> (eo_state o1 = Op_Failed \<longrightarrow> error_at_head o1 head)
          \<and> (eo_state o1 \<notin> {Op_Failed, Op_Done} \<longrightarrow> n < max_merge_attempts))"

lemma budget_frame: "q_ops p = q_ops q \<Longrightarrow> merge_budget k head p n = merge_budget k head q n"
  by (simp add: merge_budget_def op_of_def)

lemma fail_budget:
  assumes "op_of q (merge_key (mq_pr mq)) = Some o1" and "eo_attempt o1 < max_merge_attempts" and "head \<noteq> []"
  shows "merge_budget (merge_key (mq_pr mq)) head (merge_fail clock mq head reason q) (Suc (eo_attempt o1))"
  using assms by (simp add: merge_budget_def merge_fail_def op_of_mark marked_op_def error_at_head_def)

lemma mark_budget:
  assumes "op_of q k = Some o1" and "eo_attempt o1 < max_merge_attempts" and "st \<noteq> Op_Failed"
  shows "merge_budget k head (external_op_mark clock k st err False q) (eo_attempt o1)"
  using assms by (simp add: merge_budget_def op_of_mark marked_op_def)

lemma entry_budget:
  assumes "merge_entry clock ps gh mq q = (x, q')" and "merge_budget (merge_key (mq_pr mq)) (known_head gh) q n"
  shows "(\<forall>out. x = Inl out \<longrightarrow> merge_budget (merge_key (mq_pr mq)) (known_head gh) q' n \<and> (\<forall>ok. out \<noteq> Merge_Ran ok))
    \<and> (\<forall>o1. x = Inr o1 \<longrightarrow> op_of q' (merge_key (mq_pr mq)) = Some o1 \<and> eo_attempt o1 = n \<and> n < max_merge_attempts
         \<and> merge_budget (merge_key (mq_pr mq)) (known_head gh) q' n)"
  using assms(1)
proof (cases rule: merge_entry_cases)
  case (stopped e q1)
  have "q_ops q' = q_ops q" unfolding stopped(3) reserve_refused [OF stopped(1)] by simp
  from stopped(2) assms(2) budget_frame [OF this] show ?thesis by simp
next
  case (merged fresh o1)
  with op_of_reserve [OF merged(1)] assms(2) show ?thesis by (simp add: merge_budget_def)
next
  case (tried fresh o1 q1 o2 q2)
  have o1: "eo_attempt o1 = n" "n \<le> max_merge_attempts" "eo_state o1 = Op_Failed \<longrightarrow> error_at_head o1 (known_head gh)"
    "eo_state o1 \<noteq> Op_Failed \<longrightarrow> n < max_merge_attempts"
    using op_of_reserve [OF tried(1)] assms(2) tried(2) by (auto simp: merge_budget_def max_merge_attempts_def)
  then have "o2 = o1 \<and> q2 = q1" using tried(3,4) by (auto simp: external_op_reset_failed_head_def split: if_splits)
  moreover from this have "merge_budget (merge_key (mq_pr mq)) (known_head gh) q2 n"
    using o1 tried(3) by (auto simp: merge_budget_def)
  ultimately show ?thesis
    using merge_receipt_cases [OF tried(6)] tried(5) o1 by (auto simp: merge_budget_def op_of_def)
qed

lemma evidence_budget:
  assumes "merge_evidence clock gh agent_of mq q = (x, q')" and "op_of q (merge_key (mq_pr mq)) = Some o1"
    and "eo_attempt o1 < max_merge_attempts" and "known_head gh \<noteq> []"
    and "merge_budget (merge_key (mq_pr mq)) (known_head gh) q (eo_attempt o1)"
  shows "(\<forall>out. x = Inl out \<longrightarrow> (\<exists>m\<ge>eo_attempt o1. merge_budget (merge_key (mq_pr mq)) (known_head gh) q' m)
      \<and> (\<forall>ok. out \<noteq> Merge_Ran ok)) \<and> (\<forall>h. x = Inr h \<longrightarrow> op_of q' (merge_key (mq_pr mq)) = Some o1)"
proof -
  let ?k = "merge_key (mq_pr mq)" and ?h = "known_head gh"
  have head: "gh_head gh = ?h" using assms(4) by (simp add: known_head_def split: if_splits)
  have failed: "\<exists>m\<ge>eo_attempt o1. merge_budget ?k ?h p m"
    if "q_ops p = q_ops (merge_fail clock mq ?h reason p0)" "q_ops p0 = q_ops q" for p p0 reason
    using fail_budget [of p0 mq o1 ?h clock reason] op_of_frame [OF that(2)] assms(2,3,4) budget_frame [OF that(1)]
    by (intro exI [of _ "Suc (eo_attempt o1)"]) simp
  from assms(1) show ?thesis
  proof (cases rule: merge_evidence_cases)
    case found
    with mark_budget [OF assms(2,3)] show ?thesis by auto
  next
    case unsure
    then have "q_ops q' = q_ops (merge_fail clock mq ?h State_Unknown q)" by (simp add: head)
    from failed [OF this refl] unsure show ?thesis by simp
  next
    case (early reason)
    with failed [of q' "Refused reason" q] show ?thesis by simp
  next
    case untitled
    with assms(5) show ?thesis by auto
  next
    case (parked p reason)
    from parked(1) failed [OF parked(3,2)] show ?thesis by (elim disjE) simp_all
  next
    case (refused t q1 reason)
    from failed [of q' "Refused reason" q1] conformance_evolves [OF refused(1)] refused(2,3) show ?thesis by simp
  next
    case (ready t agent r)
    have "q_ops q' = q_ops q" using conformance_evolves [OF ready(4)] by blast
    from op_of_frame [OF this] ready assms(2) show ?thesis by simp
  qed
qed

lemma finish_budget:
  assumes "merge_finish clock gh mq o1 reviewed q = (out, q')" and "op_of q (merge_key (mq_pr mq)) = Some o1"
    and "eo_attempt o1 < max_merge_attempts" and "known_head gh \<noteq> []"
  shows "\<exists>m. merge_budget (merge_key (mq_pr mq)) (known_head gh) q' m
    \<and> eo_attempt o1 + (if out = Merge_Ran False then 1 else 0) \<le> m"
proof -
  let ?k = "merge_key (mq_pr mq)" and ?h = "known_head gh"
  have head: "gh_head gh = ?h" using assms(4) by (simp add: known_head_def split: if_splits)
  have failed: "\<exists>m. merge_budget ?k ?h (merge_fail clock mq ?h reason q) m \<and> eo_attempt o1 + d \<le> m" if "d \<le> 1" for reason d
    using fail_budget [OF assms(2,3,4)] that by (intro exI [of _ "Suc (eo_attempt o1)"]) simp
  have marked: "\<exists>m. merge_budget ?k ?h (external_op_mark clock ?k st err False q) m \<and> eo_attempt o1 \<le> m" if "st \<noteq> Op_Failed" for st err
    using mark_budget [OF assms(2,3) that] by blast
  show ?thesis
    using assms(1) failed [of 0] failed [of 1] marked
    by (auto simp: merge_finish_def head Let_def split: if_splits ci_state.splits)
qed

lemma auto_merge_budget:
  assumes "auto_merge_pr clock ps gh agent_of mq q = (out, q')" and "known_head gh \<noteq> []"
    and "merge_budget (merge_key (mq_pr mq)) (known_head gh) q n"
  shows "\<exists>m. merge_budget (merge_key (mq_pr mq)) (known_head gh) q' m \<and> n + (if out = Merge_Ran False then 1 else 0) \<le> m"
proof -
  obtain x q1 where e: "merge_entry clock ps gh mq q = (x, q1)" by fastforce
  note entry = entry_budget [OF e assms(3)]
  show ?thesis
  proof (cases x)
    case (Inl y)
    with assms(1) e entry show ?thesis by (auto simp: auto_merge_pr_def)
  next
    case (Inr o1)
    with entry have o1: "op_of q1 (merge_key (mq_pr mq)) = Some o1" "eo_attempt o1 = n" "n < max_merge_attempts"
      "merge_budget (merge_key (mq_pr mq)) (known_head gh) q1 n" by auto
    obtain y q2 where v: "merge_evidence clock gh agent_of mq q1 = (y, q2)" by fastforce
    note evidence = evidence_budget [OF v o1(1) _ assms(2)]
    show ?thesis
    proof (cases y)
      case (Inl z)
      with assms(1) e Inr v evidence o1 show ?thesis by (auto simp: auto_merge_pr_def)
    next
      case y: (Inr h)
      have f: "merge_finish clock gh mq o1 h q2 = (out, q')" using assms(1) e Inr v y by (simp add: auto_merge_pr_def)
      have "op_of q2 (merge_key (mq_pr mq)) = Some o1" using evidence o1 y by simp
      from finish_budget [OF f this _ assms(2)] o1 show ?thesis by simp
    qed
  qed
qed

type_synonym merge_attempt = "time \<times> pauses \<times> github \<times> (string \<Rightarrow> string option) \<times> merge_request"

fun merge_attempts :: "merge_attempt list \<Rightarrow> queue \<Rightarrow> merge_outcome list \<times> queue" where
  "merge_attempts [] q = ([], q)"
| "merge_attempts ((clock, ps, gh, agent_of, mq) # xs) q =
     (let (out, q1) = auto_merge_pr clock ps gh agent_of mq q; (outs, q2) = merge_attempts xs q1 in (out # outs, q2))"

definition failed_merges :: "merge_outcome list \<Rightarrow> nat" where
  "failed_merges outs = length (filter (\<lambda>out. case out of Merge_Ran ok \<Rightarrow> \<not> ok | _ \<Rightarrow> False) outs)"

definition aims_at :: "int \<Rightarrow> string \<Rightarrow> merge_attempt \<Rightarrow> bool" where
  "aims_at pr head a = (case a of (clock, ps, gh, agent_of, mq) \<Rightarrow> mq_pr mq = pr \<and> known_head gh = head)"

lemma merge_attempts_budget:
  "list_all (aims_at pr head) xs \<Longrightarrow> head \<noteq> [] \<Longrightarrow> merge_budget (merge_key pr) head q n \<Longrightarrow>
     n + failed_merges (fst (merge_attempts xs q)) \<le> max_merge_attempts"
proof (induction xs arbitrary: q n)
  case Nil
  then show ?case by (simp add: failed_merges_def merge_budget_def split: option.splits)
next
  case (Cons a xs)
  obtain clock ps gh agent_of mq where a: "a = (clock, ps, gh, agent_of, mq)" by (cases a)
  obtain out q1 where m: "auto_merge_pr clock ps gh agent_of mq q = (out, q1)" by fastforce
  from Cons.prems a have aim: "mq_pr mq = pr" "known_head gh = head" by (simp_all add: aims_at_def)
  from auto_merge_budget [OF m] Cons.prems aim obtain k
    where k: "merge_budget (merge_key pr) head q1 k" "n + (if out = Merge_Ran False then 1 else 0) \<le> k" by auto
  have "failed_merges (out # outs) = (if out = Merge_Ran False then 1 else 0) + failed_merges outs" for outs
    by (cases out) (auto simp: failed_merges_def)
  then have "n + failed_merges (fst (merge_attempts (a # xs) q)) \<le> k + failed_merges (fst (merge_attempts xs q1))"
    using k(2) by (simp add: a m split: prod.split)
  also have "\<dots> \<le> max_merge_attempts" using Cons.IH [OF _ _ k(1)] Cons.prems by simp
  finally show ?case .
qed

text \<open>
  However often a merge that never had a receipt is attempted at one known head, with whatever
  answers, \<open>gh pr merge\<close> fails at most three times.
\<close>

theorem failing_merges_bounded:
  assumes "list_all (aims_at pr head) attempts" and "head \<noteq> []" and "op_of q (merge_key pr) = None"
  shows "failed_merges (fst (merge_attempts attempts q)) \<le> 3"
  using merge_attempts_budget [OF assms(1,2), of q 0] assms(3) by (simp add: merge_budget_def max_merge_attempts_def)

text \<open>
  The budget is per head only while the head can be read: a merge that failed while the head was
  unknown, however often, starts over when the head is read, though it may be the head it failed at.
\<close>

theorem unknown_head_renews_attempts:
  assumes "op_of q (merge_key (mq_pr mq)) = Some o1" and "eo_state o1 = Op_Failed"
    and "eo_error o1 = Some (Head_Error ''unknown'' reason)" and "known_head gh \<noteq> []" and "known_head gh \<noteq> ''unknown''"
    and "fst (reconcile_pause_signal clock ps (q_switch q)) = ACTIVE"
  shows "\<exists>o2 q'. merge_entry clock ps gh mq q = (Inr o2, q') \<and> eo_attempt o2 = 0 \<and> eo_state o2 = Op_Reserved"
proof -
  obtain sw where w: "reconcile_pause_signal clock ps (q_switch q) = (ACTIVE, sw)" using assms(6) by (cases "reconcile_pause_signal clock ps (q_switch q)") auto
  let ?q = "q\<lparr>q_switch := sw\<rparr>" and ?k = "merge_key (mq_pr mq)"
  have r: "external_op_reserve clock ps q ?k (Some (mq_pr mq)) = (Reserved False o1, ?q)"
    by (simp add: external_op_reserve_def w assms(1))
  have o1: "op_of ?q ?k = Some o1" using assms(1) by (simp add: op_of_def)
  let ?f = "\<lambda>r. r\<lparr>eo_state := Op_Reserved, eo_attempt := 0, eo_error := None\<rparr>"
  have "external_op_reset_failed_head ?q ?k (known_head gh) = (Some (?f o1), update_op ?k ?f ?q)"
    using o1 assms(2-5) by (simp add: external_op_reset_failed_head_def error_at_head_def op_of_update Let_def)
  then have "merge_entry clock ps gh mq q = (Inr (?f o1), update_op ?k ?f ?q)"
    using assms(2) by (simp add: merge_entry_def r merge_receipt_def)
  then show ?thesis by auto
qed

section \<open>A stop\<close>

text \<open>
  Under a stop no mutation starts: no receipt is written, and a merge asked for by a test task
  stays owed by it: its continuation is owed again and names the pull request, the head and the review.
\<close>

theorem stop_keeps_merge_owed:
  assumes "fst (reconcile_pause_signal clock ps (q_switch q)) \<noteq> ACTIVE" and "mq_test mq \<noteq> []"
    and "task_of q (mq_test mq) = Some t" and "tk_type t = ''test''" and "reopenable q (mq_test mq)"
  shows "\<exists>q' row. auto_merge_pr clock ps gh agent_of mq q = (Merge_Stopped True, q') \<and> q_ops q' = q_ops q
    \<and> outbox_of q' (mq_test mq) = Some row \<and> ob_state row = Owed \<and> ob_lease_owner row = None
    \<and> map_option (\<lambda>u. ctx_key (tk_context u) ''suppressed_merge'') (task_of q' (mq_test mq))
        = Some (owed_merge mq (gh_repo gh) (known_head gh))"
proof -
  obtain e where r: "external_op_reserve clock ps q (merge_key (mq_pr mq)) (Some (mq_pr mq)) = (Stop_Refused e, q)"
    using reserve_stopped [OF assms(1)] by blast
  let ?f = "\<lambda>u. u\<lparr>tk_context := set_key ''suppressed_merge'' (owed_merge mq (gh_repo gh) (known_head gh)) (tk_context u)\<rparr>"
  let ?q = "update_outbox (mq_test mq) (released_row Owed) (update_task (mq_test mq) ?f q)"
  have d: "owe_merge gh mq (known_head gh) q = (True, ?q)"
    using assms(2-5) by (simp add: owe_merge_def defer_test_merge_def)
  have "auto_merge_pr clock ps gh agent_of mq q = (Merge_Stopped True, ?q)"
    by (simp add: auto_merge_pr_def merge_entry_def r d)
  moreover obtain row where row: "outbox_of q (mq_test mq) = Some row"
    using assms(5) by (auto simp: reopenable_def split: option.splits)
  moreover have "outbox_of (update_task (mq_test mq) ?f q) = outbox_of q" by (simp add: outbox_of_def update_task_def fun_eq_iff)
  moreover have "task_of ?q (mq_test mq) = Some (?f t)"
    using assms(3) by (simp add: task_of_def update_outbox_def update_task_def row_of_update)
  ultimately show ?thesis
    by (intro exI [of _ ?q] exI [of _ "released_row Owed row"])
      (simp add: outbox_of_update released_row_def ctx_key_set_key)
qed

section \<open>Leases\<close>

text \<open>
  An executor whose lease on a continuation was taken over settles nothing: it neither marks the
  continuation applied nor gives it back, whatever later executors claim, settle or reopen.
\<close>

theorem superseded_replay_settles_nothing:
  assumes "outbox_claim clock q tid owner attempt ttl = (Some row, q1)" and "replay_lease.run later q1 q2"
    and "slow \<noteq> owner" and "slow \<notin> later"
  shows "outbox_mark_applied q2 tid slow = (False, q2) \<and> outbox_finish_claim q2 tid slow Owed = Some (False, q2)
    \<and> outbox_finish_claim q2 tid slow Expired = Some (False, q2)"
proof -
  have "take_replay (clock, attempt, ttl) q tid owner = (True, q1)" by (simp add: take_replay_def assms(1))
  from replay_lease.superseded [OF this assms(2,3,4), of Applied] have "\<not> replay_held q2 tid slow"
    by (auto simp: end_replay_def outbox_mark_applied_def split: if_splits)
  then show ?thesis by (simp add: outbox_mark_applied_def outbox_finish_claim_def)
qed

text \<open>
  A worker whose claim of a notice was taken over can no longer post it, mark it posted or
  release the claim of the one who took over.
\<close>

theorem taken_over_worker_silenced:
  assumes "claim_pr_announcement clock q k who token stale = (Some token, q1)" and "announcement_lease.run later q1 q2"
    and "slow \<noteq> token" and "slow \<notin> later"
  shows "\<not> owns_pr_announcement q2 k slow \<and> mark_pr_announcement_posted clock2 q2 k slow = (False, q2)
    \<and> release_pr_announcement q2 k slow = (False, q2)"
proof -
  have "take_announcement (clock, who, stale) q k token = (True, q1)" by (simp add: take_announcement_def assms(1))
  from announcement_lease.superseded [OF this assms(2,3,4), of "Some clock2"] have "\<not> holds_announcement q2 k slow"
    by (auto simp: end_announcement_def mark_pr_announcement_posted_def split: if_splits)
  then show ?thesis by (simp add: owns_pr_announcement_def mark_pr_announcement_posted_def release_pr_announcement_def)
qed

text \<open>
  A notice that was posted stays posted, and no worker wins the right to post it again, whatever
  is done to the queue later.
\<close>

theorem posted_notice_stays:
  assumes "mark_pr_announcement_posted clock q k token = (True, q1)" and "unique_tasks q1" and "(queue_step dp)\<^sup>*\<^sup>* q1 q2"
  shows "posted q2 k = Some clock \<and> claim_pr_announcement clock2 q2 k who fresh stale = (None, q2)"
proof -
  have "posted q1 k = Some clock"
    using assms(1) by (auto simp: mark_pr_announcement_posted_def holds_announcement_def posted_def
        announcement_of_update split: if_splits option.splits)
  from posted_table.run_kept [OF assms(3,2) this] have "posted q2 k = Some clock" by blast
  then show ?thesis by (auto simp: posted_def claim_pr_announcement_def split: option.splits)
qed

section \<open>Notices\<close>

lemma notice_attempts_append:
  "notice_attempts (append_exec_event i e c x q) tid kind =
     notice_attempts q tid kind + (if i = tid \<and> e = ''coordinator_notice'' \<and> x = Some kind then 1 else 0)"
  by (simp add: notice_attempts_def append_exec_event_def)

text \<open>Claims (\<open>None\<close>) and deliveries of a notice in any order; the number of claims granted.\<close>

fun notice_run :: "string \<Rightarrow> string \<Rightarrow> (time \<times> bool option) list \<Rightarrow> queue \<Rightarrow> nat \<times> queue" where
  "notice_run tid kind [] q = (0, q)"
| "notice_run tid kind ((clock, None) # xs) q =
     (let (granted, q1) = claim_coordinator_notice clock q tid kind; (n, q2) = notice_run tid kind xs q1
      in ((if granted then n + 1 else n), q2))"
| "notice_run tid kind ((clock, Some delivered) # xs) q =
     notice_run tid kind xs (snd (finish_coordinator_notice clock q tid kind delivered))"

lemma claim_notice_attempts:
  assumes "claim_coordinator_notice clock q tid kind = (b, q1)"
  shows "notice_attempts q1 tid kind = notice_attempts q tid kind + (if b then 1 else 0)
    \<and> (b \<longrightarrow> notice_attempts q tid kind < notice_max_attempts)"
  using assms by (auto simp: claim_coordinator_notice_def notice_attempts_append split: if_splits option.splits)

lemma finish_notice_attempts:
  "notice_attempts (snd (finish_coordinator_notice clock q tid kind d)) tid kind = notice_attempts q tid kind"
  by (simp add: finish_coordinator_notice_def notice_attempts_append Let_def)

text \<open>
  Of one kind of notice about one task at most three are sent, however claims and deliveries,
  failed or not, are interleaved.
\<close>

theorem notices_bounded:
  "fst (notice_run tid kind xs q) \<le> notice_max_attempts - notice_attempts q tid kind"
proof (induction tid kind xs q rule: notice_run.induct)
  case (2 tid kind clock xs q)
  obtain b q1 where c: "claim_coordinator_notice clock q tid kind = (b, q1)" by fastforce
  have "fst (notice_run tid kind xs q1) \<le> notice_max_attempts - notice_attempts q1 tid kind"
    using 2 [of "(b, q1)" b q1] c by simp
  with claim_notice_attempts [OF c] show ?case by (auto simp: c split: prod.split)
qed (simp_all add: finish_notice_attempts)

text \<open>
  A delivered notice does not stay closed: when an earlier attempt, taken for lost, reports its
  failure after the delivery, the next claim is granted and the coordinator is told again.
\<close>

theorem late_failure_reopens_notice:
  assumes "notice_attempts q tid kind < notice_max_attempts"
  shows "fst (claim_coordinator_notice clock3
     (snd (finish_coordinator_notice clock2 (snd (finish_coordinator_notice clock1 q tid kind True)) tid kind False)) tid kind)"
proof -
  let ?q1 = "append_exec_event tid ''coordinator_notice_delivered'' clock1 (Some kind) q"
  let ?q2 = "append_exec_event tid ''coordinator_notice_failed'' clock2 (Some kind) ?q1"
  have n: "notice_attempts ?q2 tid kind = notice_attempts q tid kind" by (simp add: notice_attempts_append)
  have "snd (finish_coordinator_notice clock2 (snd (finish_coordinator_notice clock1 q tid kind True)) tid kind False) = ?q2"
    using assms n by (simp add: finish_coordinator_notice_def Let_def)
  moreover have "latest_notice ?q2 tid kind =
      Some \<lparr>xe_task_id = tid, xe_event = ''coordinator_notice_failed'', xe_at = clock2, xe_field = Some kind\<rparr>"
    by (simp add: latest_notice_def append_exec_event_def about_notice_def notice_events_def)
  ultimately show ?thesis using assms n by (simp add: claim_coordinator_notice_def notice_closed_def)
qed

section \<open>Replays\<close>

text \<open>
  A continuation is replayed only for a task that is there, neither cancelled nor superseded,
  young enough or owing a merge; its pull request, if it names one, is neither merged nor closed, and open
  unless a merge is owed; and an owed merge is replayed only at the head it was refused at.
\<close>

theorem replay_only_live:
  assumes "replay_disposition clock max_age q r result_pr st repo head = Replay"
  shows "\<exists>t. task_of q (ob_task_id r) = Some t \<and> tk_status t \<noteq> Cancelled \<and> \<not> superseding_review q (ob_task_id r)
    \<and> ob_created_at r \<le> clock \<and> (clock - ob_created_at r \<le> max_age \<or> owed_of r (tk_context t) \<noteq> None)
    \<and> (json_truthy (replay_pr result_pr t) \<longrightarrow>
         repo \<noteq> [] \<and> st \<noteq> Pr_Merged \<and> st \<noteq> Pr_Closed \<and> (st = Pr_Open \<or> owed_of r (tk_context t) \<noteq> None)
         \<and> (\<forall>kvs. owed_of r (tk_context t) = Some kvs \<and> json_truthy (given kvs ''head_sha'') \<longrightarrow> given kvs ''head_sha'' = JStr head))"
proof -
  obtain t where t: "task_of q (ob_task_id r) = Some t"
    using assms by (auto simp: replay_disposition_def Let_def split: if_splits option.splits)
  have "pr_disposition st repo head owed = Replay \<Longrightarrow>
      repo \<noteq> [] \<and> st \<noteq> Pr_Merged \<and> st \<noteq> Pr_Closed \<and> (st = Pr_Open \<or> owed \<noteq> None)
         \<and> (\<forall>kvs. owed = Some kvs \<and> json_truthy (given kvs ''head_sha'') \<longrightarrow> given kvs ''head_sha'' = JStr head)" for owed
    by (cases st) (auto simp: pr_disposition_def split: if_splits option.splits)
  with t assms show ?thesis
    by (auto simp: replay_disposition_def Let_def split: if_splits)
qed

section \<open>Checks\<close>

lemma newest_runs_props:
  "distinct (map cr_name acc) \<Longrightarrow>
     set (newest_runs acc rs) \<subseteq> set acc \<union> set rs
     \<and> (\<forall>r \<in> set acc \<union> set rs. \<exists>s \<in> set (newest_runs acc rs). cr_name s = cr_name r \<and> cr_run r \<le> cr_run s)"
proof (induction acc rs rule: newest_runs.induct)
  case (2 acc r rs)
  show ?case
  proof (cases "row_of cr_name (cr_name r) acc")
    case None
    then have "distinct (map cr_name (acc @ [r]))" using 2(3) by (auto simp: row_of_None_iff)
    from 2(1) [OF None this] None show ?thesis by auto
  next
    case (Some b)
    let ?acc = "if cr_run b < cr_run r then map (\<lambda>a. if cr_name a = cr_name r then r else a) acc else acc"
    have b: "b \<in> set acc" "cr_name b = cr_name r" using row_of_SomeD [OF Some] by blast+
    have names: "map cr_name ?acc = map cr_name acc" by simp
    have only: "a = b" if "a \<in> set acc" "cr_name a = cr_name r" for a
      using that b 2(3) by (metis row_of_distinct option.inject)
    have best: "\<exists>s \<in> set ?acc. cr_name s = cr_name r \<and> cr_run b \<le> cr_run s \<and> cr_run r \<le> cr_run s"
    proof (cases "cr_run b < cr_run r")
      case True
      with b have "r \<in> set ?acc" by (auto simp: image_iff)
      with True show ?thesis by (intro bexI [of _ r]) simp_all
    next
      case False
      with b show ?thesis by (intro bexI [of _ b]) simp_all
    qed
    have up: "\<exists>s \<in> set ?acc. cr_name s = cr_name a \<and> cr_run a \<le> cr_run s" if "a \<in> insert r (set acc)" for a
    proof (cases "cr_name a = cr_name r")
      case True
      with that only have "a = r \<or> a = b" by blast
      moreover from best obtain s where "s \<in> set ?acc" "cr_name s = cr_name r" "cr_run b \<le> cr_run s" "cr_run r \<le> cr_run s"
        by blast
      ultimately show ?thesis using b(2) by (intro bexI [of _ s]) auto
    next
      case False
      with that have "a \<in> set acc" by auto
      with False have "a \<in> set ?acc" by (auto simp: image_iff)
      then show ?thesis by blast
    qed
    have "distinct (map cr_name ?acc)" using 2(3) unfolding names .
    note ih = 2(2) [OF Some this]
    have eq: "newest_runs acc (r # rs) = newest_runs ?acc rs" by (simp add: Some)
    have dom: "\<exists>s \<in> set (newest_runs ?acc rs). cr_name s = cr_name c \<and> cr_run c \<le> cr_run s" if "c \<in> set ?acc \<union> set rs" for c
      using ih that by blast
    have "\<exists>s \<in> set (newest_runs ?acc rs). cr_name s = cr_name a \<and> cr_run a \<le> cr_run s"
      if "a \<in> set acc \<union> set (r # rs)" for a
    proof (cases "a \<in> set rs")
      case False
      with that up obtain s1 where "s1 \<in> set ?acc" "cr_name s1 = cr_name a" "cr_run a \<le> cr_run s1" by fastforce
      moreover from dom [of s1] this(1) obtain s where "s \<in> set (newest_runs ?acc rs)" "cr_name s = cr_name s1" "cr_run s1 \<le> cr_run s"
        by blast
      ultimately show ?thesis by (intro bexI [of _ s]) simp_all
    qed (use ih in blast)
    moreover have "set ?acc \<subseteq> insert r (set acc)" by auto
    ultimately show ?thesis using ih unfolding eq by auto
  qed
qed auto

definition run_clean :: "check_run \<Rightarrow> bool" where
  "run_clean r \<longleftrightarrow> cr_conclusion r = Some ''skipped''
     \<or> (cr_run_status r = ''completed'' \<and> cr_conclusion r \<in> {Some ''success'', Some ''neutral''})"

text \<open>
  The checks of a head count as green or none only if they could be read and, for every check
  that ran, a run at least as new was skipped or completed with success or neutrally.
\<close>

theorem clean_checks:
  assumes "head_checks_state reply = Ci_Green \<or> head_checks_state reply = Ci_None"
  shows "\<exists>rs ss. reply = Some (rs, ss)
    \<and> (\<forall>r \<in> set rs. \<exists>s \<in> set rs. cr_name s = cr_name r \<and> cr_run r \<le> cr_run s \<and> run_clean s)"
proof -
  obtain rs ss where reply: "reply = Some (rs, ss)" using assms by (cases reply) (auto simp: head_checks_state_def)
  have "\<not> run_failed s \<and> \<not> run_unfinished s" if "s \<in> set (newest_runs [] rs)" "cr_conclusion s \<noteq> Some ''skipped''" for s
    using assms that
    by (cases "cr_never_started s")
      (auto simp: reply head_checks_state_def checks_verdict_def Let_def list_ex_iff split: if_splits)
  then have clean: "run_clean s" if "s \<in> set (newest_runs [] rs)" for s
    using that by (auto simp: run_unfinished_def run_clean_def)
  from newest_runs_props [of "[]" rs] clean reply show ?thesis by fastforce
qed

section \<open>A merge that goes through\<close>

definition sample_sha :: string where
  "sample_sha = replicate 40 CHR ''a''"

definition merge_context :: "string \<Rightarrow> task_context" where
  "merge_context parent =
     blank_context\<lparr>tc_prev_task_id := Some parent,
        tc_more := [(''pr_number'', JInt 7), (''reviewed_sha'', JStr sample_sha)]\<rparr>"

definition merge_implement :: task_row where
  "merge_implement = sample_task ''i1'' ''implement'' Completed"

definition merge_review :: task_row where
  "merge_review = (sample_task ''r1'' ''review'' Completed)\<lparr>tk_context := merge_context ''i1'', tk_verdict := Some ''approve''\<rparr>"

definition merge_test :: task_row where
  "merge_test = (sample_task ''s1'' ''test'' Completed)\<lparr>tk_context := merge_context ''r1'', tk_pr_number := Some 7,
     tk_error_info := Some (JObj [(''script_test'', JObj [(''outcome'', JStr ''PASSED''), (''head_sha'', JStr sample_sha)])])\<rparr>"

definition merge_queue :: queue where
  "merge_queue = sample_queue [merge_implement, merge_review, merge_test]"

definition sample_gate :: gate_run where
  "sample_gate =
     \<lparr>gr_configured = True, gr_head = sample_sha, gr_evidence = True, gr_receipt_matches = False, gr_exit = Some 0,
      gr_reported = ''ALLOW'', gr_receipt_error = False, gr_receipt_written = True, gr_path = ''p'', gr_sha = ''s''\<rparr>"

definition sample_github :: "bool \<Rightarrow> github" where
  "sample_github ok =
     \<lparr>gh_repo = ''o/r'', gh_head = sample_sha, gh_pr_state = Pr_Open, gh_gate = sample_gate,
      gh_approval_head = sample_sha, gh_published = True, gh_status_ok = True, gh_checks = Some ([], []),
      gh_merge_ok = ok, gh_notice_delivered = True\<rparr>"

definition sample_merge :: merge_request where
  "sample_merge = \<lparr>mq_pr = 7, mq_review = ''r1'', mq_test = ''s1'', mq_left_to_coordinator = False\<rparr>"

definition sample_agents :: "string \<Rightarrow> string option" where
  "sample_agents i = (if i = ''i1'' then Some ''codex'' else if i = ''r1'' then Some ''claude'' else None)"

lemma sample_sha_facts:
  "sample_sha \<noteq> []" "full_sha (JStr sample_sha) = Some sample_sha" "sample_sha \<noteq> ''unknown''"
  by code_simp+

lemma merge_rows [simp]:
  "tk_id merge_implement = ''i1''" "tk_id merge_review = ''r1''" "tk_id merge_test = ''s1''"
  "tk_type merge_implement = ''implement''" "tk_type merge_review = ''review''" "tk_type merge_test = ''test''"
  "tk_status merge_implement = Completed" "tk_status merge_review = Completed" "tk_status merge_test = Completed"
  "tk_context merge_implement = blank_context" "tk_context merge_review = merge_context ''i1''"
  "tk_context merge_test = merge_context ''r1''" "tk_verdict merge_review = Some ''approve''"
  "tk_pr_number merge_review = None" "tk_pr_number merge_test = Some 7" "tk_description merge_implement = ''d''"
  by (simp_all add: merge_implement_def merge_review_def merge_test_def sample_task_def)

lemma merge_context_keys [simp]:
  "ctx_key (merge_context p) ''pr_number'' = JInt 7" "ctx_key (merge_context p) ''reviewed_sha'' = JStr sample_sha"
  "tc_prev_task_id (merge_context p) = Some p" "tc_prev_task_id blank_context = None" "tc_more blank_context = []"
  by (simp_all add: merge_context_def ctx_key_def blank_context_def)

definition gated_implement :: task_row where
  "gated_implement = merge_implement\<lparr>tk_context := set_key ''conformance_gate'' (gate_record sample_gate 7) blank_context\<rparr>"

definition gated_queue :: "external_op list \<Rightarrow> queue" where
  "gated_queue os = (sample_queue [gated_implement, merge_review, merge_test])\<lparr>q_ops := os\<rparr>"

lemma calm_reconcile: "reconcile_pause_signal clock calm (sample_switch ACTIVE) = (ACTIVE, sample_switch ACTIVE)"
  by (simp add: reconcile_pause_signal_def pausejson_signal_def is_paused_def Let_def)

definition fresh_merge :: external_op where
  "fresh_merge = new_op 9 (merge_key 7) (Some 7) 0"

lemma fresh_merge_simps [simp]:
  "eo_key fresh_merge = merge_key 7" "eo_state fresh_merge = Op_Reserved" "eo_attempt fresh_merge = 0"
  by (simp_all add: fresh_merge_def new_op_def)

lemma merge_queue_simps [simp]:
  "q_switch merge_queue = sample_switch ACTIVE" "q_ops merge_queue = []"
  "q_tasks merge_queue = [merge_implement, merge_review, merge_test]" "op_of merge_queue k = None"
  by (simp_all add: merge_queue_def sample_queue_def op_of_def)

lemma sample_github_simps [simp]:
  "gh_repo (sample_github ok) = ''o/r''" "gh_head (sample_github ok) = sample_sha" "known_head (sample_github ok) = sample_sha"
  "gh_pr_state (sample_github ok) = Pr_Open" "gh_gate (sample_github ok) = sample_gate"
  "gh_approval_head (sample_github ok) = sample_sha" "gh_published (sample_github ok)" "gh_status_ok (sample_github ok)"
  "gh_checks (sample_github ok) = Some ([], [])"
  "gh_merge_ok (sample_github ok) = ok"
  by (simp_all add: sample_github_def known_head_def)

lemma sample_merge_simps [simp]:
  "mq_pr sample_merge = 7" "mq_review sample_merge = ''r1''" "mq_test sample_merge = ''s1''" "\<not> mq_left_to_coordinator sample_merge"
  by (simp_all add: sample_merge_def)

lemma sample_entry:
  "merge_entry 9 calm (sample_github ok) sample_merge merge_queue = (Inr fresh_merge, merge_queue\<lparr>q_ops := [fresh_merge]\<rparr>)"
proof -
  have "external_op_reserve 9 calm merge_queue (merge_key 7) (Some 7) = (Reserved True fresh_merge, merge_queue\<lparr>q_ops := [fresh_merge]\<rparr>)"
    by (simp add: external_op_reserve_def calm_reconcile fresh_merge_def merge_queue_def sample_queue_def op_of_def)
  moreover have "external_op_reset_failed_head (merge_queue\<lparr>q_ops := [fresh_merge]\<rparr>) (merge_key 7) sample_sha
      = (Some fresh_merge, merge_queue\<lparr>q_ops := [fresh_merge]\<rparr>)"
    by (simp add: external_op_reset_failed_head_def op_of_def)
  ultimately show ?thesis by (simp add: merge_entry_def merge_receipt_def)
qed

lemma sample_gated: "conformance_gate_allows_merge sample_gate 7 merge_implement (merge_queue\<lparr>q_ops := os\<rparr>) = (True, gated_queue os)"
proof -
  have "\<not> gate_in_error sample_gate" "gr_configured sample_gate" "recorded_verdict sample_gate 7 blank_context = None"
    by (simp_all add: gate_in_error_def sample_gate_def sample_sha_facts recorded_verdict_def ctx_key_def)
  moreover from this have "run_allows sample_gate" by (simp add: run_allows_def gate_verdict_def sample_gate_def)
  moreover have "patch_context (merge_queue\<lparr>q_ops := os\<rparr>) ''i1'' [(''conformance_gate'', gate_record sample_gate 7)] = Some (gated_queue os)"
    by (simp add: patch_context_def task_of_def update_task_def gated_queue_def merge_queue_def sample_queue_def set_key_def
        gated_implement_def)
  ultimately show ?thesis by (simp add: conformance_gate_allows_merge_def)
qed

lemma gated_queue_simps [simp]:
  "q_tasks (gated_queue os) = [gated_implement, merge_review, merge_test]" "q_ops (gated_queue os) = os"
  "tk_id gated_implement = ''i1''" "tk_type gated_implement = ''implement''"
  by (simp_all add: gated_queue_def sample_queue_def gated_implement_def)

lemma sample_families: "provider_family ''claude'' \<noteq> provider_family ''codex''"
  by code_simp

lemma sample_evidence:
  "merge_evidence 9 (sample_github ok) sample_agents sample_merge (merge_queue\<lparr>q_ops := os\<rparr>) = (Inr sample_sha, gated_queue os)"
proof -
  have "lineage_root (merge_queue\<lparr>q_ops := os\<rparr>) [''r1''] merge_review
      = lineage_root (merge_queue\<lparr>q_ops := os\<rparr>) [''i1'', ''r1''] merge_implement"
    by (subst lineage_root.simps) (simp add: task_of_def)
  also have "\<dots> = merge_implement" by (subst lineage_root.simps) simp
  finally have root: "implement_of (merge_queue\<lparr>q_ops := os\<rparr>) ''r1'' = Some merge_implement"
    by (simp add: implement_of_def task_of_def)
  have latest: "latest_completed_review (gated_queue os) 7 = Some merge_review"
    by (simp add: latest_completed_review_def same_number_text_def same_int_def)
  have "lineage_parent_id (merge_context ''i1'') = Some ''i1''"
    by (simp add: lineage_parent_id_def List.map_filter_simps)
  then have "implement_above 10 (gated_queue os) [''r1''] merge_review = Some ''i1''"
    by (simp add: task_of_def eval_nat_numeral)
  with latest sample_families have r: "independent_review_for_head sample_agents (gated_queue os) 7 sample_sha ''r1'' = Inr (''claude'', merge_review)"
    by (simp add: independent_review_for_head_def sample_sha_facts sample_agents_def)
  have "context_head (merge_context p) = JStr sample_sha" for p
    by (simp add: context_head_def sample_sha_facts Let_def)
  then have "test_pass_for_head (gated_queue os) ''r1'' 7 sample_sha"
    by (simp add: test_pass_for_head_def task_of_def sample_sha_facts same_int_def passed_on_def)
      (simp add: script_record_def merge_test_def)
  with root sample_gated r show ?thesis
    by (simp add: merge_evidence_def Let_def)
qed

definition merged_queue :: queue where
  "merged_queue = external_op_mark 9 (merge_key 7) Op_Done None False (gated_queue [fresh_merge])"

lemma sample_merged:
  "auto_merge_pr 9 calm (sample_github True) sample_agents sample_merge merge_queue = (Merge_Ran True, merged_queue)"
  by (simp add: auto_merge_pr_def sample_entry sample_evidence merge_finish_def head_checks_state_def checks_verdict_def
      merged_queue_def Let_def)

theorem merge_needs_every_gate_witness:
  "approved_at sample_agents merged_queue 7 sample_sha ''r1'' \<and> list_ex (passed_on ''r1'' 7 sample_sha) (q_tasks merged_queue)"
  using merge_needs_every_gate [OF sample_merged] by simp

lemma merged_unique: "unique_tasks merged_queue"
  by (simp add: merged_queue_def unique_tasks_def external_op_mark_def update_op_def)

theorem merged_once_witness:
  "\<exists>b. fst (auto_merge_pr 10 calm (sample_github True) sample_agents sample_merge merged_queue) \<in> {Merge_Stopped b, Merged_Before}"
  using merged_once [OF merged_unique sample_merged rtranclp.rtrancl_refl refl] by blast

theorem failing_merges_bounded_witness:
  "failed_merges (fst (merge_attempts (replicate 9 (9, calm, sample_github False, sample_agents, sample_merge)) merge_queue)) \<le> 3"
  by (rule failing_merges_bounded [of 7 sample_sha]) (simp_all add: list_all_iff aims_at_def sample_sha_facts)

definition failed_merge :: external_op where
  "failed_merge = fresh_merge\<lparr>eo_state := Op_Failed, eo_attempt := 3, eo_error := Some (Head_Error ''unknown'' State_Unknown)\<rparr>"

definition failed_queue :: queue where
  "failed_queue = merge_queue\<lparr>q_ops := [failed_merge]\<rparr>"

theorem unknown_head_renews_attempts_witness:
  "\<exists>o2 q'. merge_entry 9 calm (sample_github True) sample_merge failed_queue = (Inr o2, q') \<and> eo_attempt o2 = 0
     \<and> eo_state o2 = Op_Reserved"
proof -
  have "op_of failed_queue (merge_key 7) = Some failed_merge" "eo_state failed_merge = Op_Failed"
    "eo_error failed_merge = Some (Head_Error ''unknown'' State_Unknown)" "q_switch failed_queue = sample_switch ACTIVE"
    by (simp_all add: failed_queue_def failed_merge_def op_of_def)
  with unknown_head_renews_attempts [of failed_queue sample_merge failed_merge State_Unknown "sample_github True" 9 calm]
  show ?thesis by (simp add: sample_sha_facts calm_reconcile)
qed

definition owing_queue :: queue where
  "owing_queue = merge_queue\<lparr>q_switch := sample_switch STOPPED,
     q_outbox := [\<lparr>ob_task_id = ''s1'', ob_task_type = ''test'', ob_result = ''j'', ob_stop_epoch = 0, ob_state = Applied,
        ob_attempt = None, ob_lease_owner = None, ob_lease_expires_at = None, ob_created_at = 5\<rparr>]\<rparr>"

theorem stop_keeps_merge_owed_witness:
  "fst (auto_merge_pr 9 calm (sample_github True) sample_agents sample_merge owing_queue) = Merge_Stopped True"
proof -
  have "fst (reconcile_pause_signal 9 calm (q_switch owing_queue)) \<noteq> ACTIVE"
    by (simp add: owing_queue_def reconcile_pause_signal_def pausejson_signal_def is_paused_def Let_def)
  moreover have "task_of owing_queue ''s1'' = Some merge_test" "reopenable owing_queue ''s1''"
    by (simp_all add: owing_queue_def task_of_def reopenable_def outbox_of_def)
  ultimately show ?thesis
    using stop_keeps_merge_owed [of 9 calm owing_queue sample_merge merge_test "sample_github True" sample_agents] by auto
qed

theorem superseded_replay_settles_nothing_witness:
  "outbox_mark_applied (snd (outbox_claim 9 (owing_queue\<lparr>q_outbox := map (released_row Owed) (q_outbox owing_queue)\<rparr>)
      ''s1'' ''b'' ''u'' None)) ''s1'' ''a''
    = (False, snd (outbox_claim 9 (owing_queue\<lparr>q_outbox := map (released_row Owed) (q_outbox owing_queue)\<rparr>) ''s1'' ''b'' ''u'' None))"
proof -
  let ?q = "owing_queue\<lparr>q_outbox := map (released_row Owed) (q_outbox owing_queue)\<rparr>"
  obtain row where "outbox_claim 9 ?q ''s1'' ''b'' ''u'' None = (Some row, snd (outbox_claim 9 ?q ''s1'' ''b'' ''u'' None))"
    by (simp add: outbox_claim_def outbox_of_def owing_queue_def released_row_def outbox_claimable_def update_outbox_def
        leased_row_def Let_def)
  from superseded_replay_settles_nothing [OF this replay_lease.run.idle [of "{}"], of "''a''"] show ?thesis by simp
qed

definition told :: "string option \<times> queue" where
  "told = claim_pr_announcement 9 merge_queue (7, ''fix'') ''w'' ''u'' 300"

lemma told_claimed: "claim_pr_announcement 9 merge_queue (7, ''fix'') ''w'' ''u'' 300 = (Some ''u'', snd told)"
  by (simp add: told_def claim_pr_announcement_def announcement_of_def merge_queue_def sample_queue_def)

theorem taken_over_worker_silenced_witness: "\<not> owns_pr_announcement (snd told) (7, ''fix'') ''slow''"
  using taken_over_worker_silenced [OF told_claimed announcement_lease.run.idle [of "{}"], of "''slow''"] by simp

theorem posted_notice_stays_witness:
  "posted (snd (mark_pr_announcement_posted 10 (snd told) (7, ''fix'') ''u'')) (7, ''fix'') = Some 10"
proof -
  have "mark_pr_announcement_posted 10 (snd told) (7, ''fix'') ''u''
      = (True, snd (mark_pr_announcement_posted 10 (snd told) (7, ''fix'') ''u''))"
    by (simp add: mark_pr_announcement_posted_def holds_announcement_def told_def claim_pr_announcement_def
        announcement_of_def merge_queue_def sample_queue_def)
  moreover have "unique_tasks (snd (mark_pr_announcement_posted 10 (snd told) (7, ''fix'') ''u''))"
    by (simp add: unique_tasks_def told_def mark_pr_announcement_posted_def update_announcement_def
        claim_pr_announcement_def announcement_of_def merge_queue_def sample_queue_def)
  ultimately show ?thesis using posted_notice_stays [OF _ _ rtranclp.rtrancl_refl] by blast
qed

theorem late_failure_reopens_notice_witness:
  "fst (claim_coordinator_notice 12
     (snd (finish_coordinator_notice 11 (snd (finish_coordinator_notice 10 merge_queue ''s1'' ''k'' True)) ''s1'' ''k'' False)) ''s1'' ''k'')"
  by (rule late_failure_reopens_notice)
    (simp add: notice_attempts_def notice_max_attempts_def merge_queue_def sample_queue_def)

theorem replay_only_live_witness:
  "task_of merge_queue ''s1'' = Some merge_test \<and> \<not> superseding_review merge_queue ''s1''"
proof -
  have "replay_disposition 9 100 merge_queue (hd (q_outbox owing_queue)) None Pr_Open ''o/r'' sample_sha = Replay"
    by (simp add: replay_disposition_def owing_queue_def task_of_def owed_of_def superseding_review_def replay_pr_def
        json_of_int_def pr_disposition_def Let_def)
      (simp add: merge_context_def ctx_key_def blank_context_def)
  from replay_only_live [OF this] show ?thesis by (simp add: owing_queue_def task_of_def)
qed

theorem clean_checks_witness: "run_clean \<lparr>cr_name = ''ci'', cr_run = 1, cr_conclusion = Some ''success'', cr_run_status = ''completed'', cr_never_started = False\<rparr>"
proof -
  let ?r = "\<lparr>cr_name = ''ci'', cr_run = 1, cr_conclusion = Some ''success'', cr_run_status = ''completed'', cr_never_started = False\<rparr>"
  have "head_checks_state (Some ([?r], [])) = Ci_Green"
    by (simp add: head_checks_state_def checks_verdict_def run_failed_def run_unfinished_def Let_def)
  with clean_checks [of "Some ([?r], [])"] show ?thesis by simp
qed

end
