(* ===== verification/Artifact_Safety.thy ===== *)
theory Artifact_Safety
  imports Queue_Safety Artifacts
begin

text \<open>
  What an accepted artifact proves. Both contracts that hand in a commit, the plain one and the rebase,
  meet one interface: the commit resolves, stands above a floor it is not, and is pushed.
\<close>

section \<open>Answers of git\<close>

definition below :: "checkout \<Rightarrow> string \<Rightarrow> string \<Rightarrow> bool" where
  "below g a b \<longleftrightarrow> (\<exists>out. g_ancestor g a b = Exited True out)"

definition resolves :: "checkout \<Rightarrow> string \<Rightarrow> bool" where
  "resolves g c \<longleftrightarrow> (\<exists>out. g_resolve g c = Exited True out)"

definition pinned :: "checkout \<Rightarrow> string \<Rightarrow> bool" where
  "pinned g c \<longleftrightarrow> (\<exists>pr kvs. g_pr_view g pr = View (JObj kvs) \<and> map_of kvs ''state'' = Some (JStr ''OPEN'')
     \<and> map_of kvs ''headRefOid'' = Some (JStr c))"

text \<open>
  What git documents of its answers: ancestry is transitive, a merge base is an ancestor of both commits,
  and the commit a reference resolves to is an ancestor of that reference.
\<close>

definition git_laws :: "checkout \<Rightarrow> bool" where
  "git_laws g \<longleftrightarrow>
     (\<forall>a b c. below g a b \<and> below g b c \<longrightarrow> below g a c)
     \<and> (\<forall>a b out. g_merge_base g a b = Exited True out \<longrightarrow> below g (py_strip out) a)
     \<and> (\<forall>a out. g_resolve g a = Exited True out \<longrightarrow> below g (py_strip out) a)"

lemma below_trans: "git_laws g \<Longrightarrow> below g a b \<Longrightarrow> below g b c \<Longrightarrow> below g a c"
  unfolding git_laws_def by blast

lemma merge_base_below: "git_laws g \<Longrightarrow> g_merge_base g a b = Exited True out \<Longrightarrow> below g (py_strip out) a"
  unfolding git_laws_def by blast

lemma resolve_below: "git_laws g \<Longrightarrow> g_resolve g a = Exited True out \<Longrightarrow> below g (py_strip out) a"
  unfolding git_laws_def by blast

named_theorems verdicts \<open>when a verification accepts\<close>

lemma call_accepts [verdicts]:
  "call c p k = (True, d, x) \<longleftrightarrow> (\<exists>s out. p = Exited s out \<and> k s (py_strip out) = (True, d, x))"
  by (cases p) (simp_all add: call_def refused_def)

lemma refused_accepts [verdicts]: "refused e c \<noteq> (True, d, x)"
  by (simp add: refused_def)

lemma accepted_accepts [verdicts]: "accepted e c = (True, d, x) \<longleftrightarrow> e = d \<and> c = x"
  by (simp add: accepted_def)

lemma if_accepts [verdicts]:
  "(if b then refused e c else v) = (True, d, x) \<longleftrightarrow> \<not> b \<and> v = (True, d, x)"
  "(if b then v else refused e c) = (True, d, x) \<longleftrightarrow> b \<and> v = (True, d, x)"
  by (simp_all add: refused_def)

lemma call_guard:
  "call c p (\<lambda>s out. if \<not> s then refused (e s out) c' else k s out) = (True, d, x)
     \<longleftrightarrow> (\<exists>out. p = Exited True out \<and> k True (py_strip out) = (True, d, x))"
  by (auto simp: verdicts)

lemma call_guard2:
  "call c p (\<lambda>s out. call c' (p' out) (\<lambda>s' out'. if \<not> s \<or> \<not> s' then refused (e s out s' out') c'' else k out out')) = (True, d, x)
     \<longleftrightarrow> (\<exists>out out'. p = Exited True out \<and> p' (py_strip out) = Exited True out' \<and> k (py_strip out) (py_strip out') = (True, d, x))"
  by (auto simp: verdicts)

section \<open>The plain contract\<close>

lemma pinned_accepts: "pinned_by_pr g t r commit c = (True, d, x) \<Longrightarrow> x = c \<and> pinned g commit"
  unfolding pinned_by_pr_def pinned_def
  by (auto simp: verdicts split: option.splits pr_view.splits json.splits if_splits)

lemma implement_proof_accepts:
  assumes "implement_proof g t r fetched derived commit low tip c = (True, d, x)"
  shows "x = c \<and> commit \<noteq> low \<and> resolves g commit \<and> below g low commit
    \<and> (below g commit (origin (work_branch t r)) \<or> pinned g commit)"
proof -
  from assms obtain s where p: "commit \<noteq> low" "resolves g commit" "below g low commit"
    and e: "(if fetched then call c (g_ancestor g commit (origin (work_branch t r))) (\<lambda>reachable _.
               if reachable
               then accepted (Detail (''origin branch contains '' @ (if derived then ''derived'' else ''reported'') @ '' commit'')) c
               else pinned_by_pr g t r commit c)
             else pinned_by_pr g t r commit c) = (True, d, x)"
    unfolding implement_proof_def Let_def verdicts resolves_def below_def by auto
  show ?thesis
  proof (cases fetched)
    case True
    with e obtain reach out where a: "g_ancestor g commit (origin (work_branch t r)) = Exited reach out"
      and k: "(if reach then accepted (Detail (''origin branch contains '' @ (if derived then ''derived'' else ''reported'') @ '' commit'')) c
               else pinned_by_pr g t r commit c) = (True, d, x)"
      by (auto simp: call_accepts)
    show ?thesis
    proof (cases reach)
      case True
      with k a p show ?thesis by (auto simp: accepted_accepts below_def)
    next
      case False
      with k have "pinned_by_pr g t r commit c = (True, d, x)" by simp
      with p pinned_accepts show ?thesis by blast
    qed
  next
    case False
    with e have "pinned_by_pr g t r commit c = (True, d, x)" by simp
    with p pinned_accepts show ?thesis by blast
  qed
qed

lemma implement_floor_accepts:
  assumes "implement_floor g ctx c k = (True, d, x)"
  obtains low tip where "k low tip = (True, d, x)" "has_key ctx ''rebase_onto'' \<or> low = dispatch_base ctx"
proof (cases "has_key ctx ''rebase_onto''")
  case False
  with assms that show ?thesis by (simp add: implement_floor_def)
next
  case True
  with assms have "\<exists>low tip. k low tip = (True, d, x)"
    unfolding implement_floor_def Let_def by (auto simp: verdicts split: if_splits)
  with that True show ?thesis by blast
qed

text \<open>The commit a result stands for: the one it names, else the one derived.\<close>

definition named_commit :: "work_result \<Rightarrow> string \<Rightarrow> string" where
  "named_commit r c = (if py_strip (tr_commit r) = [] then c else py_strip (tr_commit r))"

lemma implement_commit_accepts:
  assumes "implement_commit g t r low tip = (True, d, c)"
  shows "low \<noteq> named_commit r c \<and> resolves g (named_commit r c) \<and> below g low (named_commit r c)
    \<and> (below g (named_commit r c) (origin (work_branch t r)) \<or> pinned g (named_commit r c))"
proof (cases "py_strip (tr_commit r) = []")
  case True
  with assms obtain fetched head where "implement_proof g t r fetched True head low tip head = (True, d, c)"
    by (auto simp: implement_commit_def Let_def verdicts)
  from implement_proof_accepts [OF this] True show ?thesis by (auto simp: named_commit_def)
next
  case False
  with assms obtain fetched where
    "implement_proof g t r fetched False (py_strip (tr_commit r)) low tip (tr_commit r) = (True, d, c)"
    by (auto simp: implement_commit_def Let_def verdicts)
  from implement_proof_accepts [OF this] False show ?thesis by (auto simp: named_commit_def)
qed

lemma implement_accepts:
  assumes "verify_implement_artifact g t r = (True, d, c)"
  obtains low where "low \<noteq> named_commit r c" "resolves g (named_commit r c)" "below g low (named_commit r c)"
    "has_key (tk_context t) ''rebase_onto'' \<or> low = dispatch_base (tk_context t)"
    "below g (named_commit r c) (origin (work_branch t r)) \<or> pinned g (named_commit r c)"
proof -
  from assms have "implement_floor g (tk_context t) (tr_commit r) (implement_commit g t r) = (True, d, c)"
    by (simp add: verify_implement_artifact_def Let_def verdicts)
  then show ?thesis using that implement_commit_accepts by (blast elim: implement_floor_accepts)
qed

section \<open>The rebase contract\<close>

lemma same_change_accepts:
  assumes "same_change g target branch source fork onto commit c = (True, d, x)"
  obtains olds news where "patch_ids g fork source = Inr (Some olds)" "patch_ids g onto commit = Inr (Some news)"
    "x = c" "news \<noteq> []" "None \<notin> set news"
    "news = known_ids olds
      \<or> (length news < length olds
          \<and> (\<exists>i. diff_patch_id g fork source = Inr (Some i) \<and> diff_patch_id g onto commit = Inr (Some i)))"
  using assms unfolding same_change_def
  by (auto simp: verdicts split: sum.splits option.splits if_splits)

lemma rebase_floor_accepts:
  assumes "rebase_floor g ps tip c k = (True, d, x)"
  shows "\<exists>low. k low = (True, d, x)"
  using assms by (induction ps) (auto simp: verdicts split: if_splits)

definition carries_change :: "checkout \<Rightarrow> string \<Rightarrow> string \<Rightarrow> string \<Rightarrow> bool" where
  "carries_change g source onto commit \<longleftrightarrow>
     (\<exists>fork olds news. g_merge_base g source onto = Exited True fork
        \<and> patch_ids g (py_strip fork) source = Inr (Some olds) \<and> patch_ids g onto commit = Inr (Some news)
        \<and> news \<noteq> [] \<and> None \<notin> set news
        \<and> (news = known_ids olds
           \<or> (length news < length olds
               \<and> (\<exists>i. diff_patch_id g (py_strip fork) source = Inr (Some i) \<and> diff_patch_id g onto commit = Inr (Some i)))))"

lemma rebase_content_accepts:
  assumes "rebase_content g target branch source onto commit c = (True, d, x)"
  shows "x = c \<and> carries_change g source onto commit"
proof -
  from assms obtain s out where "g_merge_base g source onto = Exited True out"
    "same_change g target branch source (py_strip out) onto commit c = (True, d, x)"
    by (auto simp: rebase_content_def verdicts)
  then show ?thesis by (auto simp: carries_change_def elim!: same_change_accepts)
qed

lemma rebase_placed_accepts:
  assumes "rebase_placed g ctx target branch source commit tip c = (True, d, x)"
  obtains low onto out where "g_merge_base g commit tip = Exited True out" "onto = py_strip out" "commit \<noteq> low"
    "commit \<noteq> tip" "commit \<noteq> onto" "below g low onto" "x = c" "carries_change g source onto commit"
proof -
  from rebase_floor_accepts [OF assms [unfolded rebase_placed_def]] obtain low shared out where
    m: "g_merge_base g commit tip = Exited shared out"
    and k: "commit \<noteq> tip" "commit \<noteq> low" "commit \<noteq> (if shared then py_strip out else [])"
      "(if shared then py_strip out else []) \<noteq> []" "below g low (if shared then py_strip out else [])"
      "rebase_content g target branch source (if shared then py_strip out else []) commit c = (True, d, x)"
    by (auto simp: verdicts Let_def below_def)
  then have "shared" by (auto split: if_splits)
  with m k rebase_content_accepts that show ?thesis by (metis (full_types))
qed

lemma rebase_submitted_accepts:
  assumes "rebase_submitted g t r target branch head tip commit c = (True, d, x)"
  shows "x = c" "resolves g commit" "commit = head \<or> below g commit head"
    "rebase_placed g (tk_context t) target branch (rebase_source (tk_context t)) commit tip c = (True, d, x)"
proof -
  let ?p = "rebase_placed g (tk_context t) target branch (rebase_source (tk_context t)) commit tip c"
  define p where "p = (if rebase_source (tk_context t) \<noteq> [] \<and> commit = rebase_source (tk_context t)
     then refused (Detail ''reported commit is the dispatch base (nothing was rewritten)'') c else ?p)"
  define q where "q = (if commit = head then p else call c (g_ancestor g commit head) (\<lambda>below _.
     if \<not> below then refused (Detail (''reported commit is not on the pushed branch origin/'' @ branch)) c else p))"
  have "rebase_submitted g t r target branch head tip commit c
      = call c (g_resolve g commit) (\<lambda>resolved _.
          if \<not> resolved then refused (Detail ''reported commit is not resolvable after fetching the pushed branch'') c else q)"
    unfolding rebase_submitted_def Let_def p_def [symmetric] q_def by (rule refl)
  with assms obtain out where r: "g_resolve g commit = Exited True out" and q: "q = (True, d, x)"
    by (auto simp only: call_accepts if_accepts not_not)
  have h: "(commit = head \<or> below g commit head) \<and> p = (True, d, x)"
  proof (cases "commit = head")
    case False
    with q show ?thesis by (auto simp: q_def call_accepts if_accepts below_def)
  qed (use q in \<open>simp add: q_def\<close>)
  then show p: "?p = (True, d, x)" by (simp add: p_def if_accepts)
  show "commit = head \<or> below g commit head" using h by blast
  show "x = c" using p by (auto elim: rebase_placed_accepts)
  show "resolves g commit" using r by (auto simp: resolves_def)
qed

lemma rebase_accepts:
  assumes "verify_rebase_artifact g t r = (True, d, c)"
  obtains head tip low onto out where
    "g_resolve g (origin (work_branch t r)) = Exited True head"
    "g_resolve g (origin (key_text (ctx_key (tk_context t) ''rebase_onto''))) = Exited True tip"
    "resolves g (named_commit r c)" "named_commit r c = py_strip head \<or> below g (named_commit r c) (py_strip head)"
    "g_merge_base g (named_commit r c) (py_strip tip) = Exited True out" "onto = py_strip out"
    "named_commit r c \<notin> {low, py_strip tip, onto}" "below g low onto"
    "carries_change g (rebase_source (tk_context t)) onto (named_commit r c)"
proof -
  let ?target = "key_text (ctx_key (tk_context t) ''rebase_onto'')" and ?branch = "work_branch t r"
  define sub where "sub head tip =
     (if py_strip (tr_commit r) = [] then rebase_submitted g t r ?target ?branch head tip head head
      else rebase_submitted g t r ?target ?branch head tip (py_strip (tr_commit r)) (tr_commit r))" for head tip
  have "verify_rebase_artifact g t r = (True, d, c)
      \<Longrightarrow> \<exists>head tip. g_resolve g (origin ?branch) = Exited True head \<and> g_resolve g (origin ?target) = Exited True tip
            \<and> sub (py_strip head) (py_strip tip) = (True, d, c)"
    by (simp only: verify_rebase_artifact_def Let_def sub_def [symmetric] if_accepts call_guard call_guard2)
      (elim conjE exE, intro exI conjI)
  with assms obtain head tip where
    refs: "g_resolve g (origin ?branch) = Exited True head" "g_resolve g (origin ?target) = Exited True tip"
    and sub: "sub (py_strip head) (py_strip tip) = (True, d, c)" by blast
  have "\<exists>x. rebase_submitted g t r ?target ?branch (py_strip head) (py_strip tip) (named_commit r c) x = (True, d, c)"
  proof (cases "py_strip (tr_commit r) = []")
    case True
    with sub have s: "rebase_submitted g t r ?target ?branch (py_strip head) (py_strip tip) (py_strip head) (py_strip head) = (True, d, c)"
      by (simp add: sub_def)
    from rebase_submitted_accepts(1) [OF this] True have "named_commit r c = py_strip head" by (simp add: named_commit_def)
    with s show ?thesis by auto
  next
    case False
    with sub show ?thesis by (auto simp: named_commit_def sub_def)
  qed
  then obtain x where
    s: "rebase_submitted g t r ?target ?branch (py_strip head) (py_strip tip) (named_commit r c) x = (True, d, c)" by blast
  from rebase_submitted_accepts(4) [OF s] obtain low onto out where
    "g_merge_base g (named_commit r c) (py_strip tip) = Exited True out" "onto = py_strip out"
    "named_commit r c \<noteq> low" "named_commit r c \<noteq> py_strip tip" "named_commit r c \<noteq> onto" "below g low onto"
    "carries_change g (rebase_source (tk_context t)) onto (named_commit r c)"
    by (rule rebase_placed_accepts)
  with that refs rebase_submitted_accepts(2,3) [OF s] show ?thesis by simp
qed

section \<open>The interface\<close>

text \<open>
  What the gate relies on for a contract that hands in a commit, and what follows of any such contract.
\<close>

text \<open>
  The names of commits are compared as texts: another name is another commit where both are the names git itself
  gives, and need not be otherwise.
\<close>

definition commit_at :: "checkout \<Rightarrow> string \<Rightarrow> string option" where
  "commit_at g x = (case g_resolve g x of Exited True out \<Rightarrow> Some (py_strip out) | _ \<Rightarrow> None)"

definition named_apart :: "checkout \<Rightarrow> string \<Rightarrow> string \<Rightarrow> bool" where
  "named_apart g a b \<longleftrightarrow> a \<noteq> b \<and> (commit_at g a = Some a \<and> commit_at g b = Some b \<longrightarrow> commit_at g a \<noteq> commit_at g b)"

lemma named_apart_iff [simp]: "named_apart g a b \<longleftrightarrow> a \<noteq> b"
  by (auto simp: named_apart_def)

definition stands_above :: "checkout \<Rightarrow> string \<Rightarrow> bool" where
  "stands_above g c \<longleftrightarrow> (\<exists>low. named_apart g low c \<and> below g low c)"

definition handed_over :: "checkout \<Rightarrow> task_row \<Rightarrow> work_result \<Rightarrow> string \<Rightarrow> bool" where
  "handed_over g t r c \<longleftrightarrow> below g c (origin (work_branch t r)) \<or> pinned g c"

locale work_contract =
  fixes verify :: "checkout \<Rightarrow> task_row \<Rightarrow> work_result \<Rightarrow> verified"
  assumes accepted_resolves: "verify g t r = (True, d, c) \<Longrightarrow> resolves g (named_commit r c)"
    and accepted_above: "git_laws g \<Longrightarrow> verify g t r = (True, d, c) \<Longrightarrow> stands_above g (named_commit r c)"
    and accepted_over: "git_laws g \<Longrightarrow> verify g t r = (True, d, c) \<Longrightarrow> handed_over g t r (named_commit r c)"
begin

text \<open>A commit nothing lies below, and one that is nowhere but in the worker's checkout, are refused.\<close>

lemma root_refused:
  assumes "git_laws g" and "\<And>a. below g a x \<Longrightarrow> a = x"
  shows "named_commit r c = x \<Longrightarrow> verify g t r \<noteq> (True, d, c)"
  using accepted_above [OF assms(1)] assms(2) by (fastforce simp: stands_above_def)

lemma unpushed_refused:
  assumes "git_laws g" and "\<not> below g x (origin (work_branch t r))" and "\<not> pinned g x"
  shows "named_commit r c = x \<Longrightarrow> verify g t r \<noteq> (True, d, c)"
  using accepted_over [OF assms(1)] assms(2,3) by (fastforce simp: handed_over_def)

lemma accepted_work:
  assumes "git_laws g" and "verify g t r = (True, d, c)"
  shows "resolves g (named_commit r c) \<and> stands_above g (named_commit r c) \<and> handed_over g t r (named_commit r c)"
  using accepted_resolves accepted_above accepted_over assms by blast

end

interpretation plain: work_contract verify_implement_artifact
  by unfold_locales (auto simp: stands_above_def handed_over_def elim!: implement_accepts)

lemma rebase_grows:
  assumes "git_laws g" and "verify_rebase_artifact g t r = (True, d, c)"
  shows "stands_above g (named_commit r c) \<and> handed_over g t r (named_commit r c)"
  using assms(2)
proof (cases rule: rebase_accepts)
  case (1 head tip low onto out)
  have onto: "below g onto (named_commit r c)" using merge_base_below [OF assms(1) 1(5)] 1(6) by simp
  have "below g low (named_commit r c)" by (rule below_trans [OF assms(1) 1(8) onto])
  moreover have head: "below g (py_strip head) (origin (work_branch t r))" by (rule resolve_below [OF assms(1) 1(1)])
  have "below g (named_commit r c) (origin (work_branch t r))"
    using 1(4) head below_trans [OF assms(1) _ head] by auto
  moreover have "low \<noteq> named_commit r c" using 1(7) by auto
  ultimately show ?thesis unfolding stands_above_def handed_over_def named_apart_iff by blast
qed

interpretation rebased: work_contract verify_rebase_artifact
  by unfold_locales (auto simp: rebase_grows elim!: rebase_accepts)

section \<open>What is accepted\<close>

text \<open>
  Claim C31: a task that hands in a commit, under the plain or the rebase contract, is accepted only when that commit
  exists, lies above a commit of another name, and is on the origin branch of the work or pinned by an open pull
  request; under the plain contract without a rebase target that lower commit is the dispatch base. Names differ as
  texts: two commits where both are spelled as git resolves them, but a respelled base counts as another commit.
\<close>

theorem proven_work_is_pushed:
  assumes "git_laws g" and "declared_artifact_kind (Some t) \<in> {None, Some ''commit'', Some ''rebase''}"
    and "verify_task_artifact sha256 parses g t r = (True, d, c)"
  shows "resolves g (named_commit r c) \<and> stands_above g (named_commit r c) \<and> handed_over g t r (named_commit r c)
    \<and> (declared_artifact_kind (Some t) \<noteq> Some ''rebase'' \<and> \<not> has_key (tk_context t) ''rebase_onto''
         \<longrightarrow> below g (dispatch_base (tk_context t)) (named_commit r c)
             \<and> named_apart g (dispatch_base (tk_context t)) (named_commit r c))"
proof -
  have which: "if declared_artifact_kind (Some t) = Some ''rebase'' then verify_rebase_artifact g t r = (True, d, c)
      else verify_implement_artifact g t r = (True, d, c)"
    using assms(2,3) by (auto simp: verify_task_artifact_def Let_def)
  have base: "below g (dispatch_base (tk_context t)) (named_commit r c)
      \<and> named_apart g (dispatch_base (tk_context t)) (named_commit r c)"
    if "verify_implement_artifact g t r = (True, d, c)" "\<not> has_key (tk_context t) ''rebase_onto''"
    using that by (auto elim!: implement_accepts)
  show ?thesis
  proof (cases "declared_artifact_kind (Some t) = Some ''rebase''")
    case True
    with which rebased.accepted_work [OF assms(1)] show ?thesis by auto
  next
    case False
    with which have v: "verify_implement_artifact g t r = (True, d, c)" by simp
    show ?thesis using plain.accepted_work [OF assms(1) v] base [OF v] by blast
  qed
qed

text \<open>
  An accepted rebase carries the dispatched change: the patch ids of its commits above the merge base are,
  one for one, those of the dispatched commits, or it squashes them into fewer with the same total change.
\<close>

lemma rebase_carries_change:
  assumes "verify_rebase_artifact g t r = (True, d, c)"
  obtains tip onto where "g_merge_base g (named_commit r c) tip = Exited True onto"
    "carries_change g (rebase_source (tk_context t)) (py_strip onto) (named_commit r c)"
  by (rule rebase_accepts [OF assms]) (use that in blast)

text \<open>
  Commits are compared as texts. The dispatch base itself, reported in another spelling that
  git reads as the same commit, is accepted as new work: it resolves, descends from the base, and is on
  the branch.
\<close>

definition same_commit :: "checkout \<Rightarrow> string \<Rightarrow> string \<Rightarrow> bool" where
  "same_commit g a b \<longleftrightarrow> g_resolve g a = g_resolve g b
     \<and> (\<forall>x. g_ancestor g a x = g_ancestor g b x \<and> g_ancestor g x a = g_ancestor g x b)"

theorem respelled_base_is_accepted:
  assumes "g_repo g \<noteq> []" and "work_branch t r \<noteq> []" and "\<not> has_key (tk_context t) ''rebase_onto''"
    and "dispatch_base (tk_context t) = base" and "base \<noteq> []" and "py_strip (tr_commit r) = other"
    and "other \<noteq> []" and "other \<noteq> base" and "same_commit g other base"
    and "resolves g base" and "below g base base" and "below g base (origin (work_branch t r))"
    and "g_fetch g (work_branch t r) = Exited True out"
  shows "fst (verify_implement_artifact g t r)"
proof -
  have same: "g_resolve g other = g_resolve g base" "\<And>x. g_ancestor g other x = g_ancestor g base x"
    "\<And>x. g_ancestor g x other = g_ancestor g x base"
    using assms(9) by (simp_all add: same_commit_def)
  obtain o1 o2 o3 where "g_resolve g base = Exited True o1" "g_ancestor g base base = Exited True o2"
    "g_ancestor g base (origin (work_branch t r)) = Exited True o3"
    using assms(10-12) by (auto simp: resolves_def below_def)
  then have "fst (implement_proof g t r True False other base [] (tr_commit r))"
    using assms(3,8) same by (simp add: implement_proof_def Let_def call_def accepted_def)
  then have "fst (implement_commit g t r base [])"
    using assms(6,7,13) by (simp add: implement_commit_def Let_def git_fetch_origin_def call_def)
  then show ?thesis using assms(1-5) by (simp add: verify_implement_artifact_def Let_def implement_floor_def)
qed

text \<open>
  With a rebase target the floor is the recorded base, so a commit that already stood on the
  target, above the base and below its tip, is accepted as the worker's when the reported branch is the
  target itself.
\<close>

theorem target_history_is_accepted:
  assumes "g_repo g \<noteq> []" and "has_key (tk_context t) ''rebase_onto''"
    and "key_text (ctx_key (tk_context t) ''rebase_onto'') = target" and "target \<noteq> []" and "work_branch t r = target"
    and "g_fetch g target = Exited True out" and "g_resolve g (origin target) = Exited True tip_out"
    and "tip = py_strip tip_out" and "tip \<noteq> []"
    and "dispatch_base (tk_context t) = base" and "base \<noteq> []" and "base \<noteq> tip" and "below g base tip"
    and "py_strip (tr_commit r) = old" and "old \<notin> {[], base, tip}" and "resolves g old"
    and "below g base old" and "below g old (origin target)"
  shows "fst (verify_implement_artifact g t r)"
proof -
  obtain o1 o2 o3 o4 where "g_ancestor g base tip = Exited True o1" "g_resolve g old = Exited True o2"
    "g_ancestor g base old = Exited True o3" "g_ancestor g old (origin target) = Exited True o4"
    using assms(13,16-18) by (auto simp: resolves_def below_def)
  then have "fst (implement_proof g t r True False old base tip (tr_commit r))"
    using assms(5,15) by (simp add: implement_proof_def Let_def call_def accepted_def)
  then have "fst (implement_commit g t r base tip)"
    using assms(5,6,14,15) by (simp add: implement_commit_def Let_def git_fetch_origin_def call_def)
  then show ?thesis
    using assms(1-13) \<open>g_ancestor g base tip = Exited True o1\<close>
    by (simp add: verify_implement_artifact_def Let_def implement_floor_def git_fetch_origin_def call_def)
qed

section \<open>A repository with one line of history\<close>

text \<open>Names and their places on the line; git reads an object id in either case.\<close>

definition place :: "(string \<times> nat) list \<Rightarrow> string \<Rightarrow> nat option" where
  "place names x = (case map_of names x of None \<Rightarrow> map_of names (py_lower x) | p \<Rightarrow> p)"

definition named_at :: "(string \<times> nat) list \<Rightarrow> nat \<Rightarrow> string" where
  "named_at names i = (case find (\<lambda>e. snd e = i) names of None \<Rightarrow> [] | Some e \<Rightarrow> fst e)"

definition line_git :: "(string \<times> nat) list \<Rightarrow> checkout" where
  "line_git names =
     \<lparr>g_repo = ''/repo'', g_main_branch = None, g_fetch = (\<lambda>_. Exited True []),
      g_resolve = (\<lambda>x. case place names x of None \<Rightarrow> Exited False [] | Some i \<Rightarrow> Exited True (named_at names i)),
      g_ancestor = (\<lambda>a b. case (place names a, place names b) of (Some i, Some j) \<Rightarrow> Exited (i \<le> j) [] | _ \<Rightarrow> Exited False []),
      g_merge_base = (\<lambda>a b. case (place names a, place names b) of
           (Some i, Some j) \<Rightarrow> Exited True (named_at names (min i j)) | _ \<Rightarrow> Exited False []),
      g_rev_list = (\<lambda>_ _. Exited True []), g_show_patch = (\<lambda>_. Exited False []), g_show_file = (\<lambda>_ _. Exited False []),
      g_diff = (\<lambda>_ _. Exited False []), g_patch_id = (\<lambda>_. Exited False []), g_pr_view = (\<lambda>_. View_Failed)\<rparr>"

definition sha_a :: string where
  "sha_a = replicate 40 CHR ''a''"

definition sha_b :: string where
  "sha_b = replicate 40 CHR ''b''"

definition sha_c :: string where
  "sha_c = replicate 40 CHR ''c''"

definition sha_upper :: string where
  "sha_upper = replicate 40 CHR ''A''"

lemma sha_differ [simp]:
  "sha_a \<noteq> sha_b" "sha_a \<noteq> sha_c" "sha_b \<noteq> sha_a" "sha_b \<noteq> sha_c" "sha_c \<noteq> sha_a" "sha_c \<noteq> sha_b" "sha_upper \<noteq> sha_a"
  "sha_upper \<noteq> sha_b" "sha_upper \<noteq> sha_c" "sha_a \<noteq> []" "sha_b \<noteq> []" "sha_c \<noteq> []" "sha_upper \<noteq> []"
  by (simp_all add: sha_a_def sha_b_def sha_c_def sha_upper_def)

lemma sha_no_branch [simp]:
  "sha_a \<noteq> origin b" "sha_b \<noteq> origin b" "sha_c \<noteq> origin b" "sha_upper \<noteq> origin b"
  "origin b \<noteq> sha_a" "origin b \<noteq> sha_b" "origin b \<noteq> sha_c" "origin b \<noteq> sha_upper"
  by (simp_all add: sha_a_def sha_b_def sha_c_def sha_upper_def origin_def numeral_eq_Suc)

definition sample_names :: "(string \<times> nat) list" where
  "sample_names = [(sha_a, 0), (sha_b, 1), (sha_c, 2), (origin ''main'', 2), (origin ''work'', 2)]"

definition work_of :: "string \<Rightarrow> string \<Rightarrow> work_result" where
  "work_of branch commit =
     \<lparr>tr_task_id = ''t1'', tr_status = Completed, tr_summary = ''s'', tr_verdict = None, tr_findings = [],
      tr_pr_number = None, tr_commit = commit, tr_error_info = None, tr_json = [], tr_branch = branch, tr_artifact = None\<rparr>"

definition work_task :: "(string \<times> json) list \<Rightarrow> task_row" where
  "work_task keys =
     (sample_task ''t1'' ''implement'' In_Progress)\<lparr>tk_receipt_id := None, tk_context := blank_context\<lparr>tc_more := keys\<rparr>\<rparr>"

definition plain_work :: task_row where
  "plain_work = work_task [(''worktree_base_sha'', JStr sha_a)]"

definition rebase_work :: task_row where
  "rebase_work = work_task [(''worktree_base_sha'', JStr sha_a), (''rebase_onto'', JStr ''main'')]"

lemma branches_differ: "origin ''main'' \<noteq> origin ''work''" "origin ''work'' \<noteq> origin ''main''"
  by (simp_all add: origin_def)

lemma lower_upper_a: "lower_char CHR ''A'' = CHR ''a''"
  by code_simp

lemma lower_a0: "py_lower sha_upper = sha_a"
  by (simp add: py_lower_def sha_upper_def sha_a_def lower_upper_a)

lemma sample_places:
  "place sample_names sha_a = Some 0" "place sample_names sha_b = Some (Suc 0)" "place sample_names sha_c = Some 2"
  "place sample_names sha_upper = Some 0" "place sample_names (origin ''main'') = Some 2"
  "place sample_names (origin ''work'') = Some 2"
  by (simp_all add: place_def sample_names_def lower_a0 branches_differ)

lemma place_cases: "place sample_names x = Some i \<Longrightarrow> i = 0 \<or> i = Suc 0 \<or> i = 2"
  by (auto simp: place_def sample_names_def split: option.splits if_splits)

lemma sample_named: "named_at sample_names 0 = sha_a" "named_at sample_names (Suc 0) = sha_b" "named_at sample_names 2 = sha_c"
  by (simp_all add: named_at_def sample_names_def)

lemma strip_names: "py_strip sha_a = sha_a" "py_strip sha_b = sha_b" "py_strip sha_c = sha_c"
    "py_strip sha_upper = sha_upper" "py_strip ''main'' = ''main''" "py_strip ''work'' = ''work''"
  by (simp_all add: py_strip_def py_rstrip_def py_lstrip_def is_space_def sha_a_def sha_b_def sha_c_def sha_upper_def numeral_eq_Suc)

lemma line_below:
  "below (line_git names) a b \<longleftrightarrow> (\<exists>i j. place names a = Some i \<and> place names b = Some j \<and> i \<le> j)"
  by (auto simp: below_def line_git_def split: option.splits)

lemma line_same: "place names a = place names b \<Longrightarrow> same_commit (line_git names) a b"
  unfolding same_commit_def line_git_def checkout.simps by (metis (lifting))

lemma line_resolves: "resolves (line_git names) a \<longleftrightarrow> place names a \<noteq> None"
  by (auto simp: resolves_def line_git_def split: option.splits)

lemma sample_self: "place sample_names x = Some i \<Longrightarrow> place sample_names (py_strip (named_at sample_names i)) = Some i"
  using place_cases [of x i] by (auto simp: sample_named strip_names sample_places)

lemma line_git_laws: "git_laws (line_git sample_names)"
  unfolding git_laws_def line_below
proof (intro conjI allI impI)
  fix a b out
  assume "g_merge_base (line_git sample_names) a b = Exited True out"
  then obtain i j where p: "place sample_names a = Some i" "place sample_names b = Some j"
    and "out = named_at sample_names (min i j)"
    by (auto simp: line_git_def split: option.splits)
  then have "place sample_names (py_strip out) = Some (min i j)"
    using sample_self [of a i] sample_self [of b j] by (simp add: min_def)
  with p show "\<exists>i j. place sample_names (py_strip out) = Some i \<and> place sample_names a = Some j \<and> i \<le> j" by simp
next
  fix a out
  assume "g_resolve (line_git sample_names) a = Exited True out"
  then obtain i where "place sample_names a = Some i" "out = named_at sample_names i"
    by (auto simp: line_git_def split: option.splits)
  then show "\<exists>i j. place sample_names (py_strip out) = Some i \<and> place sample_names a = Some j \<and> i \<le> j"
    using sample_self by simp
qed fastforce

lemma sample_work_keys:
  "dispatch_base (tk_context plain_work) = sha_a" "dispatch_base (tk_context rebase_work) = sha_a"
  "\<not> has_key (tk_context plain_work) ''rebase_onto''" "has_key (tk_context rebase_work) ''rebase_onto''"
  "key_text (ctx_key (tk_context rebase_work) ''rebase_onto'') = ''main''"
  "declared_artifact_kind (Some plain_work) = None"
  by (simp_all add: plain_work_def rebase_work_def work_task_def dispatch_base_def or_key_def ctx_key_def has_key_def
      strip_names declared_artifact_kind_def)

lemma sample_branches: "work_branch t (work_of ''work'' c) = ''work''" "work_branch t (work_of ''main'' c) = ''main''"
  by (simp_all add: work_branch_def work_of_def strip_names)

lemma work_of_commit: "tr_commit (work_of b c) = c"
  by (simp add: work_of_def)

lemma line_answers:
  "g_repo (line_git names) \<noteq> []" "g_fetch (line_git names) x = Exited True []"
  "place names x = Some i \<Longrightarrow> g_resolve (line_git names) x = Exited True (named_at names i)"
  by (simp_all add: line_git_def)

lemma sample_proved: "\<exists>d. verify_task_artifact h p (line_git sample_names) plain_work (work_of ''work'' sha_c) = (True, d, sha_c)"
proof -
  have p: "implement_proof (line_git sample_names) plain_work (work_of ''work'' sha_c) True False sha_c sha_a [] sha_c
      = (True, Detail (''origin branch contains '' @ ''reported'' @ '' commit''), sha_c)"
    by (simp add: implement_proof_def Let_def sample_work_keys sample_branches line_git_def sample_places call_def accepted_def)
  then have "implement_commit (line_git sample_names) plain_work (work_of ''work'' sha_c) sha_a []
      = (True, Detail (''origin branch contains '' @ ''reported'' @ '' commit''), sha_c)"
    by (simp add: implement_commit_def Let_def git_fetch_origin_def line_answers call_def work_of_commit strip_names)
  then show ?thesis
    by (simp add: verify_task_artifact_def Let_def sample_work_keys verify_implement_artifact_def implement_floor_def
        line_answers sample_branches work_of_commit)
qed

theorem proven_work_is_pushed_witness: "resolves (line_git sample_names) sha_c \<and> stands_above (line_git sample_names) sha_c"
proof -
  obtain d where v: "verify_task_artifact id (\<lambda>_. True) (line_git sample_names) plain_work (work_of ''work'' sha_c) = (True, d, sha_c)"
    using sample_proved by blast
  have "named_commit (work_of ''work'' sha_c) sha_c = sha_c" by (simp add: named_commit_def work_of_commit strip_names)
  with proven_work_is_pushed [OF line_git_laws _ v] show ?thesis by (simp add: sample_work_keys)
qed

theorem respelled_base_is_accepted_witness:
  "fst (verify_implement_artifact (line_git sample_names) plain_work (work_of ''work'' sha_upper))"
  by (rule respelled_base_is_accepted [where base = "sha_a" and other = "sha_upper" and out = "[]"])
    (simp_all add: line_answers sample_branches sample_work_keys work_of_commit strip_names line_same line_resolves
      line_below sample_places)

theorem target_history_is_accepted_witness:
  "fst (verify_implement_artifact (line_git sample_names) rebase_work (work_of ''main'' sha_b))"
  by (rule target_history_is_accepted [where base = "sha_a" and old = "sha_b" and target = "''main''" and out = "[]"
        and tip_out = "sha_c" and tip = "sha_c"])
    (simp_all add: line_answers sample_branches sample_work_keys work_of_commit strip_names line_resolves
      line_below sample_places sample_named)

end
