(* ===== verification/Intake_Safety.thy ===== *)
theory Intake_Safety
  imports Artifact_Safety Intake
begin

text \<open>
  What holds at the two doors: an intake is a run of the queue, the two doors store the same status, a
  completion is stored only with a proved artifact, and where the gate can be passed by.
\<close>

section \<open>The status of a task\<close>

definition status_of :: "queue \<Rightarrow> string \<Rightarrow> task_status option" where
  "status_of q i = map_option tk_status (task_of q i)"

lemma status_of_rows: "map_option tk_status (row_of tk_id i ts) = map_of (map (\<lambda>t. (tk_id t, tk_status t)) ts) i"
  by (induction ts) auto

lemma status_of_statuses: "status_of q i = map_of (statuses q) i"
  by (simp add: status_of_def task_of_def statuses_def status_of_rows)

lemma statuses_terminalize [simp]: "statuses (terminalize_intent tid clock q) = statuses q"
  by (simp add: terminalize_intent_def update_intent_def statuses_def split: option.split)

lemma statuses_fill [simp]: "statuses (fill_outbox clock ps ty r q) = statuses q"
  by (simp add: fill_outbox_def statuses_def Let_def case_prod_beta)

lemma statuses_settle [simp]: "statuses (settle_receipt dp clock opts tid g q) = statuses q"
  by (simp add: settle_receipt_def Let_def statuses_update split: option.split)

lemma statuses_refs [simp]: "statuses (merge_refs tid r refs q) = statuses q"
  by (simp add: merge_refs_def statuses_update)

lemma statuses_switch [simp]: "statuses (q\<lparr>q_switch := w\<rparr>) = statuses q"
  by (simp add: statuses_def)

lemma statuses_revoke [simp]: "statuses (revoke_attempt dp clock reason rid q) = statuses q"
proof -
  have "statuses (q\<lparr>q_store := s\<rparr>) = statuses q" for s by (simp add: statuses_def)
  then show ?thesis by (simp add: revoke_attempt_def Let_def split: option.split)
qed

lemma status_written:
  "tr_task_id r = i \<Longrightarrow> task_of q i = Some t \<Longrightarrow> status_of (write_result clock r q) i = Some (tr_status r)"
  by (simp add: write_result_def status_of_def task_of_def update_task_def row_of_update)

lemma submit_status:
  assumes "submit_result dp clock ps q tid r opts = (a, q')"
  shows "status_of q' tid = (case a of Inl e \<Rightarrow> status_of q tid | Inr ty \<Rightarrow> Some (tr_status r))"
  using assms
proof (cases rule: submit_cases)
  case (accepted t g)
  then show ?thesis
    using status_written [of r tid q t clock] by (simp add: status_of_statuses accept_result_def)
qed (simp_all add: status_of_statuses)

lemma orphan_task:
  "task_of (orphan_successors j q) i
     = map_option (\<lambda>u. if tk_status u \<in> {Pending, In_Progress} \<and> tc_prev_task_id (tk_context u) = Some j
                      then u\<lparr>tk_status := Orphaned\<rparr> else u) (task_of q i)"
  by (simp add: task_of_def orphan_successors_def row_of_map_upd)

lemma orphan_status:
  "status_of (orphan_successors j q) i \<in> {status_of q i, Some Orphaned}"
  "status_of q i \<notin> {Some Pending, Some In_Progress} \<Longrightarrow> status_of (orphan_successors j q) i = status_of q i"
  by (cases "task_of q i"; simp add: status_of_def orphan_task)+

lemma set_status:
  "status_of (update_task j (\<lambda>t. t\<lparr>tk_status := st\<rparr>) q) i = (if i = j then map_option (\<lambda>_. st) (status_of q i) else status_of q i)"
  by (simp add: status_of_def task_of_def update_task_def row_of_update option.map_comp comp_def)

lemma cancel_status:
  assumes "cancel dp clock q j reason expected stale = (b, q')"
  shows "status_of q' i \<in> {status_of q i, Some Cancelled, Some Orphaned}"
    and "i \<noteq> j \<Longrightarrow> status_of q i \<notin> {Some Pending, Some In_Progress} \<Longrightarrow> status_of q' i = status_of q i"
    and "b \<Longrightarrow> status_of q' j = Some Cancelled"
  using assms
proof (atomize (full), cases rule: cancel_cases)
  case (cancelled t)
  let ?q = "record_end j clock ''cancelled'' False (Some (status_text (tk_status t)))
     (revoke_attempt dp clock reason (tk_receipt_id t) (update_task j (\<lambda>t. t\<lparr>tk_status := Cancelled\<rparr>) q))"
  have s: "status_of ?q k = (if k = j then map_option (\<lambda>_. Cancelled) (status_of q k) else status_of q k)" for k
    using set_status [of j Cancelled q k] by (simp add: status_of_statuses)
  have "status_of q j = Some (tk_status t)" using cancelled(2) by (simp add: status_of_def)
  then show "status_of q' i \<in> {status_of q i, Some Cancelled, Some Orphaned}
      \<and> (i \<noteq> j \<longrightarrow> status_of q i \<notin> {Some Pending, Some In_Progress} \<longrightarrow> status_of q' i = status_of q i)
      \<and> (b \<longrightarrow> status_of q' j = Some Cancelled)"
    unfolding cancelled(4) using orphan_status(1) [of j ?q i] orphan_status(2) [of ?q i j] orphan_status(2) [of ?q j j] s [of i] s [of j]
    by (auto split: if_splits)
qed simp

section \<open>An intake is a run\<close>

lemma withdraw_cases:
  assumes "withdraw_fallback dp clock q task r = (a, q')"
  obtains (kept) "a = None" "q' = q"
  | (withdrawn) t f b where "task = Some t" "tk_status t \<in> {Failed, Timed_Out}" "fallback_tasks q (tk_id t) = [f]"
      "cancel dp clock q (tk_id f) ''cancelled_attempt'' None None = (b, q')" "a = (if b then Some (tk_id f) else None)"
  using assms unfolding withdraw_fallback_def
  by (auto split: option.splits if_splits list.splits prod.splits)

lemma paused_switch: "runtime_paused clock ps q = (b, q') \<Longrightarrow> \<exists>w. q' = q\<lparr>q_switch := w\<rparr>"
  by (auto simp: runtime_paused_def split: prod.splits)

text \<open>The states an HTTP intake goes through, when a verdict is not missing.\<close>

lemma http_cases:
  assumes "http_submit dp clock ps d replaying q tid r0 nonce presenter = (reply, q')"
    and "r = not_run_test (task_of q tid) r0"
  obtains (verdictless) "verdict_required replaying (task_of q tid) r" "reply = Verdict_Required" "q' = q"
  | (refused) paused q1 r1 h refs mismatch adopted q2 e where
      "runtime_paused clock ps q = (paused, q1)"
      "http_prepare dp d (paused \<or> replaying) (task_of q tid) r = ((r1, h, refs), mismatch)"
      "withdraw_fallback dp clock q1 (task_of q tid) r1 = (adopted, q2)"
      "submit_result dp clock ps q2 tid (stored d r1) (http_options replaying h adopted nonce presenter) = (Inl e, q')"
      "reply = Submit_Refused e"
  | (accepted) paused q1 r1 h refs mismatch adopted q2 ty q3 where
      "runtime_paused clock ps q = (paused, q1)"
      "http_prepare dp d (paused \<or> replaying) (task_of q tid) r = ((r1, h, refs), mismatch)"
      "withdraw_fallback dp clock q1 (task_of q tid) r1 = (adopted, q2)"
      "submit_result dp clock ps q2 tid (stored d r1) (http_options replaying h adopted nonce presenter) = (Inr ty, q3)"
      "q' = merge_refs tid r1 refs q3" "reply = http_reply q' tid ty r1 h mismatch"
proof -
  obtain paused q1 where p: "runtime_paused clock ps q = (paused, q1)" by fastforce
  obtain r1 h refs mismatch where g: "http_prepare dp d (paused \<or> replaying) (task_of q tid) r = ((r1, h, refs), mismatch)"
    by (metis prod.collapse)
  obtain adopted q2 where w: "withdraw_fallback dp clock q1 (task_of q tid) r1 = (adopted, q2)" by fastforce
  obtain a q3 where s: "submit_result dp clock ps q2 tid (stored d r1) (http_options replaying h adopted nonce presenter) = (a, q3)"
    by fastforce
  show ?thesis
  proof (cases "verdict_required replaying (task_of q tid) r")
    case True
    then have "http_submit dp clock ps d replaying q tid r0 nonce presenter = (Verdict_Required, q)"
      unfolding http_submit_def Let_def assms(2) [symmetric] by (simp only: if_True)
    with assms(1) have "reply = Verdict_Required" "q' = q" by simp_all
    with True show ?thesis by (rule verdictless)
  next
    case False
    have "http_submit dp clock ps d replaying q tid r0 nonce presenter = (case a of Inl e \<Rightarrow> (Submit_Refused e, q3)
        | Inr ty \<Rightarrow> (http_reply (merge_refs tid r1 refs q3) tid ty r1 h mismatch, merge_refs tid r1 refs q3))"
      unfolding http_submit_def Let_def assms(2) [symmetric] by (simp only: p g w s prod.case False if_False)
    then have out: "(reply, q') = (case a of Inl e \<Rightarrow> (Submit_Refused e, q3)
        | Inr ty \<Rightarrow> (http_reply (merge_refs tid r1 refs q3) tid ty r1 h mismatch, merge_refs tid r1 refs q3))"
      using assms(1) by simp
    show ?thesis
    proof (cases a)
      case (Inl e)
      with out have q': "q' = q3" and reply: "reply = Submit_Refused e" by simp_all
      show ?thesis by (rule refused [OF p g w s [unfolded Inl, folded q'] reply])
    next
      case (Inr ty)
      with out have q': "q' = merge_refs tid r1 refs q3" and reply: "reply = http_reply q' tid ty r1 h mismatch"
        by simp_all
      show ?thesis by (rule accepted [OF p g w s [unfolded Inr] q' reply])
    qed
  qed
qed

lemma submitted_run:
  assumes "runtime_paused clock ps q = (paused, q1)" and "withdraw_fallback dp clock q1 task r1 = (adopted, q2)"
    and "submit_result dp clock ps q2 tid res opts = (a, q3)"
  shows "(queue_step dp)\<^sup>*\<^sup>* q q3"
proof -
  obtain w where "q1 = q\<lparr>q_switch := w\<rparr>" using paused_switch [OF assms(1)] by blast
  then have "(queue_step dp)\<^sup>*\<^sup>* q q1" using queue_step.operates by blast
  also have "(queue_step dp)\<^sup>*\<^sup>* q1 q2"
    using assms(2) by (cases rule: withdraw_cases) (auto intro: queue_step.cancels)
  also have "queue_step dp q2 q3" by (rule queue_step.submits [OF assms(3)])
  finally show ?thesis .
qed

lemma http_submit_run:
  assumes "http_submit dp clock ps d replaying q tid r nonce presenter = (reply, q')"
  shows "(queue_step dp)\<^sup>*\<^sup>* q q'"
  using assms refl
proof (cases rule: http_cases)
  case (refused paused q1 r1 h refs mismatch adopted q2 e)
  then show ?thesis using submitted_run by blast
next
  case (accepted paused q1 r1 h refs mismatch adopted q2 ty q3)
  have "(queue_step dp)\<^sup>*\<^sup>* q q3" by (rule submitted_run [OF accepted(1,3,4)])
  then show ?thesis unfolding accepted(5) by (rule rtranclp.rtrancl_into_rtrancl) (rule queue_step.keeps_refs)
qed simp

lemma mcp_submit_run: "(queue_step dp)\<^sup>*\<^sup>* q (snd (mcp_submit dp clock ps d q tid r nonce presenter))"
proof -
  obtain paused q1 where p: "runtime_paused clock ps q = (paused, q1)" by fastforce
  obtain r1 h refs mismatch where g: "mcp_prepare dp d paused (task_of q tid) r = ((r1, h, refs), mismatch)"
    by (metis prod.collapse)
  obtain a q2 where s: "submit_result dp clock ps q1 tid (stored d r1) (mcp_options nonce presenter) = (a, q2)" by fastforce
  have w: "withdraw_fallback dp clock q1 None r1 = (None, q1)" by (simp add: withdraw_fallback_def)
  have run: "(queue_step dp)\<^sup>*\<^sup>* q q2" by (rule submitted_run [OF p w s])
  show ?thesis
  proof (cases a)
    case (Inl e)
    with p g s run show ?thesis by (simp add: mcp_submit_def Let_def)
  next
    case (Inr ty)
    with p g s have "snd (mcp_submit dp clock ps d q tid r nonce presenter) = merge_refs tid r1 refs q2"
      by (simp add: mcp_submit_def Let_def)
    then show ?thesis using run queue_step.keeps_refs [of dp q2 tid r1 refs] by simp
  qed
qed

section \<open>What the gate lets pass\<close>

lemma hold_cases:
  assumes "hold_for task r = (r1, mismatch)"
  shows "(mismatch = None \<and> r1 = r) \<or> (mismatch \<noteq> None \<and> tr_status r1 = Needs_Human \<and> tr_pr_number r1 = tr_pr_number r)"
proof (cases task)
  case (Some t)
  with assms show ?thesis
    by (cases "pr_number_mismatch (tr_pr_number r) (ctx_key (tk_context t) ''pr_number'')")
      (auto simp: hold_for_def hold_mismatched_pr_result_def)
qed (use assms in \<open>simp add: hold_for_def\<close>)

lemma hold_number: "tr_pr_number r = tr_pr_number r' \<Longrightarrow> snd (hold_for task r) = snd (hold_for task r')"
  by (simp add: hold_for_def hold_mismatched_pr_result_def split: option.split)

lemma judged_number:
  "judge d g t r source = (r1, proved, detail, refs) \<Longrightarrow> tr_pr_number r1 = tr_pr_number r \<and> tr_status r1 = tr_status r"
  by (auto simp: judge_def split: prod.splits)

lemma judged_proof:
  "judge d g t r source = (r1, True, detail, refs) \<Longrightarrow> fst (verify_task_artifact (dr_sha256 d) (dr_parses d) g t r)"
  by (auto simp: judge_def split: prod.splits)

text \<open>The inferred artifact is the head of the recorded worktree, judged there.\<close>

lemma infer_cases:
  assumes "infer_artifact d t r v = w"
  obtains (same) "w = v"
  | (inferred) wt head branch source where "dr_worktree d = Some wt" "worktree_head wt (raw_base (tk_context t)) = Some (head, branch)"
      "object_id head"
      "w = judge d (wt_git wt) t (r\<lparr>tr_commit := head, tr_branch := branch\<rparr>) source"
  using assms unfolding infer_artifact_def by (auto split: option.splits if_splits prod.splits)

text \<open>Only a result that names no reference is answered with \<open>MISSING_IMPLEMENT_REF_DETAIL\<close>.\<close>

definition asks_again :: "verified \<Rightarrow> bool" where
  "asks_again v \<longleftrightarrow> named_nothing (fst (snd v))"

named_theorems plain_details

lemma details [plain_details]:
  "\<not> asks_again (refused (Detail s) c)" "\<not> asks_again (accepted (Detail s) c)" "\<not> asks_again (refused (unavailable e) c)"
  "\<not> asks_again (refused not_reachable c)"
  by (simp_all add: asks_again_def refused_def accepted_def named_nothing_def unavailable_def not_reachable_def)

lemma call_plain [plain_details]: "asks_again (call c p k) \<longleftrightarrow> (\<exists>b out. p = Exited b out \<and> asks_again (k b (py_strip out)))"
  by (cases p) (simp_all add: call_def plain_details)

lemma if_plain [plain_details]: "asks_again (if P then v else w) \<longleftrightarrow> (if P then asks_again v else asks_again w)"
  by simp

lemma pinned_plain [plain_details]: "\<not> asks_again (pinned_by_pr g t r commit c)"
  unfolding pinned_by_pr_def by (simp add: plain_details split: option.split pr_view.split json.split)

lemma same_change_plain [plain_details]: "\<not> asks_again (same_change g target branch source fork onto commit c)"
  unfolding same_change_def by (simp add: plain_details split: sum.split option.split)

lemma rebase_floor_plain: "asks_again (rebase_floor g ps tip c k) \<Longrightarrow> \<exists>low. asks_again (k low)"
  by (induction ps) (auto simp: plain_details split: if_splits)

lemma rebase_placed_plain [plain_details]: "\<not> asks_again (rebase_placed g ctx target branch source commit tip c)"
  unfolding rebase_placed_def by (auto simp: plain_details rebase_content_def Let_def dest!: rebase_floor_plain split: if_splits)

lemma rebase_submitted_plain [plain_details]: "\<not> asks_again (rebase_submitted g t r target branch head tip commit c)"
  unfolding rebase_submitted_def Let_def by (auto simp: plain_details split: if_splits)

lemma rebase_plain [plain_details]: "\<not> asks_again (verify_rebase_artifact g t r)"
  unfolding verify_rebase_artifact_def Let_def by (auto simp: plain_details split: if_splits)

lemma report_plain [plain_details]: "\<not> asks_again (report_checked sha256 parses ctx sha content source c)"
  by (auto simp: report_checked_def report_content_refused_def plain_details split: option.splits if_splits)

lemma report_path_plain [plain_details]: "\<not> asks_again (report_at_path sha256 parses g t r sha path)"
  unfolding report_at_path_def Let_def by (auto simp: plain_details split: if_splits proc.splits bool.splits)

lemma report_artifact_plain [plain_details]: "\<not> asks_again (verify_report_artifact sha256 parses g t r)"
  unfolding verify_report_artifact_def Let_def by (simp add: plain_details split: option.split json.split list.split)

lemma review_plain [plain_details]: "\<not> asks_again (verify_review_artifact t r)"
  unfolding verify_review_artifact_def by (simp add: plain_details)

lemma proof_asks: "asks_again (implement_proof g t r fetched derived commit low tip c) \<Longrightarrow> names_no_ref r"
  unfolding implement_proof_def Let_def no_new_commit_def by (auto simp: plain_details split: if_splits)

lemma commit_asks: "asks_again (implement_commit g t r low tip) \<Longrightarrow> names_no_ref r"
  unfolding implement_commit_def Let_def unnamed_base_branch_def
  by (auto simp: plain_details dest: proof_asks split: if_splits)

lemma verify_asks:
  assumes "named_nothing (fst (snd (verify_task_artifact sha256 parses g t r)))"
  shows "names_no_ref r"
proof -
  have "asks_again (verify_implement_artifact g t r)"
    using assms unfolding asks_again_def [symmetric] verify_task_artifact_def Let_def
    by (auto simp: plain_details split: if_splits)
  then show ?thesis
    unfolding verify_implement_artifact_def implement_floor_def Let_def
    by (auto simp: plain_details dest: commit_asks split: if_splits)
qed

text \<open>
  The proof behind a completion: the artifact as the worker declared it, in the server's checkout; or, for an
  implementation that is still in progress and named no commit, branch or pull request, the head of the worktree
  recorded for its dispatch, where that head is a full object id and not the base.
\<close>

definition proved_at_worktree :: "door \<Rightarrow> task_row \<Rightarrow> work_result \<Rightarrow> bool" where
  "proved_at_worktree d t r \<longleftrightarrow>
     names_no_ref r \<and> tk_type t = ''implement'' \<and> tk_status t = In_Progress
     \<and> (\<exists>wt head branch. dr_worktree d = Some wt \<and> worktree_head wt (raw_base (tk_context t)) = Some (head, branch)
          \<and> object_id head \<and> fst (verify_task_artifact (dr_sha256 d) (dr_parses d) (wt_git wt) t
                   (r\<lparr>tr_commit := head, tr_branch := branch\<rparr>)))"

definition proved_at_gate :: "door \<Rightarrow> task_row \<Rightarrow> work_result \<Rightarrow> bool" where
  "proved_at_gate d t r \<longleftrightarrow>
     fst (verify_task_artifact (dr_sha256 d) (dr_parses d) (dr_checkout d) t r) \<or> proved_at_worktree d t r"

lemma conclude_status: "tr_status (fst (conclude t (r, b, x, refs))) = (if b then tr_status r else Failed)"
  by (simp add: conclude_def no_artifact_result_def)

lemma conclude_number: "tr_pr_number (fst (conclude t (r, b, x, refs))) = tr_pr_number r"
  by (simp add: conclude_def no_artifact_result_def)

lemma http_gate_proved:
  assumes "artifact_gate_applies (Some t) r" and "tr_status (fst (http_gate dp d (Some t) r)) = Completed"
  shows "proved_at_gate d t r"
proof -
  have "\<not> dispatch_base_absent_hold dp (Some t) r"
    using assms(1) by (auto simp: dispatch_base_absent_hold_def artifact_gate_applies_def)
  obtain r1 b x refs where v: "judge d (dr_checkout d) t r [] = (r1, b, x, refs)" by (metis prod.collapse)
  define w where "w = (if \<not> b \<and> named_nothing x \<and> tk_type t = ''implement'' \<and> tk_status t = In_Progress
     then infer_artifact d t r1 (r1, b, x, refs) else (r1, b, x, refs))"
  obtain r2 b2 x2 refs2 where w2: "w = (r2, b2, x2, refs2)" by (metis prod.collapse)
  have "http_gate dp d (Some t) r = conclude t w"
    using \<open>\<not> dispatch_base_absent_hold dp (Some t) r\<close> assms(1) by (simp add: http_gate_def Let_def v w_def)
  with assms(2) w2 conclude_status [of t r2 b2 x2 refs2] have b2: b2 by (simp split: if_splits)
  have detail: "x = fst (snd (verify_task_artifact (dr_sha256 d) (dr_parses d) (dr_checkout d) t r))"
    using v by (auto simp: judge_def split: prod.splits)
  have here: "proved_at_gate d t r" if "w = (r1, b, x, refs)"
    using judged_proof [of d "dr_checkout d" t r "[]" r1 x refs] that w2 b2 v by (simp add: proved_at_gate_def)
  show ?thesis
  proof (cases "\<not> b \<and> named_nothing x \<and> tk_type t = ''implement'' \<and> tk_status t = In_Progress")
    case True
    then have w: "infer_artifact d t r1 (r1, b, x, refs) = w" by (simp add: w_def)
    then show ?thesis
    proof (cases rule: infer_cases)
      case same
      then show ?thesis by (rule here)
    next
      case (inferred wt head branch source)
      with w2 b2 have j: "judge d (wt_git wt) t (r1\<lparr>tr_commit := head, tr_branch := branch\<rparr>) source = (r2, True, x2, refs2)" by simp
      have "\<exists>c. r1 = r\<lparr>tr_commit := c\<rparr>" using v by (auto simp: judge_def split: prod.splits)
      then have "r1\<lparr>tr_commit := head, tr_branch := branch\<rparr> = r\<lparr>tr_commit := head, tr_branch := branch\<rparr>" by auto
      moreover have "names_no_ref r" using True detail verify_asks by blast
      ultimately have "proved_at_worktree d t r"
        using judged_proof [OF j] inferred(1,2,3) True unfolding proved_at_worktree_def by auto
      then show ?thesis by (simp add: proved_at_gate_def)
    qed
  next
    case False
    then have "w = (r1, b, x, refs)" unfolding w_def by (rule if_not_P)
    then show ?thesis by (rule here)
  qed
qed

lemma prepared_proved:
  assumes "http_prepare dp d False (Some t) r = ((r1, h, refs), mismatch)" and "artifact_gate_applies (Some t) r"
    and "tr_status r1 = Completed"
  shows "proved_at_gate d t r"
proof -
  obtain r0 h0 refs0 where g: "http_gate dp d (Some t) r = (r0, h0, refs0)" by (metis prod.collapse)
  with assms(1) have "hold_for (Some t) r0 = (r1, mismatch)" by (auto simp: http_prepare_def split: prod.splits)
  from hold_cases [OF this] assms(3) have "r0 = r1" by auto
  with g assms(3) have "tr_status (fst (http_gate dp d (Some t) r)) = Completed" by simp
  then show ?thesis by (rule http_gate_proved [OF assms(2)])
qed

lemma gated_completed: "artifact_gate_applies task r0 \<Longrightarrow> tr_status r0 = Completed"
  by (simp add: artifact_gate_applies_def split: option.splits)

lemma submitted_status:
  assumes "withdraw_fallback dp clock q1 task r1 = (adopted, q2)"
    and "submit_result dp clock ps q2 tid res opts = (a, q3)" and "status_of q1 tid \<noteq> Some Completed"
    and "status_of q3 tid = Some Completed"
  shows "tr_status res = Completed"
proof -
  have "status_of q2 tid \<noteq> Some Completed"
    using assms(1) assms(3)
  proof (cases rule: withdraw_cases)
    case (withdrawn t f b)
    from cancel_status(1) [OF withdrawn(4), of tid] assms(3) show ?thesis by auto
  qed simp
  with submit_status [OF assms(2)] assms(4) show ?thesis by (simp split: sum.splits)
qed

lemma stored_status [simp]: "tr_status (stored d r) = tr_status r"
  by (simp add: stored_def task_result.truncate_def)

lemma paused_status: "runtime_paused clock ps q = (b, q1) \<Longrightarrow> status_of q1 i = status_of q i"
  using paused_switch [of clock ps q b q1] by (auto simp: status_of_statuses)

text \<open>
  Claim C32: while the runtime is ACTIVE and nothing is replayed, a task that owes an artifact becomes completed at
  the HTTP door only when the artifact the worker declared was proved in the server's checkout, or when an
  implementation still in progress named no commit, branch or pull request and the head of the worktree recorded for
  its dispatch was proved there. A declared artifact that is not proved is never replaced.
\<close>

theorem completed_work_is_proved:
  assumes "task_of q tid = Some t" and "tk_status t \<noteq> Completed" and "artifact_gate_applies (Some t) r"
    and "\<not> fst (runtime_paused clock ps q)"
    and "http_submit dp clock ps d False q tid r nonce presenter = (reply, q')"
    and "status_of q' tid = Some Completed"
  shows "proved_at_gate d t r"
proof -
  have r: "r = not_run_test (task_of q tid) r" using gated_completed [OF assms(3)] by (simp add: not_run_test_def Let_def)
  have before0: "status_of q tid \<noteq> Some Completed" using assms(1,2) by (simp add: status_of_def)
  from assms(5) r show ?thesis
  proof (cases rule: http_cases)
    case verdictless
    then show ?thesis using before0 assms(6) by simp
  next
    case (refused paused q1 r1 h refs mismatch adopted q2 e)
    have "\<not> paused" using refused(1) assms(4) by simp
    with refused(2) assms(1) have "http_prepare dp d False (Some t) r = ((r1, h, refs), mismatch)" by simp
    moreover have "tr_status r1 = Completed"
      using submitted_status [OF refused(3,4) _ assms(6)] before0 paused_status [OF refused(1)] by simp
    ultimately show ?thesis using prepared_proved assms(3) by blast
  next
    case (accepted paused q1 r1 h refs mismatch adopted q2 ty q3)
    have "\<not> paused" using accepted(1) assms(4) by simp
    with accepted(2) assms(1) have p: "http_prepare dp d False (Some t) r = ((r1, h, refs), mismatch)" by simp
    have "status_of q3 tid = Some Completed" using assms(6) accepted(5) by (simp add: status_of_statuses)
    then have "tr_status r1 = Completed"
      using submitted_status [OF accepted(3,4)] before0 paused_status [OF accepted(1)] by simp
    with p show ?thesis using prepared_proved assms(3) by blast
  qed
qed

lemma gates_agree: "dr_worktree d = None \<Longrightarrow> http_gate dp d task r = mcp_gate dp d task r"
  by (auto simp: http_gate_def mcp_gate_def infer_artifact_def Let_def split: prod.splits)

lemma http_gate_number: "dr_worktree d = None \<Longrightarrow> tr_pr_number (fst (http_gate dp d task r)) = tr_pr_number r"
  by (auto simp: http_gate_def Let_def infer_artifact_def no_artifact_result_def conclude_number judged_number
      split: prod.splits)

lemma mcp_gate_open: "tr_status r \<noteq> Completed \<Longrightarrow> mcp_gate dp d task r = (r, None, [])"
  by (simp add: mcp_gate_def dispatch_base_absent_hold_def artifact_gate_applies_def split: option.split)

text \<open>
  Claim C33: where no worktree is recorded for the dispatch, the two doors, which run the artifact gate and the pull
  request check in opposite orders, prepare the same status and find the same mismatch; without a mismatch they
  prepare the very same result with the same proof, with one the wording may differ. Where a worktree is recorded
  the HTTP door alone infers an artifact from it, and nothing is claimed.
\<close>

theorem doors_agree:
  assumes "dr_worktree d = None"
  shows "tr_status (fst (fst (http_prepare dp d skip task r))) = tr_status (fst (fst (mcp_prepare dp d skip task r)))
    \<and> snd (http_prepare dp d skip task r) = snd (mcp_prepare dp d skip task r)
    \<and> (snd (mcp_prepare dp d skip task r) = None \<longrightarrow> http_prepare dp d skip task r = mcp_prepare dp d skip task r)"
proof -
  obtain r1 h refs where g: "(if skip then (r, None, []) else http_gate dp d task r) = (r1, h, refs)" by (metis prod.collapse)
  obtain r2 m where h: "hold_for task r = (r2, m)" by fastforce
  have "tr_pr_number r1 = tr_pr_number r"
    using g http_gate_number [OF assms, of dp task r] by (auto split: if_splits)
  then have m: "snd (hold_for task r1) = m" using hold_number [of r1 r task] h by simp
  then obtain r3 where h1: "hold_for task r1 = (r3, m)" by (metis prod.collapse)
  have http: "http_prepare dp d skip task r = ((r3, h, refs), m)" by (simp add: http_prepare_def g h1)
  have mcp: "mcp_prepare dp d skip task r = ((if skip then (r2, None, []) else mcp_gate dp d task r2), m)"
    by (simp add: mcp_prepare_def h)
  show ?thesis
  proof (cases m)
    case None
    with hold_cases [OF h] hold_cases [OF h1] have "r2 = r" "r3 = r1" by auto
    with g None show ?thesis by (auto simp: http mcp gates_agree [OF assms] split: if_splits)
  next
    case (Some x)
    with hold_cases [OF h] hold_cases [OF h1] have "tr_status r2 = Needs_Human" "tr_status r3 = Needs_Human" by auto
    then show ?thesis using Some by (simp add: http mcp mcp_gate_open)
  qed
qed

lemma skipped: "http_prepare dp d True task r = (case hold_for task r of (r1, m) \<Rightarrow> ((r1, None, []), m))"
  by (simp add: http_prepare_def)

text \<open>
  Claim C34: under a stop, and again when the stored result is replayed after it, no artifact is asked for:
  whatever git would answer the intake is the same, and an accepted result is stored with the status the
  worker gave it.
\<close>

theorem stop_asks_no_proof:
  assumes "fst (runtime_paused clock ps q) \<or> replaying"
  shows "http_submit dp clock ps (d\<lparr>dr_checkout := g, dr_worktree := w\<rparr>) replaying q tid r nonce presenter
      = http_submit dp clock ps d replaying q tid r nonce presenter
    \<and> (snd (hold_for (task_of q tid) (not_run_test (task_of q tid) r)) = None
        \<and> fst (http_submit dp clock ps d replaying q tid r nonce presenter)
            \<notin> insert Verdict_Required (range Submit_Refused)
        \<longrightarrow> status_of (snd (http_submit dp clock ps d replaying q tid r nonce presenter)) tid
            = Some (tr_status (not_run_test (task_of q tid) r)))"
proof
  obtain paused q1 where p: "runtime_paused clock ps q = (paused, q1)" by fastforce
  with assms have skip: "paused \<or> replaying" by simp
  show "http_submit dp clock ps (d\<lparr>dr_checkout := g, dr_worktree := w\<rparr>) replaying q tid r nonce presenter
      = http_submit dp clock ps d replaying q tid r nonce presenter"
    using skip by (simp add: http_submit_def Let_def p skipped stored_def)
  obtain reply q' where s: "http_submit dp clock ps d replaying q tid r nonce presenter = (reply, q')" by fastforce
  show "snd (hold_for (task_of q tid) (not_run_test (task_of q tid) r)) = None
        \<and> fst (http_submit dp clock ps d replaying q tid r nonce presenter)
            \<notin> insert Verdict_Required (range Submit_Refused)
        \<longrightarrow> status_of (snd (http_submit dp clock ps d replaying q tid r nonce presenter)) tid
            = Some (tr_status (not_run_test (task_of q tid) r))"
    using s refl
  proof (cases rule: http_cases)
    case (accepted paused' q1' r1 h refs mismatch adopted q2 ty q3)
    have "paused' \<or> replaying" using accepted(1) skip p by simp
    with accepted(2) have "hold_for (task_of q tid) (not_run_test (task_of q tid) r) = (r1, mismatch)"
      by (auto simp: skipped split: prod.splits)
    moreover from this have "mismatch = None \<Longrightarrow> r1 = not_run_test (task_of q tid) r" using hold_cases by blast
    moreover have "status_of q' tid = Some (tr_status r1)"
      using submit_status [OF accepted(4)] accepted(5) by (simp add: status_of_statuses)
    ultimately show ?thesis using s by auto
  qed (simp_all add: s)
qed

lemma refused_statuses:
  assumes "submit_result dp clock ps q tid r opts = (Inl e, q')"
  shows "statuses q' = statuses q"
  using assms by (cases rule: submit_cases) simp_all

lemma withdraw_status:
  assumes "unique_tasks q" and "task_of q tid = Some t" and "tk_type t = ''implement''" and "tk_status t \<in> {Failed, Timed_Out}"
    and "fallback_tasks q tid = [f]" and "tk_status f \<in> {Pending, In_Progress}" and "tr_status r1 = Completed"
    and "withdraw_fallback dp clock q (Some t) r1 = (adopted, q2)"
  shows "status_of q2 (tk_id f) = Some Cancelled \<and> status_of q2 tid = Some (tk_status t)"
proof -
  have "row_of tk_id tid (q_tasks q) = Some t" using assms(2) by (simp add: task_of_def)
  from row_of_SomeD [OF this] have tid: "tk_id t = tid" by simp
  have "f \<in> set (fallback_tasks q tid)" using assms(5) by simp
  then have f: "task_of q (tk_id f) = Some f" using task_of_unique [OF assms(1)] by (simp add: fallback_tasks_def)
  obtain b q3 where c: "cancel dp clock q (tk_id f) ''cancelled_attempt'' None None = (b, q3)" by fastforce
  then have b: b using f assms(6) by (auto simp: cancel_def too_fresh_def terminal_task_statuses_def)
  have q2: "q2 = q3" using assms(3-8) tid c by (auto simp: withdraw_fallback_def split: if_splits)
  have "status_of q tid = Some (tk_status t)" using assms(2) by (simp add: status_of_def)
  moreover have "tk_id f \<noteq> tid" using f assms(2,4,6) by auto
  ultimately show ?thesis
    unfolding q2 using cancel_status(2) [OF c, of tid] cancel_status(3) [OF c b] assms(4) by auto
qed

text \<open>
  The door withdraws the unfinished fallback of an ended implement task before it submits the
  late result. When the submission is refused the fallback stays cancelled and the task stays as it was:
  nothing carries the work on.
\<close>

theorem refused_result_ends_fallback:
  assumes "unique_tasks q" and "task_of q tid = Some t" and "tk_type t = ''implement''" and "tk_status t \<in> {Failed, Timed_Out}"
    and "fallback_tasks q tid = [f]" and "tk_status f \<in> {Pending, In_Progress}"
    and "tr_status (fst (fst (http_prepare dp d (fst (runtime_paused clock ps q) \<or> replaying) (Some t) r))) = Completed"
    and "http_submit dp clock ps d replaying q tid r nonce presenter = (Submit_Refused e, q')"
  shows "status_of q' (tk_id f) = Some Cancelled \<and> status_of q' tid = Some (tk_status t)"
proof -
  have r: "not_run_test (task_of q tid) r = r" using assms(2,3) by (simp add: not_run_test_def Let_def)
  from assms(8) refl show ?thesis
  proof (cases rule: http_cases)
    case (refused paused q1 r1 h refs mismatch adopted q2 e)
    obtain w where q1: "q1 = q\<lparr>q_switch := w\<rparr>" using paused_switch [OF refused(1)] by blast
    have "tr_status r1 = Completed" using assms(7) refused(1,2) r assms(2) by simp
    then have "status_of q2 (tk_id f) = Some Cancelled \<and> status_of q2 tid = Some (tk_status t)"
      using withdraw_status [of q1 tid t f r1 dp clock adopted q2] assms(1-6) refused(3)
      by (simp add: q1 unique_tasks_def task_of_def fallback_tasks_def)
    then show ?thesis using refused_statuses [OF refused(4)] by (simp add: status_of_statuses)
  next
    case (accepted paused q1 r1 h refs mismatch adopted q2 ty q3)
    then show ?thesis by (auto simp: http_reply_def split: option.splits if_splits prod.splits)
  qed (use assms in simp)
qed

section \<open>Sample intakes\<close>

definition sample_door :: door where
  "sample_door = \<lparr>dr_sha256 = id, dr_parses = (\<lambda>_. True), dr_checkout = line_git sample_names, dr_worktree = None,
     dr_encode = (\<lambda>_. ''j'')\<rparr>"

definition work_queue :: "runtime_state \<Rightarrow> task_row list \<Rightarrow> queue" where
  "work_queue st ts = (sample_queue ts)\<lparr>q_switch := sample_switch st\<rparr>"

lemma work_queue_simps [simp]:
  "q_tasks (work_queue st ts) = ts" "q_switch (work_queue st ts) = sample_switch st" "q_outbox (work_queue st ts) = []"
  "q_events (work_queue st ts) = []" "q_intents (work_queue st ts) = []"
  by (simp_all add: work_queue_def sample_queue_def)

lemma switch_paused:
  assumes "q_switch q = sample_switch st"
  shows "runtime_paused clock calm q = (st \<noteq> ACTIVE, q)"
proof -
  have "q\<lparr>q_switch := sample_switch st\<rparr> = q" using assms by simp
  then show ?thesis
    by (simp add: runtime_paused_def get_runtime_state_def reconcile_pause_signal_def pausejson_signal_def is_paused_def
        Let_def tighten_def sample_switch_def read_stop_row_def assms)
qed

lemma sample_paused: "runtime_paused clock calm (work_queue st ts) = (st \<noteq> ACTIVE, work_queue st ts)"
  by (rule switch_paused) simp

lemma sha_is_object: "object_id sha_c"
  by (simp add: object_id_def sha_c_def list_all_iff) code_simp

text \<open>A task without a receipt and an intent, and a result its constructor accepts.\<close>

lemma plain_submit:
  assumes "task_of q tid = Some t" and "tk_type t \<noteq> ''review''" and "tk_status t = In_Progress" and "tk_receipt_id t = None"
    and "tc_external_operation_id (tk_context t) = None" and "result_wellformed r" and "tr_task_id r = tid"
    and "so_expected_status opts = None"
  shows "\<exists>q'. submit_result dp clock ps q tid r opts = (Inr (tk_type t), q')"
proof -
  have "late_result q t r opts = None" using assms(3) by (simp add: late_result_def fallback_of_def Let_def)
  moreover have "receipt_for_task q tid = (None, None)" using assms(1,4) by (simp add: receipt_for_task_def)
  ultimately show ?thesis using assms by (simp add: submit_result_def Let_def refused_gate_def)
qed

definition plain_result :: work_result where
  "plain_result = work_of ''work'' sha_c"

lemma plain_result_simps [simp]:
  "tr_task_id plain_result = ''t1''" "tr_status plain_result = Completed" "tr_commit plain_result = sha_c"
  "tr_pr_number plain_result = None" "tr_error_info plain_result = None"
  by (simp_all add: plain_result_def work_of_def)

lemma plain_work_simps [simp]:
  "tk_id plain_work = ''t1''" "tk_type plain_work = ''implement''" "tk_status plain_work = In_Progress"
  "tk_receipt_id plain_work = None" "tc_external_operation_id (tk_context plain_work) = None"
  by (simp_all add: plain_work_def work_task_def sample_task_def blank_context_def)

lemma plain_wellformed: "result_wellformed (stored d plain_result)"
  using sha_is_object
  by (simp add: result_wellformed_def stored_def task_result.truncate_def valid_result_statuses_def strip_names)

lemma plain_gate: "artifact_gate_applies (Some plain_work) plain_result"
  by (simp add: artifact_gate_applies_def) (simp add: plain_work_def work_task_def ctx_key_def)

lemma plain_unheld: "hold_for (Some plain_work) r = (r, None)"
  by (simp add: hold_for_def hold_mismatched_pr_result_def pr_number_mismatch_def plain_work_def
      work_task_def ctx_key_def)

lemma plain_proved: "\<exists>refs. http_gate dp sample_door (Some plain_work) plain_result = (plain_result, None, refs)"
proof -
  obtain x where v: "verify_task_artifact id (\<lambda>_. True) (line_git sample_names) plain_work plain_result = (True, x, sha_c)"
    using sample_proved unfolding plain_result_def by blast
  have "plain_result\<lparr>tr_commit := sha_c\<rparr> = plain_result" by (simp add: plain_result_def work_of_def)
  with v have "judge sample_door (dr_checkout sample_door) plain_work plain_result [] = (plain_result, True, x, [])"
    by (simp add: judge_def sample_door_def)
  moreover have "\<not> dispatch_base_absent_hold dp (Some plain_work) plain_result"
    by (simp add: dispatch_base_absent_hold_def) (simp add: plain_work_def work_task_def ctx_key_def)
  ultimately show ?thesis by (simp add: http_gate_def plain_gate conclude_def)
qed

lemma plain_task: "task_of (work_queue st [plain_work]) ''t1'' = Some plain_work"
  by (simp add: task_of_def)

lemma plain_intake:
  "\<exists>reply q'. http_submit dp 9 calm sample_door replaying (work_queue st [plain_work]) ''t1'' plain_result None None = (reply, q')
     \<and> status_of q' ''t1'' = Some Completed \<and> reply \<notin> insert Verdict_Required (range Submit_Refused)"
proof -
  obtain refs where "http_prepare dp sample_door (st \<noteq> ACTIVE \<or> replaying) (Some plain_work) plain_result = ((plain_result, None, refs), None)"
    using plain_proved [of dp] by (cases "st \<noteq> ACTIVE \<or> replaying") (auto simp: http_prepare_def plain_unheld)
  moreover have "withdraw_fallback dp 9 q (Some plain_work) plain_result = (None, q)" for q
    by (simp add: withdraw_fallback_def)
  moreover obtain q3 where s: "submit_result dp 9 calm (work_queue st [plain_work]) ''t1'' (stored sample_door plain_result)
      (http_options replaying None None None None) = (Inr ''implement'', q3)"
    using plain_submit [OF plain_task, of "stored sample_door plain_result"] plain_wellformed
    by (fastforce simp: http_options_def stored_def task_result.truncate_def)
  moreover have "status_of (merge_refs ''t1'' plain_result refs q3) ''t1'' = Some Completed"
    using submit_status [OF s] by (simp add: status_of_statuses)
  ultimately show ?thesis
    by (auto simp: http_submit_def Let_def plain_task not_run_test_def verdict_required_def sample_paused http_reply_def
        split: option.split)
qed

theorem completed_work_is_proved_witness: "proved_at_gate sample_door plain_work plain_result"
proof -
  obtain reply q' where s: "http_submit (sample_deployment OFF) 9 calm sample_door False (work_queue ACTIVE [plain_work]) ''t1''
      plain_result None None = (reply, q')" "status_of q' ''t1'' = Some Completed"
    using plain_intake by blast
  show ?thesis
    by (rule completed_work_is_proved [OF plain_task _ plain_gate _ s]) (simp_all add: sample_paused)
qed

theorem doors_agree_witness:
  "tr_status (fst (fst (http_prepare (sample_deployment OFF) sample_door False (Some plain_work) plain_result)))
     = tr_status (fst (fst (mcp_prepare (sample_deployment OFF) sample_door False (Some plain_work) plain_result)))"
  using doors_agree [of sample_door] by (simp add: sample_door_def)

text \<open>Under a stop the same result is stored as completed although git knows no commit at all.\<close>

theorem stop_asks_no_proof_witness:
  "status_of (snd (http_submit (sample_deployment OFF) 9 calm (sample_door\<lparr>dr_checkout := line_git [], dr_worktree := None\<rparr>)
       False (work_queue STOPPED [plain_work]) ''t1'' plain_result None None)) ''t1'' = Some Completed"
proof -
  obtain reply q' where s: "http_submit (sample_deployment OFF) 9 calm sample_door False (work_queue STOPPED [plain_work]) ''t1''
      plain_result None None = (reply, q')" "status_of q' ''t1'' = Some Completed"
    using plain_intake by blast
  have "http_submit (sample_deployment OFF) 9 calm (sample_door\<lparr>dr_checkout := line_git [], dr_worktree := None\<rparr>) False
      (work_queue STOPPED [plain_work]) ''t1'' plain_result None None = (reply, q')"
    using stop_asks_no_proof [where clock = 9 and ps = calm and q = "work_queue STOPPED [plain_work]" and replaying = False
        and d = sample_door and g = "line_git []" and w = None and r = plain_result and tid = "''t1''"
        and nonce = None and presenter = None and dp = "sample_deployment OFF"] s
    by (simp add: sample_paused)
  with s show ?thesis by simp
qed

text \<open>A late result whose work intent has already succeeded: it is refused, and the fallback is gone.\<close>

definition late_task :: task_row where
  "late_task = (sample_task ''t1'' ''implement'' Failed)\<lparr>tk_receipt_id := None,
     tk_context := blank_context\<lparr>tc_external_operation_id := Some ''op1''\<rparr>\<rparr>"

definition fallback_task :: task_row where
  "fallback_task = (sample_task ''fallback-1'' ''implement'' Pending)\<lparr>tk_receipt_id := None,
     tk_context := blank_context\<lparr>tc_original_task_id := Some ''t1''\<rparr>\<rparr>"

definition late_queue :: queue where
  "late_queue = (work_queue ACTIVE [late_task, fallback_task])\<lparr>q_intents :=
     [(new_intent 5 sample_request None False)\<lparr>wi_state := Success\<rparr>]\<rparr>"

lemma late_simps [simp]:
  "tk_id late_task = ''t1''" "tk_id fallback_task = ''fallback-1''" "tk_type late_task = ''implement''"
  "tk_status late_task = Failed" "tk_status fallback_task = Pending" "tk_receipt_id fallback_task = None"
  "tc_external_operation_id (tk_context late_task) = Some ''op1''" "tc_more (tk_context late_task) = []"
  "tc_original_task_id (tk_context late_task) = None" "tc_original_task_id (tk_context fallback_task) = Some ''t1''"
  "tc_prev_task_id (tk_context late_task) = None"
  "q_tasks late_queue = [late_task, fallback_task]" "q_switch late_queue = sample_switch ACTIVE"
  "\<exists>w. row_of wi_id ''op1'' (q_intents late_queue) = Some w \<and> wi_state w = Success"
  by (simp_all add: late_task_def fallback_task_def sample_task_def blank_context_def late_queue_def intent_state_def
      intent_of_def new_intent_def sample_request_def)

lemma late_fallback: "fallback_tasks late_queue ''t1'' = [fallback_task]"
proof -
  have "startswith (py_lower ''fallback-1'') ''fallback-''" by code_simp
  then show ?thesis by (simp add: fallback_tasks_def)
qed

lemma late_prepare: "http_prepare dp sample_door False (Some late_task) plain_result = ((plain_result, None, []), None)"
  if "\<not> enforcing_code (cea_config dp (tk_project late_task)) None"
  using that
  by (simp add: http_prepare_def http_gate_def dispatch_base_absent_hold_def artifact_gate_applies_def declared_artifact_kind_def
      has_key_def ctx_key_def hold_for_def hold_mismatched_pr_result_def pr_number_mismatch_def)

theorem refused_result_ends_fallback_witness:
  "\<exists>reply q'. http_submit (sample_deployment OFF) 9 calm sample_door False late_queue ''t1'' plain_result None None = (reply, q')
     \<and> status_of q' ''fallback-1'' = Some Cancelled \<and> status_of q' ''t1'' = Some Failed"
proof -
  let ?dp = "sample_deployment OFF"
  have t: "task_of late_queue ''t1'' = Some late_task" by (simp add: task_of_def)
  have p: "runtime_paused 9 calm late_queue = (False, late_queue)" using switch_paused [of late_queue ACTIVE] by simp
  have g: "http_prepare ?dp sample_door (False \<or> False) (Some late_task) plain_result = ((plain_result, None, []), None)"
    using late_prepare [of ?dp] by (simp add: enforcing_code_def cea_config_def sample_deployment_def)
  obtain adopted q2 where w: "withdraw_fallback ?dp 9 late_queue (Some late_task) plain_result = (adopted, q2)" by fastforce
  have u: "unique_tasks late_queue" by (simp add: unique_tasks_def)
  have "\<exists>u. task_of q2 ''t1'' = Some u \<and> tc_external_operation_id (tk_context u) = Some ''op1''"
    and "intent_state q2 ''op1'' = Some Success"
    using w by (auto simp: withdraw_fallback_def late_fallback cancel_def task_of_def too_fresh_def terminal_task_statuses_def
        orphan_successors_def record_end_def append_exec_event_def update_task_def revoke_attempt_def intent_state_def
        intent_of_def)
  then have s: "submit_result ?dp 9 calm q2 ''t1'' (stored sample_door plain_result) (http_options False None adopted None None)
      = (Inl Work_Intent_Terminal, q2)"
    using plain_wellformed [of sample_door] by (auto simp: submit_result_def stored_def task_result.truncate_def)
  have "not_run_test (Some late_task) plain_result = plain_result" by (simp add: not_run_test_def)
  then have h: "http_submit ?dp 9 calm sample_door False late_queue ''t1'' plain_result None None
      = (Submit_Refused Work_Intent_Terminal, q2)"
    using g w s by (simp add: http_submit_def Let_def t verdict_required_def p)
  show ?thesis
    using refused_result_ends_fallback [OF u t _ _ late_fallback _ _ h] h g by (simp add: p)
qed

end
