(* ===== verification/Pipeline_Guards.thy ===== *)
theory Pipeline_Guards
  imports Merge Intake
begin

text \<open>
  What the pipeline asks before it creates the next task (\<open>pipeline.py\<close>): is the pull request open, is the
  review about the head that is there, is the branch one that automation may write to, how many rounds
  are left, and what a successor inherits from its parent. The environment variables, GitHub, the
  attribution table and the broker's receipts are the fields of a \<open>cascade_env\<close>. Results read back from
  the queue are well-formed, the database is never locked, and GitHub's repository name is one string.
\<close>

section \<open>The environment of a cascade\<close>

record cascade_env =
  pe_dp :: deployment
  pe_clock :: time
  pe_pauses :: pauses
  pe_admission :: "task_request \<Rightarrow> admission"
  pe_receipt :: "task_request \<Rightarrow> receipt"
  pe_server_project :: string
  pe_identity :: string
  pe_cwd :: string
  pe_cwd_repo :: string
  pe_env_main :: "string option"
  pe_env_fix_rounds :: "string option"
  pe_env_review_rounds :: "string \<Rightarrow> string option"
  pe_pr_state :: "int \<Rightarrow> pr_state"
  pe_closer :: "int \<Rightarrow> string option"
  pe_head :: "int \<Rightarrow> string option"
  pe_origin_head :: proc
  pe_remote_default :: "string \<Rightarrow> string"
  pe_pr_for_branch :: "string \<Rightarrow> string \<Rightarrow> int option"
  pe_agent_of :: "string \<Rightarrow> string option"
  pe_reviewer :: string
  pe_pane_agent :: "string \<Rightarrow> string option"
  pe_baseline :: "string \<Rightarrow> string"
  pe_delivered :: bool
  pe_comment_seen :: "int \<Rightarrow> bool option"
  pe_comment_posts :: "int \<Rightarrow> bool"
  pe_token :: string

section \<open>Contexts by key\<close>

text \<open>The keys the context record keeps apart are read and written as the others.\<close>

definition ctx_get :: "task_context \<Rightarrow> string \<Rightarrow> json" where
  "ctx_get ctx k =
     (if k = ''agent_override'' then json_text_opt (tc_agent_override ctx)
      else if k = ''implementer_agent'' then json_text_opt (tc_implementer_agent ctx)
      else if k = ''prev_task_id'' then json_text_opt (tc_prev_task_id ctx)
      else if k = ''original_task_id'' then json_text_opt (tc_original_task_id ctx)
      else if k = ''external_operation_id'' then json_text_opt (tc_external_operation_id ctx)
      else ctx_key ctx k)"

definition text_of :: "json \<Rightarrow> string option" where
  "text_of v = (case v of JStr s \<Rightarrow> Some s | _ \<Rightarrow> None)"

definition ctx_put :: "string \<Rightarrow> json \<Rightarrow> task_context \<Rightarrow> task_context" where
  "ctx_put k v ctx =
     (if k = ''agent_override'' then ctx\<lparr>tc_agent_override := text_of v\<rparr>
      else if k = ''implementer_agent'' then ctx\<lparr>tc_implementer_agent := text_of v\<rparr>
      else if k = ''prev_task_id'' then ctx\<lparr>tc_prev_task_id := text_of v\<rparr>
      else if k = ''original_task_id'' then ctx\<lparr>tc_original_task_id := text_of v\<rparr>
      else if k = ''external_operation_id'' then ctx\<lparr>tc_external_operation_id := text_of v\<rparr>
      else set_key k v ctx)"

definition ctx_has :: "task_context \<Rightarrow> string \<Rightarrow> bool" where
  "ctx_has ctx k \<longleftrightarrow> ctx_get ctx k \<noteq> JNull \<or> has_key ctx k"

definition puts :: "(string \<times> json) list \<Rightarrow> task_context \<Rightarrow> task_context" where
  "puts kvs ctx = fold (\<lambda>(k, v). ctx_put k v) kvs ctx"

definition empty_context :: task_context where
  "empty_context =
     \<lparr>tc_agent = None, tc_agent_override = None, tc_implementer_agent = None, tc_review_binding = None,
      tc_prev_task_id = None, tc_original_task_id = None, tc_external_operation_id = None, tc_push_not_before = None,
      tc_push_refusal_reason = None, tc_push_refusals = [], tc_capacity_count = 0, tc_capacity_since = None,
      tc_capacity_blocked_at = None, tc_prep_retry_count = 0, tc_prep_retry_error = None, tc_cea_enqueue = None,
      tc_cea_requeue = None, tc_cea_result = None, tc_more = []\<rparr>"

definition without_keys :: "string list \<Rightarrow> task_context \<Rightarrow> task_context" where
  "without_keys ks ctx = ctx\<lparr>tc_more := filter (\<lambda>e. fst e \<notin> set ks) (tc_more ctx)\<rparr>"

definition number_json :: "int option \<Rightarrow> json" where
  "number_json n = (case n of None \<Rightarrow> JNull | Some i \<Rightarrow> JInt i)"

definition text_json :: "string option \<Rightarrow> string \<Rightarrow> json" where
  "text_json a b = (case a of Some s \<Rightarrow> if s \<noteq> [] then JStr s else JStr b | None \<Rightarrow> JStr b)"

section \<open>Results read back\<close>

text \<open>\<open>get_result\<close>: a cancelled, timed-out or unfinished task has none.\<close>

definition row_result :: "task_row \<Rightarrow> task_result" where
  "row_result t =
     \<lparr>tr_task_id = tk_id t, tr_status = tk_status t, tr_summary = (case tk_summary t of None \<Rightarrow> [] | Some s \<Rightarrow> s),
      tr_verdict = tk_verdict t, tr_findings = tk_findings t, tr_pr_number = tk_pr_number t,
      tr_commit = key_text (ctx_key (tk_context t) ''result_commit''), tr_error_info = tk_error_info t, tr_json = []\<rparr>"

definition get_result :: "queue \<Rightarrow> string \<Rightarrow> task_result option" where
  "get_result q tid =
     (case task_of q tid of None \<Rightarrow> None
      | Some t \<Rightarrow> if tk_status t \<in> {Completed, Failed, Needs_Human, Blocked_Task} then Some (row_result t) else None)"

section \<open>Traces on the parent\<close>

definition notice :: "cascade_env \<Rightarrow> string \<Rightarrow> string \<Rightarrow> queue \<Rightarrow> queue" where
  "notice pe tid kind q = snd (coordinator_notice_once (pe_clock pe) (pe_clock pe) q tid kind (pe_delivered pe))"

definition set_ctx :: "string \<Rightarrow> string \<Rightarrow> json \<Rightarrow> queue \<Rightarrow> queue" where
  "set_ctx tid k v = update_task tid (\<lambda>t. t\<lparr>tk_context := set_key k v (tk_context t)\<rparr>)"

definition record_successor_refused :: "cascade_env \<Rightarrow> string \<Rightarrow> string \<Rightarrow> queue \<Rightarrow> queue" where
  "record_successor_refused pe tid reason q =
     notice pe tid ''successor_refused'' (set_ctx tid ''lineage_terminal_reason'' (JStr (''successor_refused: '' @ reason)) q)"

definition has_successor :: "queue \<Rightarrow> string \<Rightarrow> bool" where
  "has_successor q tid \<longleftrightarrow>
     list_ex (\<lambda>t. tc_prev_task_id (tk_context t) = Some tid \<or> tc_original_task_id (tk_context t) = Some tid) (q_tasks q)"

definition annotate_error_info :: "string \<Rightarrow> (string \<times> json) list \<Rightarrow> queue \<Rightarrow> queue" where
  "annotate_error_info tid extra =
     update_task tid (\<lambda>t. t\<lparr>tk_error_info := Some (JObj (fold (\<lambda>(k, v) kvs. set_field kvs k v) extra
        (case tk_error_info t of None \<Rightarrow> [] | Some (JObj kvs) \<Rightarrow> kvs | Some v \<Rightarrow> [(''previous'', v)])))\<rparr>)"

text \<open>The notice of a lineage's end is outside; without locks the failure is a configuration error.\<close>

definition record_cascade_enqueue_failure :: "string \<Rightarrow> string \<Rightarrow> string \<Rightarrow> queue \<Rightarrow> queue" where
  "record_cascade_enqueue_failure tid step err q =
     (if has_successor q tid then q
      else annotate_error_info tid
             [(''kind'', JStr ''config_error''), (''reason'', JStr ''cascade_enqueue_failed''),
              (''cascade_step'', JStr step), (''cascade_error_type'', JStr err)] q)"

section \<open>The pull request\<close>

definition pr_is_actionable :: "cascade_env \<Rightarrow> string \<Rightarrow> json \<Rightarrow> bool \<times> pr_state option" where
  "pr_is_actionable pe repo pr =
     (if \<not> json_truthy pr then (True, None)
      else if repo = [] \<and> pe_cwd pe = [] then (False, Some Pr_Unknown)
      else case int_value pr of None \<Rightarrow> (False, Some Pr_Unknown)
           | Some n \<Rightarrow> (pe_pr_state pe n = Pr_Open, Some (pe_pr_state pe n)))"

definition closed_reason :: "string \<Rightarrow> json \<Rightarrow> string" where
  "closed_reason stage pr = ''cascade_stopped: pr_closed pr='' @ shown pr @ '' stage='' @ stage"

text \<open>A closed pull request parks the parent for a human; an unknown one only stops the cascade.\<close>

definition skip_terminal_pr :: "cascade_env \<Rightarrow> string \<Rightarrow> string \<Rightarrow> json \<Rightarrow> string \<Rightarrow> queue \<Rightarrow> bool \<times> queue" where
  "skip_terminal_pr pe stage tid pr repo q =
     (case pr_is_actionable pe repo pr of
        (True, _) \<Rightarrow> (False, q)
      | (False, st) \<Rightarrow>
          if st = Some Pr_Closed
          then (True, snd (mark_needs_human q tid (closed_reason stage pr)
                 ((''cascade_stopped'', JStr (closed_reason stage pr))
                  # (case Option.bind (int_value pr) (pe_closer pe) of None \<Rightarrow> []
                     | Some who \<Rightarrow> if who = [] then [] else [(''pr_closed_by'', JStr who)]))))
          else (True, q))"

section \<open>The reviewed head\<close>

datatype head_status = Unpinned | At_Head string | Stale string | Head_Unknown

definition review_head_status :: "cascade_env \<Rightarrow> string \<Rightarrow> task_context \<Rightarrow> json \<Rightarrow> head_status" where
  "review_head_status pe repo ctx pr =
     (let reviewed = ctx_key ctx ''reviewed_sha'';
          where_at = (if repo \<noteq> [] then repo else key_text (ctx_key ctx ''repo''))
      in if \<not> json_truthy reviewed \<or> \<not> json_truthy pr then Unpinned
         else if where_at = [] \<and> pe_cwd pe = [] then Head_Unknown
         else case Option.bind (int_value pr) (pe_head pe) of
                None \<Rightarrow> Head_Unknown
              | Some head \<Rightarrow> if head = [] then Head_Unknown
                             else if JStr head = reviewed then At_Head head else Stale head)"

definition review_is_current :: "cascade_env \<Rightarrow> string \<Rightarrow> task_context \<Rightarrow> json \<Rightarrow> bool" where
  "review_is_current pe repo ctx pr =
     (case review_head_status pe repo ctx pr of Unpinned \<Rightarrow> True | At_Head h \<Rightarrow> True | _ \<Rightarrow> False)"

text \<open>May the verdict be posted, and at which head is the review to be asked for again?\<close>

definition review_publication_decision :: "cascade_env \<Rightarrow> string \<Rightarrow> task_context \<Rightarrow> json \<Rightarrow> bool \<times> string option" where
  "review_publication_decision pe repo ctx pr =
     (case review_head_status pe repo ctx pr of
        Unpinned \<Rightarrow> (True, None) | At_Head h \<Rightarrow> (True, None) | Stale h \<Rightarrow> (False, Some h) | Head_Unknown \<Rightarrow> (False, None))"

section \<open>Branches automation never writes to\<close>

definition strip_ref :: "string \<Rightarrow> string \<Rightarrow> string" where
  "strip_ref p s = (if startswith s p then drop (length p) s else s)"

definition normalize_branch :: "json \<Rightarrow> string" where
  "normalize_branch v = strip_ref ''origin/'' (strip_ref ''refs/remotes/origin/'' (strip_ref ''refs/heads/'' (key_text v)))"

definition default_branches :: "cascade_env \<Rightarrow> task_context \<Rightarrow> string \<Rightarrow> bool \<Rightarrow> string list option" where
  "default_branches pe ctx repo require =
     (let main = normalize_branch (text_json (pe_env_main pe) ''main'');
          base = normalize_branch (ctx_key ctx ''base_branch'');
          local = (if pe_cwd pe = [] then [] else case pe_origin_head pe of
                     Exited True out \<Rightarrow> [normalize_branch (JStr out)] | _ \<Rightarrow> []);
          remote = pe_remote_default pe repo
      in if require \<and> remote = [] then None
         else Some (filter (\<lambda>b. b \<noteq> []) ([main, base] @ local @ (if require then [remote] else []))))"

section \<open>Rounds\<close>

definition default_review_fix_max_rounds :: int where
  "default_review_fix_max_rounds = 3"

definition review_fix_max_rounds :: "cascade_env \<Rightarrow> int" where
  "review_fix_max_rounds pe =
     (let raw = (case pe_env_fix_rounds pe of None \<Rightarrow> [] | Some s \<Rightarrow> py_strip s)
      in if raw = [] then default_review_fix_max_rounds
         else case int_of_text raw of None \<Rightarrow> default_review_fix_max_rounds | Some n \<Rightarrow> max 0 n)"

definition fix_task_id :: "string \<Rightarrow> int \<Rightarrow> string" where
  "fix_task_id review n = ''fix-'' @ review @ ''-r'' @ show_int n"

definition review_task_id :: "string \<Rightarrow> int \<Rightarrow> string" where
  "review_task_id impl n = ''review-'' @ impl @ ''-r'' @ show_int n"

definition stale_review_task_id :: "int \<Rightarrow> string \<Rightarrow> string" where
  "stale_review_task_id pr head = ''review-'' @ show_int pr @ ''-'' @ take 12 head"

text \<open>The round a context stands in; \<open>None\<close> is the malformed row.\<close>

definition fix_round_of :: "task_context \<Rightarrow> int option" where
  "fix_round_of ctx =
     (if \<not> has_key ctx ''fix_round'' then Some 0
      else case ctx_key ctx ''fix_round'' of JInt n \<Rightarrow> if n < 0 then None else Some n | _ \<Rightarrow> None)"

definition sha40 :: "string \<Rightarrow> bool" where
  "sha40 s \<longleftrightarrow> length s = 40 \<and> list_all is_hex s"

definition round_before :: "task_context \<Rightarrow> int \<Rightarrow> bool" where
  "round_before ctx n \<longleftrightarrow> (if has_key ctx ''fix_round'' then same_int (ctx_key ctx ''fix_round'') (n - 1) else n - 1 = 0)"

text \<open>The approved commit under a fix of a test that failed after the approval, or nothing.\<close>

definition approved_test_fix_sha :: "cascade_env \<Rightarrow> queue \<Rightarrow> task_row \<Rightarrow> string" where
  "approved_test_fix_sha pe q fix =
     (case ctx_key (tk_context fix) ''fix_round'' of
        JInt n \<Rightarrow>
          if n < 1 \<or> review_fix_max_rounds pe < n then []
          else (case Option.bind (tc_prev_task_id (tk_context fix)) (task_of q) of None \<Rightarrow> []
                | Some t \<Rightarrow>
                    if tk_type t \<noteq> ''test'' \<or> map_option handle_test_result (get_result q (tk_id t)) \<noteq> Some Test_Failed
                       \<or> \<not> round_before (tk_context t) n then []
                    else (case Option.bind (tc_prev_task_id (tk_context t)) (task_of q) of None \<Rightarrow> []
                          | Some rv \<Rightarrow>
                              if tk_type rv \<noteq> ''review''
                                 \<or> map_option resolve_verdict (get_result q (tk_id rv)) \<noteq> Some Approve then []
                              else (case first_truthy [ctx_key (tk_context t) ''reviewed_sha'', ctx_key (tk_context rv) ''reviewed_sha''] of
                                      JStr s \<Rightarrow> if sha40 s then s else [] | _ \<Rightarrow> [])))
      | _ \<Rightarrow> [])"

section \<open>The reviewer's budget\<close>

text \<open>The rows of a lineage: those that name its root, and all that follow one of them.\<close>

definition names_parent :: "string list \<Rightarrow> task_row \<Rightarrow> bool" where
  "names_parent ids t \<longleftrightarrow> (case tc_prev_task_id (tk_context t) of None \<Rightarrow> False | Some p \<Rightarrow> p \<in> set ids)"

definition lineage_ids :: "queue \<Rightarrow> string \<Rightarrow> string list" where
  "lineage_ids q stem =
     ((\<lambda>ids. ids @ map tk_id (filter (\<lambda>t. tk_id t \<notin> set ids \<and> names_parent ids t) (q_tasks q))) ^^ length (q_tasks q))
       (map tk_id (filter (\<lambda>t. tk_id t = stem \<or> ctx_key (tk_context t) ''lineage_root_task_id'' = JStr stem) (q_tasks q)))"

definition lineage_rows :: "queue \<Rightarrow> string \<Rightarrow> task_row list" where
  "lineage_rows q stem = filter (\<lambda>t. tk_id t \<in> set (lineage_ids q stem)) (q_tasks q)"

definition root_id :: "queue \<Rightarrow> task_row \<Rightarrow> json" where
  "root_id q t =
     (let v = ctx_key (tk_context t) ''lineage_root_task_id''
      in if json_truthy v then v else JStr (tk_id (lineage_root q [tk_id t] t)))"

definition reviewer_of :: "cascade_env \<Rightarrow> task_row \<Rightarrow> json" where
  "reviewer_of pe t =
     (let v = first_truthy [json_text_opt (pe_agent_of pe (tk_id t)), ctx_get (tk_context t) ''agent_override'',
                            ctx_key (tk_context t) ''reviewer_agent'']
      in if json_truthy v then v else JStr (pe_baseline pe ''reviewer''))"

definition env_name :: "string \<Rightarrow> string" where
  "env_name provider = ''AGENT_CREW_REVIEW_MAX_ROUNDS_''
     @ map (\<lambda>c. if is_digit c \<or> (is_alpha c \<and> upper_char c = c) then c else CHR ''_'') (py_upper provider)"

record capped =
  cp_provider :: string
  cp_count :: int
  cp_cap :: int
  cp_root :: string

definition review_rounds :: "cascade_env \<Rightarrow> queue \<Rightarrow> json \<Rightarrow> string \<Rightarrow> int" where
  "review_rounds pe q stem provider =
     (let rows = lineage_rows q (shown stem); q1 = q\<lparr>q_tasks := rows\<rparr>
      in int (length (filter (\<lambda>t. tk_type t = ''review'' \<and> tk_status t \<in> {Pending, In_Progress, Completed}
           \<and> root_id q1 t = stem \<and> reviewer_of pe t = JStr provider) rows)))"

definition prior_delta :: "queue \<Rightarrow> json \<Rightarrow> bool" where
  "prior_delta q stem =
     (let rows = lineage_rows q (shown stem); q1 = q\<lparr>q_tasks := rows\<rparr>
      in list_ex (\<lambda>t. tk_type t = ''review'' \<and> tk_status t \<noteq> Cancelled \<and> flag (tk_context t) ''delta_review''
                    \<and> root_id q1 t = stem) rows)"

definition review_cap :: "cascade_env \<Rightarrow> string \<Rightarrow> int option" where
  "review_cap pe provider =
     map_option (\<lambda>raw. case int_of_text (py_strip raw) of None \<Rightarrow> 0 | Some n \<Rightarrow> max 0 n)
       (pe_env_review_rounds pe (env_name provider))"

text \<open>\<open>_review_round_cap\<close>: refused when the provider has spent its rounds, but once a delta review of a test fix.\<close>

definition review_round_cap ::
  "cascade_env \<Rightarrow> queue \<Rightarrow> task_row \<Rightarrow> string \<Rightarrow> string \<Rightarrow> json \<Rightarrow> capped option \<times> queue" where
  "review_round_cap pe q parent review_id provider head =
     (if task_of q review_id \<noteq> None then (None, q)
      else case review_cap pe provider of None \<Rightarrow> (None, q)
      | Some cap \<Rightarrow>
          let stem = root_id q parent; count = review_rounds pe q stem provider;
              approved = (if tk_type parent = ''implement'' then approved_test_fix_sha pe q parent else [])
          in if count < cap then (None, q)
             else if \<not> prior_delta q stem \<and> approved \<noteq> []
                     \<and> (case head of JStr h \<Rightarrow> sha40 h \<and> py_lower h \<noteq> py_lower approved | _ \<Rightarrow> False) then (None, q)
             else (Some \<lparr>cp_provider = provider, cp_count = count, cp_cap = cap, cp_root = shown stem\<rparr>,
                   notice pe (tk_id parent) ''review_round_cap''
                     (case patch_context q (tk_id parent)
                             [(''review_blocked_reason'', JStr ''review_round_cap''), (''review_blocked_provider'', JStr provider),
                              (''review_blocked_count'', JInt count), (''review_blocked_cap'', JInt cap)] of
                        None \<Rightarrow> q | Some q1 \<Rightarrow> q1)))"

section \<open>What a successor inherits\<close>

definition valid_tier :: "json \<Rightarrow> int option" where
  "valid_tier v = (case v of JInt n \<Rightarrow> if 0 \<le> n \<and> n \<le> 3 then Some n else None | _ \<Rightarrow> None)"

definition successor_context :: "task_context \<Rightarrow> task_context" where
  "successor_context ctx =
     ctx\<lparr>tc_cea_enqueue := None, tc_cea_requeue := None, tc_cea_result := None,
         tc_more := filter (\<lambda>e. \<not> startswith (fst e) ''cea_'') (tc_more ctx)\<rparr>"

definition lineage_intent_fields :: "string list" where
  "lineage_intent_fields =
     [''repo'', ''issue'', ''issue_number'', ''issue_title'', ''issue_body'', ''issue_url'', ''base_branch'',
      ''coordinator_managed'', ''coordinator_generation'', ''implementer_agent'', ''reviewer_agent'', ''no_tester'',
      ''risk_tier'', ''lineage_root_task_id'', ''external_operation_id'']"

definition set_default :: "string \<Rightarrow> json \<Rightarrow> task_context \<Rightarrow> task_context" where
  "set_default k v ctx = (if ctx_has ctx k then ctx else ctx_put k v ctx)"

definition role_key :: "string \<Rightarrow> string" where
  "role_key role = (if role = ''reviewer'' then ''reviewer_agent'' else if role = ''implementer'' then ''implementer_agent''
                    else ''tester_agent'')"

definition carry_lineage_intent :: "task_row \<Rightarrow> string \<Rightarrow> task_context \<Rightarrow> task_context" where
  "carry_lineage_intent parent role ctx =
     (let pctx = tk_context parent;
          c1 = fold (\<lambda>k c. if ctx_has pctx k then set_default k (ctx_get pctx k) c else c) lineage_intent_fields ctx;
          c2 = set_default ''lineage_root_task_id''
                 (let v = ctx_key pctx ''lineage_root_task_id'' in if json_truthy v then v else JStr (tk_id parent)) c1
      in case ctx_get pctx (role_key role) of
           JStr s \<Rightarrow> if py_strip s \<noteq> [] then ctx_put ''agent_override'' (JStr (py_strip s)) c2 else c2
         | _ \<Rightarrow> c2)"

definition successor_project :: "cascade_env \<Rightarrow> task_row \<Rightarrow> string" where
  "successor_project pe parent =
     (case filter (\<lambda>p. p \<noteq> []) (map py_strip [tk_project parent, pe_server_project pe, pe_identity pe]) of
        [] \<Rightarrow> [] | p # _ \<Rightarrow> p)"

text \<open>The tier of the root, or else of the parent, unless the successor has its own.\<close>

definition inherited_context :: "queue \<Rightarrow> task_row \<Rightarrow> task_context \<Rightarrow> task_context" where
  "inherited_context q parent ctx =
     (case valid_tier (ctx_key (tk_context (lineage_root q [tk_id parent] parent)) ''risk_tier'') of
        Some n \<Rightarrow> set_key ''risk_tier'' (JInt n) ctx
      | None \<Rightarrow>
          if has_key ctx ''risk_tier'' then ctx
          else (case valid_tier (ctx_key (tk_context parent) ''risk_tier'') of
                  None \<Rightarrow> ctx | Some n \<Rightarrow> set_key ''risk_tier'' (JInt n) ctx))"

definition explicit_root_facts :: "queue \<Rightarrow> task_row \<Rightarrow> (string \<times> json) list option" where
  "explicit_root_facts q parent =
     (let stem = lineage_root q [tk_id parent] parent
      in case ctx_key (tk_context stem) ''risk_declaration'' of
           JObj kvs \<Rightarrow>
             if map_of kvs ''declaration_source'' = Some (JStr ''explicit'')
                \<and> list_ex (\<lambda>k. case map_of kvs k of Some (JBool b) \<Rightarrow> True | _ \<Rightarrow> False) risk_declaration_fields
             then Some (set_field kvs ''inherited_from''
                    (let v = json_of kvs ''inherited_from'' in if json_truthy v then v else JStr (tk_id stem)))
             else None
         | _ \<Rightarrow> None)"

definition facts_json :: "risk_facts \<Rightarrow> json" where
  "facts_json d = JObj
     (map (\<lambda>(k, b). (k, case b of None \<Rightarrow> JNull | Some x \<Rightarrow> JBool x)) (rd_facts d)
      @ [(''declaration_source'', JStr (rd_source d)), (''confidence'', json_text_opt (rd_confidence d)),
         (''inherited_from'', json_text_opt (rd_inherited_from d))])"

text \<open>What the constructor of a request refuses (\<open>TaskRequest.__post_init__\<close>) and \<open>validate_local_inputs\<close>.\<close>

definition valid_request :: "task_request \<Rightarrow> bool" where
  "valid_request rq \<longleftrightarrow> 1 \<le> rq_priority rq \<and> rq_priority rq \<le> 5 \<and> fix_round_of (rq_context rq) \<noteq> None"

definition valid_local_inputs :: "task_context \<Rightarrow> bool" where
  "valid_local_inputs ctx \<longleftrightarrow>
     \<not> has_key ctx ''local_inputs''
     \<or> (case ctx_key ctx ''local_inputs'' of JArr vs \<Rightarrow> list_all (\<lambda>v. text_of v \<noteq> None) vs | _ \<Rightarrow> False)"

text \<open>The issue number a row carries, under both its names, or under none.\<close>

definition task_issue_number :: "task_context \<Rightarrow> int option" where
  "task_issue_number ctx =
     (case ctx_key ctx ''issue'' of JInt n \<Rightarrow> Some n
      | _ \<Rightarrow> (case ctx_key ctx ''issue_number'' of JInt n \<Rightarrow> Some n | _ \<Rightarrow> None))"

definition enqueue_context :: "task_context \<Rightarrow> task_context" where
  "enqueue_context ctx =
     (case task_issue_number ctx of
        Some n \<Rightarrow> set_key ''issue_number'' (JInt n) (set_key ''issue'' (JInt n) ctx)
      | None \<Rightarrow> without_keys [''issue'', ''issue_number''] ctx)"

text \<open>
  \<open>enqueue\<close> of a successor: a declared tier must be valid, a missing one is read from the parent and must
  be there, the pull request number is written in one form. What the broker answers is the receipt.
\<close>

definition trusted_context :: "queue \<Rightarrow> task_context \<Rightarrow> task_context" where
  "trusted_context q ctx0 =
     (let ctx = enqueue_context ctx0
      in if valid_tier (ctx_key ctx ''risk_tier'') \<noteq> None then ctx
      else let parent = (case tc_prev_task_id ctx of Some p \<Rightarrow> if p \<noteq> [] then p else lineage_parent ctx | None \<Rightarrow> lineage_parent ctx)
           in (case Option.bind (task_of q parent) (\<lambda>t. valid_tier (ctx_key (tk_context t) ''risk_tier'')) of
                 None \<Rightarrow> ctx | Some n \<Rightarrow> set_key ''risk_tier'' (JInt n) ctx))"

definition canonical_pr :: "task_context \<Rightarrow> task_context" where
  "canonical_pr ctx =
     (case normalize_pr_number (ctx_key ctx ''pr_number'') of None \<Rightarrow> ctx | Some n \<Rightarrow> set_key ''pr_number'' (JInt n) ctx)"

definition enqueue_successor :: "cascade_env \<Rightarrow> task_request \<Rightarrow> queue \<Rightarrow> (enqueue_error + string) \<times> queue" where
  "enqueue_successor pe rq0 q =
     (let ctx = trusted_context q (rq_context rq0); rq = rq0\<lparr>rq_context := canonical_pr ctx\<rparr>
      in if has_key (rq_context rq0) ''risk_tier'' \<and> valid_tier (ctx_key (rq_context rq0) ''risk_tier'') = None
         then (Inl Risk_Tier_Invalid, q)
         else if valid_tier (ctx_key ctx ''risk_tier'') = None then (Inl Risk_Tier_Invalid, q)
         else enqueue_with_receipt (pe_dp pe) (pe_clock pe) (pe_pauses pe) (pe_admission pe rq) q rq (pe_receipt pe rq))"

text \<open>\<open>_enqueue_with_inherited_risk\<close>: the admission, and the root's explicit facts on the new row.\<close>

definition note_inherited_facts :: "task_row \<Rightarrow> task_request \<Rightarrow> queue \<Rightarrow> queue \<Rightarrow> queue" where
  "note_inherited_facts parent rq q0 q =
     (case explicit_root_facts q0 parent of None \<Rightarrow> q
      | Some kvs \<Rightarrow>
          (case patch_context q (rq_id rq)
                  [(''risk_declaration'', facts_json (risk_declaration (rq_description rq)
                      (set_key ''risk_declaration'' (JObj kvs) (rq_context rq))))] of
             None \<Rightarrow> q | Some q1 \<Rightarrow> q1))"

definition enqueue_with_inherited_risk ::
  "cascade_env \<Rightarrow> task_row \<Rightarrow> task_request \<Rightarrow> queue \<Rightarrow> (enqueue_error + string) \<times> queue" where
  "enqueue_with_inherited_risk pe parent rq0 q =
     (let rq = rq0\<lparr>rq_context := inherited_context q parent (rq_context rq0)\<rparr>
      in case enqueue_successor pe rq q of
           (Inl e, q1) \<Rightarrow> (Inl e, q1)
         | (Inr i, q1) \<Rightarrow> (Inr i, note_inherited_facts parent rq q q1))"

text \<open>The stricter contract of the review a surviving duplicate stands for.\<close>

definition review_cascade_contract :: "queue \<Rightarrow> task_row \<Rightarrow> cascade_contract" where
  "review_cascade_contract q rv =
     (let own = stored_contract (tk_context rv); tier = (\<lambda>c. case cc_tier c of None \<Rightarrow> 0 | Some n \<Rightarrow> n)
      in case ctx_key (tk_context rv) ''duplicate_review_lineage_from'' of
           JStr i \<Rightarrow>
             (case task_of q i of None \<Rightarrow> own
              | Some b \<Rightarrow>
                  if tk_type b \<noteq> ''review'' \<or> tk_status b \<noteq> Blocked_Task then own
                  else let c = stored_contract (tk_context b)
                       in if cc_enforced c \<and> (\<not> cc_enforced own \<or> tier own < tier c) then c else own)
         | _ \<Rightarrow> own)"

end
