(* ===== verification/Pipeline.thy ===== *)
theory Pipeline
  imports Pipeline_Guards
begin

text \<open>
  The stages of the pipeline (\<open>pipeline.py\<close>): which task follows a finished one. Each stage is a chain of
  guards in the order of the code, each returning early, and then one admission of a successor whose
  identifier is computed from its parent. Tier three work is held by a gate for a human. The canary of the
  token economics is off, and its citation is not written on a fix; dashes of texts are written in ASCII.
\<close>

section \<open>Gates\<close>

datatype gate_status = Gate_Pending | Gate_Approved | Gate_Rejected

record gate_row =
  gt_id :: string
  gt_type :: string
  gt_message :: string
  gt_kind :: string
  gt_target :: string
  gt_status :: gate_status
  gt_created_at :: time

definition gate_of :: "gate_row list \<Rightarrow> string \<Rightarrow> gate_row option" where
  "gate_of gs i = row_of gt_id i gs"

text \<open>\<open>create_gate\<close>; \<open>None\<close> is the \<open>IntegrityError\<close> of an identifier in use.\<close>

definition create_gate :: "gate_row \<Rightarrow> gate_row list \<Rightarrow> gate_row list option" where
  "create_gate g gs = (if gate_of gs (gt_id g) = None then Some (gs @ [g\<lparr>gt_status := Gate_Pending\<rparr>]) else None)"

datatype gate_error = Gate_Missing | Gate_Resolved

definition resolve_gate :: "string \<Rightarrow> bool \<Rightarrow> gate_row list \<Rightarrow> gate_error + gate_row list" where
  "resolve_gate i approved gs =
     (case gate_of gs i of None \<Rightarrow> Inl Gate_Missing
      | Some g \<Rightarrow>
          if gt_status g \<noteq> Gate_Pending then Inl Gate_Resolved
          else Inr (map (\<lambda>h. if gt_id h = i then h\<lparr>gt_status := if approved then Gate_Approved else Gate_Rejected\<rparr> else h) gs))"

definition list_gates :: "gate_status option \<Rightarrow> gate_row list \<Rightarrow> gate_row list" where
  "list_gates st gs = sort_key gt_created_at (filter (\<lambda>g. case st of None \<Rightarrow> True | Some s \<Rightarrow> gt_status g = s) gs)"

text \<open>The gate that holds tier three work, created once.\<close>

definition tier3_message :: "string \<Rightarrow> string \<Rightarrow> string" where
  "tier3_message kind target =
     (if kind = ''review''
      then ''Tier 3 human/independent gate for '' @ target @ '': irreversible or external work must be explicitly ''
             @ ''approved before review/test continuation.''
      else ''Tier 3 human/independent gate for '' @ target @ '': approve before test continuation.'')"

definition tier3_gate_id :: "string \<Rightarrow> string \<Rightarrow> string" where
  "tier3_gate_id kind target = (if kind = ''review'' then ''risk-tier3-'' else ''risk-tier3-test-'') @ target"

definition hold_at_gate :: "time \<Rightarrow> string \<Rightarrow> string \<Rightarrow> gate_row list \<Rightarrow> gate_row list" where
  "hold_at_gate clock kind target gs =
     (case create_gate \<lparr>gt_id = tier3_gate_id kind target, gt_type = ''approval'', gt_message = tier3_message kind target,
             gt_kind = kind, gt_target = target, gt_status = Gate_Pending, gt_created_at = clock\<rparr> gs of
        None \<Rightarrow> gs | Some gs1 \<Rightarrow> gs1)"

definition held_at_gate :: "cascade_contract \<Rightarrow> task_context \<Rightarrow> bool" where
  "held_at_gate c ctx \<longleftrightarrow>
     cc_enforced c \<and> cc_human_gate_required c \<and> \<not> json_truthy (ctx_key ctx ''tier3_gate_approved'')"

section \<open>Outcomes\<close>

datatype outcome = No_Successor | Successor string | Round_Capped capped | Paused_Again | Malformed_Row

definition error_name :: "enqueue_error \<Rightarrow> string" where
  "error_name e =
     (case e of Admission_Refused g \<Rightarrow> ''AdmissionRefused'' | Paused_Runtime \<Rightarrow> ''PausedError''
      | Risk_Tier_Invalid \<Rightarrow> ''InvalidRiskTierError'' | Duplicate_Of i \<Rightarrow> ''DuplicateReviewError''
      | Already_Exists st \<Rightarrow> ''TaskAlreadyExistsError''
      | Intent_Refused i \<Rightarrow> if i = Target_Conflict then ''WorkIntentTargetConflict'' else ''ValueError'')"

text \<open>A stop reopens the continuation and is raised again; any other refusal is kept on the parent.\<close>

definition stage_raised :: "string \<Rightarrow> string \<Rightarrow> enqueue_error \<Rightarrow> queue \<Rightarrow> outcome \<times> queue" where
  "stage_raised tid step e q =
     (if e = Paused_Runtime then (Paused_Again, snd (outbox_reopen q tid))
      else (No_Successor, record_cascade_enqueue_failure tid step (error_name e) q))"

definition other_project :: "cascade_env \<Rightarrow> task_row \<Rightarrow> bool" where
  "other_project pe t \<longleftrightarrow> tk_project t \<noteq> [] \<and> pe_server_project pe \<noteq> [] \<and> tk_project t \<noteq> pe_server_project pe"

definition cascade_branch_of :: "task_row \<Rightarrow> string" where
  "cascade_branch_of t =
     (if json_truthy (ctx_key (tk_context t) lineage_from)
      then (case ctx_key (tk_context t) ''cascade_branch'' of JStr s \<Rightarrow> if s \<noteq> [] then s else tk_branch t | _ \<Rightarrow> tk_branch t)
      else tk_branch t)"

definition opt_puts :: "bool \<Rightarrow> (string \<times> json) list \<Rightarrow> (string \<times> json) list" where
  "opt_puts b kvs = (if b then kvs else [])"

definition tier_put :: "task_context \<Rightarrow> (string \<times> json) list" where
  "tier_put ctx = (case valid_tier (ctx_key ctx ''risk_tier'') of None \<Rightarrow> [] | Some n \<Rightarrow> [(''risk_tier'', JInt n)])"

definition copied :: "task_context \<Rightarrow> string list \<Rightarrow> (string \<times> json) list" where
  "copied ctx ks = map (\<lambda>k. (k, ctx_get ctx k)) (filter (\<lambda>k. ctx_get ctx k \<noteq> JNull) ks)"

definition nl :: string where
  "nl = [CHR 0x0A]"

section \<open>The fix\<close>

definition max_embedded_findings :: nat where
  "max_embedded_findings = 20"

definition max_finding_chars :: nat where
  "max_finding_chars = 1000"

definition finding_line :: "string \<Rightarrow> string \<Rightarrow> string" where
  "finding_line tid f =
     ''- '' @ (if max_finding_chars < length f
              then take max_finding_chars f @ '' [... truncated; full text in review task '' @ tid @ '']'' else f)"

definition findings_block :: "string list \<Rightarrow> string \<Rightarrow> string" where
  "findings_block fs tid =
     (let items = filter (\<lambda>f. f \<noteq> []) (map py_strip fs); lines = map (finding_line tid) (take max_embedded_findings items)
      in py_join CHR 0x0A
           (if length items \<le> max_embedded_findings then lines
            else lines @ [''- [... '' @ show_nat (length items - max_embedded_findings)
                   @ '' further findings omitted here - read them all via GET /tasks/'' @ tid @ '']'']))"

definition new_failures :: "task_result \<Rightarrow> string list" where
  "new_failures r =
     (case error_field r ''script_test'' of
        JObj kvs \<Rightarrow> (case json_of kvs ''new_failures'' of JArr xs \<Rightarrow> map shown xs | _ \<Rightarrow> [])
      | _ \<Rightarrow> [])"

definition is_test :: "task_row \<Rightarrow> bool" where
  "is_test t \<longleftrightarrow> tk_type t = ''test''"

definition actionable :: "task_row \<Rightarrow> task_result \<Rightarrow> bool" where
  "actionable t r =
     (if is_test t then handle_test_result r = Test_Failed \<and> (tr_findings r \<noteq> [] \<or> new_failures r \<noteq> [])
      else resolve_verdict r = Request_Changes)"

definition fix_findings :: "task_row \<Rightarrow> task_result \<Rightarrow> string list" where
  "fix_findings t r =
     (if is_test t
      then fold (\<lambda>n fs. let f = ''new failure: '' @ n in if f \<in> set fs then fs else fs @ [f]) (new_failures r) (tr_findings r)
      else tr_findings r)"

definition result_pr :: "task_result \<Rightarrow> task_context \<Rightarrow> json" where
  "result_pr r ctx = (case tr_pr_number r of Some n \<Rightarrow> if n \<noteq> 0 then JInt n else ctx_key ctx ''pr_number''
                      | None \<Rightarrow> ctx_key ctx ''pr_number'')"

record fix_plan =
  fp_task :: task_row
  fp_result :: task_result
  fp_pr :: json
  fp_round :: int
  fp_cap :: int

definition refuse_fix :: "cascade_env \<Rightarrow> task_row \<Rightarrow> string \<Rightarrow> queue \<Rightarrow> queue" where
  "refuse_fix pe t reason q = (if is_test t then q else record_successor_refused pe (tk_id t) reason q)"

text \<open>The guards of a fix: an outcome, or the plan of the fix.\<close>

definition plan_fix :: "cascade_env \<Rightarrow> string \<Rightarrow> bool \<Rightarrow> queue \<Rightarrow> string \<Rightarrow> (outcome \<times> queue) + fix_plan" where
  "plan_fix pe repo require q tid =
     (case (task_of q tid, get_result q tid) of
        (Some t, Some r) \<Rightarrow>
          let ctx = tk_context t; pr = result_pr r ctx
          in if \<not> actionable t r \<or> other_project pe t \<or> json_truthy (ctx_key ctx ''findings_only'')
             then Inl (No_Successor, q)
             else (case default_branches pe ctx repo require of
                     None \<Rightarrow> Inl (No_Successor, refuse_fix pe t ''default_branch_unverified'' q)
                   | Some bs \<Rightarrow>
                       if normalize_branch (JStr (cascade_branch_of t)) \<in> set bs
                       then Inl (No_Successor, refuse_fix pe t ''default_branch'' q)
                       else (case skip_terminal_pr pe ''fix'' tid pr repo q of
                               (True, q1) \<Rightarrow> Inl (No_Successor, q1)
                             | (False, q1) \<Rightarrow>
                                 if \<not> review_is_current pe repo ctx pr then Inl (No_Successor, q1)
                                 else (case fix_round_of ctx of
                                         None \<Rightarrow> Inl (Malformed_Row, q1)
                                       | Some n \<Rightarrow>
                                           Inr \<lparr>fp_task = t, fp_result = r, fp_pr = pr, fp_round = n + 1,
                                                fp_cap = fix_round_cap (review_cascade_contract q t)
                                                           (Some (review_fix_max_rounds pe))\<rparr>)))
      | _ \<Rightarrow> Inl (No_Successor, q))"

text \<open>\<open>_announce_fix_budget_exhausted\<close>: one notice on the pull request, under its claim.\<close>

definition exhausted_key :: "int \<Rightarrow> int \<times> string" where
  "exhausted_key n = (n, ''fix_exhausted'')"

definition announce_exhausted :: "cascade_env \<Rightarrow> string \<Rightarrow> json \<Rightarrow> string \<Rightarrow> queue \<Rightarrow> queue" where
  "announce_exhausted pe tid pr repo q =
     (case (if json_truthy pr then int_value pr else None) of None \<Rightarrow> q
      | Some n \<Rightarrow>
          (case claim_pr_announcement (pe_clock pe) q (exhausted_key n) tid (pe_token pe) announcement_stale_after of
             (None, q1) \<Rightarrow> q1
           | (Some token, q1) \<Rightarrow>
               if token = [] then q1
               else if pe_comment_seen pe n = Some True
               then snd (mark_pr_announcement_posted (pe_clock pe) q1 (exhausted_key n) token)
               else if \<not> owns_pr_announcement q1 (exhausted_key n) token then q1
               else if repo = [] \<and> (pe_cwd pe = [] \<or> pe_cwd_repo pe = [])
               then snd (release_pr_announcement q1 (exhausted_key n) token)
               else if pe_comment_posts pe n
               then snd (mark_pr_announcement_posted (pe_clock pe) q1 (exhausted_key n) token)
               else snd (release_pr_announcement q1 (exhausted_key n) token)))"

definition budget_key :: "string \<Rightarrow> string" where
  "budget_key tid = ''comment:fixbudget:'' @ tid"

definition op_pr :: "json \<Rightarrow> int option" where
  "op_pr pr = (case pr of JInt n \<Rightarrow> Some n | JBool b \<Rightarrow> Some (if b then 1 else 0) | _ \<Rightarrow> None)"

definition announce_once :: "cascade_env \<Rightarrow> string \<Rightarrow> json \<Rightarrow> string \<Rightarrow> queue \<Rightarrow> queue" where
  "announce_once pe tid pr repo q =
     (case external_op_reserve (pe_clock pe) (pe_pauses pe) q (budget_key tid) (op_pr pr) of
        (Stop_Refused e, q1) \<Rightarrow> q1
      | (Reserved b o1, q1) \<Rightarrow>
          if eo_state o1 = Op_Done then q1
          else external_op_mark (pe_clock pe) (budget_key tid) Op_Done None False (announce_exhausted pe tid pr repo q1))"

definition fix_spent :: "fix_plan \<Rightarrow> bool" where
  "fix_spent p \<longleftrightarrow> fp_cap p \<le> 0 \<or> fp_cap p < fp_round p"

definition end_of_fixes :: "cascade_env \<Rightarrow> string \<Rightarrow> bool \<Rightarrow> fix_plan \<Rightarrow> queue \<Rightarrow> queue" where
  "end_of_fixes pe repo quiet p q =
     (let tid = tk_id (fp_task p)
      in if is_test (fp_task p) then q
         else let q1 = record_successor_refused pe tid ''fix_rounds_exhausted'' q
              in if quiet then q1 else announce_once pe tid (fp_pr p) repo q1)"

definition where_text :: "json \<Rightarrow> string \<Rightarrow> string" where
  "where_text pr branch = (if json_truthy pr then ''PR #'' @ shown pr else ''branch '' @ show_quoted branch)"

definition fix_text :: "fix_plan \<Rightarrow> string" where
  "fix_text p =
     (let t = fp_task p; b = findings_block (fix_findings t (fp_result p)) (tk_id t); s = py_strip (tr_summary (fp_result p));
          branch = cascade_branch_of t
      in py_join CHR 0x0A
           ([''Fix '' @ where_text (fp_pr p) branch @ '' per '' @ tk_id t
               @ (if is_test t then '' test failure'' else '' request_changes'')
               @ '' (automated fix round '' @ show_int (fp_round p) @ ''/'' @ show_int (fp_cap p) @ '').'']
            @ (if s = [] then [] else [nl @ ''Reviewer summary: '' @ s])
            @ (if b = [] then [] else [nl @ ''Findings to address:'' @ nl @ b])
            @ [nl @ ''Commit to the SAME branch '' @ show_quoted branch @ '' - do not open a new PR. Reproduce each ''
                 @ ''finding before fixing it, and say so if one does not reproduce.'']))"

definition pane_or :: "cascade_env \<Rightarrow> json \<Rightarrow> string \<Rightarrow> json" where
  "pane_or pe v role = (if json_truthy v then v else json_text_opt (pe_pane_agent pe role))"

definition fix_request :: "cascade_env \<Rightarrow> fix_plan \<Rightarrow> task_request" where
  "fix_request pe p =
     (let t = fp_task p; ctx = tk_context t; fs = fix_findings t (fp_result p);
          agent = pane_or pe (ctx_get ctx ''implementer_agent'') ''implementer''
      in \<lparr>rq_id = fix_task_id (tk_id t) (fp_round p), rq_type = ''implement'', rq_description = fix_text p,
          rq_branch = cascade_branch_of t, rq_priority = 3, rq_project = successor_project pe t, rq_pr_number = None,
          rq_context = carry_lineage_intent t ''implementer''
            (puts ([(''prev_task_id'', JStr (tk_id t)), (''fix_round'', JInt (fp_round p)),
                    (''review_findings'', JArr (map JStr fs))]
                   @ opt_puts (is_test t) [(''feedback'', JStr (findings_block fs (tk_id t)))]
                   @ tier_put ctx @ opt_puts (fp_pr p \<noteq> JNull) [(''pr_number'', fp_pr p)]
                   @ copied ctx [''no_tester'', ''issue'', ''issue_title'', ''issue_body'', ''issue_url'', ''repo'']
                   @ opt_puts (json_truthy agent) [(''implementer_agent'', agent)]) empty_context)\<rparr>)"

definition nothing_to_fix :: "fix_plan \<Rightarrow> bool" where
  "nothing_to_fix p \<longleftrightarrow>
     findings_block (fix_findings (fp_task p) (fp_result p)) (tk_id (fp_task p)) = []
     \<and> py_strip (tr_summary (fp_result p)) = []"

text \<open>\<open>auto_enqueue_fix\<close>; \<open>quiet\<close> suppresses the notice during a replay.\<close>

definition auto_enqueue_fix ::
  "cascade_env \<Rightarrow> string \<Rightarrow> bool \<Rightarrow> bool \<Rightarrow> queue \<Rightarrow> string \<Rightarrow> outcome \<times> queue" where
  "auto_enqueue_fix pe repo require quiet q tid =
     (case plan_fix pe repo require q tid of
        Inl ended \<Rightarrow> ended
      | Inr p \<Rightarrow>
          if fix_spent p then (No_Successor, end_of_fixes pe repo quiet p q)
          else if nothing_to_fix p \<or> task_of q (fix_task_id tid (fp_round p)) \<noteq> None then (No_Successor, q)
          else (case enqueue_with_inherited_risk pe (fp_task p) (fix_request pe p) q of
                  (Inr i, q1) \<Rightarrow> (Successor (fix_task_id tid (fp_round p)), q1)
                | (Inl (Already_Exists st), q1) \<Rightarrow> (No_Successor, q1)
                | (Inl e, q1) \<Rightarrow> stage_raised tid ''fix'' e q1))"

end
