(* ===== verification/Stages.thy ===== *)
theory Stages
  imports Pipeline
begin

text \<open>
  The review of an implementation, its repetition at a moved head, the test of an approved review, and what
  the approval of a tier three gate resumes (\<open>pipeline.py\<close>).
\<close>

section \<open>The review\<close>

text \<open>Branch and commit the result names; nothing when the stage runs without one.\<close>

type_synonym pushed = "string \<times> string"

definition nothing_pushed :: pushed where
  "nothing_pushed = ([], [])"

definition pushed_by :: "work_result \<Rightarrow> pushed" where
  "pushed_by r = (py_strip (tr_branch r), py_strip (tr_commit r))"

definition routed :: "task_row \<Rightarrow> pushed \<Rightarrow> task_row" where
  "routed t p = (if fst p \<noteq> [] \<and> fst p \<noteq> tk_branch t then t\<lparr>tk_branch := fst p\<rparr> else t)"

definition all_digits :: "string \<Rightarrow> bool" where
  "all_digits s \<longleftrightarrow> s \<noteq> [] \<and> list_all is_digit s"

definition impl_pr :: "int option \<Rightarrow> task_context \<Rightarrow> int option" where
  "impl_pr reported ctx =
     (case reported of Some n \<Rightarrow> Some n
      | None \<Rightarrow> (case ctx_key ctx ''pr_number'' of JInt n \<Rightarrow> Some n | JBool b \<Rightarrow> Some (if b then 1 else 0)
                 | JStr s \<Rightarrow> if all_digits s then int_of_text s else None | _ \<Rightarrow> None))"

definition impl_repo :: "cascade_env \<Rightarrow> task_context \<Rightarrow> string" where
  "impl_repo pe ctx =
     (case ctx_key ctx ''repo'' of JStr s \<Rightarrow> if s \<noteq> [] then s else if pe_cwd pe \<noteq> [] then pe_cwd_repo pe else []
      | _ \<Rightarrow> if pe_cwd pe \<noteq> [] then pe_cwd_repo pe else [])"

text \<open>A pushed branch without a pull request: the number found for it, or nothing.\<close>

definition found_pr :: "cascade_env \<Rightarrow> string \<Rightarrow> string \<Rightarrow> int option" where
  "found_pr pe branch repo =
     (case pe_pr_for_branch pe branch repo of None \<Rightarrow> None
      | Some n \<Rightarrow> if fst (pr_is_actionable pe repo (JInt n)) then Some n else None)"

definition max_task_retries :: int where
  "max_task_retries = 2"

definition retry_attempt :: "task_context \<Rightarrow> int" where
  "retry_attempt ctx =
     (let v = ctx_key ctx ''retry_attempt''
      in if \<not> json_truthy v then 0 else case int_value v of None \<Rightarrow> max_task_retries | Some n \<Rightarrow> n)"

definition retry_id :: "string \<Rightarrow> int \<Rightarrow> string" where
  "retry_id tid n = ''retry-'' @ tid @ ''-a'' @ show_int n"

definition lineage_root_key :: "task_row \<Rightarrow> json" where
  "lineage_root_key t =
     (let v = ctx_key (tk_context t) ''lineage_root_task_id'' in if json_truthy v then v else JStr (tk_id t))"

definition pr_retry_request :: "cascade_env \<Rightarrow> task_row \<Rightarrow> task_request" where
  "pr_retry_request pe t =
     (let n = retry_attempt (tk_context t) + 1
      in \<lparr>rq_id = retry_id (tk_id t) n, rq_type = ''implement'',
          rq_description = ''Open a PR for pushed branch '' @ show_quoted (tk_branch t)
            @ '' and report its pr_number. Do not reimplement the code.'' @ nl @ nl @ ''Original task: '' @ tk_description t,
          rq_branch = tk_branch t, rq_priority = tk_priority t + 1, rq_project = successor_project pe t, rq_pr_number = None,
          rq_context = carry_lineage_intent t ''implementer''
            (puts [(''prev_task_id'', JStr (tk_id t)), (''original_task_id'', JStr (tk_id t)), (''retry_of'', JStr (tk_id t)),
                   (''retry_attempt'', JInt n), (''retry_reason'', JStr ''no_pr_for_review''),
                   (''lineage_root_task_id'', lineage_root_key t)]
              (successor_context (tk_context t)))\<rparr>)"

definition patched :: "string \<Rightarrow> (string \<times> json) list \<Rightarrow> queue \<Rightarrow> queue" where
  "patched tid kvs q = (case patch_context q tid kvs of None \<Rightarrow> q | Some q1 \<Rightarrow> q1)"

definition no_pr_notice :: "cascade_env \<Rightarrow> task_row \<Rightarrow> string \<Rightarrow> queue \<Rightarrow> queue" where
  "no_pr_notice pe t kind q = notice pe (shown (lineage_root_key t)) kind q"

text \<open>The implementer is asked for the pull request, until the retries are spent.\<close>

definition ask_again :: "cascade_env \<Rightarrow> task_row \<Rightarrow> queue \<Rightarrow> outcome \<times> queue" where
  "ask_again pe t q =
     (let tid = tk_id t; rq = pr_retry_request pe t; (res, q1) = enqueue_with_inherited_risk pe t rq q;
          asked = no_pr_notice pe t ''no_pr_for_review''
            (if task_of q1 (rq_id rq) \<noteq> None then patched tid [(''review_retry_task_id'', JStr (rq_id rq))] q1 else q1)
      in case res of
           Inr i \<Rightarrow> (No_Successor, asked)
         | Inl (Already_Exists st) \<Rightarrow> (No_Successor, asked)
         | Inl e \<Rightarrow> stage_raised tid ''review'' e q1)"

definition ask_for_pr :: "cascade_env \<Rightarrow> task_row \<Rightarrow> queue \<Rightarrow> outcome \<times> queue" where
  "ask_for_pr pe t q =
     (let tid = tk_id t
      in case patch_context q tid [(''review_blocked_reason'', JStr ''no_pr_for_review''),
                                   (''review_target_branch'', JStr (tk_branch t))] of
           None \<Rightarrow> (No_Successor, record_cascade_enqueue_failure tid ''review'' ''ValueError'' q)
         | Some q1 \<Rightarrow>
             if max_task_retries \<le> retry_attempt (tk_context t)
             then (No_Successor, no_pr_notice pe t ''no_pr_for_review_exhausted''
                     (patched tid [(''review_blocked_reason'', JStr ''no_pr_for_review_exhausted'')] q1))
             else if \<not> valid_request (pr_retry_request pe t) \<or> \<not> valid_local_inputs (rq_context (pr_retry_request pe t))
             then (No_Successor, record_cascade_enqueue_failure tid ''review'' ''ValueError'' q1)
             else ask_again pe t q1)"

definition review_checklist :: json where
  "review_checklist = JArr [JStr ''test_quality'', JStr ''code_quality'', JStr ''business_gap'']"

definition freshness_text :: "int option \<Rightarrow> string \<Rightarrow> string" where
  "freshness_text pr branch =
     (case pr of
        Some n \<Rightarrow> let i = show_int n in
          nl @ nl @ ''FRESHNESS: review PR #'' @ i @ '' at its CURRENT head. Run `gh pr diff '' @ i @ ''` (and/or `gh pr view ''
            @ i @ '' --json commits`) FIRST. Do NOT reuse line numbers from any earlier review round - they reference the prior ''
            @ ''commit. Pin every finding to the latest commit's file:line.''
      | None \<Rightarrow>
          nl @ nl @ ''FRESHNESS: identify the PR for branch '' @ show_quoted branch @ '' via `gh pr list --head '' @ branch
            @ ''`, then `gh pr diff <num>` to fetch the live head before pinning findings. Do NOT review from a stale local copy.'')"

definition layers_text :: string where
  "layers_text = ''3-layer review: 1) test_quality - coverage, edge cases, mocks; 2) code_quality - naming, error ''
     @ ''handling, SOLID; 3) business_gap - requirements met, logging, observability.''"

text \<open>The review whose findings a fix answers, with its result.\<close>

definition prior_review :: "queue \<Rightarrow> task_context \<Rightarrow> (task_row \<times> task_result) option" where
  "prior_review q ctx =
     (let rows = List.map_filter
            (\<lambda>v. case v of JStr s \<Rightarrow> if s = [] then None else
                     (case task_of q s of None \<Rightarrow> None | Some t \<Rightarrow> if tk_type t = ''review'' then Some t else None)
                   | _ \<Rightarrow> None)
            [ctx_get ctx ''prev_task_id'', ctx_key ctx ''review_task_id'']
      in case rows of [] \<Rightarrow> None | t # ts \<Rightarrow> map_option (\<lambda>r. (t, r)) (get_result q (tk_id t)))"

definition prior_text :: "int \<Rightarrow> task_row \<Rightarrow> task_result \<Rightarrow> string" where
  "prior_text n t r =
     nl @ nl @ ''PRIOR REVIEW FINDINGS (round '' @ show_int n @ '', from '' @ tk_id t
       @ '') - verify each is resolved at the current head; state per finding resolved/unresolved:'' @ nl
       @ findings_block (tr_findings r) (tk_id t)"

definition delta_text :: "string \<Rightarrow> string \<Rightarrow> string" where
  "delta_text old new =
     nl @ nl @ ''Review only the delta '' @ old @ ''..'' @ new @ ''. Verify the test fix and its regression risk; the earlier ''
       @ ''approval covers the unchanged code.''"

definition adversarial_text :: string where
  "adversarial_text = nl @ nl @ ''Tier 2: perform an adversarial independent review; actively seek regression and safety gaps.''"

definition delta_of :: "cascade_env \<Rightarrow> queue \<Rightarrow> task_row \<Rightarrow> string \<Rightarrow> string option" where
  "delta_of pe q t commit =
     (let approved = approved_test_fix_sha pe q t
      in if approved \<noteq> [] \<and> commit \<noteq> [] \<and> py_lower commit \<noteq> py_lower approved then Some approved else None)"

text \<open>The context of a review of \<open>t\<close> at round \<open>n\<close>.\<close>

definition review_context ::
  "cascade_env \<Rightarrow> queue \<Rightarrow> task_row \<Rightarrow> cascade_contract \<Rightarrow> int option \<Rightarrow> string \<Rightarrow> int \<Rightarrow> string \<Rightarrow> task_context" where
  "review_context pe q t c pr repo n commit =
     (let ctx = tk_context t; agent = pane_or pe (ctx_get ctx ''agent_override'') ''implementer'';
          prior = (if n > 0 then prior_review q ctx else None); delta = delta_of pe q t commit;
          adversarial = cc_enforced c \<and> json_truthy (cc_review_mode c);
          instructions = layers_text @ freshness_text pr (tk_branch t)
            @ (case prior of None \<Rightarrow> [] | Some (p, r) \<Rightarrow> prior_text n p r)
            @ (if adversarial then adversarial_text else [])
            @ (case delta of None \<Rightarrow> [] | Some old \<Rightarrow> delta_text old commit);
          c1 = puts ([(''checklist_layers'', review_checklist), (''reviewer_rejects_happy_path_only'', JBool True),
                      (''instructions'', JStr instructions), (''prev_task_id'', JStr (tk_id t)), (''pr_number'', number_json pr)]
                     @ (case prior of None \<Rightarrow> [] | Some (p, r) \<Rightarrow> [(''prior_review_task_id'', JStr (tk_id p))])
                     @ opt_puts (cc_enforced c) (cc_metadata c)) empty_context;
          c2 = fold (\<lambda>(k, v). set_default k v) (tier_put ctx) c1;
          c3 = puts (opt_puts (cc_enforced c \<and> json_truthy (ctx_key ctx ''tier3_gate_approved'')) [(''tier3_gate_approved'', JBool True)]
                     @ opt_puts adversarial [(''review_mode'', cc_review_mode c)]
                     @ opt_puts (json_truthy agent) [(''implementer_agent'', agent)]
                     @ opt_puts (json_truthy (ctx_key ctx ''no_tester'')) [(''no_tester'', JBool True)]
                     @ copied ctx [''fix_round'', ''issue'', ''issue_title'', ''issue_body'', ''issue_url'']
                     @ opt_puts (repo \<noteq> []) [(''repo'', JStr repo)]) c2;
          c4 = carry_lineage_intent t ''reviewer'' c3
      in puts (opt_puts (commit \<noteq> []) [(''reviewed_sha'', JStr commit)]
               @ (case delta of None \<Rightarrow> [] | Some old \<Rightarrow> [(''delta_review'', JBool True), (''approved_sha'', JStr old)])) c4)"

definition review_text :: "int option \<Rightarrow> task_row \<Rightarrow> string" where
  "review_text pr t =
     ''Review '' @ (case pr of Some n \<Rightarrow> ''PR #'' @ show_int n | None \<Rightarrow> ''branch '' @ show_quoted (tk_branch t))
       @ '' for task '' @ tk_id t @ ''.''"

definition review_request :: "cascade_env \<Rightarrow> task_row \<Rightarrow> int option \<Rightarrow> int \<Rightarrow> task_context \<Rightarrow> task_request" where
  "review_request pe t pr n ctx =
     \<lparr>rq_id = review_task_id (tk_id t) n, rq_type = ''review'', rq_description = review_text pr t,
      rq_branch = tk_branch t, rq_priority = 3, rq_project = successor_project pe t, rq_pr_number = None, rq_context = ctx\<rparr>"

definition review_provider :: "cascade_env \<Rightarrow> task_context \<Rightarrow> string" where
  "review_provider pe ctx =
     shown (first_truthy [ctx_get ctx ''agent_override'', ctx_key ctx ''reviewer_agent'', JStr (pe_reviewer pe),
                          json_text_opt (pe_pane_agent pe ''reviewer''), JStr (pe_baseline pe ''reviewer'')])"

text \<open>The pull request a review is about: found, or \<open>None\<close> when the implementer must open one.\<close>

definition review_pr :: "cascade_env \<Rightarrow> task_row \<Rightarrow> string \<Rightarrow> int option \<Rightarrow> int option option" where
  "review_pr pe t repo pr =
     (if pr = None \<and> tk_branch t \<noteq> [] \<and> ctx_key (tk_context t) ''crew_run_branch'' \<noteq> JBool True
      then map_option Some (found_pr pe (tk_branch t) repo) else Some pr)"

definition enqueue_review ::
  "cascade_env \<Rightarrow> task_row \<Rightarrow> int option \<Rightarrow> string \<Rightarrow> string \<Rightarrow> int \<Rightarrow> queue \<Rightarrow> outcome \<times> queue" where
  "enqueue_review pe t pr repo commit n q =
     (let ctx = review_context pe q t (stored_contract (tk_context t)) pr repo n commit;
          rq = review_request pe t pr n ctx
      in case review_round_cap pe q t (rq_id rq) (review_provider pe ctx) (if commit = [] then JStr [] else JStr commit) of
           (Some c, q1) \<Rightarrow> (Round_Capped c, q1)
         | (None, q1) \<Rightarrow>
             (case enqueue_with_inherited_risk pe t rq q1 of
                (Inr i, q2) \<Rightarrow> (Successor (rq_id rq), q2)
              | (Inl (Already_Exists st), q2) \<Rightarrow> (Successor (rq_id rq), q2)
              | (Inl (Duplicate_Of i), q2) \<Rightarrow> (Successor i, q2)
              | (Inl e, q2) \<Rightarrow> stage_raised (tk_id t) ''review'' e q2))"

text \<open>\<open>auto_enqueue_review\<close>\<close>

definition auto_enqueue_review ::
  "cascade_env \<Rightarrow> int option \<Rightarrow> pushed \<Rightarrow> queue \<Rightarrow> gate_row list \<Rightarrow> string \<Rightarrow> outcome \<times> queue \<times> gate_row list" where
  "auto_enqueue_review pe reported p q gs tid =
     (case task_of q tid of None \<Rightarrow> (No_Successor, q, gs)
      | Some t0 \<Rightarrow>
          let ctx = tk_context t0; t = routed t0 p; repo = impl_repo pe ctx
          in if held_at_gate (stored_contract ctx) ctx then (No_Successor, q, hold_at_gate (pe_clock pe) ''review'' tid gs)
             else if other_project pe t then (No_Successor, q, gs)
             else (case review_pr pe t repo (impl_pr reported ctx) of
                     None \<Rightarrow> (case ask_for_pr pe t q of (out, q1) \<Rightarrow> (out, q1, gs))
                   | Some pr \<Rightarrow>
                       (case skip_terminal_pr pe ''review'' tid (number_json pr) repo q of
                          (True, q1) \<Rightarrow> (No_Successor, q1, gs)
                        | (False, q1) \<Rightarrow>
                            if tk_branch t = [] \<and> pr = None
                            then (No_Successor, record_successor_refused pe tid ''no_branch_no_pr'' q1, gs)
                            else (case fix_round_of ctx of
                                    None \<Rightarrow> (Malformed_Row, q1, gs)
                                  | Some n \<Rightarrow> (case enqueue_review pe t pr repo (snd p) n q1 of (out, q2) \<Rightarrow> (out, q2, gs))))))"

section \<open>The review at a moved head\<close>

definition requeued_keys :: "string list" where
  "requeued_keys =
     [''pr_number'', ''repo'', ''project'', ''no_tester'', ''coordinator_managed'', ''checklist_layers'', ''findings_only'',
      ''agent_override'', ''reviewer_agent'', ''lineage_root_task_id'']"

definition kept_keys :: "task_context \<Rightarrow> string list \<Rightarrow> (string \<times> json) list" where
  "kept_keys ctx ks = map (\<lambda>k. (k, ctx_get ctx k)) (filter (ctx_has ctx) ks)"

definition requeue_context :: "string \<Rightarrow> int \<Rightarrow> string \<Rightarrow> task_context \<Rightarrow> task_context" where
  "requeue_context tid pr head ctx =
     puts (kept_keys ctx requeued_keys
           @ [(''pr_number'', JInt pr), (''superseded_review'', JStr tid), (''expected_head_sha'', JStr head),
              (''prev_task_id'', JStr tid)] @ tier_put ctx) empty_context"

definition requeue_branch :: "task_context \<Rightarrow> string" where
  "requeue_branch ctx = (case ctx_key ctx ''branch'' of JStr s \<Rightarrow> if s \<noteq> [] then s else ''main'' | _ \<Rightarrow> ''main'')"

definition requeue_request :: "string \<Rightarrow> string \<Rightarrow> int \<Rightarrow> string \<Rightarrow> task_context \<Rightarrow> task_request" where
  "requeue_request project tid pr head ctx =
     \<lparr>rq_id = stale_review_task_id pr head, rq_type = ''review'',
      rq_description = ''Review PR #'' @ show_int pr @ '' at '' @ take 12 head @ '' (re-dispatched: '' @ tid
        @ '' reviewed an older head)'',
      rq_branch = requeue_branch ctx, rq_priority = 3, rq_project = project, rq_pr_number = None,
      rq_context = requeue_context tid pr head ctx\<rparr>"

definition requeue_provider :: "cascade_env \<Rightarrow> string \<Rightarrow> task_context \<Rightarrow> string" where
  "requeue_provider pe tid ctx =
     shown (first_truthy [ctx_get ctx ''agent_override'', ctx_key ctx ''reviewer_agent'', JStr (pe_reviewer pe),
                          json_text_opt (pe_agent_of pe tid), JStr (pe_baseline pe ''reviewer'')])"

text \<open>\<open>requeue_review_at_head\<close>: \<open>ctx\<close> is the context of the review that read an older head.\<close>

definition requeue_review_at_head ::
  "cascade_env \<Rightarrow> string \<Rightarrow> queue \<Rightarrow> string \<Rightarrow> int \<Rightarrow> string \<Rightarrow> task_context \<Rightarrow> outcome \<times> queue" where
  "requeue_review_at_head pe project q tid pr head ctx =
     (case task_of q tid of None \<Rightarrow> (No_Successor, q)
      | Some t \<Rightarrow>
          let new_id = stale_review_task_id pr head; rq = requeue_request project tid pr head ctx
          in (case review_round_cap pe q t new_id (requeue_provider pe tid ctx) (JStr head) of
                (Some c, q1) \<Rightarrow> if fix_round_of (tk_context t) = None then (No_Successor, q) else (Round_Capped c, q1)
              | (None, q1) \<Rightarrow>
                  (case enqueue_successor pe rq q1 of
                     (Inr i, q2) \<Rightarrow> (Successor new_id, q2)
                   | (Inl (Already_Exists st), q2) \<Rightarrow> (Successor new_id, q2)
                   | (Inl Paused_Runtime, q2) \<Rightarrow> (Paused_Again, snd (outbox_reopen q2 tid))
                   | (Inl e, q2) \<Rightarrow> (No_Successor, q2))))"

section \<open>The test\<close>

text \<open>The nearest ancestor that names the field.\<close>

function lineage_field :: "queue \<Rightarrow> string \<Rightarrow> string list \<Rightarrow> task_row \<Rightarrow> string" where
  "lineage_field q k seen t =
     (let here = (case ctx_key (tk_context t) k of JStr s \<Rightarrow> py_strip s | _ \<Rightarrow> [])
      in if here \<noteq> [] then here
         else (case tc_prev_task_id (tk_context t) of None \<Rightarrow> []
               | Some p \<Rightarrow> if p \<in> set seen then []
                           else (case task_of q p of None \<Rightarrow> [] | Some u \<Rightarrow> lineage_field q k (p # seen) u)))"
  by pat_completeness auto
termination
proof (relation "measure (\<lambda>(q, k, seen, t). card (tk_id ` set (q_tasks q) - set seen))")
  fix q :: queue and k seen and t u :: task_row and p here
  assume "p \<notin> set seen" and "task_of q p = Some u"
  then have "p \<in> tk_id ` set (q_tasks q) - set seen"
    by (auto simp: task_of_def dest: row_of_SomeD)
  then have "card (tk_id ` set (q_tasks q) - set seen - {p}) < card (tk_id ` set (q_tasks q) - set seen)"
    by (rule card_Diff1_less [rotated]) simp
  then show "((q, k, p # seen, u), q, k, seen, t) \<in> measure (\<lambda>(q, k, seen, t). card (tk_id ` set (q_tasks q) - set seen))"
    by (simp add: Diff_insert [symmetric] insert_commute)
qed simp

declare lineage_field.simps [simp del]

definition test_task_id :: "string \<Rightarrow> string" where
  "test_task_id review = ''test-'' @ review"

definition test_repo :: "cascade_env \<Rightarrow> string \<Rightarrow> queue \<Rightarrow> task_row \<Rightarrow> string" where
  "test_repo pe repo q t =
     (if repo \<noteq> [] then repo
      else let r = lineage_field q ''repo'' [tk_id t] t
           in if r \<noteq> [] then r else if pe_cwd pe \<noteq> [] then pe_cwd_repo pe else [])"

definition test_context :: "cascade_env \<Rightarrow> queue \<Rightarrow> task_row \<Rightarrow> cascade_contract \<Rightarrow> string \<Rightarrow> task_context" where
  "test_context pe q t c repo =
     (let ctx = tk_context t; agent = pane_or pe (ctx_get ctx ''agent_override'') ''reviewer'';
          implementer = ctx_get ctx ''implementer_agent''; base = lineage_field q ''base_branch'' [tk_id t] t
      in carry_lineage_intent t ''tester''
           (puts ([(''prev_task_id'', JStr (tk_id t))] @ tier_put ctx
                  @ (if json_truthy (ctx_key ctx ''reviewed_sha'') then [(''reviewed_sha'', ctx_key ctx ''reviewed_sha'')]
                     else opt_puts (json_truthy (ctx_key ctx ''expected_head_sha''))
                            [(''expected_head_sha'', ctx_key ctx ''expected_head_sha'')])
                  @ copied ctx [''fix_round'']
                  @ opt_puts (cc_enforced c)
                      [(''risk_tier'', ctx_key ctx ''risk_tier''),
                       (''risk_tier_source'', if has_key ctx ''risk_tier_source'' then ctx_key ctx ''risk_tier_source''
                                              else JStr ''metadata'')]
                  @ opt_puts (cc_enforced c \<and> json_truthy (cc_test_scope c) \<and> cc_test_scope_source c \<noteq> JStr ''risk_tier'')
                      [(''test_scope'', cc_test_scope c),
                       (''test_scope_source'', if json_truthy (cc_test_scope_source c) then cc_test_scope_source c
                                               else JStr ''risk_tier'')]
                  @ copied ctx [''pr_number'']
                  @ opt_puts (repo \<noteq> []) [(''repo'', JStr repo)] @ opt_puts (base \<noteq> []) [(''base_branch'', JStr base)]
                  @ opt_puts (json_truthy implementer) [(''implementer_agent'', implementer)]
                  @ opt_puts (json_truthy agent) [(''reviewer_agent'', agent)]) empty_context))"

definition test_request :: "cascade_env \<Rightarrow> queue \<Rightarrow> task_row \<Rightarrow> string \<Rightarrow> task_request" where
  "test_request pe q t repo =
     (let pr = ctx_key (tk_context t) ''pr_number''
      in \<lparr>rq_id = test_task_id (tk_id t), rq_type = ''test'',
          rq_description = ''Test '' @ (if pr \<noteq> JNull then ''PR #'' @ shown pr else ''branch '' @ show_quoted (cascade_branch_of t))
            @ '' for reviewed task '' @ tk_id t @ ''.'',
          rq_branch = cascade_branch_of t, rq_priority = 3, rq_project = successor_project pe t, rq_pr_number = None,
          rq_context = test_context pe q t (review_cascade_contract q t) repo\<rparr>)"

text \<open>\<open>auto_enqueue_test\<close>\<close>

definition auto_enqueue_test ::
  "cascade_env \<Rightarrow> string \<Rightarrow> queue \<Rightarrow> gate_row list \<Rightarrow> string \<Rightarrow> outcome \<times> queue \<times> gate_row list" where
  "auto_enqueue_test pe repo0 q gs tid =
     (case (task_of q tid, get_result q tid) of
        (Some t, Some r) \<Rightarrow>
          let ctx = tk_context t; repo = test_repo pe repo0 q t; rq = test_request pe q t repo
          in if resolve_verdict r \<noteq> Approve then (No_Successor, q, gs)
             else if held_at_gate (review_cascade_contract q t) ctx
             then (No_Successor, q, hold_at_gate (pe_clock pe) ''test'' tid gs)
             else (case skip_terminal_pr pe ''test'' tid (ctx_key ctx ''pr_number'') repo q of
                     (True, q1) \<Rightarrow> (No_Successor, q1, gs)
                   | (False, q1) \<Rightarrow>
                       if task_of q1 (rq_id rq) \<noteq> None then (Successor (rq_id rq), q1, gs)
                       else (case enqueue_with_inherited_risk pe t rq q1 of
                               (Inr i, q2) \<Rightarrow> (Successor (rq_id rq), q2, gs)
                             | (Inl (Already_Exists st), q2) \<Rightarrow> (Successor (rq_id rq), q2, gs)
                             | (Inl (Duplicate_Of i), q2) \<Rightarrow> (Successor i, q2, gs)
                             | (Inl e, q2) \<Rightarrow> (case stage_raised tid ''test'' e q2 of (out, q3) \<Rightarrow> (out, q3, gs))))
      | _ \<Rightarrow> (No_Successor, q, gs))"

section \<open>The approval of a gate\<close>

text \<open>
  \<open>resume_tier3_gate\<close>: no working copy is named and no result is passed on; only the fields of the
  environment the call gives are read.
\<close>

definition resumed_env :: "cascade_env \<Rightarrow> cascade_env" where
  "resumed_env pe = pe\<lparr>pe_cwd := [], pe_reviewer := [], pe_pane_agent := \<lambda>r. None\<rparr>"

definition resume_tier3_gate ::
  "cascade_env \<Rightarrow> queue \<Rightarrow> gate_row list \<Rightarrow> string \<Rightarrow> outcome \<times> queue \<times> gate_row list" where
  "resume_tier3_gate pe q gs i =
     (case gate_of gs i of None \<Rightarrow> (No_Successor, q, gs)
      | Some g \<Rightarrow>
          let q1 = patched (gt_target g) [(''tier3_gate_approved'', JBool True)] q
          in if gt_status g \<noteq> Gate_Approved \<or> gt_target g = [] then (No_Successor, q, gs)
             else if gt_kind g = ''test'' then auto_enqueue_test (resumed_env pe) [] q1 gs (gt_target g)
             else if gt_kind g = ''review'' then auto_enqueue_review (resumed_env pe) None nothing_pushed q1 gs (gt_target g)
             else (No_Successor, q, gs))"

text \<open>The route that resolves a gate: the resumption follows an approval in the same request, and only there.\<close>

definition answer_gate ::
  "cascade_env \<Rightarrow> queue \<Rightarrow> gate_row list \<Rightarrow> string \<Rightarrow> bool \<Rightarrow> (gate_error + outcome) \<times> queue \<times> gate_row list" where
  "answer_gate pe q gs i approved =
     (case resolve_gate i approved gs of Inl e \<Rightarrow> (Inl e, q, gs)
      | Inr gs1 \<Rightarrow> if approved then (case resume_tier3_gate pe q gs1 i of (out, q1, gs2) \<Rightarrow> (Inr out, q1, gs2))
                    else (Inr No_Successor, q, gs1))"

end
