(* ===== verification/Continuation.thy ===== *)
theory Continuation
  imports Stages
begin

text \<open>
  What the two doors do with a stored result (\<open>server.py\<close>, \<open>mcp_server.py\<close>): the retry of a failed task, the
  rebase of a head that no longer merges, the publication of a verdict, and the stages in the order of the
  route. A stop raised by a stage ends the route. Pushing the next task to a pane, the notices of a
  lineage's end and the events are outside.
\<close>

section \<open>The environment of the route\<close>

record stage_env =
  se_cascade :: cascade_env
  se_identity :: string
  se_reviewer_cwd :: string
  se_reviewer_repo :: string
  se_review_seen :: "string \<Rightarrow> bool option"
  se_review_posts :: "string \<Rightarrow> bool"
  se_work_repo :: "task_row \<Rightarrow> string"
  se_branch_head :: "string \<Rightarrow> string"
  se_branch_has_pr :: "string \<Rightarrow> bool option"
  se_auto_rebase :: bool
  se_github :: "int \<Rightarrow> github"
  se_left_to_coordinator :: bool

section \<open>The retry of a failed task\<close>

datatype retry = Not_Retried | Retried string | Escalated string | Retry_Paused

definition failure_kinds :: "string list" where
  "failure_kinds =
     [''provider_limit'', ''capacity'', ''transient'', ''config_error'', ''timeout'', ''agent_failed'', ''test_failure'']"

definition failure_kind :: "json option \<Rightarrow> string option" where
  "failure_kind info =
     (case info of
        Some (JObj kvs) \<Rightarrow> (case json_of kvs ''kind'' of JStr s \<Rightarrow> if s \<in> set failure_kinds then Some s else None | _ \<Rightarrow> None)
      | _ \<Rightarrow> None)"

definition retryable_kinds :: "string list" where
  "retryable_kinds = [''transient'', ''timeout'', ''capacity'', ''provider_limit'']"

text \<open>The head of the pull request, or else of the branch, that an implement task reports.\<close>

definition pushed_head :: "stage_env \<Rightarrow> task_row \<Rightarrow> work_result \<Rightarrow> string" where
  "pushed_head se t r =
     (let repo = se_work_repo se t; branch = (if tr_branch r \<noteq> [] then tr_branch r else tk_branch t);
          head = (case result_pr (task_result.truncate r) (tk_context t) of
                    JInt n \<Rightarrow> (case pe_head (se_cascade se) n of None \<Rightarrow> [] | Some h \<Rightarrow> h) | _ \<Rightarrow> [])
      in if repo = [] then [] else if head \<noteq> [] then head else if branch \<noteq> [] then se_branch_head se branch else [])"

definition work_is_pushed :: "stage_env \<Rightarrow> task_row \<Rightarrow> string \<Rightarrow> work_result \<Rightarrow> bool" where
  "work_is_pushed se t ty r \<longleftrightarrow>
     ty = ''implement'' \<and> tr_commit r \<noteq> [] \<and> pushed_head se t r \<noteq> []
     \<and> py_lower (pushed_head se t r) = py_lower (tr_commit r)"

definition no_retry_kind :: "task_row \<Rightarrow> string \<Rightarrow> work_result \<Rightarrow> bool" where
  "no_retry_kind t ty r \<longleftrightarrow>
     ty = ''implement''
     \<and> (case (case failure_kind (tr_error_info r) of None \<Rightarrow> failure_kind (tk_error_info t) | k \<Rightarrow> k) of
          None \<Rightarrow> True | Some k \<Rightarrow> k \<notin> set retryable_kinds)"

text \<open>A review whose branch has no pull request would meet the same end again; \<open>Inr\<close> is a retry that may go.\<close>

definition review_dead_end :: "stage_env \<Rightarrow> task_row \<Rightarrow> string \<Rightarrow> queue \<Rightarrow> queue option" where
  "review_dead_end se t ty q =
     (if ty \<noteq> ''review'' \<or> json_truthy (ctx_key (tk_context t) ''pr_number'') then None
      else if tk_branch t = [] then Some q
      else (case se_branch_has_pr se (tk_branch t) of
              None \<Rightarrow> Some (patched (tk_id t) [(''retry_skipped_reason'', JStr ''pr_lookup_unknown'')] q)
            | Some False \<Rightarrow> Some q | Some True \<Rightarrow> None))"

definition escalation_id :: "string \<Rightarrow> string" where
  "escalation_id tid = ''escalation-'' @ tid @ ''-provider-limit''"

definition escalate_limit ::
  "stage_env \<Rightarrow> task_row \<Rightarrow> string \<Rightarrow> work_result \<Rightarrow> queue \<Rightarrow> gate_row list \<Rightarrow> queue \<times> gate_row list" where
  "escalate_limit se t ty r q gs =
     (patched (tk_id t) [(''provider_limit_escalation'', JStr (escalation_id (tk_id t)))] q,
      case create_gate \<lparr>gt_id = escalation_id (tk_id t), gt_type = ''escalation'',
             gt_message = ''Provider limit after '' @ show_int max_task_retries @ '' same-role retries; task_id: '' @ tk_id t
               @ ''; task_type: '' @ ty @ ''; last summary: '' @ take 200 (tr_summary r),
             gt_kind = [], gt_target = [], gt_status = Gate_Pending, gt_created_at = pe_clock (se_cascade se)\<rparr> gs of
        None \<Rightarrow> gs | Some gs1 \<Rightarrow> gs1)"

definition retry_context :: "task_row \<Rightarrow> int \<Rightarrow> task_context" where
  "retry_context t n =
     puts [(''lineage_root_task_id'', lineage_root_key t), (''retry_attempt'', JInt n),
           (''original_task_id'', JStr (tk_id t)), (''retry_of'', JStr (tk_id t))]
       (without_keys [''risk_declaration'', ''risk_tier_shadow'', ''result_branch'', ''result_commit'']
          (successor_context (tk_context t)))"

text \<open>The project of a successor the server builds itself.\<close>

definition server_project_for :: "stage_env \<Rightarrow> task_row \<Rightarrow> task_context \<Rightarrow> string" where
  "server_project_for se t ctx =
     (case filter (\<lambda>p. p \<noteq> []) [py_strip (tk_project t), key_text (ctx_key ctx ''project''), py_strip (se_identity se)] of
        [] \<Rightarrow> [] | p # ps \<Rightarrow> p)"

definition retry_request :: "stage_env \<Rightarrow> task_row \<Rightarrow> string \<Rightarrow> int \<Rightarrow> task_request" where
  "retry_request se t ty n =
     (let ctx = retry_context t n
      in \<lparr>rq_id = retry_id (tk_id t) n, rq_type = ty, rq_description = tk_description t, rq_branch = tk_branch t,
          rq_priority = tk_priority t + 1, rq_project = server_project_for se t ctx, rq_pr_number = None, rq_context = ctx\<rparr>)"

definition retry_facts :: "task_row \<Rightarrow> (string \<times> json) list option" where
  "retry_facts t =
     (case ctx_key (tk_context t) ''risk_declaration'' of
        JObj kvs \<Rightarrow>
          Some (if map_of kvs ''declaration_source'' \<in> {None, Some (JStr ''explicit'')}
                then set_field kvs ''inherited_from''
                       (let v = json_of kvs ''inherited_from'' in if json_truthy v then v else JStr (tk_id t))
                else kvs)
      | _ \<Rightarrow> None)"

definition note_retry_facts :: "task_row \<Rightarrow> task_request \<Rightarrow> queue \<Rightarrow> queue" where
  "note_retry_facts t rq q =
     (case retry_facts t of None \<Rightarrow> q
      | Some kvs \<Rightarrow> patched (rq_id rq) [(''risk_declaration'', facts_json (risk_declaration (rq_description rq)
                      (set_key ''risk_declaration'' (JObj kvs) (rq_context rq))))] q)"

definition attempts_made :: "task_context \<Rightarrow> int option" where
  "attempts_made ctx =
     (if \<not> has_key ctx ''retry_attempt'' then Some 0
      else case ctx_key ctx ''retry_attempt'' of JInt n \<Rightarrow> Some n | JBool b \<Rightarrow> Some (if b then 1 else 0) | _ \<Rightarrow> None)"

text \<open>\<open>_auto_retry_failed_task\<close>\<close>

definition auto_retry_failed_task ::
  "stage_env \<Rightarrow> queue \<Rightarrow> gate_row list \<Rightarrow> string \<Rightarrow> work_result \<Rightarrow> string \<Rightarrow> retry \<times> queue \<times> gate_row list" where
  "auto_retry_failed_task se q gs tid r ty =
     (case task_of q tid of None \<Rightarrow> (Not_Retried, q, gs)
      | Some t \<Rightarrow>
          if work_is_pushed se t ty r
          then (Not_Retried, patched tid [(''retry_skipped_reason'', JStr ''work_pushed_or_unchanged_head'')] q, gs)
          else if no_retry_kind t ty r then (Not_Retried, q, gs)
          else (case attempts_made (tk_context t) of None \<Rightarrow> (Not_Retried, q, gs)
            | Some n \<Rightarrow>
                if max_task_retries \<le> n
                then (if failure_kind (tr_error_info r) = Some ''provider_limit''
                      then (Escalated (escalation_id tid), escalate_limit se t ty r q gs) else (Not_Retried, q, gs))
                else (case review_dead_end se t ty q of Some q1 \<Rightarrow> (Not_Retried, q1, gs)
                  | None \<Rightarrow>
                      let rq = retry_request se t ty (n + 1)
                      in if \<not> valid_request rq \<or> \<not> valid_local_inputs (rq_context rq) then (Not_Retried, q, gs)
                         else (case enqueue_successor (se_cascade se) rq q of
                            (Inr i, q1) \<Rightarrow> (Retried (rq_id rq), note_retry_facts t rq q1, gs)
                          | (Inl (Already_Exists st), q1) \<Rightarrow> (Retried (rq_id rq), q1, gs)
                          | (Inl Paused_Runtime, q1) \<Rightarrow> (Retry_Paused, snd (outbox_reopen q1 tid), gs)
                          | (Inl e, q1) \<Rightarrow> (Not_Retried, q1, gs)))))"

section \<open>The rebase of a conflicting head\<close>

fun ancestry :: "nat \<Rightarrow> queue \<Rightarrow> string list \<Rightarrow> task_row \<Rightarrow> task_row list" where
  "ancestry 0 q seen t = []"
| "ancestry (Suc n) q seen t =
     (if tk_id t \<in> set seen then []
      else t # (case tc_prev_task_id (tk_context t) of None \<Rightarrow> []
                | Some p \<Rightarrow> if p = [] then [] else (case task_of q p of None \<Rightarrow> [] | Some u \<Rightarrow> ancestry n q (tk_id t # seen) u)))"

definition inherited :: "task_row list \<Rightarrow> string \<Rightarrow> json" where
  "inherited ts k =
     (case filter (\<lambda>v. v \<noteq> JNull \<and> v \<noteq> JStr []) (map (\<lambda>t. ctx_get (tk_context t) k) ts) of [] \<Rightarrow> JNull | v # vs \<Rightarrow> v)"

definition script_text :: "work_result \<Rightarrow> string \<Rightarrow> string" where
  "script_text r k =
     (case error_field (task_result.truncate r) ''script_test'' of
        JObj kvs \<Rightarrow> py_lower (key_text (json_of kvs k)) | _ \<Rightarrow> [])"

definition commit40 :: "string \<Rightarrow> bool" where
  "commit40 s \<longleftrightarrow> length s = 40 \<and> list_all (\<lambda>c. is_digit c \<or> c \<in> set ''abcdef'') s"

definition rebase_id :: "int \<Rightarrow> string \<Rightarrow> string" where
  "rebase_id pr source = ''rebase-pr'' @ show_int pr @ ''-'' @ source"

definition rebase_context :: "string \<Rightarrow> task_row list \<Rightarrow> int \<Rightarrow> string \<Rightarrow> string \<Rightarrow> json \<Rightarrow> task_context" where
  "rebase_context tid ts pr source low base =
     (let c = puts ([(''prev_task_id'', JStr tid), (''auto_rebase_of'', JStr tid), (''artifact_kind'', JStr ''rebase''),
                     (''rebase_onto'', base), (''rebase_source_sha'', JStr source),
                     (''rebase_onto_sha'', if low = [] then JNull else JStr low), (''base_branch'', base), (''pr_number'', JInt pr),
                     (''repo'', inherited ts ''repo''), (''issue'', inherited ts ''issue''),
                     (''issue_number'', inherited ts ''issue''), (''risk_tier'', inherited ts ''risk_tier'')]
                    @ map (\<lambda>k. (k, inherited ts k))
                        (filter (\<lambda>k. inherited ts k \<noteq> JNull)
                           [''implementer_agent'', ''reviewer_agent'', ''coordinator_managed'', ''external_operation_id'',
                            ''lineage_root_task_id'', ''fix_round'', ''risk_declaration''])) empty_context
      in case tc_implementer_agent c of None \<Rightarrow> c | Some a \<Rightarrow> c\<lparr>tc_agent_override := Some a\<rparr>)"

definition rebase_request :: "string \<Rightarrow> task_row \<Rightarrow> task_row list \<Rightarrow> int \<Rightarrow> string \<Rightarrow> string \<Rightarrow> json \<Rightarrow> task_request" where
  "rebase_request tid t ts pr source low base =
     \<lparr>rq_id = rebase_id pr source, rq_type = ''implement'',
      rq_description = ''Rebase PR #'' @ show_int pr @ '' on branch '' @ show_quoted (tk_branch t) @ '' onto origin/'' @ shown base
        @ '' after script test '' @ tid @ '' could not squash head '' @ source @ ''. Resolve conflicts preserving both sides' intent, ''
        @ ''re-run targeted tests, and force-push the same branch. Do not open a new PR.'',
      rq_branch = tk_branch t, rq_priority = 3, rq_project = tk_project t, rq_pr_number = None,
      rq_context = rebase_context tid ts pr source low base\<rparr>"

definition rebase_of :: "queue \<Rightarrow> string \<Rightarrow> string \<Rightarrow> outcome" where
  "rebase_of q i tid =
     (case task_of q i of None \<Rightarrow> No_Successor
      | Some t \<Rightarrow> if ctx_key (tk_context t) ''auto_rebase_of'' = JStr tid then Successor i else No_Successor)"

definition rebase_pr :: "work_result \<Rightarrow> task_row list \<Rightarrow> int option" where
  "rebase_pr r ts =
     (case tr_pr_number r of Some n \<Rightarrow> if n \<noteq> 0 then Some n else (case inherited ts ''pr_number'' of JInt m \<Rightarrow> Some m | _ \<Rightarrow> None)
      | None \<Rightarrow> (case inherited ts ''pr_number'' of JInt m \<Rightarrow> Some m | _ \<Rightarrow> None))"

definition rebase_base :: "task_row list \<Rightarrow> json" where
  "rebase_base ts = (let v = inherited ts ''base_branch'' in if json_truthy v then v else JStr ''main'')"

definition rebase_facts_known :: "task_row \<Rightarrow> task_row list \<Rightarrow> bool" where
  "rebase_facts_known t ts \<longleftrightarrow>
     (case inherited ts ''repo'' of JStr s \<Rightarrow> py_strip s \<noteq> [] | _ \<Rightarrow> False)
     \<and> (case inherited ts ''issue'' of JInt i \<Rightarrow> 0 < i | _ \<Rightarrow> False)
     \<and> valid_tier (inherited ts ''risk_tier'') \<noteq> None \<and> tk_branch t \<noteq> [] \<and> JStr (tk_branch t) \<noteq> rebase_base ts"

text \<open>\<open>_auto_enqueue_conflict_rebase\<close>: never the rebase of a rebase, and one for each head.\<close>

definition auto_enqueue_conflict_rebase :: "stage_env \<Rightarrow> queue \<Rightarrow> string \<Rightarrow> work_result \<Rightarrow> outcome \<times> queue" where
  "auto_enqueue_conflict_rebase se q tid r =
     (case task_of q tid of None \<Rightarrow> (No_Successor, q)
      | Some t \<Rightarrow>
          let pe = se_cascade se; ts = ancestry 64 q [] t; source = script_text r ''head_sha'';
              low = (if commit40 (script_text r ''base_sha'') then script_text r ''base_sha'' else [])
          in if \<not> se_auto_rebase se \<or> tk_type t \<noteq> ''test'' \<or> \<not> commit40 source
                \<or> list_ex (\<lambda>u. json_truthy (ctx_key (tk_context u) ''auto_rebase_of'')) ts \<or> \<not> rebase_facts_known t ts
             then (No_Successor, q)
             else (case rebase_pr r ts of None \<Rightarrow> (No_Successor, q)
               | Some pr \<Rightarrow>
                   if pe_pr_state pe pr \<noteq> Pr_Open \<or> pe_head pe pr \<noteq> Some source then (No_Successor, q)
                   else if task_of q (rebase_id pr source) \<noteq> None then (rebase_of q (rebase_id pr source) tid, q)
                   else (case enqueue_successor pe (rebase_request tid t ts pr source low (rebase_base ts)) q of
                           (Inr i, q1) \<Rightarrow> (Successor (rebase_id pr source), q1)
                         | (Inl (Already_Exists st), q1) \<Rightarrow> (rebase_of q1 (rebase_id pr source) tid, q1)
                         | (Inl Paused_Runtime, q1) \<Rightarrow> (Paused_Again, snd (outbox_reopen q1 tid))
                         | (Inl e, q1) \<Rightarrow> (No_Successor, q1))))"

end
