(* ===== verification/Rounds.thy ===== *)
theory Rounds
  imports Continuation
begin

text \<open>
  The stages after an accepted result, as the HTTP route and the MCP tool run them, and a result from the
  door to its last stage.
\<close>

section \<open>Stages\<close>

type_synonym board = "queue \<times> gate_row list"

definition on_queue :: "(queue \<Rightarrow> outcome \<times> queue) \<Rightarrow> board \<Rightarrow> outcome \<times> board" where
  "on_queue f b = (case f (fst b) of (out, q) \<Rightarrow> (out, q, snd b))"

definition raises :: "outcome \<Rightarrow> bool" where
  "raises out \<longleftrightarrow> out = Paused_Again \<or> out = Malformed_Row"

text \<open>An exception of a stage ends the route.\<close>

fun run_stages :: "(board \<Rightarrow> outcome \<times> board) list \<Rightarrow> board \<Rightarrow> outcome list \<times> board" where
  "run_stages [] b = ([], b)"
| "run_stages (f # fs) b =
     (case f b of (out, b1) \<Rightarrow>
        if raises out then ([out], b1) else (case run_stages fs b1 of (outs, b2) \<Rightarrow> (out # outs, b2)))"

section \<open>Publication\<close>

definition raw_text :: "json \<Rightarrow> string" where
  "raw_text v = (if json_truthy v then shown v else [])"

definition head_text :: "string \<Rightarrow> task_context \<Rightarrow> head_status \<Rightarrow> string \<times> string" where
  "head_text where_at ctx st =
     (case st of
        Unpinned \<Rightarrow> (''unpinned'', if json_truthy (ctx_key ctx ''reviewed_sha'') then ''no pr_number to compare against''
                                    else ''no reviewed_sha recorded'')
      | At_Head h \<Rightarrow> (''current'', ''reviewed '' @ take 9 h @ '' is still the head'')
      | Stale h \<Rightarrow> (''stale'', ''reviewed '' @ take 9 (raw_text (ctx_key ctx ''reviewed_sha'')) @ '' but the head is now '' @ take 9 h)
      | Head_Unknown \<Rightarrow> (''unknown'', if where_at = [] then ''no repo to compare against - cannot verify'' else ''current head unknown''))"

definition note_unpublished :: "cascade_env \<Rightarrow> string \<Rightarrow> string \<Rightarrow> task_context \<Rightarrow> json \<Rightarrow> queue \<Rightarrow> queue" where
  "note_unpublished pe repo tid ctx pr q =
     (case head_text ((if repo \<noteq> [] then repo else key_text (ctx_key ctx ''repo'')) @ pe_cwd pe) ctx
             (review_head_status pe repo ctx pr) of
        (status, reason) \<Rightarrow>
          patched tid [(''review_publication'', JStr status), (''review_publication_reason'', JStr reason)] q)"

text \<open>The successor's project, for the review the route sends again.\<close>

definition requeue_stage ::
  "cascade_env \<Rightarrow> string \<Rightarrow> string \<Rightarrow> task_context \<Rightarrow> json \<Rightarrow> string option \<Rightarrow> queue \<Rightarrow> outcome \<times> queue" where
  "requeue_stage pe project tid ctx pr head q =
     (case (head, int_value pr) of
        (Some h, Some n) \<Rightarrow> requeue_review_at_head pe project q tid n h ctx
      | _ \<Rightarrow> (No_Successor, q))"

definition review_op :: "string \<Rightarrow> string" where
  "review_op tid = ''comment:review:'' @ tid"

definition no_repo_error :: string where
  "no_repo_error =
     ''repo identity unresolved (no ctx.repo, no reviewer worktree remote) - fail-closed, no external mutation attempted''"

definition mark_comment :: "cascade_env \<Rightarrow> string \<Rightarrow> op_state \<Rightarrow> string option \<Rightarrow> queue \<Rightarrow> queue" where
  "mark_comment pe tid st err q =
     external_op_mark (pe_clock pe) (review_op tid) st (map_option Plain_Error err) (err \<noteq> None) q"

text \<open>The verdict on the pull request: reserved, then posted unless an earlier attempt may have posted it.\<close>

definition post_review :: "stage_env \<Rightarrow> string \<Rightarrow> task_result \<Rightarrow> queue \<Rightarrow> queue" where
  "post_review se tid r q =
     (let pe = se_cascade se
      in if resolve_verdict r \<notin> {Approve, Request_Changes} then q
         else if se_review_posts se tid then mark_comment pe tid Op_Done None q
         else mark_comment pe tid Op_Failed (Some ''post_review_comment returned False'') q)"

definition comment_review :: "stage_env \<Rightarrow> string \<Rightarrow> string \<Rightarrow> int \<Rightarrow> task_result \<Rightarrow> queue \<Rightarrow> queue" where
  "comment_review se repo tid pr r q =
     (let pe = se_cascade se
      in case external_op_reserve (pe_clock pe) (pe_pauses pe) q (review_op tid) (Some pr) of
           (Stop_Refused e, q1) \<Rightarrow> q1
         | (Reserved fresh o1, q1) \<Rightarrow>
             if eo_state o1 = Op_Done then q1
             else if repo = [] then mark_comment pe tid Op_Failed (Some no_repo_error) q1
             else if fresh then post_review se tid r q1
             else (case se_review_seen se tid of
                     Some True \<Rightarrow> mark_comment pe tid Op_Done None q1
                   | None \<Rightarrow> q1
                   | Some False \<Rightarrow> post_review se tid r q1))"

section \<open>The HTTP route\<close>

text \<open>The pull request and the repository of a review, and what its publication decides.\<close>

definition review_repo :: "stage_env \<Rightarrow> task_context \<Rightarrow> string" where
  "review_repo se ctx =
     (let s = raw_text (ctx_key ctx ''repo'')
      in if s \<noteq> [] then s else if se_reviewer_cwd se \<noteq> [] then se_reviewer_repo se else [])"

definition reviewer_env :: "stage_env \<Rightarrow> cascade_env" where
  "reviewer_env se = (se_cascade se)\<lparr>pe_cwd := se_reviewer_cwd se\<rparr>"

definition publication :: "cascade_env \<Rightarrow> string \<Rightarrow> task_context \<Rightarrow> json \<Rightarrow> (bool \<times> string option) option" where
  "publication pe repo ctx pr = (if json_truthy pr then Some (review_publication_decision pe repo ctx pr) else None)"

definition about_this_head :: "(bool \<times> string option) option \<Rightarrow> bool" where
  "about_this_head p = (case p of None \<Rightarrow> True | Some (publish, h) \<Rightarrow> publish)"

definition http_fix :: "stage_env \<Rightarrow> bool \<Rightarrow> string \<Rightarrow> string \<Rightarrow> queue \<Rightarrow> outcome \<times> queue" where
  "http_fix se replaying repo tid q =
     (case auto_enqueue_fix (se_cascade se) repo False replaying q tid of
        (Malformed_Row, q1) \<Rightarrow> (No_Successor, record_cascade_enqueue_failure tid ''fix'' ''MalformedStoredRow'' q1)
      | (out, q1) \<Rightarrow> (out, q1))"

definition retry_outcome :: "retry \<Rightarrow> outcome" where
  "retry_outcome r = (case r of Retried i \<Rightarrow> Successor i | Retry_Paused \<Rightarrow> Paused_Again | _ \<Rightarrow> No_Successor)"

definition failed_stage :: "stage_env \<Rightarrow> bool \<Rightarrow> string \<Rightarrow> string \<Rightarrow> work_result \<Rightarrow> task_context \<Rightarrow> board \<Rightarrow> outcome \<times> board" where
  "failed_stage se replaying tid ty r ctx b =
     (let res = task_result.truncate r
      in if ty = ''test'' \<and> handle_test_result res = Test_Failed
         then on_queue (http_fix se replaying (raw_text (ctx_key ctx ''repo'')) tid) b
         else if tr_status r \<noteq> Failed then (No_Successor, b)
         else if (case tr_error_info r of Some (JObj kvs) \<Rightarrow> ''script_test'' \<in> fst ` set kvs | _ \<Rightarrow> False)
         then (if error_field res ''reason'' = JStr ''script_test_merge_conflict''
               then on_queue (\<lambda>q. auto_enqueue_conflict_rebase se q tid r) b else (No_Successor, b))
         else (case auto_retry_failed_task se (fst b) (snd b) tid r ty of (out, b1) \<Rightarrow> (retry_outcome out, b1)))"

definition review_stage :: "cascade_env \<Rightarrow> string \<Rightarrow> string \<Rightarrow> work_result \<Rightarrow> board \<Rightarrow> outcome \<times> board" where
  "review_stage pe tid ty r b =
     (if ty = ''implement'' \<and> tr_status r = Completed
      then auto_enqueue_review pe (tr_pr_number r) (pushed_by r) (fst b) (snd b) tid else (No_Successor, b))"

definition publish_stage :: "stage_env \<Rightarrow> bool \<Rightarrow> string \<Rightarrow> string \<Rightarrow> work_result \<Rightarrow> task_context \<Rightarrow> board \<Rightarrow> outcome \<times> board" where
  "publish_stage se replaying tid ty r ctx b =
     (let pe = reviewer_env se; repo = review_repo se ctx; pr = result_pr (task_result.truncate r) ctx
      in if ty \<noteq> ''review'' then (No_Successor, b)
         else (case publication pe repo ctx pr of None \<Rightarrow> (No_Successor, b)
           | Some (False, head) \<Rightarrow>
               on_queue (\<lambda>q. requeue_stage (se_cascade se)
                   (case task_of q tid of None \<Rightarrow> py_strip (se_identity se) | Some t \<Rightarrow> server_project_for se t ctx)
                   tid ctx pr head (note_unpublished pe repo tid ctx pr q)) b
           | Some (True, head) \<Rightarrow>
               if replaying then (No_Successor, b)
               else (case int_value pr of None \<Rightarrow> (Malformed_Row, b)
                 | Some n \<Rightarrow>
                     on_queue (\<lambda>q. (No_Successor, comment_review se repo tid n (task_result.truncate r) q)) b)))"

definition verdict_stage :: "stage_env \<Rightarrow> bool \<Rightarrow> string \<Rightarrow> string \<Rightarrow> work_result \<Rightarrow> task_context \<Rightarrow> board \<Rightarrow> outcome \<times> board" where
  "verdict_stage se replaying tid ty r ctx b =
     (let res = task_result.truncate r; repo = review_repo se ctx; verdict = resolve_verdict res
      in if ty \<noteq> ''review'' then (No_Successor, b)
         else if verdict = Approve
         then (if \<not> about_this_head (publication (reviewer_env se) repo ctx (result_pr res ctx)) then (No_Successor, b)
               else if json_truthy (ctx_key ctx ''no_tester'') then (No_Successor, b)
               else auto_enqueue_test (se_cascade se) repo (fst b) (snd b) tid)
         else if verdict = Request_Changes \<and> tr_findings r \<noteq> [] then on_queue (http_fix se replaying repo tid) b
         else (No_Successor, b))"

definition merge_stage :: "stage_env \<Rightarrow> string \<Rightarrow> string \<Rightarrow> work_result \<Rightarrow> task_context \<Rightarrow> board \<Rightarrow> outcome \<times> board" where
  "merge_stage se tid ty r ctx b =
     (let pe = se_cascade se; pr = result_pr (task_result.truncate r) ctx
      in if ty \<noteq> ''test'' \<or> tr_status r \<noteq> Completed \<or> \<not> json_truthy pr then (No_Successor, b)
         else (case int_value pr of None \<Rightarrow> (Malformed_Row, b)
           | Some n \<Rightarrow>
               on_queue (\<lambda>q. (No_Successor,
                 snd (auto_merge_pr (pe_clock pe) (pe_pauses pe) (se_github se n) (pe_agent_of pe)
                   \<lparr>mq_pr = n, mq_review = (case tc_prev_task_id ctx of None \<Rightarrow> [] | Some p \<Rightarrow> p), mq_test = tid,
                    mq_left_to_coordinator = se_left_to_coordinator se\<rparr> q))) b))"

text \<open>The verification a recovery asked for is recorded on its test; its comment is outside.\<close>

definition note_recovery :: "string \<Rightarrow> string \<Rightarrow> work_result \<Rightarrow> task_context \<Rightarrow> queue \<Rightarrow> queue" where
  "note_recovery tid ty r ctx q =
     (if ty = ''test'' \<and> json_truthy (ctx_key ctx ''post_recovery_verification'')
      then patched tid [(''post_recovery_verification_result'',
             JStr (if tr_status r = Completed
                      \<and> (case error_field (task_result.truncate r) ''script_test'' of
                            JObj kvs \<Rightarrow> json_of kvs ''outcome'' = JStr ''PASSED'' | _ \<Rightarrow> False)
                   then ''PASS'' else ''FAIL''))] q
      else q)"

definition http_stages ::
  "stage_env \<Rightarrow> bool \<Rightarrow> string \<Rightarrow> string \<Rightarrow> work_result \<Rightarrow> task_context \<Rightarrow> (board \<Rightarrow> outcome \<times> board) list" where
  "http_stages se replaying tid ty r ctx =
     [failed_stage se replaying tid ty r ctx, review_stage (se_cascade se) tid ty r,
      publish_stage se replaying tid ty r ctx, verdict_stage se replaying tid ty r ctx, merge_stage se tid ty r ctx]"

definition http_continue ::
  "stage_env \<Rightarrow> bool \<Rightarrow> string \<Rightarrow> string \<Rightarrow> work_result \<Rightarrow> task_context \<Rightarrow> board \<Rightarrow> outcome list \<times> board" where
  "http_continue se replaying tid ty r ctx b =
     (let b1 = (note_recovery tid ty r ctx (fst b), snd b)
      in if ty = ''discuss'' then ([], b1) else run_stages (http_stages se replaying tid ty r ctx) b1)"

section \<open>The MCP tool\<close>

text \<open>The tool names no working copy, no panes and no project to the stages; the publication is judged in its own.\<close>

definition mcp_env :: "cascade_env \<Rightarrow> cascade_env" where
  "mcp_env pe = pe\<lparr>pe_cwd := [], pe_server_project := [], pe_reviewer := [], pe_pane_agent := \<lambda>r. None\<rparr>"

definition mcp_project :: "cascade_env \<Rightarrow> queue \<Rightarrow> string \<Rightarrow> string" where
  "mcp_project pe q tid = (case task_of q tid of None \<Rightarrow> py_strip (pe_identity pe) | Some t \<Rightarrow> successor_project (mcp_env pe) t)"

definition mcp_verdict_stage :: "cascade_env \<Rightarrow> string \<Rightarrow> string \<Rightarrow> work_result \<Rightarrow> task_context \<Rightarrow> board \<Rightarrow> outcome \<times> board" where
  "mcp_verdict_stage pe tid ty r ctx b =
     (let res = task_result.truncate r; repo = raw_text (ctx_key ctx ''repo''); pr = result_pr res ctx
      in if ty = ''implement'' \<and> tr_status r = Completed
         then auto_enqueue_review (mcp_env pe) (tr_pr_number r) (pushed_by r) (fst b) (snd b) tid
         else if ty = ''review'' \<and> resolve_verdict res = Approve
         then (case publication pe repo ctx pr of
                 Some (False, head) \<Rightarrow>
                   on_queue (\<lambda>q. requeue_stage (mcp_env pe) (mcp_project pe q tid) tid ctx pr head
                                  (note_unpublished pe repo tid ctx pr q)) b
               | _ \<Rightarrow> auto_enqueue_test (mcp_env pe) [] (fst b) (snd b) tid)
         else if ty = ''review'' \<and> resolve_verdict res = Request_Changes
         then on_queue (\<lambda>q. auto_enqueue_fix (mcp_env pe) repo True False q tid) b
         else (No_Successor, b))"

definition mcp_failed_stage :: "cascade_env \<Rightarrow> string \<Rightarrow> string \<Rightarrow> work_result \<Rightarrow> task_context \<Rightarrow> board \<Rightarrow> outcome \<times> board" where
  "mcp_failed_stage pe tid ty r ctx b =
     (if ty = ''test'' \<and> handle_test_result (task_result.truncate r) = Test_Failed
      then on_queue (\<lambda>q. auto_enqueue_fix (mcp_env pe) (raw_text (ctx_key ctx ''repo'')) True False q tid) b
      else (No_Successor, b))"

definition mcp_continue ::
  "cascade_env \<Rightarrow> string \<Rightarrow> string \<Rightarrow> work_result \<Rightarrow> task_context \<Rightarrow> board \<Rightarrow> outcome list \<times> board" where
  "mcp_continue pe tid ty r ctx b = run_stages [mcp_verdict_stage pe tid ty r ctx, mcp_failed_stage pe tid ty r ctx] b"

section \<open>From the door to the last stage\<close>

definition http_round ::
  "deployment \<Rightarrow> stage_env \<Rightarrow> door \<Rightarrow> bool \<Rightarrow> board \<Rightarrow> string \<Rightarrow> work_result \<Rightarrow> string option \<Rightarrow> string option
     \<Rightarrow> intake_reply \<times> outcome list \<times> board" where
  "http_round dp se d replaying b tid r nonce presenter =
     (case http_submit dp (pe_clock (se_cascade se)) (pe_pauses (se_cascade se)) d replaying (fst b) tid r nonce presenter of
        (Goes_On ty r1, q1) \<Rightarrow>
          (Goes_On ty r1,
           http_continue se replaying tid ty r1
             (case task_of (fst b) tid of None \<Rightarrow> empty_context | Some t \<Rightarrow> tk_context t) (q1, snd b))
      | (reply, q1) \<Rightarrow> (reply, [], q1, snd b))"

end
