(* ===== verification/Pipeline_Rows.thy ===== *)
theory Pipeline_Rows
  imports Rounds Enqueue_Safety
begin

text \<open>
  What the pipeline writes: the values a context holds after a list of writes, the one row an admitted
  successor adds, and that the traces left on a parent touch no other row.
\<close>

section \<open>Contexts\<close>

text \<open>Keys the context record keeps apart.\<close>

definition own_keys :: "string set" where
  "own_keys = {''agent_override'', ''implementer_agent'', ''prev_task_id'', ''original_task_id'', ''external_operation_id''}"

lemma ctx_key_record [simp]:
  "ctx_key (ctx\<lparr>tc_agent_override := a\<rparr>) k = ctx_key ctx k" "ctx_key (ctx\<lparr>tc_implementer_agent := a\<rparr>) k = ctx_key ctx k"
  "ctx_key (ctx\<lparr>tc_prev_task_id := a\<rparr>) k = ctx_key ctx k" "ctx_key (ctx\<lparr>tc_original_task_id := a\<rparr>) k = ctx_key ctx k"
  "ctx_key (ctx\<lparr>tc_external_operation_id := a\<rparr>) k = ctx_key ctx k" "ctx_key (ctx\<lparr>tc_cea_enqueue := g\<rparr>) k = ctx_key ctx k"
  by (simp_all add: ctx_key_def)

lemma set_key_record [simp]:
  "tc_prev_task_id (set_key k v ctx) = tc_prev_task_id ctx" "tc_original_task_id (set_key k v ctx) = tc_original_task_id ctx"
  "tc_implementer_agent (set_key k v ctx) = tc_implementer_agent ctx"
  by (simp_all add: set_key_def)

lemma has_key_set [simp]: "has_key (set_key k v ctx) j \<longleftrightarrow> j = k \<or> has_key ctx j"
  by (force simp: has_key_def set_key_def)

lemma ctx_key_put: "k \<notin> own_keys \<Longrightarrow> ctx_key (ctx_put j v ctx) k = (if k = j then v else ctx_key ctx k)"
  by (auto simp: ctx_put_def own_keys_def ctx_key_set_key)

lemma prev_put [simp]:
  "tc_prev_task_id (ctx_put j v ctx) = (if j = ''prev_task_id'' then text_of v else tc_prev_task_id ctx)"
  by (simp add: ctx_put_def)

lemma puts_simps [simp]:
  "puts [] ctx = ctx" "puts ((k, v) # kvs) ctx = puts kvs (ctx_put k v ctx)" "puts (xs @ ys) ctx = puts ys (puts xs ctx)"
  by (simp_all add: puts_def)

text \<open>A key holds what it held, or something the writes name.\<close>

lemma ctx_key_puts:
  assumes "P (ctx_key ctx k)" and "k \<notin> own_keys" and "\<And>v. (k, v) \<in> set kvs \<Longrightarrow> P v"
  shows "P (ctx_key (puts kvs ctx) k)"
  using assms
proof (induction kvs arbitrary: ctx)
  case (Cons e kvs)
  obtain j v where e: "e = (j, v)" by fastforce
  have "P (ctx_key (ctx_put j v ctx) k)" using Cons.prems by (auto simp: e ctx_key_put)
  then show ?case unfolding e puts_simps by (rule Cons.IH) (use Cons.prems in auto)
qed simp

lemma ctx_key_puts_other:
  assumes "k \<notin> own_keys" and "k \<notin> fst ` set kvs" shows "ctx_key (puts kvs ctx) k = ctx_key ctx k"
  by (rule ctx_key_puts) (use assms in force)+

lemma prev_puts_other: "''prev_task_id'' \<notin> fst ` set kvs \<Longrightarrow> tc_prev_task_id (puts kvs ctx) = tc_prev_task_id ctx"
  by (induction kvs arbitrary: ctx) auto

lemma opt_puts_simps [simp]: "opt_puts True kvs = kvs" "opt_puts False kvs = []"
  by (simp_all add: opt_puts_def)

lemma copied_keys: "fst ` set (copied ctx ks) \<subseteq> set ks"
  by (auto simp: copied_def)

lemma copied_other: "k \<notin> set ks \<Longrightarrow> k \<notin> fst ` set (copied ctx ks)"
  using copied_keys [of ctx ks] by blast

lemma opt_puts_other: "k \<notin> fst ` set kvs \<Longrightarrow> k \<notin> fst ` set (opt_puts b kvs)"
  by (cases b) (simp_all add: opt_puts_def)

lemma opt_puts_keys: "fst ` set (opt_puts b kvs) \<subseteq> fst ` set kvs"
  by (auto simp: opt_puts_def)

lemma tier_put_keys: "fst ` set (tier_put ctx) \<subseteq> {''risk_tier''}"
  by (auto simp: tier_put_def split: option.splits)

lemma kept_keys_keys: "fst ` set (kept_keys ctx ks) \<subseteq> set ks"
  by (auto simp: kept_keys_def)

lemma ctx_key_default_other: "k \<notin> own_keys \<Longrightarrow> k \<noteq> j \<Longrightarrow> ctx_key (set_default j v ctx) k = ctx_key ctx k"
  by (simp add: set_default_def ctx_key_put)

lemma prev_default_other: "j \<noteq> ''prev_task_id'' \<Longrightarrow> tc_prev_task_id (set_default j v ctx) = tc_prev_task_id ctx"
  by (simp add: set_default_def)

lemma ctx_key_defaults:
  "k \<notin> own_keys \<Longrightarrow> k \<notin> set ks \<Longrightarrow> ctx_key (fold (\<lambda>j c. if p j then set_default j (f j) c else c) ks ctx) k = ctx_key ctx k"
  by (induction ks arbitrary: ctx) (auto simp: ctx_key_default_other)

lemma prev_defaults:
  "''prev_task_id'' \<notin> set ks \<Longrightarrow>
     tc_prev_task_id (fold (\<lambda>j c. if p j then set_default j (f j) c else c) ks ctx) = tc_prev_task_id ctx"
  by (induction ks arbitrary: ctx) (auto simp: prev_default_other)

text \<open>The carried intent of a lineage touches neither round, nor reviewed head, nor parent.\<close>

lemma ctx_key_carry:
  assumes "k \<notin> own_keys" and "k \<notin> set lineage_intent_fields"
  shows "ctx_key (carry_lineage_intent t role ctx) k = ctx_key ctx k"
proof -
  have "k \<noteq> ''agent_override''" "k \<noteq> ''lineage_root_task_id''"
    using assms by (auto simp: own_keys_def lineage_intent_fields_def)
  with assms show ?thesis
    by (simp add: carry_lineage_intent_def Let_def ctx_key_put ctx_key_default_other ctx_key_defaults split: json.split)
qed

lemma prev_carry: "tc_prev_task_id (carry_lineage_intent t role ctx) = tc_prev_task_id ctx"
proof -
  have "''prev_task_id'' \<notin> set lineage_intent_fields" by (simp add: lineage_intent_fields_def)
  then show ?thesis by (simp add: carry_lineage_intent_def Let_def prev_default_other prev_defaults split: json.split)
qed

lemma op_put [simp]:
  "tc_external_operation_id (ctx_put j v ctx) = (if j = ''external_operation_id'' then text_of v else tc_external_operation_id ctx)"
  by (simp add: ctx_put_def set_key_def)

lemma op_puts_other:
  "''external_operation_id'' \<notin> fst ` set kvs \<Longrightarrow> tc_external_operation_id (puts kvs ctx) = tc_external_operation_id ctx"
  by (induction kvs arbitrary: ctx) auto

lemma op_defaults:
  "\<not> p ''external_operation_id'' \<Longrightarrow>
     tc_external_operation_id (fold (\<lambda>j c. if p j then set_default j (f j) c else c) ks ctx) = tc_external_operation_id ctx"
  by (induction ks arbitrary: ctx) (auto simp: set_default_def)

lemma op_carry:
  assumes "\<not> ctx_has (tk_context t) ''external_operation_id''"
  shows "tc_external_operation_id (carry_lineage_intent t role ctx) = tc_external_operation_id ctx"
  using assms by (simp add: carry_lineage_intent_def Let_def set_default_def op_defaults split: json.split)

section \<open>The row of a successor\<close>

text \<open>Keys the admission itself may write on the context of a request.\<close>

definition admission_keys :: "string set" where
  "admission_keys =
     {contract_key, ''owner_conflict'', ''risk_tier'', ''pr_number'', ''issue'', ''issue_number'', ''risk_declaration''}"

definition carries :: "task_context \<Rightarrow> task_context \<Rightarrow> bool" where
  "carries c d \<longleftrightarrow> tc_prev_task_id d = tc_prev_task_id c \<and> (\<forall>k. k \<notin> admission_keys \<longrightarrow> ctx_key d k = ctx_key c k)"

definition follows_request :: "task_request \<Rightarrow> task_row \<Rightarrow> bool" where
  "follows_request rq u \<longleftrightarrow>
     tk_id u = rq_id rq \<and> tk_type u = rq_type rq \<and> tk_branch u = rq_branch rq \<and> tk_priority u = rq_priority rq
     \<and> tk_project u = rq_project rq \<and> carries (rq_context rq) (tk_context u)"

lemma carries_refl: "carries c c"
  by (simp add: carries_def)

lemma carries_trans: "carries a b \<Longrightarrow> carries b c \<Longrightarrow> carries a c"
  by (simp add: carries_def)

lemma carries_set_key: "k \<in> admission_keys \<Longrightarrow> carries c (set_key k v c)"
  by (auto simp: carries_def ctx_key_set_key)

lemma map_of_without: "k \<notin> set ks \<Longrightarrow> map_of (filter (\<lambda>e. fst e \<notin> set ks) kvs) k = map_of kvs k"
  by (induction kvs) auto

lemma ctx_key_without: "k \<notin> set ks \<Longrightarrow> ctx_key (without_keys ks c) k = ctx_key c k"
  by (simp add: without_keys_def ctx_key_def map_of_without)

lemma carries_without:
  assumes "set ks \<subseteq> admission_keys" shows "carries c (without_keys ks c)"
proof -
  have "k \<notin> set ks" if "k \<notin> admission_keys" for k using assms that by blast
  then show ?thesis by (simp add: carries_def ctx_key_without) (simp add: without_keys_def)
qed

lemma carries_enqueue: "carries c (enqueue_context c)"
proof -
  have "carries c (set_key ''issue_number'' (JInt n) (set_key ''issue'' (JInt n) c))" for n
    by (rule carries_trans [OF carries_set_key carries_set_key]) (simp_all add: admission_keys_def)
  moreover have "carries c (without_keys [''issue'', ''issue_number''] c)"
    by (rule carries_without) (simp add: admission_keys_def)
  ultimately show ?thesis by (simp add: enqueue_context_def split: option.split)
qed

lemma carries_trusted: "carries c (trusted_context q c)"
proof -
  have "carries (enqueue_context c) (set_key ''risk_tier'' v (enqueue_context c))" for v
    by (rule carries_set_key) (simp add: admission_keys_def)
  then have "carries (enqueue_context c) (trusted_context q c)"
    by (simp add: trusted_context_def Let_def carries_refl split: option.split)
  with carries_enqueue show ?thesis by (rule carries_trans)
qed

lemma carries_canonical: "carries c (canonical_pr c)"
  by (auto simp: canonical_pr_def carries_refl admission_keys_def intro!: carries_set_key split: option.split)

lemma carries_inherited: "carries c (inherited_context q t c)"
  by (auto simp: inherited_context_def carries_refl admission_keys_def intro!: carries_set_key split: option.split)

lemma carries_admitted: "carries (rq_context rq) (admitted_context ad rq r g c)"
  by (auto simp: admitted_context_def Let_def carries_def admission_keys_def ctx_key_set_key)

lemma follows_cong:
  assumes "follows_request (rq\<lparr>rq_context := d\<rparr>) u" and "carries (rq_context rq) d"
  shows "follows_request rq u"
  using assms carries_trans by (auto simp: follows_request_def)

text \<open>An admission adds one row.\<close>

lemma admitted_row:
  assumes "enqueue_with_receipt dp clock ps ad q rq r = (Inr i, q')"
  shows "i = rq_id rq \<and> task_of q i = None \<and> (\<exists>u. q_tasks q' = q_tasks q @ [u] \<and> follows_request rq u)"
  using assms
proof (cases rule: enqueue_cases)
  case (admitted g c ctx w dup expired)
  from insert_row_tasks [OF admitted(9)] have row: "task_of q (rq_id rq) = None"
      "q_tasks q' = q_tasks q @ [new_row clock rq ctx r (owner_conflict g r)]"
    by (simp_all add: task_of_def admission_log_tasks)
  have "follows_request rq (new_row clock rq ctx r (owner_conflict g r))"
    by (simp add: follows_request_def admitted(5) carries_admitted) (simp add: new_row_def)
  with row admitted(1) show ?thesis by auto
qed simp_all

lemma successor_row:
  assumes "enqueue_successor pe rq q = (Inr i, q')"
  shows "i = rq_id rq \<and> task_of q i = None \<and> (\<exists>u. q_tasks q' = q_tasks q @ [u] \<and> follows_request rq u)"
proof -
  let ?d = "canonical_pr (trusted_context q (rq_context rq))"
  have run: "enqueue_with_receipt (pe_dp pe) (pe_clock pe) (pe_pauses pe) (pe_admission pe (rq\<lparr>rq_context := ?d\<rparr>)) q
      (rq\<lparr>rq_context := ?d\<rparr>) (pe_receipt pe (rq\<lparr>rq_context := ?d\<rparr>)) = (Inr i, q')"
    using assms by (simp add: enqueue_successor_def Let_def split: if_splits)
  from admitted_row [OF run] carries_trans [OF carries_trusted carries_canonical] show ?thesis
    by (auto dest: follows_cong)
qed

text \<open>The later write of the root's facts stays on the new row.\<close>

lemma patch_last:
  assumes "q_tasks q = ts @ [u]" and "row_of tk_id (tk_id u) ts = None" and "patch_context q (tk_id u) kvs = Some q'"
  shows "q_tasks q' = ts @ [u] \<or> (\<exists>c. q_tasks q' = ts @ [u\<lparr>tk_context := fold (\<lambda>(k, v). set_key k v) kvs (tk_context u)\<rparr>])"
proof -
  have t: "task_of q (tk_id u) = Some u"
    using assms(2) by (simp add: task_of_def assms(1) row_of_append)
  have other: "map (\<lambda>t. if tk_id t = tk_id u then f t else t) ts = ts" for f
    using assms(2) by (intro map_idI) (metis imageI row_of_None_iff)
  from assms(3) show ?thesis
    by (auto simp: patch_context_def t Let_def update_task_def assms(1) other split: if_splits)
qed

lemma inherited_row:
  assumes "enqueue_with_inherited_risk pe t rq q = (Inr i, q')"
  shows "i = rq_id rq \<and> task_of q i = None \<and> (\<exists>u. q_tasks q' = q_tasks q @ [u] \<and> follows_request rq u)"
proof -
  let ?rq = "rq\<lparr>rq_context := inherited_context q t (rq_context rq)\<rparr>"
  obtain q1 where e: "enqueue_successor pe ?rq q = (Inr i, q1)" and q': "q' = note_inherited_facts t ?rq q q1"
    using assms by (auto simp: enqueue_with_inherited_risk_def Let_def split: prod.splits sum.splits)
  from successor_row [OF e] obtain u where i: "i = rq_id rq" "task_of q i = None" and u: "q_tasks q1 = q_tasks q @ [u]"
      "follows_request ?rq u" by auto
  have f: "follows_request rq u" using follows_cong [OF u(2)] carries_inherited by blast
  have fresh: "row_of tk_id (tk_id u) (q_tasks q) = None" using i f by (simp add: task_of_def follows_request_def)
  have "follows_request rq (u\<lparr>tk_context := set_key ''risk_declaration'' v (tk_context u)\<rparr>)" for v
    using f carries_trans [OF _ carries_set_key] by (auto simp: follows_request_def admission_keys_def)
  moreover have "rq_id rq = tk_id u" using f by (simp add: follows_request_def)
  ultimately have "\<exists>w. q_tasks q' = q_tasks q @ [w] \<and> follows_request rq w"
    using u(1) f patch_last [OF u(1) fresh]
    unfolding q' note_inherited_facts_def by (fastforce split: option.splits)
  with i show ?thesis by blast
qed

text \<open>Reading the table after one row was added.\<close>

lemma row_added:
  assumes "q_tasks q' = q_tasks q @ [u]" and "task_of q (tk_id u) = None"
  shows "task_of q' j = (if j = tk_id u then Some u else task_of q j)"
  using assms by (auto simp: task_of_def row_of_append split: option.splits)

text \<open>A row that already exists, or the standing duplicate, is in the table.\<close>

lemma enqueue_known:
  assumes "enqueue_with_receipt dp clock ps ad q rq r = (Inl e, q')"
  shows "(\<forall>st. e = Already_Exists st \<longrightarrow> task_of q (rq_id rq) \<noteq> None) \<and> (\<forall>i. e = Duplicate_Of i \<longrightarrow> task_of q i \<noteq> None)"
proof -
  have log: "task_of (admission_log clock ad rq dup x p) j = task_of p j" for dup x p j
    by (simp add: task_of_def admission_log_tasks)
  have dup: "task_of q i \<noteq> None" if "duplicate_review q rq2 d lim h ig = (Some i, x)" for rq2 d lim h ig x i
  proof -
    have "fst (find_duplicate rq2 d lim (head_of d h (rq_context rq2)) ig (sort_key tk_created_at (filter (standing rq2) (q_tasks q)))) = Some i"
      using that by (auto simp: duplicate_review_def split: if_splits)
    from find_duplicate_some [OF this] show ?thesis by (auto simp: task_of_def row_of_None_iff)
  qed
  have ins: "task_of p (rq_id rq) \<noteq> None" if "insert_row dp clock ad rq r g ctx p = (Inl (Already_Exists st), p')" for g ctx p st p'
    using that by (auto simp: insert_row_def split: option.splits sum.splits)
  have never: "insert_row dp clock ad rq r g ctx p \<noteq> (Inl (Duplicate_Of i), p')" for g ctx p i p'
    by (auto simp: insert_row_def split: option.splits sum.splits)
  show ?thesis
    using assms never
    by (auto simp: enqueue_with_receipt_def Let_def log split: option.splits if_splits prod.splits sum.splits
        dest!: dup ins)
qed

lemma successor_known:
  assumes "enqueue_successor pe rq q = (Inl e, q')"
  shows "(\<forall>st. e = Already_Exists st \<longrightarrow> task_of q (rq_id rq) \<noteq> None) \<and> (\<forall>i. e = Duplicate_Of i \<longrightarrow> task_of q i \<noteq> None)"
  using assms by (auto simp: enqueue_successor_def Let_def split: if_splits dest!: enqueue_known)

lemma inherited_known:
  assumes "enqueue_with_inherited_risk pe t rq q = (Inl e, q')"
  shows "(\<forall>st. e = Already_Exists st \<longrightarrow> task_of q (rq_id rq) \<noteq> None) \<and> (\<forall>i. e = Duplicate_Of i \<longrightarrow> task_of q i \<noteq> None)"
proof -
  let ?rq = "rq\<lparr>rq_context := inherited_context q t (rq_context rq)\<rparr>"
  have "enqueue_successor pe ?rq q = (Inl e, q')"
    using assms by (auto simp: enqueue_with_inherited_risk_def Let_def split: prod.splits sum.splits)
  from successor_known [OF this] show ?thesis by simp
qed

lemma keyed: "ctx_key ctx k \<noteq> JNull \<Longrightarrow> has_key ctx k"
  by (force simp: ctx_key_def has_key_def split: option.splits dest: map_of_SomeD)

end
