(* ===== verification/Pipeline_Safety.thy ===== *)
theory Pipeline_Safety
  imports Pipeline_Rows
begin

text \<open>
  What the pipeline promises: when a fix, a review, a test or a retry follows a result, what it carries, how
  often, and where the two doors and the gate of tier three part from it.
\<close>

section \<open>The fix\<close>

lemma skip_goes:
  "skip_terminal_pr pe stage tid pr repo q = (False, q1) \<Longrightarrow> q1 = q \<and> fst (pr_is_actionable pe repo pr)"
  by (auto simp: skip_terminal_pr_def split: prod.splits bool.splits if_splits)

lemma plan_fixD:
  assumes "plan_fix pe repo require q tid = Inr p"
  shows "\<exists>t r n bs. task_of q tid = Some t \<and> get_result q tid = Some r \<and> actionable t r
    \<and> default_branches pe (tk_context t) repo require = Some bs \<and> normalize_branch (JStr (cascade_branch_of t)) \<notin> set bs
    \<and> fst (pr_is_actionable pe repo (result_pr r (tk_context t)))
    \<and> review_is_current pe repo (tk_context t) (result_pr r (tk_context t)) \<and> fix_round_of (tk_context t) = Some n
    \<and> fp_task p = t \<and> fp_result p = r \<and> fp_round p = n + 1 \<and> fp_cap p = max 0 (review_fix_max_rounds pe)"
proof -
  obtain t r where t: "task_of q tid = Some t" "get_result q tid = Some r"
    using assms by (auto simp: plan_fix_def split: option.splits)
  let ?pr = "result_pr r (tk_context t)"
  have act: "actionable t r"
    using assms t by (auto simp: plan_fix_def Let_def split: if_splits)
  obtain bs where bs: "default_branches pe (tk_context t) repo require = Some bs"
      "normalize_branch (JStr (cascade_branch_of t)) \<notin> set bs"
    using assms t by (auto simp: plan_fix_def Let_def split: if_splits option.splits)
  obtain b q1 where skip: "skip_terminal_pr pe ''fix'' tid ?pr repo q = (b, q1)" by fastforce
  have no: "\<not> b" using assms t bs skip by (auto simp: plan_fix_def Let_def split: if_splits)
  with skip have open': "fst (pr_is_actionable pe repo ?pr)" using skip_goes by auto
  have cur: "review_is_current pe repo (tk_context t) ?pr"
    using assms t bs skip no by (auto simp: plan_fix_def Let_def split: if_splits)
  obtain n where n: "fix_round_of (tk_context t) = Some n"
    using assms t bs skip no cur by (auto simp: plan_fix_def Let_def split: if_splits option.splits)
  have "p = \<lparr>fp_task = t, fp_result = r, fp_pr = ?pr, fp_round = n + 1,
      fp_cap = fix_round_cap (review_cascade_contract q t) (Some (review_fix_max_rounds pe))\<rparr>"
    using assms t bs skip no cur n by (auto simp: plan_fix_def Let_def split: if_splits)
  with t act bs open' cur n show ?thesis by (simp add: fix_round_cap_def)
qed

definition fix_notes :: "cascade_env \<Rightarrow> fix_plan \<Rightarrow> (string \<times> json) list" where
  "fix_notes pe p =
     (let t = fp_task p; fs = fix_findings t (fp_result p); agent = pane_or pe (ctx_get (tk_context t) ''implementer_agent'') ''implementer''
      in [(''review_findings'', JArr (map JStr fs))] @ opt_puts (is_test t) [(''feedback'', JStr (findings_block fs (tk_id t)))]
         @ tier_put (tk_context t) @ opt_puts (fp_pr p \<noteq> JNull) [(''pr_number'', fp_pr p)]
         @ copied (tk_context t) [''no_tester'', ''issue'', ''issue_title'', ''issue_body'', ''issue_url'', ''repo'']
         @ opt_puts (json_truthy agent) [(''implementer_agent'', agent)])"

lemma fix_notes_keys: "fst ` set (fix_notes pe p) \<subseteq> {''review_findings'', ''feedback'', ''risk_tier'', ''pr_number'', ''no_tester'',
    ''issue'', ''issue_title'', ''issue_body'', ''issue_url'', ''repo'', ''implementer_agent''}"
  unfolding fix_notes_def Let_def set_append image_Un
  by (intro Un_least; rule order_trans [OF copied_keys] order_trans [OF opt_puts_keys] order_trans [OF tier_put_keys] subsetI) auto

lemma fix_context_eq: "rq_context (fix_request pe p) = carry_lineage_intent (fp_task p) ''implementer'' (puts (fix_notes pe p)
    (ctx_put ''fix_round'' (JInt (fp_round p)) (ctx_put ''prev_task_id'' (JStr (tk_id (fp_task p))) empty_context)))"
  by (simp add: fix_request_def fix_notes_def Let_def)

lemma fix_context:
  "ctx_key (rq_context (fix_request pe p)) ''fix_round'' = JInt (fp_round p)"
  "tc_prev_task_id (rq_context (fix_request pe p)) = Some (tk_id (fp_task p))"
proof -
  have k: "''fix_round'' \<notin> fst ` set (fix_notes pe p)" "''prev_task_id'' \<notin> fst ` set (fix_notes pe p)"
    using fix_notes_keys [of pe p] by auto
  have s: "''fix_round'' \<notin> own_keys" "''fix_round'' \<notin> set lineage_intent_fields"
    by (simp_all add: own_keys_def lineage_intent_fields_def)
  show "ctx_key (rq_context (fix_request pe p)) ''fix_round'' = JInt (fp_round p)"
    unfolding fix_context_eq ctx_key_carry [OF s] ctx_key_puts_other [OF s(1) k(1)] by (simp add: ctx_key_put s(1))
  show "tc_prev_task_id (rq_context (fix_request pe p)) = Some (tk_id (fp_task p))"
    unfolding fix_context_eq prev_carry prev_puts_other [OF k(2)] by (simp add: text_of_def)
qed

lemma fix_request_simps [simp]:
  "rq_id (fix_request pe p) = fix_task_id (tk_id (fp_task p)) (fp_round p)" "rq_type (fix_request pe p) = ''implement''"
  "rq_branch (fix_request pe p) = cascade_branch_of (fp_task p)"
  by (simp_all add: fix_request_def Let_def)

lemma fix_cases:
  assumes "auto_enqueue_fix pe repo require still q tid = (Successor i, q')"
  obtains p j where "plan_fix pe repo require q tid = Inr p" "\<not> fix_spent p" "i = fix_task_id tid (fp_round p)"
    "enqueue_with_inherited_risk pe (fp_task p) (fix_request pe p) q = (Inr j, q')"
proof (cases "plan_fix pe repo require q tid")
  case (Inl e)
  then have "e = (Successor i, q')" using assms by (simp add: auto_enqueue_fix_def)
  with Inl have False
    by (auto simp: plan_fix_def Let_def split: option.splits prod.splits if_splits bool.splits)
  then show ?thesis ..
next
  case (Inr p)
  obtain x q1 where e: "enqueue_with_inherited_risk pe (fp_task p) (fix_request pe p) q = (x, q1)" by fastforce
  have "\<not> fix_spent p" using assms Inr by (auto simp: auto_enqueue_fix_def)
  moreover obtain j where "x = Inr j" "i = fix_task_id tid (fp_round p)" "q' = q1"
    using assms Inr e
    by (auto simp: auto_enqueue_fix_def stage_raised_def split: if_splits sum.splits enqueue_error.splits)
  ultimately show ?thesis using that Inr e by blast
qed

text \<open>What the two guards let pass: no pull request, or an open one; no pin, or a pin that is the head.\<close>

lemma actionable_pr:
  assumes "fst (pr_is_actionable pe repo pr)"
  shows "\<not> json_truthy pr \<or> (\<exists>m. int_value pr = Some m \<and> pe_pr_state pe m = Pr_Open)"
  using assms by (auto simp: pr_is_actionable_def split: if_splits option.splits)

lemma current_review:
  assumes "review_is_current pe repo ctx pr"
  shows "\<not> json_truthy pr \<or> \<not> json_truthy (ctx_key ctx ''reviewed_sha'')
    \<or> (\<exists>m h. int_value pr = Some m \<and> pe_head pe m = Some h \<and> ctx_key ctx ''reviewed_sha'' = JStr h)"
  using assms by (auto simp: review_is_current_def review_head_status_def Let_def bind_eq_Some_conv split: if_splits option.splits)

text \<open>
  Claim C38: a fix is created only for a request for changes or an actionable test failure. Where a pull request is
  known it is open, and where the review is pinned to a commit as well that commit is the head of the pull request;
  without a pull request, or without a pin, nothing is compared. The branch is none of the default branches, and the
  round follows the parent's within the configured rounds; the queue gains exactly that implement task, on the
  reviewed branch, under the parent's name.
\<close>

theorem fix_only_on_request:
  assumes "auto_enqueue_fix pe repo require still q tid = (Successor i, q')"
  shows "\<exists>t r n bs u. task_of q tid = Some t \<and> get_result q tid = Some r \<and> actionable t r
    \<and> default_branches pe (tk_context t) repo require = Some bs \<and> normalize_branch (JStr (cascade_branch_of t)) \<notin> set bs
    \<and> (\<not> json_truthy (result_pr r (tk_context t))
       \<or> (\<exists>m. int_value (result_pr r (tk_context t)) = Some m \<and> pe_pr_state pe m = Pr_Open
            \<and> (\<not> json_truthy (ctx_key (tk_context t) ''reviewed_sha'')
               \<or> (\<exists>h. pe_head pe m = Some h \<and> ctx_key (tk_context t) ''reviewed_sha'' = JStr h))))
    \<and> fix_round_of (tk_context t) = Some n \<and> n < review_fix_max_rounds pe
    \<and> i = fix_task_id tid (n + 1) \<and> task_of q i = None \<and> q_tasks q' = q_tasks q @ [u] \<and> tk_id u = i
    \<and> tk_type u = ''implement'' \<and> tk_branch u = cascade_branch_of t \<and> tc_prev_task_id (tk_context u) = Some tid
    \<and> ctx_key (tk_context u) ''fix_round'' = JInt (n + 1)"
proof -
  obtain p j where p: "plan_fix pe repo require q tid = Inr p" "\<not> fix_spent p" "i = fix_task_id tid (fp_round p)"
    and e: "enqueue_with_inherited_risk pe (fp_task p) (fix_request pe p) q = (Inr j, q')"
    using fix_cases [OF assms] by metis
  obtain t r n bs where g: "task_of q tid = Some t" "get_result q tid = Some r" "actionable t r"
      "default_branches pe (tk_context t) repo require = Some bs" "normalize_branch (JStr (cascade_branch_of t)) \<notin> set bs"
      "fst (pr_is_actionable pe repo (result_pr r (tk_context t)))"
      "review_is_current pe repo (tk_context t) (result_pr r (tk_context t))" "fix_round_of (tk_context t) = Some n"
      "fp_task p = t" "fp_round p = n + 1" "fp_cap p = max 0 (review_fix_max_rounds pe)"
    using plan_fixD [OF p(1)] by metis
  have tid: "tk_id t = tid" using g(1) by (auto simp: task_of_def dest: row_of_SomeD)
  obtain u where u: "task_of q j = None" "j = rq_id (fix_request pe p)" "q_tasks q' = q_tasks q @ [u]"
      "follows_request (fix_request pe p) u"
    using inherited_row [OF e] by blast
  have row: "tk_id u = i" "tk_type u = ''implement''" "tk_branch u = cascade_branch_of t" "j = i"
    using u(2,4) p(3) by (simp_all add: follows_request_def g tid)
  have ctx: "tc_prev_task_id (tk_context u) = Some tid" "ctx_key (tk_context u) ''fix_round'' = JInt (n + 1)"
    using u(4) by (simp_all add: follows_request_def carries_def fix_context g tid admission_keys_def contract_key_def)
  have n: "n < review_fix_max_rounds pe" using p(2) by (simp add: fix_spent_def g) linarith
  have pr: "\<not> json_truthy (result_pr r (tk_context t))
       \<or> (\<exists>m. int_value (result_pr r (tk_context t)) = Some m \<and> pe_pr_state pe m = Pr_Open
            \<and> (\<not> json_truthy (ctx_key (tk_context t) ''reviewed_sha'')
               \<or> (\<exists>h. pe_head pe m = Some h \<and> ctx_key (tk_context t) ''reviewed_sha'' = JStr h)))"
    using actionable_pr [OF g(6)] current_review [OF g(7)] by auto
  show ?thesis
    by (intro exI conjI, fact g(1), fact g(2), fact g(3), fact g(4), fact g(5), fact pr, fact g(8), fact n)
      (use p(3) u(1,3) row ctx in \<open>simp_all add: g\<close>)
qed

section \<open>A sample pipeline\<close>

definition sample_cascade :: cascade_env where
  "sample_cascade =
     \<lparr>pe_dp = sample_deployment ENFORCE, pe_clock = 5000, pe_pauses = calm, pe_admission = (\<lambda>r. sample_admission),
      pe_receipt = (\<lambda>r. sample_receipt ISSUED REVIEW), pe_server_project = ''crew'', pe_identity = ''crew'', pe_cwd = [],
      pe_cwd_repo = [], pe_env_main = None, pe_env_fix_rounds = None, pe_env_review_rounds = (\<lambda>p. None),
      pe_pr_state = (\<lambda>n. Pr_Open), pe_closer = (\<lambda>n. None), pe_head = (\<lambda>n. Some ''head''), pe_origin_head = Exited False [],
      pe_remote_default = (\<lambda>r. ''main''), pe_pr_for_branch = (\<lambda>b r. None), pe_agent_of = (\<lambda>t. None), pe_reviewer = [],
      pe_pane_agent = (\<lambda>r. None), pe_baseline = (\<lambda>r. ''codex''), pe_delivered = True, pe_comment_seen = (\<lambda>n. Some False),
      pe_comment_posts = (\<lambda>n. True), pe_token = ''k''\<rparr>"

lemma sample_cascade_simps [simp]:
  "pe_dp sample_cascade = sample_deployment ENFORCE" "pe_clock sample_cascade = 5000" "pe_pauses sample_cascade = calm"
  "pe_admission sample_cascade rq = sample_admission" "pe_receipt sample_cascade rq = sample_receipt ISSUED REVIEW"
  "pe_server_project sample_cascade = ''crew''" "pe_cwd sample_cascade = []" "pe_env_main sample_cascade = None"
  "pe_env_fix_rounds sample_cascade = None" "pe_env_review_rounds sample_cascade p = None" "pe_pr_state sample_cascade n = Pr_Open"
  "pe_head sample_cascade n = Some ''head''" "pe_remote_default sample_cascade r = ''main''" "pe_pane_agent sample_cascade r = None"
  "pe_reviewer sample_cascade = []"
  by (simp_all add: sample_cascade_def)

text \<open>A fresh request enters; a review or test where no other stands.\<close>

lemma sample_enters:
  assumes "q_switch q = sample_switch ACTIVE" and "task_of q (rq_id rq) = None" and "tc_external_operation_id (rq_context rq) = None"
    and "\<forall>u \<in> set (q_tasks q). rq_type rq \<in> {''review'', ''test''} \<longrightarrow> tk_type u \<noteq> rq_type rq \<or> tk_status u = Failed"
  shows "\<exists>q'. enqueue_with_receipt (sample_deployment ENFORCE) 5000 calm sample_admission q rq (sample_receipt ISSUED REVIEW)
    = (Inr (rq_id rq), q')"
proof -
  let ?r = "sample_receipt ISSUED REVIEW"
  let ?g = "enqueue_gate (sample_deployment ENFORCE) 5000 sample_admission rq ?r"
  have go: "go_proceed ?g" "\<not> owner_conflict ?g ?r" by (simp_all add: sample_enqueue_gate owner_conflict_def)
  obtain c where c: "decide_contract False (rq_description rq) (rq_context rq) (Some ?r) = Some c"
    by (simp add: decide_contract_def)
  let ?ctx = "admitted_context sample_admission rq ?r ?g c"
  have op: "tc_external_operation_id ?ctx = None"
    using assms(3) go by (simp add: admitted_context_def Let_def set_key_def)
  have none: "filter (standing (rq\<lparr>rq_context := ?ctx\<rparr>)) (q_tasks q) = []" if "rq_type rq \<in> {''review'', ''test''}"
    using assms(4) that by (auto simp: filter_empty_conv standing_def)
  have dup: "duplicate_review q (rq\<lparr>rq_context := ?ctx\<rparr>) False (Some (5000, 3600)) (resolved_head sample_admission rq) [] = (None, [])"
    using none by (auto simp: duplicate_review_def)
  let ?p = "admission_log 5000 sample_admission rq None [] (q\<lparr>q_switch := sample_switch ACTIVE\<rparr>)"
  have "task_of ?p (rq_id rq) = None" using assms(2) by (simp add: task_of_def admission_log_tasks)
  then obtain q' where "insert_row (sample_deployment ENFORCE) 5000 sample_admission rq ?r ?g ?ctx ?p = (Inr (rq_id rq), q')"
    using op by (simp add: insert_row_def bind_new_task_def)
  then show ?thesis
    using c go dup by (auto simp: enqueue_with_receipt_def Let_def assms(1) calm_open)
qed

lemma sample_successor:
  assumes "q_switch q = sample_switch ACTIVE" and "task_of q (rq_id rq) = None" and "tc_external_operation_id (rq_context rq) = None"
    and "\<forall>u \<in> set (q_tasks q). rq_type rq \<in> {''review'', ''test''} \<longrightarrow> tk_type u \<noteq> rq_type rq \<or> tk_status u = Failed" and "ctx_key (rq_context rq) ''risk_tier'' = JInt 1"
  shows "\<exists>q'. enqueue_successor sample_cascade rq q = (Inr (rq_id rq), q')"
proof -
  have keeps: "tc_external_operation_id (set_key k v c) = tc_external_operation_id c" for k v c by (simp add: set_key_def)
  have tier: "ctx_key (enqueue_context (rq_context rq)) ''risk_tier'' = JInt 1"
    by (simp add: enqueue_context_def ctx_key_set_key ctx_key_without assms(5) split: option.split)
  have op: "tc_external_operation_id (canonical_pr (enqueue_context (rq_context rq))) = None"
    using assms(3) by (simp add: canonical_pr_def enqueue_context_def without_keys_def keeps split: option.split)
  have t: "trusted_context q (rq_context rq) = enqueue_context (rq_context rq)"
    by (simp add: trusted_context_def tier valid_tier_def)
  show ?thesis
    using sample_enters [of q "rq\<lparr>rq_context := canonical_pr (enqueue_context (rq_context rq))\<rparr>"] assms op tier
    by (simp add: enqueue_successor_def Let_def t valid_tier_def)
qed

lemma sample_inherited:
  assumes "q_switch q = sample_switch ACTIVE" and "task_of q (rq_id rq) = None" and "tc_external_operation_id (rq_context rq) = None"
    and "\<forall>u \<in> set (q_tasks q). rq_type rq \<in> {''review'', ''test''} \<longrightarrow> tk_type u \<noteq> rq_type rq \<or> tk_status u = Failed"
    and "ctx_key (inherited_context q t (rq_context rq)) ''risk_tier'' = JInt 1"
  shows "\<exists>q'. enqueue_with_inherited_risk sample_cascade t rq q = (Inr (rq_id rq), q')"
proof -
  have "tc_external_operation_id (set_key k v c) = tc_external_operation_id c" for k v c by (simp add: set_key_def)
  then have "tc_external_operation_id (inherited_context q t (rq_context rq)) = None"
    using assms(3) by (simp add: inherited_context_def split: option.split)
  then show ?thesis
    using sample_successor [of q "rq\<lparr>rq_context := inherited_context q t (rq_context rq)\<rparr>"] assms
    by (auto simp: enqueue_with_inherited_risk_def Let_def)
qed

text \<open>A review that asks for changes, of a first implementation.\<close>

definition sample_reviewed :: task_row where
  "sample_reviewed = (sample_task ''r1'' ''review'' Completed)
     \<lparr>tk_verdict := Some ''request_changes'', tk_findings := [''x''], tk_context := set_key ''risk_tier'' (JInt 1) blank_context\<rparr>"

definition reviewed_queue :: queue where
  "reviewed_queue = sample_queue [sample_reviewed]"

lemma sample_reviewed_simps [simp]:
  "tk_id sample_reviewed = ''r1''" "tk_type sample_reviewed = ''review''" "tk_status sample_reviewed = Completed"
  "tk_verdict sample_reviewed = Some ''request_changes''" "tk_findings sample_reviewed = [''x'']" "tk_branch sample_reviewed = ''b''"
  "tk_project sample_reviewed = ''crew''" "tk_pr_number sample_reviewed = None" "tk_summary sample_reviewed = None"
  "tk_context sample_reviewed = set_key ''risk_tier'' (JInt 1) blank_context" "tk_error_info sample_reviewed = None"
  by (simp_all add: sample_reviewed_def sample_task_def)

lemma reviewed_queue_simps [simp]:
  "task_of reviewed_queue ''r1'' = Some sample_reviewed" "q_tasks reviewed_queue = [sample_reviewed]"
  "q_switch reviewed_queue = sample_switch ACTIVE"
  by (simp_all add: reviewed_queue_def task_of_def)

lemma blank_key [simp]: "ctx_key blank_context k = JNull" "\<not> has_key blank_context k"
  by (simp_all add: ctx_key_def blank_context_def has_key_def)

lemma plain_branches:
  "normalize_branch (JStr ''main'') = ''main''" "normalize_branch (JStr ''b'') = ''b''" "normalize_branch JNull = []"
  "normalize_branch (JStr []) = []"
  by code_simp+

lemma sample_plan: "plan_fix sample_cascade [] False reviewed_queue ''r1'' = Inr
     \<lparr>fp_task = sample_reviewed, fp_result = row_result sample_reviewed, fp_pr = JNull, fp_round = 1, fp_cap = 3\<rparr>"
proof -
  have r: "get_result reviewed_queue ''r1'' = Some (row_result sample_reviewed)" by (simp add: get_result_def)
  have a: "actionable sample_reviewed (row_result sample_reviewed)"
    by (simp add: actionable_def is_test_def row_result_def resolve_verdict_def final_verdicts_def)
  have k: "ctx_key (tk_context sample_reviewed) j = (if j = ''risk_tier'' then JInt 1 else JNull)"
    "has_key (tk_context sample_reviewed) ''fix_round'' = False" for j
    by (simp_all add: ctx_key_set_key)
  have pr: "result_pr (row_result sample_reviewed) (tk_context sample_reviewed) = JNull"
    by (simp add: result_pr_def row_result_def ctx_key_set_key)
  have b: "default_branches sample_cascade (tk_context sample_reviewed) [] False = Some [''main'']"
    "cascade_branch_of sample_reviewed = ''b''"
    using k by (simp_all add: default_branches_def Let_def text_json_def plain_branches cascade_branch_of_def lineage_from_def)
  have c: "review_is_current sample_cascade [] (tk_context sample_reviewed) JNull"
    using k by (simp add: review_is_current_def review_head_status_def)
  have n: "fix_round_of (tk_context sample_reviewed) = Some 0" using k(2) by (simp add: fix_round_of_def)
  have m: "review_fix_max_rounds sample_cascade = 3" by (simp add: review_fix_max_rounds_def default_review_fix_max_rounds_def)
  have skip: "skip_terminal_pr sample_cascade ''fix'' ''r1'' JNull [] reviewed_queue = (False, reviewed_queue)"
    by (simp add: skip_terminal_pr_def pr_is_actionable_def)
  have o: "\<not> other_project sample_cascade sample_reviewed" "\<not> json_truthy (ctx_key (tk_context sample_reviewed) ''findings_only'')"
    using k by (simp_all add: other_project_def)
  show ?thesis
    unfolding plan_fix_def r reviewed_queue_simps(1) prod.case option.case Let_def pr b plain_branches skip n m
    using a c o by (simp add: fix_round_cap_def)
qed

definition fixed_queue :: queue where
  "fixed_queue = snd (auto_enqueue_fix sample_cascade [] False False reviewed_queue ''r1'')"

lemma sample_fix: "auto_enqueue_fix sample_cascade [] False False reviewed_queue ''r1'' = (Successor (fix_task_id ''r1'' 1), fixed_queue)"
proof -
  let ?p = "\<lparr>fp_task = sample_reviewed, fp_result = row_result sample_reviewed, fp_pr = JNull, fp_round = 1, fp_cap = 3\<rparr>"
  have fresh: "task_of reviewed_queue (fix_task_id ''r1'' n) = None" for n by (simp add: task_of_def fix_task_id_def)
  have n: "\<not> nothing_to_fix ?p"
  proof -
    have "fix_findings sample_reviewed (row_result sample_reviewed) = [''x'']"
      by (simp add: fix_findings_def is_test_def row_result_def)
    moreover have "findings_block [''x''] ''r1'' \<noteq> []" by code_simp
    ultimately show ?thesis by (simp add: nothing_to_fix_def)
  qed
  have op: "tc_external_operation_id (rq_context (fix_request sample_cascade ?p)) = None"
  proof -
    have "\<not> ctx_has (tk_context sample_reviewed) ''external_operation_id''"
      by (simp add: ctx_has_def ctx_get_def set_key_def has_key_def blank_context_def json_text_opt_def)
    moreover have "''external_operation_id'' \<notin> fst ` set (fix_notes sample_cascade ?p)"
      using fix_notes_keys [of sample_cascade ?p] by auto
    ultimately show ?thesis
      unfolding fix_context_eq by (simp add: op_carry op_puts_other) (simp add: empty_context_def)
  qed
  have stem: "lineage_root reviewed_queue [''r1''] sample_reviewed = sample_reviewed"
    by (simp add: lineage_root.simps blank_context_def)
  have "\<exists>q'. enqueue_with_inherited_risk sample_cascade sample_reviewed (fix_request sample_cascade ?p) reviewed_queue
      = (Inr (rq_id (fix_request sample_cascade ?p)), q')"
    by (rule sample_inherited) (simp_all add: fresh op stem inherited_context_def ctx_key_set_key valid_tier_def)
  then show ?thesis
    unfolding fixed_queue_def by (auto simp: auto_enqueue_fix_def sample_plan fix_spent_def n fresh)
qed

theorem fix_only_on_request_witness:
  "\<exists>u. q_tasks fixed_queue = [sample_reviewed, u] \<and> tk_type u = ''implement'' \<and> ctx_key (tk_context u) ''fix_round'' = JInt 1"
proof -
  have "fix_round_of (tk_context sample_reviewed) = Some 0"
    by (simp add: fix_round_of_def set_key_def has_key_def blank_context_def)
  with fix_only_on_request [OF sample_fix] show ?thesis by auto
qed

end
