(* ===== verification/Stage_Safety.thy ===== *)
theory Stage_Safety
  imports Pipeline_Safety Merge_Safety
begin

text \<open>
  The other successors: the retry of a failed task, the test of an approved review, the review at a moved head,
  and the gate that holds tier three work.
\<close>

section \<open>The retry\<close>

lemma retry_keys:
  "ctx_key (retry_context t n) ''retry_attempt'' = JInt n"
  by (simp add: retry_context_def ctx_key_put own_keys_def)

lemma retry_request_simps [simp]:
  "rq_id (retry_request se t ty n) = retry_id (tk_id t) n" "rq_type (retry_request se t ty n) = ty"
  "rq_branch (retry_request se t ty n) = tk_branch t" "rq_priority (retry_request se t ty n) = tk_priority t + 1"
  "rq_context (retry_request se t ty n) = retry_context t n"
  by (simp_all add: retry_request_def Let_def)

lemma retry_cases:
  assumes "auto_retry_failed_task se q gs tid r ty = (Retried i, q', gs')"
  obtains t n where "task_of q tid = Some t" "\<not> work_is_pushed se t ty r" "\<not> no_retry_kind t ty r"
    "attempts_made (tk_context t) = Some n" "n < max_task_retries" "valid_request (retry_request se t ty (n + 1))"
    "i = retry_id tid (n + 1)" "gs' = gs"
    "(\<exists>j q1. enqueue_successor (se_cascade se) (retry_request se t ty (n + 1)) q = (Inr j, q1)
        \<and> q' = note_retry_facts t (retry_request se t ty (n + 1)) q1)
     \<or> (\<exists>st. enqueue_successor (se_cascade se) (retry_request se t ty (n + 1)) q = (Inl (Already_Exists st), q'))"
proof -
  obtain t where t: "task_of q tid = Some t" using assms by (auto simp: auto_retry_failed_task_def split: option.splits)
  have id: "tk_id t = tid" using t by (auto simp: task_of_def dest: row_of_SomeD)
  have g: "\<not> work_is_pushed se t ty r" "\<not> no_retry_kind t ty r"
    using assms t by (auto simp: auto_retry_failed_task_def split: if_splits)
  obtain n where n: "attempts_made (tk_context t) = Some n"
    using assms t g by (auto simp: auto_retry_failed_task_def split: option.splits)
  have low: "n < max_task_retries" and dead: "review_dead_end se t ty q = None"
    using assms t g n by (auto simp: auto_retry_failed_task_def split: if_splits option.splits)
  let ?rq = "retry_request se t ty (n + 1)"
  have v: "valid_request ?rq"
    using assms t g n low dead by (auto simp: auto_retry_failed_task_def Let_def split: if_splits)
  obtain x q1 where e: "enqueue_successor (se_cascade se) ?rq q = (x, q1)" by fastforce
  have "i = retry_id tid (n + 1) \<and> gs' = gs
      \<and> ((\<exists>j. x = Inr j \<and> q' = note_retry_facts t ?rq q1) \<or> (\<exists>st. x = Inl (Already_Exists st) \<and> q' = q1))"
    using assms t g n low dead v e
    by (auto simp: auto_retry_failed_task_def Let_def id split: if_splits sum.splits enqueue_error.splits)
  with that t g n low v e show ?thesis by blast
qed


section \<open>Replaying a fix\<close>

lemma skip_open: "fst (pr_is_actionable pe repo pr) \<Longrightarrow> skip_terminal_pr pe stage tid pr repo q = (False, q)"
  by (cases "pr_is_actionable pe repo pr") (simp add: skip_terminal_pr_def)

lemma contract_added:
  assumes "q_tasks q' = q_tasks q @ [u]" and "task_of q (tk_id u) = None" and "tk_type u \<noteq> ''review''"
  shows "review_cascade_contract q' t = review_cascade_contract q t"
  using assms(3) by (simp add: review_cascade_contract_def row_added [OF assms(1,2)] assms(2) Let_def split: json.split)

text \<open>
  A fix is created once: the same result continued again, with the pull request still open, finds the
  fix under its computed identifier and leaves the whole queue as it is.
\<close>

theorem replayed_fix_adds_nothing:
  assumes "auto_enqueue_fix pe repo require still q tid = (Successor i, q')"
  shows "auto_enqueue_fix pe repo require still q' tid = (No_Successor, q')"
proof -
  obtain p j where p: "plan_fix pe repo require q tid = Inr p" "\<not> fix_spent p" "i = fix_task_id tid (fp_round p)"
    and e: "enqueue_with_inherited_risk pe (fp_task p) (fix_request pe p) q = (Inr j, q')"
    using fix_cases [OF assms] by metis
  obtain t r n bs where g: "task_of q tid = Some t" "get_result q tid = Some r" "actionable t r"
      "default_branches pe (tk_context t) repo require = Some bs" "normalize_branch (JStr (cascade_branch_of t)) \<notin> set bs"
      "fst (pr_is_actionable pe repo (result_pr r (tk_context t)))"
      "review_is_current pe repo (tk_context t) (result_pr r (tk_context t))" "fix_round_of (tk_context t) = Some n" "fp_task p = t"
    using plan_fixD [OF p(1)] by metis
  have tid: "tk_id t = tid" using g(1) by (auto simp: task_of_def dest: row_of_SomeD)
  obtain u where u: "j = rq_id (fix_request pe p)" "task_of q j = None" "q_tasks q' = q_tasks q @ [u]"
      "follows_request (fix_request pe p) u"
    using inherited_row [OF e] by blast
  have row: "tk_id u = i" "tk_type u \<noteq> ''review''" "task_of q (tk_id u) = None" "i \<noteq> tid"
    using u(1,2,4) p(3) g(1) by (auto simp: follows_request_def g(9) tid)
  have same: "task_of q' tid = Some t" "get_result q' tid = Some r" "task_of q' i = Some u"
    using g(1,2) row by (simp_all add: row_added [OF u(3) row(3)] get_result_def)
  have skip: "skip_terminal_pr pe ''fix'' tid (result_pr r (tk_context t)) repo x = (False, x)" for x
    using g(6) by (rule skip_open)
  have "plan_fix pe repo require q' tid = plan_fix pe repo require q tid"
    using g p(1) by (simp add: plan_fix_def same Let_def skip contract_added [OF u(3) row(3,2)] split: if_splits)
  then show ?thesis
    using p same(3) by (simp add: auto_enqueue_fix_def)
qed

section \<open>The gate of tier three\<close>

lemma gate_append: "gate_of gs j = Some g \<Longrightarrow> gate_of (gs @ hs) j = Some g"
  by (simp add: gate_of_def row_of_append)

lemma hold_keeps: "gate_of gs j = Some g \<Longrightarrow> gate_of (hold_at_gate clock kind tid gs) j = Some g"
  by (auto simp: hold_at_gate_def create_gate_def gate_append split: option.split)

lemma hold_exists: "gate_of (hold_at_gate clock kind tid gs) (tier3_gate_id kind tid) \<noteq> None"
  by (auto simp: hold_at_gate_def create_gate_def gate_of_def row_of_append split: option.splits)

lemma hold_pending:
  "gate_of gs (tier3_gate_id kind tid) = None \<Longrightarrow>
     map_option gt_status (gate_of (hold_at_gate clock kind tid gs) (tier3_gate_id kind tid)) = Some Gate_Pending"
  by (simp add: hold_at_gate_def create_gate_def gate_of_def row_of_append)

lemma review_gates: "snd (snd (auto_enqueue_review pe reported p q gs tid)) \<in> {gs, hold_at_gate (pe_clock pe) ''review'' tid gs}"
  by (auto simp: auto_enqueue_review_def Let_def split: option.split prod.split bool.split)

lemma test_gates: "snd (snd (auto_enqueue_test pe repo q gs tid)) \<in> {gs, hold_at_gate (pe_clock pe) ''test'' tid gs}"
  by (auto simp: auto_enqueue_test_def Let_def split: option.split prod.split bool.split sum.split enqueue_error.split)

text \<open>
  Claim C39: work whose enforced contract requires a human, and whose row carries no approval, gets neither a
  review nor a test: the stage leaves the queue as it is and a gate for the row exists afterwards, pending when
  it was not there; the gates that stood before stand unchanged.
\<close>

theorem tier3_waits_for_gate:
  assumes "task_of q tid = Some t"
  shows "(held_at_gate (stored_contract (tk_context t)) (tk_context t) \<longrightarrow>
      (\<exists>gs'. auto_enqueue_review pe reported p q gs tid = (No_Successor, q, gs') \<and> gate_of gs' (tier3_gate_id ''review'' tid) \<noteq> None
         \<and> (gate_of gs (tier3_gate_id ''review'' tid) = None \<longrightarrow>
              map_option gt_status (gate_of gs' (tier3_gate_id ''review'' tid)) = Some Gate_Pending)
         \<and> (\<forall>j g. gate_of gs j = Some g \<longrightarrow> gate_of gs' j = Some g)))
    \<and> (held_at_gate (review_cascade_contract q t) (tk_context t) \<longrightarrow>
      (\<exists>gs'. auto_enqueue_test pe repo q gs tid = (No_Successor, q, gs')
         \<and> (map_option resolve_verdict (get_result q tid) = Some Approve \<longrightarrow> gate_of gs' (tier3_gate_id ''test'' tid) \<noteq> None)
         \<and> (\<forall>j g. gate_of gs j = Some g \<longrightarrow> gate_of gs' j = Some g)))"
proof (intro conjI impI)
  assume "held_at_gate (stored_contract (tk_context t)) (tk_context t)"
  then have "auto_enqueue_review pe reported p q gs tid = (No_Successor, q, hold_at_gate (pe_clock pe) ''review'' tid gs)"
    by (simp add: auto_enqueue_review_def assms Let_def)
  then show "\<exists>gs'. auto_enqueue_review pe reported p q gs tid = (No_Successor, q, gs') \<and> gate_of gs' (tier3_gate_id ''review'' tid) \<noteq> None
      \<and> (gate_of gs (tier3_gate_id ''review'' tid) = None \<longrightarrow>
           map_option gt_status (gate_of gs' (tier3_gate_id ''review'' tid)) = Some Gate_Pending)
      \<and> (\<forall>j g. gate_of gs j = Some g \<longrightarrow> gate_of gs' j = Some g)"
    by (intro exI conjI impI allI) (assumption | rule hold_exists hold_pending hold_keeps)+
next
  assume held: "held_at_gate (review_cascade_contract q t) (tk_context t)"
  show "\<exists>gs'. auto_enqueue_test pe repo q gs tid = (No_Successor, q, gs')
      \<and> (map_option resolve_verdict (get_result q tid) = Some Approve \<longrightarrow> gate_of gs' (tier3_gate_id ''test'' tid) \<noteq> None)
      \<and> (\<forall>j g. gate_of gs j = Some g \<longrightarrow> gate_of gs' j = Some g)"
  proof (cases "map_option resolve_verdict (get_result q tid) = Some Approve")
    case True
    then have "auto_enqueue_test pe repo q gs tid = (No_Successor, q, hold_at_gate (pe_clock pe) ''test'' tid gs)"
      using held by (auto simp: auto_enqueue_test_def assms Let_def)
    then show ?thesis by (intro exI conjI impI allI) (assumption | rule hold_exists hold_keeps)+
  next
    case False
    then have "auto_enqueue_test pe repo q gs tid = (No_Successor, q, gs)"
      by (auto simp: auto_enqueue_test_def assms Let_def split: option.split)
    with False show ?thesis by blast
  qed
qed

lemma gate_of_map: "(\<And>h. gt_id (f h) = gt_id h) \<Longrightarrow> gate_of (map f gs) j = map_option f (gate_of gs j)"
  by (simp add: gate_of_def row_of_map_upd)

lemma resolve_gateD:
  assumes "resolve_gate i approved gs = Inr gs1"
  shows "\<exists>g. gate_of gs i = Some g \<and> gt_status g = Gate_Pending
    \<and> gate_of gs1 i = Some (g\<lparr>gt_status := if approved then Gate_Approved else Gate_Rejected\<rparr>)"
proof -
  obtain g where g: "gate_of gs i = Some g" "gt_status g = Gate_Pending"
    using assms by (auto simp: resolve_gate_def split: option.splits if_splits)
  then have "gt_id g = i" by (auto simp: gate_of_def dest: row_of_SomeD)
  with assms g show ?thesis by (auto simp: resolve_gate_def gate_of_map)
qed

lemma stages_keep:
  assumes "gate_of gs j = Some g"
  shows "gate_of (snd (snd (auto_enqueue_review pe reported p q gs tid))) j = Some g"
    and "gate_of (snd (snd (auto_enqueue_test pe repo q gs tid))) j = Some g"
  using review_gates [of pe reported p q gs tid] test_gates [of pe repo q gs tid] assms hold_keeps [OF assms] by auto

lemma resume_keeps:
  assumes "gate_of gs j = Some g" shows "gate_of (snd (snd (resume_tier3_gate pe q gs i))) j = Some g"
  unfolding resume_tier3_gate_def Let_def using assms by (simp add: stages_keep split: option.split)

text \<open>
  A gate is answered once: the answer is taken only while the gate is pending, it stays what the human
  said, a second answer of either kind is refused and changes nothing, and a rejection continues nothing.
\<close>

theorem gate_answered_once:
  assumes "answer_gate pe q gs i approved = (Inr out, q', gs')"
  shows "map_option gt_status (gate_of gs i) = Some Gate_Pending
    \<and> map_option gt_status (gate_of gs' i) = Some (if approved then Gate_Approved else Gate_Rejected)
    \<and> answer_gate pe2 q2 gs' i again = (Inl Gate_Resolved, q2, gs')
    \<and> (\<not> approved \<longrightarrow> out = No_Successor \<and> q' = q)"
proof -
  obtain gs1 where r: "resolve_gate i approved gs = Inr gs1"
    using assms by (auto simp: answer_gate_def split: sum.splits)
  obtain g where g: "gate_of gs i = Some g" "gt_status g = Gate_Pending"
      "gate_of gs1 i = Some (g\<lparr>gt_status := if approved then Gate_Approved else Gate_Rejected\<rparr>)"
    using resolve_gateD [OF r] by blast
  have "gate_of gs' i = Some (g\<lparr>gt_status := if approved then Gate_Approved else Gate_Rejected\<rparr>)"
    using assms r g(3) resume_keeps [OF g(3), of pe q i] by (auto simp: answer_gate_def split: if_splits prod.splits)
  with g assms r show ?thesis
    by (auto simp: answer_gate_def resolve_gate_def split: if_splits)
qed

section \<open>Samples\<close>

theorem replayed_fix_adds_nothing_witness:
  "auto_enqueue_fix sample_cascade [] False False fixed_queue ''r1'' = (No_Successor, fixed_queue)"
  by (rule replayed_fix_adds_nothing [OF sample_fix])

definition sample_stage :: stage_env where
  "sample_stage =
     \<lparr>se_cascade = sample_cascade, se_identity = ''crew'', se_reviewer_cwd = [], se_reviewer_repo = [],
      se_review_seen = (\<lambda>t. Some False), se_review_posts = (\<lambda>t. True), se_work_repo = (\<lambda>t. []), se_branch_head = (\<lambda>b. []),
      se_branch_has_pr = (\<lambda>b. None), se_auto_rebase = True, se_github = (\<lambda>n. sample_github True),
      se_left_to_coordinator = False\<rparr>"

lemma sample_stage_cascade [simp]: "se_cascade sample_stage = sample_cascade"
  by (simp add: sample_stage_def)

definition failed_work :: task_row where
  "failed_work = (sample_task ''t1'' ''implement'' Failed)\<lparr>tk_context := set_key ''risk_tier'' (JInt 1) blank_context\<rparr>"

definition failed_result :: work_result where
  "failed_result =
     \<lparr>tr_task_id = ''t1'', tr_status = Failed, tr_summary = ''s'', tr_verdict = None, tr_findings = [], tr_pr_number = None,
      tr_commit = [], tr_error_info = Some (JObj [(''kind'', JStr ''transient'')]), tr_json = [], tr_branch = [],
      tr_artifact = None\<rparr>"

lemma failed_work_simps [simp]:
  "tk_id failed_work = ''t1''" "tk_type failed_work = ''implement''" "tk_priority failed_work = 3" "tk_branch failed_work = ''b''"
  "tk_context failed_work = set_key ''risk_tier'' (JInt 1) blank_context"
  by (simp_all add: failed_work_def sample_task_def)

lemma sample_retried: "\<exists>q'. auto_retry_failed_task sample_stage (sample_queue [failed_work]) [] ''t1'' failed_result ''implement''
    = (Retried (retry_id ''t1'' 1), q', [])"
proof -
  let ?q = "sample_queue [failed_work]" and ?rq = "retry_request sample_stage failed_work ''implement'' 1"
  have t: "task_of ?q ''t1'' = Some failed_work" by (simp add: task_of_def)
  have k: "failure_kind (tr_error_info failed_result) = Some ''transient''"
    by (simp add: failed_result_def failure_kind_def failure_kinds_def json_of_def)
  have a: "\<not> work_is_pushed sample_stage failed_work ''implement'' failed_result" "\<not> no_retry_kind failed_work ''implement'' failed_result"
    by (simp_all add: work_is_pushed_def no_retry_kind_def k retryable_kinds_def) (simp add: failed_result_def)
  have plain: "has_key (tk_context failed_work) k \<Longrightarrow> k = ''risk_tier''" for k
    by (simp add: has_key_def set_key_def blank_context_def)
  have n: "attempts_made (set_key ''risk_tier'' (JInt 1) blank_context) = Some 0"
    using plain [of "''retry_attempt''"] by (auto simp: attempts_made_def)
  have ctx: "rq_context ?rq = retry_context failed_work 1" by simp
  let ?c = "without_keys [''risk_declaration'', ''risk_tier_shadow'', ''result_branch'', ''result_commit''] (successor_context (tk_context failed_work))"
  have base: "tc_more ?c = [(''risk_tier'', JInt 1)]" "tc_external_operation_id ?c = None"
    by (simp_all add: without_keys_def successor_context_def set_key_def blank_context_def)
  have more: "fst ` set (tc_more (retry_context failed_work 1)) = {''retry_of'', ''retry_attempt'', ''lineage_root_task_id'', ''risk_tier''}"
    "ctx_key (retry_context failed_work 1) ''risk_tier'' = JInt 1" "tc_external_operation_id (retry_context failed_work 1) = None"
    using base by (simp_all add: retry_context_def ctx_put_def set_key_def) (simp_all add: ctx_key_def base)
  have v: "valid_request ?rq" "valid_local_inputs (retry_context failed_work 1)"
    using more(1) by (simp_all add: valid_request_def valid_local_inputs_def fix_round_of_def has_key_def)
  obtain q1 where "enqueue_successor sample_cascade ?rq ?q = (Inr (rq_id ?rq), q1)"
    using sample_successor [of ?q ?rq] more(2,3) by (auto simp: task_of_def retry_id_def)
  then show ?thesis
    using a v by (simp add: auto_retry_failed_task_def t n max_task_retries_def review_dead_end_def Let_def)
qed


text \<open>A row under an enforced contract of tier three.\<close>

definition tier3_contract :: cascade_contract where
  "tier3_contract = floor_contract\<lparr>cc_enforced := True, cc_tier := Some 3, cc_human_gate_required := True\<rparr>"

definition tier3_work :: task_row where
  "tier3_work = (sample_task ''t1'' ''implement'' Completed)
     \<lparr>tk_context := set_key contract_key (as_record tier3_contract) (set_key ''risk_tier'' (JInt 3) blank_context)\<rparr>"

lemma tier3_held: "held_at_gate (stored_contract (tk_context tier3_work)) (tk_context tier3_work)"
proof -
  obtain kvs where kvs: "as_record tier3_contract = JObj kvs" by (simp add: as_record_def)
  have "stored_contract (tk_context tier3_work) = tier3_contract\<lparr>cc_source := ''admission''\<rparr>"
    using from_as_record [OF kvs] by (simp add: stored_contract_def tier3_work_def ctx_key_set_key kvs)
  then show ?thesis
    by (simp add: held_at_gate_def tier3_contract_def) (simp add: tier3_work_def ctx_key_set_key contract_key_def)
qed

theorem tier3_waits_for_gate_witness:
  "\<exists>gs'. auto_enqueue_review sample_cascade None ([], []) (sample_queue [tier3_work]) [] ''t1''
     = (No_Successor, sample_queue [tier3_work], gs') \<and> gate_of gs' (tier3_gate_id ''review'' ''t1'') \<noteq> None"
proof -
  have "task_of (sample_queue [tier3_work]) ''t1'' = Some tier3_work" by (simp add: task_of_def tier3_work_def sample_task_def)
  from tier3_waits_for_gate [OF this, where pe = sample_cascade and p = "([], [])" and reported = None and gs = "[]"] tier3_held
  show ?thesis by blast
qed

definition review_gate :: gate_row where
  "review_gate = \<lparr>gt_id = tier3_gate_id ''review'' ''t1'', gt_type = ''approval'', gt_message = [], gt_kind = ''review'',
     gt_target = ''t1'', gt_status = Gate_Pending, gt_created_at = 0\<rparr>"

theorem gate_answered_once_witness:
  "\<exists>gs'. answer_gate sample_cascade (sample_queue []) gs' (gt_id review_gate) True = (Inl Gate_Resolved, sample_queue [], gs')"
proof -
  obtain out q' gs' where a: "answer_gate sample_cascade (sample_queue []) [review_gate] (gt_id review_gate) False = (Inr out, q', gs')"
    by (simp add: answer_gate_def resolve_gate_def gate_of_def review_gate_def)
  from gate_answered_once [OF a, of sample_cascade "sample_queue []" True] show ?thesis by blast
qed

end
