(* ===== verification/Round_Safety.thy ===== *)
theory Round_Safety
  imports Stage_Safety
begin

text \<open>
  The round as a whole: reviews that lose their commit on the way, verdicts about a head that moved, and the
  differences between the two doors.
\<close>

section \<open>The review at a moved head\<close>

lemma cap_free: "review_round_cap pe q t i provider head = (None, q1) \<Longrightarrow> q1 = q"
  by (auto simp: review_round_cap_def Let_def split: option.splits if_splits)

lemma requeue_keys:
  "ctx_key (requeue_context tid pr head ctx) ''fix_round'' = JNull"
proof -
  let ?more = "[(''pr_number'', JInt pr), (''superseded_review'', JStr tid), (''expected_head_sha'', JStr head), (''prev_task_id'', JStr tid)]"
  have "''fix_round'' \<notin> fst ` set (kept_keys ctx requeued_keys)"
    using kept_keys_keys [of ctx requeued_keys] by (auto simp: requeued_keys_def)
  moreover have "''fix_round'' \<notin> fst ` set (tier_put ctx)" using tier_put_keys [of ctx] by auto
  ultimately have "''fix_round'' \<notin> fst ` set (kept_keys ctx requeued_keys @ ?more @ tier_put ctx)" by auto
  from ctx_key_puts_other [OF _ this, of empty_context] show ?thesis
    by (simp add: requeue_context_def own_keys_def) (simp add: empty_context_def ctx_key_def)
qed

lemma requeue_row:
  assumes "requeue_review_at_head pe project q tid pr head ctx = (Successor i, q')" and "task_of q i = None"
  shows "\<exists>u. q_tasks q' = q_tasks q @ [u] \<and> follows_request (requeue_request project tid pr head ctx) u
    \<and> i = rq_id (requeue_request project tid pr head ctx)"
proof -
  let ?rq = "requeue_request project tid pr head ctx"
  have id: "rq_id ?rq = stale_review_task_id pr head" by (simp add: requeue_request_def)
  obtain t where t: "task_of q tid = Some t"
    using assms(1) by (auto simp: requeue_review_at_head_def split: option.splits)
  obtain c q1 where c: "review_round_cap pe q t (stale_review_task_id pr head) (requeue_provider pe tid ctx) (JStr head) = (c, q1)"
    by fastforce
  have "c = None" using assms(1) t c by (cases c) (auto simp: requeue_review_at_head_def Let_def split: if_splits)
  with c have q1: "q1 = q" "c = None" using cap_free by auto
  obtain x q2 where e: "enqueue_successor pe ?rq q = (x, q2)" by fastforce
  have "i = stale_review_task_id pr head \<and> q' = q2 \<and> ((\<exists>j. x = Inr j) \<or> (\<exists>st. x = Inl (Already_Exists st)))"
    using assms(1) t c q1 e
    by (auto simp: requeue_review_at_head_def Let_def split: sum.splits enqueue_error.splits)
  moreover have "x \<noteq> Inl (Already_Exists st)" for st
    using calculation assms(2) e by (auto simp: id dest!: successor_known)
  ultimately obtain j where j: "x = Inr j" and i: "i = stale_review_task_id pr head" and q': "q' = q2" by auto
  from successor_row [OF e [unfolded j]] show ?thesis unfolding q' i id by auto
qed

lemma main_is_default:
  assumes "default_branches pe ctx repo require = Some bs" and "pe_env_main pe = None" shows "''main'' \<in> set bs"
  using assms by (auto simp: default_branches_def Let_def text_json_def plain_branches split: if_splits)

text \<open>
  A review sent again because the head moved is put on branch \<open>main\<close>, unless its context names a branch, and starts
  without a fix round. Where no main branch is configured and the lineage is not resolved by a duplicate, \<open>main\<close> is
  a default branch, so that no fix follows when it asks for changes.
\<close>

lemma redispatched_review_cannot_be_fixed:
  assumes "requeue_review_at_head pe project q tid pr head ctx = (Successor i, q')" and "task_of q i = None"
    and "ctx_key ctx ''branch'' = JNull"
  shows "\<exists>u. q_tasks q' = q_tasks q @ [u] \<and> tk_id u = i \<and> tk_branch u = ''main'' \<and> ctx_key (tk_context u) ''fix_round'' = JNull
    \<and> (\<forall>pe2 q2 v repo require still j. task_of q2 i = Some v \<and> row_kept u v \<and> ctx_key (tk_context v) lineage_from = JNull
          \<and> pe_env_main pe2 = None \<longrightarrow> fst (auto_enqueue_fix pe2 repo require still q2 i) \<noteq> Successor j)"
proof -
  obtain u where u: "q_tasks q' = q_tasks q @ [u]" "follows_request (requeue_request project tid pr head ctx) u"
      "i = rq_id (requeue_request project tid pr head ctx)"
    using requeue_row [OF assms(1,2)] by blast
  have row: "tk_id u = i" "tk_branch u = ''main''" "ctx_key (tk_context u) ''fix_round'' = JNull"
    using u(2,3) assms(3) requeue_keys [of tid pr head ctx]
    by (simp_all add: follows_request_def carries_def requeue_request_def requeue_branch_def admission_keys_def contract_key_def)
  have "fst (auto_enqueue_fix pe2 repo require still q2 i) \<noteq> Successor j"
    if v: "task_of q2 i = Some v" "row_kept u v" "ctx_key (tk_context v) lineage_from = JNull" "pe_env_main pe2 = None"
    for pe2 q2 v repo require still j
  proof
    assume s: "fst (auto_enqueue_fix pe2 repo require still q2 i) = Successor j"
    obtain p where "plan_fix pe2 repo require q2 i = Inr p"
      using fix_cases [of pe2 repo require still q2 i j "snd (auto_enqueue_fix pe2 repo require still q2 i)"] s
      by (metis prod.collapse)
    from plan_fixD [OF this] v(1) obtain bs where bs: "default_branches pe2 (tk_context v) repo require = Some bs"
        "normalize_branch (JStr (cascade_branch_of v)) \<notin> set bs" by auto
    have "cascade_branch_of v = ''main''" using v(2,3) row(2) by (simp add: cascade_branch_of_def row_kept_def)
    then show False using bs(2) main_is_default [OF bs(1) v(4)] by (simp add: plain_branches)
  qed
  with u(1) row show ?thesis by blast
qed

section \<open>The review after the gate\<close>

lemma review_cases:
  assumes "auto_enqueue_review pe reported p q gs tid = (Successor i, q', gs')"
  obtains t pr n where "task_of q tid = Some t" "\<not> held_at_gate (stored_contract (tk_context t)) (tk_context t)"
    "fix_round_of (tk_context t) = Some n"
    "enqueue_review pe (routed t p) pr (impl_repo pe (tk_context t)) (snd p) n q = (Successor i, q')" "gs' = gs"
proof -
  obtain t where t: "task_of q tid = Some t" using assms by (auto simp: auto_enqueue_review_def split: option.splits)
  let ?ctx = "tk_context t" let ?t = "routed t p" let ?repo = "impl_repo pe ?ctx"
  have held: "\<not> held_at_gate (stored_contract ?ctx) ?ctx" and proj: "\<not> other_project pe ?t"
    using assms t by (auto simp: auto_enqueue_review_def Let_def split: if_splits)
  have never: "fst (ask_for_pr pe s x) \<noteq> Successor j" for s x j
    by (auto simp: ask_for_pr_def ask_again_def stage_raised_def Let_def split: option.split prod.split sum.split enqueue_error.split)
  obtain pr where pr: "review_pr pe ?t ?repo (impl_pr reported ?ctx) = Some pr"
    using assms t held proj never [of ?t q i]
    by (auto simp: auto_enqueue_review_def Let_def split: option.splits prod.splits)
  obtain b q1 where skip: "skip_terminal_pr pe ''review'' tid (number_json pr) ?repo q = (b, q1)" by fastforce
  have "\<not> b" using assms t held proj pr skip by (auto simp: auto_enqueue_review_def Let_def)
  with skip have q1: "q1 = q" "b = False" using skip_goes by auto
  obtain n where n: "fix_round_of ?ctx = Some n"
    using assms t held proj pr skip q1 by (auto simp: auto_enqueue_review_def Let_def split: if_splits option.splits)
  have "enqueue_review pe ?t pr ?repo (snd p) n q = (Successor i, q')" "gs' = gs"
    using assms t held proj pr skip q1 n by (auto simp: auto_enqueue_review_def Let_def split: if_splits prod.splits)
  with that t held n show ?thesis by blast
qed

lemma enqueue_review_row:
  assumes "enqueue_review pe t pr repo commit n q = (Successor i, q')" and "task_of q i = None"
  shows "i = review_task_id (tk_id t) n \<and> (\<exists>u. q_tasks q' = q_tasks q @ [u] \<and>
    follows_request (review_request pe t pr n (review_context pe q t (stored_contract (tk_context t)) pr repo n commit)) u)"
proof -
  let ?ctx = "review_context pe q t (stored_contract (tk_context t)) pr repo n commit"
  let ?rq = "review_request pe t pr n ?ctx"
  have id: "rq_id ?rq = review_task_id (tk_id t) n" by (simp add: review_request_def)
  obtain c q1 where c: "review_round_cap pe q t (rq_id ?rq) (review_provider pe ?ctx) (if commit = [] then JStr [] else JStr commit) = (c, q1)"
    by fastforce
  have "c = None" using assms(1) c by (cases c) (auto simp: enqueue_review_def Let_def)
  with c have q1: "q1 = q" "c = None" using cap_free by auto
  obtain x q2 where e: "enqueue_with_inherited_risk pe t ?rq q = (x, q2)" by fastforce
  have cases: "q' = q2 \<and> ((\<exists>j. x = Inr j \<and> i = rq_id ?rq) \<or> (\<exists>st. x = Inl (Already_Exists st) \<and> i = rq_id ?rq) \<or> x = Inl (Duplicate_Of i))"
    using assms(1) c q1 e
    by (auto simp: enqueue_review_def Let_def stage_raised_def split: sum.splits enqueue_error.splits if_splits)
  have "\<exists>j. x = Inr j" using cases assms(2) e by (auto dest!: inherited_known)
  with cases e inherited_row [of pe t ?rq q _ q2] id show ?thesis by auto
qed

lemma review_context_sha:
  assumes "commit = []" and "''reviewed_sha'' \<notin> fst ` set (cc_metadata c)"
  shows "ctx_key (review_context pe q t c pr repo n commit) ''reviewed_sha'' = JNull"
proof -
  have s: "''reviewed_sha'' \<notin> own_keys" "''reviewed_sha'' \<notin> set lineage_intent_fields"
    by (simp_all add: own_keys_def lineage_intent_fields_def)
  have d: "delta_of pe q t [] = None" by (simp add: delta_of_def)
  have fold: "ctx_key (fold (\<lambda>(k, v). set_default k v) (tier_put x) d2) ''reviewed_sha'' = ctx_key d2 ''reviewed_sha''" for x d2
    by (auto simp: tier_put_def ctx_key_default_other s split: option.split)
  have cp: "''reviewed_sha'' \<notin> fst ` set (copied x [''fix_round'', ''issue'', ''issue_title'', ''issue_body'', ''issue_url''])" for x
    by (rule copied_other) simp
  have key: "ctx_key (puts kvs x) ''reviewed_sha'' = ctx_key x ''reviewed_sha''" if "''reviewed_sha'' \<notin> fst ` set kvs" for kvs x
    using that by (rule ctx_key_puts_other [OF s(1)])
  have e: "ctx_key empty_context ''reviewed_sha'' = JNull" by (simp add: empty_context_def ctx_key_def)
  show ?thesis
    unfolding review_context_def Let_def assms(1) d
    by (simp add: key cp opt_puts_other ctx_key_carry [OF s] fold e image_Un assms(2) del: puts_simps split: option.split prod.split)
qed

lemma patched_row:
  "task_of (patched tid kvs q) j = None \<longleftrightarrow> task_of q j = None"
  "task_of q tid = Some t \<Longrightarrow> \<exists>ctx. task_of (patched tid kvs q) tid = Some (t\<lparr>tk_context := ctx\<rparr>)
     \<and> (ctx = tk_context t \<or> ctx = fold (\<lambda>(k, v). set_key k v) kvs (tk_context t))"
proof -
  have p: "patched tid kvs q = q \<or> (\<exists>t. task_of q tid = Some t \<and> patched tid kvs q
      = update_task tid (\<lambda>u. u\<lparr>tk_context := fold (\<lambda>(k, v). set_key k v) kvs (tk_context t)\<rparr>) q)"
    by (auto simp: patched_def patch_context_def Let_def split: option.splits if_splits)
  show "task_of (patched tid kvs q) j = None \<longleftrightarrow> task_of q j = None"
    using p by (auto simp: task_of_update split: if_splits)
  show "\<exists>ctx. task_of (patched tid kvs q) tid = Some (t\<lparr>tk_context := ctx\<rparr>)
     \<and> (ctx = tk_context t \<or> ctx = fold (\<lambda>(k, v). set_key k v) kvs (tk_context t))" if "task_of q tid = Some t"
    using p that by (auto simp: task_of_update intro: exI [of _ "tk_context t"])
qed

text \<open>
  The approval of a tier three gate continues the review without the result it held back: the row it inserts is on the
  branch the task was dispatched on, not the one the work was pushed to, and names no reviewed commit. The
  dispatcher pins it later, when it prepares the review.
\<close>

lemma resumed_review_is_unpinned:
  assumes "answer_gate pe q gs g True = (Inr (Successor i), q', gs')" and "gate_of gs g = Some held" and "gt_kind held = ''review''"
    and "task_of q (gt_target held) = Some t" and "task_of q i = None"
    and "''reviewed_sha'' \<notin> fst ` set (cc_metadata (stored_contract (tk_context t)))"
  shows "\<exists>ts u. q_tasks q' = ts @ [u] \<and> tk_id u = i \<and> tk_type u = ''review'' \<and> tk_branch u = tk_branch t
    \<and> ctx_key (tk_context u) ''reviewed_sha'' = JNull
    \<and> (\<forall>pe2 repo pr. review_head_status pe2 repo (tk_context u) pr = Unpinned)"
proof -
  let ?tid = "gt_target held" let ?pe = "resumed_env pe"
  let ?q = "patched ?tid [(''tier3_gate_approved'', JBool True)] q"
  obtain gs1 where r: "resolve_gate g True gs = Inr gs1" using assms(1) by (auto simp: answer_gate_def split: sum.splits)
  have now: "gate_of gs1 g = Some (held\<lparr>gt_status := Gate_Approved\<rparr>)" using resolve_gateD [OF r] assms(2) by auto
  have resume: "resume_tier3_gate pe q gs1 g = (Successor i, q', gs')"
    using assms(1) r by (auto simp: answer_gate_def split: prod.splits)
  have run: "auto_enqueue_review ?pe None nothing_pushed ?q gs1 ?tid = (Successor i, q', gs')"
    using resume now assms(3) by (auto simp: resume_tier3_gate_def Let_def split: if_splits)
  obtain s pr n where s: "task_of ?q ?tid = Some s"
    and e: "enqueue_review ?pe (routed s nothing_pushed) pr (impl_repo ?pe (tk_context s)) (snd nothing_pushed) n ?q = (Successor i, q')"
    using review_cases [OF run] by metis
  have plain: "routed s nothing_pushed = s" "snd nothing_pushed = []" by (simp_all add: routed_def nothing_pushed_def)
  obtain ctx where ctx: "s = t\<lparr>tk_context := ctx\<rparr>"
      "ctx = tk_context t \<or> ctx = set_key ''tier3_gate_approved'' (JBool True) (tk_context t)"
    using patched_row(2) [OF assms(4), of "[(''tier3_gate_approved'', JBool True)]"] s by auto
  then have "stored_contract (tk_context s) = stored_contract (tk_context t)"
    by (auto simp: stored_contract_def ctx_key_set_key contract_key_def)
  with assms(6) have meta: "''reviewed_sha'' \<notin> fst ` set (cc_metadata (stored_contract (tk_context s)))" by simp
  have "task_of ?q i = None" using assms(5) patched_row(1) by blast
  from enqueue_review_row [OF e this] obtain u where id: "i = review_task_id (tk_id s) n" and u: "q_tasks q' = q_tasks ?q @ [u]"
      "follows_request (review_request ?pe s pr n
         (review_context ?pe ?q s (stored_contract (tk_context s)) pr (impl_repo ?pe (tk_context s)) n [])) u"
    unfolding plain by blast
  have sha: "ctx_key (tk_context u) ''reviewed_sha'' = JNull"
    using u(2) review_context_sha [OF refl meta]
    by (simp add: follows_request_def carries_def review_request_def admission_keys_def contract_key_def)
  have "tk_id u = i" "tk_type u = ''review''" "tk_branch u = tk_branch t"
    using u(2) id ctx(1) by (simp_all add: follows_request_def review_request_def)
  with u(1) sha show ?thesis by (auto simp: review_head_status_def)
qed

section \<open>Two doors\<close>

text \<open>
  On the same approved review, about a head that has not moved, the HTTP route asks for no test when the
  lineage declared it wants none, and the MCP tool asks for the test all the same.
\<close>

theorem mcp_ignores_no_tester:
  assumes "resolve_verdict (task_result.truncate r) = Approve" and "json_truthy (ctx_key ctx ''no_tester'')"
    and "about_this_head (publication pe (raw_text (ctx_key ctx ''repo'')) ctx (result_pr (task_result.truncate r) ctx))"
  shows "verdict_stage se replaying tid ''review'' r ctx b = (No_Successor, b)
    \<and> mcp_verdict_stage pe tid ''review'' r ctx b = auto_enqueue_test (mcp_env pe) [] (fst b) (snd b) tid"
proof
  show "verdict_stage se replaying tid ''review'' r ctx b = (No_Successor, b)"
    using assms(1,2) by (simp add: verdict_stage_def Let_def)
  show "mcp_verdict_stage pe tid ''review'' r ctx b = auto_enqueue_test (mcp_env pe) [] (fst b) (snd b) tid"
    using assms(1,3) by (auto simp: mcp_verdict_stage_def Let_def about_this_head_def split: option.splits bool.splits)
qed

section \<open>Samples\<close>

definition stale_review :: task_row where
  "stale_review = (sample_task ''r1'' ''review'' Failed)\<lparr>tk_context := set_key ''risk_tier'' (JInt 1) blank_context\<rparr>"

lemma stale_review_simps [simp]:
  "tk_id stale_review = ''r1''" "tk_type stale_review = ''review''" "tk_status stale_review = Failed"
  "tk_context stale_review = set_key ''risk_tier'' (JInt 1) blank_context"
  by (simp_all add: stale_review_def sample_task_def)

lemma sample_requeued: "\<exists>q'. requeue_review_at_head sample_cascade ''crew'' (sample_queue [stale_review]) ''r1'' 7 ''head''
    (set_key ''risk_tier'' (JInt 1) blank_context) = (Successor (stale_review_task_id 7 ''head''), q')"
proof -
  let ?q = "sample_queue [stale_review]" and ?ctx = "set_key ''risk_tier'' (JInt 1) blank_context"
  let ?rq = "requeue_request ''crew'' ''r1'' 7 ''head'' ?ctx"
  have t: "task_of ?q ''r1'' = Some stale_review" by (simp add: task_of_def)
  have fresh: "task_of ?q (stale_review_task_id 7 ''head'') = None" by (simp add: task_of_def stale_review_task_id_def)
  have cap: "review_round_cap sample_cascade ?q stale_review i prov h = (None, ?q)" for i prov h
    by (simp add: review_round_cap_def review_cap_def)
  have kept: "kept_keys ?ctx requeued_keys = []"
    by (simp add: kept_keys_def requeued_keys_def ctx_has_def ctx_get_def ctx_key_set_key) (simp add: has_key_def set_key_def blank_context_def json_text_opt_def)
  have tier: "tier_put ?ctx = [(''risk_tier'', JInt 1)]" by (simp add: tier_put_def ctx_key_set_key valid_tier_def)
  have ctx: "ctx_key (rq_context ?rq) ''risk_tier'' = JInt 1" "tc_external_operation_id (rq_context ?rq) = None"
    by (simp_all add: requeue_request_def requeue_context_def kept tier ctx_key_put own_keys_def) (simp add: empty_context_def)
  have id: "rq_id ?rq = stale_review_task_id 7 ''head''" "rq_type ?rq = ''review''" by (simp_all add: requeue_request_def)
  obtain q1 where e: "enqueue_successor sample_cascade ?rq ?q = (Inr (rq_id ?rq), q1)"
    using sample_successor [of ?q ?rq] ctx fresh by (auto simp: id)
  show ?thesis by (simp add: requeue_review_at_head_def t Let_def cap e)
qed

theorem redispatched_review_cannot_be_fixed_witness:
  "\<exists>q' u. requeue_review_at_head sample_cascade ''crew'' (sample_queue [stale_review]) ''r1'' 7 ''head''
      (set_key ''risk_tier'' (JInt 1) blank_context) = (Successor (stale_review_task_id 7 ''head''), q')
    \<and> q_tasks q' = [stale_review, u] \<and> tk_branch u = ''main''"
proof -
  let ?ctx = "set_key ''risk_tier'' (JInt 1) blank_context"
  obtain q' where q': "requeue_review_at_head sample_cascade ''crew'' (sample_queue [stale_review]) ''r1'' 7 ''head'' ?ctx
      = (Successor (stale_review_task_id 7 ''head''), q')" using sample_requeued by blast
  have "task_of (sample_queue [stale_review]) (stale_review_task_id 7 ''head'') = None"
    by (simp add: task_of_def stale_review_task_id_def)
  moreover have "ctx_key ?ctx ''branch'' = JNull" by (simp add: ctx_key_set_key)
  ultimately obtain u where "q_tasks q' = q_tasks (sample_queue [stale_review]) @ [u]" "tk_branch u = ''main''"
    using redispatched_review_cannot_be_fixed [OF q'] by metis
  with q' show ?thesis by auto
qed

theorem mcp_ignores_no_tester_witness:
  "mcp_verdict_stage sample_cascade ''r1'' ''review''
     (failed_result\<lparr>tr_status := Completed, tr_verdict := Some ''approve''\<rparr>) (set_key ''no_tester'' (JBool True) blank_context) (reviewed_queue, [])
   = auto_enqueue_test (mcp_env sample_cascade) [] reviewed_queue [] ''r1''"
proof -
  let ?r = "failed_result\<lparr>tr_status := Completed, tr_verdict := Some ''approve''\<rparr>" and ?ctx = "set_key ''no_tester'' (JBool True) blank_context"
  have "resolve_verdict (task_result.truncate ?r) = Approve"
    by (simp add: task_result.truncate_def resolve_verdict_def failed_result_def final_verdicts_def)
  moreover have "json_truthy (ctx_key ?ctx ''no_tester'')" by (simp add: ctx_key_set_key)
  moreover have "result_pr (task_result.truncate ?r) ?ctx = JNull"
    by (simp add: result_pr_def task_result.truncate_def failed_result_def ctx_key_set_key)
  ultimately show ?thesis
    using mcp_ignores_no_tester [of ?r ?ctx sample_cascade sample_stage False "''r1''" "(reviewed_queue, [])"]
    by (simp add: publication_def about_this_head_def)
qed

text \<open>An implementation with a pull request that waits at a gate.\<close>

definition held_context :: task_context where
  "held_context = set_key ''repo'' (JStr ''o/r'') (set_key ''pr_number'' (JInt 7) (set_key ''risk_tier'' (JInt 1) blank_context))"

definition held_work :: task_row where
  "held_work = (sample_task ''t1'' ''implement'' Completed)\<lparr>tk_context := held_context\<rparr>"

definition passed_work :: task_row where
  "passed_work = held_work\<lparr>tk_context := set_key ''tier3_gate_approved'' (JBool True) held_context\<rparr>"

lemma held_work_simps [simp]:
  "tk_id held_work = ''t1''" "tk_id passed_work = ''t1''" "tk_context held_work = held_context" "tk_type passed_work = ''implement''"
  "tk_context passed_work = set_key ''tier3_gate_approved'' (JBool True) held_context" "tk_branch passed_work = ''b''"
  "tk_project passed_work = ''crew''" "tk_branch held_work = ''b''"
  by (simp_all add: held_work_def passed_work_def sample_task_def)

lemma held_keys:
  "ctx_key held_context k = (if k = ''repo'' then JStr ''o/r'' else if k = ''pr_number'' then JInt 7 else if k = ''risk_tier'' then JInt 1 else JNull)"
  "has_key held_context k \<longleftrightarrow> k \<in> {''repo'', ''pr_number'', ''risk_tier''}" "tc_external_operation_id held_context = None"
  "tc_prev_task_id held_context = None"
  by (simp_all add: held_context_def ctx_key_set_key) (auto simp: has_key_def set_key_def blank_context_def)

lemma sample_passed: "patched ''t1'' [(''tier3_gate_approved'', JBool True)] (sample_queue [held_work]) = sample_queue [passed_work]"
proof -
  have t: "task_of (sample_queue [held_work]) ''t1'' = Some held_work" by (simp add: task_of_def)
  have n: "''fix_round'' \<notin> fst ` set (tc_more (set_key ''tier3_gate_approved'' (JBool True) held_context))"
    using held_keys(2) has_key_set [of _ _ held_context "''fix_round''"] by (simp add: has_key_def)
  have u: "update_task ''t1'' f (sample_queue [held_work]) = sample_queue [f held_work]" for f
    by (simp add: update_task_def sample_queue_def)
  show ?thesis by (simp add: patched_def patch_context_def t u n Let_def) (simp add: passed_work_def)
qed

lemma resumed_same: "resumed_env sample_cascade = sample_cascade"
  by (simp add: resumed_env_def sample_cascade_def)

definition resumed_context :: task_context where
  "resumed_context = review_context sample_cascade (sample_queue [passed_work]) passed_work (stored_contract (tk_context passed_work))
     (Some 7) ''o/r'' 0 []"

lemma resumed_op: "tc_external_operation_id resumed_context = None"
proof -
  have c: "stored_contract (tk_context passed_work) = floor_contract"
    by (simp add: stored_contract_def ctx_key_set_key held_keys contract_key_def)
  have d: "delta_of sample_cascade q t [] = None" for q t by (simp add: delta_of_def)
  have no: "\<not> ctx_has (tk_context passed_work) ''external_operation_id''"
    by (simp add: ctx_has_def ctx_get_def json_text_opt_def held_keys) (simp add: set_key_def held_keys)
  have f: "tc_external_operation_id (fold (\<lambda>(k, v). set_default k v) (tier_put x) y) = tc_external_operation_id y" for x y
    by (auto simp: tier_put_def set_default_def split: option.split)
  have cp: "''external_operation_id'' \<notin> fst ` set (copied x [''fix_round'', ''issue'', ''issue_title'', ''issue_body'', ''issue_url''])" for x
    by (rule copied_other) simp
  have e: "tc_external_operation_id empty_context = None" by (simp add: empty_context_def)
  have enf: "cc_enforced floor_contract = False" by (simp add: floor_contract_def)
  show ?thesis
    unfolding resumed_context_def review_context_def Let_def c d
    by (simp add: op_puts_other cp opt_puts_other op_carry [OF no] f e image_Un enf del: puts_simps)
qed

lemma sample_resumed: "\<exists>q'. answer_gate sample_cascade (sample_queue [held_work]) [review_gate] (gt_id review_gate) True
    = (Inr (Successor (review_task_id ''t1'' 0)), q', [review_gate\<lparr>gt_status := Gate_Approved\<rparr>])"
proof -
  let ?q = "sample_queue [passed_work]" and ?rq = "review_request sample_cascade passed_work (Some 7) 0 resumed_context"
  have t: "task_of ?q ''t1'' = Some passed_work" by (simp add: task_of_def)
  have k: "ctx_key (tk_context passed_work) j = (if j = ''tier3_gate_approved'' then JBool True else ctx_key held_context j)" for j
    by (simp add: ctx_key_set_key)
  have c: "stored_contract (tk_context passed_work) = floor_contract"
    by (simp add: stored_contract_def k held_keys contract_key_def del: held_work_simps)
  have n: "fix_round_of (tk_context passed_work) = Some 0"
    by (simp add: fix_round_of_def held_keys)
  have id: "rq_id ?rq = review_task_id ''t1'' 0" "rq_type ?rq = ''review''" "rq_context ?rq = resumed_context"
    by (simp_all add: review_request_def)
  have stem: "lineage_root ?q [''t1''] passed_work = passed_work" by (simp add: lineage_root.simps held_keys)
  have tier: "ctx_key (inherited_context ?q passed_work resumed_context) ''risk_tier'' = JInt 1"
    by (simp add: inherited_context_def stem k held_keys valid_tier_def ctx_key_set_key)
  obtain q1 where e: "enqueue_with_inherited_risk sample_cascade passed_work ?rq ?q = (Inr (rq_id ?rq), q1)"
    using sample_inherited [of ?q ?rq passed_work] tier resumed_op by (auto simp: id task_of_def review_task_id_def)
  have cap: "review_round_cap sample_cascade ?q passed_work i prov h = (None, ?q)" for i prov h
    by (simp add: review_round_cap_def review_cap_def)
  have enq: "enqueue_review sample_cascade passed_work (Some 7) ''o/r'' [] 0 ?q = (Successor (review_task_id ''t1'' 0), q1)"
    using e by (simp add: enqueue_review_def Let_def cap resumed_context_def [symmetric] id del: held_work_simps)
  have pr: "impl_pr None (tk_context passed_work) = Some 7" "impl_repo sample_cascade (tk_context passed_work) = ''o/r''"
    by (simp_all add: impl_pr_def impl_repo_def k held_keys del: held_work_simps)
  have open': "pr_is_actionable sample_cascade ''o/r'' (JInt 7) = (True, Some Pr_Open)"
    by (simp add: pr_is_actionable_def int_value_def)
  have free: "\<not> held_at_gate floor_contract x" for x by (simp add: held_at_gate_def floor_contract_def)
  have run: "auto_enqueue_review sample_cascade None nothing_pushed ?q gs ''t1'' = (Successor (review_task_id ''t1'' 0), q1, gs)" for gs
    using enq n
    by (simp add: auto_enqueue_review_def t Let_def routed_def nothing_pushed_def c free pr other_project_def review_pr_def
        skip_terminal_pr_def number_json_def open' del: held_work_simps) simp
  show ?thesis
    using run by (simp add: answer_gate_def resolve_gate_def gate_of_def review_gate_def resume_tier3_gate_def Let_def resumed_same sample_passed)
qed

theorem resumed_review_is_unpinned_witness:
  "\<exists>q' ts u. answer_gate sample_cascade (sample_queue [held_work]) [review_gate] (gt_id review_gate) True
      = (Inr (Successor (review_task_id ''t1'' 0)), q', [review_gate\<lparr>gt_status := Gate_Approved\<rparr>])
    \<and> q_tasks q' = ts @ [u] \<and> review_head_status sample_cascade ''o/r'' (tk_context u) (JInt 7) = Unpinned"
proof -
  obtain q' where q': "answer_gate sample_cascade (sample_queue [held_work]) [review_gate] (gt_id review_gate) True
      = (Inr (Successor (review_task_id ''t1'' 0)), q', [review_gate\<lparr>gt_status := Gate_Approved\<rparr>])"
    using sample_resumed by blast
  have "gate_of [review_gate] (gt_id review_gate) = Some review_gate" by (simp add: gate_of_def)
  moreover have "gt_kind review_gate = ''review''" by (simp add: review_gate_def)
  moreover have "task_of (sample_queue [held_work]) (gt_target review_gate) = Some held_work" by (simp add: task_of_def review_gate_def)
  moreover have "task_of (sample_queue [held_work]) (review_task_id ''t1'' 0) = None" by (simp add: task_of_def review_task_id_def)
  moreover have "''reviewed_sha'' \<notin> fst ` set (cc_metadata (stored_contract (tk_context held_work)))"
    by (simp add: stored_contract_def held_keys contract_key_def floor_contract_def)
  ultimately show ?thesis using resumed_review_is_unpinned [OF q'] q' by metis
qed

end
