(* ===== verification/Inputs.thy ===== *)
theory Inputs
  imports Runtime_Switch Values
begin

text \<open>
  The signed inputs of the authority (\<open>src/agent_crew/cea/input_providers\<close>, \<open>cea/memory.py\<close>): the reader of
  the policy snapshot with its high-water mark, the capability registry and the incident memory behind one
  client, the gate of the snapshot's records, the row of the runtime state, and the budget of a provider.
  A provider that raises answers \<open>None\<close>. A file is what its reader makes of it: a JSON value, or nothing
  when it cannot be read. \<open>datetime.fromisoformat\<close>, SHA-256 and the verifier of a signature are arguments.
  A number in a file is an integer, an identifier that is no text is taken as the text it prints as, and a
  tier or a row of the review matrix that has another shape than the producer's counts as absent, and a matrix
  that is no object makes the reader raise.
\<close>

section \<open>The high-water mark\<close>

text \<open>
  The file of the mark: missing, not readable as JSON, or a JSON value. A write may fail before the new file
  is in place, or after it.
\<close>

datatype mark_file = No_Mark | Bad_Mark | Mark json

datatype mark_write = Written | Write_Failed | Written_Unsynced

record mark_check =
  hw_dir :: bool
  hw_write :: mark_write
  hw_generation :: int
  hw_hash :: string
  hw_bootstrap :: bool
  hw_legacy :: "string option"

definition read_mark :: "bool \<Rightarrow> mark_file \<Rightarrow> (int \<times> string) option" where
  "read_mark bootstrap f =
     (case f of
        No_Mark \<Rightarrow> if bootstrap then Some (- 1, []) else None
      | Bad_Mark \<Rightarrow> None
      | Mark v \<Rightarrow>
          (case v of
             JObj kvs \<Rightarrow>
               (case (map_of kvs ''generation'', map_of kvs ''content_hash'') of
                  (Some (JInt g), Some (JStr h)) \<Rightarrow> if 0 \<le> g \<and> startswith h ''sha256:'' then Some (g, h) else None
                | _ \<Rightarrow> None)
           | _ \<Rightarrow> None))"

definition mark_json :: "int \<Rightarrow> string \<Rightarrow> json" where
  "mark_json g h = JObj [(''content_hash'', JStr h), (''generation'', JInt g)]"

text \<open>\<open>check_high_water_mark\<close>: whether the snapshot passes, and the file afterwards.\<close>

definition check_high_water_mark :: "mark_check \<Rightarrow> mark_file \<Rightarrow> bool \<times> mark_file" where
  "check_high_water_mark c f =
     (if \<not> hw_dir c then (False, f)
      else case read_mark (hw_bootstrap c) f of
        None \<Rightarrow> (False, f)
      | Some (g, h) \<Rightarrow>
          let migrate = hw_generation c = g \<and> hw_legacy c = Some h \<and> h \<noteq> hw_hash c
          in if hw_generation c < g \<or> (hw_generation c = g \<and> hw_hash c \<noteq> h \<and> \<not> migrate) then (False, f)
             else if g < hw_generation c \<or> migrate
             then (case hw_write c of
                     Written \<Rightarrow> (True, Mark (mark_json (hw_generation c) (hw_hash c)))
                   | Write_Failed \<Rightarrow> (False, f)
                   | Written_Unsynced \<Rightarrow> (False, Mark (mark_json (hw_generation c) (hw_hash c))))
             else (True, f))"

section \<open>The policy snapshot\<close>

record snapshot_reader =
  sn_verifier :: "(string \<Rightarrow> json \<Rightarrow> signature_status option) option"
  sn_max_age :: time
  sn_hwm :: bool
  sn_enforce :: bool

text \<open>What one reading meets: the document, the clock, the directory of the mark and the end of its write.\<close>

record snapshot_disk =
  sd_doc :: "json option"
  sd_clock :: time
  sd_iso :: "string \<Rightarrow> time option"
  sd_sha256 :: "string \<Rightarrow> string"
  sd_dir :: bool
  sd_write :: mark_write

definition zulu :: "string \<Rightarrow> string" where
  "zulu s = concat (map (\<lambda>c. if c = CHR ''Z'' then ''+00:00'' else [c]) s)"

definition epoch_of :: "snapshot_disk \<Rightarrow> json \<Rightarrow> time option" where
  "epoch_of w v =
     (case v of JInt i \<Rightarrow> Some (of_int i) | JBool b \<Rightarrow> Some (if b then 1 else 0) | JStr s \<Rightarrow> sd_iso w (zulu s) | _ \<Rightarrow> None)"

definition id_texts :: "json \<Rightarrow> string list" where
  "id_texts v = (case v of JArr xs \<Rightarrow> map shown xs | _ \<Rightarrow> [])"

definition text_unless_false :: "json \<Rightarrow> string option" where
  "text_unless_false v = (if json_truthy v then Some (shown v) else None)"

definition scope_project :: "(string \<times> json) list \<Rightarrow> string option" where
  "scope_project sc =
     (let v = key_or JNull sc ''project'' in if v = JNull \<or> v = JStr ''*'' then None else Some (shown v))"

text \<open>The keys of a scope that must be the intent's own.\<close>

definition wanted :: "intent_identity \<Rightarrow> (string \<times> json) list" where
  "wanted ident =
     [(''project'', JStr (id_project ident)), (''work_class'', JStr (work_class_value (id_work_class ident))),
      (''capability_id'', json_opt (id_capability_id ident)), (''repo'', JStr (t_repo (id_target ident)))]"

definition in_scope :: "(string \<times> json) list \<Rightarrow> intent option \<Rightarrow> bool" where
  "in_scope sc i =
     (case i of None \<Rightarrow> True
      | Some j \<Rightarrow>
          let ident = in_identity j; ps = id_texts (key_or JNull sc ''projects'')
          in (ps = [] \<or> id_project ident \<in> set ps)
             \<and> list_all (\<lambda>(k, v). case map_of (wanted ident) k of None \<Rightarrow> True
                                  | Some w \<Rightarrow> v = JNull \<or> v = JStr ''*'' \<or> v = w) sc)"

definition scope_of :: "(string \<times> json) list \<Rightarrow> (string \<times> json) list" where
  "scope_of d = (case key_or JNull d ''scope'' of JObj sc \<Rightarrow> sc | _ \<Rightarrow> [])"

definition rev_of :: "(string \<times> json) list \<Rightarrow> time option \<Rightarrow> decision_rev" where
  "rev_of d expiry =
     (let sc = scope_of d
      in \<lparr>dr_decision_id = shown (key_or JNull d ''decision_id''), dr_body_hash = shown (key_or JNull d ''body_hash''),
          dr_supersedes = id_texts (key_or JNull d ''supersedes''), dr_principals = id_texts (key_or JNull d ''principals''),
          dr_build_commits = id_texts (key_or JNull d ''build_commits''), dr_runtimes = id_texts (key_or JNull d ''runtimes''),
          dr_project = scope_project sc, dr_expires_at = expiry, dr_capabilities = id_texts (key_or JNull sc ''capabilities''),
          dr_projects = id_texts (key_or JNull sc ''projects''), dr_intent_hash = text_unless_false (key_or JNull d ''intent_hash''),
          dr_scope_capability_id = text_unless_false (key_or JNull sc ''capability_id''),
          dr_scope_work_class = text_unless_false (key_or JNull sc ''work_class''),
          dr_scope_repo = text_unless_false (key_or JNull sc ''repo'')\<rparr>)"

text \<open>One record: \<open>None\<close> when it is malformed, \<open>Some None\<close> when it has expired.\<close>

definition decision_of :: "snapshot_disk \<Rightarrow> json \<Rightarrow> decision_rev option option" where
  "decision_of w v =
     (case v of
        JObj d \<Rightarrow>
          if \<not> json_truthy (key_or JNull d ''decision_id'') \<or> \<not> json_truthy (key_or JNull d ''body_hash'') then None
          else (case map_of d ''expires_at'' of
                  None \<Rightarrow> Some (Some (rev_of d None))
                | Some e \<Rightarrow> (case epoch_of w e of
                    None \<Rightarrow> Some None
                  | Some x \<Rightarrow> if x \<le> sd_clock w then Some None else Some (Some (rev_of d (Some x)))))
      | _ \<Rightarrow> None)"

fun read_decisions :: "snapshot_disk \<Rightarrow> intent option \<Rightarrow> json list \<Rightarrow> (decision_rev \<times> bool) list option" where
  "read_decisions w i [] = Some []"
| "read_decisions w i (v # vs) =
     (case decision_of w v of
        None \<Rightarrow> None
      | Some None \<Rightarrow> read_decisions w i vs
      | Some (Some r) \<Rightarrow>
          map_option ((#) (r, in_scope (case v of JObj d \<Rightarrow> scope_of d | _ \<Rightarrow> []) i)) (read_decisions w i vs))"

text \<open>\<open>for x in v or ()\<close>: the values met, nothing when \<open>v\<close> cannot be iterated.\<close>

definition iterated :: "json \<Rightarrow> json list option" where
  "iterated v =
     (if \<not> json_truthy v then Some []
      else case v of JArr xs \<Rightarrow> Some xs | JObj kvs \<Rightarrow> Some (map (\<lambda>kv. JStr (fst kv)) kvs)
           | JStr s \<Rightarrow> Some (map (\<lambda>c. JStr [c]) s) | _ \<Rightarrow> None)"

definition object_or_empty :: "json \<Rightarrow> (string \<times> json) list option" where
  "object_or_empty v = (if \<not> json_truthy v then Some [] else case v of JObj kvs \<Rightarrow> Some kvs | _ \<Rightarrow> None)"

definition matrix_of :: "(string \<times> json) list \<Rightarrow> matrix" where
  "matrix_of rows =
     map (\<lambda>(k, v). case v of JObj r \<Rightarrow> (k, json_truthy (key_or JNull r ''reviewer''), json_truthy (key_or JNull r ''tester''))
                   | _ \<Rightarrow> (k, False, False)) rows"

text \<open>A key of a predicate that is no text never equals what the intent says, so the predicate never matches.\<close>

definition constraint_of :: "(string \<times> json) list \<Rightarrow> string \<Rightarrow> string option option" where
  "constraint_of p k = (case key_or JNull p k of JNull \<Rightarrow> Some None | JStr s \<Rightarrow> Some (Some s) | _ \<Rightarrow> None)"

definition predicate_of :: "json \<Rightarrow> gate_predicate option" where
  "predicate_of v =
     (case v of
        JObj p \<Rightarrow>
          (case (constraint_of p ''project'', constraint_of p ''work_class'', constraint_of p ''capability_id'', constraint_of p ''repo'') of
             (Some a, Some b, Some c, Some d) \<Rightarrow>
               Some \<lparr>gp_project = a, gp_work_class = b, gp_capability_id = c, gp_repo = d,
                     gp_state = text_unless_false (key_or JNull p ''state''),
                     gp_decision_id = text_unless_false (key_or JNull p ''decision_id'')\<rparr>
           | _ \<Rightarrow> None)
      | _ \<Rightarrow> None)"

definition content_hash_text :: "string \<Rightarrow> bool" where
  "content_hash_text s \<longleftrightarrow> startswith s ''sha256:'' \<and> length s = 71 \<and> list_all is_lower_hex (drop 7 s)"

definition signature_of :: "snapshot_reader \<Rightarrow> string \<Rightarrow> json \<Rightarrow> signature_status" where
  "signature_of rd canon sig =
     (case (sn_verifier rd, sig) of
        (None, JObj _) \<Rightarrow> UNKEYED
      | (None, _) \<Rightarrow> UNSIGNED
      | (Some verify, JObj _) \<Rightarrow> (case verify canon sig of None \<Rightarrow> INVALID | Some s \<Rightarrow> s)
      | _ \<Rightarrow> INVALID)"

text \<open>The check of the mark: whether the snapshot is refused, and the file afterwards.\<close>

definition mark_check_of :: "snapshot_reader \<Rightarrow> snapshot_disk \<Rightarrow> int \<Rightarrow> string \<Rightarrow> json \<Rightarrow> mark_check" where
  "mark_check_of rd w generation content signed =
     \<lparr>hw_dir = sd_dir w, hw_write = sd_write w, hw_generation = generation,
      hw_hash = (case signed of JStr s \<Rightarrow> s | _ \<Rightarrow> content), hw_bootstrap = \<not> sn_enforce rd,
      hw_legacy = (if signed = JNull then None else Some content)\<rparr>"

definition rolled_back ::
  "snapshot_reader \<Rightarrow> snapshot_disk \<Rightarrow> signature_status \<Rightarrow> int \<Rightarrow> string \<Rightarrow> json option \<Rightarrow> mark_file \<Rightarrow> bool \<times> mark_file" where
  "rolled_back rd w status generation content signed f =
     (if sn_hwm rd \<and> status = VALID
      then (case signed of
              None \<Rightarrow> (case check_high_water_mark (mark_check_of rd w generation content JNull) f of (ok, f') \<Rightarrow> (\<not> ok, f'))
            | Some v \<Rightarrow>
                if (case v of JStr s \<Rightarrow> content_hash_text s | _ \<Rightarrow> False)
                then (case check_high_water_mark (mark_check_of rd w generation content v) f of (ok, f') \<Rightarrow> (\<not> ok, f'))
                else (True, f))
      else (sn_hwm rd \<and> sn_enforce rd, f))"

definition rollback_text :: "bool \<Rightarrow> string option" where
  "rollback_text b = (if b then Some ''SNAPSHOT_ROLLBACK'' else None)"

definition snapshot_parts ::
  "snapshot_reader \<Rightarrow> snapshot_disk \<Rightarrow> intent option \<Rightarrow> (string \<times> json) list \<Rightarrow> int \<Rightarrow> string \<Rightarrow> signature_status \<Rightarrow> bool
     \<Rightarrow> policy_snapshot option" where
  "snapshot_parts rd w i doc generation content status rollback =
     (case iterated (key_or JNull doc ''decisions'') of
        None \<Rightarrow> None
      | Some raw \<Rightarrow>
          (case read_decisions w i raw of
             None \<Rightarrow> Some unavailable_snapshot
           | Some ds \<Rightarrow>
               let produced = epoch_of w (key_or JNull doc ''produced_at'')
               in (case (object_or_empty (key_or JNull doc ''review_test_matrix''), iterated (key_or JNull doc ''human_gate_predicates'')) of
                     (Some rows, Some ps) \<Rightarrow>
                       Some \<lparr>ps_generation = generation, ps_hash = content, ps_decisions = map fst ds,
                             ps_in_scope = map fst (filter snd ds), ps_signature = status,
                             ps_available = (case produced of None \<Rightarrow> False | Some made \<Rightarrow> max 0 (sd_clock w - made) \<le> sn_max_age rd),
                             ps_tier = (case key_or JNull doc ''tier'' of JStr s \<Rightarrow> Some s | _ \<Rightarrow> None),
                             ps_review_test_matrix = matrix_of rows,
                             ps_human_gate_predicates = List.map_filter predicate_of ps,
                             ps_rollback_status = rollback_text rollback\<rparr>
                   | _ \<Rightarrow> None)))"

definition body_without_signature :: "(string \<times> json) list \<Rightarrow> (string \<times> json) list" where
  "body_without_signature doc = filter (\<lambda>kv. fst kv \<noteq> ''signature'') doc"

definition read_snapshot ::
  "snapshot_reader \<Rightarrow> snapshot_disk \<Rightarrow> intent option \<Rightarrow> mark_file \<Rightarrow> policy_snapshot option \<times> mark_file" where
  "read_snapshot rd w i f =
     (case sd_doc w of
        Some (JObj doc) \<Rightarrow>
          (case int_value (key_or JNull doc ''generation'') of
             None \<Rightarrow> (Some unavailable_snapshot, f)
           | Some generation \<Rightarrow>
               let body = body_without_signature doc; canon = canonical_json (JObj body);
                   status = signature_of rd canon (key_or JNull doc ''signature'');
                   content = ''sha256:'' @ sd_sha256 w canon
               in (case rolled_back rd w status generation content (map_of body ''content_hash'') f of
                     (rollback, f') \<Rightarrow>
                       if rollback \<and> sn_enforce rd
                       then (Some (unavailable_snapshot\<lparr>ps_generation := generation, ps_hash := content,
                                     ps_signature := status, ps_rollback_status := rollback_text True\<rparr>), f')
                       else (snapshot_parts rd w i doc generation content status rollback, f')))
      | _ \<Rightarrow> (Some unavailable_snapshot, f))"

section \<open>The verifiers of a signature\<close>

text \<open>
  \<open>hmac_sha256_verifier\<close> and \<open>ed25519_verifier\<close>: the mac and the check of a decoded signature are arguments;
  \<open>decode\<close> is base64 with validation.
\<close>

definition hmac_sha256_verifier :: "(string \<Rightarrow> string) \<Rightarrow> string \<Rightarrow> json \<Rightarrow> signature_status" where
  "hmac_sha256_verifier mac body sig =
     (case sig of
        JObj kvs \<Rightarrow>
          if key_or JNull kvs ''alg'' \<noteq> JStr ''hmac-sha256'' then INVALID
          else (case key_or JNull kvs ''value'' of
                  JStr v \<Rightarrow> if v \<noteq> [] \<and> v = mac body then VALID else INVALID
                | _ \<Rightarrow> INVALID)
      | _ \<Rightarrow> INVALID)"

definition ed25519_verifier ::
  "string \<Rightarrow> (string \<Rightarrow> string option) \<Rightarrow> (string \<Rightarrow> string \<Rightarrow> bool) \<Rightarrow> string \<Rightarrow> json \<Rightarrow> signature_status" where
  "ed25519_verifier key_id decode check body sig =
     (case sig of
        JObj kvs \<Rightarrow>
          (case key_or JNull kvs ''ed25519'' of
             JObj n \<Rightarrow>
               if key_or JNull n ''key_id'' \<noteq> JStr key_id then INVALID
               else (case key_or JNull n ''value'' of
                       JStr v \<Rightarrow> (case decode v of
                           None \<Rightarrow> INVALID
                         | Some raw \<Rightarrow> if length raw = 64 \<and> check raw body then VALID else INVALID)
                     | _ \<Rightarrow> INVALID)
           | _ \<Rightarrow> INVALID)
      | _ \<Rightarrow> INVALID)"

end
