(* ===== verification/Providers.thy ===== *)
theory Providers
  imports Inputs
begin

text \<open>
  The other providers the engine asks (\<open>cea/input_providers\<close>, \<open>cea/memory.py\<close>): one client of the command that
  answers for the capability registry and the incident memory, the two wrappers that let memory tighten the
  decision, the gate of the snapshot's records, the row of the runtime state and the budget of a provider.
\<close>

section \<open>The client (\<open>AdmissionInputsClient\<close>)\<close>

type_synonym fields = "(string \<times> json) list"

text \<open>The client keeps its last good answer under the text of the request.\<close>

type_synonym client = "(string \<times> fields) option"

definition intent_payload :: "intent \<Rightarrow> json" where
  "intent_payload i =
     (let ident = in_identity i; t = id_target ident
      in JObj [(''project'', JStr (id_project ident)), (''work_class'', JStr (work_class_value (id_work_class ident))),
               (''capability_id'', json_opt (id_capability_id ident)),
               (''authority_decision_ids'', JArr (map JStr (id_authority_decision_ids ident))),
               (''target'', JObj [(''repo'', JStr (t_repo t)), (''base_ref'', JStr (t_base_ref t)),
                                  (''scope_anchors'', JArr (map JStr (t_scope_anchors t)))])])"

definition inputs_request :: "intent \<Rightarrow> json" where
  "inputs_request i = JObj [(''intent'', intent_payload i), (''text'', JStr (in_description i))]"

definition accepted_answer :: "json \<Rightarrow> fields option" where
  "accepted_answer v =
     (case v of
        JObj kvs \<Rightarrow>
          if key_or JNull kvs ''schema'' = JStr ''admission-inputs/v1'' \<and> ''error'' \<notin> fst ` set kvs then Some kvs else None
      | _ \<Rightarrow> None)"

text \<open>\<open>provide\<close>: \<open>run\<close> is the command, \<open>None\<close> when it does not answer with JSON; the answer \<open>None\<close> is
  \<open>InputUnavailable\<close>.\<close>

definition provide :: "(json \<Rightarrow> json option) \<Rightarrow> intent \<Rightarrow> client \<Rightarrow> fields option \<times> client" where
  "provide run i c =
     (let key = canonical_json (inputs_request i)
      in case c of
           Some (k, kvs) \<Rightarrow>
             if k = key then (Some kvs, c)
             else (case Option.bind (run (inputs_request i)) accepted_answer of
                     None \<Rightarrow> (None, c) | Some out \<Rightarrow> (Some out, Some (key, out)))
         | None \<Rightarrow>
             (case Option.bind (run (inputs_request i)) accepted_answer of
                None \<Rightarrow> (None, c) | Some out \<Rightarrow> (Some out, Some (key, out))))"

section \<open>Capability ownership (\<open>E4CapabilityProvider\<close>)\<close>

definition matched_of :: "json \<Rightarrow> matched_capability option" where
  "matched_of v =
     (case v of
        JObj m \<Rightarrow>
          if json_truthy (key_or JNull m ''capability_id'')
          then (let owner = (if json_truthy (key_or JNull m ''owning_project'') then shown (key_or JNull m ''owning_project'')
                             else ''UNKNOWN'')
                in Some \<lparr>mc_id = shown (key_or JNull m ''capability_id''), mc_owner = owner, mc_repo = owner\<rparr>)
          else None
      | _ \<Rightarrow> None)"

definition stale_match :: "json \<Rightarrow> bool" where
  "stale_match v = (case v of JObj m \<Rightarrow> matched_of v \<noteq> None \<and> json_truthy (key_or JNull m ''stale_record'') | _ \<Rightarrow> False)"

definition undeclared :: "fields \<Rightarrow> bool" where
  "undeclared d \<longleftrightarrow> json_truthy (key_or JNull d ''capability_id'') \<and> key_or JNull d ''found'' = JBool False"

definition either_value :: "json \<Rightarrow> json \<Rightarrow> json" where
  "either_value a b = (if json_truthy a then a else b)"

text \<open>\<open>lookup\<close> on an answer of the client; \<open>None\<close> when a block of the answer has another shape.\<close>

definition e4_answer :: "fields \<Rightarrow> capability_lookup option" where
  "e4_answer out =
     (case object_or_empty (key_or JNull out ''capability'') of
        None \<Rightarrow> None
      | Some cap \<Rightarrow>
          (case object_or_empty (key_or JNull cap ''registry'') of
             None \<Rightarrow> None
           | Some reg \<Rightarrow>
               let status = either_value (key_or JNull cap ''status'') (key_or JNull reg ''status'');
                   generation = key_or JNull reg ''generation''; hash = key_or JNull reg ''hash''
               in if status = JStr ''UNAVAILABLE'' \<or> \<not> json_truthy hash \<or> generation = JNull then Some unavailable_registry
                  else (case (iterated (key_or JNull cap ''matches''), object_or_empty (key_or JNull cap ''declared_capability'')) of
                          (Some ms, Some declared) \<Rightarrow>
                            Some \<lparr>cl_registry = Some \<lparr>rr_generation = Gen_Text (shown generation), rr_hash = shown hash\<rparr>,
                                  cl_matches = List.map_filter matched_of ms, cl_anchor_matches = [], cl_available = True,
                                  cl_stale = (status \<noteq> JStr ''OK'' \<or> list_ex stale_match ms \<or> undeclared declared)\<rparr>
                        | _ \<Rightarrow> None)))"

definition e4_lookup :: "(json \<Rightarrow> json option) \<Rightarrow> intent \<Rightarrow> client \<Rightarrow> capability_lookup option \<times> client" where
  "e4_lookup run i c =
     (case provide run i c of
        (None, c1) \<Rightarrow> (Some unavailable_registry, c1)
      | (Some out, c1) \<Rightarrow> (e4_answer out, c1))"

section \<open>Incident memory\<close>

text \<open>\<open>l3_matches\<close> on an answer: the entries of high confidence; memory may be unavailable, or the call raise.\<close>

datatype l3 = L3_Unavailable | L3_Raises | L3_Entries "fields list"

definition high_match :: "fields \<Rightarrow> bool option" where
  "high_match m = map_option (\<lambda>x. key_or JNull x ''confidence'' = JStr ''HIGH'') (object_or_empty (key_or JNull m ''match''))"

fun high_entries :: "json list \<Rightarrow> fields list option" where
  "high_entries [] = Some []"
| "high_entries (JObj m # vs) =
     (case (high_match m, high_entries vs) of
        (Some b, Some ms) \<Rightarrow> Some (if b then m # ms else ms) | _ \<Rightarrow> None)"
| "high_entries (_ # vs) = high_entries vs"

definition l3_matches :: "fields option \<Rightarrow> l3" where
  "l3_matches reply =
     (case reply of
        None \<Rightarrow> L3_Unavailable
      | Some out \<Rightarrow>
          (case object_or_empty (key_or JNull out ''incident_memory'') of
             None \<Rightarrow> L3_Raises
           | Some mem \<Rightarrow>
               if key_or JNull mem ''status'' \<notin> {JStr ''OK'', JStr ''DEGRADED''} then L3_Unavailable
               else (case Option.bind (iterated (key_or JNull mem ''matches'')) high_entries of
                       None \<Rightarrow> L3_Raises | Some es \<Rightarrow> L3_Entries es)))"

definition superseded_entries :: "policy_snapshot \<Rightarrow> string list" where
  "superseded_entries snap = (if ps_available snap then concat (map dr_supersedes (authority_revs snap)) else [])"

text \<open>\<open>key in basis\<close>, and the first of the matched.\<close>

fun part_of :: "string \<Rightarrow> string \<Rightarrow> bool" where
  "part_of k [] = (k = [])"
| "part_of k (c # cs) = (startswith (c # cs) k \<or> part_of k cs)"

definition names_key :: "json \<Rightarrow> string \<Rightarrow> bool option" where
  "names_key v k =
     (if \<not> json_truthy v then Some False
      else case v of JArr xs \<Rightarrow> Some (JStr k \<in> set xs) | JObj kvs \<Rightarrow> Some (k \<in> fst ` set kvs) | JStr s \<Rightarrow> Some (part_of k s)
           | _ \<Rightarrow> None)"

definition first_of :: "json \<Rightarrow> json option" where
  "first_of v =
     (if \<not> json_truthy v then Some JNull
      else case v of JArr (x # xs) \<Rightarrow> Some x | JStr (c # cs) \<Rightarrow> Some (JStr [c]) | _ \<Rightarrow> None)"

definition matched_target :: "fields \<Rightarrow> json option" where
  "matched_target e =
     (case object_or_empty (key_or JNull e ''match'') of
        None \<Rightarrow> None
      | Some m \<Rightarrow>
          let basis = key_or JNull m ''basis''
          in (case (names_key basis ''reuse_target'', names_key basis ''capability_id'') of
                (Some a, Some b) \<Rightarrow> if a \<or> b then first_of (key_or JNull m ''matched'') else Some JNull
              | _ \<Rightarrow> None))"

definition target_of :: "fields \<Rightarrow> json option" where
  "target_of e = (let v = key_or JNull e ''reuse_target'' in if json_truthy v then Some v else matched_target e)"

text \<open>The reuse targets memory adds: not those the registry matched, each once.\<close>

fun reuse_matches :: "(string \<times> string) list \<Rightarrow> string list \<Rightarrow> fields list \<Rightarrow> matched_capability list option" where
  "reuse_matches owners have [] = Some []"
| "reuse_matches owners have (e # es) =
     (case target_of e of
        None \<Rightarrow> None
      | Some v \<Rightarrow>
          if key_or JNull e ''recorded_disposition'' \<noteq> JStr ''REUSE'' \<or> \<not> json_truthy v then reuse_matches owners have es
          else (case v of
                  JStr s \<Rightarrow>
                    if s \<in> set have then reuse_matches owners have es
                    else (let owner = (case map_of owners s of Some a \<Rightarrow> if a \<noteq> [] then a else fst (py_partition CHR ''.'' s)
                                       | None \<Rightarrow> fst (py_partition CHR ''.'' s))
                          in map_option ((#) \<lparr>mc_id = s, mc_owner = owner, mc_repo = owner\<rparr>) (reuse_matches owners (s # have) es))
                | _ \<Rightarrow> None))"

definition memory_lookup :: "(json \<Rightarrow> json option) \<Rightarrow> intent \<Rightarrow> client \<Rightarrow> capability_lookup option \<times> client" where
  "memory_lookup run i c =
     (case e4_lookup run i c of
        (None, c1) \<Rightarrow> (None, c1)
      | (Some base, c1) \<Rightarrow>
          if \<not> cl_available base then (Some base, c1)
          else (case provide run i c1 of
                  (reply, c2) \<Rightarrow>
                    (case l3_matches reply of
                       L3_Unavailable \<Rightarrow> (Some (base\<lparr>cl_available := False\<rparr>), c2)
                     | L3_Raises \<Rightarrow> (None, c2)
                     | L3_Entries es \<Rightarrow>
                         (map_option (\<lambda>extra. base\<lparr>cl_matches := extra @ cl_matches base\<rparr>)
                            (reuse_matches (rev (map (\<lambda>m. (mc_id m, mc_owner m)) (cl_matches base)))
                               (map mc_id (cl_matches base @ cl_anchor_matches base)) es), c2))))"

section \<open>The gate\<close>

text \<open>\<open>SnapshotRecordGate\<close>: a grant must name a record of the snapshot.\<close>

definition snapshot_record_gate :: "intent \<Rightarrow> policy_snapshot \<Rightarrow> human_gate" where
  "snapshot_record_gate i snap =
     (case snapshot_human_gate i snap of
        GRANTED d \<Rightarrow> if d \<in> Some ` dr_decision_id ` set (ps_decisions snap) then GRANTED d else PENDING
      | g \<Rightarrow> g)"

fun gate_tightness :: "human_gate \<Rightarrow> nat" where
  "gate_tightness NOT_REQUIRED = 0"
| "gate_tightness (GRANTED d) = 0"
| "gate_tightness PENDING = 1"
| "gate_tightness DENIED = 2"

definition entry_gate :: "fields \<Rightarrow> human_gate" where
  "entry_gate e = (if key_or JNull e ''recorded_disposition'' = JStr ''BLOCK'' then DENIED else PENDING)"

definition lifted :: "policy_snapshot \<Rightarrow> fields \<Rightarrow> bool" where
  "lifted snap e = (case key_or JNull e ''id'' of JStr s \<Rightarrow> s \<in> set (superseded_entries snap) | _ \<Rightarrow> False)"

fun strongest :: "human_gate \<Rightarrow> human_gate list \<Rightarrow> human_gate" where
  "strongest g [] = g"
| "strongest g (w # ws) = strongest (if gate_tightness g < gate_tightness w then w else g) ws"

definition memory_gate ::
  "(json \<Rightarrow> json option) \<Rightarrow> (intent \<Rightarrow> policy_snapshot \<Rightarrow> human_gate) \<Rightarrow> intent \<Rightarrow> policy_snapshot \<Rightarrow> client
     \<Rightarrow> human_gate option \<times> client" where
  "memory_gate run held i snap c =
     (case provide run i c of
        (reply, c1) \<Rightarrow>
          (case l3_matches reply of
             L3_Entries es \<Rightarrow>
               let top = strongest NOT_REQUIRED (map entry_gate (filter (\<lambda>e. \<not> lifted snap e) es))
               in (Some (if gate_tightness (held i snap) < gate_tightness top then top else held i snap), c1)
           | _ \<Rightarrow> (None, c1)))"

section \<open>The row of the runtime state (\<open>QueueRuntimeStateProvider\<close>)\<close>

fun runtime_of_text :: "string \<Rightarrow> runtime_state option" where
  "runtime_of_text s =
     (if s = ''ACTIVE'' then Some ACTIVE else if s = ''DRAINING'' then Some DRAINING
      else if s = ''QUARANTINED'' then Some QUARANTINED else if s = ''STOPPED'' then Some STOPPED else None)"

text \<open>The row is the state's text and the epoch; \<open>None\<close> when it cannot be read or is not there.\<close>

definition runtime_current :: "(string \<times> int option) option \<Rightarrow> runtime_snapshot" where
  "runtime_current row =
     (case row of
        None \<Rightarrow> unavailable_runtime
      | Some (s, e) \<Rightarrow>
          (case runtime_of_text s of
             None \<Rightarrow> unavailable_runtime
           | Some st \<Rightarrow> \<lparr>rs_state = st, rs_epoch = (case e of None \<Rightarrow> 0 | Some n \<Rightarrow> n), rs_read_failed = False\<rparr>))"

section \<open>The budget (\<open>QuotaBudgetProvider\<close>)\<close>

text \<open>
  What the quota cache holds at the keys that are read: the time it was fetched, whether it reports an error,
  the account it was taken for, the utilization of the windows that have a number, and the remaining fraction
  of the buckets that have one. The cooldown file has an end for the provider, none, or cannot be read.
\<close>

datatype cooldown = Cooldown_Unreadable | No_Cooldown | Cooldown_Until time

record quota_cache =
  qc_fetched_at :: time
  qc_error :: bool
  qc_fingerprint :: "string option"
  qc_windows :: "real list"
  qc_buckets :: "real list"

record quota_reader =
  qr_credit_class :: "string \<Rightarrow> string option"
  qr_max_age :: time
  qr_constrained_at :: real

definition stale_budget :: "quota_reader \<Rightarrow> string \<Rightarrow> time option \<Rightarrow> provider_budget" where
  "stale_budget qr provider seen =
     \<lparr>pb_provider = Some provider,
      pb_state = (if qr_credit_class qr provider = Some ''plan'' then Budget CONSTRAINED else Budget_Unverified),
      pb_observed_at = seen\<rparr>"

definition active_cooldown_until :: "time \<Rightarrow> cooldown \<Rightarrow> time option option" where
  "active_cooldown_until now cd =
     (case cd of Cooldown_Unreadable \<Rightarrow> Some None | No_Cooldown \<Rightarrow> None
      | Cooldown_Until u \<Rightarrow> if now < u then Some (Some u) else None)"

definition observed_use :: "quota_cache \<Rightarrow> real list" where
  "observed_use qc = qc_windows qc @ map (\<lambda>r. 1 - r) (filter (\<lambda>r. 0 \<le> r \<and> r \<le> 1) (qc_buckets qc))"

definition provider_quota ::
  "quota_reader \<Rightarrow> time \<Rightarrow> cooldown \<Rightarrow> quota_cache option \<Rightarrow> string option \<Rightarrow> string \<Rightarrow> provider_budget" where
  "provider_quota qr now cd cache account provider =
     (if cd = Cooldown_Unreadable then stale_budget qr provider None
      else case cache of
        None \<Rightarrow> stale_budget qr provider None
      | Some qc \<Rightarrow>
          let seen = Some (qc_fetched_at qc); top = foldl max 0 (observed_use qc)
          in if (case cd of Cooldown_Until u \<Rightarrow> now < u | _ \<Rightarrow> False)
             then \<lparr>pb_provider = Some provider, pb_state = Budget EXHAUSTED, pb_observed_at = seen\<rparr>
             else if provider = ''codex'' \<and> (account = None \<or> qc_fingerprint qc \<noteq> account)
             then \<lparr>pb_provider = Some provider, pb_state = Budget_Unverified, pb_observed_at = seen\<rparr>
             else if qc_error qc \<or> qr_max_age qr < now - qc_fetched_at qc then stale_budget qr provider seen
             else if observed_use qc = [] then stale_budget qr provider seen
             else \<lparr>pb_provider = Some provider,
                   pb_state = Budget (if 1 \<le> top then EXHAUSTED else if qr_constrained_at qr \<le> top then CONSTRAINED else BUDGET_OK),
                   pb_observed_at = seen\<rparr>)"

text \<open>
  \<open>_codex_fingerprint\<close>: \<open>claims\<close> decodes the second part of the identity token to an object. The fingerprint
  of the account is sixteen digits of its hash.
\<close>

definition claim_names :: "(string \<Rightarrow> fields option) \<Rightarrow> json \<Rightarrow> json list option" where
  "claim_names claims tok =
     (case tok of
        JNull \<Rightarrow> Some []
      | JStr s \<Rightarrow>
          (case py_split CHR ''.'' s of
             a # body # rest \<Rightarrow>
               (case claims body of
                  None \<Rightarrow> None
                | Some cs \<Rightarrow>
                    (case key_or (JObj []) cs ''https://api.openai.com/auth'' of
                       JObj nested \<Rightarrow> Some [key_or JNull cs ''chatgpt_account_id'', key_or JNull nested ''chatgpt_account_id'']
                     | _ \<Rightarrow> None))
           | _ \<Rightarrow> None)
      | _ \<Rightarrow> None)"

definition codex_fingerprint :: "(string \<Rightarrow> string) \<Rightarrow> (string \<Rightarrow> fields option) \<Rightarrow> json option \<Rightarrow> string option" where
  "codex_fingerprint sha claims auth =
     (case auth of
        Some (JObj kvs) \<Rightarrow>
          (case map_of kvs ''tokens'' of
             Some (JObj tokens) \<Rightarrow>
               (case (claim_names claims (key_or JNull tokens ''id_token''), key_or JNull tokens ''account_id'') of
                  (Some names, JStr acc) \<Rightarrow>
                    if acc \<noteq> [] \<and> list_all (\<lambda>v. v = JNull \<or> v = JStr acc) names
                    then Some (''sha256:'' @ take 16 (sha acc)) else None
                | _ \<Rightarrow> None)
           | _ \<Rightarrow> None)
      | _ \<Rightarrow> None)"

end
