(* ===== verification/Callers.thy ===== *)
theory Callers
  imports Providers Admission
begin

text \<open>
  Who may ask the authority, and over which wire (\<open>cea/auth.py\<close>, \<open>cea/service.py\<close>): the table of adapter
  tokens, the authenticators, the request as it is put on a socket and read from it, the service in front of
  the engine, and the two clients. A socket is what it delivers; the receipt in a reply is the record itself.
  An intent carries its \<open>shadow\<close> flag and its \<open>extra\<close> fields beside it, since the engine does not read them.
\<close>

section \<open>Adapter tokens (\<open>auth.py\<close>)\<close>

record adapter_identity =
  ai_principal :: string
  ai_provenance :: caller_provenance

fun caller_provenance_value :: "caller_provenance \<Rightarrow> string" where
  "caller_provenance_value CRON = ''cron''"
| "caller_provenance_value DIRECT = ''direct''"
| "caller_provenance_value COORDINATOR = ''coordinator''"
| "caller_provenance_value MANUAL = ''manual''"
| "caller_provenance_value CASCADE = ''cascade''"
| "caller_provenance_value RETRY = ''retry''"
| "caller_provenance_value WATCHDOG = ''watchdog''"

definition caller_provenances :: "caller_provenance list" where
  "caller_provenances = [CRON, DIRECT, COORDINATOR, MANUAL, CASCADE, RETRY, WATCHDOG]"

definition provenance_of_text :: "json \<Rightarrow> caller_provenance option" where
  "provenance_of_text v = find (\<lambda>p. v = JStr (caller_provenance_value p)) caller_provenances"

text \<open>\<open>AuthenticationError\<close>, and any other exception.\<close>

datatype auth_error = Not_Consulted | Auth_Raises

type_synonym token_table = "(string \<times> adapter_identity) list"

fun table_rows :: "(string \<times> json) list \<Rightarrow> auth_error + token_table" where
  "table_rows [] = Inr []"
| "table_rows ((token, entry) # rest) =
     (case entry of
        JObj kvs \<Rightarrow>
          if token = [] then Inl Not_Consulted
          else (case (key_or JNull kvs ''principal'', provenance_of_text (key_or JNull kvs ''provenance'')) of
                  (JStr who, Some prov) \<Rightarrow>
                    if who = [] then Inl Not_Consulted
                    else (case table_rows rest of
                            Inl e \<Rightarrow> Inl e
                          | Inr rows \<Rightarrow> Inr ((token, \<lparr>ai_principal = who, ai_provenance = prov\<rparr>) # rows))
                | _ \<Rightarrow> Inl Not_Consulted)
      | _ \<Rightarrow> Inl Not_Consulted)"

definition parse_token_table :: "json \<Rightarrow> auth_error + token_table" where
  "parse_token_table body =
     (case object_or_empty body of
        None \<Rightarrow> Inl Auth_Raises
      | Some kvs \<Rightarrow>
          (case object_or_empty (key_or JNull kvs ''adapters'') of None \<Rightarrow> Inl Not_Consulted | Some rows \<Rightarrow> table_rows rows))"

text \<open>\<open>_match\<close> walks the whole table.\<close>

definition match_token :: "token_table \<Rightarrow> string option \<Rightarrow> adapter_identity option" where
  "match_token table credential =
     (case credential of None \<Rightarrow> None
      | Some presented \<Rightarrow>
          if presented = [] then None
          else foldl (\<lambda>found (token, who). if token = presented then Some who else found) None table)"

text \<open>
  The authenticators. A token file is its mode and its JSON body, each \<open>None\<close> when it cannot be read; the
  mask \<open>0o077\<close> keeps what the mode grants to the group and to others.
\<close>

datatype authenticator =
    Deny_All
  | Static_Tokens token_table
  | Token_File bool "nat option" "json option"

definition load_tokens :: "bool \<Rightarrow> nat option \<Rightarrow> json option \<Rightarrow> auth_error + token_table" where
  "load_tokens private_mode mode body =
     (case mode of None \<Rightarrow> Inl Not_Consulted
      | Some m \<Rightarrow>
          if private_mode \<and> m mod 64 \<noteq> 0 then Inl Not_Consulted
          else (case body of None \<Rightarrow> Inl Not_Consulted | Some v \<Rightarrow> parse_token_table v))"

fun authenticate_identity :: "authenticator \<Rightarrow> string option \<Rightarrow> auth_error + adapter_identity option" where
  "authenticate_identity Deny_All credential = Inr None"
| "authenticate_identity (Static_Tokens table) credential = Inr (match_token table credential)"
| "authenticate_identity (Token_File private_mode mode body) credential =
     (case load_tokens private_mode mode body of Inl e \<Rightarrow> Inl e | Inr table \<Rightarrow> Inr (match_token table credential))"

definition adapter_token_kind :: string where
  "adapter_token_kind = ''adapter_token''"

text \<open>\<open>authenticate\<close>: the caller it mints and the registry of minted callers afterwards.\<close>

definition authenticate ::
  "authenticator \<Rightarrow> nat list \<Rightarrow> nat \<Rightarrow> string option \<Rightarrow> auth_error + (caller \<times> nat list) option" where
  "authenticate a minted fresh credential =
     (case authenticate_identity a credential of
        Inl e \<Rightarrow> Inl e
      | Inr None \<Rightarrow> Inr None
      | Inr (Some who) \<Rightarrow>
          (case mint_caller minted fresh (ai_principal who) (ai_provenance who) adapter_token_kind of
             Inl _ \<Rightarrow> Inl Auth_Raises | Inr cm \<Rightarrow> Inr (Some cm)))"

definition authenticator_from_env :: "(string \<Rightarrow> string option) \<Rightarrow> (string \<Rightarrow> nat option \<times> json option) \<Rightarrow> authenticator" where
  "authenticator_from_env env file =
     (let path = env_text env ''AGENT_CREW_CEA_CALLER_TOKENS''
      in if path \<noteq> [] then Token_File True (fst (file path)) (snd (file path)) else Deny_All)"

text \<open>The loopback credentials: one random token per provenance.\<close>

definition in_process_table :: "(caller_provenance \<Rightarrow> string) \<Rightarrow> token_table" where
  "in_process_table tok =
     map (\<lambda>p. (tok p, \<lparr>ai_principal = ''agent_crew.in_process:'' @ caller_provenance_value p, ai_provenance = p\<rparr>)) caller_provenances"

definition in_process_caller :: "(caller_provenance \<Rightarrow> string) \<Rightarrow> nat list \<Rightarrow> nat \<Rightarrow> caller_provenance \<Rightarrow> auth_error + caller \<times> nat list" where
  "in_process_caller tok minted fresh p =
     (case authenticate (Static_Tokens (in_process_table tok)) minted fresh (Some (tok p)) of
        Inl e \<Rightarrow> Inl e | Inr None \<Rightarrow> Inl Not_Consulted | Inr (Some cm) \<Rightarrow> Inr cm)"

section \<open>The wire (\<open>service.py\<close>)\<close>

record wire_request =
  wq_intent :: intent
  wq_shadow :: bool
  wq_extra :: fields
  wq_credential :: "string option"
  wq_retry :: bool

definition encode_intent :: "wire_request \<Rightarrow> json" where
  "encode_intent q =
     (let i = wq_intent q; ident = in_identity i; t = id_target ident
      in JObj
        [(''intent'', JObj
           [(''identity'', JObj
              [(''project'', JStr (id_project ident)), (''work_class'', JStr (work_class_value (id_work_class ident))),
               (''target'', JObj [(''repo'', JStr (t_repo t)), (''base_ref'', JStr (t_base_ref t)),
                                  (''scope_anchors'', JArr (map JStr (t_scope_anchors t)))]),
               (''capability_id'', json_opt (id_capability_id ident)),
               (''authority_decision_ids'', JArr (map JStr (id_authority_decision_ids ident)))]),
            (''task_id'', JStr (in_task_id i)), (''task_type'', JStr (in_task_type i)),
            (''description'', JStr (in_description i)), (''coordinator_id'', json_opt (in_coordinator_id i)),
            (''shadow'', JBool (wq_shadow q)), (''idempotency_key'', json_opt (in_idempotency_key i)),
            (''parent_receipt_id'', json_opt (in_parent_receipt_id i)), (''extra'', JObj (wq_extra q))]),
         (''credential'', json_opt (wq_credential q)), (''retry'', JBool (wq_retry q))])"

definition work_classes :: "work_class list" where
  "work_classes = [IMPLEMENT, FIX, REVIEW_WORK, TEST_WORK, MERGE, OPS]"

definition work_class_of :: "json \<Rightarrow> work_class option" where
  "work_class_of v = find (\<lambda>c. v = JStr (work_class_value c)) work_classes"

text \<open>
  A field of the intent is a text, a text or null, or a list of texts. The code keeps a value of another type
  and fails on its first use; here the request is refused when it is read.
\<close>

definition plain_text :: "json \<Rightarrow> string option" where
  "plain_text v = (case v of JStr s \<Rightarrow> Some s | _ \<Rightarrow> None)"

definition opt_text_of :: "json \<Rightarrow> string option option" where
  "opt_text_of v = (case v of JNull \<Rightarrow> Some None | JStr s \<Rightarrow> Some (Some s) | _ \<Rightarrow> None)"

definition text_or_empty :: "json \<Rightarrow> string option" where
  "text_or_empty v = (if json_truthy v then plain_text v else Some [])"

fun all_texts :: "json list \<Rightarrow> string list option" where
  "all_texts [] = Some []"
| "all_texts (v # vs) = (case (v, all_texts vs) of (JStr s, Some ss) \<Rightarrow> Some (s # ss) | _ \<Rightarrow> None)"

definition texts_of :: "json \<Rightarrow> string list option" where
  "texts_of v = (if \<not> json_truthy v then Some [] else case v of JArr xs \<Rightarrow> all_texts xs | _ \<Rightarrow> None)"

definition fields_of :: "fields \<Rightarrow> string \<Rightarrow> fields option" where
  "fields_of kvs k = (case map_of kvs k of Some (JObj o1) \<Rightarrow> Some o1 | _ \<Rightarrow> None)"

definition decode_target :: "fields \<Rightarrow> target option" where
  "decode_target t =
     (case (map_of t ''repo'', map_of t ''base_ref'', texts_of (key_or JNull t ''scope_anchors'')) of
        (Some (JStr repo), Some (JStr base), Some as) \<Rightarrow> Some \<lparr>t_repo = repo, t_base_ref = base, t_scope_anchors = as\<rparr>
      | _ \<Rightarrow> None)"

definition decode_identity :: "fields \<Rightarrow> intent_identity option" where
  "decode_identity d =
     (case (map_of d ''project'', Option.bind (map_of d ''work_class'') work_class_of, Option.bind (fields_of d ''target'') decode_target,
            opt_text_of (key_or JNull d ''capability_id''), texts_of (key_or JNull d ''authority_decision_ids'')) of
        (Some (JStr p), Some wc, Some t, Some cap, Some ids) \<Rightarrow>
          Some \<lparr>id_project = p, id_work_class = wc, id_target = t, id_capability_id = cap, id_authority_decision_ids = ids\<rparr>
      | _ \<Rightarrow> None)"

definition decode_fields :: "fields \<Rightarrow> (intent \<times> bool \<times> fields) option" where
  "decode_fields i =
     (case (Option.bind (fields_of i ''identity'') decode_identity, Option.bind (map_of i ''task_id'') plain_text,
            text_or_empty (key_or JNull i ''task_type''), text_or_empty (key_or JNull i ''description''),
            opt_text_of (key_or JNull i ''coordinator_id''), opt_text_of (key_or JNull i ''idempotency_key''),
            opt_text_of (key_or JNull i ''parent_receipt_id''), object_or_empty (key_or JNull i ''extra'')) of
        (Some ident, Some tid, Some ty, Some descr, Some coord, Some idem, Some parent, Some extra) \<Rightarrow>
          Some (\<lparr>in_identity = ident, in_task_id = tid, in_task_type = ty, in_description = descr, in_coordinator_id = coord,
                 in_idempotency_key = idem, in_parent_receipt_id = parent\<rparr>, json_truthy (key_or JNull i ''shadow''), extra)
      | _ \<Rightarrow> None)"

definition decode_intent :: "json \<Rightarrow> wire_request option" where
  "decode_intent v =
     (case v of
        JObj payload \<Rightarrow>
          (case Option.bind (fields_of payload ''intent'') decode_fields of
             None \<Rightarrow> None
           | Some (i, shadow, extra) \<Rightarrow>
               Some \<lparr>wq_intent = i, wq_shadow = shadow, wq_extra = extra,
                     wq_credential = (case key_or JNull payload ''credential'' of JStr s \<Rightarrow> Some s | _ \<Rightarrow> None),
                     wq_retry = json_truthy (key_or JNull payload ''retry'')\<rparr>)
      | _ \<Rightarrow> None)"

section \<open>The service and its clients\<close>

datatype wire_reply = Wire_Unauthenticated | Wire_Unreachable | Wire_Error | Wire_Answer authorization

text \<open>\<open>EngineService\<close>: what a frame is answered, and the store after it. An exception rolls back.\<close>

definition serve ::
  "engine \<Rightarrow> authenticator \<Rightarrow> nat \<Rightarrow> time \<Rightarrow> string \<Rightarrow> json option \<Rightarrow> store \<Rightarrow> wire_reply \<times> store" where
  "serve e a caller_object now fresh frame s =
     (case Option.bind frame decode_intent of
        None \<Rightarrow> (Wire_Error, s)
      | Some q \<Rightarrow>
          (case authenticate a (en_minted e) caller_object (wq_credential q) of
             Inl Auth_Raises \<Rightarrow> (Wire_Error, s)
           | Inl Not_Consulted \<Rightarrow> (Wire_Unauthenticated, s)
           | Inr None \<Rightarrow> (Wire_Unauthenticated, s)
           | Inr (Some (c, minted)) \<Rightarrow>
               (case authorize_authenticated (e\<lparr>en_minted := minted\<rparr>) now fresh s (wq_intent q) c (wq_retry q) of
                  Inl _ \<Rightarrow> (Wire_Error, s) | Inr (auth, t) \<Rightarrow> (Wire_Answer auth, t))))"

datatype client_error = Engine_401 | Engine_Failed | Engine_Raised engine_error

text \<open>\<open>UnixSocketEngineClient.authorize\<close>: the caller given to it is not sent.\<close>

definition socket_authorize :: "wire_reply \<Rightarrow> client_error + authorization" where
  "socket_authorize reply =
     (case reply of Wire_Unauthenticated \<Rightarrow> Inl Engine_401 | Wire_Answer a \<Rightarrow> Inr a | _ \<Rightarrow> Inl Engine_Failed)"

text \<open>\<open>BrokerClient.decision\<close>: a reply from another user than the service's counts as no reply.\<close>

definition broker_decision :: "nat option \<Rightarrow> (wire_reply \<times> nat option) option \<Rightarrow> wire_reply" where
  "broker_decision expected got =
     (case got of None \<Rightarrow> Wire_Unreachable
      | Some (reply, uid) \<Rightarrow> if expected = None \<or> uid \<noteq> expected then Wire_Unreachable else reply)"

text \<open>\<open>BrokerDecisionClient.authorize\<close>: the store is the client's own, where a fallback writes.\<close>

definition fallback_engine :: "engine \<Rightarrow> engine" where
  "fallback_engine e =
     e\<lparr>en_fallback_reason := Some ''broker_unreachable'',
       en_key := (if embedded_authorization_permitted (en_mode e) then en_key e else None)\<rparr>"

definition raised :: "engine_error + authorization \<times> store \<Rightarrow> client_error + authorization \<times> store" where
  "raised r = (case r of Inl err \<Rightarrow> Inl (Engine_Raised err) | Inr v \<Rightarrow> Inr v)"

definition broker_authorize ::
  "engine \<Rightarrow> time \<Rightarrow> string \<Rightarrow> store \<Rightarrow> intent \<Rightarrow> caller \<Rightarrow> bool \<Rightarrow> wire_reply \<Rightarrow> client_error + authorization \<times> store" where
  "broker_authorize e now fresh s i c retry reply =
     (case reply of
        Wire_Unauthenticated \<Rightarrow> Inl Engine_401
      | Wire_Answer a \<Rightarrow> Inr (a, s)
      | _ \<Rightarrow>
          if reply = Wire_Unreachable \<or> \<not> embedded_authorization_permitted (en_mode e)
          then (if \<not> embedded_authorization_permitted (en_mode e)
                then raised (refuse_intent (fallback_engine e) now fresh s i c ''BROKER_UNREACHABLE''
                       ''CEA broker unreachable; embedded authorization is forbidden in enforce mode'')
                else raised (authorize (fallback_engine e) now fresh s i c retry))
          else Inl Engine_Failed)"

end
