(* ===== verification/Wiring.thy ===== *)
theory Wiring
  imports Callers
begin

text \<open>
  \<open>cea/wiring.py\<close>: which providers a runtime builds from its environment, and whether it installs the authority
  that may loosen the runtime state. Each slot is wired or reported unavailable; nothing here decides. What
  \<open>EngineConfig.from_env\<close> answers is an argument; a constructor does not raise.
\<close>

section \<open>The environment\<close>

text \<open>What can be read: a file, a directory, the queue's database, a key, and the verifier a public key gives.\<close>

record disk_view =
  dv_readable :: "string \<Rightarrow> bool"
  dv_directory :: "string \<Rightarrow> bool"
  dv_exists :: "string \<Rightarrow> bool"
  dv_key :: "string \<Rightarrow> string option"
  dv_ed25519 :: "string \<Rightarrow> (string \<Rightarrow> json \<Rightarrow> signature_status) option"
  dv_mac :: "string \<Rightarrow> string \<Rightarrow> string"
  dv_split :: "string \<Rightarrow> string list option"
  dv_json :: "string \<Rightarrow> json option"

fun first_set :: "(string \<Rightarrow> string option) \<Rightarrow> string list \<Rightarrow> string" where
  "first_set env [] = []"
| "first_set env (n # ns) = (if env_text env n \<noteq> [] then env_text env n else first_set env ns)"

definition or_default :: "string \<Rightarrow> string \<Rightarrow> string" where
  "or_default s d = (if s \<noteq> [] then s else d)"

definition readable_file :: "disk_view \<Rightarrow> string \<Rightarrow> bool" where
  "readable_file dv path \<longleftrightarrow> path \<noteq> [] \<and> dv_readable dv path"

definition capability_registry_path :: "(string \<Rightarrow> string option) \<Rightarrow> string" where
  "capability_registry_path env =
     or_default (first_set env [''AGENT_CREW_CEA_REGISTRY_PATH'', ''AGENT_CREW_CEA_CAPABILITY_REGISTRY''])
       ''/home/truhojun/alfred/governance/capability_registry.json''"

text \<open>\<open>_split_command\<close>: interpreter and script.\<close>

definition split_command :: "disk_view \<Rightarrow> string \<Rightarrow> string option \<times> string option" where
  "split_command dv command =
     (case dv_split dv command of
        Some [script] \<Rightarrow> (None, Some script) | Some (py # script # rest) \<Rightarrow> (Some py, Some script) | _ \<Rightarrow> (None, None))"

definition credit_class :: "disk_view \<Rightarrow> (string \<Rightarrow> string option) \<Rightarrow> (string \<times> string) list" where
  "credit_class dv env =
     (let raw = first_set env [''AGENT_CREW_CEA_CREDIT_CLASS'']
      in if raw = [] then []
         else case dv_json dv raw of Some (JObj kvs) \<Rightarrow> map (\<lambda>(k, v). (k, shown v)) kvs | _ \<Rightarrow> [])"

section \<open>The slots\<close>

text \<open>The verifier of the snapshot: none, or one and whether a key stands behind it.\<close>

definition hmac_key :: "disk_view \<Rightarrow> string \<Rightarrow> string" where
  "hmac_key dv path = (case dv_key dv path of None \<Rightarrow> [] | Some k \<Rightarrow> py_strip k)"

definition snapshot_verifier ::
  "disk_view \<Rightarrow> (string \<Rightarrow> string option) \<Rightarrow> (string \<Rightarrow> json \<Rightarrow> signature_status option) option \<times> bool" where
  "snapshot_verifier dv env =
     (let public = first_set env [''AGENT_CREW_CEA_SNAPSHOT_PUBKEY_FILE''];
          path = first_set env [''AGENT_CREW_CEA_SNAPSHOT_KEY_FILE'']
      in if public \<noteq> []
         then (case Option.bind (dv_key dv public) (dv_ed25519 dv) of
                 None \<Rightarrow> (Some (\<lambda>body sig. Some INVALID), False)
               | Some v \<Rightarrow> (Some (\<lambda>body sig. Some (v body sig)), True))
         else if path = [] then (None, False)
         else (let key = hmac_key dv path
               in if key \<noteq> [] then (Some (\<lambda>body sig. Some (hmac_sha256_verifier (dv_mac dv key) body sig)), True) else (None, False)))"

definition snapshot_path :: "(string \<Rightarrow> string option) \<Rightarrow> string" where
  "snapshot_path env =
     or_default (first_set env [''AGENT_CREW_CEA_SNAPSHOT_PATH'', ''AGENT_CREW_CEA_POLICY_SNAPSHOT''])
       ''/home/truhojun/alfred/governance/cea_policy_snapshot.json''"

definition mark_path :: "(string \<Rightarrow> string option) \<Rightarrow> mode \<Rightarrow> bool \<Rightarrow> string" where
  "mark_path env md keyed =
     (let given = first_set env [''AGENT_CREW_CEA_SNAPSHOT_HWM_FILE'']
      in if given \<noteq> [] \<or> \<not> keyed then given
         else if md = ENFORCE then ''/opt/agent_crew-authz/state/snapshot-hwm.json''
         else snapshot_path env @ ''.hwm'')"

definition day :: time where
  "day = 24 * 3600"

text \<open>\<open>_snapshot\<close>: the reader, and whether a key stands behind its verifier.\<close>

definition wired_snapshot :: "disk_view \<Rightarrow> (string \<Rightarrow> string option) \<Rightarrow> mode \<Rightarrow> snapshot_reader option \<times> bool" where
  "wired_snapshot dv env md =
     (if \<not> readable_file dv (snapshot_path env) then (None, False)
      else case snapshot_verifier dv env of
        (v, keyed) \<Rightarrow>
          (Some \<lparr>sn_verifier = v, sn_max_age = day, sn_hwm = mark_path env md keyed \<noteq> [], sn_enforce = (md = ENFORCE)\<rparr>, keyed))"

definition memory_command :: "(string \<Rightarrow> string option) \<Rightarrow> string" where
  "memory_command env =
     or_default (first_set env [''AGENT_CREW_CEA_MEMORY_CMD'', ''AGENT_CREW_CEA_ADMISSION_INPUTS''])
       ''python3 /home/truhojun/alfred/tools/admission_inputs.py''"

definition memory_wired :: "disk_view \<Rightarrow> (string \<Rightarrow> string option) \<Rightarrow> bool" where
  "memory_wired dv env = (case split_command dv (memory_command env) of (py, Some script) \<Rightarrow> readable_file dv script | _ \<Rightarrow> False)"

definition capabilities_wired :: "disk_view \<Rightarrow> (string \<Rightarrow> string option) \<Rightarrow> bool" where
  "capabilities_wired dv env \<longleftrightarrow> memory_wired dv env \<and> readable_file dv (capability_registry_path env)"

text \<open>\<open>_gates\<close>: none, the gate of the records, or that gate under memory.\<close>

datatype wired_gate = No_Gate | Record_Gate | Memory_Gate

definition gate_wired :: "bool \<Rightarrow> bool \<Rightarrow> wired_gate" where
  "gate_wired client snapshot = (if client then Memory_Gate else if snapshot then Record_Gate else No_Gate)"

definition runtime_wired :: "disk_view \<Rightarrow> string option \<Rightarrow> bool" where
  "runtime_wired dv db = (case db of None \<Rightarrow> False | Some p \<Rightarrow> p \<noteq> [] \<and> dv_exists dv p)"

definition quota_dir :: "(string \<Rightarrow> string option) \<Rightarrow> string" where
  "quota_dir env = or_default (first_set env [''AGENT_CREW_CEA_QUOTA_CACHE_DIR'']) ''/home/truhojun/alfred/quota''"

definition wired_budgets :: "disk_view \<Rightarrow> (string \<Rightarrow> string option) \<Rightarrow> quota_reader option" where
  "wired_budgets dv env =
     (if dv_directory dv (quota_dir env)
      then Some \<lparr>qr_credit_class = map_of (credit_class dv env), qr_max_age = 900, qr_constrained_at = 9 / 10\<rparr>
      else None)"

section \<open>The wiring\<close>

record wiring =
  wr_snapshots :: "snapshot_reader option"
  wr_capabilities :: bool
  wr_gate :: wired_gate
  wr_runtime :: bool
  wr_budgets :: "quota_reader option"
  wr_statuses :: "(string \<times> bool) list"
  wr_authority :: "snapshot_reader option"

definition slots :: "string list" where
  "slots = [''capabilities'', ''snapshots'', ''runtime'', ''budgets'', ''gates'']"

definition nothing_wired :: "(string \<times> bool) list \<Rightarrow> wiring" where
  "nothing_wired sts =
     \<lparr>wr_snapshots = None, wr_capabilities = False, wr_gate = No_Gate, wr_runtime = False, wr_budgets = None,
      wr_statuses = sts, wr_authority = None\<rparr>"

text \<open>\<open>_authority\<close>: only a verified snapshot may loosen.\<close>

definition loosening_reader :: "snapshot_reader option \<Rightarrow> bool \<Rightarrow> snapshot_reader option" where
  "loosening_reader rd keyed = (if keyed then rd else None)"

definition build_wiring ::
  "disk_view \<Rightarrow> (string \<Rightarrow> string option) \<Rightarrow> (mode \<times> string option) option \<Rightarrow> string option \<Rightarrow> wiring" where
  "build_wiring dv env config db =
     (case config of
        None \<Rightarrow> nothing_wired [(''config'', False)]
      | Some (md, endpoint) \<Rightarrow>
          if truthy endpoint then nothing_wired (map (\<lambda>s. (s, False)) slots)
          else (case wired_snapshot dv env md of
            (rd, keyed) \<Rightarrow>
              let client = memory_wired dv env; g = gate_wired client (rd \<noteq> None); bud = wired_budgets dv env
              in \<lparr>wr_snapshots = rd, wr_capabilities = capabilities_wired dv env, wr_gate = g,
                  wr_runtime = runtime_wired dv db, wr_budgets = bud,
                  wr_statuses = [(''snapshots'', rd \<noteq> None), (''capabilities'', capabilities_wired dv env),
                                 (''gates'', g \<noteq> No_Gate), (''runtime'', runtime_wired dv db), (''budgets'', bud \<noteq> None),
                                 (''l3_memory'', client)],
                  wr_authority = loosening_reader rd keyed\<rparr>))"

text \<open>
  The authority \<open>install_from_env\<close> puts in place: it reads the snapshot again at every question, so its answer
  depends on the disk of that moment. Without one every loosening is refused.
\<close>

definition installed_authority ::
  "wiring \<Rightarrow> snapshot_disk \<Rightarrow> mark_file \<Rightarrow> string option \<Rightarrow> string option \<Rightarrow> authority" where
  "installed_authority wr w f build project =
     (case wr_authority wr of
        None \<Rightarrow> refuse_all_loosening
      | Some rd \<Rightarrow>
          snapshot_authority (fst (read_snapshot rd w None f)) build (case project of None \<Rightarrow> [] | Some p \<Rightarrow> p) project)"

text \<open>
  The engine's providers (\<open>build_engine_from_env\<close>): a slot that is not wired keeps the engine's own, which
  reports absence. Each is asked once per decision, with the disk and the client of that moment.
\<close>

record provider_world =
  pw_disk :: snapshot_disk
  pw_mark :: mark_file
  pw_command :: "json \<Rightarrow> json option"
  pw_client :: client
  pw_row :: "(string \<times> int option) option"
  pw_cooldown :: "string \<Rightarrow> cooldown"
  pw_quota :: "string \<Rightarrow> quota_cache option"
  pw_account :: "string option"

definition wired_gate_state ::
  "wired_gate \<Rightarrow> provider_world \<Rightarrow> intent \<Rightarrow> policy_snapshot \<Rightarrow> human_gate option" where
  "wired_gate_state g p i snap =
     (case g of
        No_Gate \<Rightarrow> Some (snapshot_human_gate i snap)
      | Record_Gate \<Rightarrow> Some (snapshot_record_gate i snap)
      | Memory_Gate \<Rightarrow> fst (memory_gate (pw_command p) snapshot_record_gate i snap (pw_client p)))"

definition wired_engine :: "wiring \<Rightarrow> provider_world \<Rightarrow> engine \<Rightarrow> engine" where
  "wired_engine wr p e =
     e\<lparr>en_snapshots := (\<lambda>i. case wr_snapshots wr of None \<Rightarrow> Some unavailable_snapshot
                            | Some rd \<Rightarrow> fst (read_snapshot rd (pw_disk p) (Some i) (pw_mark p))),
       en_capabilities := (\<lambda>i. if wr_capabilities wr then fst (memory_lookup (pw_command p) i (pw_client p))
                               else Some unavailable_registry),
       en_runtime := Some (if wr_runtime wr then runtime_current (pw_row p) else unavailable_runtime),
       en_budgets := (\<lambda>who. Some (case wr_budgets wr of None \<Rightarrow> unavailable_budget who
                                  | Some qr \<Rightarrow> provider_quota qr (sd_clock (pw_disk p)) (pw_cooldown p who) (pw_quota p who) (pw_account p) who)),
       en_gates := wired_gate_state (wr_gate wr) p\<rparr>"

end
