(* ===== verification/Inputs_Safety.thy ===== *)
theory Inputs_Safety
  imports Wiring
begin

text \<open>
  What the signed inputs guarantee: an older snapshot is noticed and stops every admission, loosening rests on
  a signed record, memory only tightens, a budget is good only when it was observed.
\<close>

section \<open>The mark only rises\<close>

text \<open>What a mark file has seen, in the order of the marks; an unreadable file is beyond every snapshot.\<close>

definition mark_seen :: "mark_file \<Rightarrow> int \<Rightarrow> bool" where
  "mark_seen f g \<longleftrightarrow> (case read_mark True f of None \<Rightarrow> True | Some (old, h) \<Rightarrow> g \<le> old)"

lemma read_mark_boot: "read_mark b f = Some m \<Longrightarrow> read_mark True f = Some m"
  by (auto simp: read_mark_def split: mark_file.splits if_splits)

lemma read_mark_json: "read_mark b (Mark (mark_json g h)) = (if 0 \<le> g \<and> startswith h ''sha256:'' then Some (g, h) else None)"
  by (simp add: read_mark_def mark_json_def)

lemma check_keeps_seen:
  assumes "mark_seen f g"
  shows "mark_seen (snd (check_high_water_mark c f)) g"
proof (cases "read_mark (hw_bootstrap c) f")
  case None
  then show ?thesis using assms by (simp add: check_high_water_mark_def)
next
  case (Some m)
  obtain old h where m: "m = (old, h)" by fastforce
  have "g \<le> old" using assms read_mark_boot [OF Some] m by (simp add: mark_seen_def)
  then show ?thesis using assms Some m
    by (auto simp: check_high_water_mark_def Let_def mark_seen_def read_mark_json split: mark_write.splits)
qed

lemma check_passed_seen:
  assumes "check_high_water_mark c f = (True, f')"
  shows "mark_seen f' (hw_generation c)"
  using assms read_mark_boot [of "hw_bootstrap c" f]
  by (auto simp: check_high_water_mark_def Let_def mark_seen_def read_mark_json split: mark_write.splits if_splits option.splits)

lemma check_refuses_older:
  assumes "mark_seen f g" and "hw_generation c < g"
  shows "fst (check_high_water_mark c f) = False"
  using assms read_mark_boot [of "hw_bootstrap c" f]
  by (auto simp: check_high_water_mark_def Let_def mark_seen_def split: option.splits)

section \<open>Readings of the snapshot\<close>

lemma rolled_keeps_seen: "mark_seen f g \<Longrightarrow> mark_seen (snd (rolled_back rd w st n content signed f)) g"
  using check_keeps_seen [of f g] by (auto simp: rolled_back_def split: option.splits prod.splits) (metis snd_conv)+

lemma rolled_passed_seen:
  assumes "rolled_back rd w VALID n content signed f = (False, f')" and "sn_hwm rd"
  shows "mark_seen f' n"
  using assms check_passed_seen [of "mark_check_of rd w n content (case signed of None \<Rightarrow> JNull | Some v \<Rightarrow> v)" f f']
  by (auto simp: rolled_back_def mark_check_of_def split: option.splits prod.splits if_splits)

lemma rolled_refuses_older:
  assumes "mark_seen f g" and "n < g" and "sn_hwm rd"
  shows "fst (rolled_back rd w VALID n content signed f)"
  using assms check_refuses_older [of f g "mark_check_of rd w n content (case signed of None \<Rightarrow> JNull | Some v \<Rightarrow> v)"]
  by (auto simp: rolled_back_def mark_check_of_def split: option.splits prod.splits json.splits)

lemma parts_fields:
  assumes "snapshot_parts rd w i doc n content st rb = Some snap"
  shows "snap = unavailable_snapshot \<or> (ps_generation snap = n \<and> ps_signature snap = st \<and> ps_rollback_status snap = rollback_text rb)"
  using assms by (auto simp: snapshot_parts_def Let_def split: option.splits prod.splits)

text \<open>What a snapshot with a valid signature was read from.\<close>

lemma read_valid:
  assumes "read_snapshot rd w i f = (Some snap, f')" and "ps_signature snap = VALID"
  obtains doc n where "sd_doc w = Some (JObj doc)"
    "signature_of rd (canonical_json (JObj (body_without_signature doc))) (key_or JNull doc ''signature'') = VALID"
    "rolled_back rd w VALID n (''sha256:'' @ sd_sha256 w (canonical_json (JObj (body_without_signature doc))))
       (map_of (body_without_signature doc) ''content_hash'') f = (ps_rollback_status snap \<noteq> None, f')"
    "ps_generation snap = n"
    "ps_rollback_status snap = rollback_text (ps_rollback_status snap \<noteq> None)"
proof -
  obtain doc n where d: "sd_doc w = Some (JObj doc)" and n: "int_value (key_or JNull doc ''generation'') = Some n"
    using assms by (auto simp: read_snapshot_def unavailable_snapshot_def split: option.splits json.splits)
  let ?canon = "canonical_json (JObj (body_without_signature doc))" let ?content = "''sha256:'' @ sd_sha256 w ?canon"
  let ?st = "signature_of rd ?canon (key_or JNull doc ''signature'')"
  obtain rb f1 where r: "rolled_back rd w ?st n ?content (map_of (body_without_signature doc) ''content_hash'') f = (rb, f1)"
    by fastforce
  have st: "?st = VALID \<and> ps_generation snap = n \<and> ps_rollback_status snap = rollback_text rb \<and> f' = f1"
    using assms d n r parts_fields [of rd w i doc n ?content ?st rb snap]
    by (auto simp: read_snapshot_def Let_def unavailable_snapshot_def split: if_splits)
  then have "(ps_rollback_status snap \<noteq> None) = rb" by (simp add: rollback_text_def)
  with that [of doc n] d r st show thesis by (simp add: rollback_text_def)
qed

lemma read_keeps_seen: "mark_seen f g \<Longrightarrow> mark_seen (snd (read_snapshot rd w i f)) g"
  using rolled_keeps_seen [of f g]
  by (auto simp: read_snapshot_def Let_def split: option.splits json.splits prod.splits) (metis snd_conv)+

lemma read_snapshot_parts:
  assumes "read_snapshot rd w i f = (Some snap, f')" and "ps_available snap" and "ps_signature snap = VALID"
  shows "\<exists>doc n content rb. sd_doc w = Some (JObj doc)
    \<and> signature_of rd (canonical_json (JObj (body_without_signature doc))) (key_or JNull doc ''signature'') = VALID
    \<and> snapshot_parts rd w i doc n content VALID rb = Some snap"
proof -
  obtain doc n where d: "sd_doc w = Some (JObj doc)" and n: "int_value (key_or JNull doc ''generation'') = Some n"
    using assms by (auto simp: read_snapshot_def unavailable_snapshot_def split: option.splits json.splits)
  let ?canon = "canonical_json (JObj (body_without_signature doc))" let ?content = "''sha256:'' @ sd_sha256 w ?canon"
  let ?st = "signature_of rd ?canon (key_or JNull doc ''signature'')"
  obtain rb where p: "snapshot_parts rd w i doc n ?content ?st rb = Some snap"
    using assms d n by (auto simp: read_snapshot_def Let_def unavailable_snapshot_def split: prod.splits if_splits)
  have "?st = VALID" using parts_fields [OF p] assms(3) by (auto simp: unavailable_snapshot_def)
  with d p show ?thesis by metis
qed

text \<open>The file after some readings, by whatever readers share it.\<close>

fun mark_after :: "(snapshot_reader \<times> snapshot_disk \<times> intent option) list \<Rightarrow> mark_file \<Rightarrow> mark_file" where
  "mark_after [] f = f"
| "mark_after ((rd, w, i) # rest) f = mark_after rest (snd (read_snapshot rd w i f))"

lemma after_keeps_seen: "mark_seen f g \<Longrightarrow> mark_seen (mark_after rs f) g"
  by (induction rs f rule: mark_after.induct) (auto intro: read_keeps_seen)

text \<open>
  Claim C10: once a signed snapshot has passed the mark, every signed snapshot of an older generation that is read
  later, after whatever readings in between, is marked as rolled back, and the engine then blocks the intent
  before it looks at any other input.
\<close>

theorem rollback_is_blocked:
  assumes "read_snapshot rd w i f = (Some snap, f1)" and "ps_signature snap = VALID" and "ps_rollback_status snap = None"
    and "sn_hwm rd"
    and "read_snapshot rd2 w2 j (mark_after rs f1) = (Some old, f2)" and "ps_signature old = VALID"
    and "ps_generation old < ps_generation snap" and "sn_hwm rd2" and "ip_snapshot ip = old"
  shows "ps_rollback_status old = Some ''SNAPSHOT_ROLLBACK''
    \<and> decide k ip b unavailable reuse reviewer degraded = (BLOCK, ''SNAPSHOT_ROLLBACK'')"
proof -
  obtain doc n where r: "rolled_back rd w VALID n (''sha256:'' @ sd_sha256 w (canonical_json (JObj (body_without_signature doc))))
       (map_of (body_without_signature doc) ''content_hash'') f = (False, f1)" "ps_generation snap = n"
    by (rule read_valid [OF assms(1,2)]) (use assms(3) in auto)
  have seen: "mark_seen (mark_after rs f1) (ps_generation snap)"
    using after_keeps_seen [OF rolled_passed_seen [OF r(1) assms(4)]] r(2) by simp
  obtain doc2 n2 where o: "rolled_back rd2 w2 VALID n2 (''sha256:'' @ sd_sha256 w2 (canonical_json (JObj (body_without_signature doc2))))
       (map_of (body_without_signature doc2) ''content_hash'') (mark_after rs f1) = (ps_rollback_status old \<noteq> None, f2)"
      "ps_generation old = n2" "ps_rollback_status old = rollback_text (ps_rollback_status old \<noteq> None)"
    by (rule read_valid [OF assms(5,6)]) auto
  have "n2 < ps_generation snap" using assms(7) o(2) by simp
  have "ps_rollback_status old \<noteq> None"
    using rolled_refuses_older [OF seen \<open>n2 < ps_generation snap\<close> assms(8), of w2
        "''sha256:'' @ sd_sha256 w2 (canonical_json (JObj (body_without_signature doc2)))"
        "map_of (body_without_signature doc2) ''content_hash''"]
    unfolding o(1) by simp
  then have "ps_rollback_status old = Some ''SNAPSHOT_ROLLBACK''" using o(3) by (simp add: rollback_text_def)
  then show ?thesis by (simp add: decide_def assms(9))
qed

section \<open>Samples\<close>

definition signed_reader :: "bool \<Rightarrow> snapshot_reader" where
  "signed_reader strict = \<lparr>sn_verifier = Some (\<lambda>body sig. Some VALID), sn_max_age = day, sn_hwm = True, sn_enforce = strict\<rparr>"

definition signed_doc :: "int \<Rightarrow> (string \<times> json) list" where
  "signed_doc g =
     [(''generation'', JInt g), (''produced_at'', JInt 1000), (''signature'', JObj []),
      (''decisions'', JArr [JObj [(''decision_id'', JStr ''T0-1''), (''body_hash'', JStr ''b1''), (''supersedes'', JArr [JStr ''m1'']),
         (''principals'', JArr [JStr ''owner'']), (''build_commits'', JArr [JStr ''c1'']), (''runtimes'', JArr [JStr ''crew'']),
         (''scope'', JObj [(''project'', JStr ''crew'')])]])]"

definition signed_disk :: "int \<Rightarrow> snapshot_disk" where
  "signed_disk g =
     \<lparr>sd_doc = Some (JObj (signed_doc g)), sd_clock = 2000, sd_iso = (\<lambda>s. None), sd_sha256 = (\<lambda>s. []), sd_dir = True, sd_write = Written\<rparr>"

lemma signed_disk_simps [simp]:
  "sd_doc (signed_disk g) = Some (JObj (signed_doc g))" "sd_clock (signed_disk g) = 2000" "sd_iso (signed_disk g) = (\<lambda>s. None)"
  "sd_sha256 (signed_disk g) = (\<lambda>s. [])" "sd_dir (signed_disk g)" "sd_write (signed_disk g) = Written"
  by (simp_all add: signed_disk_def)

definition signed_rev :: decision_rev where
  "signed_rev =
     \<lparr>dr_decision_id = ''T0-1'', dr_body_hash = ''b1'', dr_supersedes = [''m1''], dr_principals = [''owner''], dr_build_commits = [''c1''],
      dr_runtimes = [''crew''], dr_project = Some ''crew'', dr_expires_at = None, dr_capabilities = [], dr_projects = [],
      dr_intent_hash = None, dr_scope_capability_id = None, dr_scope_work_class = None, dr_scope_repo = None\<rparr>"

definition signed_snapshot :: "int \<Rightarrow> bool \<Rightarrow> bool \<Rightarrow> policy_snapshot" where
  "signed_snapshot g rolled here =
     \<lparr>ps_generation = g, ps_hash = ''sha256:'', ps_decisions = [signed_rev], ps_in_scope = (if here then [signed_rev] else []),
      ps_signature = VALID, ps_available = True, ps_tier = None, ps_review_test_matrix = [], ps_human_gate_predicates = [],
      ps_rollback_status = rollback_text rolled\<rparr>"

lemma signed_decision: "decision_of (signed_disk g) (JObj
   [(''decision_id'', JStr ''T0-1''), (''body_hash'', JStr ''b1''), (''supersedes'', JArr [JStr ''m1'']),
    (''principals'', JArr [JStr ''owner'']), (''build_commits'', JArr [JStr ''c1'']), (''runtimes'', JArr [JStr ''crew'']),
    (''scope'', JObj [(''project'', JStr ''crew'')])]) = Some (Some signed_rev)"
  by (simp add: decision_of_def key_or_def rev_of_def scope_of_def id_texts_def shown_def scope_project_def text_unless_false_def
    signed_rev_def)

lemma signed_parts:
  "snapshot_parts (signed_reader strict) (signed_disk g) i (signed_doc g) g ''sha256:'' VALID rolled
     = Some (signed_snapshot g rolled (in_scope [(''project'', JStr ''crew'')] i))"
  by (simp add: snapshot_parts_def signed_doc_def key_or_def iterated_def object_or_empty_def signed_decision [unfolded key_or_def]
    scope_of_def signed_snapshot_def epoch_of_def matrix_of_def List.map_filter_def signed_reader_def day_def)

lemma signed_status: "signature_of (signed_reader strict) canon (key_or JNull (signed_doc g) ''signature'') = VALID"
  by (simp add: signature_of_def signed_reader_def key_or_def signed_doc_def)

definition signed_mark_check :: "bool \<Rightarrow> int \<Rightarrow> mark_check" where
  "signed_mark_check strict g =
     \<lparr>hw_dir = True, hw_write = Written, hw_generation = g, hw_hash = ''sha256:'', hw_bootstrap = \<not> strict, hw_legacy = None\<rparr>"

lemma signed_rolled:
  "rolled_back (signed_reader strict) (signed_disk g) VALID g ''sha256:'' None f
     = (case check_high_water_mark (signed_mark_check strict g) f of (ok, f') \<Rightarrow> (\<not> ok, f'))"
  by (simp add: rolled_back_def mark_check_of_def signed_mark_check_def) (simp add: signed_reader_def)

lemma signed_read:
  "read_snapshot (signed_reader False) (signed_disk g) i f
     = (case check_high_water_mark (signed_mark_check False g) f of
          (ok, f') \<Rightarrow> (Some (signed_snapshot g (\<not> ok) (in_scope [(''project'', JStr ''crew'')] i)), f'))"
proof -
  have "int_value (key_or JNull (signed_doc g) ''generation'') = Some g" by (simp add: signed_doc_def key_or_def int_value_def)
  moreover have "map_of (body_without_signature (signed_doc g)) ''content_hash'' = None"
    by (simp add: signed_doc_def body_without_signature_def)
  moreover have "\<not> sn_enforce (signed_reader False)" by (simp add: signed_reader_def)
  ultimately show ?thesis
    by (simp add: read_snapshot_def Let_def signed_status signed_rolled signed_parts split: prod.splits)
qed

lemma signed_read_newer:
  "read_snapshot (signed_reader False) (signed_disk 5) None No_Mark
     = (Some (signed_snapshot 5 False True), Mark (mark_json 5 ''sha256:''))"
  by (simp add: signed_read check_high_water_mark_def signed_mark_check_def read_mark_def in_scope_def)

lemma signed_read_older:
  "read_snapshot (signed_reader False) (signed_disk 3) None (Mark (mark_json 5 ''sha256:''))
     = (Some (signed_snapshot 3 True True), Mark (mark_json 5 ''sha256:''))"
  by (simp add: signed_read check_high_water_mark_def signed_mark_check_def read_mark_json in_scope_def)

definition blind_inputs :: "policy_snapshot \<Rightarrow> inputs" where
  "blind_inputs snap =
     \<lparr>ip_snapshot = snap, ip_registry = unavailable_registry, ip_runtime = unavailable_runtime,
      ip_budget = unavailable_budget ''claude'', ip_gate = NOT_REQUIRED, ip_raised = []\<rparr>"

theorem rollback_is_blocked_witness:
  "decide (sample_intent OPS) (blind_inputs (signed_snapshot 3 True True)) sample_binding [] None None False
     = (BLOCK, ''SNAPSHOT_ROLLBACK'')"
proof -
  have "read_snapshot (signed_reader False) (signed_disk 3) None (mark_after [] (Mark (mark_json 5 ''sha256:'')))
      = (Some (signed_snapshot 3 True True), Mark (mark_json 5 ''sha256:''))"
    by (simp add: signed_read_older)
  from rollback_is_blocked [OF signed_read_newer _ _ _ this, of "blind_inputs (signed_snapshot 3 True True)"]
  show ?thesis by (simp add: signed_snapshot_def signed_reader_def rollback_text_def blind_inputs_def)
qed

section \<open>Loosening\<close>

definition unmarked :: "policy_snapshot \<Rightarrow> policy_snapshot" where
  "unmarked s = s\<lparr>ps_rollback_status := None\<rparr>"

lemma parts_unmarked:
  "map_option unmarked (snapshot_parts rd w i doc n content st rb) = map_option unmarked (snapshot_parts rd w i doc n content st rb')"
  by (auto simp: snapshot_parts_def unmarked_def Let_def split: option.splits prod.splits)

lemma read_unmarked:
  assumes "\<not> sn_enforce rd"
  shows "map_option unmarked (fst (read_snapshot rd w i f)) = map_option unmarked (fst (read_snapshot rd w i f'))"
proof (cases "\<exists>doc n. sd_doc w = Some (JObj doc) \<and> int_value (key_or JNull doc ''generation'') = Some n")
  case True
  then obtain doc n where d: "sd_doc w = Some (JObj doc)" "int_value (key_or JNull doc ''generation'') = Some n" by blast
  have "fst (read_snapshot rd w i g) = snapshot_parts rd w i doc n (''sha256:'' @ sd_sha256 w (canonical_json (JObj (body_without_signature doc))))
     (signature_of rd (canonical_json (JObj (body_without_signature doc))) (key_or JNull doc ''signature''))
     (fst (rolled_back rd w (signature_of rd (canonical_json (JObj (body_without_signature doc))) (key_or JNull doc ''signature'')) n
        (''sha256:'' @ sd_sha256 w (canonical_json (JObj (body_without_signature doc))))
        (map_of (body_without_signature doc) ''content_hash'') g))" for g
    using assms d by (simp add: read_snapshot_def Let_def split: prod.split)
  then show ?thesis by (simp only: parts_unmarked)
next
  case False
  then have "fst (read_snapshot rd w i g) = Some unavailable_snapshot" for g
    by (auto simp: read_snapshot_def split: option.splits json.splits)
  then show ?thesis by simp
qed

lemma authority_unmarked:
  "snapshot_authority (map_option unmarked s) build runtime project = snapshot_authority s build runtime project"
  by (cases s) (simp_all add: fun_eq_iff snapshot_authority_def matching_records_def authority_revs_def unmarked_def Let_def)

lemma wired_authority:
  assumes "wr_authority (build_wiring dv env cfg db) = Some rd"
  shows "\<exists>md ep. cfg = Some (md, ep) \<and> wired_snapshot dv env md = (Some rd, True)"
  using assms by (auto simp: build_wiring_def nothing_wired_def loosening_reader_def Let_def split: option.splits prod.splits if_splits)

lemma wired_reader:
  assumes "wired_snapshot dv env md = (Some rd, True)"
  shows "sn_enforce rd = (md = ENFORCE)" and "sn_max_age rd = day" and "snapshot_verifier dv env = (sn_verifier rd, True)"
    and "sn_verifier rd \<noteq> None"
  using assms by (auto simp: wired_snapshot_def snapshot_verifier_def Let_def split: prod.splits if_splits option.splits)

text \<open>
  Claim C16: outside of enforce mode the authority that may loosen the runtime state does not look at the mark: it
  answers a signed snapshot the same whatever the mark says, so an old signed file put back in place restores
  the runtime although the engine blocks every intent on it.
\<close>

theorem rolled_back_snapshot_loosens:
  assumes "md \<noteq> ENFORCE"
  shows "installed_authority (build_wiring dv env (Some (md, ep)) db) w f build project frm dest who did
    = installed_authority (build_wiring dv env (Some (md, ep)) db) w f' build project frm dest who did"
proof (cases "wr_authority (build_wiring dv env (Some (md, ep)) db)")
  case None
  then show ?thesis by (simp add: installed_authority_def)
next
  case (Some rd)
  then have "\<not> sn_enforce rd" using wired_authority wired_reader(1) assms by blast
  then have "snapshot_authority (fst (read_snapshot rd w None f)) = snapshot_authority (fst (read_snapshot rd w None f'))"
    using read_unmarked authority_unmarked by (metis (no_types) ext)
  then show ?thesis using Some by (simp add: installed_authority_def)
qed

definition loosening_view :: disk_view where
  "loosening_view =
     \<lparr>dv_readable = (\<lambda>p. True), dv_directory = (\<lambda>p. False), dv_exists = (\<lambda>p. True), dv_key = (\<lambda>p. Some ''k''),
      dv_ed25519 = (\<lambda>k. Some (\<lambda>body sig. VALID)), dv_mac = (\<lambda>k s. []), dv_split = (\<lambda>s. None), dv_json = (\<lambda>s. None)\<rparr>"

definition keyed_env :: "string \<Rightarrow> string option" where
  "keyed_env n = (if n = ''AGENT_CREW_CEA_SNAPSHOT_PUBKEY_FILE'' then Some ''k'' else None)"

lemma keyed_authority: "wr_authority (build_wiring loosening_view keyed_env (Some (OFF, None)) None) = Some (signed_reader False)"
proof -
  have "snapshot_path keyed_env \<noteq> []" by (simp add: snapshot_path_def or_default_def)
  moreover have "snapshot_verifier loosening_view keyed_env = (Some (\<lambda>body sig. Some VALID), True)"
    by (simp add: snapshot_verifier_def loosening_view_def keyed_env_def env_text_def py_strip_def py_lstrip_def py_rstrip_def is_space_def)
  moreover have "mark_path keyed_env OFF True \<noteq> []" by (simp add: mark_path_def keyed_env_def env_text_def py_strip_def py_lstrip_def py_rstrip_def)
  ultimately have "wired_snapshot loosening_view keyed_env OFF = (Some (signed_reader False), True)"
    by (simp add: wired_snapshot_def readable_file_def signed_reader_def) (simp add: loosening_view_def)
  then show ?thesis by (simp add: build_wiring_def loosening_reader_def Let_def)
qed

lemma signed_grants:
  "snapshot_authority (Some (signed_snapshot g rolled True)) (Some ''c1'') ''crew'' (Some ''crew'') STOPPED ACTIVE ''owner'' (Some ''T0-1'')
     = Some True"
  by (simp add: snapshot_authority_def signed_snapshot_def matching_records_def authority_revs_def signed_rev_def
    py_strip_def py_lstrip_def py_rstrip_def is_space_def)

lemma signed_restores:
  "installed_authority (build_wiring loosening_view keyed_env (Some (OFF, None)) None) (signed_disk 3) (Mark (mark_json 3 ''sha256:''))
     (Some ''c1'') (Some ''crew'') STOPPED ACTIVE ''owner'' (Some ''T0-1'') = Some True"
  by (simp add: installed_authority_def keyed_authority signed_read check_high_water_mark_def signed_mark_check_def read_mark_json
    in_scope_def signed_grants)

theorem rolled_back_snapshot_loosens_witness:
  "ps_rollback_status (the (fst (read_snapshot (signed_reader False) (signed_disk 3) None (Mark (mark_json 5 ''sha256:'')))))
     = Some ''SNAPSHOT_ROLLBACK''
   \<and> installed_authority (build_wiring loosening_view keyed_env (Some (OFF, None)) None) (signed_disk 3) (Mark (mark_json 5 ''sha256:''))
      (Some ''c1'') (Some ''crew'') STOPPED ACTIVE ''owner'' (Some ''T0-1'') = Some True"
proof -
  from signed_restores rolled_back_snapshot_loosens [of OFF loosening_view keyed_env None None "signed_disk 3" "Mark (mark_json 5 ''sha256:'')"
      "Some ''c1''" "Some ''crew''" STOPPED ACTIVE "''owner''" "Some ''T0-1''" "Mark (mark_json 3 ''sha256:'')"]
  show ?thesis by (simp add: signed_read_older) (simp add: signed_snapshot_def rollback_text_def)
qed

text \<open>Where the records of a snapshot come from.\<close>

lemma read_decisionsD:
  "read_decisions w i vs = Some ds \<Longrightarrow> (r, b) \<in> set ds \<Longrightarrow> \<exists>v \<in> set vs. decision_of w v = Some (Some r)"
  by (induction vs arbitrary: ds) (auto split: option.splits)

lemma parts_records:
  assumes "snapshot_parts rd w i doc n content st rb = Some snap" and "r \<in> set (authority_revs snap)"
  shows "\<exists>raw v made. iterated (key_or JNull doc ''decisions'') = Some raw \<and> v \<in> set raw \<and> decision_of w v = Some (Some r)
    \<and> (ps_available snap \<longrightarrow> epoch_of w (key_or JNull doc ''produced_at'') = Some made \<and> sd_clock w - made \<le> sn_max_age rd)"
proof -
  obtain raw where raw: "iterated (key_or JNull doc ''decisions'') = Some raw"
    using assms(1) by (auto simp: snapshot_parts_def split: option.splits)
  have "snap \<noteq> unavailable_snapshot" using assms(2) by (auto simp: unavailable_snapshot_def authority_revs_def)
  then obtain ds where ds: "read_decisions w i raw = Some ds"
    using assms(1) raw by (auto simp: snapshot_parts_def split: option.splits)
  have "r \<in> fst ` set ds" and fresh: "ps_available snap \<Longrightarrow>
      \<exists>made. epoch_of w (key_or JNull doc ''produced_at'') = Some made \<and> sd_clock w - made \<le> sn_max_age rd"
    using assms raw ds by (auto simp: snapshot_parts_def Let_def authority_revs_def split: option.splits prod.splits if_splits)
  then obtain v where "v \<in> set raw" "decision_of w v = Some (Some r)" using read_decisionsD [OF ds] by fastforce
  with raw fresh show ?thesis by blast
qed

lemma read_decisions_scope:
  "read_decisions w i vs = Some ds \<Longrightarrow> (r, b) \<in> set ds \<Longrightarrow>
     \<exists>d. JObj d \<in> set vs \<and> decision_of w (JObj d) = Some (Some r) \<and> in_scope (scope_of d) i = b"
proof (induction vs arbitrary: ds)
  case (Cons v vs)
  obtain x where x: "decision_of w v = Some x" using Cons.prems(1) by (auto split: option.splits)
  then obtain d where d: "v = JObj d" by (auto simp: decision_of_def split: json.splits)
  show ?case
  proof (cases "x = Some r \<and> in_scope (scope_of d) i = b")
    case True
    then show ?thesis using x d by auto
  next
    case False
    then obtain es where "read_decisions w i vs = Some es" "(r, b) \<in> set es"
      using Cons.prems x d by (auto split: option.splits)
    from Cons.IH [OF this] show ?thesis by auto
  qed
qed simp

lemma parts_out_of_scope:
  assumes "snapshot_parts rd w i doc n content st rb = Some snap" and "r \<in> set (ps_decisions snap)" and "ps_in_scope snap = []"
  shows "\<exists>d. decision_of w (JObj d) = Some (Some r) \<and> \<not> in_scope (scope_of d) i"
proof -
  have "snap \<noteq> unavailable_snapshot" using assms(2) by (auto simp: unavailable_snapshot_def)
  then obtain raw ds where ds: "read_decisions w i raw = Some ds" "ps_decisions snap = map fst ds" "ps_in_scope snap = map fst (filter snd ds)"
    using assms(1) by (auto simp: snapshot_parts_def Let_def split: option.splits prod.splits)
  then obtain b where "(r, b) \<in> set ds" "\<not> b" using assms(2,3) by (auto simp: filter_empty_conv)
  with read_decisions_scope [OF ds(1)] show ?thesis by blast
qed

lemma decision_unexpired: "decision_of w v = Some (Some r) \<Longrightarrow> dr_expires_at r = Some x \<Longrightarrow> sd_clock w < x"
  by (auto simp: decision_of_def rev_of_def Let_def split: json.splits option.splits if_splits)

lemma authorityD:
  assumes "snapshot_authority sn build runtime project frm dest who did = Some True"
  shows "\<exists>snap r b. sn = Some snap \<and> ps_available snap \<and> ps_signature snap = VALID \<and> r \<in> set (authority_revs snap)
    \<and> Some (dr_decision_id r) = map_option py_strip did \<and> who \<in> set (dr_principals r) \<and> build = Some b \<and> b \<in> set (dr_build_commits r)"
proof -
  obtain snap where sn: "sn = Some snap" "ps_available snap" "ps_signature snap = VALID"
    using assms by (auto simp: snapshot_authority_def Let_def split: option.splits if_splits)
  let ?did = "py_strip (case did of None \<Rightarrow> [] | Some d \<Rightarrow> d)"
  have did: "?did \<noteq> []" using assms by (auto simp: snapshot_authority_def Let_def)
  obtain r rs where ms: "matching_records snap ?did project = r # rs"
    using assms sn did by (auto simp: snapshot_authority_def Let_def split: list.splits)
  have "r \<in> set (matching_records snap ?did project)" by (simp add: ms)
  then have r: "r \<in> set (authority_revs snap)" "dr_decision_id r = ?did" by (auto simp: matching_records_def)
  have "who \<in> set (dr_principals r) \<and> (\<exists>b. build = Some b \<and> b \<in> set (dr_build_commits r))"
    using assms sn did ms by (auto simp: snapshot_authority_def Let_def split: option.splits if_splits)
  moreover have "Some ?did = map_option py_strip did" using did by (cases did) (auto simp: py_strip_def py_lstrip_def py_rstrip_def)
  ultimately show ?thesis using sn r by auto
qed

text \<open>
  Claim C9: whatever the authority of the wiring lets loose is written in the file it reads: the configured key's
  verifier accepts the signature over the rest of the document, the document was produced within a day, and it
  lists an unexpired record with the decision's identifier that names who asks and the commit that runs.
\<close>

theorem restoration_is_signed:
  assumes "installed_authority (build_wiring dv env cfg db) w f build project frm dest who did = Some True"
  shows "\<exists>doc v made raw d r b. sd_doc w = Some (JObj doc) \<and> snapshot_verifier dv env = (Some v, True)
    \<and> v (canonical_json (JObj (body_without_signature doc))) (key_or JNull doc ''signature'') = Some VALID
    \<and> epoch_of w (key_or JNull doc ''produced_at'') = Some made \<and> sd_clock w - made \<le> day
    \<and> iterated (key_or JNull doc ''decisions'') = Some raw \<and> d \<in> set raw \<and> decision_of w d = Some (Some r)
    \<and> Some (dr_decision_id r) = map_option py_strip did \<and> who \<in> set (dr_principals r)
    \<and> build = Some b \<and> b \<in> set (dr_build_commits r) \<and> (\<forall>x. dr_expires_at r = Some x \<longrightarrow> sd_clock w < x)"
proof -
  obtain rd where rd: "wr_authority (build_wiring dv env cfg db) = Some rd"
    using assms by (cases "wr_authority (build_wiring dv env cfg db)") (auto simp: installed_authority_def refuse_all_loosening_def)
  obtain v where v: "snapshot_verifier dv env = (Some v, True)" "sn_verifier rd = Some v" "sn_max_age rd = day"
    using wired_authority [OF rd] wired_reader by (metis not_Some_eq)
  obtain snap f' where read: "read_snapshot rd w None f = (Some snap, f')" and a: "ps_available snap" "ps_signature snap = VALID"
    using assms rd by (cases "read_snapshot rd w None f") (auto simp: installed_authority_def dest!: authorityD)
  obtain r b where r: "r \<in> set (authority_revs snap)" "Some (dr_decision_id r) = map_option py_strip did"
      "who \<in> set (dr_principals r)" "build = Some b" "b \<in> set (dr_build_commits r)"
    using assms rd read by (auto simp: installed_authority_def dest!: authorityD)
  obtain doc n content rb where doc: "sd_doc w = Some (JObj doc)"
      "signature_of rd (canonical_json (JObj (body_without_signature doc))) (key_or JNull doc ''signature'') = VALID"
      "snapshot_parts rd w None doc n content VALID rb = Some snap"
    using read_snapshot_parts [OF read a] by metis
  obtain raw d made where rec: "iterated (key_or JNull doc ''decisions'') = Some raw" "d \<in> set raw" "decision_of w d = Some (Some r)"
      "epoch_of w (key_or JNull doc ''produced_at'') = Some made" "sd_clock w - made \<le> day"
    using parts_records [OF doc(3) r(1)] a(1) v(3) by auto
  have sig: "v (canonical_json (JObj (body_without_signature doc))) (key_or JNull doc ''signature'') = Some VALID"
    using doc(2) v(2) by (auto simp: signature_of_def split: json.splits option.splits)
  show ?thesis
    by (intro exI conjI allI impI) (assumption | rule doc v sig rec r decision_unexpired [OF rec(3)])+
qed

theorem restoration_is_signed_witness:
  "\<exists>doc raw d r. sd_doc (signed_disk 3) = Some (JObj doc) \<and> iterated (key_or JNull doc ''decisions'') = Some raw \<and> d \<in> set raw
    \<and> decision_of (signed_disk 3) d = Some (Some r) \<and> dr_decision_id r = py_strip ''T0-1'' \<and> ''owner'' \<in> set (dr_principals r)
    \<and> ''c1'' \<in> set (dr_build_commits r)"
  using restoration_is_signed [OF signed_restores] by (elim exE conjE) auto

section \<open>Memory tightens\<close>

lemma gate_below_denied [simp]: "gate_tightness g < 2 \<longleftrightarrow> g \<noteq> DENIED"
  by (cases g) auto

lemma strongest_above: "gate_tightness g \<le> gate_tightness (strongest g ws)"
  by (induction g ws rule: strongest.induct) (auto split: if_splits)

lemma strongest_covers: "w \<in> set ws \<Longrightarrow> gate_tightness w \<le> gate_tightness (strongest g ws)"
  by (induction g ws rule: strongest.induct) (auto intro: order_trans [OF _ strongest_above] split: if_splits)

lemma strongest_from: "strongest g ws = g \<or> strongest g ws \<in> set ws"
  by (induction g ws rule: strongest.induct) (auto split: if_splits)

lemma memory_gateD:
  assumes "memory_gate run held i snap c = (Some g, c1)"
  obtains es where "l3_matches (fst (provide run i c)) = L3_Entries es"
    "g = (let top = strongest NOT_REQUIRED (map entry_gate (filter (\<lambda>e. \<not> lifted snap e) es))
          in if gate_tightness (held i snap) < gate_tightness top then top else held i snap)"
  using assms by (auto simp: memory_gate_def Let_def split: prod.splits l3.splits)

text \<open>
  Claim C14: the gate under memory is never looser than the gate it wraps, grants only what that gate grants, is at
  least as tight as every entry of high confidence that no record supersedes, and is no answer at all, which the
  engine blocks, when memory does not answer.
\<close>

theorem memory_only_tightens:
  assumes "memory_gate run held i snap c = (got, c1)"
  shows "(\<forall>g. got = Some g \<longrightarrow> gate_tightness (held i snap) \<le> gate_tightness g \<and> (\<forall>d. g = GRANTED d \<longrightarrow> held i snap = g)
      \<and> (\<exists>es. l3_matches (fst (provide run i c)) = L3_Entries es
           \<and> (\<forall>e \<in> set es. \<not> lifted snap e \<longrightarrow> gate_tightness (entry_gate e) \<le> gate_tightness g)))
    \<and> (got = None \<longleftrightarrow> (\<forall>es. l3_matches (fst (provide run i c)) \<noteq> L3_Entries es))"
proof (intro conjI allI impI)
  fix g assume g: "got = Some g"
  obtain es where es: "l3_matches (fst (provide run i c)) = L3_Entries es"
      "g = (let top = strongest NOT_REQUIRED (map entry_gate (filter (\<lambda>e. \<not> lifted snap e) es))
            in if gate_tightness (held i snap) < gate_tightness top then top else held i snap)"
    using memory_gateD assms g by metis
  let ?ws = "map entry_gate (filter (\<lambda>e. \<not> lifted snap e) es)"
  show "gate_tightness (held i snap) \<le> gate_tightness g" by (simp add: es(2) Let_def)
  show "held i snap = g" if "g = GRANTED d" for d
    using that strongest_from [of NOT_REQUIRED ?ws] by (auto simp: es(2) Let_def entry_gate_def split: if_splits)
  show "\<exists>es. l3_matches (fst (provide run i c)) = L3_Entries es
      \<and> (\<forall>e \<in> set es. \<not> lifted snap e \<longrightarrow> gate_tightness (entry_gate e) \<le> gate_tightness g)"
    using es(1) strongest_covers [of _ ?ws NOT_REQUIRED] by (fastforce simp: es(2) Let_def)
next
  show "got = None \<longleftrightarrow> (\<forall>es. l3_matches (fst (provide run i c)) \<noteq> L3_Entries es)"
    using assms by (auto simp: memory_gate_def Let_def split: prod.splits l3.splits)
qed

definition warning_entry :: json where
  "warning_entry = JObj [(''id'', JStr ''m1''), (''recorded_disposition'', JStr ''BLOCK''),
     (''match'', JObj [(''confidence'', JStr ''HIGH'')])]"

definition memory_command_sample :: "json \<Rightarrow> json option" where
  "memory_command_sample req = Some (JObj [(''schema'', JStr ''admission-inputs/v1''),
     (''incident_memory'', JObj [(''status'', JStr ''OK''), (''matches'', JArr [warning_entry])])])"

lemma memory_sample_entries:
  "l3_matches (fst (provide memory_command_sample i None)) = L3_Entries [[(''id'', JStr ''m1''), (''recorded_disposition'', JStr ''BLOCK''),
     (''match'', JObj [(''confidence'', JStr ''HIGH'')])]]"
  by (simp add: provide_def memory_command_sample_def accepted_answer_def key_or_def l3_matches_def object_or_empty_def iterated_def
    warning_entry_def high_match_def)

lemma memory_sample_gate:
  "fst (memory_gate memory_command_sample snapshot_record_gate i snap None)
     = Some (if ps_available snap \<and> (\<exists>r \<in> set (authority_revs snap). ''m1'' \<in> set (dr_supersedes r)) then snapshot_record_gate i snap
             else DENIED)"
  using memory_sample_entries [of i]
  by (auto simp: memory_gate_def Let_def lifted_def superseded_entries_def entry_gate_def key_or_def split: prod.splits human_gate.splits)

theorem memory_only_tightens_witness:
  "gate_tightness (snapshot_record_gate (sample_intent OPS) unavailable_snapshot) \<le> gate_tightness DENIED"
proof -
  obtain c1 where "memory_gate memory_command_sample snapshot_record_gate (sample_intent OPS) unavailable_snapshot None = (Some DENIED, c1)"
    using memory_sample_gate [of "sample_intent OPS" unavailable_snapshot] by (cases "memory_gate memory_command_sample snapshot_record_gate (sample_intent OPS) unavailable_snapshot None")
      (auto simp: unavailable_snapshot_def)
  from memory_only_tightens [OF this] show ?thesis by auto
qed

text \<open>
  A decision made for other work lifts what memory holds against this work: when no record of the
  snapshot is in the intent's scope, the records of every scope are asked which entries they supersede, and the
  gate stays as loose as it was.
\<close>

theorem foreign_decision_lifts_memory:
  assumes "read_snapshot rd w (Some i) f = (Some snap, f1)" and "ps_available snap" and "ps_signature snap = VALID"
    and "ps_in_scope snap = []" and "r \<in> set (ps_decisions snap)"
    and "l3_matches (fst (provide run i c)) = L3_Entries es"
    and "\<forall>e \<in> set es. \<exists>s. key_or JNull e ''id'' = JStr s \<and> s \<in> set (dr_supersedes r)"
  shows "fst (memory_gate run held i snap c) = Some (held i snap)
    \<and> (\<exists>doc d. sd_doc w = Some (JObj doc) \<and> decision_of w (JObj d) = Some (Some r) \<and> \<not> in_scope (scope_of d) (Some i))"
proof
  have "lifted snap e" if "e \<in> set es" for e
  proof -
    obtain s where "key_or JNull e ''id'' = JStr s" "s \<in> set (dr_supersedes r)" using assms(7) \<open>e \<in> set es\<close> by blast
    with assms(2,4,5) show ?thesis by (auto simp: lifted_def superseded_entries_def authority_revs_def)
  qed
  then have "filter (\<lambda>e. \<not> lifted snap e) es = []" by (simp add: filter_empty_conv)
  with assms(6) show "fst (memory_gate run held i snap c) = Some (held i snap)"
    by (auto simp: memory_gate_def split: prod.splits)
  obtain doc n content rb where doc: "sd_doc w = Some (JObj doc)" "snapshot_parts rd w (Some i) doc n content VALID rb = Some snap"
    using read_snapshot_parts [OF assms(1-3)] by metis
  obtain d where "decision_of w (JObj d) = Some (Some r)" "\<not> in_scope (scope_of d) (Some i)"
    using parts_out_of_scope [OF doc(2) assms(5,4)] by blast
  with doc(1) show "\<exists>doc d. sd_doc w = Some (JObj doc) \<and> decision_of w (JObj d) = Some (Some r) \<and> \<not> in_scope (scope_of d) (Some i)"
    by blast
qed

definition other_intent :: intent where
  "other_intent = (sample_intent OPS)\<lparr>in_identity := (in_identity (sample_intent OPS))\<lparr>id_project := ''other''\<rparr>\<rparr>"

theorem foreign_decision_lifts_memory_witness:
  "fst (memory_gate memory_command_sample snapshot_record_gate other_intent (signed_snapshot 5 False False) None)
     = Some (snapshot_record_gate other_intent (signed_snapshot 5 False False))"
proof -
  have read: "read_snapshot (signed_reader False) (signed_disk 5) (Some other_intent) No_Mark
      = (Some (signed_snapshot 5 False False), Mark (mark_json 5 ''sha256:''))"
    by (simp add: signed_read check_high_water_mark_def signed_mark_check_def read_mark_def in_scope_def Let_def key_or_def id_texts_def
      wanted_def other_intent_def)
  show ?thesis
    by (rule conjunct1 [OF foreign_decision_lifts_memory [OF read _ _ _ _ memory_sample_entries, of signed_rev]])
      (simp_all add: signed_snapshot_def signed_rev_def key_or_def)
qed

text \<open>
  Claim C17: the client keeps its answer for an intent until another intent is asked: however the registry and the
  memory have changed since, the same intent meets the same matches and the same gate, so that a binding computed
  again for it cannot show a drift of the registry.
\<close>

theorem kept_answer_hides_drift:
  assumes "provide run i c = (Some out, c1)"
  shows "provide run2 i c1 = (Some out, c1)
    \<and> fst (memory_lookup run2 i c1) = fst (memory_lookup run i c)
    \<and> fst (memory_gate run2 held i snap c1) = fst (memory_gate run held i snap c)"
proof -
  have again: "provide r i c1 = (Some out, c1)" for r
    using assms by (auto simp: provide_def Let_def split: option.splits prod.splits if_splits)
  then show ?thesis
    using assms by (simp add: memory_lookup_def e4_lookup_def memory_gate_def split: option.splits l3.splits)
qed

theorem kept_answer_hides_drift_witness:
  "\<exists>out c1. provide memory_command_sample (sample_intent OPS) None = (Some out, c1)
    \<and> provide (\<lambda>req. None) (sample_intent OPS) c1 = (Some out, c1)"
proof -
  obtain out c1 where "provide memory_command_sample (sample_intent OPS) None = (Some out, c1)"
    by (simp add: provide_def memory_command_sample_def accepted_answer_def key_or_def)
  with kept_answer_hides_drift [OF this, of "\<lambda>req. None"] show ?thesis by blast
qed

section \<open>Budgets\<close>

lemma foldl_max_above: "(a::real) \<le> foldl max a xs" and foldl_max_covers: "x \<in> set xs \<Longrightarrow> x \<le> foldl max a xs"
proof -
  show above: "(a::real) \<le> foldl max a xs" for a xs by (induction xs arbitrary: a) (auto intro: order_trans [OF max.cobounded1])
  show "x \<in> set xs \<Longrightarrow> x \<le> foldl max a xs"
    by (induction xs arbitrary: a) (auto intro: order_trans [OF max.cobounded2 above])
qed

text \<open>
  A provider's budget is good only when it was observed: the quota cache was read, is fresh, reports no
  error and no use at the limit, belongs to the account in use where that is checked, and no cooldown runs.
\<close>

theorem budget_ok_is_observed:
  assumes "pb_state (provider_quota qr now cd cache account provider) = Budget BUDGET_OK"
  shows "\<exists>qc. cache = Some qc \<and> active_cooldown_until now cd = None \<and> \<not> qc_error qc \<and> now - qc_fetched_at qc \<le> qr_max_age qr
    \<and> (provider = ''codex'' \<longrightarrow> account \<noteq> None \<and> qc_fingerprint qc = account)
    \<and> observed_use qc \<noteq> [] \<and> (\<forall>u \<in> set (observed_use qc). u < 1 \<and> u < qr_constrained_at qr)"
proof -
  obtain qc where qc: "cache = Some qc" and cd: "cd \<noteq> Cooldown_Unreadable"
    using assms by (auto simp: provider_quota_def stale_budget_def split: option.splits if_splits)
  let ?top = "foldl max 0 (observed_use qc)"
  have "?top < 1 \<and> ?top < qr_constrained_at qr \<and> observed_use qc \<noteq> [] \<and> \<not> qc_error qc \<and> now - qc_fetched_at qc \<le> qr_max_age qr
      \<and> active_cooldown_until now cd = None \<and> (provider = ''codex'' \<longrightarrow> account \<noteq> None \<and> qc_fingerprint qc = account)"
    using assms qc cd by (auto simp: provider_quota_def stale_budget_def active_cooldown_until_def Let_def split: if_splits cooldown.splits)
  with qc foldl_max_covers [of _ "observed_use qc" 0] show ?thesis by fastforce
qed

definition sample_quota :: quota_cache where
  "sample_quota = \<lparr>qc_fetched_at = 100, qc_error = False, qc_fingerprint = None, qc_windows = [1 / 2], qc_buckets = []\<rparr>"

definition sample_quota_reader :: quota_reader where
  "sample_quota_reader = \<lparr>qr_credit_class = (\<lambda>p. Some ''plan''), qr_max_age = 900, qr_constrained_at = 9 / 10\<rparr>"

theorem budget_ok_is_observed_witness:
  "pb_state (provider_quota sample_quota_reader 200 (Cooldown_Until 150) (Some sample_quota) None ''claude'') = Budget BUDGET_OK
   \<and> active_cooldown_until 200 (Cooldown_Until 150) = None"
proof -
  have ok: "pb_state (provider_quota sample_quota_reader 200 (Cooldown_Until 150) (Some sample_quota) None ''claude'') = Budget BUDGET_OK"
    by (simp add: provider_quota_def sample_quota_def sample_quota_reader_def observed_use_def Let_def)
  from ok budget_ok_is_observed [OF ok] show ?thesis by blast
qed

text \<open>With the cache gone a running cooldown is not seen, and a provider on a plan stays usable.\<close>

lemma cooldown_needs_cache:
  assumes "qr_credit_class qr provider = Some ''plan''" and "now < u"
  shows "active_cooldown_until now (Cooldown_Until u) = Some (Some u)
    \<and> bound_budget (pb_state (provider_quota qr now (Cooldown_Until u) None account provider)) = CONSTRAINED"
  using assms by (simp add: active_cooldown_until_def provider_quota_def stale_budget_def bound_budget_def)

end
