(* ===== verification/Broker.thy ===== *)
theory Broker
  imports Callers
begin

text \<open>
  The broker that binds an executor to its receipt (\<open>cea/broker.py\<close>): the registrations and poisoned pairs it
  keeps in memory, one function per operation of its protocol, and what its client makes of an attestation.
  The kernel's view of the processes is a finite table; the peer of a connection is its \<open>pid\<close> and \<open>uid\<close> as
  \<open>SO_PEERCRED\<close> gives them. One request is handled at a time, as the lock around the tables makes it.
\<close>

section \<open>State\<close>

record process =
  pc_ppid :: int
  pc_start :: int
  pc_tracer :: "int option"

type_synonym processes = "(int \<times> process) list"

datatype reg_origin = Peer_Asserted | Broker_Spawned

record registration =
  rg_pid :: int
  rg_start :: int
  rg_receipt_id :: string
  rg_attempt :: int
  rg_by :: int
  rg_nonce :: string
  rg_origin :: reg_origin

type_synonym attempt_key = "string \<times> int"

record broker =
  bk_degraded :: bool
  bk_client_uids :: "int list"
  bk_euid :: int
  bk_tree_writable :: bool
  bk_regs :: "(attempt_key \<times> registration) list"
  bk_poisoned :: "attempt_key list"

text \<open>The decision engine behind the broker, and what a request meets outside of it.\<close>

record broker_env =
  be_engine :: "engine option"
  be_authenticator :: "authenticator option"
  be_sign :: "receipt \<Rightarrow> receipt option"
  be_object :: nat
  be_clock :: time
  be_fresh :: string
  be_nonce :: string
  be_processes :: processes

datatype binding_status = Binding_Verified | Binding_Unverified | Binding_Blocked

record attestation =
  at_status :: binding_status
  at_reason :: string
  at_downgrade :: "string option"
  at_evidence :: "registration option"
  at_nonce :: "string option"

datatype broker_reply =
    Refused string
  | Recorded
  | Attested attestation
  | Healthy
  | Broker_Status bool nat "string option"
  | Broker_Decision authorization

section \<open>May the broker start here?\<close>

text \<open>
  \<open>writable_broker_tree\<close>: a path is the list of its components below the root. What \<open>lstat\<close> says of an entry
  is its owner, its mode and whether it is a link; the bits \<open>0o022\<close> of the mode are those of the group and of
  others.
\<close>

type_synonym entry = "int \<times> nat \<times> bool"

definition replaceable :: "entry option \<Rightarrow> bool" where
  "replaceable e =
     (case e of None \<Rightarrow> True
      | Some (uid, mode, link) \<Rightarrow> uid \<noteq> 0 \<or> mode div 16 mod 2 = 1 \<or> mode div 2 mod 2 = 1 \<or> link)"

fun ancestors_of :: "string list \<Rightarrow> string list list" where
  "ancestors_of [] = [[]]"
| "ancestors_of (c # cs) = [] # map ((#) c) (ancestors_of cs)"

definition writable_broker_tree ::
  "(string list \<Rightarrow> entry option) \<Rightarrow> string list option list \<Rightarrow> (string list list) option option \<Rightarrow> bool" where
  "writable_broker_tree lstat paths tree =
     (list_ex (\<lambda>p. case p of None \<Rightarrow> True | Some cs \<Rightarrow> list_ex (\<lambda>a. replaceable (lstat a)) (ancestors_of cs)) paths
      \<or> (case tree of None \<Rightarrow> False | Some None \<Rightarrow> True | Some (Some below) \<Rightarrow> list_ex (\<lambda>a. replaceable (lstat a)) below))"

definition preflight :: "broker \<Rightarrow> int option \<Rightarrow> int option \<Rightarrow> bool" where
  "preflight b service ptrace \<longleftrightarrow>
     (case ptrace of None \<Rightarrow> False | Some n \<Rightarrow> 1 \<le> n) \<and> (bk_degraded b \<or> service = Some (bk_euid b))"

section \<open>Registration\<close>

text \<open>\<open>_descends_from_executor\<close>: the walk over the parents ends at \<open>init\<close>, at a process seen before, or at one
  that is gone.\<close>

function descends :: "int list \<Rightarrow> processes \<Rightarrow> int list \<Rightarrow> int \<Rightarrow> bool" where
  "descends executors ps seen cur =
     (if cur \<le> 1 \<or> cur \<in> set seen then False
      else case map_of ps cur of
        None \<Rightarrow> False
      | Some p \<Rightarrow> pc_ppid p \<in> set executors \<or> descends executors ps (cur # seen) (pc_ppid p))"
  by pat_completeness auto

termination
proof (relation "measure (\<lambda>(ex, ps, seen, cur). card (dom (map_of ps) - set seen))", goal_cases)
  case (2 executors ps seen cur p)
  have fin: "finite (dom (map_of ps))" by (rule finite_dom_map_of)
  have "dom (map_of ps) - set (cur # seen) \<subset> dom (map_of ps) - set seen" using 2 by auto
  with fin show ?case by (simp add: psubset_card_mono)
qed simp

declare descends.simps [simp del]

definition attempt_of :: "fields \<Rightarrow> attempt_key option" where
  "attempt_of req =
     (case (map_of req ''receipt_id'', Option.bind (map_of req ''attempt'') int_value) of
        (Some r, Some n) \<Rightarrow> Some (shown r, n) | _ \<Rightarrow> None)"

definition register_fields :: "fields \<Rightarrow> (int \<times> int \<times> attempt_key) option" where
  "register_fields req =
     (case (Option.bind (map_of req ''pid'') int_value, Option.bind (map_of req ''start_time'') int_value, attempt_of req) of
        (Some p, Some s, Some k) \<Rightarrow> Some (p, s, k) | _ \<Rightarrow> None)"

definition executors :: "broker \<Rightarrow> int list" where
  "executors b = map (rg_pid \<circ> snd) (bk_regs b)"

definition register :: "broker_env \<Rightarrow> int \<Rightarrow> fields \<Rightarrow> broker \<Rightarrow> broker_reply \<times> broker" where
  "register w peer req b =
     (case register_fields req of
        None \<Rightarrow> (Refused ''BAD_REQUEST'', b)
      | Some (pid, start, k) \<Rightarrow>
          (case map_of (be_processes w) pid of
             None \<Rightarrow> (Refused ''PID_START_TIME_MISMATCH'', b)
           | Some p \<Rightarrow>
               if pc_start p \<noteq> start then (Refused ''PID_START_TIME_MISMATCH'', b)
               else if pc_ppid p \<noteq> peer then (Refused ''NOT_A_CHILD_OF_REGISTRANT'', b)
               else if descends (executors b) (be_processes w) [] pid then (Refused ''DESCENDANT_OF_ANOTHER_AGENT'', b)
               else if k \<in> set (bk_poisoned b) then (Refused ''REGISTRATION_CONFLICT'', b)
               else if map_of (bk_regs b) k \<noteq> None
               then (Refused ''REGISTRATION_CONFLICT'',
                     b\<lparr>bk_poisoned := k # bk_poisoned b, bk_regs := filter (\<lambda>e. fst e \<noteq> k) (bk_regs b)\<rparr>)
               else (Recorded,
                     b\<lparr>bk_regs := bk_regs b @
                        [(k, \<lparr>rg_pid = pid, rg_start = start, rg_receipt_id = fst k, rg_attempt = snd k, rg_by = peer,
                              rg_nonce = be_nonce w, rg_origin = Peer_Asserted\<rparr>)]\<rparr>)))"

section \<open>Attestation\<close>

definition plain_answer :: "binding_status \<Rightarrow> string \<Rightarrow> string option \<Rightarrow> attestation" where
  "plain_answer st reason downgrade =
     \<lparr>at_status = st, at_reason = reason, at_downgrade = downgrade, at_evidence = None, at_nonce = None\<rparr>"

definition attest_spawned :: "broker \<Rightarrow> registration \<Rightarrow> attestation" where
  "attest_spawned b r =
     (if bk_tree_writable b
      then plain_answer Binding_Unverified ''BROKER_TREE_USER_WRITABLE'' (Some ''BROKER_TREE_USER_WRITABLE'')
      else (plain_answer Binding_Verified ''BROKER_SPAWNED_BINDING'' None)\<lparr>at_evidence := Some r, at_nonce := Some (rg_nonce r)\<rparr>)"

definition attested :: "broker_env \<Rightarrow> int \<Rightarrow> attempt_key \<Rightarrow> broker \<Rightarrow> attestation" where
  "attested w peer k b =
     (if k \<in> set (bk_poisoned b) then plain_answer Binding_Blocked ''REGISTRATION_CONFLICT'' None
      else case map_of (bk_regs b) k of
        None \<Rightarrow> plain_answer Binding_Unverified ''NOT_REGISTERED_AT_SPAWN'' None
      | Some r \<Rightarrow>
          if peer \<noteq> rg_pid r \<or> map_option pc_start (map_of (be_processes w) peer) \<noteq> Some (rg_start r)
          then plain_answer Binding_Blocked ''PEER_CRED_MISMATCH'' None
          else if Option.bind (map_of (be_processes w) peer) pc_tracer \<noteq> Some 0
          then plain_answer Binding_Blocked ''PEER_TRACED'' None
          else if bk_tree_writable b
          then plain_answer Binding_Unverified ''BROKER_TREE_USER_WRITABLE'' (Some ''BROKER_TREE_USER_WRITABLE'')
          else if bk_degraded b
          then plain_answer Binding_Unverified ''BROKER_DEGRADED_SAME_UID'' (Some ''BROKER_DEGRADED_SAME_UID'')
          else if rg_origin r = Broker_Spawned then attest_spawned b r
          else (plain_answer Binding_Unverified ''PEER_CRED_BOUND_EVIDENCE_ONLY'' (Some ''DISPATCHER_REGISTRATION_UNAUTHENTICATED''))
                 \<lparr>at_evidence := Some r\<rparr>)"

definition attest :: "broker_env \<Rightarrow> int \<Rightarrow> fields \<Rightarrow> broker \<Rightarrow> broker_reply" where
  "attest w peer req b =
     (case attempt_of req of None \<Rightarrow> Refused ''BAD_REQUEST'' | Some k \<Rightarrow> Attested (attested w peer k b))"

section \<open>The other operations\<close>

definition spawn :: "fields \<Rightarrow> broker_reply" where
  "spawn req = (case attempt_of req of None \<Rightarrow> Refused ''BAD_REQUEST'' | Some k \<Rightarrow> Refused ''BROKER_SPAWN_UNAVAILABLE'')"

definition credential_of :: "json \<Rightarrow> string option" where
  "credential_of v = (case v of JStr s \<Rightarrow> Some s | _ \<Rightarrow> None)"

text \<open>An exception of the authenticator or of the engine is answered as a bad request, and nothing is committed.\<close>

definition broker_health :: "broker_env \<Rightarrow> fields \<Rightarrow> broker_reply" where
  "broker_health w req =
     (case be_authenticator w of
        None \<Rightarrow> Refused ''UNAUTHENTICATED''
      | Some a \<Rightarrow>
          (case authenticate_identity a (credential_of (key_or JNull req ''credential'')) of
             Inl _ \<Rightarrow> Refused ''BAD_REQUEST'' | Inr None \<Rightarrow> Refused ''UNAUTHENTICATED'' | Inr (Some _) \<Rightarrow> Healthy))"

definition grant_signed :: "broker_env \<Rightarrow> authorization \<Rightarrow> store \<Rightarrow> store \<Rightarrow> broker_reply \<times> store" where
  "grant_signed w auth olds s =
     (case be_sign w (au_receipt auth) of
        None \<Rightarrow> (Refused ''RECEIPT_SIGNING_UNAVAILABLE'', olds)
      | Some signed \<Rightarrow>
          (case record_receipt (be_clock w) s signed (Some ''broker'') (Some ''ed25519 dispatch grant'') None of
             Inl _ \<Rightarrow> (Refused ''BAD_REQUEST'', olds)
           | Inr (_, t) \<Rightarrow> (Broker_Decision (auth\<lparr>au_receipt := signed\<rparr>), t)))"

definition broker_grant :: "broker_env \<Rightarrow> json \<Rightarrow> store \<Rightarrow> broker_reply \<times> store" where
  "broker_grant w req s =
     (case (be_engine w, be_authenticator w) of
        (Some e, Some a) \<Rightarrow>
          (case decode_intent req of
             None \<Rightarrow> (Refused ''UNAUTHENTICATED'', s)
           | Some q \<Rightarrow>
               (case authenticate a (en_minted e) (be_object w) (wq_credential q) of
                  Inl Auth_Raises \<Rightarrow> (Refused ''BAD_REQUEST'', s)
                | Inl Not_Consulted \<Rightarrow> (Refused ''UNAUTHENTICATED'', s)
                | Inr None \<Rightarrow> (Refused ''UNAUTHENTICATED'', s)
                | Inr (Some (c, minted)) \<Rightarrow>
                    (case authorize_authenticated (e\<lparr>en_minted := minted\<rparr>) (be_clock w) (be_fresh w) s (wq_intent q) c (wq_retry q) of
                       Inl _ \<Rightarrow> (Refused ''BAD_REQUEST'', s)
                     | Inr (auth, t) \<Rightarrow> grant_signed w auth s t)))
      | _ \<Rightarrow> (Refused ''DECISION_ENGINE_UNAVAILABLE'', s))"

definition writable_reason :: "broker \<Rightarrow> string option" where
  "writable_reason b = (if bk_tree_writable b then Some ''BROKER_TREE_USER_WRITABLE'' else None)"

text \<open>\<open>handle\<close>: one request of one peer.\<close>

definition handle ::
  "broker_env \<Rightarrow> int \<Rightarrow> int \<Rightarrow> json \<Rightarrow> broker \<times> store \<Rightarrow> broker_reply \<times> broker \<times> store" where
  "handle w peer uid req st =
     (case st of
        (b, s) \<Rightarrow>
          if uid \<notin> set (bk_client_uids b) \<and> uid \<noteq> bk_euid b then (Refused ''PEER_UID_NOT_ALLOWED'', b, s)
          else (case req of
             JObj kvs \<Rightarrow>
               let op = key_or JNull kvs ''op''
               in if op = JStr ''register'' then (case register w peer kvs b of (r, b') \<Rightarrow> (r, b', s))
                  else if op = JStr ''attest'' then (attest w peer kvs b, b, s)
                  else if op = JStr ''spawn'' then (spawn kvs, b, s)
                  else if op = JStr ''authorize'' then (case broker_grant w req s of (r, s') \<Rightarrow> (r, b, s'))
                  else if op = JStr ''health'' then (broker_health w kvs, b, s)
                  else if op = JStr ''status'' then (Broker_Status (bk_degraded b) (length (bk_regs b)) (writable_reason b), b, s)
                  else (Refused ''UNKNOWN_OP'', b, s)
           | _ \<Rightarrow> (Refused ''UNKNOWN_OP'', b, s)))"

section \<open>The client\<close>

text \<open>\<open>BrokerClient.attest\<close>: the binding it reports and the nonce it hands on; \<open>got\<close> is the reply and the user
  it came from, nothing when the call failed.\<close>

definition client_attest :: "int option \<Rightarrow> (broker_reply \<times> int) option \<Rightarrow> binding_status \<times> string option" where
  "client_attest expected got =
     (case got of
        None \<Rightarrow> (Binding_Unverified, None)
      | Some (Attested a, uid) \<Rightarrow>
          if at_status a = Binding_Verified \<and> expected \<noteq> Some uid then (Binding_Unverified, None)
          else (at_status a, if at_status a = Binding_Verified then at_nonce a else None)
      | Some _ \<Rightarrow> (Binding_Unverified, None))"

section \<open>The life of a broker\<close>

definition fresh_broker :: "bool \<Rightarrow> int list \<Rightarrow> int \<Rightarrow> bool \<Rightarrow> broker" where
  "fresh_broker degraded uids euid writable =
     \<lparr>bk_degraded = degraded, bk_client_uids = uids, bk_euid = euid, bk_tree_writable = writable, bk_regs = [], bk_poisoned = []\<rparr>"

text \<open>One request after another, with the peer, the user and the processes of its moment.\<close>

inductive broker_step :: "broker \<times> store \<Rightarrow> broker \<times> store \<Rightarrow> bool" where
  request: "handle w peer uid req st = (r, st') \<Longrightarrow> broker_step st st'"

inductive_cases broker_stepE: "broker_step st st'"

end
