(* ===== verification/Broker_Safety.thy ===== *)
theory Broker_Safety
  imports Broker
begin

text \<open>
  What the boundary around the authority guarantees: a request reads back from the wire as it was sent, only a
  credential of the table reaches the engine, an enforcing runtime never decides for itself, and the broker keeps
  one claim per attempt and reports it as evidence only.
\<close>

section \<open>The wire\<close>

lemma work_class_reads_back [simp]: "work_class_of (JStr (work_class_value c)) = Some c"
  by (cases c) (simp_all add: work_class_of_def work_classes_def)

lemma all_texts_map [simp]: "all_texts (map JStr ss) = Some ss"
  by (induction ss) auto

lemma texts_read_back [simp]: "texts_of (JArr (map JStr ss)) = Some ss"
  by (simp add: texts_of_def)

lemma opt_text_reads_back [simp]: "opt_text_of (json_opt s) = Some s"
  by (cases s) (simp_all add: opt_text_of_def json_opt_def)

lemma text_or_empty_reads_back [simp]: "text_or_empty (JStr s) = Some s"
  by (simp add: text_or_empty_def plain_text_def)

lemma object_reads_back [simp]: "object_or_empty (JObj kvs) = Some kvs"
  by (simp add: object_or_empty_def)

lemma credential_reads_back [simp]: "(case json_opt s of JStr t \<Rightarrow> Some t | _ \<Rightarrow> None) = s"
  by (cases s) (simp_all add: json_opt_def)

text \<open>Claim C15: what an adapter puts on the wire is what the service reads from it, field by field.\<close>

theorem wire_roundtrip: "decode_intent (encode_intent q) = Some q"
  by (cases q) (simp add: encode_intent_def decode_intent_def decode_fields_def decode_identity_def decode_target_def fields_of_def
    key_or_def plain_text_def Let_def)

section \<open>Credentials\<close>

lemma match_foldl:
  "foldl (\<lambda>found (token, who). if token = p then Some who else found) a table
     = (case map_of (rev table) p of None \<Rightarrow> a | Some who \<Rightarrow> Some who)"
  by (induction table arbitrary: a) (auto simp: map_add_def split: option.splits)

lemma match_token_iff: "match_token table c = (case c of None \<Rightarrow> None | Some p \<Rightarrow> if p = [] then None else map_of (rev table) p)"
  by (simp add: match_token_def match_foldl split: option.splits)

lemma in_process_table_lookup:
  assumes "inj tok"
  shows "map_of (rev (in_process_table tok)) (tok p)
    = Some \<lparr>ai_principal = ''agent_crew.in_process:'' @ caller_provenance_value p, ai_provenance = p\<rparr>"
  using assms by (cases p) (auto simp: in_process_table_def caller_provenances_def inj_eq)

lemma in_process_caller_named:
  assumes "inj tok" and "tok p \<noteq> []"
  shows "\<exists>c. in_process_caller tok minted fresh p = Inr (c, fresh # minted) \<and> ca_provenance c = p
    \<and> ca_identity_status c = UNVERIFIED \<and> is_authenticated_caller (fresh # minted) c"
  using assms by (simp add: in_process_caller_def authenticate_def match_token_iff in_process_table_lookup mint_caller_def
    adapter_token_kind_def is_authenticated_caller_def)

lemma unknown_credential_changes_nothing:
  assumes "serve e a caller_object now fresh frame s = (reply, t)" and "t \<noteq> s"
  shows "\<exists>q who. Option.bind frame decode_intent = Some q \<and> authenticate_identity a (wq_credential q) = Inr (Some who)"
  using assms by (auto simp: serve_def authenticate_def split: option.splits sum.splits auth_error.splits prod.splits)

section \<open>The client of the broker\<close>

text \<open>A refusal that is answered is written, and nothing else is.\<close>

definition refusal_recorded :: "store \<Rightarrow> string \<Rightarrow> authorization \<Rightarrow> store \<Rightarrow> bool" where
  "refusal_recorded s code a t \<longleftrightarrow>
     au_decision a = BLOCK \<and> au_code a = code \<and> au_status a = 403 \<and> st_lineages t = st_lineages s
     \<and> current_receipt t (rc_receipt_id (au_receipt a)) = Some (au_receipt a)
     \<and> (\<exists>w. st_receipts t = st_receipts s @ [w] \<and> row_receipt w = au_receipt a)"

lemma refuse_intent_recorded:
  assumes "refuse_intent e now fresh s i c code txt = Inr (a, t)"
  shows "refusal_recorded s code a t"
proof -
  let ?r = "refusal_receipt e now fresh i c (uncanonical_intent_hash (en_sha256 e) (in_identity i)) code txt [] BLOCK"
  obtain q where rec: "record_receipt now s ?r (Some ''engine'') (Some code) None = Inr (q, t)"
    and a: "a = \<lparr>au_receipt = ?r, au_status = 403, au_code = code, au_reused = False, au_existing = None\<rparr>"
    using assms by (auto simp: refuse_intent_def refuse_with_def record_refusal_def Let_def split: if_splits sum.splits)
  have "rc_decision ?r = BLOCK" by (simp add: refusal_receipt_def Let_def)
  then show ?thesis
    using record_receipt_frame [OF rec] record_current [OF rec, of "rc_receipt_id ?r"] rec
    by (auto simp: refusal_recorded_def a au_decision_def record_receipt_def Let_def split: if_splits)
qed

text \<open>A grant that another user signed off, on an engine that enforces.\<close>

definition foreign_grant :: authorization where
  "foreign_grant = \<lparr>au_receipt = sample_receipt ISSUED ALLOW, au_status = 200, au_code = [], au_reused = False, au_existing = None\<rparr>"

lemma foreign_grant_answered:
  "\<exists>a t. broker_authorize (sample_engine ENFORCE [] []) 0 sample_id empty_store (sample_intent OPS) sample_caller False
        (broker_decision (Some 998) (Some (Wire_Answer foreign_grant, Some 1000))) = Inr (a, t)"
proof -
  let ?e = "fallback_engine (sample_engine ENFORCE [] [])"
  have "call_ok (sample_engine ENFORCE [] []) 0 sample_id empty_store (sample_intent OPS) sample_caller"
    by (rule sample_call) simp
  then have call: "call_ok ?e 0 sample_id empty_store (sample_intent OPS) sample_caller"
    by (simp add: call_ok_def fallback_engine_def)
  have code: "is_reason_code ''BROKER_UNREACHABLE''" by code_simp
  have mode: "en_mode (sample_engine ENFORCE [] []) = ENFORCE" by (simp add: sample_engine_def)
  have refused: "answers (refuse_intent ?e 0 sample_id empty_store (sample_intent OPS) sample_caller ''BROKER_UNREACHABLE'' why)
      empty_store 403 ''BROKER_UNREACHABLE'' BLOCK None" for why
    using refuse_with_answers [OF call call_okD(9) [OF call] code] call_okD(7) [OF call]
    by (simp add: refuse_intent_def uncanonical_intent_hash_def)
  have "\<exists>a t. refuse_intent ?e 0 sample_id empty_store (sample_intent OPS) sample_caller ''BROKER_UNREACHABLE'' why = Inr (a, t)" for why
    using refused [of why] by (cases "refuse_intent ?e 0 sample_id empty_store (sample_intent OPS) sample_caller ''BROKER_UNREACHABLE'' why")
      (auto simp: answers_def)
  then obtain a t where "refuse_intent ?e 0 sample_id empty_store (sample_intent OPS) sample_caller ''BROKER_UNREACHABLE''
      ''CEA broker unreachable; embedded authorization is forbidden in enforce mode'' = Inr (a, t)" by blast
  with mode show ?thesis
    by (simp add: broker_authorize_def broker_decision_def embedded_authorization_permitted_def raised_def)
qed

text \<open>
  Claim C11: in enforce mode an allowance is never the runtime's own: when the service's user answered over the
  socket, the client returns that answer and writes nothing; whatever else came back, from whatever user, or nothing
  at all, an answer of the client is a refusal, 403 \<open>BROKER_UNREACHABLE\<close>, with its receipt written as the one new
  row of the store and the lineages untouched.
\<close>

theorem enforced_grant_is_remote:
  assumes "en_mode e = ENFORCE" and "broker_authorize e now fresh s i c retry (broker_decision expected got) = Inr (a, t)"
  shows "if \<exists>uid b. expected = Some uid \<and> got = Some (Wire_Answer b, Some uid)
    then got = Some (Wire_Answer a, expected) \<and> t = s
    else refusal_recorded s ''BROKER_UNREACHABLE'' a t"
proof -
  have enforce: "\<not> embedded_authorization_permitted (en_mode e)" by (simp add: assms(1) embedded_authorization_permitted_def)
  show ?thesis
  proof (cases "broker_decision expected got")
    case (Wire_Answer b)
    then have "got = Some (Wire_Answer b, expected) \<and> expected \<noteq> None"
      by (auto simp: broker_decision_def split: option.splits prod.splits if_splits)
    moreover have "b = a \<and> t = s" using assms(2) Wire_Answer by (simp add: broker_authorize_def)
    ultimately show ?thesis by auto
  next
    case Wire_Unauthenticated
    then show ?thesis using assms(2) by (simp add: broker_authorize_def)
  next
    case Wire_Unreachable
    then have "\<not> (\<exists>uid b. expected = Some uid \<and> got = Some (Wire_Answer b, Some uid))" by (auto simp: broker_decision_def)
    moreover have "refusal_recorded s ''BROKER_UNREACHABLE'' a t"
      using assms(2) enforce Wire_Unreachable
      by (auto simp: broker_authorize_def raised_def split: sum.splits dest: refuse_intent_recorded)
    ultimately show ?thesis by auto
  next
    case Wire_Error
    then have "\<not> (\<exists>uid b. expected = Some uid \<and> got = Some (Wire_Answer b, Some uid))" by (auto simp: broker_decision_def)
    moreover have "refusal_recorded s ''BROKER_UNREACHABLE'' a t"
      using assms(2) enforce Wire_Error
      by (auto simp: broker_authorize_def raised_def split: sum.splits dest: refuse_intent_recorded)
    ultimately show ?thesis by auto
  qed
qed

theorem enforced_grant_is_remote_witness:
  "\<exists>a t. broker_authorize (sample_engine ENFORCE [] []) 0 sample_id empty_store (sample_intent OPS) sample_caller False
        (broker_decision (Some 998) (Some (Wire_Answer foreign_grant, Some 1000))) = Inr (a, t)
      \<and> refusal_recorded empty_store ''BROKER_UNREACHABLE'' a t"
proof -
  let ?run = "broker_authorize (sample_engine ENFORCE [] []) 0 sample_id empty_store (sample_intent OPS) sample_caller False
        (broker_decision (Some 998) (Some (Wire_Answer foreign_grant, Some 1000)))"
  have mode: "en_mode (sample_engine ENFORCE [] []) = ENFORCE" by (simp add: sample_engine_def)
  obtain a t where run: "?run = Inr (a, t)" using foreign_grant_answered by blast
  from enforced_grant_is_remote [OF mode run] run show ?thesis by auto
qed

section \<open>One claim per attempt\<close>

text \<open>What the broker holds on an attempt: nothing, a registration, or a conflict.\<close>

definition claim_of :: "broker \<times> store \<Rightarrow> attempt_key \<Rightarrow> registration option option" where
  "claim_of st k = (if k \<in> set (bk_poisoned (fst st)) then Some None else map_option Some (map_of (bk_regs (fst st)) k))"

definition claim_kept :: "registration option \<Rightarrow> registration option \<Rightarrow> bool" where
  "claim_kept v w \<longleftrightarrow> w = v \<or> w = None"

definition broker_ok :: "broker \<times> store \<Rightarrow> bool" where
  "broker_ok st \<longleftrightarrow> (\<forall>k r. map_of (bk_regs (fst st)) k = Some r \<longrightarrow>
     rg_origin r = Peer_Asserted \<and> (rg_receipt_id r, rg_attempt r) = k \<and> k \<notin> set (bk_poisoned (fst st)))"

lemma map_of_filter_key: "map_of (filter (\<lambda>e. fst e \<noteq> k) xs) j = (if j = k then None else map_of xs j)"
  by (induction xs) auto

lemma register_cases:
  assumes "register w peer req b = (r, b')"
  obtains (refused) "r \<noteq> Recorded" "b' = b"
  | (contested) k old where "r \<noteq> Recorded" "map_of (bk_regs b) k = Some old"
      "b' = b\<lparr>bk_poisoned := k # bk_poisoned b, bk_regs := filter (\<lambda>e. fst e \<noteq> k) (bk_regs b)\<rparr>"
  | (recorded) pid start k p new where "r = Recorded" "register_fields req = Some (pid, start, k)"
      "map_of (be_processes w) pid = Some p" "pc_start p = start" "pc_ppid p = peer"
      "\<not> descends (executors b) (be_processes w) [] pid"
      "k \<notin> set (bk_poisoned b)" "map_of (bk_regs b) k = None" "b' = b\<lparr>bk_regs := bk_regs b @ [(k, new)]\<rparr>"
      "rg_pid new = pid" "rg_start new = start" "(rg_receipt_id new, rg_attempt new) = k" "rg_by new = peer" "rg_origin new = Peer_Asserted"
proof (cases "register_fields req")
  case None
  then show ?thesis using assms that(1) by (auto simp: register_def)
next
  case (Some f)
  obtain pid start k where f: "f = (pid, start, k)" by (cases f)
  show ?thesis
  proof (cases "map_of (be_processes w) pid")
    case None
    then show ?thesis using assms that(1) Some f by (auto simp: register_def)
  next
    case (Some p)
    note now = \<open>register_fields req = Some f\<close> [unfolded f] Some
    let ?new = "\<lparr>rg_pid = pid, rg_start = start, rg_receipt_id = fst k, rg_attempt = snd k, rg_by = peer,
      rg_nonce = be_nonce w, rg_origin = Peer_Asserted\<rparr>"
    consider "pc_start p \<noteq> start \<or> pc_ppid p \<noteq> peer \<or> descends (executors b) (be_processes w) [] pid \<or> k \<in> set (bk_poisoned b)"
      | old where "pc_start p = start" "pc_ppid p = peer" "\<not> descends (executors b) (be_processes w) [] pid"
          "k \<notin> set (bk_poisoned b)" "map_of (bk_regs b) k = Some old"
      | "pc_start p = start" "pc_ppid p = peer" "\<not> descends (executors b) (be_processes w) [] pid"
          "k \<notin> set (bk_poisoned b)" "map_of (bk_regs b) k = None"
      by (cases "map_of (bk_regs b) k") auto
    then show ?thesis
    proof cases
      case 1
      then show ?thesis using assms that(1) now by (auto simp: register_def split: if_splits)
    next
      case (2 old)
      then show ?thesis using assms that(2) [of k old] now by (auto simp: register_def)
    next
      case 3
      then show ?thesis using assms that(3) [of pid start k p ?new] now by (simp add: register_def)
    qed
  qed
qed

lemma register_attests_nothing [simp]: "register w peer req b \<noteq> (Attested a, b')"
  by (simp add: register_def split: option.splits prod.splits)

lemma handle_broker:
  assumes "handle w peer uid req (b, s) = (r, b', s')"
  shows "b' = b \<or> (\<exists>kvs r'. req = JObj kvs \<and> key_or JNull kvs ''op'' = JStr ''register'' \<and> register w peer kvs b = (r', b') \<and> r = r'
     \<and> (uid \<in> set (bk_client_uids b) \<or> uid = bk_euid b))"
  using assms by (auto simp: handle_def Let_def split: if_splits json.splits prod.splits)

lemma register_ok:
  assumes "register w peer req b = (r, b')" and "broker_ok (b, s)"
  shows "broker_ok (b', s')"
  using assms(1)
proof (cases rule: register_cases)
  case (recorded pid start k p new)
  then show ?thesis using assms(2) by (auto simp: broker_ok_def map_add_def split: option.splits)
qed (use assms(2) in \<open>auto simp: broker_ok_def map_of_filter_key split: if_splits\<close>)

lemma register_keeps_claim:
  assumes "register w peer req b = (r, b')" and "claim_of (b, s) k = Some v"
  shows "\<exists>u. claim_of (b', s') k = Some u \<and> claim_kept v u"
  using assms(1)
proof (cases rule: register_cases)
  case (contested j old)
  then show ?thesis using assms(2) by (auto simp: claim_of_def claim_kept_def map_of_filter_key split: if_splits)
next
  case (recorded pid start j p new)
  then show ?thesis using assms(2) by (auto simp: claim_of_def claim_kept_def map_add_def split: if_splits option.splits)
qed (use assms(2) in \<open>auto simp: claim_of_def claim_kept_def\<close>)

interpretation claims: kept_view claim_of claim_kept broker_ok broker_step
proof unfold_locales
  fix st st' assume step: "broker_step st st'" and ok: "broker_ok st"
  obtain w peer uid req r where h: "handle w peer uid req st = (r, st')" using step by (auto elim: broker_stepE)
  obtain b s b' s' where st: "st = (b, s)" "st' = (b', s')" by (cases st, cases st')
  from handle_broker h have "b' = b \<or> (\<exists>kvs r'. register w peer kvs b = (r', b'))" unfolding st by blast
  then have both: "broker_ok st' \<and> (\<forall>k v. claim_of st k = Some v \<longrightarrow> (\<exists>u. claim_of st' k = Some u \<and> claim_kept v u))"
  proof
    assume "b' = b"
    then have "claim_of st' = claim_of st" "broker_ok st' = broker_ok st" by (simp_all add: st claim_of_def broker_ok_def fun_eq_iff)
    then show ?thesis using ok by (simp add: claim_kept_def)
  next
    assume "\<exists>kvs r'. register w peer kvs b = (r', b')"
    then show ?thesis using register_ok register_keeps_claim ok unfolding st by metis
  qed
  then show "broker_ok st'" by blast
  show "\<exists>u. claim_of st' k = Some u \<and> claim_kept v u" if "claim_of st k = Some v" for k v using both that by blast
qed (auto simp: claim_kept_def)

text \<open>
  Claim C13: an attempt is claimed once: a registration stands in every later state as it is, or the attempt is in
  conflict for good. A claimed attempt is never registered again, and a contested one is blocked for every peer
  while the broker lives.
\<close>

theorem claimed_attempt_kept:
  assumes "broker_step\<^sup>*\<^sup>* (fresh_broker degraded uids euid writable, s) st" and "broker_step\<^sup>*\<^sup>* st st'" and "claim_of st k = Some v"
  shows "(claim_of st' k = Some v \<or> claim_of st' k = Some None)
    \<and> (\<forall>w peer req pid start. register_fields req = Some (pid, start, k) \<longrightarrow> fst (register w peer req (fst st')) \<noteq> Recorded)
    \<and> (claim_of st' k = Some None \<longrightarrow>
         (\<forall>w peer. attested w peer k (fst st') = plain_answer Binding_Blocked ''REGISTRATION_CONFLICT'' None))"
proof -
  have "broker_ok (fresh_broker degraded uids euid writable, s)" by (simp add: broker_ok_def fresh_broker_def)
  then have "broker_ok st" using claims.stays_ok [OF assms(1)] by blast
  from claims.run_kept [OF assms(2) this assms(3)] have kept: "claim_of st' k = Some v \<or> claim_of st' k = Some None"
    by (auto simp: claim_kept_def)
  have "fst (register w peer req (fst st')) \<noteq> Recorded" if "register_fields req = Some (pid, start, k)" for w peer req pid start
  proof (rule register_cases [of w peer req "fst st'" "fst (register w peer req (fst st'))" "snd (register w peer req (fst st'))"])
    fix pid2 start2 k2 p new
    assume "register_fields req = Some (pid2, start2, k2)" "k2 \<notin> set (bk_poisoned (fst st'))" "map_of (bk_regs (fst st')) k2 = None"
    with that kept show ?thesis by (simp add: claim_of_def)
  qed simp_all
  moreover have "attested w peer k (fst st') = plain_answer Binding_Blocked ''REGISTRATION_CONFLICT'' None"
    if "claim_of st' k = Some None" for w peer
    using that by (auto simp: claim_of_def attested_def split: if_splits)
  ultimately show ?thesis using kept by blast
qed

section \<open>Attestations\<close>

definition serve_all :: "(broker_env \<times> int \<times> int \<times> json) list \<Rightarrow> broker \<times> store \<Rightarrow> broker \<times> store" where
  "serve_all reqs st = foldl (\<lambda>st (w, peer, uid, req). snd (handle w peer uid req st)) st reqs"

text \<open>The request behind a registration: who sent it, and that the process was the sender's child then.\<close>

definition asked_by :: "int list \<Rightarrow> int \<Rightarrow> registration \<Rightarrow> broker_env \<times> int \<times> int \<times> json \<Rightarrow> bool" where
  "asked_by uids euid r e \<longleftrightarrow>
     (case e of (w, peer, uid, req) \<Rightarrow>
        (uid \<in> set uids \<or> uid = euid) \<and> peer = rg_by r
        \<and> (case req of
             JObj kvs \<Rightarrow> key_or JNull kvs ''op'' = JStr ''register''
                 \<and> register_fields kvs = Some (rg_pid r, rg_start r, rg_receipt_id r, rg_attempt r)
           | _ \<Rightarrow> False)
        \<and> (case map_of (be_processes w) (rg_pid r) of None \<Rightarrow> False | Some p \<Rightarrow> pc_start p = rg_start r \<and> pc_ppid p = peer))"

lemma serve_all_registered:
  "serve_all reqs (fresh_broker degraded uids euid writable, s) = (b, s') \<Longrightarrow>
     bk_client_uids b = uids \<and> bk_euid b = euid \<and> bk_degraded b = degraded \<and> bk_tree_writable b = writable \<and> broker_ok (b, s')
     \<and> (\<forall>k r. map_of (bk_regs b) k = Some r \<longrightarrow> (\<exists>e \<in> set reqs. asked_by uids euid r e))"
proof (induction reqs arbitrary: b s' rule: rev_induct)
  case Nil
  then show ?case by (auto simp: serve_all_def fresh_broker_def broker_ok_def)
next
  case (snoc e reqs)
  obtain w peer uid req where e: "e = (w, peer, uid, req)" by (cases e)
  obtain c t where prior: "serve_all reqs (fresh_broker degraded uids euid writable, s) = (c, t)" by fastforce
  note ih = snoc.IH [OF prior]
  obtain r where h: "handle w peer uid req (c, t) = (r, b, s')"
    using snoc.prems prior by (cases "handle w peer uid req (c, t)") (simp add: serve_all_def e)
  from handle_broker [OF h] show ?case
  proof
    assume "b = c"
    then show ?thesis using ih by (auto simp: broker_ok_def)
  next
    assume "\<exists>kvs r'. req = JObj kvs \<and> key_or JNull kvs ''op'' = JStr ''register'' \<and> register w peer kvs c = (r', b) \<and> r = r'
      \<and> (uid \<in> set (bk_client_uids c) \<or> uid = bk_euid c)"
    then obtain kvs where reg: "req = JObj kvs" "key_or JNull kvs ''op'' = JStr ''register''" "register w peer kvs c = (r, b)"
        "uid \<in> set uids \<or> uid = euid" using ih by auto
    have ok: "broker_ok (b, s')" using register_ok [OF reg(3)] ih by blast
    show ?thesis using reg(3)
    proof (cases rule: register_cases)
      case refused
      then show ?thesis using ih ok by auto
    next
      case (contested k old)
      then show ?thesis using ih ok by (auto simp: map_of_filter_key split: if_splits)
    next
      case (recorded pid start k p new)
      have "asked_by uids euid new e"
        using recorded reg by (auto simp: asked_by_def e)
      then show ?thesis using ih ok recorded(9) by (auto simp: map_add_def split: option.splits)
    qed
  qed
qed

lemma attested_cases:
  assumes "\<forall>r. map_of (bk_regs b) k = Some r \<longrightarrow> rg_origin r = Peer_Asserted"
  shows "at_status (attested w peer k b) \<noteq> Binding_Verified \<and> at_nonce (attested w peer k b) = None
    \<and> (\<forall>r. at_evidence (attested w peer k b) = Some r \<longrightarrow>
         map_of (bk_regs b) k = Some r \<and> peer = rg_pid r \<and> \<not> bk_degraded b \<and> \<not> bk_tree_writable b
         \<and> (\<exists>p. map_of (be_processes w) peer = Some p \<and> pc_start p = rg_start r \<and> pc_tracer p = Some 0))"
  using assms by (auto simp: attested_def plain_answer_def split: option.splits if_splits)

text \<open>
  Claim C12: an attestation is never a verified binding and hands out no nonce. What it offers as evidence is true of
  the peer: it is the registered process, untraced, and a request of the named registrant, whose child it was
  then, registered it for this attempt. A broker that runs degraded or from a writable tree offers none.
\<close>

theorem attestation_is_evidence_only:
  assumes "serve_all reqs (fresh_broker degraded uids euid writable, s) = st" and "handle w peer uid req st = (Attested a, st')"
  shows "at_status a \<noteq> Binding_Verified \<and> at_nonce a = None
    \<and> (\<forall>r. at_evidence a = Some r \<longrightarrow> \<not> degraded \<and> \<not> writable \<and> peer = rg_pid r
         \<and> (\<exists>p. map_of (be_processes w) peer = Some p \<and> pc_start p = rg_start r \<and> pc_tracer p = Some 0)
         \<and> (\<exists>e \<in> set reqs. asked_by uids euid r e))"
proof -
  obtain b t where st: "st = (b, t)" by fastforce
  note run = serve_all_registered [OF assms(1) [unfolded st]]
  obtain k where a: "a = attested w peer k b"
    using assms(2) by (auto simp: st handle_def Let_def attest_def spawn_def broker_health_def broker_grant_def grant_signed_def
      split: if_splits json.splits option.splits prod.splits sum.splits auth_error.splits) 
  have "\<forall>r. map_of (bk_regs b) k = Some r \<longrightarrow> rg_origin r = Peer_Asserted" using run by (cases k) (auto simp: broker_ok_def)
  from attested_cases [OF this, of w peer] run show ?thesis unfolding a by blast
qed

text \<open>
  A process identifier that once belonged to a registered executor keeps every later process of that number from
  registering its children, although the start time tells them apart.
\<close>

lemma recycled_pid_refused:
  assumes "broker_step\<^sup>*\<^sup>* (fresh_broker degraded uids euid writable, s) st" and "broker_step\<^sup>*\<^sup>* st st'"
    and "claim_of st k = Some (Some r)" and "claim_of st' k \<noteq> Some None"
    and "register_fields req = Some (pid, start, j)" and "1 < pid"
  shows "fst (register w (rg_pid r) req (fst st')) \<noteq> Recorded"
proof (rule register_cases [of w "rg_pid r" req "fst st'" "fst (register w (rg_pid r) req (fst st'))" "snd (register w (rg_pid r) req (fst st'))"])
  have "broker_ok st" using claims.stays_ok [OF assms(1)] by (simp add: broker_ok_def fresh_broker_def)
  from claims.run_kept [OF assms(2) this assms(3)] assms(4) have "claim_of st' k = Some (Some r)" by (auto simp: claim_kept_def)
  then have "map_of (bk_regs (fst st')) k = Some r" by (simp add: claim_of_def split: if_splits)
  then have "rg_pid r \<in> set (executors (fst st'))" by (force simp: executors_def dest: map_of_SomeD)
  moreover fix p pid2 start2 k2 new
  assume "register_fields req = Some (pid2, start2, k2)" "map_of (be_processes w) pid2 = Some p" "pc_ppid p = rg_pid r"
    "\<not> descends (executors (fst st')) (be_processes w) [] pid2"
  ultimately show ?thesis using assms(5,6) by (simp add: descends.simps [of "executors (fst st')"])
qed simp_all

section \<open>Samples\<close>

definition spawn_env :: broker_env where
  "spawn_env =
     \<lparr>be_engine = None, be_authenticator = None, be_sign = (\<lambda>r. None), be_object = 0, be_clock = 0, be_fresh = [], be_nonce = ''n1'',
      be_processes = [(20, \<lparr>pc_ppid = 10, pc_start = 7, pc_tracer = Some 0\<rparr>), (10, \<lparr>pc_ppid = 1, pc_start = 3, pc_tracer = Some 0\<rparr>)]\<rparr>"

definition spawn_fields :: fields where
  "spawn_fields =
     [(''op'', JStr ''register''), (''pid'', JInt 20), (''start_time'', JInt 7), (''receipt_id'', JStr ''r1''), (''attempt'', JInt 1)]"

definition spawned :: registration where
  "spawned = \<lparr>rg_pid = 20, rg_start = 7, rg_receipt_id = ''r1'', rg_attempt = 1, rg_by = 10, rg_nonce = ''n1'', rg_origin = Peer_Asserted\<rparr>"

definition spawn_broker :: broker where
  "spawn_broker = (fresh_broker False [1000] 998 False)\<lparr>bk_regs := [((''r1'', 1), spawned)]\<rparr>"

lemma spawn_registered: "register_fields spawn_fields = Some (20, 7, ''r1'', 1)"
  by (simp add: register_fields_def attempt_of_def spawn_fields_def int_value_def shown_def)

lemma spawn_handled:
  "handle spawn_env 10 1000 (JObj spawn_fields) (fresh_broker False [1000] 998 False, s) = (Recorded, spawn_broker, s)"
proof -
  have "\<not> descends (executors (fresh_broker False [1000] 998 False)) (be_processes spawn_env) [] 20"
    by (simp add: descends.simps executors_def fresh_broker_def spawn_env_def)
  then have "register spawn_env 10 spawn_fields (fresh_broker False [1000] 998 False) = (Recorded, spawn_broker)"
    by (simp add: register_def spawn_registered) (simp add: spawn_env_def fresh_broker_def spawn_broker_def spawned_def)
  moreover have "key_or JNull spawn_fields ''op'' = JStr ''register''" by (simp add: key_or_def spawn_fields_def)
  ultimately show ?thesis by (simp add: handle_def Let_def fresh_broker_def)
qed

theorem claimed_attempt_kept_witness:
  "fst (register spawn_env 10 spawn_fields spawn_broker) \<noteq> Recorded"
proof -
  let ?first = "(fresh_broker False [1000] 998 False, empty_store)"
  have "broker_step ?first (spawn_broker, empty_store)"
    by (rule broker_step.request [of spawn_env 10 1000 "JObj spawn_fields" ?first Recorded]) (rule spawn_handled)
  then have "broker_step\<^sup>*\<^sup>* ?first (spawn_broker, empty_store)" by blast
  moreover have "claim_of (spawn_broker, empty_store) (''r1'', 1) = Some (Some spawned)"
    by (simp add: claim_of_def spawn_broker_def fresh_broker_def)
  ultimately show ?thesis
    using claimed_attempt_kept [of False "[1000]" 998 False empty_store "(spawn_broker, empty_store)" "(spawn_broker, empty_store)"
        "(''r1'', 1)" "Some spawned"] spawn_registered by auto
qed

definition attest_fields :: fields where
  "attest_fields = [(''op'', JStr ''attest''), (''receipt_id'', JStr ''r1''), (''attempt'', JInt 1)]"

theorem attestation_is_evidence_only_witness:
  "\<exists>a. handle spawn_env 20 1000 (JObj attest_fields) (spawn_broker, empty_store) = (Attested a, spawn_broker, empty_store)
    \<and> at_evidence a = Some spawned \<and> at_status a \<noteq> Binding_Verified"
proof -
  have k: "attempt_of attest_fields = Some (''r1'', 1)" by (simp add: attempt_of_def attest_fields_def int_value_def shown_def)
  have op: "key_or JNull attest_fields ''op'' = JStr ''attest''" by (simp add: key_or_def attest_fields_def)
  let ?a = "attested spawn_env 20 (''r1'', 1) spawn_broker"
  have "handle spawn_env 20 1000 (JObj attest_fields) (spawn_broker, empty_store) = (Attested ?a, spawn_broker, empty_store)"
    by (simp add: handle_def Let_def attest_def k op) (simp add: spawn_broker_def fresh_broker_def)
  moreover have "at_evidence ?a = Some spawned"
    by (simp add: attested_def spawn_broker_def fresh_broker_def) (simp add: spawn_env_def spawned_def plain_answer_def)
  ultimately obtain a where a: "handle spawn_env 20 1000 (JObj attest_fields) (spawn_broker, empty_store) = (Attested a, spawn_broker, empty_store)"
      "at_evidence a = Some spawned" by blast
  have "serve_all [(spawn_env, 10, 1000, JObj spawn_fields)] (fresh_broker False [1000] 998 False, empty_store) = (spawn_broker, empty_store)"
    by (simp add: serve_all_def spawn_handled)
  from attestation_is_evidence_only [OF this a(1)] a show ?thesis by blast
qed

end
