(* ===== verification/Issues.thy ===== *)
theory Issues
  imports Pipeline_Guards Inputs
begin

text \<open>
  GitHub's issues as the watcher and the triage read them: the listing with its declared links (\<open>triage.py\<close>),
  the filters and orders over it (\<open>triage.py\<close>, \<open>watch.py\<close>), and the cap on a stored issue body
  (\<open>context_pack.py\<close>). GitHub's answers are arguments.
\<close>

section \<open>The listing and its links\<close>

function chunks_of :: "nat \<Rightarrow> 'a list \<Rightarrow> 'a list list" where
  "chunks_of n xs = (if n = 0 \<or> xs = [] then [] else take n xs # chunks_of n (drop n xs))"
  by pat_completeness auto

termination
  by (relation "measure (length \<circ> snd)") auto

declare chunks_of.simps [simp del]

type_synonym issue_rows = "(string \<times> json) list list"

fun objects_of :: "json list \<Rightarrow> issue_rows option" where
  "objects_of [] = Some []"
| "objects_of (v # vs) = (case v of JObj kvs \<Rightarrow> map_option ((#) kvs) (objects_of vs) | _ \<Rightarrow> None)"

text \<open>Whether a page of links is complete; \<open>None\<close> when its page information cannot be read.\<close>

definition complete_page :: "json \<Rightarrow> bool option" where
  "complete_page v =
     (case v of
        JObj l \<Rightarrow>
          (case key_or JNull l ''nodes'' of
             JArr ns \<Rightarrow>
               (case key_or JNull l ''pageInfo'' of
                  JObj p \<Rightarrow> Some (key_or JNull p ''hasNextPage'' = JBool False)
                | w \<Rightarrow> if json_truthy w then None else Some False)
           | _ \<Rightarrow> Some False)
      | _ \<Rightarrow> Some False)"

definition page_nodes :: "json \<Rightarrow> json" where
  "page_nodes v = (case v of JObj l \<Rightarrow> key_or JNull l ''nodes'' | _ \<Rightarrow> JNull)"

definition linked_row :: "(string \<times> json) list \<Rightarrow> (string \<times> json) list \<Rightarrow> (string \<times> json) list" where
  "linked_row node row =
     set_field (set_field (set_field (set_field row ''parent'' (key_or JNull node ''parent''))
       ''trackedInIssues'' (page_nodes (key_or JNull node ''trackedInIssues'')))
       ''blockedBy'' (page_nodes (key_or JNull node ''blockedBy''))) ''dependency_unknown'' (JBool False)"

text \<open>Of several rows of one identifier the last is the one that is known by it.\<close>

fun change_first :: "('a \<Rightarrow> bool) \<Rightarrow> ('a \<Rightarrow> 'a) \<Rightarrow> 'a list \<Rightarrow> 'a list" where
  "change_first p f [] = []"
| "change_first p f (x # xs) = (if p x then f x # xs else x # change_first p f xs)"

definition known_id :: "issue_rows \<Rightarrow> string \<Rightarrow> bool" where
  "known_id rows i \<longleftrightarrow> list_ex (\<lambda>r. key_or JNull r ''id'' = JStr i) rows"

definition change_row :: "string \<Rightarrow> ((string \<times> json) list \<Rightarrow> (string \<times> json) list) \<Rightarrow> issue_rows \<Rightarrow> issue_rows" where
  "change_row i f rows = rev (change_first (\<lambda>r. key_or JNull r ''id'' = JStr i) f (rev rows))"

text \<open>One node of an answer; the flag is false when reading it raised, which ends its answer.\<close>

definition attach_node :: "json \<Rightarrow> issue_rows \<Rightarrow> bool \<times> issue_rows" where
  "attach_node v rows =
     (case v of
        JObj node \<Rightarrow>
          (case key_or JNull node ''id'' of
             JStr i \<Rightarrow>
               if \<not> known_id rows i then (True, rows)
               else (case complete_page (key_or JNull node ''trackedInIssues'') of
                       None \<Rightarrow> (False, rows)
                     | Some False \<Rightarrow> (True, rows)
                     | Some True \<Rightarrow>
                         (case complete_page (key_or JNull node ''blockedBy'') of
                            None \<Rightarrow> (False, rows)
                          | Some False \<Rightarrow> (True, rows)
                          | Some True \<Rightarrow> (True, change_row i (linked_row node) rows)))
           | JArr xs \<Rightarrow> (False, rows)
           | JObj kvs \<Rightarrow> (False, rows)
           | _ \<Rightarrow> (True, rows))
      | _ \<Rightarrow> (True, rows))"

fun attach_nodes :: "json list \<Rightarrow> issue_rows \<Rightarrow> issue_rows" where
  "attach_nodes [] rows = rows"
| "attach_nodes (v # vs) rows = (case attach_node v rows of (ok, rows1) \<Rightarrow> if ok then attach_nodes vs rows1 else rows1)"

text \<open>The nodes of an answer that was read, has no errors and lists them.\<close>

definition answer_nodes :: "json option \<Rightarrow> json list" where
  "answer_nodes v =
     (case v of
        Some (JObj l) \<Rightarrow>
          if json_truthy (key_or JNull l ''errors'') then []
          else (case key_or JNull l ''data'' of
                  JObj d \<Rightarrow> (case key_or JNull d ''nodes'' of JArr ns \<Rightarrow> ns | _ \<Rightarrow> [])
                | _ \<Rightarrow> [])
      | _ \<Rightarrow> [])"

definition row_ids :: "issue_rows \<Rightarrow> string list" where
  "row_ids rows = rev (remdups (rev (List.map_filter (\<lambda>r. case key_or JNull r ''id'' of JStr i \<Rightarrow> Some i | _ \<Rightarrow> None) rows)))"

text \<open>
  \<open>fetch_issues_from_gh\<close>: \<open>listing\<close> is the answer of \<open>gh issue list\<close>, \<open>links\<close> that of the look-up of a chunk of
  identifiers, \<open>None\<close> where the call or its reading failed. An issue is unknown until its links were read whole.
\<close>

definition fetch_issues_from_gh :: "json option \<Rightarrow> (string list \<Rightarrow> json option) \<Rightarrow> json list option" where
  "fetch_issues_from_gh listing links =
     (case listing of
        Some (JArr vs) \<Rightarrow>
          map_option (\<lambda>rows. map JObj
              (fold (\<lambda>ids. attach_nodes (answer_nodes (links ids))) (chunks_of 100 (row_ids rows))
                 (map (\<lambda>r. set_field r ''dependency_unknown'' (JBool True)) rows)))
            (objects_of vs)
      | Some v \<Rightarrow> if json_truthy v then None else Some []
      | None \<Rightarrow> None)"

section \<open>Issues\<close>

record issue =
  is_number :: int
  is_title :: string
  is_labels :: "string list"
  is_body :: string
  is_parents :: "int list"
  is_open_parents :: "int list"
  is_phase :: "int option"
  is_unknown :: bool
  is_url :: string

definition claim_label :: string where "claim_label = ''agent_crew:claimed''"

definition done_label :: string where "done_label = ''agent_crew:done''"

definition hold_label :: string where "hold_label = ''agent_crew:hold''"

text \<open>The declared links of an issue: its parent, the issues that track it and those that block it.\<close>

definition links_of :: "(string \<times> json) list \<Rightarrow> json list option" where
  "links_of item =
     (case (iterated (key_or JNull item ''trackedInIssues''), iterated (key_or JNull item ''blockedBy'')) of
        (Some ts, Some bs) \<Rightarrow> Some (key_or JNull item ''parent'' # ts @ bs) | _ \<Rightarrow> None)"

definition link_number :: "json \<Rightarrow> int option" where
  "link_number v =
     (case v of JObj l \<Rightarrow> (case key_or JNull l ''number'' of JInt n \<Rightarrow> if 0 < n then Some n else None | _ \<Rightarrow> None) | _ \<Rightarrow> None)"

definition open_link :: "json \<Rightarrow> int option" where
  "open_link v =
     (case v of
        JObj l \<Rightarrow>
          (if key_or JNull l ''state'' = JStr ''OPEN''
           then (case key_or JNull l ''number'' of JInt n \<Rightarrow> Some n | _ \<Rightarrow> None) else None)
      | _ \<Rightarrow> None)"

definition phase_of_label :: "string \<Rightarrow> int option" where
  "phase_of_label s =
     (let ds = drop 6 s in if startswith (py_lower s) ''phase:'' \<and> ds \<noteq> [] \<and> list_all is_digit ds then Some (int (number ds)) else None)"

fun first_phase :: "string list \<Rightarrow> int option" where
  "first_phase [] = None"
| "first_phase (s # ss) = (case phase_of_label s of None \<Rightarrow> first_phase ss | Some n \<Rightarrow> Some n)"

definition label_name :: "json \<Rightarrow> string option" where
  "label_name v = (case v of JObj l \<Rightarrow> (case map_of l ''name'' of Some (JStr s) \<Rightarrow> Some s | _ \<Rightarrow> None) | _ \<Rightarrow> None)"

fun label_names :: "json list \<Rightarrow> string list option" where
  "label_names [] = Some []"
| "label_names (v # vs) = (case (label_name v, label_names vs) of (Some s, Some ss) \<Rightarrow> Some (s # ss) | _ \<Rightarrow> None)"

text \<open>The names of the labels; a value that is no sequence cannot be read.\<close>

definition labels_of :: "(string \<times> json) list \<Rightarrow> string list option" where
  "labels_of item =
     (case key_or (JArr []) item ''labels'' of
        JArr vs \<Rightarrow> label_names vs | JObj kvs \<Rightarrow> if kvs = [] then Some [] else None
      | JStr s \<Rightarrow> if s = [] then Some [] else None | _ \<Rightarrow> None)"

text \<open>
  \<open>parse_issues\<close> on one item, with the address \<open>run_cycle\<close> puts on it; \<open>None\<close> when a field is missing or has
  another type than GitHub gives it. The numbers of a listing differ, so an address belongs to its own item.
\<close>

definition parse_issue :: "json \<Rightarrow> issue option" where
  "parse_issue v =
     (case v of
        JObj item \<Rightarrow>
          (case (key_or JNull item ''number'', key_or JNull item ''title'', links_of item,
                 labels_of item) of
             (JInt n, JStr title, Some links, Some labels) \<Rightarrow>
               Some \<lparr>is_number = n, is_title = title, is_labels = labels,
                     is_body = (case key_or JNull item ''body'' of JStr s \<Rightarrow> s | _ \<Rightarrow> []),
                     is_parents = rev (remdups (rev (List.map_filter link_number links))),
                     is_open_parents = List.map_filter open_link links,
                     is_phase = first_phase labels, is_unknown = json_truthy (key_or JNull item ''dependency_unknown''),
                     is_url = (case key_or JNull item ''url'' of JStr s \<Rightarrow> s | _ \<Rightarrow> [])\<rparr>
           | _ \<Rightarrow> None)
      | _ \<Rightarrow> None)"

fun parse_issues :: "json list \<Rightarrow> issue list option" where
  "parse_issues [] = Some []"
| "parse_issues (v # vs) = (case (parse_issue v, parse_issues vs) of (Some i, Some iss) \<Rightarrow> Some (i # iss) | _ \<Rightarrow> None)"

section \<open>Triage\<close>

definition severity_tiers :: "string list list" where
  "severity_tiers = [[''blocker'', ''blocked'', ''critical'', ''p0''], [''p1'', ''high'']]"

fun tier_index :: "string list \<Rightarrow> string list list \<Rightarrow> nat" where
  "tier_index names [] = 0"
| "tier_index names (t # ts) = (if list_ex (\<lambda>s. s \<in> set t) names then 0 else Suc (tier_index names ts))"

definition severity_score :: "string list \<Rightarrow> nat" where
  "severity_score labels = tier_index (map py_lower labels) severity_tiers"

definition filter_processed :: "issue list \<Rightarrow> issue list" where
  "filter_processed iss = filter (\<lambda>i. done_label \<notin> set (is_labels i)) iss"

definition filter_blocked :: "int set \<Rightarrow> issue list \<Rightarrow> issue list" where
  "filter_blocked shut iss =
     (let open_set = is_number ` set iss
      in filter (\<lambda>i. \<not> is_unknown i
           \<and> list_all (\<lambda>p. \<not> ((p \<in> open_set \<or> p \<in> set (is_open_parents i)) \<and> p \<notin> shut)) (is_parents i)) iss)"

definition phase_rank :: "issue \<Rightarrow> int" where
  "phase_rank i = (case is_phase i of None \<Rightarrow> 999 | Some n \<Rightarrow> n)"

text \<open>What \<open>run\<close> shows the agent: the eligible issues of the most severe tier, by phase.\<close>

definition triage_candidates :: "int set \<Rightarrow> issue list \<Rightarrow> issue list" where
  "triage_candidates shut iss =
     (let es = sort_key (\<lambda>i. severity_score (is_labels i)) (sort_key phase_rank (filter_blocked shut (filter_processed iss)))
      in case es of [] \<Rightarrow> []
         | e # _ \<Rightarrow> filter (\<lambda>i. severity_score (is_labels i) = severity_score (is_labels e)) es)"

section \<open>Priorities and eligibility for the watcher\<close>

definition priority_rules :: "(string list \<times> int) list" where
  "priority_rules =
     [([''p0'', ''critical'', ''blocker'', ''blocked'', ''incident'', ''outage'', ''security'', ''data-loss''], 1),
      ([''bug'', ''regression'', ''production'', ''prod'', ''safety'', ''p1'', ''high'', ''observability''], 2),
      ([''p2'', ''enhancement'', ''feature'', ''refactor'', ''cleanup''], 4),
      ([''p3'', ''p4'', ''docs'', ''documentation'', ''chore'', ''low'', ''question'', ''idea''], 5)]"

text \<open>\<open>^priority[:/\-\s]?([1-5])$\<close> on a label in lower case.\<close>

definition explicit_priority :: "string \<Rightarrow> int option" where
  "explicit_priority s =
     (if \<not> startswith s ''priority'' then None
      else let r = drop 8 s;
               d = (case r of [c] \<Rightarrow> Some c
                    | [sep, c] \<Rightarrow> if sep \<in> {CHR '':'', CHR ''/'', CHR ''-''} \<or> is_space sep then Some c else None
                    | _ \<Rightarrow> None)
           in (case d of None \<Rightarrow> None
               | Some c \<Rightarrow> if c \<in> set ''12345'' then Some (int (digit_value c)) else None))"

fun first_explicit :: "string list \<Rightarrow> int option" where
  "first_explicit [] = None"
| "first_explicit (s # ss) = (case explicit_priority s of None \<Rightarrow> first_explicit ss | Some n \<Rightarrow> Some n)"

fun best_rule :: "string list \<Rightarrow> (string list \<times> int) list \<Rightarrow> int option \<Rightarrow> int option" where
  "best_rule names [] best = best"
| "best_rule names ((tier, v) # rules) best =
     best_rule names rules
       (if list_ex (\<lambda>s. s \<in> set tier) names \<and> (case best of None \<Rightarrow> True | Some b \<Rightarrow> v < b) then Some v else best)"

definition priority_for :: "(string list \<times> int) list \<Rightarrow> string list \<Rightarrow> int" where
  "priority_for rules labels =
     (let names = map (\<lambda>l. py_lower (py_strip l)) labels
      in case first_explicit names of Some n \<Rightarrow> n
         | None \<Rightarrow> (case best_rule names rules None of None \<Rightarrow> 3 | Some b \<Rightarrow> b))"

text \<open>The order is by priority, phase and number: three stable sorts, the last key first.\<close>

definition selectable :: "int set \<Rightarrow> int set \<Rightarrow> issue \<Rightarrow> bool" where
  "selectable claimed active i \<longleftrightarrow>
     is_number i \<notin> claimed \<and> is_number i \<notin> active \<and> list_all (\<lambda>l. l \<notin> set (is_labels i)) [done_label, claim_label, hold_label]"

definition select_candidates :: "(string list \<times> int) list \<Rightarrow> int set \<Rightarrow> int set \<Rightarrow> issue list \<Rightarrow> issue list" where
  "select_candidates rules claimed active iss =
     sort_key (\<lambda>i. priority_for rules (is_labels i))
       (sort_key phase_rank (sort_key is_number (filter (selectable claimed active) iss)))"

text \<open>\<open>unblocked\<close>: an issue waits for its declared parents that are still open.\<close>

definition blocking :: "int set \<Rightarrow> issue \<Rightarrow> int \<Rightarrow> bool" where
  "blocking open_numbers i p \<longleftrightarrow> (p \<in> open_numbers \<or> p \<in> set (is_open_parents i)) \<and> p \<noteq> is_number i"

definition unblocked :: "issue list \<Rightarrow> issue list \<Rightarrow> issue list" where
  "unblocked iss everything =
     (let open_numbers = is_number ` set (filter (\<lambda>i. done_label \<notin> set (is_labels i)) everything)
      in filter (\<lambda>i. \<not> is_unknown i \<and> \<not> list_ex (blocking open_numbers i) (is_parents i)) iss)"

fun label_tier :: "string list \<Rightarrow> int option" where
  "label_tier [] = None"
| "label_tier (s # ss) =
     (if length s = 11 \<and> startswith s ''risk-tier:'' \<and> last s \<in> set ''0123'' then Some (int (digit_value (last s))) else label_tier ss)"

definition risk_tier_for_issue :: "(string \<Rightarrow> string option) \<Rightarrow> issue \<Rightarrow> int option" where
  "risk_tier_for_issue env i =
     (case label_tier (is_labels i) of
        Some n \<Rightarrow> Some n
      | None \<Rightarrow>
          (case env_text env ''AGENT_CREW_DEFAULT_RISK_TIER'' of
             [c] \<Rightarrow> if c \<in> set ''0123'' then Some (int (digit_value c)) else None
           | _ \<Rightarrow> None))"

section \<open>Acceptance criteria and the cap on a body\<close>

text \<open>
  \<open>_AC_RE\<close>: a heading of one to four \<open>#\<close> named acceptance, acceptance criteria, acceptance test or done, alone
  on its line, and the text up to the next such heading mark or the end.
\<close>

definition hashes :: "string \<Rightarrow> nat" where
  "hashes s = length (takeWhile (\<lambda>c. c = CHR ''#'') s)"

definition section_start :: "string \<Rightarrow> bool" where
  "section_start s \<longleftrightarrow>
     1 \<le> hashes s \<and> hashes s \<le> 4 \<and> (case drop (hashes s) s of [] \<Rightarrow> False | c # _ \<Rightarrow> is_space c)"

fun until_heading :: "bool \<Rightarrow> string \<Rightarrow> string" where
  "until_heading fresh [] = []"
| "until_heading fresh (c # cs) =
     (if fresh \<and> section_start (c # cs) then [] else c # until_heading (c = CHR 0x0A) cs)"

text \<open>\<open>\s*$\<close>: white space up to the end of a line, or of the text.\<close>

definition line_ends :: "string \<Rightarrow> bool" where
  "line_ends s \<longleftrightarrow> CHR 0x0A \<in> set (takeWhile is_space s) \<or> dropWhile is_space s = []"

definition skip_word :: "string \<Rightarrow> string \<Rightarrow> string option" where
  "skip_word w s = (if startswith (py_lower s) w then Some (drop (length w) s) else None)"

definition spaced_word :: "string \<Rightarrow> string \<Rightarrow> string option" where
  "spaced_word w s = (case s of [] \<Rightarrow> None | c # _ \<Rightarrow> if is_space c then skip_word w (dropWhile is_space s) else None)"

definition in_brackets :: "string \<Rightarrow> string option" where
  "in_brackets s =
     (case dropWhile is_space s of
        [] \<Rightarrow> None
      | c # cs \<Rightarrow>
          if c = CHR ''('' then (case dropWhile (\<lambda>d. d \<noteq> CHR '')'') cs of [] \<Rightarrow> None | _ # r \<Rightarrow> Some r) else None)"

fun first_ending :: "string option list \<Rightarrow> string option" where
  "first_ending [] = None"
| "first_ending (None # vs) = first_ending vs"
| "first_ending (Some s # vs) = (if line_ends s then Some s else first_ending vs)"

text \<open>What follows the name of the heading.\<close>

definition after_heading :: "string \<Rightarrow> string option" where
  "after_heading s =
     (if \<not> (1 \<le> hashes s \<and> hashes s \<le> 4) then None
      else let r = dropWhile is_space (drop (hashes s) s)
           in (case skip_word ''acceptance'' r of
                 Some t \<Rightarrow> first_ending [spaced_word ''criteria'' t, spaced_word ''tests'' t, spaced_word ''test'' t, Some t]
               | None \<Rightarrow>
                   (case skip_word ''done'' r of
                      Some t \<Rightarrow> first_ending [in_brackets t, Some t]
                    | None \<Rightarrow> None)))"

text \<open>\<open>group(0)\<close> of the first match.\<close>

fun find_section :: "bool \<Rightarrow> string \<Rightarrow> string" where
  "find_section fresh [] = []"
| "find_section fresh (c # cs) =
     (case (if fresh then after_heading (c # cs) else None) of
        Some t \<Rightarrow> take (length (c # cs) - length t) (c # cs) @ until_heading False t
      | None \<Rightarrow> find_section (c = CHR 0x0A) cs)"

definition extract_ac_block :: "string \<Rightarrow> string" where
  "extract_ac_block s = py_strip (find_section True s)"

fun remove_once :: "string \<Rightarrow> string \<Rightarrow> string" where
  "remove_once ac [] = []"
| "remove_once ac (c # cs) = (if startswith (c # cs) ac then drop (length ac) (c # cs) else c # remove_once ac cs)"

definition truncation_marker :: "int \<Rightarrow> string \<Rightarrow> string" where
  "truncation_marker omitted url =
     ''[... issue body truncated by agent_crew'' @ '': '' @ show_int omitted @ '' characters omitted''
     @ (if url \<noteq> [] then ''; read the full issue at '' @ url else []) @ '' ...]''"

definition body_limit :: nat where
  "body_limit = 20000"

definition gap :: string where
  "gap = [CHR 0x0A, CHR 0x0A]"

definition cap_issue_body :: "nat \<Rightarrow> string \<Rightarrow> string \<Rightarrow> string \<times> bool" where
  "cap_issue_body limit url s =
     (if length s \<le> limit then (s, False)
      else let ac = extract_ac_block s; prose = (if ac \<noteq> [] then remove_once ac s else s);
               kept = py_rstrip (take (limit - length ac) prose);
               omitted = int (length s) - int (length kept) - int (length ac)
           in ((if kept \<noteq> [] then kept @ gap else []) @ truncation_marker omitted url @ (if ac \<noteq> [] then gap @ ac else []), True))"

end
