(* ===== verification/Watch.thy ===== *)
theory Watch
  imports Issues
begin

text \<open>
  The watcher of GitHub issues (\<open>watch.py\<close>): the ledger of claims, the recovery of claims whose watcher died, one
  cycle from discovery to the enqueued task, and the loop of cycles. GitHub's answers, the clock and a fresh
  identifier are fields of a \<open>watch_world\<close>; the task goes through the queue's own \<open>enqueue\<close>. The statements on
  the table \<open>issue_claims\<close> succeed.
\<close>

section \<open>The ledger of claims\<close>

datatype claim_state = Claimed_Issue | Enqueued_Issue | Abandoned_Issue | Released_Issue

record claim_row =
  wc_repo :: string
  wc_number :: int
  wc_task_id :: string
  wc_state :: claim_state
  wc_owner :: string
  wc_reason :: string
  wc_attempts :: int
  wc_claimed_at :: time
  wc_updated_at :: time

type_synonym ledger = "claim_row list"

definition claim_key :: "claim_row \<Rightarrow> string \<times> int" where
  "claim_key r = (wc_repo r, wc_number r)"

definition claim_row_of :: "ledger \<Rightarrow> string \<Rightarrow> int \<Rightarrow> claim_row option" where
  "claim_row_of l repo n = row_of claim_key (repo, n) l"

definition held_states :: "claim_state list" where
  "held_states = [Claimed_Issue, Enqueued_Issue, Abandoned_Issue]"

definition change_claim :: "string \<Rightarrow> int \<Rightarrow> (claim_row \<Rightarrow> claim_row) \<Rightarrow> ledger \<Rightarrow> ledger" where
  "change_claim repo n f l = map (\<lambda>r. if claim_key r = (repo, n) then f r else r) l"

definition try_claim :: "time \<Rightarrow> string \<Rightarrow> int \<Rightarrow> string \<Rightarrow> int \<Rightarrow> ledger \<Rightarrow> bool \<times> ledger" where
  "try_claim now repo n owner max_attempts l =
     (case claim_row_of l repo n of
        None \<Rightarrow>
          (True, l @ [\<lparr>wc_repo = repo, wc_number = n, wc_task_id = [], wc_state = Claimed_Issue, wc_owner = owner, wc_reason = [],
                      wc_attempts = 0, wc_claimed_at = now, wc_updated_at = now\<rparr>])
      | Some r \<Rightarrow>
          if wc_state r \<in> set held_states then (False, l)
          else if max_attempts \<le> wc_attempts r
          then (False, change_claim repo n (\<lambda>r. r\<lparr>wc_state := Abandoned_Issue, wc_updated_at := now\<rparr>) l)
          else (True, change_claim repo n (\<lambda>r. r\<lparr>wc_state := Claimed_Issue, wc_owner := owner, wc_updated_at := now\<rparr>) l))"

text \<open>\<open>_set\<close>: whether a row was changed; a required state makes it a compare-and-set.\<close>

definition set_claim :: "time \<Rightarrow> string \<Rightarrow> int \<Rightarrow> claim_state option \<Rightarrow> (claim_row \<Rightarrow> claim_row) \<Rightarrow> ledger \<Rightarrow> bool \<times> ledger" where
  "set_claim now repo n require f l =
     (let ok = (\<lambda>r. claim_key r = (repo, n) \<and> (case require of None \<Rightarrow> True | Some s \<Rightarrow> wc_state r = s))
      in (list_ex ok l, map (\<lambda>r. if ok r then (f r)\<lparr>wc_updated_at := now\<rparr> else r) l))"

definition mark_enqueued :: "time \<Rightarrow> string \<Rightarrow> int \<Rightarrow> string \<Rightarrow> ledger \<Rightarrow> ledger" where
  "mark_enqueued now repo n tid l = snd (set_claim now repo n None (\<lambda>r. r\<lparr>wc_task_id := tid, wc_state := Enqueued_Issue\<rparr>) l)"

definition finish_claim :: "time \<Rightarrow> string \<Rightarrow> int \<Rightarrow> string \<Rightarrow> ledger \<Rightarrow> bool \<times> ledger" where
  "finish_claim now repo n tid l =
     set_claim now repo n (Some Claimed_Issue) (\<lambda>r. r\<lparr>wc_task_id := tid, wc_state := Enqueued_Issue\<rparr>) l"

definition returned :: "string \<Rightarrow> claim_row \<Rightarrow> claim_row" where
  "returned reason r = r\<lparr>wc_state := Released_Issue, wc_reason := reason, wc_attempts := wc_attempts r + 1\<rparr>"

definition release_stale :: "time \<Rightarrow> string \<Rightarrow> int \<Rightarrow> string \<Rightarrow> ledger \<Rightarrow> bool \<times> ledger" where
  "release_stale now repo n reason l = set_claim now repo n (Some Claimed_Issue) (returned reason) l"

definition release_issue :: "time \<Rightarrow> string \<Rightarrow> int \<Rightarrow> string \<Rightarrow> ledger \<Rightarrow> ledger" where
  "release_issue now repo n reason l = snd (set_claim now repo n None (returned reason) l)"

definition force_release :: "time \<Rightarrow> string \<Rightarrow> int \<Rightarrow> string \<Rightarrow> ledger \<Rightarrow> bool \<times> ledger" where
  "force_release now repo n reason l =
     set_claim now repo n None (\<lambda>r. r\<lparr>wc_state := Released_Issue, wc_reason := reason, wc_attempts := 0\<rparr>) l"

definition held_numbers :: "string \<Rightarrow> int \<Rightarrow> ledger \<Rightarrow> int set" where
  "held_numbers repo max_attempts l =
     wc_number ` set (filter (\<lambda>r. wc_repo r = repo
        \<and> (wc_state r \<in> set held_states \<or> wc_state r = Released_Issue \<and> max_attempts \<le> wc_attempts r)) l)"

definition list_claims :: "string \<Rightarrow> ledger \<Rightarrow> ledger" where
  "list_claims repo l =
     (if repo \<noteq> [] then sort_key wc_number (filter (\<lambda>r. wc_repo r = repo) l) else sort_key wc_repo (sort_key wc_number l))"

section \<open>The queue as the watcher sees it\<close>

definition issue_of_row :: "task_context \<Rightarrow> int option" where
  "issue_of_row ctx =
     (case ctx_key ctx ''issue'' of
        JInt n \<Rightarrow> if 0 < n then Some n
                  else (case ctx_key ctx ''issue_number'' of JInt m \<Rightarrow> if 0 < m then Some m else None | _ \<Rightarrow> None)
      | _ \<Rightarrow> (case ctx_key ctx ''issue_number'' of JInt m \<Rightarrow> if 0 < m then Some m else None | _ \<Rightarrow> None))"

definition terminal_statuses :: "string list" where
  "terminal_statuses =
     [''completed'', ''failed'', ''cancelled'', ''canceled'', ''expired'', ''needs_human'', ''timed_out'', ''blocked'']"

definition in_repo :: "string \<Rightarrow> task_row \<Rightarrow> bool" where
  "in_repo repo t \<longleftrightarrow>
     (let v = ctx_key (tk_context t) ''repo'' in repo = [] \<or> \<not> json_truthy v \<or> v = JStr repo)"

definition by_urgency :: "task_row list \<Rightarrow> task_row list" where
  "by_urgency ts = sort_key tk_priority (sort_key tk_created_at ts)"

text \<open>A queue that cannot be read is \<open>None\<close>.\<close>

definition active_issue_numbers :: "string \<Rightarrow> queue option \<Rightarrow> int set" where
  "active_issue_numbers repo q =
     (case q of None \<Rightarrow> {}
      | Some q \<Rightarrow> set (List.map_filter (\<lambda>t. issue_of_row (tk_context t))
          (filter (\<lambda>t. in_repo repo t \<and> status_text (tk_status t) \<notin> set terminal_statuses) (q_tasks q))))"

text \<open>\<open>tasks_by_issue\<close>: of several tasks of an issue, the first in the order of the listing.\<close>

definition tasks_by_issue :: "string \<Rightarrow> queue \<Rightarrow> int \<Rightarrow> string option" where
  "tasks_by_issue repo q n =
     map_option tk_id (find (\<lambda>t. in_repo repo t \<and> issue_of_row (tk_context t) = Some n) (by_urgency (q_tasks q)))"

section \<open>Recovery\<close>

definition stale_claims :: "time \<Rightarrow> time \<Rightarrow> ledger \<Rightarrow> ledger" where
  "stale_claims now stale_after rows = filter (\<lambda>r. wc_state r = Claimed_Issue \<and> stale_after \<le> now - wc_updated_at r) rows"

text \<open>\<open>reconcile_claims\<close>: the issues whose task was adopted and those handed back.\<close>

fun reconcile_rows :: "time \<Rightarrow> string \<Rightarrow> (int \<Rightarrow> string option) \<Rightarrow> ledger \<Rightarrow> (int list \<times> int list) \<times> ledger \<Rightarrow> (int list \<times> int list) \<times> ledger" where
  "reconcile_rows now repo known [] acc = acc"
| "reconcile_rows now repo known (r # rs) ((resumed, released), l) =
     (let n = wc_number r
      in case known n of
           Some tid \<Rightarrow>
             (case finish_claim now repo n tid l of
                (done1, l1) \<Rightarrow> reconcile_rows now repo known rs ((if done1 then resumed @ [n] else resumed, released), l1))
         | None \<Rightarrow>
             (case release_stale now repo n ''reconciled: interrupted before enqueue'' l of
                (done1, l1) \<Rightarrow> reconcile_rows now repo known rs ((resumed, if done1 then released @ [n] else released), l1)))"

definition reconcile_claims :: "time \<Rightarrow> time \<Rightarrow> string \<Rightarrow> queue option \<Rightarrow> ledger \<Rightarrow> (int list \<times> int list) \<times> ledger" where
  "reconcile_claims now stale_after repo q l =
     (case q of
        None \<Rightarrow> (([], []), l)
      | Some q \<Rightarrow> reconcile_rows now repo (tasks_by_issue repo q) (stale_claims now stale_after (list_claims repo l)) (([], []), l))"

text \<open>\<open>reconcile_labels\<close>: \<open>takes_off\<close> is whether GitHub takes the label off.\<close>

definition claim_states :: "string \<Rightarrow> ledger \<Rightarrow> (int \<times> claim_state) list" where
  "claim_states repo l = rev (map (\<lambda>r. (wc_number r, wc_state r)) (list_claims repo l))"

definition clearable :: "(int \<Rightarrow> bool) \<Rightarrow> (int \<times> claim_state) list \<Rightarrow> issue \<Rightarrow> bool" where
  "clearable takes_off states i \<longleftrightarrow>
     claim_label \<in> set (is_labels i) \<and> map_of states (is_number i) = Some Released_Issue \<and> takes_off (is_number i)"

definition without_claim :: "issue \<Rightarrow> issue" where
  "without_claim i = i\<lparr>is_labels := filter (\<lambda>l. l \<noteq> claim_label) (is_labels i)\<rparr>"

definition reconcile_labels :: "(int \<Rightarrow> bool) \<Rightarrow> string \<Rightarrow> ledger \<Rightarrow> issue list \<Rightarrow> int list \<times> issue list" where
  "reconcile_labels takes_off repo l iss =
     (let ok = clearable takes_off (claim_states repo l)
      in (map is_number (filter ok iss), map (\<lambda>i. if ok i then without_claim i else i) iss))"

section \<open>The task of an issue\<close>

definition issue_url :: "string \<Rightarrow> issue \<Rightarrow> string" where
  "issue_url repo i =
     (if is_url i \<noteq> [] then is_url i else ''https://github.com/'' @ repo @ ''/issues/'' @ show_int (is_number i))"

definition issue_title :: "issue \<Rightarrow> string" where
  "issue_title i = (if is_title i \<noteq> [] then is_title i else ''issue #'' @ show_int (is_number i))"

record watch_config =
  wf_repo :: string
  wf_branch :: string
  wf_owner :: string
  wf_project :: string
  wf_max_claims :: nat
  wf_max_attempts :: int
  wf_reconcile_after :: time
  wf_rules :: "(string list \<times> int) list"
  wf_env :: "string \<Rightarrow> string option"

definition issue_context :: "watch_config \<Rightarrow> issue \<Rightarrow> int \<Rightarrow> task_context" where
  "issue_context cf i tier =
     (let (text_kept, cut) = cap_issue_body body_limit (issue_url (wf_repo cf) i) (is_body i)
      in puts [(''risk_tier'', JInt tier), (''issue'', JInt (is_number i)), (''issue_title'', JStr (issue_title i)),
               (''issue_body'', JStr text_kept), (''issue_body_truncated'', JBool cut), (''issue_url'', JStr (issue_url (wf_repo cf) i)),
               (''repo'', JStr (wf_repo cf)), (''labels'', JArr (map JStr (is_labels i))), (''source'', JStr ''watch'')] empty_context)"

definition build_task :: "watch_config \<Rightarrow> string \<Rightarrow> issue \<Rightarrow> task_request option" where
  "build_task cf fresh i =
     (case risk_tier_for_issue (wf_env cf) i of
        None \<Rightarrow> None
      | Some tier \<Rightarrow>
          Some \<lparr>rq_id = ''impl-watch-'' @ fresh, rq_type = ''implement'',
                rq_description = ''Implement #'' @ show_int (is_number i) @ '': '' @ issue_title i, rq_branch = wf_branch cf,
                rq_priority = priority_for (wf_rules cf) (is_labels i), rq_project = wf_project cf, rq_pr_number = None,
                rq_context = issue_context cf i tier\<rparr>)"

section \<open>One cycle\<close>

text \<open>
  What a cycle meets: the listing of the open issues, whether an open pull request closes an issue (\<open>None\<close> when
  the lookup fails), whether GitHub takes a label on or off, the queue for the look at its tasks (\<open>None\<close> when
  it cannot be read), the environment of \<open>enqueue\<close> and the texts of its errors. A listing that cannot be had is
  \<open>None\<close>. What other processes do to the queue before the cycle is any function.
\<close>

record watch_world =
  ww_now :: time
  ww_issues :: "json list option"
  ww_open_pr :: "int \<Rightarrow> bool option"
  ww_add :: "int \<Rightarrow> bool"
  ww_remove :: "int \<Rightarrow> bool"
  ww_readable :: bool
  ww_fresh :: "int \<Rightarrow> string"
  ww_cascade :: cascade_env
  ww_message :: "enqueue_error \<Rightarrow> string"
  ww_meanwhile :: "queue \<Rightarrow> queue"

record cycle =
  cy_enqueued :: "int list"
  cy_released :: "int list"
  cy_skipped :: "int list"
  cy_resumed :: "int list"
  cy_recovered :: "int list"
  cy_labels :: "int list"
  cy_error :: "string option"

definition empty_cycle :: cycle where
  "empty_cycle =
     \<lparr>cy_enqueued = [], cy_released = [], cy_skipped = [], cy_resumed = [], cy_recovered = [], cy_labels = [], cy_error = None\<rparr>"

definition visible_queue :: "watch_world \<Rightarrow> queue \<Rightarrow> queue option" where
  "visible_queue w q = (if ww_readable w then Some q else None)"

text \<open>One candidate: claim, label, task. A task that cannot be built or admitted gives the claim back.\<close>

definition hand_over :: "watch_config \<Rightarrow> watch_world \<Rightarrow> issue \<Rightarrow> queue \<Rightarrow> (string + string) \<times> queue" where
  "hand_over cf w i q =
     (case build_task cf (ww_fresh w (is_number i)) i of
        None \<Rightarrow> (Inl ''issue has no risk-tier:0-3 label or AGENT_CREW_DEFAULT_RISK_TIER'', q)
      | Some rq \<Rightarrow>
          if \<not> valid_request rq then (Inl (''Invalid priority: '' @ show_int (rq_priority rq) @ ''. Must be between 1 and 5''), q)
          else (case enqueue_successor (ww_cascade w) rq q of
                  (Inl e, q1) \<Rightarrow> (Inl (ww_message w e), q1) | (Inr tid, q1) \<Rightarrow> (Inr tid, q1)))"

type_synonym watch_state = "cycle \<times> ledger \<times> queue"

definition skipped :: "int \<Rightarrow> cycle \<Rightarrow> cycle" where
  "skipped n cy = cy\<lparr>cy_skipped := cy_skipped cy @ [n]\<rparr>"

definition given_back :: "int \<Rightarrow> cycle \<Rightarrow> cycle" where
  "given_back n cy = cy\<lparr>cy_released := cy_released cy @ [n]\<rparr>"

definition claimed_issue :: "watch_config \<Rightarrow> watch_world \<Rightarrow> issue \<Rightarrow> watch_state \<Rightarrow> watch_state" where
  "claimed_issue cf w i st =
     (case st of
        (cy, l, q) \<Rightarrow>
          let n = is_number i; repo = wf_repo cf; now = ww_now w
          in if \<not> ww_add w n then (given_back n cy, release_issue now repo n ''claim label failed'' l, q)
             else (case hand_over cf w i q of
                     (Inl e, q1) \<Rightarrow> (given_back n cy, release_issue now repo n (''enqueue failed: '' @ e) l, q1)
                   | (Inr tid, q1) \<Rightarrow> (cy\<lparr>cy_enqueued := cy_enqueued cy @ [n]\<rparr>, mark_enqueued now repo n tid l, q1)))"

definition take_issue :: "watch_config \<Rightarrow> watch_world \<Rightarrow> issue \<Rightarrow> watch_state \<Rightarrow> watch_state" where
  "take_issue cf w i st =
     (case st of
        (cy, l, q) \<Rightarrow>
          let n = is_number i
          in if risk_tier_for_issue (wf_env cf) i = None then (skipped n cy, l, q)
             else (case ww_open_pr w n of
                     None \<Rightarrow> ((skipped n cy)\<lparr>cy_error := Some ''pr_lookup_unknown''\<rparr>, l, q)
                   | Some True \<Rightarrow> (skipped n cy, l, q)
                   | Some False \<Rightarrow>
                       (case try_claim (ww_now w) (wf_repo cf) n (wf_owner cf) (wf_max_attempts cf) l of
                          (False, l1) \<Rightarrow> (skipped n cy, l1, q)
                        | (True, l1) \<Rightarrow> claimed_issue cf w i (cy, l1, q))))"

fun take_issues :: "watch_config \<Rightarrow> watch_world \<Rightarrow> issue list \<Rightarrow> watch_state \<Rightarrow> watch_state" where
  "take_issues cf w [] st = st"
| "take_issues cf w (i # iss) st =
     (if wf_max_claims cf \<le> length (cy_enqueued (fst st)) then st else take_issues cf w iss (take_issue cf w i st))"

definition candidates :: "watch_config \<Rightarrow> watch_world \<Rightarrow> issue list \<Rightarrow> ledger \<Rightarrow> queue \<Rightarrow> issue list" where
  "candidates cf w iss l q =
     select_candidates (wf_rules cf) (held_numbers (wf_repo cf) (wf_max_attempts cf) l)
       (active_issue_numbers (wf_repo cf) (visible_queue w q)) (unblocked iss iss)"

definition run_cycle :: "watch_config \<Rightarrow> watch_world \<Rightarrow> ledger \<times> queue \<Rightarrow> watch_state" where
  "run_cycle cf w st =
     (case st of
        (l, q) \<Rightarrow>
          (case Option.bind (ww_issues w) parse_issues of
             None \<Rightarrow> (empty_cycle\<lparr>cy_error := Some ''discovery failed''\<rparr>, l, q)
           | Some found \<Rightarrow>
               (case reconcile_claims (ww_now w) (wf_reconcile_after cf) (wf_repo cf) (visible_queue w q) l of
                  ((resumed, recovered), l1) \<Rightarrow>
                    (case reconcile_labels (ww_remove w) (wf_repo cf) l1 found of
                       (cleared, iss) \<Rightarrow>
                         take_issues cf w (candidates cf w iss l1 q)
                           (empty_cycle\<lparr>cy_skipped := map is_number (filter is_unknown found), cy_resumed := resumed,
                              cy_recovered := recovered, cy_labels := cleared\<rparr>, l1, q)))))"

section \<open>The loop\<close>

definition backoff_seconds :: "nat \<Rightarrow> real" where
  "backoff_seconds failures = min (30 * 2 ^ min failures 32) 900"

definition clamp_interval :: "real \<Rightarrow> real" where
  "clamp_interval s = max 10 (min s 3600)"

text \<open>
  \<open>watch\<close> over the cycles of its life: what each did and the delay after it. The end of the list is the last
  cycle, by \<open>max_cycles\<close> or by the interrupt. Nobody else writes the ledger meanwhile.
\<close>

fun watch_loop :: "watch_config \<Rightarrow> real \<Rightarrow> nat \<Rightarrow> watch_world list \<Rightarrow> ledger \<times> queue \<Rightarrow> (cycle \<times> real) list \<times> ledger \<times> queue" where
  "watch_loop cf interval failures [] st = ([], st)"
| "watch_loop cf interval failures (w # ws) st =
     (case run_cycle cf w (fst st, ww_meanwhile w (snd st)) of
        (cy, st1) \<Rightarrow>
          (case watch_loop cf interval (if truthy (cy_error cy) then failures + 1 else 0) ws st1 of
             (later, st2) \<Rightarrow>
               ((cy, if truthy (cy_error cy) then backoff_seconds failures else clamp_interval interval) # later, st2)))"

end
