(* ===== verification/Watch_Safety.thy ===== *)
theory Watch_Safety
  imports Watch Pipeline_Safety
begin

text \<open>
  What the watcher keeps: a claim has one owner, an issue gets at most one task and at most its budget of failures
  over the watcher's life, and only eligible issues are taken. A claim whose watcher died is settled by the next
  recovery, which also undoes an operator's release of an issue that has had a task.
\<close>

section \<open>The ledger by key\<close>

named_theorems ledger_simps

lemma change_claim_row [ledger_simps]:
  assumes "\<And>r. claim_key (f r) = claim_key r"
  shows "claim_row_of (change_claim repo n f l) repo' m
    = (if (repo', m) = (repo, n) then map_option f (claim_row_of l repo' m) else claim_row_of l repo' m)"
  using row_of_update [of claim_key f "(repo', m)" "(repo, n)" l, OF assms] by (auto simp: claim_row_of_def change_claim_def)

lemma change_claim_keys: "(\<And>r. claim_key (f r) = claim_key r) \<Longrightarrow> map claim_key (change_claim repo n f l) = map claim_key l"
  by (simp add: change_claim_def)

definition fits :: "claim_state option \<Rightarrow> claim_row \<Rightarrow> bool" where
  "fits require r \<longleftrightarrow> (case require of None \<Rightarrow> True | Some s \<Rightarrow> wc_state r = s)"

lemma set_claim_row [ledger_simps]:
  assumes "\<And>r. claim_key (f r) = claim_key r"
  shows "claim_row_of (snd (set_claim now repo n require f l)) repo' m
    = map_option (\<lambda>r. if (repo', m) = (repo, n) \<and> fits require r then (f r)\<lparr>wc_updated_at := now\<rparr> else r) (claim_row_of l repo' m)"
proof -
  let ?g = "\<lambda>r. if claim_key r = (repo, n) \<and> fits require r then (f r)\<lparr>wc_updated_at := now\<rparr> else r"
  have key: "claim_key (?g r) = claim_key r" for r
    using assms [of r] by (simp add: claim_key_def)
  have "claim_row_of (map ?g l) repo' m = map_option ?g (claim_row_of l repo' m)"
    using row_of_map_upd [of claim_key ?g, OF key] by (simp add: claim_row_of_def)
  moreover have "map_option ?g (claim_row_of l repo' m)
      = map_option (\<lambda>r. if (repo', m) = (repo, n) \<and> fits require r then (f r)\<lparr>wc_updated_at := now\<rparr> else r) (claim_row_of l repo' m)"
  proof (cases "claim_row_of l repo' m")
    case (Some r)
    then have "claim_key r = (repo', m)" by (auto simp: claim_row_of_def dest: row_of_SomeD)
    with Some show ?thesis by simp
  qed simp
  ultimately show ?thesis by (simp add: set_claim_def Let_def fits_def)
qed

lemma set_claim_keys: "(\<And>r. claim_key (f r) = claim_key r) \<Longrightarrow> map claim_key (snd (set_claim now repo n require f l)) = map claim_key l"
  by (simp add: set_claim_def Let_def claim_key_def)

definition one_row_each :: "ledger \<Rightarrow> bool" where
  "one_row_each l \<longleftrightarrow> distinct (map claim_key l)"

lemma set_claim_done:
  assumes "one_row_each l"
  shows "fst (set_claim now repo n require f l) \<longleftrightarrow> (\<exists>r. claim_row_of l repo n = Some r \<and> fits require r)"
proof
  assume "fst (set_claim now repo n require f l)"
  then obtain r where "r \<in> set l" "claim_key r = (repo, n)" "fits require r"
    by (auto simp: set_claim_def Let_def list_ex_iff fits_def)
  then show "\<exists>r. claim_row_of l repo n = Some r \<and> fits require r"
    using row_of_distinct [of claim_key l r] assms by (auto simp: one_row_each_def claim_row_of_def)
next
  assume "\<exists>r. claim_row_of l repo n = Some r \<and> fits require r"
  then show "fst (set_claim now repo n require f l)"
    by (auto simp: set_claim_def Let_def list_ex_iff fits_def claim_row_of_def dest!: row_of_SomeD)
qed

lemma claim_updates_key [simp]:
  "claim_key (r\<lparr>wc_state := s\<rparr>) = claim_key r" "claim_key (r\<lparr>wc_owner := o1\<rparr>) = claim_key r"
  "claim_key (r\<lparr>wc_updated_at := t\<rparr>) = claim_key r" "claim_key (r\<lparr>wc_task_id := tid\<rparr>) = claim_key r"
  "claim_key (returned reason r) = claim_key r"
  by (simp_all add: claim_key_def returned_def)

section \<open>One owner\<close>

text \<open>Who holds an issue: the owner of a claim that is taken or has its task.\<close>

definition claim_holder :: "ledger \<Rightarrow> string \<times> int \<Rightarrow> string option" where
  "claim_holder l k =
     Option.bind (claim_row_of l (fst k) (snd k)) (\<lambda>r. if wc_state r \<in> {Claimed_Issue, Enqueued_Issue} then Some (wc_owner r) else None)"

definition claim_by_key :: "time \<Rightarrow> int \<Rightarrow> ledger \<Rightarrow> string \<times> int \<Rightarrow> string \<Rightarrow> bool \<times> ledger" where
  "claim_by_key now max_attempts l k owner = try_claim now (fst k) (snd k) owner max_attempts l"

lemma not_held: "wc_state r \<notin> set held_states \<longleftrightarrow> wc_state r = Released_Issue"
  by (cases "wc_state r") (simp_all add: held_states_def)

lemma released_not_held [simp]: "Released_Issue \<notin> set held_states"
  by (simp add: held_states_def)

lemma claim_row_of_new:
  "claim_row_of (l @ [r]) repo n = (case claim_row_of l repo n of None \<Rightarrow> if claim_key r = (repo, n) then Some r else None | Some s \<Rightarrow> Some s)"
  by (cases "claim_row_of l repo n") (simp_all add: claim_row_of_def row_of_append)

lemma try_claim_cases:
  obtains (Fresh) "claim_row_of l repo n = None"
      "try_claim now repo n owner m l = (True, l @ [\<lparr>wc_repo = repo, wc_number = n, wc_task_id = [], wc_state = Claimed_Issue,
         wc_owner = owner, wc_reason = [], wc_attempts = 0, wc_claimed_at = now, wc_updated_at = now\<rparr>])"
  | (Held) r where "claim_row_of l repo n = Some r" "wc_state r \<noteq> Released_Issue" "try_claim now repo n owner m l = (False, l)"
  | (Spent) r where "claim_row_of l repo n = Some r" "wc_state r = Released_Issue" "m \<le> wc_attempts r"
      "try_claim now repo n owner m l = (False, change_claim repo n (\<lambda>r. r\<lparr>wc_state := Abandoned_Issue, wc_updated_at := now\<rparr>) l)"
  | (Again) r where "claim_row_of l repo n = Some r" "wc_state r = Released_Issue" "wc_attempts r < m"
      "try_claim now repo n owner m l = (True, change_claim repo n (\<lambda>r. r\<lparr>wc_state := Claimed_Issue, wc_owner := owner, wc_updated_at := now\<rparr>) l)"
proof (cases "claim_row_of l repo n")
  case None
  then show ?thesis using Fresh by (simp add: try_claim_def)
next
  case (Some r)
  show ?thesis
  proof (cases "wc_state r = Released_Issue")
    case True
    then have "wc_state r \<notin> set held_states" by (simp add: not_held)
    with True Some Spent Again show ?thesis by (cases "m \<le> wc_attempts r") (simp_all add: try_claim_def)
  next
    case False
    then have "wc_state r \<in> set held_states" using not_held by blast
    with False Some Held show ?thesis by (simp add: try_claim_def)
  qed
qed

text \<open>What a try leaves in the table.\<close>

lemma try_claim_other:
  "(repo', k) \<noteq> (repo, n) \<Longrightarrow> claim_row_of (snd (try_claim now repo n owner m l)) repo' k = claim_row_of l repo' k"
  by (rule try_claim_cases [of l repo n now owner m])
    (auto simp: ledger_simps claim_row_of_new claim_key_def split: option.split)

lemma try_claim_won:
  assumes "try_claim now repo n owner m l = (True, l1)"
  shows "\<exists>r. claim_row_of l1 repo n = Some r \<and> wc_state r = Claimed_Issue \<and> wc_owner r = owner
    \<and> (case claim_row_of l repo n of None \<Rightarrow> wc_attempts r = 0
        | Some r0 \<Rightarrow> wc_state r0 = Released_Issue \<and> wc_attempts r0 < m \<and> wc_attempts r = wc_attempts r0)"
proof (rule try_claim_cases [of l repo n now owner m])
qed (use assms in \<open>auto simp: ledger_simps claim_row_of_new claim_key_def split: option.split\<close>)

lemma try_claim_lost:
  assumes "try_claim now repo n owner m l = (False, l1)"
  shows "\<exists>r. claim_row_of l repo n = Some r
    \<and> (l1 = l \<and> wc_state r \<noteq> Released_Issue
        \<or> wc_state r = Released_Issue \<and> claim_row_of l1 repo n = Some (r\<lparr>wc_state := Abandoned_Issue, wc_updated_at := now\<rparr>))"
proof (rule try_claim_cases [of l repo n now owner m])
qed (use assms in \<open>auto simp: ledger_simps\<close>)

interpretation issue_claims: exclusive_slot claim_holder "claim_by_key now m" for now m
proof unfold_locales
  show "claim_holder s k = None \<and> claim_holder t k = Some h" if "claim_by_key now m s k h = (True, t)" for s k h t
    using try_claim_won [of now "fst k" "snd k" h m s t] that
    by (cases "claim_row_of s (fst k) (snd k)") (auto simp: claim_by_key_def claim_holder_def)
  show "claim_holder t k = claim_holder s k" if "claim_by_key now m s k h = (False, t)" for s k h t
    using try_claim_lost [of now "fst k" "snd k" h m s t] that by (auto simp: claim_by_key_def claim_holder_def)
  show "\<not> fst (claim_by_key now m s k h)" if held: "claim_holder s k \<noteq> None" for s k h
  proof
    assume "fst (claim_by_key now m s k h)"
    then obtain t where "claim_by_key now m s k h = (True, t)" by (cases "claim_by_key now m s k h") auto
    with try_claim_won [of now "fst k" "snd k" h m s t] held show False
      by (cases "claim_row_of s (fst k) (snd k)") (auto simp: claim_by_key_def claim_holder_def)
  qed
  show "claim_holder t j = claim_holder s j" if "claim_by_key now m s k h = (b, t)" "j \<noteq> k" for s k h b t j
    using try_claim_other [of "fst j" "snd j" "fst k" "snd k" now h m s] that
    by (auto simp: claim_by_key_def claim_holder_def prod_eq_iff)
qed

section \<open>One candidate\<close>

text \<open>What taking a candidate comes to: it is passed over, given back, or has its task.\<close>

lemma take_issue_cases:
  assumes "take_issue cf w i (cy, l, q) = (cy', l', q')"
  obtains (Passed) "cy_enqueued cy' = cy_enqueued cy" "cy_released cy' = cy_released cy" "cy_recovered cy' = cy_recovered cy"
      "l' = l \<or> try_claim (ww_now w) (wf_repo cf) (is_number i) (wf_owner cf) (wf_max_attempts cf) l = (False, l')"
  | (Back) l1 reason where "cy_enqueued cy' = cy_enqueued cy" "cy_released cy' = cy_released cy @ [is_number i]" "cy_recovered cy' = cy_recovered cy"
      "try_claim (ww_now w) (wf_repo cf) (is_number i) (wf_owner cf) (wf_max_attempts cf) l = (True, l1)"
      "l' = release_issue (ww_now w) (wf_repo cf) (is_number i) reason l1"
  | (Sent) l1 tid where "cy_enqueued cy' = cy_enqueued cy @ [is_number i]" "cy_released cy' = cy_released cy" "cy_recovered cy' = cy_recovered cy"
      "try_claim (ww_now w) (wf_repo cf) (is_number i) (wf_owner cf) (wf_max_attempts cf) l = (True, l1)"
      "l' = mark_enqueued (ww_now w) (wf_repo cf) (is_number i) tid l1" "hand_over cf w i q = (Inr tid, q')"
      "ww_open_pr w (is_number i) = Some False" "ww_add w (is_number i)"
proof (cases "risk_tier_for_issue (wf_env cf) i = None \<or> ww_open_pr w (is_number i) \<noteq> Some False")
  case True
  show ?thesis
    by (rule Passed) (use assms True in \<open>auto simp: take_issue_def skipped_def Let_def split: option.splits bool.splits if_splits\<close>)
next
  case False
  obtain won l1 where try1: "try_claim (ww_now w) (wf_repo cf) (is_number i) (wf_owner cf) (wf_max_attempts cf) l = (won, l1)"
    by fastforce
  show ?thesis
  proof (cases won)
    case lost: False
    show ?thesis by (rule Passed) (use assms False try1 lost in \<open>auto simp: take_issue_def skipped_def Let_def\<close>)
  next
    case True
    with assms False try1 have done1: "claimed_issue cf w i (cy, l1, q) = (cy', l', q')"
      by (auto simp: take_issue_def Let_def)
    obtain r q1 where handed: "hand_over cf w i q = (r, q1)" by fastforce
    from done1 handed True try1 False show ?thesis
      by (cases "ww_add w (is_number i)"; cases r)
        (auto simp: claimed_issue_def given_back_def Let_def intro: Back Sent)
  qed
qed

section \<open>One task per issue\<close>

definition has_task :: "string \<Rightarrow> ledger \<Rightarrow> int \<Rightarrow> bool" where
  "has_task repo l n \<longleftrightarrow> map_option wc_state (claim_row_of l repo n) = Some Enqueued_Issue"

lemma has_task_row: "has_task repo l n \<longleftrightarrow> (\<exists>r. claim_row_of l repo n = Some r \<and> wc_state r = Enqueued_Issue)"
  by (auto simp: has_task_def)

lemma finish_keeps_task: "has_task repo l n \<Longrightarrow> has_task repo (snd (finish_claim now repo' m tid l)) n"
  by (cases "claim_row_of l repo n") (auto simp: has_task_def finish_claim_def ledger_simps claim_key_def)

lemma stale_keeps_task: "has_task repo l n \<Longrightarrow> has_task repo (snd (release_stale now repo' m reason l)) n"
  by (cases "claim_row_of l repo n") (auto simp: has_task_def release_stale_def ledger_simps fits_def)

lemma try_claim_keeps_task:
  assumes "has_task repo l n" and "try_claim now repo m owner k l = (won, l1)"
  shows "has_task repo l1 n" and "won \<Longrightarrow> m \<noteq> n"
proof -
  show other: "m \<noteq> n" if won
    using assms try_claim_won [of now repo m owner k l l1] that by (auto simp: has_task_row)
  show "has_task repo l1 n"
  proof (cases "m = n")
    case True
    with other have "\<not> won" by blast
    with assms True try_claim_lost [of now repo m owner k l l1] show ?thesis by (auto simp: has_task_row)
  next
    case False
    with try_claim_other [of repo n repo m now owner k l] assms show ?thesis by (simp add: has_task_row)
  qed
qed

lemma release_keeps_task: "has_task repo l n \<Longrightarrow> m \<noteq> n \<Longrightarrow> has_task repo (release_issue now repo m reason l) n"
  by (cases "claim_row_of l repo n") (auto simp: has_task_def release_issue_def ledger_simps)

lemma mark_keeps_task: "has_task repo l n \<Longrightarrow> has_task repo (mark_enqueued now repo m tid l) n"
  by (cases "claim_row_of l repo n") (auto simp: has_task_def mark_enqueued_def ledger_simps claim_key_def)

lemma marked_has_task:
  assumes "try_claim now repo n owner k l = (True, l1)"
  shows "has_task repo (mark_enqueued now repo n tid l1) n"
  using try_claim_won [OF assms] by (auto simp: has_task_row mark_enqueued_def ledger_simps fits_def claim_key_def)

lemma reconcile_rows_keep_task:
  "reconcile_rows now repo known rs (acc, l) = (acc', l') \<Longrightarrow> has_task repo l n \<Longrightarrow> has_task repo l' n"
proof (induction rs arbitrary: acc l)
  case (Cons r rs)
  obtain a b where acc: "acc = (a, b)" by fastforce
  show ?case
  proof (cases "known (wc_number r)")
    case None
    obtain ok l1 where one: "release_stale now repo (wc_number r) ''reconciled: interrupted before enqueue'' l = (ok, l1)" by fastforce
    have "has_task repo l1 n" using stale_keeps_task [OF Cons.prems(2), of now repo "wc_number r" "''reconciled: interrupted before enqueue''"] one by simp
    with Cons.prems(1) None acc one show ?thesis by (simp add: Let_def Cons.IH)
  next
    case (Some tid)
    obtain ok l1 where one: "finish_claim now repo (wc_number r) tid l = (ok, l1)" by fastforce
    have "has_task repo l1 n" using finish_keeps_task [OF Cons.prems(2), of now repo "wc_number r" tid] one by simp
    with Cons.prems(1) Some acc one show ?thesis by (simp add: Let_def Cons.IH)
  qed
qed simp

lemma reconcile_keeps_task:
  "reconcile_claims now stale repo q l = (acc, l') \<Longrightarrow> has_task repo l n \<Longrightarrow> has_task repo l' n"
  by (auto simp: reconcile_claims_def split: option.splits intro: reconcile_rows_keep_task)

text \<open>The issues with a task, of earlier cycles and of this one, are kept apart and never taken again.\<close>

definition tasks_apart :: "string \<Rightarrow> int set \<Rightarrow> int list \<Rightarrow> ledger \<Rightarrow> bool" where
  "tasks_apart repo S ns l \<longleftrightarrow> (\<forall>n\<in>S \<union> set ns. has_task repo l n) \<and> distinct ns \<and> S \<inter> set ns = {}"

lemma take_issue_apart:
  assumes "take_issue cf w i (cy, l, q) = (cy', l', q')" and "tasks_apart (wf_repo cf) S (cy_enqueued cy) l"
  shows "tasks_apart (wf_repo cf) S (cy_enqueued cy') l'"
  using assms(1)
proof (cases rule: take_issue_cases)
  case Passed
  with assms(2) show ?thesis using try_claim_keeps_task(1) by (fastforce simp: tasks_apart_def)
next
  case (Back l1 reason)
  have "has_task (wf_repo cf) l' n" if "n \<in> S \<union> set (cy_enqueued cy)" for n
    using that assms(2) try_claim_keeps_task [OF _ Back(4), of n] Back(5)
    by (auto simp: tasks_apart_def intro: release_keeps_task)
  with assms(2) Back(1) show ?thesis by (simp add: tasks_apart_def)
next
  case (Sent l1 tid)
  have "has_task (wf_repo cf) l' n \<and> is_number i \<noteq> n" if "n \<in> S \<union> set (cy_enqueued cy)" for n
    using that assms(2) try_claim_keeps_task [OF _ Sent(4), of n] Sent(5)
    by (auto simp: tasks_apart_def intro: mark_keeps_task)
  moreover have "has_task (wf_repo cf) l' (is_number i)"
    using marked_has_task [OF Sent(4)] Sent(5) by simp
  ultimately show ?thesis using assms(2) Sent(1) by (auto simp: tasks_apart_def)
qed

lemma take_issues_apart:
  "take_issues cf w iss (cy, l, q) = (cy', l', q') \<Longrightarrow> tasks_apart (wf_repo cf) S (cy_enqueued cy) l
    \<Longrightarrow> tasks_apart (wf_repo cf) S (cy_enqueued cy') l'"
proof (induction iss arbitrary: cy l q)
  case (Cons i iss)
  obtain cy1 l1 q1 where one: "take_issue cf w i (cy, l, q) = (cy1, l1, q1)" by (cases "take_issue cf w i (cy, l, q)") auto
  show ?case
  proof (cases "wf_max_claims cf \<le> length (cy_enqueued cy)")
    case True
    with Cons.prems show ?thesis by simp
  next
    case False
    with Cons.prems(1) one have "take_issues cf w iss (cy1, l1, q1) = (cy', l', q')" by simp
    then show ?thesis using Cons.IH take_issue_apart [OF one Cons.prems(2)] by blast
  qed
qed simp

text \<open>A cycle that reads its listing takes the candidates of the reconciled ledger.\<close>

lemma run_cycle_cases:
  assumes "run_cycle cf w (l, q) = (cy, l', q')"
  obtains (Unread) "Option.bind (ww_issues w) parse_issues = None" "cy_enqueued cy = []" "cy_released cy = []" "cy_recovered cy = []" "l' = l"
  | (Taken) found resumed recovered l1 start where "Option.bind (ww_issues w) parse_issues = Some found"
      "reconcile_claims (ww_now w) (wf_reconcile_after cf) (wf_repo cf) (visible_queue w q) l = ((resumed, recovered), l1)"
      "take_issues cf w (candidates cf w (snd (reconcile_labels (ww_remove w) (wf_repo cf) l1 found)) l1 q) (start, l1, q) = (cy, l', q')"
      "cy_enqueued start = []" "cy_released start = []" "cy_recovered start = recovered"
proof (cases "Option.bind (ww_issues w) parse_issues")
  case None
  then show ?thesis using assms Unread by (auto simp: run_cycle_def empty_cycle_def)
next
  case (Some found)
  obtain resumed recovered l1
    where rc: "reconcile_claims (ww_now w) (wf_reconcile_after cf) (wf_repo cf) (visible_queue w q) l = ((resumed, recovered), l1)"
    by (metis surj_pair)
  show ?thesis
    by (rule Taken [OF Some rc, of "empty_cycle\<lparr>cy_skipped := map is_number (filter is_unknown found), cy_resumed := resumed,
          cy_recovered := recovered, cy_labels := fst (reconcile_labels (ww_remove w) (wf_repo cf) l1 found)\<rparr>"])
      (use assms Some rc in \<open>simp_all add: run_cycle_def empty_cycle_def split: prod.splits\<close>)
qed

lemma run_cycle_apart:
  assumes "run_cycle cf w (l, q) = (cy, l', q')" and "\<And>n. n \<in> S \<Longrightarrow> has_task (wf_repo cf) l n"
  shows "tasks_apart (wf_repo cf) S (cy_enqueued cy) l'"
  using assms(1)
proof (cases rule: run_cycle_cases)
  case Unread
  with assms(2) show ?thesis by (simp add: tasks_apart_def)
next
  case (Taken found resumed recovered l1 start)
  have "tasks_apart (wf_repo cf) S (cy_enqueued start) l1"
    using reconcile_keeps_task [OF Taken(2)] assms(2) Taken(4) by (simp add: tasks_apart_def)
  with Taken(3) show ?thesis by (rule take_issues_apart)
qed

definition taken_by :: "(cycle \<times> real) list \<Rightarrow> int list" where
  "taken_by cs = concat (map (\<lambda>c. cy_enqueued (fst c)) cs)"

lemma watch_loop_apart:
  "watch_loop cf interval k ws (l, q) = (cs, st') \<Longrightarrow> (\<And>n. n \<in> S \<Longrightarrow> has_task (wf_repo cf) l n)
    \<Longrightarrow> distinct (taken_by cs) \<and> S \<inter> set (taken_by cs) = {}"
proof (induction ws arbitrary: k l q S cs)
  case (Cons w ws)
  obtain cy l1 q1 where one: "run_cycle cf w (l, ww_meanwhile w q) = (cy, l1, q1)"
    by (cases "run_cycle cf w (l, ww_meanwhile w q)") auto
  obtain k1 later d where rest: "watch_loop cf interval k1 ws (l1, q1) = (later, st')" and cs: "cs = (cy, d) # later"
    using Cons.prems(1) one by (auto split: prod.splits)
  have apart: "tasks_apart (wf_repo cf) S (cy_enqueued cy) l1" using run_cycle_apart [OF one Cons.prems(2)] .
  then have "distinct (taken_by later) \<and> (S \<union> set (cy_enqueued cy)) \<inter> set (taken_by later) = {}"
    using Cons.IH [OF rest, of "S \<union> set (cy_enqueued cy)"] by (auto simp: tasks_apart_def)
  with apart cs show ?case by (auto simp: tasks_apart_def taken_by_def)
qed (simp add: taken_by_def)


section \<open>A bounded number of failures\<close>

definition tries :: "string \<Rightarrow> ledger \<Rightarrow> int \<Rightarrow> int" where
  "tries repo l n = (case claim_row_of l repo n of None \<Rightarrow> 0 | Some r \<Rightarrow> wc_attempts r)"

definition within_budget :: "int \<Rightarrow> claim_row \<Rightarrow> bool" where
  "within_budget b r \<longleftrightarrow> wc_attempts r \<le> b \<and> (wc_state r = Claimed_Issue \<longrightarrow> wc_attempts r < b)"

definition budgeted :: "string \<Rightarrow> int \<Rightarrow> ledger \<Rightarrow> bool" where
  "budgeted repo b l \<longleftrightarrow> one_row_each l \<and> (\<forall>n r. claim_row_of l repo n = Some r \<longrightarrow> within_budget b r)"

lemma budgeted_row: "budgeted repo b l \<Longrightarrow> claim_row_of l repo n = Some r \<Longrightarrow> within_budget b r"
  by (simp add: budgeted_def)

text \<open>One row more or less in the count of what was given back.\<close>

definition step_counts :: "string \<Rightarrow> int \<Rightarrow> int list \<times> ledger \<Rightarrow> int list \<times> ledger \<Rightarrow> bool" where
  "step_counts repo b before1 after1 \<longleftrightarrow>
     (budgeted repo b (snd before1) \<longrightarrow>
        budgeted repo b (snd after1)
        \<and> (\<forall>n. tries repo (snd after1) n - int (count_list (fst after1) n)
               = tries repo (snd before1) n - int (count_list (fst before1) n)))"

lemma step_counts_refl: "step_counts repo b x x"
  by (simp add: step_counts_def)

lemma step_counts_trans: "step_counts repo b x y \<Longrightarrow> step_counts repo b y z \<Longrightarrow> step_counts repo b x z"
  by (simp add: step_counts_def)

lemma budgeted_set_claim:
  assumes "budgeted repo b l" and "\<And>r. claim_key (f r) = claim_key r"
    and "\<And>r. claim_row_of l repo n = Some r \<Longrightarrow> fits require r \<Longrightarrow> within_budget b (f r)"
  shows "budgeted repo b (snd (set_claim now repo n require f l))"
proof -
  have "one_row_each (snd (set_claim now repo n require f l))"
    using assms(1) set_claim_keys [of f now repo n require l, OF assms(2)] by (simp add: budgeted_def one_row_each_def)
  moreover have "within_budget b r" if "claim_row_of (snd (set_claim now repo n require f l)) repo m = Some r" for m r
    using that assms(1,3) by (auto simp: set_claim_row [OF assms(2)] budgeted_def within_budget_def split: if_splits)
  ultimately show ?thesis by (simp add: budgeted_def)
qed

lemma tries_set_claim:
  assumes "\<And>r. claim_key (f r) = claim_key r"
  shows "tries repo (snd (set_claim now repo n require f l)) m
    = (case claim_row_of l repo m of None \<Rightarrow> 0
       | Some r \<Rightarrow> if m = n \<and> fits require r then wc_attempts (f r) else wc_attempts r)"
  by (cases "claim_row_of l repo m") (simp_all add: tries_def set_claim_row [OF assms])

lemma finish_counts:
  assumes "finish_claim now repo n tid l = (done1, l1)"
  shows "step_counts repo b (ns, l) (ns, l1)"
proof -
  let ?f = "\<lambda>r. r\<lparr>wc_task_id := tid, wc_state := Enqueued_Issue\<rparr>"
  have l1: "l1 = snd (set_claim now repo n (Some Claimed_Issue) ?f l)" using assms by (simp add: finish_claim_def)
  have "budgeted repo b l1" if "budgeted repo b l"
    using that unfolding l1 by (rule budgeted_set_claim) (use that in \<open>auto simp: claim_key_def budgeted_def within_budget_def\<close>)
  moreover have "tries repo l1 m = tries repo l m" for m
    unfolding l1 by (subst tries_set_claim) (auto simp: claim_key_def tries_def split: option.split)
  ultimately show ?thesis by (simp add: step_counts_def)
qed

lemma tries_returned:
  "tries repo (snd (set_claim now repo n require (returned reason) l)) m
     = tries repo l m + (if m = n \<and> (\<exists>r. claim_row_of l repo n = Some r \<and> fits require r) then 1 else 0)"
  unfolding tries_set_claim [of "returned reason", OF claim_updates_key(5)]
  by (cases "claim_row_of l repo m") (auto simp: tries_def returned_def)

lemma stale_counts:
  assumes "release_stale now repo n reason l = (done1, l1)"
  shows "step_counts repo b (ns, l) (if done1 then ns @ [n] else ns, l1)"
proof -
  have l1: "l1 = snd (set_claim now repo n (Some Claimed_Issue) (returned reason) l)"
    and done1: "done1 = fst (set_claim now repo n (Some Claimed_Issue) (returned reason) l)"
    using assms by (simp_all add: release_stale_def)
  have "budgeted repo b l1" if ok: "budgeted repo b l"
    using ok unfolding l1
  proof (rule budgeted_set_claim)
    show "within_budget b (returned reason r)" if "claim_row_of l repo n = Some r" "fits (Some Claimed_Issue) r" for r
      using budgeted_row [OF ok that(1)] that(2) by (simp add: returned_def fits_def within_budget_def)
  qed simp
  moreover have "tries repo l1 m - int (count_list (if done1 then ns @ [n] else ns) m) = tries repo l m - int (count_list ns m)"
    if "budgeted repo b l" for m
    using that set_claim_done [of l now repo n "Some Claimed_Issue" "returned reason"] done1
    unfolding l1 tries_returned by (auto simp: budgeted_def)
  ultimately show ?thesis by (simp add: step_counts_def)
qed

lemma reconcile_rows_count:
  "reconcile_rows now repo known rs ((res, rel), l) = ((res', rel'), l') \<Longrightarrow> step_counts repo b (rel, l) (rel', l')"
proof (induction rs arbitrary: res rel l)
  case (Cons r rs)
  show ?case
  proof (cases "known (wc_number r)")
    case None
    obtain ok l1 where one: "release_stale now repo (wc_number r) ''reconciled: interrupted before enqueue'' l = (ok, l1)" by fastforce
    with Cons.prems None have "step_counts repo b (if ok then rel @ [wc_number r] else rel, l1) (rel', l')"
      by (intro Cons.IH) (simp add: Let_def)
    with stale_counts [OF one] show ?thesis by (rule step_counts_trans)
  next
    case (Some tid)
    obtain ok l1 where one: "finish_claim now repo (wc_number r) tid l = (ok, l1)" by fastforce
    with Cons.prems Some have "step_counts repo b (rel, l1) (rel', l')"
      by (intro Cons.IH) (simp add: Let_def)
    with finish_counts [OF one] show ?thesis by (rule step_counts_trans)
  qed
qed (simp add: step_counts_refl)

lemma try_claim_one_row:
  assumes "one_row_each l"
  shows "one_row_each (snd (try_claim now repo n owner m l))"
proof (rule try_claim_cases [of l repo n now owner m])
  assume new: "claim_row_of l repo n = None"
  then have "(repo, n) \<notin> claim_key ` set l" by (simp add: claim_row_of_def row_of_None_iff)
  with new assms show ?thesis by (simp add: try_claim_def one_row_each_def claim_key_def)
qed (use assms in \<open>auto simp: one_row_each_def change_claim_keys\<close>)

lemma try_claim_budget:
  assumes "try_claim now repo n owner m l = (won, l1)" and "budgeted repo (max 1 m) l"
  shows "budgeted repo (max 1 m) l1" and "tries repo l1 k = tries repo l k"
    and "won \<Longrightarrow> \<exists>r. claim_row_of l1 repo n = Some r \<and> wc_attempts r < max 1 m"
proof -
  have other: "j \<noteq> n \<Longrightarrow> claim_row_of l1 repo j = claim_row_of l repo j" for j
    using try_claim_other [of repo j repo n now owner m l] assms(1) by simp
  have own: "(case claim_row_of l1 repo n of None \<Rightarrow> False | Some r \<Rightarrow> within_budget (max 1 m) r \<and> wc_attempts r = tries repo l n
      \<and> (won \<longrightarrow> wc_attempts r < max 1 m))"
  proof (cases won)
    case True
    with try_claim_won [of now repo n owner m l l1] assms(1) show ?thesis
      by (cases "claim_row_of l repo n") (auto simp: within_budget_def tries_def)
  next
    case False
    with try_claim_lost [of now repo n owner m l l1] assms show ?thesis
      by (auto simp: within_budget_def tries_def budgeted_def)
  qed
  have "within_budget (max 1 m) r" if "claim_row_of l1 repo j = Some r" for j r
    using that other [of j] own assms(2) by (cases "j = n") (auto simp: budgeted_def split: option.splits)
  moreover have "one_row_each l1" using try_claim_one_row [of l now repo n owner m] assms by (simp add: budgeted_def)
  ultimately show "budgeted repo (max 1 m) l1" by (simp add: budgeted_def)
  show "tries repo l1 k = tries repo l k"
    using other [of k] own by (cases "k = n") (auto simp: tries_def split: option.splits)
  show "\<exists>r. claim_row_of l1 repo n = Some r \<and> wc_attempts r < max 1 m" if won
    using that own by (auto split: option.splits)
qed

definition back_in :: "cycle \<Rightarrow> int list" where
  "back_in cy = cy_recovered cy @ cy_released cy"

lemma take_issue_counts:
  assumes "take_issue cf w i (cy, l, q) = (cy', l', q')"
  shows "step_counts (wf_repo cf) (max 1 (wf_max_attempts cf)) (back_in cy, l) (back_in cy', l')"
  using assms
proof (cases rule: take_issue_cases)
  case Passed
  then show ?thesis using try_claim_budget by (auto simp: step_counts_def back_in_def)
next
  case (Back l1 reason)
  have l': "l' = snd (set_claim (ww_now w) (wf_repo cf) (is_number i) None (returned reason) l1)"
    using Back(5) by (simp add: release_issue_def)
  have "budgeted (wf_repo cf) (max 1 (wf_max_attempts cf)) l'
      \<and> tries (wf_repo cf) l' m = tries (wf_repo cf) l m + (if m = is_number i then 1 else 0)"
    if "budgeted (wf_repo cf) (max 1 (wf_max_attempts cf)) l" for m
  proof -
    from try_claim_budget(3) [OF Back(4) that] obtain r
      where r: "claim_row_of l1 (wf_repo cf) (is_number i) = Some r" "wc_attempts r < max 1 (wf_max_attempts cf)" by auto
    have "budgeted (wf_repo cf) (max 1 (wf_max_attempts cf)) l'"
      unfolding l' using try_claim_budget(1) [OF Back(4) that]
      by (rule budgeted_set_claim) (use r in \<open>auto simp: returned_def within_budget_def claim_key_def\<close>)
    with r show ?thesis using try_claim_budget(2) [OF Back(4) that] unfolding l' tries_returned by (simp add: fits_def)
  qed
  with Back(2,3) show ?thesis by (simp add: step_counts_def back_in_def)
next
  case (Sent l1 tid)
  let ?f = "\<lambda>r. r\<lparr>wc_task_id := tid, wc_state := Enqueued_Issue\<rparr>"
  have l': "l' = snd (set_claim (ww_now w) (wf_repo cf) (is_number i) None ?f l1)"
    using Sent(5) by (simp add: mark_enqueued_def)
  have "budgeted (wf_repo cf) b l'" if "budgeted (wf_repo cf) b l1" for b
    using that unfolding l' by (rule budgeted_set_claim) (use that in \<open>auto simp: claim_key_def budgeted_def within_budget_def\<close>)
  moreover have "tries (wf_repo cf) l' m = tries (wf_repo cf) l1 m" for m
    unfolding l' by (subst tries_set_claim) (auto simp: claim_key_def tries_def split: option.split)
  ultimately show ?thesis
    using Sent(2,3) try_claim_budget [OF Sent(4)] by (simp add: step_counts_def back_in_def)
qed

lemma take_issues_count:
  "take_issues cf w iss (cy, l, q) = (cy', l', q')
    \<Longrightarrow> step_counts (wf_repo cf) (max 1 (wf_max_attempts cf)) (back_in cy, l) (back_in cy', l')"
proof (induction iss arbitrary: cy l q)
  case (Cons i iss)
  obtain cy1 l1 q1 where one: "take_issue cf w i (cy, l, q) = (cy1, l1, q1)" by (cases "take_issue cf w i (cy, l, q)") auto
  show ?case
  proof (cases "wf_max_claims cf \<le> length (cy_enqueued cy)")
    case True
    with Cons.prems show ?thesis by (simp add: step_counts_refl)
  next
    case False
    with Cons.prems one have "take_issues cf w iss (cy1, l1, q1) = (cy', l', q')" by simp
    then show ?thesis using Cons.IH take_issue_counts [OF one] step_counts_trans by blast
  qed
qed (simp add: step_counts_refl)

lemma run_cycle_counts:
  assumes "run_cycle cf w (l, q) = (cy, l', q')"
  shows "step_counts (wf_repo cf) (max 1 (wf_max_attempts cf)) ([], l) (back_in cy, l')"
  using assms
proof (cases rule: run_cycle_cases)
  case Unread
  then show ?thesis by (simp add: back_in_def step_counts_refl)
next
  case (Taken found resumed recovered l1 start)
  have "step_counts (wf_repo cf) (max 1 (wf_max_attempts cf)) ([], l) (back_in start, l1)"
    using Taken(2,5,6) reconcile_rows_count [of "ww_now w" "wf_repo cf" _ _ "[]" "[]" l resumed recovered l1]
    by (auto simp: reconcile_claims_def back_in_def step_counts_refl split: option.splits)
  then show ?thesis using take_issues_count [OF Taken(3)] by (rule step_counts_trans)
qed

definition handed_back :: "(cycle \<times> real) list \<Rightarrow> int list" where
  "handed_back cs = concat (map (\<lambda>c. back_in (fst c)) cs)"

lemma watch_loop_counts:
  "watch_loop cf interval k ws (l, q) = (cs, l', q')
    \<Longrightarrow> step_counts (wf_repo cf) (max 1 (wf_max_attempts cf)) ([], l) (handed_back cs, l')"
proof (induction ws arbitrary: k l q cs)
  case (Cons w ws)
  obtain cy l1 q1 where one: "run_cycle cf w (l, ww_meanwhile w q) = (cy, l1, q1)"
    by (cases "run_cycle cf w (l, ww_meanwhile w q)") auto
  obtain k1 later d where later: "watch_loop cf interval k1 ws (l1, q1) = (later, l', q')" and cs: "cs = (cy, d) # later"
    using Cons.prems one by (auto split: prod.splits)
  from run_cycle_counts [OF one] Cons.IH [OF later] cs show ?case
    by (simp add: step_counts_def handed_back_def algebra_simps)
qed (simp add: handed_back_def step_counts_refl)

text \<open>
  Claim C36: a watcher that starts on an empty ledger and alone writes it gives an issue back at most as often as its
  budget of attempts says, by its own failures and by the recovery of its claims together; with a budget below one
  it still tries a new issue once.
\<close>

theorem failures_are_bounded:
  "int (count_list (handed_back (fst (watch_loop cf interval k ws ([], q)))) n) \<le> max 1 (wf_max_attempts cf)"
proof -
  obtain cs l' q' where run: "watch_loop cf interval k ws ([], q) = (cs, l', q')" by (metis surj_pair)
  have "budgeted (wf_repo cf) (max 1 (wf_max_attempts cf)) []" by (simp add: budgeted_def one_row_each_def claim_row_of_def)
  with watch_loop_counts [OF run]
  have b: "budgeted (wf_repo cf) (max 1 (wf_max_attempts cf)) l'" and c: "tries (wf_repo cf) l' n = int (count_list (handed_back cs) n)"
    by (auto simp: step_counts_def tries_def claim_row_of_def)
  have "tries (wf_repo cf) l' n \<le> max 1 (wf_max_attempts cf)"
    using b by (cases "claim_row_of l' (wf_repo cf) n") (auto simp: tries_def budgeted_def within_budget_def)
  with c run show ?thesis by simp
qed

section \<open>Eligible issues only\<close>

lemma take_issues_sent:
  "take_issues cf w iss (cy, l, q) = (cy', l', q') \<Longrightarrow> n \<in> set (cy_enqueued cy')
    \<Longrightarrow> n \<in> set (cy_enqueued cy) \<or> (\<exists>i\<in>set iss. is_number i = n \<and> ww_open_pr w n = Some False \<and> ww_add w n)"
proof (induction iss arbitrary: cy l q)
  case (Cons i iss)
  obtain cy1 l1 q1 where one: "take_issue cf w i (cy, l, q) = (cy1, l1, q1)" by (cases "take_issue cf w i (cy, l, q)") auto
  show ?case
  proof (cases "wf_max_claims cf \<le> length (cy_enqueued cy)")
    case True
    with Cons.prems show ?thesis by simp
  next
    case False
    with Cons.prems(1) one have "take_issues cf w iss (cy1, l1, q1) = (cy', l', q')" by simp
    from Cons.IH [OF this Cons.prems(2)] show ?thesis
    proof
      assume "n \<in> set (cy_enqueued cy1)"
      with one show ?thesis by (cases rule: take_issue_cases [consumes 1]) auto
    qed auto
  qed
qed simp

lemma take_issues_length:
  "take_issues cf w iss (cy, l, q) = (cy', l', q') \<Longrightarrow> length (cy_enqueued cy) \<le> b \<Longrightarrow> wf_max_claims cf \<le> b
    \<Longrightarrow> length (cy_enqueued cy') \<le> b"
proof (induction iss arbitrary: cy l q)
  case (Cons i iss)
  obtain cy1 l1 q1 where one: "take_issue cf w i (cy, l, q) = (cy1, l1, q1)" by (cases "take_issue cf w i (cy, l, q)") auto
  show ?case
  proof (cases "wf_max_claims cf \<le> length (cy_enqueued cy)")
    case True
    with Cons.prems show ?thesis by simp
  next
    case False
    with one have "length (cy_enqueued cy1) \<le> wf_max_claims cf" by (cases rule: take_issue_cases [consumes 1]) auto
    with False Cons one show ?thesis by simp
  qed
qed simp

lemma relabelled:
  assumes "i \<in> set (snd (reconcile_labels takes_off repo l found))"
  shows "\<exists>j\<in>set found. is_number i = is_number j \<and> is_unknown i = is_unknown j \<and> is_parents i = is_parents j
    \<and> is_open_parents i = is_open_parents j \<and> (\<forall>s. s \<noteq> claim_label \<longrightarrow> (s \<in> set (is_labels i) \<longleftrightarrow> s \<in> set (is_labels j)))"
  using assms by (fastforce simp: reconcile_labels_def Let_def without_claim_def split: if_splits)

lemma relabelled_back:
  assumes "j \<in> set found"
  shows "\<exists>i\<in>set (snd (reconcile_labels takes_off repo l found)). is_number i = is_number j
    \<and> (\<forall>s. s \<noteq> claim_label \<longrightarrow> (s \<in> set (is_labels i) \<longleftrightarrow> s \<in> set (is_labels j)))"
proof -
  let ?g = "\<lambda>i. if clearable takes_off (claim_states repo l) i then without_claim i else i"
  have "?g j \<in> set (snd (reconcile_labels takes_off repo l found))"
    using assms by (simp add: reconcile_labels_def Let_def)
  then show ?thesis by (rule bexI [rotated]) (simp add: without_claim_def)
qed

lemma labels_differ [simp]: "done_label \<noteq> claim_label" "hold_label \<noteq> claim_label"
  by (simp_all add: done_label_def claim_label_def hold_label_def)

definition open_in :: "issue list \<Rightarrow> int \<Rightarrow> bool" where
  "open_in found p \<longleftrightarrow> list_ex (\<lambda>j. is_number j = p \<and> done_label \<notin> set (is_labels j)) found"

definition eligible :: "issue list \<Rightarrow> issue \<Rightarrow> bool" where
  "eligible found i \<longleftrightarrow>
     \<not> is_unknown i \<and> done_label \<notin> set (is_labels i) \<and> hold_label \<notin> set (is_labels i)
     \<and> list_all (\<lambda>p. p = is_number i \<or> p \<notin> set (is_open_parents i) \<and> \<not> open_in found p) (is_parents i)"

lemma candidate_eligible:
  assumes "i \<in> set (candidates cf w (snd (reconcile_labels takes_off repo l found)) l1 q)"
  shows "\<exists>j\<in>set found. is_number j = is_number i \<and> eligible found j"
    and "is_number i \<notin> active_issue_numbers (wf_repo cf) (visible_queue w q)"
proof -
  let ?iss = "snd (reconcile_labels takes_off repo l found)"
  have i: "i \<in> set ?iss" "selectable (held_numbers (wf_repo cf) (wf_max_attempts cf) l1) (active_issue_numbers (wf_repo cf) (visible_queue w q)) i"
    "\<not> is_unknown i" "\<not> list_ex (blocking (is_number ` set (filter (\<lambda>i. done_label \<notin> set (is_labels i)) ?iss)) i) (is_parents i)"
    using assms by (auto simp: candidates_def select_candidates_def unblocked_def Let_def)
  then show "is_number i \<notin> active_issue_numbers (wf_repo cf) (visible_queue w q)" by (simp add: selectable_def)
  obtain j where j: "j \<in> set found" "is_number i = is_number j" "is_unknown i = is_unknown j" "is_parents i = is_parents j"
      "is_open_parents i = is_open_parents j"
    and labels: "\<And>s. s \<noteq> claim_label \<Longrightarrow> s \<in> set (is_labels i) \<longleftrightarrow> s \<in> set (is_labels j)"
    using relabelled [OF i(1)] by auto
  have "\<not> open_in found p" if "p \<in> set (is_parents j)" "p \<noteq> is_number j" for p
  proof
    assume "open_in found p"
    then obtain k where "k \<in> set found" "is_number k = p" "done_label \<notin> set (is_labels k)" by (auto simp: open_in_def list_ex_iff)
    with relabelled_back [of k found takes_off repo l] labels_differ(1)
    obtain k1 where "k1 \<in> set ?iss" "is_number k1 = p" "done_label \<notin> set (is_labels k1)" by metis
    with i(4) that j(2,4) show False by (auto simp: list_ex_iff blocking_def)
  qed
  moreover have "p \<notin> set (is_open_parents j)" if "p \<in> set (is_parents j)" "p \<noteq> is_number j" for p
    using i(4) that j(2,4,5) by (auto simp: list_ex_iff blocking_def)
  ultimately have "eligible found j"
    using i(2,3) j(3) labels [of done_label] labels [of hold_label] by (auto simp: eligible_def list_all_iff selectable_def)
  with j show "\<exists>j\<in>set found. is_number j = is_number i \<and> eligible found j" by auto
qed


text \<open>A watcher and an issue it takes.\<close>

definition sample_watch :: watch_config where
  "sample_watch =
     \<lparr>wf_repo = ''o/r'', wf_branch = ''main'', wf_owner = ''w'', wf_project = ''crew'', wf_max_claims = 1, wf_max_attempts = 3,
      wf_reconcile_after = 300, wf_rules = priority_rules, wf_env = (\<lambda>k. None)\<rparr>"

definition sample_world :: watch_world where
  "sample_world =
     \<lparr>ww_now = 5000,
      ww_issues = Some [JObj [(''number'', JInt 7), (''title'', JStr ''t''), (''labels'', JArr [JObj [(''name'', JStr ''risk-tier:1'')]])]],
      ww_open_pr = (\<lambda>n. Some False), ww_add = (\<lambda>n. True), ww_remove = (\<lambda>n. True), ww_readable = True, ww_fresh = (\<lambda>n. ''1''),
      ww_cascade = sample_cascade, ww_message = (\<lambda>e. []), ww_meanwhile = (\<lambda>q. q)\<rparr>"

definition sample_issue :: issue where
  "sample_issue =
     \<lparr>is_number = 7, is_title = ''t'', is_labels = [''risk-tier:1''], is_body = [], is_parents = [], is_open_parents = [],
      is_phase = None, is_unknown = False, is_url = []\<rparr>"

definition sample_cycle :: cycle where
  "sample_cycle = empty_cycle\<lparr>cy_enqueued := [7]\<rparr>"

lemma sample_watch_simps [simp]:
  "wf_repo sample_watch = ''o/r''" "wf_max_claims sample_watch = 1" "wf_max_attempts sample_watch = 3" "wf_env sample_watch = (\<lambda>k. None)"
  "wf_owner sample_watch = ''w''" "wf_reconcile_after sample_watch = 300"
  by (simp_all add: sample_watch_def)

lemma sample_world_simps [simp]:
  "ww_now sample_world = 5000" "ww_open_pr sample_world n = Some False" "ww_add sample_world n" "ww_readable sample_world"
  "ww_fresh sample_world n = ''1''" "ww_cascade sample_world = sample_cascade"
  by (simp_all add: sample_world_def)

lemma sample_issue_simps [simp]:
  "is_number sample_issue = 7" "\<not> is_unknown sample_issue" "is_labels sample_issue = [''risk-tier:1'']"
  by (simp_all add: sample_issue_def)

lemma sample_listing: "Option.bind (ww_issues sample_world) parse_issues = Some [sample_issue]"
  by code_simp

lemma sample_tier: "risk_tier_for_issue (\<lambda>k. None) sample_issue = Some 1"
  by code_simp

lemma sample_candidates: "candidates sample_watch sample_world [sample_issue] [] (sample_queue []) = [sample_issue]"
  by (simp add: candidates_def select_candidates_def selectable_def unblocked_def active_issue_numbers_def visible_queue_def held_numbers_def
      sample_issue_def sample_queue_def done_label_def claim_label_def hold_label_def)

lemma sample_task_built:
  "case build_task sample_watch ''1'' sample_issue of None \<Rightarrow> False
   | Some rq \<Rightarrow> rq_id rq = ''impl-watch-1'' \<and> rq_type rq = ''implement'' \<and> valid_request rq
       \<and> tc_external_operation_id (rq_context rq) = None \<and> ctx_key (rq_context rq) ''risk_tier'' = JInt 1"
  by code_simp

lemma sample_hand_over: "\<exists>q. hand_over sample_watch sample_world sample_issue (sample_queue []) = (Inr ''impl-watch-1'', q)"
proof -
  obtain rq where rq: "build_task sample_watch ''1'' sample_issue = Some rq" "rq_id rq = ''impl-watch-1''" "rq_type rq = ''implement''"
      "valid_request rq" "tc_external_operation_id (rq_context rq) = None" "ctx_key (rq_context rq) ''risk_tier'' = JInt 1"
    using sample_task_built by (auto split: option.splits)
  have "\<exists>q. enqueue_successor sample_cascade rq (sample_queue []) = (Inr (rq_id rq), q)"
    by (rule sample_successor) (use rq in \<open>simp_all add: sample_queue_def task_of_def\<close>)
  with rq show ?thesis by (auto simp: hand_over_def)
qed

lemma sample_run: "\<exists>l q. run_cycle sample_watch sample_world ([], sample_queue []) = (sample_cycle, l, q)"
proof -
  obtain q where "hand_over sample_watch sample_world sample_issue (sample_queue []) = (Inr ''impl-watch-1'', q)"
    using sample_hand_over by blast
  then show ?thesis
    by (simp add: run_cycle_def sample_listing reconcile_claims_def visible_queue_def list_claims_def stale_claims_def reconcile_labels_def
        clearable_def claim_states_def sample_candidates take_issue_def claimed_issue_def sample_tier try_claim_def claim_row_of_def
        sample_cycle_def empty_cycle_def Let_def)
qed


section \<open>Recovery\<close>

definition settled :: "time \<Rightarrow> string option \<Rightarrow> claim_row \<Rightarrow> claim_row" where
  "settled now known r =
     (case known of
        Some tid \<Rightarrow> r\<lparr>wc_task_id := tid, wc_state := Enqueued_Issue, wc_updated_at := now\<rparr>
      | None \<Rightarrow> (returned ''reconciled: interrupted before enqueue'' r)\<lparr>wc_updated_at := now\<rparr>)"

lemma finish_row:
  "claim_row_of (snd (finish_claim now repo n tid l)) repo m
    = map_option (\<lambda>r. if m = n \<and> wc_state r = Claimed_Issue then settled now (Some tid) r else r) (claim_row_of l repo m)"
  by (cases "claim_row_of l repo m") (auto simp: finish_claim_def ledger_simps claim_key_def fits_def settled_def)

lemma stale_row:
  "claim_row_of (snd (release_stale now repo n ''reconciled: interrupted before enqueue'' l)) repo m
    = map_option (\<lambda>r. if m = n \<and> wc_state r = Claimed_Issue then settled now None r else r) (claim_row_of l repo m)"
  by (cases "claim_row_of l repo m") (auto simp: release_stale_def ledger_simps fits_def settled_def)

lemma settled_state [simp]: "wc_state (settled now known r) \<noteq> Claimed_Issue"
  by (simp add: settled_def returned_def split: option.split)

text \<open>One row of the recovery, on every row of the table.\<close>

lemma reconcile_rows_step:
  assumes "reconcile_rows now repo known (r # rs) (acc, l) = (acc', l')"
  obtains acc1 l1 where "reconcile_rows now repo known rs (acc1, l1) = (acc', l')"
    "\<And>m. claim_row_of l1 repo m = map_option (\<lambda>c. if m = wc_number r \<and> wc_state c = Claimed_Issue then settled now (known m) c else c)
       (claim_row_of l repo m)"
proof -
  obtain a b where acc: "acc = (a, b)" by fastforce
  show thesis
  proof (cases "known (wc_number r)")
    case None
    obtain ok l1 where one: "release_stale now repo (wc_number r) ''reconciled: interrupted before enqueue'' l = (ok, l1)" by fastforce
    with assms None acc have "reconcile_rows now repo known rs ((a, if ok then b @ [wc_number r] else b), l1) = (acc', l')"
      by (simp add: Let_def)
    moreover have "claim_row_of l1 repo m = map_option (\<lambda>c. if m = wc_number r \<and> wc_state c = Claimed_Issue then settled now (known m) c else c)
       (claim_row_of l repo m)" for m
      using stale_row [of now repo "wc_number r" l m] one None by (cases "claim_row_of l repo m") auto
    ultimately show thesis by (rule that)
  next
    case (Some tid)
    obtain ok l1 where one: "finish_claim now repo (wc_number r) tid l = (ok, l1)" by fastforce
    with assms Some acc have "reconcile_rows now repo known rs ((if ok then a @ [wc_number r] else a, b), l1) = (acc', l')"
      by (simp add: Let_def)
    moreover have "claim_row_of l1 repo m = map_option (\<lambda>c. if m = wc_number r \<and> wc_state c = Claimed_Issue then settled now (known m) c else c)
       (claim_row_of l repo m)" for m
      using finish_row [of now repo "wc_number r" tid l m] one Some by (cases "claim_row_of l repo m") auto
    ultimately show thesis by (rule that)
  qed
qed

lemma reconcile_rows_row:
  "reconcile_rows now repo known rs (acc, l) = (acc', l') \<Longrightarrow> claim_row_of l repo n = Some r
    \<Longrightarrow> claim_row_of l' repo n
      = Some (if wc_state r = Claimed_Issue \<and> n \<in> wc_number ` set rs then settled now (known n) r else r)"
proof (induction rs arbitrary: acc l r)
  case (Cons c rs)
  show ?case
  proof (rule reconcile_rows_step [OF Cons.prems(1)])
    fix acc1 l1
    assume later: "reconcile_rows now repo known rs (acc1, l1) = (acc', l')"
      and rows: "\<And>m. claim_row_of l1 repo m
        = map_option (\<lambda>d. if m = wc_number c \<and> wc_state d = Claimed_Issue then settled now (known m) d else d) (claim_row_of l repo m)"
    have "claim_row_of l1 repo n = Some (if n = wc_number c \<and> wc_state r = Claimed_Issue then settled now (known n) r else r)"
      using Cons.prems(2) by (simp add: rows)
    from Cons.IH [OF later this] show ?thesis by auto
  qed
qed simp

lemma orphan_row:
  assumes "claim_row_of l repo n = Some r" and "wc_state r = Claimed_Issue" and "stale_after \<le> now - wc_updated_at r" and "repo \<noteq> []"
    and "reconcile_claims now stale_after repo (Some q) l = (acc, l')"
  shows "claim_row_of l' repo n = Some (settled now (tasks_by_issue repo q n) r)"
proof -
  have "r \<in> set l" "wc_repo r = repo" "wc_number r = n"
    using assms(1) by (auto simp: claim_row_of_def claim_key_def dest!: row_of_SomeD)
  then have "n \<in> wc_number ` set (stale_claims now stale_after (list_claims repo l))"
    using assms(2-4) by (force simp: stale_claims_def list_claims_def)
  with reconcile_rows_row [OF _ assms(1)] assms(2,5) show ?thesis by (simp add: reconcile_claims_def)
qed

text \<open>
  No claim of a watcher that died is kept: the next cycle of any watcher that can read the queue turns it
  into the claim of the issue's task, or gives the issue back with one attempt spent.
\<close>

lemma orphan_is_settled:
  assumes "claim_row_of l repo n = Some r" and "wc_state r = Claimed_Issue" and "stale_after \<le> now - wc_updated_at r" and "repo \<noteq> []"
  shows "\<exists>r'. claim_row_of (snd (reconcile_claims now stale_after repo (Some q) l)) repo n = Some r'
    \<and> (case tasks_by_issue repo q n of
         Some tid \<Rightarrow> wc_state r' = Enqueued_Issue \<and> wc_task_id r' = tid
       | None \<Rightarrow> wc_state r' = Released_Issue \<and> wc_attempts r' = wc_attempts r + 1)"
  using orphan_row [OF assms, of q] by (cases "reconcile_claims now stale_after repo (Some q) l")
    (auto simp: settled_def returned_def split: option.split)

text \<open>
  An issue an operator hands back by force is lost again when its next watcher dies before the task: the
  recovery takes the issue's old task, finished or not, for the new one, and the issue stays held. No task was
  made since the release.
\<close>

lemma forced_release_is_undone:
  assumes "claim_row_of l repo n = Some r" and "tasks_by_issue repo q n = Some old" and "0 < m" and "repo \<noteq> []" and "stale_after \<le> t2 - t1"
  shows "case try_claim t1 repo n owner m (snd (force_release t0 repo n reason l)) of (won, l2) \<Rightarrow>
    won \<and> n \<in> held_numbers repo m (snd (reconcile_claims t2 stale_after repo (Some q) l2))
    \<and> map_option wc_task_id (claim_row_of (snd (reconcile_claims t2 stale_after repo (Some q) l2)) repo n) = Some old"
proof -
  let ?l1 = "snd (force_release t0 repo n reason l)"
  obtain r1 where r1: "claim_row_of ?l1 repo n = Some r1" "wc_state r1 = Released_Issue" "wc_attempts r1 = 0"
    using assms(1) by (auto simp: force_release_def ledger_simps claim_key_def fits_def)
  obtain l2 where won: "try_claim t1 repo n owner m ?l1 = (True, l2)"
    and l2: "l2 = change_claim repo n (\<lambda>r. r\<lparr>wc_state := Claimed_Issue, wc_owner := owner, wc_updated_at := t1\<rparr>) ?l1"
    using r1 assms(3) by (simp add: try_claim_def)
  obtain acc l3 where rec: "reconcile_claims t2 stale_after repo (Some q) l2 = (acc, l3)" by fastforce
  have "claim_row_of l2 repo n = Some (r1\<lparr>wc_state := Claimed_Issue, wc_owner := owner, wc_updated_at := t1\<rparr>)"
    using r1(1) by (simp add: l2 ledger_simps)
  from orphan_row [OF this _ _ assms(4) rec] assms(2,5)
  obtain r3 where r3: "claim_row_of l3 repo n = Some r3" "wc_state r3 = Enqueued_Issue" "wc_task_id r3 = old"
    by (auto simp: settled_def)
  then have "r3 \<in> set l3" "wc_repo r3 = repo" "wc_number r3 = n"
    by (auto simp: claim_row_of_def claim_key_def dest!: row_of_SomeD)
  with r3(2) have "n \<in> held_numbers repo m l3" by (force simp: held_numbers_def held_states_def)
  with won rec r3 show ?thesis by simp
qed

end
