(* ===== verification/Spec2Isabelle.thy ===== *)
theory Spec2Isabelle
  imports Admission Callsites Pause Switch_Safety Roles Cascade Enqueue_Safety Intent_Safety
    Merge_Safety Intake_Safety Round_Safety Inputs_Safety Broker_Safety Watch_Safety
begin

text \<open>
  agent_crew runs coding agents from one task queue. A task is admitted when an authorization engine
  issues a receipt for its intent; the receipt is checked again when the task is enqueued, claimed,
  dispatched, started and answered; the answer fills an outbox from which the next task of the
  implement, review, fix and test round follows. This development models the authorization (under
  \<open>src/agent_crew/cea/\<close>) and the queue around it (\<open>src/agent_crew/queue.py\<close> and what it decides with).

  \<^bold>\<open>Authorization.\<close>
  \<^item> \<open>Json\<close> (\<open>cea/schema.py\<close>), \<open>Timestamps\<close>, \<open>Intent\<close> (\<open>cea/intent.py\<close>): canonical text, times, and the
    identity of an intent with its canonical anchors. A hash is a parameter of the engine.
  \<^item> \<open>Receipt\<close> (\<open>cea/receipt.py\<close>, \<open>providers.py\<close>, \<open>runtime_state.py\<close>): the receipt and its contract.
  \<^item> \<open>Validator\<close> (\<open>cea/validator.py\<close>): \<open>validate\<close> as the first answer of a list of checks, one
    definition per check. What passes is characterised check by check.
  \<^item> \<open>Store\<close> (\<open>cea/store.py\<close>): receipt rows, dispatch nonces and lineages as lists of records, each
    writer a function to an error or the new store, the writers together a step relation. Rows are
    append-only, terminal receipts final, nonces spent once.
  \<^item> \<open>Engine\<close>, \<open>Admission\<close> (\<open>cea/engine.py\<close>): modes, executor binding, review floor, decision, the lineage of
    a seen intent, refusals and admissions; every authorize call ends in one recorded receipt, and the
    store an engine reaches keeps its order.
  \<^item> \<open>Callsites\<close> (\<open>cea/callsites.py\<close>): the five gates and the re-admission gate.

  \<^bold>\<open>Inputs and boundary of the authority.\<close> \<open>Values\<close> reads JSON as the program does.
  \<^item> \<open>Inputs\<close> (\<open>cea/input_providers/snapshot.py\<close>): the signed policy snapshot, its verifiers and its high-water
    mark, the file each reading leaves.
  \<^item> \<open>Providers\<close> (the other input providers, \<open>cea/memory.py\<close>): the client with its cached answer, capability
    ownership, incident memory and the two wrappers that bring it to the engine, the runtime row, budgets.
  \<^item> \<open>Wiring\<close> (\<open>cea/wiring.py\<close>): which of these a runtime builds from its environment, and the loosening
    authority it installs.
  \<^item> \<open>Callers\<close> (\<open>cea/auth.py\<close>, \<open>cea/service.py\<close>): token tables, authenticators, requests as JSON, the service
    in front of the engine and the clients, with the fallback of the broker's client.
  \<^item> \<open>Broker\<close> (\<open>cea/broker.py\<close>): registrations, conflicts and attestations as one function per request; the walk
    over the parents of a process ends because every process is seen once.
  \<^item> \<open>Inputs_Safety\<close>, \<open>Broker_Safety\<close>: the mark only rises, loosening rests on a signed record, memory only
    tightens; requests read back, an enforcing runtime never grants for itself, one claim per attempt (the
    locale \<open>kept_view\<close> again), attestations are evidence.

  \<^bold>\<open>Switch.\<close> \<open>Pause\<close> (\<open>pause.py\<close>), \<open>Runtime_Switch\<close> and \<open>Switch_Safety\<close> (the runtime stop of \<open>queue.py\<close>): the
  pause files, the row with its epoch, every transition, the boot reconciliation; a looser state always
  has an authority or a new epoch behind it.

  \<^bold>\<open>Queue.\<close> The state is the record \<open>queue\<close>: task rows, event log, store, switch, spent grants, outbox,
  work intents. Each method of \<open>TaskQueue\<close> is a function from the queue to its answer and the next queue;
  a rollback gives back the queue before; what the method reads from outside (clock, pause files, a
  fresh nonce, the configuration) is an argument.
  \<^item> \<open>Roles\<close> (\<open>role_mapping.py\<close>): provider families and the role map of a project.
  \<^item> \<open>Tasks\<close>: rows, the signed grant (\<open>cea/signed_receipt.py\<close>), the claim gate, \<open>dequeue\<close>.
  \<^item> \<open>Task_Ops\<close>: requeues, deferrals, dispatch, execution start, cancel, expiry, forced failure.
  \<^item> \<open>Results\<close> (with \<open>protocol.py\<close>): \<open>submit_result\<close>.
  \<^item> \<open>Work_Intents\<close>: external operations, their binding, closing, decisions and the watchdog step.
  \<^item> \<open>Cascade\<close> (\<open>risk_tier.py\<close>, \<open>cea/cascade_contract.py\<close>): declared risk and the contract admission decides.
  \<^item> \<open>Enqueue\<close>: the duplicate review, the adoption of a suppressed review's lineage, the one writer of
    task rows, the pinning of a claimed review.
  \<^item> \<open>Effects\<close>: the leases on owed continuations, the receipts of GitHub mutations, the claims to post a
    notice on a pull request, the bounded notices to the coordinator.
  \<^item> \<open>Merge\<close> (\<open>_auto_merge_pr\<close> and \<open>replay_suppressed\<close> of \<open>server.py\<close>, with \<open>github.py\<close> and
    \<open>conformance_gate.py\<close>): admission of a merge, its evidence in the order it is asked for, its end; and
    what becomes of an owed continuation. GitHub's answers are a record, one field per call.
  \<^item> \<open>Artifacts\<close> (\<open>pipeline.py\<close>): what a completed task must show, a commit, a rebase, a report or a review,
    over a record of git's answers.
  \<^item> \<open>Intake\<close> (\<open>server.py\<close>, \<open>mcp_server.py\<close>, \<open>loop.py\<close>): the HTTP and the MCP door of a result: the artifact
    gate, the hold of a result about another pull request, the withdrawal of a fallback, the answer.

  \<^bold>\<open>The round.\<close> What follows a stored result. A stage is a function from the queue (and, where tier three
  may stop it, the list of gates) to an \<open>outcome\<close>, the successor it enqueued, none, or the exception it
  leaves by, and the next queue. GitHub, git, the panes and the environment are the record \<open>cascade_env\<close>.
  \<^item> \<open>Pipeline_Guards\<close> (\<open>pipeline.py\<close>, \<open>failure_kind.py\<close>, \<open>protocol.py\<close>): what every stage asks first: is the
    pull request open, is the review about its head, is a round left, which branch is a default branch,
    what a successor inherits from its lineage, which requests \<open>TaskRequest\<close> rejects.
  \<^item> \<open>Pipeline\<close>: the gates of tier three (\<open>create_gate\<close>, \<open>resolve_gate\<close>) and the fix after a request for changes.
  \<^item> \<open>Stages\<close>: review after work, with the retry of work that named no pull request, the review sent again
    at a moved head, the test after an approval, and the resumption of a gate.
  \<^item> \<open>Continuation\<close> (\<open>server.py\<close>): the retry of a failed task, the rebase of a conflicting head.
  \<^item> \<open>Rounds\<close> (\<open>submit_result\<close> of \<open>server.py\<close>, \<open>_cascade_stage\<close> of \<open>mcp_server.py\<close>): the stages in the order
    the two doors run them behind \<open>Intake\<close>, and the route that answers a gate.
  \<^item> \<open>Pipeline_Rows\<close>: the row a stage adds is the one its request describes (\<open>follows_request\<close>), whatever
    admission adds. \<open>Pipeline_Safety\<close>: when a fix is created. \<open>Stage_Safety\<close>: retries, replays and gates.
    \<open>Round_Safety\<close>: the review of a moved head, the resumed review, the difference between the doors.

  \<^bold>\<open>The watcher.\<close> It turns GitHub's issues into tasks of the queue (\<open>crew watch\<close>).
  \<^item> \<open>Issues\<close> (\<open>triage.py\<close>, the filters of \<open>watch.py\<close>, \<open>context_pack.py\<close>): the listing with its declared links,
    the orders and filters over it, the cap on a stored body that carries the acceptance criteria along.
  \<^item> \<open>Watch\<close> (\<open>watch.py\<close>): the ledger of claims, the recovery of claims and labels, \<open>run_cycle\<close> and the loop over
    cycles. \<open>Watch_Safety\<close>: the ledger is one more \<open>exclusive_slot\<close>; one task per issue, bounded failures, only
    eligible issues, and what the recovery does to an orphaned claim. One watcher writes the ledger.

  \<^bold>\<open>Frames.\<close>
  \<^item> \<open>Task_Safety\<close>, \<open>Effect_Safety\<close>: every operation only moves the queue forward (\<open>evolves\<close>, \<open>extends\<close>): rows keep their
    identity and receipt, a closed status is not reopened except by a revision of the result, the log and
    the spent grants grow, the store moves by its own steps. \<open>Queue_Run\<close> joins the operations of all
    processes in one step relation and interprets the locale \<open>kept_view\<close> of \<open>Prelude\<close> for tasks, intents,
    outbox, events, grants, receipts of mutations and posted notices; the two leases interpret
    \<open>fenced_lease\<close>. \<open>Queue_Safety\<close>, \<open>Enqueue_Safety\<close>, \<open>Intent_Safety\<close> and \<open>Merge_Safety\<close> draw the
    properties. \<open>Artifact_Safety\<close> states the two commit contracts as one locale, \<open>work_contract\<close>;
    \<open>Intake_Safety\<close> shows both doors to be runs and what a stored completion has proved. A run leaves
    out \<open>mark_needs_human\<close>, which parks a task of any status, and so the stages and endings that use it.

  \<^bold>\<open>Conventions.\<close> Times are reals, Python integers \<open>int\<close>, strings lists of ASCII characters, a JSON
  value the datatype of \<open>Json\<close>. A task context is a record of the keys the queue reads most and a list of
  the others. An exception is a value. The bounds are the source's: sixteen parents of a lineage
  (\<open>lineage_max_depth\<close>), the refusals a pane may answer, the attempts of a receipt. No fuel is used:
  the walks over task rows end because each step leaves fewer unseen rows.

  \<^bold>\<open>Not modelled.\<close> SQLite itself: a transaction is atomic and a write succeeds. Attribution, telemetry
  and the token economics, which the queue writes beside its decisions, among them the risk declaration
  and the shadow receipt written after an enqueue has committed, are left out; so are the readers that only
  show a row and checkpoints. Of the pipeline the canary of the token economics, the citation on a fix, the
  shadow receipts, the notices of a lineage's end and the comment of a recovery are left out; the fallback
  to another agent always declines in the source and is a constant. Of the HTTP server the intake, the
  round, the merge, the replay and the answer to a gate are modelled; its other routes, the push to a pane,
  the command line, tmux, GitHub itself, the cloud worker, the sockets of the broker, prompt texts, memory and, but for the
  cap on an issue body, context packs are input and output around the queue. Of the watcher the peers that write the
  same ledger between its steps are left out, of the triage its prompt, the agent's answer and the gate.
  Ed25519 and SHA-256 are parameters of the model.
\<close>

end
